(* ===== verification/Prelude.thy ===== *)
theory Prelude
  imports Main "HOL-Library.Word"
begin

text \<open>
  Shared vocabulary of the development: bytes and machine integers at their Go width, Go
  strings and their byte slices, errors as values, the byte reader and writer the wire
  formats are written against, and the big-endian integers of \<open>encoding/binary\<close>.
  The lemma collections declared here (\<open>go_simps\<close> for the evaluation of the
  fallible primitives, \<open>codec_simps\<close> for the round trips of encoders) carry the
  proofs of the component theories.
\<close>

named_theorems go_simps
named_theorems codec_simps

section \<open>Types\<close>

type_synonym byte = "8 word"
type_synonym bytes = "8 word list"
type_synonym u16 = "16 word"
type_synonym u32 = "32 word"
type_synonym u64 = "64 word"

text \<open>
  Durations and points in time are \<open>int\<close> nanoseconds; the zero time of Go
  (\<open>time.Time{}\<close>) is 0, and every reading of the clock is an argument of the
  operation that takes it.
\<close>

type_synonym time = int
type_synonym duration = int

definition nanosecond :: duration where "nanosecond = 1"
definition millisecond :: duration where "millisecond = 1000000"
definition second :: duration where "second = 1000000000"
definition minute :: duration where "minute = 60000000000"

lemmas duration_defs = nanosecond_def millisecond_def second_def minute_def

section \<open>Errors\<close>

text \<open>
  A Go function that returns \<open>(T, error)\<close> returns a sum: \<open>Inl\<close> the error or
  \<open>Inr\<close> the value. \<open>Panic\<close> stands for a run-time panic (an index or slice out of
  range), so that the absence of panics is something to prove.
\<close>

datatype go_error = EOF | UnexpectedEOF | Panic | Errorf string

type_synonym 'a result = "go_error + 'a"

definition res_bind :: "'a result \<Rightarrow> ('a \<Rightarrow> 'b result) \<Rightarrow> 'b result" where
  "res_bind r f = (case r of Inl e \<Rightarrow> Inl e | Inr x \<Rightarrow> f x)"

lemma res_bind_simps [simp, go_simps]:
  "res_bind (Inl e) f = Inl e"
  "res_bind (Inr x) f = f x"
  by (simp_all add: res_bind_def)

lemma res_bind_eq_Inr [go_simps]:
  "res_bind r f = Inr y \<longleftrightarrow> (\<exists>x. r = Inr x \<and> f x = Inr y)"
  by (cases r) auto

lemma res_bind_eq_Inl [go_simps]:
  "res_bind r f = Inl e \<longleftrightarrow> r = Inl e \<or> (\<exists>x. r = Inr x \<and> f x = Inl e)"
  by (cases r) auto

lemma res_bind_cong [fundef_cong]:
  "r = r' \<Longrightarrow> (\<And>x. r' = Inr x \<Longrightarrow> f x = g x) \<Longrightarrow> res_bind r f = res_bind r' g"
  by (cases r') (auto simp: res_bind_def)

definition of_option :: "go_error \<Rightarrow> 'a option \<Rightarrow> 'a result" where
  "of_option e x = (case x of None \<Rightarrow> Inl e | Some v \<Rightarrow> Inr v)"

lemma of_option_simps [simp, go_simps]:
  "of_option e None = Inl e"
  "of_option e (Some v) = Inr v"
  by (simp_all add: of_option_def)

lemma of_option_eq [go_simps]:
  "of_option e x = Inr v \<longleftrightarrow> x = Some v"
  "of_option e x = Inl e' \<longleftrightarrow> x = None \<and> e' = e"
  by (cases x; auto)+

section \<open>Strings and byte slices\<close>

text \<open>
  A Go string is a sequence of bytes; here it is a HOL \<open>string\<close>, whose characters are
  bytes too, and the conversions \<open>[]byte(s)\<close> and \<open>string(b)\<close> are inverse to each other.
\<close>

definition byte_of_char :: "char \<Rightarrow> byte" where
  "byte_of_char c = of_nat (of_char c)"

definition char_of_byte :: "byte \<Rightarrow> char" where
  "char_of_byte b = char_of (unat b)"

definition bytes_of_string :: "string \<Rightarrow> bytes" where
  "bytes_of_string s = map byte_of_char s"

definition string_of_bytes :: "bytes \<Rightarrow> string" where
  "string_of_bytes bs = map char_of_byte bs"

lemma of_char_lt_256: "(of_char c :: nat) < 256"
  using range_nat_of_char by (metis atLeastLessThan_iff rangeI)

lemma unat_byte_of_char [simp]: "unat (byte_of_char c) = of_char c"
  using of_char_lt_256 [of c] by (simp add: byte_of_char_def unat_of_nat)

lemma char_of_byte_of_char [simp]: "char_of_byte (byte_of_char c) = c"
  by (simp add: char_of_byte_def)

lemma byte_of_char_of_byte [simp]: "byte_of_char (char_of_byte b) = b"
proof -
  have "unat b < 256" using unsigned_less [of b] by simp
  then show ?thesis by (simp add: byte_of_char_def char_of_byte_def)
qed

lemma string_of_bytes_of_string [simp, codec_simps]: "string_of_bytes (bytes_of_string s) = s"
  by (simp add: string_of_bytes_def bytes_of_string_def comp_def)

lemma bytes_of_string_of_bytes [simp, codec_simps]: "bytes_of_string (string_of_bytes b) = b"
  by (simp add: string_of_bytes_def bytes_of_string_def comp_def)

lemma length_bytes_of_string [simp]: "length (bytes_of_string s) = length s"
  by (simp add: bytes_of_string_def)

lemma length_string_of_bytes [simp]: "length (string_of_bytes b) = length b"
  by (simp add: string_of_bytes_def)

lemma bytes_of_string_append [simp]:
  "bytes_of_string (s @ t) = bytes_of_string s @ bytes_of_string t"
  by (simp add: bytes_of_string_def)

lemma bytes_of_string_eq_iff [simp]: "bytes_of_string s = bytes_of_string t \<longleftrightarrow> s = t"
  by (metis string_of_bytes_of_string)

text \<open>The slice expression \<open>b[i:j]\<close>, which panics when the bounds are out of range.\<close>

definition go_slice :: "'a list \<Rightarrow> nat \<Rightarrow> nat \<Rightarrow> 'a list result" where
  "go_slice b i j = (if i \<le> j \<and> j \<le> length b then Inr (take (j - i) (drop i b)) else Inl Panic)"

lemma go_slice_Inr [go_simps]:
  "i \<le> j \<Longrightarrow> j \<le> length b \<Longrightarrow> go_slice b i j = Inr (take (j - i) (drop i b))"
  by (simp add: go_slice_def)

lemma go_slice_eq_Inr:
  "go_slice b i j = Inr x \<longleftrightarrow> i \<le> j \<and> j \<le> length b \<and> x = take (j - i) (drop i b)"
  by (auto simp: go_slice_def)

section \<open>Big-endian integers (\<open>encoding/binary\<close>)\<close>

primrec be_encode :: "nat \<Rightarrow> nat \<Rightarrow> bytes" where
  "be_encode 0 n = []"
| "be_encode (Suc k) n = be_encode k (n div 256) @ [of_nat n]"

definition be_decode :: "bytes \<Rightarrow> nat" where
  "be_decode bs = foldl (\<lambda>a b. a * 256 + unat b) 0 bs"

lemma length_be_encode [simp]: "length (be_encode k n) = k"
  by (induction k arbitrary: n) auto

lemma be_decode_snoc [simp]: "be_decode (bs @ [b]) = be_decode bs * 256 + unat b"
  by (simp add: be_decode_def)

lemma be_decode_Nil [simp]: "be_decode [] = 0"
  by (simp add: be_decode_def)

lemma be_decode_encode [codec_simps]: "be_decode (be_encode k n) = n mod 256 ^ k"
proof (induction k arbitrary: n)
  case 0
  then show ?case by simp
next
  case (Suc k)
  have "n mod 256 ^ Suc k = n mod 256 + 256 * ((n div 256) mod 256 ^ k)"
    by (simp add: mod_mult2_eq)
  then show ?case by (simp add: Suc.IH unat_of_nat mult.commute)
qed

lemma be_decode_less: "be_decode bs < 256 ^ length bs"
proof (induction bs rule: rev_induct)
  case Nil
  then show ?case by simp
next
  case (snoc b bs)
  have b: "unat b < 256" using unsigned_less [of b] by simp
  have "be_decode bs + 1 \<le> 256 ^ length bs" using snoc by simp
  then have "(be_decode bs + 1) * 256 \<le> 256 ^ length bs * 256" by (rule mult_le_mono1)
  with b show ?case by simp
qed

lemma be_encode_decode [codec_simps]: "be_encode (length bs) (be_decode bs) = bs"
proof (induction bs rule: rev_induct)
  case Nil
  then show ?case by simp
next
  case (snoc b bs)
  have b: "unat b < 256" using unsigned_less [of b] by simp
  have "unat (of_nat (be_decode bs * 256 + unat b) :: byte) = unat b"
    using b by (simp add: unat_of_nat del: of_nat_add of_nat_mult)
  then have lo: "(of_nat (be_decode bs * 256 + unat b) :: byte) = b"
    by (simp only: unsigned_word_eqI)
  have "(be_decode bs * 256 + unat b) div 256 = be_decode bs" using b by simp
  with snoc lo show ?case by simp
qed

definition putUint16 :: "u16 \<Rightarrow> bytes" where "putUint16 w = be_encode 2 (unat w)"
definition putUint32 :: "u32 \<Rightarrow> bytes" where "putUint32 w = be_encode 4 (unat w)"
definition putUint64 :: "u64 \<Rightarrow> bytes" where "putUint64 w = be_encode 8 (unat w)"
definition getUint16 :: "bytes \<Rightarrow> u16" where "getUint16 bs = of_nat (be_decode bs)"
definition getUint32 :: "bytes \<Rightarrow> u32" where "getUint32 bs = of_nat (be_decode bs)"
definition getUint64 :: "bytes \<Rightarrow> u64" where "getUint64 bs = of_nat (be_decode bs)"

lemma length_putUint [simp]:
  "length (putUint16 a) = 2" "length (putUint32 b) = 4" "length (putUint64 c) = 8"
  by (simp_all add: putUint16_def putUint32_def putUint64_def)

lemma get_putUint16 [simp, codec_simps]: "getUint16 (putUint16 w) = w"
  using unsigned_less [of w, where 'a = nat] by (simp add: getUint16_def putUint16_def be_decode_encode)

lemma get_putUint32 [simp, codec_simps]: "getUint32 (putUint32 w) = w"
  using unsigned_less [of w, where 'a = nat] by (simp add: getUint32_def putUint32_def be_decode_encode)

lemma get_putUint64 [simp, codec_simps]: "getUint64 (putUint64 w) = w"
  using unsigned_less [of w, where 'a = nat] by (simp add: getUint64_def putUint64_def be_decode_encode)

lemma put_getUint32: "length bs = 4 \<Longrightarrow> putUint32 (getUint32 bs) = bs"
  using be_decode_less [of bs] be_encode_decode [of bs]
  by (simp add: putUint32_def getUint32_def unat_of_nat)

lemma putUint64_inject [simp]: "putUint64 a = putUint64 b \<longleftrightarrow> a = b"
  by (metis get_putUint64)

section \<open>Readers and writers\<close>

text \<open>
  An \<open>io.Reader\<close> is the list of bytes still to be delivered; \<open>io.ReadFull\<close> fails
  with \<open>EOF\<close> when nothing was read and with \<open>UnexpectedEOF\<close> when the stream
  ends inside the buffer.
\<close>

definition readFull :: "nat \<Rightarrow> bytes \<Rightarrow> (bytes \<times> bytes) result" where
  "readFull n r = (if n \<le> length r then Inr (take n r, drop n r)
                   else if r = [] then Inl EOF else Inl UnexpectedEOF)"

lemma readFull_append [simp, go_simps]:
  "n = length x \<Longrightarrow> readFull n (x @ rest) = Inr (x, rest)"
  by (simp add: readFull_def)

lemma readFull_eq_Inr [go_simps]:
  "readFull n r = Inr (x, rest) \<longleftrightarrow> r = x @ rest \<and> length x = n"
  by (auto simp: readFull_def split: if_splits)

lemma readFull_not_Panic [simp]: "readFull n r \<noteq> Inl Panic"
  by (simp add: readFull_def)

text \<open>
  An \<open>io.Writer\<close> is a state-passing \<open>Write\<close>; \<open>writeAll\<close> issues a sequence of writes
  and stops at the first error, as the chains of \<open>if _, err := w.Write(...)\<close> do.
\<close>

type_synonym 'w writer = "'w \<Rightarrow> bytes \<Rightarrow> go_error option \<times> 'w"

fun writeAll :: "'w writer \<Rightarrow> 'w \<Rightarrow> bytes list \<Rightarrow> go_error option \<times> 'w" where
  "writeAll wr w [] = (None, w)"
| "writeAll wr w (c # cs) = (case wr w c of (Some e, w') \<Rightarrow> (Some e, w')
                             | (None, w') \<Rightarrow> writeAll wr w' cs)"

text \<open>\<open>bytes.Buffer\<close>: a writer that never fails.\<close>

definition bufWrite :: "bytes writer" where
  "bufWrite w c = (None, w @ c)"

lemma writeAll_bufWrite [simp, go_simps]: "writeAll bufWrite w cs = (None, w @ concat cs)"
  by (induction cs arbitrary: w) (auto simp: bufWrite_def)

text \<open>A writer that fails once its capacity is used up: the peer has gone away.\<close>

definition limitWrite :: "nat \<Rightarrow> bytes writer" where
  "limitWrite n w c = (if length w + length c \<le> n then (None, w @ c) else (Some EOF, w))"

end
