(* ===== verification/Go_Text.thy ===== *)
theory Go_Text
  imports Prelude
begin

text \<open>
  The parts of Go's text libraries the program uses, as executable functions: decimal
  integers (\<open>strconv\<close>), the ASCII case mapping, trimming and prefix or suffix tests of
  \<open>strings\<close>, hexadecimal, and the standard Base64 alphabet with padding
  (\<open>encoding/base64\<close>), each with the round trip the wire formats rest on. Case mapping
  and trimming are modelled on ASCII; bytes above 127 are left alone.
\<close>

abbreviation code :: "char \<Rightarrow> nat" where
  "code c \<equiv> of_char c"

lemma code_lt_256 [simp]: "code c < 256"
  by (rule of_char_lt_256)

lemma code_char_of [simp]: "n < 256 \<Longrightarrow> code (char_of n) = n"
  by simp

section \<open>Decimal integers\<close>

definition digit_char :: "nat \<Rightarrow> char" where
  "digit_char d = char_of (48 + d)"

definition is_digit :: "char \<Rightarrow> bool" where
  "is_digit c \<longleftrightarrow> 48 \<le> code c \<and> code c \<le> 57"

definition digit_val :: "char \<Rightarrow> nat" where
  "digit_val c = code c - 48"

lemma digit_char_props [simp]:
  "d < 10 \<Longrightarrow> is_digit (digit_char d)"
  "d < 10 \<Longrightarrow> digit_val (digit_char d) = d"
  "d < 10 \<Longrightarrow> code (digit_char d) = 48 + d"
  by (simp_all add: is_digit_def digit_char_def digit_val_def)

fun show_nat :: "nat \<Rightarrow> string" where
  "show_nat n = (if n < 10 then [digit_char n] else show_nat (n div 10) @ [digit_char (n mod 10)])"

declare show_nat.simps [simp del]

definition digits_val :: "string \<Rightarrow> nat" where
  "digits_val s = foldl (\<lambda>a c. a * 10 + digit_val c) 0 s"

definition parse_nat :: "string \<Rightarrow> nat option" where
  "parse_nat s = (if s \<noteq> [] \<and> list_all is_digit s then Some (digits_val s) else None)"

lemma show_nat_not_Nil [simp]: "show_nat n \<noteq> []"
  by (subst show_nat.simps) simp

lemma show_nat_digits [simp]: "list_all is_digit (show_nat n)"
proof (induction n rule: show_nat.induct)
  case (1 n)
  then show ?case by (subst show_nat.simps) simp
qed

lemma digits_val_show_nat [simp]: "digits_val (show_nat n) = n"
proof (induction n rule: show_nat.induct)
  case (1 n)
  show ?case
  proof (cases "n < 10")
    case True
    then show ?thesis by (subst show_nat.simps) (simp add: digits_val_def)
  next
    case False
    then have "digits_val (show_nat (n div 10)) = n div 10" by (rule 1)
    then have "foldl (\<lambda>a c. a * 10 + digit_val c) 0 (show_nat (n div 10)) = n div 10"
      by (simp add: digits_val_def)
    with False show ?thesis
      by (subst show_nat.simps) (simp add: digits_val_def)
  qed
qed

lemma parse_show_nat [simp, codec_simps]: "parse_nat (show_nat n) = Some n"
  by (simp add: parse_nat_def)

lemma length_show_nat: "n < 10 ^ Suc k \<Longrightarrow> length (show_nat n) \<le> Suc k"
proof (induction k arbitrary: n)
  case 0
  then show ?case by (subst show_nat.simps) simp
next
  case (Suc k)
  then have "length (show_nat (n div 10)) \<le> Suc k" by (simp add: less_mult_imp_div_less)
  then show ?case by (subst show_nat.simps) simp
qed

lemma show_nat_inject [simp]: "show_nat m = show_nat n \<longleftrightarrow> m = n"
  by (metis digits_val_show_nat)

definition show_int :: "int \<Rightarrow> string" where
  "show_int i = (if i < 0 then CHR ''-'' # show_nat (nat (- i)) else show_nat (nat i))"

definition parse_int :: "string \<Rightarrow> int option" where
  "parse_int s = (case s of [] \<Rightarrow> None
     | c # r \<Rightarrow> if c = CHR ''-'' then map_option (\<lambda>n. - int n) (parse_nat r)
                else if c = CHR ''+'' then map_option int (parse_nat r)
                else map_option int (parse_nat s))"

lemma show_nat_hd: "\<exists>c r. show_nat n = c # r \<and> is_digit c \<and> list_all is_digit r"
  using show_nat_digits [of n] show_nat_not_Nil [of n] by (cases "show_nat n") auto

lemma is_digit_not [simp]:
  "\<not> is_digit CHR ''-''" "\<not> is_digit CHR ''+''" "\<not> is_digit CHR ''.''" "\<not> is_digit CHR '':''"
  "\<not> is_digit CHR '',''" "\<not> is_digit CHR ''}''" "\<not> is_digit CHR '']''"
  by (simp_all add: is_digit_def)

lemma parse_show_int [simp, codec_simps]: "parse_int (show_int i) = Some i"
proof -
  obtain c r where n: "show_nat (nat i) = c # r" and c: "is_digit c"
    using show_nat_hd by blast
  have "c \<noteq> CHR ''-''" and "c \<noteq> CHR ''+''" using c by auto
  with n have "parse_int (show_nat (nat i)) = map_option int (parse_nat (show_nat (nat i)))"
    by (simp add: parse_int_def)
  then show ?thesis by (simp add: show_int_def) (simp add: parse_int_def)
qed

section \<open>Case mapping, trimming, prefixes and suffixes\<close>

definition to_lower_char :: "char \<Rightarrow> char" where
  "to_lower_char c = (if 65 \<le> code c \<and> code c \<le> 90 then char_of (code c + 32) else c)"

definition to_upper_char :: "char \<Rightarrow> char" where
  "to_upper_char c = (if 97 \<le> code c \<and> code c \<le> 122 then char_of (code c - 32) else c)"

definition toLower :: "string \<Rightarrow> string" where "toLower s = map to_lower_char s"
definition toUpper :: "string \<Rightarrow> string" where "toUpper s = map to_upper_char s"

definition is_space :: "char \<Rightarrow> bool" where
  "is_space c \<longleftrightarrow> code c \<in> {9, 10, 11, 12, 13, 32}"

definition trimSpace :: "string \<Rightarrow> string" where
  "trimSpace s = rev (dropWhile is_space (rev (dropWhile is_space s)))"

definition hasPrefix :: "string \<Rightarrow> string \<Rightarrow> bool" where
  "hasPrefix s p \<longleftrightarrow> take (length p) s = p"

definition hasSuffix :: "string \<Rightarrow> string \<Rightarrow> bool" where
  "hasSuffix s p \<longleftrightarrow> length p \<le> length s \<and> drop (length s - length p) s = p"

definition trimPrefix :: "string \<Rightarrow> string \<Rightarrow> string" where
  "trimPrefix s p = (if hasPrefix s p then drop (length p) s else s)"

lemma hasPrefix_iff: "hasPrefix s p \<longleftrightarrow> (\<exists>r. s = p @ r)"
  unfolding hasPrefix_def by (metis append_eq_conv_conj)

lemma hasSuffix_iff: "hasSuffix s p \<longleftrightarrow> (\<exists>r. s = r @ p)"
  unfolding hasSuffix_def by (metis append_take_drop_id append_eq_append_conv_if diff_diff_cancel
      drop_append length_append le_add2 add_diff_cancel_right' drop_eq_Nil append_Nil drop0 diff_self_eq_0 le_refl)

lemma to_lower_char_idem [simp]: "to_lower_char (to_lower_char c) = to_lower_char c"
  by (auto simp: to_lower_char_def)

lemma toLower_idem [simp]: "toLower (toLower s) = toLower s"
  by (simp add: toLower_def)

lemma is_space_to_lower [simp]: "is_space (to_lower_char c) = is_space c"
  by (auto simp: is_space_def to_lower_char_def)

lemma dropWhile_space_toLower:
  "dropWhile is_space (toLower s) = toLower (dropWhile is_space s)"
  by (simp add: toLower_def dropWhile_map comp_def)

lemma trimSpace_toLower: "trimSpace (toLower s) = toLower (trimSpace s)"
proof -
  have r: "rev (toLower t) = toLower (rev t)" for t
    by (simp add: toLower_def rev_map)
  show ?thesis by (simp add: trimSpace_def dropWhile_space_toLower r)
qed

lemma dropWhile_dropWhile [simp]: "dropWhile P (dropWhile P xs) = dropWhile P xs"
  by (induction xs) auto

lemma dropWhile_rev_dropWhile:
  assumes "dropWhile P s = s"
  shows "dropWhile P (rev (dropWhile P (rev s))) = rev (dropWhile P (rev s))"
proof (cases "dropWhile P (rev s)")
  case Nil
  show ?thesis unfolding Nil by simp
next
  case (Cons a list)
  obtain pre where pre: "rev s = pre @ dropWhile P (rev s)"
    by (metis takeWhile_dropWhile_id)
  then have s: "s = rev (dropWhile P (rev s)) @ rev pre"
    by (metis rev_append rev_rev_ident)
  obtain x xs where x: "rev (dropWhile P (rev s)) = x # xs"
    using Cons by (metis rev_is_Nil_conv list.exhaust list.distinct(1))
  then have "\<not> P x" using assms s by (metis append_Cons dropWhile.simps(2) dropWhile_eq_Cons_conv)
  with x show ?thesis by simp
qed

lemma trimSpace_idem [simp]: "trimSpace (trimSpace s) = trimSpace s"
proof -
  have "dropWhile is_space (trimSpace s) = trimSpace s"
    unfolding trimSpace_def by (rule dropWhile_rev_dropWhile) simp
  moreover have "dropWhile is_space (rev (trimSpace s)) = rev (trimSpace s)"
    by (simp add: trimSpace_def)
  ultimately show ?thesis by (metis trimSpace_def rev_rev_ident)
qed

section \<open>Hexadecimal\<close>

definition hex_digit :: "nat \<Rightarrow> char" where
  "hex_digit n = (if n < 10 then char_of (48 + n) else char_of (87 + n))"

definition hex_val :: "char \<Rightarrow> nat option" where
  "hex_val c = (if 48 \<le> code c \<and> code c \<le> 57 then Some (code c - 48)
                else if 97 \<le> code c \<and> code c \<le> 102 then Some (code c - 87)
                else if 65 \<le> code c \<and> code c \<le> 70 then Some (code c - 55) else None)"

lemma hex_val_digit [simp, codec_simps]: "n < 16 \<Longrightarrow> hex_val (hex_digit n) = Some n"
  by (simp add: hex_val_def hex_digit_def)

definition hexEncode :: "bytes \<Rightarrow> string" where
  "hexEncode bs = concat (map (\<lambda>b. [hex_digit (unat b div 16), hex_digit (unat b mod 16)]) bs)"

section \<open>Base64 (standard alphabet, padded)\<close>

definition b64_char :: "nat \<Rightarrow> char" where
  "b64_char n = (if n < 26 then char_of (65 + n) else if n < 52 then char_of (71 + n)
                 else if n < 62 then char_of (n - 4) else if n = 62 then CHR ''+'' else CHR ''/'')"

definition b64_val :: "char \<Rightarrow> nat option" where
  "b64_val c = (if 65 \<le> code c \<and> code c \<le> 90 then Some (code c - 65)
                else if 97 \<le> code c \<and> code c \<le> 122 then Some (code c - 71)
                else if 48 \<le> code c \<and> code c \<le> 57 then Some (code c + 4)
                else if c = CHR ''+'' then Some 62 else if c = CHR ''/'' then Some 63 else None)"

lemma b64_val_char [simp]: "n < 64 \<Longrightarrow> b64_val (b64_char n) = Some n"
  by (auto simp: b64_val_def b64_char_def)

lemma b64_char_not_pad [simp]: "n < 64 \<Longrightarrow> b64_char n \<noteq> CHR ''=''"
proof
  assume "n < 64" and "b64_char n = CHR ''=''"
  then have "b64_val CHR ''='' = Some n" using b64_val_char [of n] by simp
  then show False by (simp add: b64_val_def)
qed

fun b64_encode :: "bytes \<Rightarrow> string" where
  "b64_encode [] = []"
| "b64_encode [a] =
     [b64_char (unat a div 4), b64_char (unat a mod 4 * 16), CHR ''='', CHR ''='']"
| "b64_encode [a, b] =
     [b64_char (unat a div 4), b64_char (unat a mod 4 * 16 + unat b div 16),
      b64_char (unat b mod 16 * 4), CHR ''='']"
| "b64_encode (a # b # c # r) =
     b64_char (unat a div 4) # b64_char (unat a mod 4 * 16 + unat b div 16) #
     b64_char (unat b mod 16 * 4 + unat c div 64) # b64_char (unat c mod 64) # b64_encode r"

fun b64_decode_clean :: "string \<Rightarrow> bytes option" where
  "b64_decode_clean [] = Some []"
| "b64_decode_clean (w # x # y # z # r) =
     (case (b64_val w, b64_val x) of
        (Some p, Some q) \<Rightarrow>
          if z = CHR ''='' then
            if r \<noteq> [] then None
            else if y = CHR ''='' then Some [of_nat (p * 4 + q div 16)]
            else (case b64_val y of None \<Rightarrow> None
                  | Some s \<Rightarrow> Some [of_nat (p * 4 + q div 16), of_nat (q mod 16 * 16 + s div 4)])
          else (case (b64_val y, b64_val z) of
                  (Some s, Some t) \<Rightarrow>
                    map_option (\<lambda>bs. of_nat (p * 4 + q div 16) # of_nat (q mod 16 * 16 + s div 4)
                                     # of_nat (s mod 4 * 64 + t) # bs) (b64_decode_clean r)
                | _ \<Rightarrow> None)
      | _ \<Rightarrow> None)"
| "b64_decode_clean _ = None"

text \<open>The decoder skips carriage returns and line feeds.\<close>

definition b64_decode :: "string \<Rightarrow> bytes option" where
  "b64_decode s = b64_decode_clean (filter (\<lambda>c. code c \<noteq> 10 \<and> code c \<noteq> 13) s)"

lemma unat_byte_lt: "unat (b :: byte) < 256"
  using unsigned_less [of b, where 'a = nat] by simp

lemma byte_div [simp]:
  fixes b :: byte
  shows "unat b div 4 < 64" "unat b div 16 < 16" "unat b div 64 < 4"
    "unat b div 16 div 16 = 0" "unat b div 64 div 4 = 0"
    "unat b div 16 mod 16 = unat b div 16" "unat b div 64 mod 4 = unat b div 64"
  using unat_byte_lt [of b] by auto

lemma b64_group [simp]:
  fixes a b c :: byte
  shows "unat a mod 4 * 16 < 64" "unat a mod 4 * 16 + unat b div 16 < 64"
    "unat b mod 16 * 4 < 64" "unat b mod 16 * 4 + unat c div 64 < 64"
proof -
  have "unat a mod 4 < 4" "unat b mod 16 < 16" by simp_all
  moreover have "unat b div 16 < 16" "unat c div 64 < 4" by simp_all
  ultimately show "unat a mod 4 * 16 < 64" "unat a mod 4 * 16 + unat b div 16 < 64"
    "unat b mod 16 * 4 < 64" "unat b mod 16 * 4 + unat c div 64 < 64" by linarith+
qed

lemma b64_decode_clean_encode [simp]: "b64_decode_clean (b64_encode bs) = Some bs"
  by (induction bs rule: b64_encode.induct)
     (simp_all del: of_nat_add of_nat_mult)

lemma b64_char_not_newline [simp]: "n < 64 \<Longrightarrow> code (b64_char n) \<noteq> 10 \<and> code (b64_char n) \<noteq> 13"
  by (auto simp: b64_char_def)

lemma b64_encode_no_newline:
  "filter (\<lambda>c. code c \<noteq> 10 \<and> code c \<noteq> 13) (b64_encode bs) = b64_encode bs"
  by (induction bs rule: b64_encode.induct) simp_all

lemma b64_decode_encode [simp, codec_simps]: "b64_decode (b64_encode bs) = Some bs"
  by (simp add: b64_decode_def b64_encode_no_newline)

end
