(* ===== verification/Go_Json.thy ===== *)
theory Go_Json
  imports Go_Text
begin

text \<open>
  \<open>encoding/json\<close> as the program uses it: the tree of a JSON text, the compact
  printer of \<open>json.Marshal\<close> (HTML-safe escapes, replacement of invalid UTF-8), the
  parser of \<open>json.Unmarshal\<close> (white space, escapes, surrogate pairs, the number
  grammar), and the field access that decoding into a struct performs (case-insensitive
  names, the last of several equal names, \<open>null\<close> as no value, an error on a value of
  the wrong kind). The main fact is the round trip \<open>parse_print_json\<close>.
\<close>

datatype json = JNull | JBool bool | JNum string | JStr string | JArr "json list"
  | JObj "(string \<times> json) list"

section \<open>UTF-8\<close>

definition is_cont :: "char \<Rightarrow> bool" where
  "is_cont c \<longleftrightarrow> 128 \<le> code c \<and> code c \<le> 191"

text \<open>The length of the well-formed UTF-8 sequence at the front of a string, 0 if there is none.\<close>

definition utf8_len :: "string \<Rightarrow> nat" where
  "utf8_len s = (case s of [] \<Rightarrow> 0 | c # r \<Rightarrow>
     (let b = code c;
          c1 = (case r of x # _ \<Rightarrow> is_cont x | _ \<Rightarrow> False);
          n1 = (case r of x # _ \<Rightarrow> code x | _ \<Rightarrow> 0);
          c2 = (case r of _ # x # _ \<Rightarrow> is_cont x | _ \<Rightarrow> False);
          c3 = (case r of _ # _ # x # _ \<Rightarrow> is_cont x | _ \<Rightarrow> False)
      in if b < 128 then 1
         else if 194 \<le> b \<and> b \<le> 223 then (if c1 then 2 else 0)
         else if 224 \<le> b \<and> b \<le> 239 then
           (if c1 \<and> c2 \<and> (b = 224 \<longrightarrow> 160 \<le> n1) \<and> (b = 237 \<longrightarrow> n1 \<le> 159) then 3 else 0)
         else if 240 \<le> b \<and> b \<le> 244 then
           (if c1 \<and> c2 \<and> c3 \<and> (b = 240 \<longrightarrow> 144 \<le> n1) \<and> (b = 244 \<longrightarrow> n1 \<le> 143) then 4 else 0)
         else 0))"

text \<open>The UTF-8 encoding of a code point (\<open>utf8.AppendRune\<close>); 65533 is the replacement character.\<close>

definition utf8_encode :: "nat \<Rightarrow> string" where
  "utf8_encode n =
     (if n < 128 then [char_of n]
      else if n < 2048 then [char_of (192 + n div 64), char_of (128 + n mod 64)]
      else if n < 65536 then
        [char_of (224 + n div 4096), char_of (128 + n div 64 mod 64), char_of (128 + n mod 64)]
      else [char_of (240 + n div 262144), char_of (128 + n div 4096 mod 64),
            char_of (128 + n div 64 mod 64), char_of (128 + n mod 64)])"

definition ascii :: "string \<Rightarrow> bool" where
  "ascii s \<longleftrightarrow> list_all (\<lambda>c. code c < 128) s"

lemma ascii_simps [simp]:
  "ascii []" "ascii (c # s) \<longleftrightarrow> code c < 128 \<and> ascii s" "ascii (s @ t) \<longleftrightarrow> ascii s \<and> ascii t"
  by (auto simp: ascii_def)

section \<open>Strings\<close>

definition uXXXX :: "nat \<Rightarrow> string" where
  "uXXXX n = [CHR 0x5C, CHR ''u'', hex_digit (n div 4096 mod 16), hex_digit (n div 256 mod 16),
              hex_digit (n div 16 mod 16), hex_digit (n mod 16)]"

definition json_esc :: "char \<Rightarrow> string" where
  "json_esc c =
     (if c = CHR 0x22 \<or> c = CHR 0x5C then [CHR 0x5C, c]
      else if code c = 8 then [CHR 0x5C, CHR ''b'']
      else if code c = 12 then [CHR 0x5C, CHR ''f'']
      else if code c = 10 then [CHR 0x5C, CHR ''n'']
      else if code c = 13 then [CHR 0x5C, CHR ''r'']
      else if code c = 9 then [CHR 0x5C, CHR ''t'']
      else if code c < 32 \<or> c = CHR ''<'' \<or> c = CHR ''>'' \<or> c = CHR ''&'' then uXXXX (code c)
      else [c])"

function json_quote_body :: "string \<Rightarrow> string" where
  "json_quote_body [] = []"
| "json_quote_body (c # cs) =
     (if code c < 128 then json_esc c @ json_quote_body cs
      else (let n = utf8_len (c # cs) in
        if n = 0 then uXXXX 65533 @ json_quote_body cs
        else if take 3 (c # cs) = utf8_encode 8232 then uXXXX 8232 @ json_quote_body (drop 2 cs)
        else if take 3 (c # cs) = utf8_encode 8233 then uXXXX 8233 @ json_quote_body (drop 2 cs)
        else take n (c # cs) @ json_quote_body (drop (n - 1) cs)))"
  by pat_completeness auto
termination by (relation "measure length") auto

definition json_quote :: "string \<Rightarrow> string" where
  "json_quote s = CHR 0x22 # json_quote_body s @ [CHR 0x22]"

definition hex4 :: "string \<Rightarrow> nat option" where
  "hex4 s = (case s of a # b # c # d # _ \<Rightarrow>
       (case (hex_val a, hex_val b, hex_val c, hex_val d) of
          (Some w, Some x, Some y, Some z) \<Rightarrow> Some (w * 4096 + x * 256 + y * 16 + z)
        | _ \<Rightarrow> None)
     | _ \<Rightarrow> None)"

text \<open>One item of a string literal: the bytes it stands for and the text after it.\<close>

definition json_str_tok :: "string \<Rightarrow> (string \<times> string) option" where
  "json_str_tok s = (case s of [] \<Rightarrow> None | c # r \<Rightarrow>
     if c = CHR 0x5C then
       (case r of [] \<Rightarrow> None | e # t \<Rightarrow>
          if e = CHR 0x22 \<or> e = CHR 0x5C \<or> e = CHR ''/'' then Some ([e], t)
          else if e = CHR ''b'' then Some ([char_of (8::nat)], t)
          else if e = CHR ''f'' then Some ([char_of (12::nat)], t)
          else if e = CHR ''n'' then Some ([char_of (10::nat)], t)
          else if e = CHR ''r'' then Some ([char_of (13::nat)], t)
          else if e = CHR ''t'' then Some ([char_of (9::nat)], t)
          else if e = CHR ''u'' then
            (case hex4 t of None \<Rightarrow> None
             | Some u \<Rightarrow>
                 if 55296 \<le> u \<and> u < 56320 then
                   (if take 2 (drop 4 t) = [CHR 0x5C, CHR ''u''] then
                      (case hex4 (drop 6 t) of None \<Rightarrow> Some (utf8_encode 65533, drop 4 t)
                       | Some l \<Rightarrow>
                           if 56320 \<le> l \<and> l < 57344
                           then Some (utf8_encode (65536 + (u - 55296) * 1024 + (l - 56320)), drop 10 t)
                           else Some (utf8_encode 65533, drop 4 t))
                    else Some (utf8_encode 65533, drop 4 t))
                 else if 56320 \<le> u \<and> u < 57344 then Some (utf8_encode 65533, drop 4 t)
                 else Some (utf8_encode u, drop 4 t))
          else None)
     else if code c < 32 then None
     else if code c < 128 then Some ([c], r)
     else if utf8_len s = 0 then Some (utf8_encode 65533, r)
     else Some (take (utf8_len s) s, drop (utf8_len s) s))"

text \<open>
  The rest of a string literal after its opening quote. The test on the lengths is always
  true (\<open>json_str_tok_shorter\<close>); it is there for the termination proof.
\<close>

function json_str_body :: "string \<Rightarrow> (string \<times> string) option" where
  "json_str_body s = (case s of [] \<Rightarrow> None
     | c # r \<Rightarrow> if c = CHR 0x22 then Some ([], r)
         else (case json_str_tok s of None \<Rightarrow> None
               | Some (d, t) \<Rightarrow> if length t < length s
                   then map_option (\<lambda>(x, y). (d @ x, y)) (json_str_body t) else None))"
  by pat_completeness auto
termination by (relation "measure length") auto

declare json_str_body.simps [simp del]

lemma json_str_tok_shorter: "json_str_tok s = Some (d, t) \<Longrightarrow> length t < length s"
  by (auto simp: json_str_tok_def hex4_def split: list.splits if_splits option.splits)

lemma div_mult2_eq_16: "(n::nat) div 256 = n div 16 div 16"
  by (simp add: div_mult2_eq [symmetric])

lemma div_mult2_eq_256: "(n::nat) div 4096 = n div 256 div 16"
  by (simp add: div_mult2_eq [symmetric])

lemma hex4_uXXXX:
  assumes "n < 65536"
  shows "hex4 (drop 2 (uXXXX n) @ r) = Some n"
proof -
  have "n div 4096 * 4096 + n div 256 mod 16 * 256 + n div 16 mod 16 * 16 + n mod 16 = n"
  proof -
    have 2: "n div 16 = n div 256 * 16 + n div 16 mod 16"
      by (metis div_mult2_eq_16 div_mult_mod_eq)
    have 3: "n div 256 = n div 4096 * 16 + n div 256 mod 16"
      by (metis div_mult2_eq_256 div_mult_mod_eq)
    have 4: "n = n div 16 * 16 + n mod 16" by simp
    from 2 3 4 show ?thesis by linarith
  qed
  then show ?thesis using assms by (simp add: hex4_def uXXXX_def)
qed

lemma json_str_tok_esc [simp]:
  assumes "code c < 128"
  shows "json_str_tok (json_esc c @ r) = Some ([c], r)"
proof -
  have u: "hex4 (hex_digit 0 # hex_digit 0 # hex_digit (code c div 16 mod 16) # hex_digit (code c mod 16) # r)
      = Some (code c)"
    using hex4_uXXXX [of "code c" r] assms by (simp add: uXXXX_def)
  have ch: "\<And>n. code c = n \<Longrightarrow> char_of n = c" by auto
  have ne: "c \<noteq> CHR 0x22 \<and> c \<noteq> CHR 0x5C" if "code c < 32" using that by auto
  show ?thesis using assms u ne
    by (auto simp: json_esc_def json_str_tok_def uXXXX_def utf8_encode_def intro: ch)
qed

lemma json_esc_hd [simp]: "\<exists>x r. json_esc c = x # r \<and> x \<noteq> CHR 0x22"
  by (auto simp: json_esc_def uXXXX_def)

lemma json_str_body_quote:
  "ascii s \<Longrightarrow> json_str_body (json_quote_body s @ CHR 0x22 # r) = Some (s, r)"
proof (induction s)
  case Nil
  then show ?case by (simp add: json_str_body.simps)
next
  case (Cons c s)
  let ?t = "json_quote_body s @ CHR 0x22 # r"
  obtain x y where e: "json_esc c = x # y" and x: "x \<noteq> CHR 0x22"
    using json_esc_hd by blast
  have tok: "json_str_tok (json_esc c @ ?t) = Some ([c], ?t)"
    using Cons.prems by simp
  have "json_str_body (json_esc c @ ?t) = map_option (\<lambda>(p, q). ([c] @ p, q)) (json_str_body ?t)"
    using tok e x json_str_tok_shorter [OF tok]
    by (subst json_str_body.simps) simp
  with Cons show ?case by simp
qed

section \<open>Printing\<close>

fun json_sep :: "string list \<Rightarrow> string" where
  "json_sep [] = []"
| "json_sep [x] = x"
| "json_sep (x # xs) = x @ CHR '','' # json_sep xs"

fun print_json :: "json \<Rightarrow> string" where
  "print_json JNull = ''null''"
| "print_json (JBool b) = (if b then ''true'' else ''false'')"
| "print_json (JNum n) = n"
| "print_json (JStr s) = json_quote s"
| "print_json (JArr xs) = CHR ''['' # json_sep (map print_json xs) @ '']''"
| "print_json (JObj fs) =
     CHR ''{'' # json_sep (map (\<lambda>(k, v). json_quote k @ CHR '':'' # print_json v) fs) @ ''}''"

section \<open>Parsing\<close>

definition is_json_ws :: "char \<Rightarrow> bool" where
  "is_json_ws c \<longleftrightarrow> code c \<in> {9, 10, 13, 32}"

definition skip_ws :: "string \<Rightarrow> string" where
  "skip_ws s = dropWhile is_json_ws s"

lemma length_skip_ws [simp]: "length (skip_ws s) \<le> length s"
  by (simp add: skip_ws_def length_dropWhile_le)

text \<open>The number grammar: sign, integer part without leading zeros, fraction, exponent.\<close>

definition scan_int :: "string \<Rightarrow> (string \<times> string) option" where
  "scan_int s = (case s of [] \<Rightarrow> None
     | c # r \<Rightarrow> if \<not> is_digit c then None
                else if c = CHR ''0'' then Some ([c], r)
                else Some (takeWhile is_digit s, dropWhile is_digit s))"

definition scan_frac :: "string \<Rightarrow> (string \<times> string) option" where
  "scan_frac s = (case s of c # r \<Rightarrow>
       if c = CHR ''.'' then
         (if takeWhile is_digit r = [] then None
          else Some (c # takeWhile is_digit r, dropWhile is_digit r))
       else Some ([], s)
     | [] \<Rightarrow> Some ([], []))"

definition scan_exp :: "string \<Rightarrow> (string \<times> string) option" where
  "scan_exp s = (case s of c # r \<Rightarrow>
       if c = CHR ''e'' \<or> c = CHR ''E'' then
         (let (sg, t) = (case r of x # y \<Rightarrow> if x = CHR ''+'' \<or> x = CHR ''-'' then ([x], y) else ([], r)
                         | [] \<Rightarrow> ([], [])) in
          if takeWhile is_digit t = [] then None
          else Some (c # sg @ takeWhile is_digit t, dropWhile is_digit t))
       else Some ([], s)
     | [] \<Rightarrow> Some ([], []))"

definition scan_num :: "string \<Rightarrow> (string \<times> string) option" where
  "scan_num s =
     (let (sg, t) = (case s of x # y \<Rightarrow> if x = CHR ''-'' then ([x], y) else ([], s) | [] \<Rightarrow> ([], [])) in
      case scan_int t of None \<Rightarrow> None | Some (i, t1) \<Rightarrow>
      (case scan_frac t1 of None \<Rightarrow> None | Some (f, t2) \<Rightarrow>
      (case scan_exp t2 of None \<Rightarrow> None | Some (e, t3) \<Rightarrow> Some (sg @ i @ f @ e, t3))))"

function (sequential)
  parse_value :: "string \<Rightarrow> (json \<times> string) option" and
  parse_elems :: "string \<Rightarrow> (json list \<times> string) option" and
  parse_members :: "string \<Rightarrow> ((string \<times> json) list \<times> string) option"
where
  "parse_value s = (case skip_ws s of [] \<Rightarrow> None | c # r \<Rightarrow>
     if c = CHR 0x22 then map_option (\<lambda>(x, t). (JStr x, t)) (json_str_body r)
     else if c = CHR ''['' then
       (case skip_ws r of [] \<Rightarrow> None
        | d # t \<Rightarrow> if d = CHR '']'' then Some (JArr [], t)
                   else map_option (\<lambda>(xs, u). (JArr xs, u)) (parse_elems r))
     else if c = CHR ''{'' then
       (case skip_ws r of [] \<Rightarrow> None
        | d # t \<Rightarrow> if d = CHR ''}'' then Some (JObj [], t)
                   else map_option (\<lambda>(xs, u). (JObj xs, u)) (parse_members r))
     else if hasPrefix (c # r) ''true'' then Some (JBool True, drop 3 r)
     else if hasPrefix (c # r) ''false'' then Some (JBool False, drop 4 r)
     else if hasPrefix (c # r) ''null'' then Some (JNull, drop 3 r)
     else map_option (\<lambda>(n, t). (JNum n, t)) (scan_num (c # r)))"
| "parse_elems s = (case parse_value s of None \<Rightarrow> None | Some (v, t) \<Rightarrow>
     (case skip_ws t of [] \<Rightarrow> None
      | c # r \<Rightarrow> if c = CHR '']'' then Some ([v], r)
          else if c = CHR '','' then
            (if length r < length s then map_option (\<lambda>(vs, u). (v # vs, u)) (parse_elems r) else None)
          else None))"
| "parse_members s = (case skip_ws s of [] \<Rightarrow> None | q # r0 \<Rightarrow>
     if q \<noteq> CHR 0x22 then None else
     (case json_str_body r0 of None \<Rightarrow> None | Some (k, r1) \<Rightarrow>
     (case skip_ws r1 of [] \<Rightarrow> None | co # r2 \<Rightarrow>
      if co \<noteq> CHR '':'' \<or> \<not> length r2 < length s then None else
      (case parse_value r2 of None \<Rightarrow> None | Some (v, t) \<Rightarrow>
      (case skip_ws t of [] \<Rightarrow> None
       | c # r \<Rightarrow> if c = CHR ''}'' then Some ([(k, v)], r)
           else if c = CHR '','' then
             (if length r < length s then map_option (\<lambda>(ms, u). ((k, v) # ms, u)) (parse_members r)
              else None)
           else None)))))"
  by pat_completeness auto
termination
proof (relation "measure (\<lambda>x. case x of Inl s \<Rightarrow> 2 * length s
                     | Inr (Inl s) \<Rightarrow> 2 * length s + 1 | Inr (Inr s) \<Rightarrow> 2 * length s + 1)", goal_cases)
  case 1
  then show ?case by simp
next
  case (2 s c r d t)
  then have "Suc (length r) \<le> length s" using length_skip_ws [of s] by simp
  then show ?case by simp
next
  case (3 s c r d t)
  then have "Suc (length r) \<le> length s" using length_skip_ws [of s] by simp
  then show ?case by simp
qed auto

declare parse_value.simps [simp del] parse_elems.simps [simp del] parse_members.simps [simp del]

definition unmarshal_tree :: "bytes \<Rightarrow> json option" where
  "unmarshal_tree b = (case parse_value (string_of_bytes b) of None \<Rightarrow> None
     | Some (v, t) \<Rightarrow> if skip_ws t = [] then Some v else None)"

definition marshal_tree :: "json \<Rightarrow> bytes" where
  "marshal_tree v = bytes_of_string (print_json v)"

section \<open>The round trip\<close>

text \<open>
  Values whose strings are ASCII and whose numbers are decimal integers: all the program
  marshals. The text after a number must not continue it.
\<close>

fun json_ok :: "json \<Rightarrow> bool" where
  "json_ok JNull = True"
| "json_ok (JBool b) = True"
| "json_ok (JNum n) = (\<exists>i. n = show_int i)"
| "json_ok (JStr s) = ascii s"
| "json_ok (JArr xs) = list_all json_ok xs"
| "json_ok (JObj fs) = list_all (\<lambda>(k, v). ascii k \<and> json_ok v) fs"

definition num_stop :: "string \<Rightarrow> bool" where
  "num_stop r \<longleftrightarrow> (case r of [] \<Rightarrow> True
     | c # _ \<Rightarrow> \<not> is_digit c \<and> c \<noteq> CHR ''.'' \<and> c \<noteq> CHR ''e'' \<and> c \<noteq> CHR ''E'')"

lemma num_stop_simps [simp]:
  "num_stop []" "num_stop (CHR '','' # r)" "num_stop (CHR '']'' # r)" "num_stop (CHR ''}'' # r)"
  by (simp_all add: num_stop_def)

lemma scan_tail: "num_stop r \<Longrightarrow> scan_frac r = Some ([], r) \<and> scan_exp r = Some ([], r)"
  by (auto simp: num_stop_def scan_frac_def scan_exp_def split: list.splits)

lemma takeWhile_digits_stop:
  assumes "list_all is_digit s" "num_stop r"
  shows "takeWhile is_digit (s @ r) = s \<and> dropWhile is_digit (s @ r) = r"
proof -
  have "takeWhile is_digit r = [] \<and> dropWhile is_digit r = r"
    using assms(2) by (cases r) (auto simp: num_stop_def)
  with assms(1) show ?thesis by (auto simp: list_all_iff takeWhile_append2 dropWhile_append2)
qed

lemma show_nat_hd_0: "show_nat n = CHR ''0'' # r \<Longrightarrow> r = []"
proof (induction n arbitrary: r rule: show_nat.induct)
  case (1 n)
  show ?case
  proof (cases "n < 10")
    case True
    with "1.prems" show ?thesis by (subst (asm) show_nat.simps) simp
  next
    case False
    then have e: "show_nat (n div 10) @ [digit_char (n mod 10)] = CHR ''0'' # r"
      using "1.prems" by (subst (asm) show_nat.simps) simp
    obtain c t where ct: "show_nat (n div 10) = c # t" using show_nat_hd by blast
    with e have c: "c = CHR ''0''" by simp
    with ct "1.IH" [OF False, of t] have "t = []" by simp
    with ct c have "digits_val (show_nat (n div 10)) = 0" by (simp add: digits_val_def digit_val_def)
    then have "n div 10 = 0" by simp
    with False show ?thesis by simp
  qed
qed

lemma scan_int_show_nat: "num_stop r \<Longrightarrow> scan_int (show_nat n @ r) = Some (show_nat n, r)"
proof -
  assume r: "num_stop r"
  obtain c t where ct: "show_nat n = c # t" and c: "is_digit c" using show_nat_hd by blast
  show ?thesis
  proof (cases "c = CHR ''0''")
    case True
    with ct show_nat_hd_0 have "t = []" by blast
    with ct c True show ?thesis by (simp add: scan_int_def)
  next
    case False
    with takeWhile_digits_stop [OF show_nat_digits r, of n] ct c show ?thesis
      by (simp add: scan_int_def)
  qed
qed

lemma scan_num_show_int:
  assumes "num_stop r"
  shows "scan_num (show_int i @ r) = Some (show_int i, r)"
proof -
  obtain c t where ct: "show_nat (nat i) = c # t" and c: "is_digit c" using show_nat_hd by blast
  have c': "c \<noteq> CHR ''-''" using c by auto
  have n: "scan_int (show_nat m @ r) = Some (show_nat m, r)" for m
    by (rule scan_int_show_nat [OF assms])
  show ?thesis
  proof (cases "i < 0")
    case True
    then show ?thesis using scan_tail [OF assms] n by (simp add: scan_num_def show_int_def)
  next
    case False
    have "scan_int (c # t @ r) = Some (c # t, r)" using n [of "nat i"] ct by simp
    with False ct c' scan_tail [OF assms] show ?thesis
      by (simp add: scan_num_def show_int_def)
  qed
qed

lemma show_int_hd: "\<exists>c t. show_int i = c # t \<and> (is_digit c \<or> c = CHR ''-'')"
  using show_nat_hd [of "nat i"] by (auto simp: show_int_def)

text \<open>The first character of a printed value is never white space or a closing bracket.\<close>

lemma print_json_hd:
  assumes "json_ok v"
  shows "\<exists>c t. print_json v = c # t \<and> \<not> is_json_ws c \<and> c \<noteq> CHR '']'' \<and> c \<noteq> CHR ''}''"
proof (cases v)
  case (JNum n)
  with assms obtain i where "n = show_int i" by auto
  with JNum show_int_hd [of i] show ?thesis
    by (auto simp: is_json_ws_def is_digit_def)
qed (auto simp: is_json_ws_def json_quote_def)

lemma skip_ws_hd [simp]: "\<not> is_json_ws c \<Longrightarrow> skip_ws (c # r) = c # r"
  by (simp add: skip_ws_def)

lemma not_ws [simp]:
  "\<not> is_json_ws CHR 0x22" "\<not> is_json_ws CHR ''[''" "\<not> is_json_ws CHR ''{''"
  "\<not> is_json_ws CHR '']''" "\<not> is_json_ws CHR ''}''" "\<not> is_json_ws CHR '',''"
  "\<not> is_json_ws CHR '':''" "\<not> is_json_ws CHR ''t''" "\<not> is_json_ws CHR ''f''"
  "\<not> is_json_ws CHR ''n''"
  by (simp_all add: is_json_ws_def)

definition parses :: "json \<Rightarrow> bool" where
  "parses v \<longleftrightarrow> (\<forall>r. num_stop r \<longrightarrow> parse_value (print_json v @ r) = Some (v, r))"

lemma parse_value_num: "parses (JNum (show_int i))"
  unfolding parses_def
proof (intro allI impI)
  fix r assume r: "num_stop r"
  obtain c t where ct: "show_int i = c # t" and c: "is_digit c \<or> c = CHR ''-''"
    using show_int_hd by blast
  have ws: "\<not> is_json_ws c" using c by (auto simp: is_digit_def is_json_ws_def)
  have ne: "c \<noteq> CHR 0x22" "c \<noteq> CHR ''[''" "c \<noteq> CHR ''{''" "c \<noteq> CHR ''t''" "c \<noteq> CHR ''f''" "c \<noteq> CHR ''n''"
    using c by (auto simp: is_digit_def)
  have "scan_num (c # t @ r) = Some (c # t, r)"
    using scan_num_show_int [OF r, of i] ct by simp
  with ct ws ne show "parse_value (print_json (JNum (show_int i)) @ r) = Some (JNum (show_int i), r)"
    by (simp add: parse_value.simps hasPrefix_def)
qed

lemma parse_elems_print:
  assumes "xs \<noteq> []" "list_all json_ok xs" "\<And>x. x \<in> set xs \<Longrightarrow> parses x"
  shows "parse_elems (json_sep (map print_json xs) @ CHR '']'' # r) = Some (xs, r)"
  using assms
proof (induction xs rule: induct_list012)
  case 1
  then show ?case by simp
next
  case (2 x)
  then show ?case by (subst parse_elems.simps) (simp add: parses_def)
next
  case (3 x y zs)
  let ?t = "json_sep (map print_json (y # zs)) @ CHR '']'' # r"
  have "parse_value (print_json x @ CHR '','' # ?t) = Some (x, CHR '','' # ?t)"
    using "3.prems" by (simp add: parses_def)
  moreover have "parse_elems ?t = Some (y # zs, r)" using "3.IH"(2) "3.prems" by simp
  ultimately show ?case by (subst parse_elems.simps) simp
qed

lemma parse_members_print:
  assumes "fs \<noteq> []" "list_all (\<lambda>(k, v). ascii k \<and> json_ok v) fs" "\<And>k v. (k, v) \<in> set fs \<Longrightarrow> parses v"
  shows "parse_members (json_sep (map (\<lambda>(k, v). json_quote k @ CHR '':'' # print_json v) fs) @ CHR ''}'' # r)
    = Some (fs, r)"
  using assms
proof (induction fs rule: induct_list012)
  case 1
  then show ?case by simp
next
  case (2 f)
  obtain k v where f: "f = (k, v)" by (cases f)
  with 2 have k: "json_str_body (json_quote_body k @ CHR 0x22 # x) = Some (k, x)" for x
    by (simp add: json_str_body_quote)
  from 2 f have "parse_value (print_json v @ CHR ''}'' # r) = Some (v, CHR ''}'' # r)"
    by (simp add: parses_def)
  with f k show ?case by (subst parse_members.simps) (simp add: json_quote_def)
next
  case (3 f g zs)
  obtain k v where f: "f = (k, v)" by (cases f)
  let ?t = "json_sep (map (\<lambda>(k, v). json_quote k @ CHR '':'' # print_json v) (g # zs)) @ CHR ''}'' # r"
  from 3 f have k: "json_str_body (json_quote_body k @ CHR 0x22 # x) = Some (k, x)" for x
    by (simp add: json_str_body_quote)
  have "parses v" using "3.prems"(3) [of k v] f by simp
  then have v: "parse_value (print_json v @ CHR '','' # ?t) = Some (v, CHR '','' # ?t)"
    by (simp add: parses_def)
  have "parse_members ?t = Some (g # zs, r)" using "3.IH"(2) "3.prems" by auto
  with f k v show ?case by (subst parse_members.simps) (simp add: json_quote_def)
qed

lemma json_sep_hd:
  assumes "xs \<noteq> []" "\<And>x. x \<in> set xs \<Longrightarrow> \<exists>c t. x = c # t \<and> P c"
  shows "\<exists>c t. json_sep xs = c # t \<and> P c"
  using assms by (cases xs rule: json_sep.cases) fastforce+

lemma parses_JArr:
  assumes "list_all json_ok xs" "\<And>x. x \<in> set xs \<Longrightarrow> parses x"
  shows "parses (JArr xs)"
  unfolding parses_def
proof (intro allI impI)
  fix r assume "num_stop r"
  show "parse_value (print_json (JArr xs) @ r) = Some (JArr xs, r)"
  proof (cases "xs = []")
    case True
    then show ?thesis by (simp add: parse_value.simps)
  next
    case False
    have "\<exists>c t. json_sep (map print_json xs) = c # t \<and> (\<not> is_json_ws c \<and> c \<noteq> CHR '']'')"
      using False assms(1) print_json_hd by (intro json_sep_hd) (fastforce simp: list_all_iff)+
    then obtain c t where c: "json_sep (map print_json xs) = c # t" "\<not> is_json_ws c" "c \<noteq> CHR '']''" by blast
    have "parse_elems (json_sep (map print_json xs) @ CHR '']'' # r) = Some (xs, r)"
      by (rule parse_elems_print [OF False assms])
    with c show ?thesis by (subst parse_value.simps) simp
  qed
qed

lemma parses_JObj:
  assumes "list_all (\<lambda>(k, v). ascii k \<and> json_ok v) fs" "\<And>k v. (k, v) \<in> set fs \<Longrightarrow> parses v"
  shows "parses (JObj fs)"
  unfolding parses_def
proof (intro allI impI)
  fix r assume "num_stop r"
  show "parse_value (print_json (JObj fs) @ r) = Some (JObj fs, r)"
  proof (cases "fs = []")
    case True
    then show ?thesis by (simp add: parse_value.simps)
  next
    case False
    let ?p = "\<lambda>(k, v). json_quote k @ CHR '':'' # print_json v"
    have "\<exists>c t. json_sep (map ?p fs) = c # t \<and> (\<not> is_json_ws c \<and> c \<noteq> CHR ''}'')"
    proof (rule json_sep_hd)
      show "map ?p fs \<noteq> []" using False by simp
    next
      fix x assume "x \<in> set (map ?p fs)"
      then obtain k v where "x = json_quote k @ CHR '':'' # print_json v" by auto
      then show "\<exists>c t. x = c # t \<and> (\<not> is_json_ws c \<and> c \<noteq> CHR ''}'')"
        by (simp add: json_quote_def)
    qed
    then obtain c t where c: "json_sep (map ?p fs) = c # t" "\<not> is_json_ws c" "c \<noteq> CHR ''}''" by blast
    have "parse_members (json_sep (map ?p fs) @ CHR ''}'' # r) = Some (fs, r)"
      by (rule parse_members_print [OF False assms])
    with c show ?thesis by (subst parse_value.simps) simp
  qed
qed

lemma parses_ok: "json_ok v \<Longrightarrow> parses v"
proof (induction v)
  case (JNum n)
  then show ?case using parse_value_num by auto
next
  case (JArr xs)
  then show ?case by (intro parses_JArr) (auto simp: list_all_iff)
next
  case (JObj fs)
  then show ?case by (intro parses_JObj) (fastforce simp: list_all_iff)+
qed (auto simp: parses_def parse_value.simps hasPrefix_def json_quote_def json_str_body_quote)

lemma parse_print_json [codec_simps]:
  assumes "json_ok v"
  shows "unmarshal_tree (marshal_tree v) = Some v"
proof -
  have "parse_value (print_json v @ []) = Some (v, [])"
    using parses_ok [OF assms] by (simp only: parses_def num_stop_simps simp_thms)
  then show ?thesis by (simp add: unmarshal_tree_def marshal_tree_def skip_ws_def)
qed

section \<open>Decoding into struct fields\<close>

text \<open>
  The value of a struct field in an object: the last member whose name matches without
  regard to case; absent and \<open>null\<close> members leave the zero value.
\<close>

definition json_field :: "string \<Rightarrow> (string \<times> json) list \<Rightarrow> json" where
  "json_field name fs =
     (case filter (\<lambda>(k, v). toLower k = toLower name \<and> v \<noteq> JNull) (rev fs) of
        [] \<Rightarrow> JNull | (k, v) # _ \<Rightarrow> v)"

definition json_members :: "json \<Rightarrow> (string \<times> json) list option" where
  "json_members v = (case v of JObj fs \<Rightarrow> Some fs | JNull \<Rightarrow> Some [] | _ \<Rightarrow> None)"

definition get_string :: "string \<Rightarrow> (string \<times> json) list \<Rightarrow> string option" where
  "get_string name fs = (case json_field name fs of JNull \<Rightarrow> Some []
     | JStr s \<Rightarrow> Some s | _ \<Rightarrow> None)"

definition get_bool :: "string \<Rightarrow> (string \<times> json) list \<Rightarrow> bool option" where
  "get_bool name fs = (case json_field name fs of JNull \<Rightarrow> Some False
     | JBool b \<Rightarrow> Some b | _ \<Rightarrow> None)"

text \<open>Integer fields are range-checked against their Go type.\<close>

definition get_int :: "int \<Rightarrow> int \<Rightarrow> string \<Rightarrow> (string \<times> json) list \<Rightarrow> int option" where
  "get_int lo hi name fs = (case json_field name fs of JNull \<Rightarrow> Some 0
     | JNum n \<Rightarrow> (case parse_int n of None \<Rightarrow> None
                  | Some i \<Rightarrow> if lo \<le> i \<and> i \<le> hi then Some i else None)
     | _ \<Rightarrow> None)"

abbreviation get_int64 :: "string \<Rightarrow> (string \<times> json) list \<Rightarrow> int option" where
  "get_int64 \<equiv> get_int (- (2 ^ 63)) (2 ^ 63 - 1)"

abbreviation get_uint :: "nat \<Rightarrow> string \<Rightarrow> (string \<times> json) list \<Rightarrow> int option" where
  "get_uint w \<equiv> get_int 0 (2 ^ w - 1)"

definition json_byte :: "json \<Rightarrow> byte option" where
  "json_byte v = (case v of JNull \<Rightarrow> Some 0
     | JNum n \<Rightarrow> (case parse_int n of None \<Rightarrow> None
                  | Some i \<Rightarrow> if 0 \<le> i \<and> i \<le> 255 then Some (of_int i) else None)
     | _ \<Rightarrow> None)"

text \<open>A byte slice is Base64 text; an array of small numbers is accepted too.\<close>

definition get_bytes :: "string \<Rightarrow> (string \<times> json) list \<Rightarrow> bytes option" where
  "get_bytes name fs = (case json_field name fs of JNull \<Rightarrow> Some []
     | JStr s \<Rightarrow> b64_decode s
     | JArr xs \<Rightarrow> those (map json_byte xs)
     | _ \<Rightarrow> None)"

definition json_string :: "json \<Rightarrow> string option" where
  "json_string v = (case v of JNull \<Rightarrow> Some [] | JStr s \<Rightarrow> Some s | _ \<Rightarrow> None)"

definition get_strings :: "string \<Rightarrow> (string \<times> json) list \<Rightarrow> string list option" where
  "get_strings name fs = (case json_field name fs of JNull \<Rightarrow> Some []
     | JArr xs \<Rightarrow> those (map json_string xs)
     | _ \<Rightarrow> None)"

text \<open>A pointer field: absent or \<open>null\<close> is \<open>nil\<close>.\<close>

definition get_ptr :: "(json \<Rightarrow> 'a option) \<Rightarrow> string \<Rightarrow> (string \<times> json) list \<Rightarrow> 'a option option" where
  "get_ptr dec name fs = (case json_field name fs of JNull \<Rightarrow> Some None
     | v \<Rightarrow> map_option Some (dec v))"

lemmas json_get_defs = get_string_def get_bool_def get_int_def get_bytes_def get_strings_def get_ptr_def

definition jint :: "int \<Rightarrow> json" where "jint i = JNum (show_int i)"
definition jbytes :: "bytes \<Rightarrow> json" where "jbytes b = JStr (b64_encode b)"
definition jstrings :: "string list \<Rightarrow> json" where "jstrings xs = JArr (map JStr xs)"

definition omitempty :: "bool \<Rightarrow> string \<Rightarrow> json \<Rightarrow> (string \<times> json) list" where
  "omitempty is_zero k v = (if is_zero then [] else [(k, v)])"

lemma ascii_b64_char [simp]: "n < 64 \<Longrightarrow> code (b64_char n) < 128"
  by (auto simp: b64_char_def)

lemma ascii_b64_encode [simp]: "ascii (b64_encode b)"
  by (induction b rule: b64_encode.induct) simp_all

lemma json_ok_atoms [simp]:
  "json_ok (jint i)" "json_ok (jbytes b)" "json_ok (jstrings xs) \<longleftrightarrow> list_all ascii xs"
  by (auto simp: jint_def jbytes_def jstrings_def list_all_iff)

lemma those_map_JStr [simp]: "those (map (json_string \<circ> JStr) xs) = Some xs"
  by (induction xs) (auto simp: json_string_def)

lemma json_case_atoms [simp]:
  "(case jint i of JNull \<Rightarrow> a | JBool b \<Rightarrow> f b | JNum n \<Rightarrow> g n | JStr s \<Rightarrow> h s | JArr x \<Rightarrow> j x | JObj y \<Rightarrow> k y)
     = g (show_int i)"
  "(case jbytes bs of JNull \<Rightarrow> a | JBool b \<Rightarrow> f b | JNum n \<Rightarrow> g n | JStr s \<Rightarrow> h s | JArr x \<Rightarrow> j x | JObj y \<Rightarrow> k y)
     = h (b64_encode bs)"
  "(case jstrings xs of JNull \<Rightarrow> a | JBool b \<Rightarrow> f b | JNum n \<Rightarrow> g n | JStr s \<Rightarrow> h s | JArr x \<Rightarrow> j x | JObj y \<Rightarrow> k y)
     = j (map JStr xs)"
  by (simp_all add: jint_def jbytes_def jstrings_def)

lemma atoms_not_null [simp]: "jint i \<noteq> JNull" "jbytes b \<noteq> JNull" "jstrings xs \<noteq> JNull"
  by (simp_all add: jint_def jbytes_def jstrings_def)

end
