(* ===== verification/Wire.thy ===== *)
theory Wire
  imports Go_Json
begin

text \<open>
  The circuit protocol on the wire, \<open>internal/protocol\<close>: the message types of
  \<open>constants.go\<close>, the message structs of \<open>types.go\<close> with their JSON tags, the
  length-prefixed frames of \<open>codec.go\<close> (\<open>WriteFrame\<close>, \<open>ReadFrame\<close>, the frame
  constructors and the loop of \<open>StartStreamReader\<close>) and the payload encoder of
  \<open>padding.go\<close>. The locale \<open>json_codec\<close> states what a struct's JSON tags promise and
  is interpreted for every message; the frame lemmas show that the two ends of a stream
  agree and that the decoder never indexes out of range.
\<close>

section \<open>Constants\<close>

definition MsgTypeCreate :: u16 where "MsgTypeCreate = 1"
definition MsgTypeCreated :: u16 where "MsgTypeCreated = 2"
definition MsgTypeExtend :: u16 where "MsgTypeExtend = 3"
definition MsgTypeExtended :: u16 where "MsgTypeExtended = 4"
definition MsgTypeBeginTCP :: u16 where "MsgTypeBeginTCP = 5"
definition MsgTypeConnected :: u16 where "MsgTypeConnected = 6"
definition MsgTypeData :: u16 where "MsgTypeData = 7"
definition MsgTypeEnd :: u16 where "MsgTypeEnd = 8"
definition MsgTypeKeyExchangeInit :: u16 where "MsgTypeKeyExchangeInit = 9"
definition MsgTypeKeyExchangeResp :: u16 where "MsgTypeKeyExchangeResp = 10"
definition MsgTypeOnionData :: u16 where "MsgTypeOnionData = 11"
definition MsgTypeBeginUDP :: u16 where "MsgTypeBeginUDP = 12"

lemmas MsgType_defs = MsgTypeCreate_def MsgTypeCreated_def MsgTypeExtend_def MsgTypeExtended_def
  MsgTypeBeginTCP_def MsgTypeConnected_def MsgTypeData_def MsgTypeEnd_def
  MsgTypeKeyExchangeInit_def MsgTypeKeyExchangeResp_def MsgTypeOnionData_def MsgTypeBeginUDP_def

definition TCPDataChunkBytes :: nat where "TCPDataChunkBytes = 32 * 1024"

section \<open>Message structs\<close>

record Frame =
  f_Type :: u16
  f_CircuitID :: string
  f_StreamID :: string
  f_PayloadJSON :: bytes

record CreateCircuit = cc_PathPeerIDs :: "string list"
record Extend = ex_NextPeerID :: string

record BeginTCP =
  bt_TargetHost :: string
  bt_TargetPort :: int

record BeginUDP =
  bu_TargetHost :: string
  bu_TargetPort :: int

record Connected =
  cn_OK :: bool
  cn_Error :: string

record DataCell = dc_Payload :: bytes
record EndCell = ec_Reason :: string

record Ping =
  pi_CircuitID :: string
  pi_PingID :: string
  pi_SentAtUnix :: int

record Pong =
  po_CircuitID :: string
  po_PingID :: string
  po_SentAtUnix :: int
  po_EchoAtUnix :: int

record KeyExchangeInit = ki_Payload :: bytes
record KeyExchangeResp = kr_Payload :: bytes

record OnionCell =
  oc_HopIndex :: u32
  oc_Ciphertext :: bytes

record RelayLayerHeader =
  rh_NextPeerID :: string
  rh_InnerPayloadType :: string
  rh_StreamID :: string
  rh_Flags :: byte

record OnionEnvelope =
  oe_Header :: RelayLayerHeader
  oe_InnerCiphertext :: bytes

text \<open>Pointer fields are options: \<open>None\<close> is \<open>nil\<close>.\<close>

record OnionPayload =
  op_Kind :: string
  op_Begin :: "BeginTCP option"
  op_BeginUDP :: "BeginUDP option"
  op_Data :: "DataCell option"
  op_End :: "EndCell option"
  op_Connected :: "Connected option"
  op_Ping :: "Ping option"
  op_Pong :: "Pong option"
  op_Pad :: string

definition InnerPayloadTypeOnion :: string where "InnerPayloadTypeOnion = ''onion''"
definition InnerPayloadTypePayload :: string where "InnerPayloadTypePayload = ''payload''"
definition InnerPayloadTypeKeyExchange :: string where "InnerPayloadTypeKeyExchange = ''key_exchange''"
definition OnionPayloadKindBegin :: string where "OnionPayloadKindBegin = ''begin''"
definition OnionPayloadKindBeginUDP :: string where "OnionPayloadKindBeginUDP = ''begin_udp''"
definition OnionPayloadKindData :: string where "OnionPayloadKindData = ''data''"
definition OnionPayloadKindEnd :: string where "OnionPayloadKindEnd = ''end''"
definition OnionPayloadKindConnected :: string where "OnionPayloadKindConnected = ''connected''"
definition OnionPayloadKindPing :: string where "OnionPayloadKindPing = ''ping''"
definition OnionPayloadKindPong :: string where "OnionPayloadKindPong = ''pong''"

lemmas kind_defs = InnerPayloadTypeOnion_def InnerPayloadTypePayload_def InnerPayloadTypeKeyExchange_def
  OnionPayloadKindBegin_def OnionPayloadKindBeginUDP_def OnionPayloadKindData_def OnionPayloadKindEnd_def
  OnionPayloadKindConnected_def OnionPayloadKindPing_def OnionPayloadKindPong_def

section \<open>JSON tags\<close>

definition json_marshal :: "('a \<Rightarrow> json) \<Rightarrow> 'a \<Rightarrow> bytes" where
  "json_marshal enc x = marshal_tree (enc x)"

definition json_unmarshal :: "(json \<Rightarrow> 'a option) \<Rightarrow> bytes \<Rightarrow> 'a option" where
  "json_unmarshal dec b = Option.bind (unmarshal_tree b) dec"

text \<open>
  What the tags of a message struct promise: what is marshalled from a value in \<open>ok\<close>
  is read back as the same value.
\<close>

locale json_codec =
  fixes enc :: "'a \<Rightarrow> json"
    and dec :: "json \<Rightarrow> 'a option"
    and ok :: "'a \<Rightarrow> bool"
  assumes enc_ok: "ok x \<Longrightarrow> json_ok (enc x)"
    and dec_enc: "ok x \<Longrightarrow> dec (enc x) = Some x"
begin

lemma unmarshal_marshal: "ok x \<Longrightarrow> json_unmarshal dec (json_marshal enc x) = Some x"
  by (simp add: json_unmarshal_def json_marshal_def parse_print_json enc_ok dec_enc)

lemma marshal_inject: "ok x \<Longrightarrow> ok y \<Longrightarrow> json_marshal enc x = json_marshal enc y \<longleftrightarrow> x = y"
  using unmarshal_marshal by (metis option.inject)

end

definition int64_ok :: "int \<Rightarrow> bool" where
  "int64_ok i \<longleftrightarrow> - (2 ^ 63) \<le> i \<and> i \<le> 2 ^ 63 - 1"

definition enc_CreateCircuit :: "CreateCircuit \<Rightarrow> json" where
  "enc_CreateCircuit m = JObj [(''path_peer_ids'', jstrings (cc_PathPeerIDs m))]"
definition dec_CreateCircuit :: "json \<Rightarrow> CreateCircuit option" where
  "dec_CreateCircuit j = Option.bind (json_members j) (\<lambda>fs.
     map_option (\<lambda>xs. \<lparr>cc_PathPeerIDs = xs\<rparr>) (get_strings ''path_peer_ids'' fs))"

definition enc_Extend :: "Extend \<Rightarrow> json" where
  "enc_Extend m = JObj [(''next_peer_id'', JStr (ex_NextPeerID m))]"
definition dec_Extend :: "json \<Rightarrow> Extend option" where
  "dec_Extend j = Option.bind (json_members j) (\<lambda>fs.
     map_option (\<lambda>x. \<lparr>ex_NextPeerID = x\<rparr>) (get_string ''next_peer_id'' fs))"

definition enc_BeginTCP :: "BeginTCP \<Rightarrow> json" where
  "enc_BeginTCP m = JObj [(''target_host'', JStr (bt_TargetHost m)), (''target_port'', jint (bt_TargetPort m))]"
definition dec_BeginTCP :: "json \<Rightarrow> BeginTCP option" where
  "dec_BeginTCP j = Option.bind (json_members j) (\<lambda>fs.
     Option.bind (get_string ''target_host'' fs) (\<lambda>h.
     map_option (\<lambda>p. \<lparr>bt_TargetHost = h, bt_TargetPort = p\<rparr>) (get_int64 ''target_port'' fs)))"

definition enc_BeginUDP :: "BeginUDP \<Rightarrow> json" where
  "enc_BeginUDP m = JObj [(''target_host'', JStr (bu_TargetHost m)), (''target_port'', jint (bu_TargetPort m))]"
definition dec_BeginUDP :: "json \<Rightarrow> BeginUDP option" where
  "dec_BeginUDP j = Option.bind (json_members j) (\<lambda>fs.
     Option.bind (get_string ''target_host'' fs) (\<lambda>h.
     map_option (\<lambda>p. \<lparr>bu_TargetHost = h, bu_TargetPort = p\<rparr>) (get_int64 ''target_port'' fs)))"

definition enc_Connected :: "Connected \<Rightarrow> json" where
  "enc_Connected m = JObj ([(''ok'', JBool (cn_OK m))]
     @ omitempty (cn_Error m = []) ''error'' (JStr (cn_Error m)))"
definition dec_Connected :: "json \<Rightarrow> Connected option" where
  "dec_Connected j = Option.bind (json_members j) (\<lambda>fs.
     Option.bind (get_bool ''ok'' fs) (\<lambda>b.
     map_option (\<lambda>e. \<lparr>cn_OK = b, cn_Error = e\<rparr>) (get_string ''error'' fs)))"

definition enc_DataCell :: "DataCell \<Rightarrow> json" where
  "enc_DataCell m = JObj [(''payload'', jbytes (dc_Payload m))]"
definition dec_DataCell :: "json \<Rightarrow> DataCell option" where
  "dec_DataCell j = Option.bind (json_members j) (\<lambda>fs.
     map_option (\<lambda>b. \<lparr>dc_Payload = b\<rparr>) (get_bytes ''payload'' fs))"

definition enc_EndCell :: "EndCell \<Rightarrow> json" where
  "enc_EndCell m = JObj (omitempty (ec_Reason m = []) ''reason'' (JStr (ec_Reason m)))"
definition dec_EndCell :: "json \<Rightarrow> EndCell option" where
  "dec_EndCell j = Option.bind (json_members j) (\<lambda>fs.
     map_option (\<lambda>s. \<lparr>ec_Reason = s\<rparr>) (get_string ''reason'' fs))"

definition enc_Ping :: "Ping \<Rightarrow> json" where
  "enc_Ping m = JObj [(''circuit_id'', JStr (pi_CircuitID m)), (''ping_id'', JStr (pi_PingID m)),
     (''sent_at_unix'', jint (pi_SentAtUnix m))]"
definition dec_Ping :: "json \<Rightarrow> Ping option" where
  "dec_Ping j = Option.bind (json_members j) (\<lambda>fs.
     Option.bind (get_string ''circuit_id'' fs) (\<lambda>c.
     Option.bind (get_string ''ping_id'' fs) (\<lambda>p.
     map_option (\<lambda>t. \<lparr>pi_CircuitID = c, pi_PingID = p, pi_SentAtUnix = t\<rparr>)
       (get_int64 ''sent_at_unix'' fs))))"

definition enc_Pong :: "Pong \<Rightarrow> json" where
  "enc_Pong m = JObj [(''circuit_id'', JStr (po_CircuitID m)), (''ping_id'', JStr (po_PingID m)),
     (''sent_at_unix'', jint (po_SentAtUnix m)), (''echo_at_unix'', jint (po_EchoAtUnix m))]"
definition dec_Pong :: "json \<Rightarrow> Pong option" where
  "dec_Pong j = Option.bind (json_members j) (\<lambda>fs.
     Option.bind (get_string ''circuit_id'' fs) (\<lambda>c.
     Option.bind (get_string ''ping_id'' fs) (\<lambda>p.
     Option.bind (get_int64 ''sent_at_unix'' fs) (\<lambda>t.
     map_option (\<lambda>e. \<lparr>po_CircuitID = c, po_PingID = p, po_SentAtUnix = t, po_EchoAtUnix = e\<rparr>)
       (get_int64 ''echo_at_unix'' fs)))))"

definition enc_KeyExchangeInit :: "KeyExchangeInit \<Rightarrow> json" where
  "enc_KeyExchangeInit m = JObj [(''payload'', jbytes (ki_Payload m))]"
definition dec_KeyExchangeInit :: "json \<Rightarrow> KeyExchangeInit option" where
  "dec_KeyExchangeInit j = Option.bind (json_members j) (\<lambda>fs.
     map_option (\<lambda>b. \<lparr>ki_Payload = b\<rparr>) (get_bytes ''payload'' fs))"

definition enc_KeyExchangeResp :: "KeyExchangeResp \<Rightarrow> json" where
  "enc_KeyExchangeResp m = JObj [(''payload'', jbytes (kr_Payload m))]"
definition dec_KeyExchangeResp :: "json \<Rightarrow> KeyExchangeResp option" where
  "dec_KeyExchangeResp j = Option.bind (json_members j) (\<lambda>fs.
     map_option (\<lambda>b. \<lparr>kr_Payload = b\<rparr>) (get_bytes ''payload'' fs))"

definition enc_OnionCell :: "OnionCell \<Rightarrow> json" where
  "enc_OnionCell m = JObj [(''hop_index'', jint (uint (oc_HopIndex m))), (''ciphertext'', jbytes (oc_Ciphertext m))]"
definition dec_OnionCell :: "json \<Rightarrow> OnionCell option" where
  "dec_OnionCell j = Option.bind (json_members j) (\<lambda>fs.
     Option.bind (get_uint 32 ''hop_index'' fs) (\<lambda>h.
     map_option (\<lambda>c. \<lparr>oc_HopIndex = of_int h, oc_Ciphertext = c\<rparr>) (get_bytes ''ciphertext'' fs)))"

definition enc_RelayLayerHeader :: "RelayLayerHeader \<Rightarrow> json" where
  "enc_RelayLayerHeader m = JObj ([(''next_peer_id'', JStr (rh_NextPeerID m)),
     (''inner_payload_type'', JStr (rh_InnerPayloadType m))]
     @ omitempty (rh_StreamID m = []) ''stream_id'' (JStr (rh_StreamID m))
     @ omitempty (rh_Flags m = 0) ''flags'' (jint (uint (rh_Flags m))))"
definition dec_RelayLayerHeader :: "json \<Rightarrow> RelayLayerHeader option" where
  "dec_RelayLayerHeader j = Option.bind (json_members j) (\<lambda>fs.
     Option.bind (get_string ''next_peer_id'' fs) (\<lambda>n.
     Option.bind (get_string ''inner_payload_type'' fs) (\<lambda>t.
     Option.bind (get_string ''stream_id'' fs) (\<lambda>s.
     map_option (\<lambda>f. \<lparr>rh_NextPeerID = n, rh_InnerPayloadType = t, rh_StreamID = s, rh_Flags = of_int f\<rparr>)
       (get_uint 8 ''flags'' fs)))))"

text \<open>An absent struct field (not a pointer) decodes to its zero value.\<close>

definition enc_OnionEnvelope :: "OnionEnvelope \<Rightarrow> json" where
  "enc_OnionEnvelope m = JObj [(''header'', enc_RelayLayerHeader (oe_Header m)),
     (''inner_ciphertext'', jbytes (oe_InnerCiphertext m))]"
definition dec_OnionEnvelope :: "json \<Rightarrow> OnionEnvelope option" where
  "dec_OnionEnvelope j = Option.bind (json_members j) (\<lambda>fs.
     Option.bind (dec_RelayLayerHeader (json_field ''header'' fs)) (\<lambda>h.
     map_option (\<lambda>c. \<lparr>oe_Header = h, oe_InnerCiphertext = c\<rparr>) (get_bytes ''inner_ciphertext'' fs)))"

definition opt_field :: "('a \<Rightarrow> json) \<Rightarrow> string \<Rightarrow> 'a option \<Rightarrow> (string \<times> json) list" where
  "opt_field enc k x = (case x of None \<Rightarrow> [] | Some v \<Rightarrow> [(k, enc v)])"

definition enc_OnionPayload :: "OnionPayload \<Rightarrow> json" where
  "enc_OnionPayload m = JObj ([(''kind'', JStr (op_Kind m))]
     @ opt_field enc_BeginTCP ''begin'' (op_Begin m)
     @ opt_field enc_BeginUDP ''begin_udp'' (op_BeginUDP m)
     @ opt_field enc_DataCell ''data'' (op_Data m)
     @ opt_field enc_EndCell ''end'' (op_End m)
     @ opt_field enc_Connected ''connected'' (op_Connected m)
     @ opt_field enc_Ping ''ping'' (op_Ping m)
     @ opt_field enc_Pong ''pong'' (op_Pong m)
     @ omitempty (op_Pad m = []) ''pad'' (JStr (op_Pad m)))"
definition dec_OnionPayload :: "json \<Rightarrow> OnionPayload option" where
  "dec_OnionPayload j = Option.bind (json_members j) (\<lambda>fs.
     Option.bind (get_string ''kind'' fs) (\<lambda>k.
     Option.bind (get_ptr dec_BeginTCP ''begin'' fs) (\<lambda>bt.
     Option.bind (get_ptr dec_BeginUDP ''begin_udp'' fs) (\<lambda>bu.
     Option.bind (get_ptr dec_DataCell ''data'' fs) (\<lambda>d.
     Option.bind (get_ptr dec_EndCell ''end'' fs) (\<lambda>e.
     Option.bind (get_ptr dec_Connected ''connected'' fs) (\<lambda>c.
     Option.bind (get_ptr dec_Ping ''ping'' fs) (\<lambda>pi.
     Option.bind (get_ptr dec_Pong ''pong'' fs) (\<lambda>po.
     map_option (\<lambda>pad. \<lparr>op_Kind = k, op_Begin = bt, op_BeginUDP = bu, op_Data = d, op_End = e,
         op_Connected = c, op_Ping = pi, op_Pong = po, op_Pad = pad\<rparr>)
       (get_string ''pad'' fs))))))))))"

text \<open>\<open>MarshalPaddedOnionPayload\<close> clears the padding and marshals.\<close>

definition MarshalPaddedOnionPayload :: "OnionPayload \<Rightarrow> bytes" where
  "MarshalPaddedOnionPayload p = json_marshal enc_OnionPayload (p\<lparr>op_Pad := []\<rparr>)"

subsection \<open>The tags keep their promise\<close>

lemma json_field_Nil [simp]: "json_field n [] = JNull"
  by (simp add: json_field_def)

lemma json_field_Cons:
  "json_field n ((k, v) # fs) =
     (if json_field n fs \<noteq> JNull then json_field n fs else if toLower k = toLower n then v else JNull)"
  by (auto simp: json_field_def dest!: filter_eq_ConsD split: list.splits)

lemma json_field_skip: "toLower k \<noteq> toLower n \<Longrightarrow> json_field n ((k, v) # fs) = json_field n fs"
  by (simp add: json_field_Cons)

lemma json_field_hit:
  "toLower k = toLower n \<Longrightarrow> json_field n fs = JNull \<Longrightarrow> json_field n ((k, v) # fs) = v"
  by (simp add: json_field_Cons)

lemma toLower_names:
  "toLower ''path_peer_ids'' = ''path_peer_ids''" "toLower ''next_peer_id'' = ''next_peer_id''" "toLower ''target_host'' = ''target_host''"
  "toLower ''target_port'' = ''target_port''" "toLower ''ok'' = ''ok''" "toLower ''error'' = ''error''"
  "toLower ''payload'' = ''payload''" "toLower ''reason'' = ''reason''" "toLower ''circuit_id'' = ''circuit_id''"
  "toLower ''ping_id'' = ''ping_id''" "toLower ''sent_at_unix'' = ''sent_at_unix''" "toLower ''echo_at_unix'' = ''echo_at_unix''"
  "toLower ''hop_index'' = ''hop_index''" "toLower ''ciphertext'' = ''ciphertext''" "toLower ''inner_payload_type'' = ''inner_payload_type''"
  "toLower ''stream_id'' = ''stream_id''" "toLower ''flags'' = ''flags''" "toLower ''header'' = ''header''"
  "toLower ''inner_ciphertext'' = ''inner_ciphertext''" "toLower ''kind'' = ''kind''" "toLower ''begin'' = ''begin''"
  "toLower ''begin_udp'' = ''begin_udp''" "toLower ''data'' = ''data''" "toLower ''end'' = ''end''"
  "toLower ''connected'' = ''connected''" "toLower ''ping'' = ''ping''" "toLower ''pong'' = ''pong''"
  "toLower ''pad'' = ''pad''"
  by (simp_all add: toLower_def to_lower_char_def)

lemma uint_bounds [simp]: "uint (a :: u32) \<le> 4294967295" "uint (b :: byte) \<le> 255"
  using unsigned_less [of a, where 'a = int] unsigned_less [of b, where 'a = int] by simp_all

lemma json_members_JObj [simp]: "json_members (JObj fs) = Some fs"
  by (simp add: json_members_def)

lemma get_atoms [simp]:
  "json_field n fs = JNull \<Longrightarrow> get_string n fs = Some []"
  "json_field n fs = JStr x \<Longrightarrow> get_string n fs = Some x"
  "json_field n fs = JBool b \<Longrightarrow> get_bool n fs = Some b"
  "json_field n fs = jbytes y \<Longrightarrow> get_bytes n fs = Some y"
  "json_field n fs = jstrings z \<Longrightarrow> get_strings n fs = Some z"
  "json_field n fs = jint i \<Longrightarrow> lo \<le> i \<Longrightarrow> i \<le> hi \<Longrightarrow> get_int lo hi n fs = Some i"
  "json_field n fs = JNull \<Longrightarrow> get_int lo hi n fs = Some 0"
  by (simp_all add: json_get_defs)

lemma get_ptr_simps [simp]:
  "json_field n fs = JNull \<Longrightarrow> get_ptr dec n fs = Some None"
  "json_field n fs = JObj ms \<Longrightarrow> get_ptr dec n fs = map_option Some (dec (JObj ms))"
  by (simp_all add: get_ptr_def)

lemma ascii_fields [simp]: "ascii (c # s) \<longleftrightarrow> code c < 128 \<and> ascii s"
  by simp

lemmas json_codec_simps = json_field_skip json_field_hit toLower_names omitempty_def int64_ok_def

interpretation codec_CreateCircuit: json_codec enc_CreateCircuit dec_CreateCircuit "\<lambda>m. list_all ascii (cc_PathPeerIDs m)"
  by unfold_locales (auto simp: enc_CreateCircuit_def dec_CreateCircuit_def json_codec_simps )

interpretation codec_Extend: json_codec enc_Extend dec_Extend "\<lambda>m. ascii (ex_NextPeerID m)"
  by unfold_locales (auto simp: enc_Extend_def dec_Extend_def json_codec_simps )

interpretation codec_BeginTCP: json_codec enc_BeginTCP dec_BeginTCP "\<lambda>m. ascii (bt_TargetHost m) \<and> int64_ok (bt_TargetPort m)"
  by unfold_locales (auto simp: enc_BeginTCP_def dec_BeginTCP_def json_codec_simps )

interpretation codec_BeginUDP: json_codec enc_BeginUDP dec_BeginUDP "\<lambda>m. ascii (bu_TargetHost m) \<and> int64_ok (bu_TargetPort m)"
  by unfold_locales (auto simp: enc_BeginUDP_def dec_BeginUDP_def json_codec_simps )

interpretation codec_Connected: json_codec enc_Connected dec_Connected "\<lambda>m. ascii (cn_Error m)"
  by unfold_locales (auto simp: enc_Connected_def dec_Connected_def json_codec_simps )

interpretation codec_DataCell: json_codec enc_DataCell dec_DataCell "\<lambda>_. True"
  by unfold_locales (auto simp: enc_DataCell_def dec_DataCell_def json_codec_simps )

interpretation codec_EndCell: json_codec enc_EndCell dec_EndCell "\<lambda>m. ascii (ec_Reason m)"
  by unfold_locales (auto simp: enc_EndCell_def dec_EndCell_def json_codec_simps )

interpretation codec_Ping: json_codec enc_Ping dec_Ping "\<lambda>m. ascii (pi_CircuitID m) \<and> ascii (pi_PingID m) \<and> int64_ok (pi_SentAtUnix m)"
  by unfold_locales (auto simp: enc_Ping_def dec_Ping_def json_codec_simps )

interpretation codec_Pong: json_codec enc_Pong dec_Pong "\<lambda>m. ascii (po_CircuitID m) \<and> ascii (po_PingID m) \<and> int64_ok (po_SentAtUnix m) \<and> int64_ok (po_EchoAtUnix m)"
  by unfold_locales (auto simp: enc_Pong_def dec_Pong_def json_codec_simps )

interpretation codec_KeyExchangeInit: json_codec enc_KeyExchangeInit dec_KeyExchangeInit "\<lambda>_. True"
  by unfold_locales (auto simp: enc_KeyExchangeInit_def dec_KeyExchangeInit_def json_codec_simps )

interpretation codec_KeyExchangeResp: json_codec enc_KeyExchangeResp dec_KeyExchangeResp "\<lambda>_. True"
  by unfold_locales (auto simp: enc_KeyExchangeResp_def dec_KeyExchangeResp_def json_codec_simps )

interpretation codec_OnionCell: json_codec enc_OnionCell dec_OnionCell "\<lambda>_. True"
  by unfold_locales (auto simp: enc_OnionCell_def dec_OnionCell_def json_codec_simps )

interpretation codec_RelayLayerHeader: json_codec enc_RelayLayerHeader dec_RelayLayerHeader "\<lambda>m. ascii (rh_NextPeerID m) \<and> ascii (rh_InnerPayloadType m) \<and> ascii (rh_StreamID m)"
  by unfold_locales (auto simp: enc_RelayLayerHeader_def dec_RelayLayerHeader_def json_codec_simps )


interpretation codec_OnionEnvelope: json_codec enc_OnionEnvelope dec_OnionEnvelope
  "\<lambda>m. ascii (rh_NextPeerID (oe_Header m)) \<and> ascii (rh_InnerPayloadType (oe_Header m)) \<and>
       ascii (rh_StreamID (oe_Header m))"
proof unfold_locales
  fix x :: OnionEnvelope
  assume "ascii (rh_NextPeerID (oe_Header x)) \<and> ascii (rh_InnerPayloadType (oe_Header x)) \<and>
       ascii (rh_StreamID (oe_Header x))"
  then have h: "json_ok (enc_RelayLayerHeader (oe_Header x))"
    "dec_RelayLayerHeader (enc_RelayLayerHeader (oe_Header x)) = Some (oe_Header x)"
    by (rule codec_RelayLayerHeader.enc_ok codec_RelayLayerHeader.dec_enc)+
  have n: "enc_RelayLayerHeader (oe_Header x) \<noteq> JNull" by (simp add: enc_RelayLayerHeader_def)
  show "json_ok (enc_OnionEnvelope x)" using h by (simp add: enc_OnionEnvelope_def)
  show "dec_OnionEnvelope (enc_OnionEnvelope x) = Some x"
    using h n by (simp add: enc_OnionEnvelope_def dec_OnionEnvelope_def json_codec_simps)
qed

text \<open>An onion payload is well-formed when its parts are; the padding is always empty.\<close>

definition OnionPayload_ok :: "OnionPayload \<Rightarrow> bool" where
  "OnionPayload_ok p \<longleftrightarrow> ascii (op_Kind p) \<and> ascii (op_Pad p) \<and>
     pred_option (\<lambda>m. ascii (bt_TargetHost m) \<and> int64_ok (bt_TargetPort m)) (op_Begin p) \<and>
     pred_option (\<lambda>m. ascii (bu_TargetHost m) \<and> int64_ok (bu_TargetPort m)) (op_BeginUDP p) \<and>
     pred_option (\<lambda>m. ascii (ec_Reason m)) (op_End p) \<and>
     pred_option (\<lambda>m. ascii (cn_Error m)) (op_Connected p) \<and>
     pred_option (\<lambda>m. ascii (pi_CircuitID m) \<and> ascii (pi_PingID m) \<and> int64_ok (pi_SentAtUnix m)) (op_Ping p) \<and>
     pred_option (\<lambda>m. ascii (po_CircuitID m) \<and> ascii (po_PingID m) \<and> int64_ok (po_SentAtUnix m)
                     \<and> int64_ok (po_EchoAtUnix m)) (op_Pong p)"

lemma get_ptr_Some:
  assumes "json_field n fs = v" "v \<noteq> JNull" "dec v = Some x"
  shows "get_ptr dec n fs = Some (Some x)"
  using assms by (cases v) (simp_all add: get_ptr_def)

lemma json_field_append:
  "json_field n (xs @ ys) = (if json_field n ys \<noteq> JNull then json_field n ys else json_field n xs)"
  by (induction xs) (auto simp: json_field_Cons)

lemma json_field_opt:
  "json_field n (opt_field enc k x) =
     (case x of None \<Rightarrow> JNull | Some v \<Rightarrow> if toLower k = toLower n then enc v else JNull)"
  by (simp add: opt_field_def json_field_Cons split: option.splits)

lemma json_field_omitempty:
  "json_field n (omitempty e k v) = (if \<not> e \<and> toLower k = toLower n then v else JNull)"
  by (simp add: omitempty_def json_field_Cons)

lemma get_ptr_opt:
  assumes "json_field n fs = (case x of None \<Rightarrow> JNull | Some v \<Rightarrow> enc v)"
    and "\<And>v. enc v \<noteq> JNull" and "\<And>v. x = Some v \<Longrightarrow> dec (enc v) = Some v"
  shows "get_ptr dec n fs = Some x"
  using assms by (cases x) (auto intro: get_ptr_Some)

lemma enc_not_null [simp]:
  "enc_BeginTCP a \<noteq> JNull" "enc_BeginUDP b \<noteq> JNull" "enc_DataCell c \<noteq> JNull" "enc_EndCell d \<noteq> JNull"
  "enc_Connected e \<noteq> JNull" "enc_Ping f \<noteq> JNull" "enc_Pong g \<noteq> JNull"
  by (simp_all add: enc_BeginTCP_def enc_BeginUDP_def enc_DataCell_def enc_EndCell_def
      enc_Connected_def enc_Ping_def enc_Pong_def)

lemma opt_not_null:
  "(\<And>v. enc v \<noteq> JNull) \<Longrightarrow> (case x of None \<Rightarrow> JNull | Some v \<Rightarrow> enc v) = JNull \<longleftrightarrow> x = None"
  by (cases x) auto

lemma opt_field_ok:
  "pred_option (\<lambda>v. json_ok (enc v)) x \<Longrightarrow> ascii k \<Longrightarrow>
   list_all (\<lambda>(k, v). ascii k \<and> json_ok v) (opt_field enc k x)"
  by (cases x) (auto simp: opt_field_def)

lemma OnionPayload_fields:
  fixes p :: OnionPayload
  defines "fs \<equiv> the (json_members (enc_OnionPayload p))"
  shows "json_field ''kind'' fs = JStr (op_Kind p)"
    "json_field ''begin'' fs = (case op_Begin p of None \<Rightarrow> JNull | Some v \<Rightarrow> enc_BeginTCP v)"
    "json_field ''begin_udp'' fs = (case op_BeginUDP p of None \<Rightarrow> JNull | Some v \<Rightarrow> enc_BeginUDP v)"
    "json_field ''data'' fs = (case op_Data p of None \<Rightarrow> JNull | Some v \<Rightarrow> enc_DataCell v)"
    "json_field ''end'' fs = (case op_End p of None \<Rightarrow> JNull | Some v \<Rightarrow> enc_EndCell v)"
    "json_field ''connected'' fs = (case op_Connected p of None \<Rightarrow> JNull | Some v \<Rightarrow> enc_Connected v)"
    "json_field ''ping'' fs = (case op_Ping p of None \<Rightarrow> JNull | Some v \<Rightarrow> enc_Ping v)"
    "json_field ''pong'' fs = (case op_Pong p of None \<Rightarrow> JNull | Some v \<Rightarrow> enc_Pong v)"
    "json_field ''pad'' fs = (if op_Pad p = [] then JNull else JStr (op_Pad p))"
  unfolding fs_def enc_OnionPayload_def
  by (simp_all add: json_field_append json_field_skip json_field_hit json_field_opt json_field_omitempty
      toLower_names split: option.split)

lemma OnionPayload_dec_enc:
  assumes "OnionPayload_ok p"
  shows "dec_OnionPayload (enc_OnionPayload p) = Some p"
proof -
  define fs where "fs = the (json_members (enc_OnionPayload p))"
  note f = OnionPayload_fields [of p, folded fs_def]
  have m: "json_members (enc_OnionPayload p) = Some fs" by (simp add: fs_def enc_OnionPayload_def)
  have "get_string ''kind'' fs = Some (op_Kind p)" by (rule get_atoms(2) [OF f(1)])
  moreover have "get_ptr dec_BeginTCP ''begin'' fs = Some (op_Begin p)"
    by (rule get_ptr_opt [OF f(2)]) (use assms in \<open>auto simp: OnionPayload_ok_def intro!: codec_BeginTCP.dec_enc\<close>)
  moreover have "get_ptr dec_BeginUDP ''begin_udp'' fs = Some (op_BeginUDP p)"
    by (rule get_ptr_opt [OF f(3)]) (use assms in \<open>auto simp: OnionPayload_ok_def intro!: codec_BeginUDP.dec_enc\<close>)
  moreover have "get_ptr dec_DataCell ''data'' fs = Some (op_Data p)"
    by (rule get_ptr_opt [OF f(4)]) (auto intro!: codec_DataCell.dec_enc)
  moreover have "get_ptr dec_EndCell ''end'' fs = Some (op_End p)"
    by (rule get_ptr_opt [OF f(5)]) (use assms in \<open>auto simp: OnionPayload_ok_def intro!: codec_EndCell.dec_enc\<close>)
  moreover have "get_ptr dec_Connected ''connected'' fs = Some (op_Connected p)"
    by (rule get_ptr_opt [OF f(6)]) (use assms in \<open>auto simp: OnionPayload_ok_def intro!: codec_Connected.dec_enc\<close>)
  moreover have "get_ptr dec_Ping ''ping'' fs = Some (op_Ping p)"
    by (rule get_ptr_opt [OF f(7)]) (use assms in \<open>auto simp: OnionPayload_ok_def intro!: codec_Ping.dec_enc\<close>)
  moreover have "get_ptr dec_Pong ''pong'' fs = Some (op_Pong p)"
    by (rule get_ptr_opt [OF f(8)]) (use assms in \<open>auto simp: OnionPayload_ok_def intro!: codec_Pong.dec_enc\<close>)
  moreover have "get_string ''pad'' fs = Some (op_Pad p)"
    using f(9) by (simp add: get_string_def)
  ultimately show ?thesis by (simp add: dec_OnionPayload_def m)
qed

lemma OnionPayload_enc_ok:
  assumes "OnionPayload_ok p"
  shows "json_ok (enc_OnionPayload p)"
proof -
  have "pred_option (\<lambda>v. json_ok (enc_BeginTCP v)) (op_Begin p)"
    "pred_option (\<lambda>v. json_ok (enc_BeginUDP v)) (op_BeginUDP p)"
    "pred_option (\<lambda>v. json_ok (enc_EndCell v)) (op_End p)"
    "pred_option (\<lambda>v. json_ok (enc_Connected v)) (op_Connected p)"
    "pred_option (\<lambda>v. json_ok (enc_Ping v)) (op_Ping p)"
    "pred_option (\<lambda>v. json_ok (enc_Pong v)) (op_Pong p)"
    using assms unfolding OnionPayload_ok_def
    by (auto elim!: option.pred_mono_strong intro: codec_BeginTCP.enc_ok codec_BeginUDP.enc_ok
        codec_EndCell.enc_ok codec_Connected.enc_ok codec_Ping.enc_ok codec_Pong.enc_ok)
  moreover have "pred_option (\<lambda>v. json_ok (enc_DataCell v)) (op_Data p)"
    by (cases "op_Data p") (auto intro: codec_DataCell.enc_ok)
  ultimately show ?thesis using assms
    by (simp add: enc_OnionPayload_def opt_field_ok omitempty_def OnionPayload_ok_def)
qed

interpretation codec_OnionPayload: json_codec enc_OnionPayload dec_OnionPayload OnionPayload_ok
  by unfold_locales (auto intro: OnionPayload_enc_ok OnionPayload_dec_enc)

end
