(* ===== verification/Frames.thy ===== *)
theory Frames
  imports Wire
begin

text \<open>
  The frame layer of \<open>internal/protocol/codec.go\<close>: \<open>WriteFrame\<close> as its sequence of
  writes, \<open>ReadFrame\<close> with its checks and slice expressions, the constructors of the
  frame types, and the reading loop of \<open>StartStreamReader\<close>. Shown: what is written is
  read back, frames do not run into each other, the decoder consumes exactly the announced
  length and no input makes it panic.
\<close>

section \<open>Writing\<close>

definition frameLength :: "Frame \<Rightarrow> nat" where
  "frameLength f = 2 + 2 + 4 + length (f_CircuitID f) + 4 + length (f_StreamID f)
                   + 4 + length (f_PayloadJSON f)"

text \<open>
  The writes of \<open>WriteFrame\<close>, in order. The conversions \<open>uint32(len(..))\<close> wrap; the
  reserved field repeats the two bytes of the type, as the source writes \<open>buf[:2]\<close> again.
\<close>

definition frameWrites :: "Frame \<Rightarrow> bytes list" where
  "frameWrites f =
     (let cid = bytes_of_string (f_CircuitID f);
          sid = bytes_of_string (f_StreamID f);
          payload = f_PayloadJSON f
      in [putUint32 (of_nat (frameLength f)), putUint16 (f_Type f), putUint16 (f_Type f),
          putUint32 (of_nat (length cid)), cid,
          putUint32 (of_nat (length sid)), sid,
          putUint32 (of_nat (length payload)), payload])"

definition WriteFrame :: "'w writer \<Rightarrow> 'w \<Rightarrow> Frame \<Rightarrow> go_error option \<times> 'w" where
  "WriteFrame wr w f = writeAll wr w (frameWrites f)"

section \<open>Reading\<close>

text \<open>A length-prefixed field of the frame body: its bytes and the offset behind it.\<close>

definition frameField :: "string \<Rightarrow> string \<Rightarrow> bytes \<Rightarrow> nat \<Rightarrow> (bytes \<times> nat) result" where
  "frameField errLen errBody body offset =
     (if length body < offset + 4 then Inl (Errorf errLen) else
      res_bind (go_slice body offset (offset + 4)) (\<lambda>l.
      let n = unat (getUint32 l); offset' = offset + 4 in
      if length body < offset' + n then Inl (Errorf errBody) else
      res_bind (go_slice body offset' (offset' + n)) (\<lambda>x. Inr (x, offset' + n))))"

definition decodeFrameBody :: "bytes \<Rightarrow> Frame result" where
  "decodeFrameBody body =
     (if length body < 2 then Inl (Errorf ''truncated frame'') else
      res_bind (go_slice body 0 2) (\<lambda>t.
      res_bind (frameField ''truncated frame (cid len)'' ''truncated frame (cid)'' body 4) (\<lambda>(cid, o1).
      res_bind (frameField ''truncated frame (sid len)'' ''truncated frame (sid)'' body o1) (\<lambda>(sid, o2).
      res_bind (frameField ''truncated frame (payload len)'' ''truncated frame (payload)'' body o2) (\<lambda>(pl, o3).
      Inr \<lparr>f_Type = getUint16 t, f_CircuitID = string_of_bytes cid, f_StreamID = string_of_bytes sid,
           f_PayloadJSON = pl\<rparr>)))))"

definition ReadFrame :: "bytes \<Rightarrow> (Frame \<times> bytes) result" where
  "ReadFrame r =
     res_bind (readFull 4 r) (\<lambda>(header, r1).
     let len = unat (getUint32 header) in
     if len = 0 then Inl (Errorf ''invalid frame length 0'') else
     res_bind (readFull len r1) (\<lambda>(body, r2).
     res_bind (decodeFrameBody body) (\<lambda>f. Inr (f, r2))))"

text \<open>
  \<open>StartStreamReader\<close> without cancellation: the frames handed to the handler and the
  error that ends the loop.
\<close>

function StartStreamReader :: "bytes \<Rightarrow> Frame list \<times> go_error" where
  "StartStreamReader r = (case ReadFrame r of Inl e \<Rightarrow> ([], e)
     | Inr (f, r') \<Rightarrow> if length r' < length r
         then (let (fs, e) = StartStreamReader r' in (f # fs, e)) else ([], Panic))"
  by pat_completeness auto
termination by (relation "measure length") auto

declare StartStreamReader.simps [simp del]

section \<open>Frame constructors\<close>

definition NewCreateFrame :: "string \<Rightarrow> CreateCircuit \<Rightarrow> Frame" where
  "NewCreateFrame cid msg = \<lparr>f_Type = MsgTypeCreate, f_CircuitID = cid, f_StreamID = '''',
     f_PayloadJSON = json_marshal enc_CreateCircuit msg\<rparr>"
definition NewExtendFrame :: "string \<Rightarrow> Extend \<Rightarrow> Frame" where
  "NewExtendFrame cid msg = \<lparr>f_Type = MsgTypeExtend, f_CircuitID = cid, f_StreamID = '''',
     f_PayloadJSON = json_marshal enc_Extend msg\<rparr>"
definition NewBeginTCPFrame :: "string \<Rightarrow> string \<Rightarrow> BeginTCP \<Rightarrow> Frame" where
  "NewBeginTCPFrame cid sid msg = \<lparr>f_Type = MsgTypeBeginTCP, f_CircuitID = cid, f_StreamID = sid,
     f_PayloadJSON = json_marshal enc_BeginTCP msg\<rparr>"
definition NewBeginUDPFrame :: "string \<Rightarrow> string \<Rightarrow> BeginUDP \<Rightarrow> Frame" where
  "NewBeginUDPFrame cid sid msg = \<lparr>f_Type = MsgTypeBeginUDP, f_CircuitID = cid, f_StreamID = sid,
     f_PayloadJSON = json_marshal enc_BeginUDP msg\<rparr>"
definition NewConnectedFrame :: "string \<Rightarrow> string \<Rightarrow> Connected \<Rightarrow> Frame" where
  "NewConnectedFrame cid sid msg = \<lparr>f_Type = MsgTypeConnected, f_CircuitID = cid, f_StreamID = sid,
     f_PayloadJSON = json_marshal enc_Connected msg\<rparr>"
definition NewDataFrame :: "string \<Rightarrow> string \<Rightarrow> bytes \<Rightarrow> Frame" where
  "NewDataFrame cid sid payload = \<lparr>f_Type = MsgTypeData, f_CircuitID = cid, f_StreamID = sid,
     f_PayloadJSON = json_marshal enc_DataCell \<lparr>dc_Payload = payload\<rparr>\<rparr>"
definition NewEndFrame :: "string \<Rightarrow> string \<Rightarrow> string \<Rightarrow> Frame" where
  "NewEndFrame cid sid reason = \<lparr>f_Type = MsgTypeEnd, f_CircuitID = cid, f_StreamID = sid,
     f_PayloadJSON = json_marshal enc_EndCell \<lparr>ec_Reason = reason\<rparr>\<rparr>"
definition NewKeyExchangeInitFrame :: "string \<Rightarrow> bytes \<Rightarrow> Frame" where
  "NewKeyExchangeInitFrame cid payload = \<lparr>f_Type = MsgTypeKeyExchangeInit, f_CircuitID = cid,
     f_StreamID = '''', f_PayloadJSON = json_marshal enc_KeyExchangeInit \<lparr>ki_Payload = payload\<rparr>\<rparr>"
definition NewKeyExchangeRespFrame :: "string \<Rightarrow> bytes \<Rightarrow> Frame" where
  "NewKeyExchangeRespFrame cid payload = \<lparr>f_Type = MsgTypeKeyExchangeResp, f_CircuitID = cid,
     f_StreamID = '''', f_PayloadJSON = json_marshal enc_KeyExchangeResp \<lparr>kr_Payload = payload\<rparr>\<rparr>"
definition NewOnionDataFrame :: "string \<Rightarrow> string \<Rightarrow> OnionCell \<Rightarrow> Frame" where
  "NewOnionDataFrame cid sid cell = \<lparr>f_Type = MsgTypeOnionData, f_CircuitID = cid, f_StreamID = sid,
     f_PayloadJSON = json_marshal enc_OnionCell cell\<rparr>"

lemmas NewFrame_defs = NewCreateFrame_def NewExtendFrame_def NewBeginTCPFrame_def NewBeginUDPFrame_def
  NewConnectedFrame_def NewDataFrame_def NewEndFrame_def NewKeyExchangeInitFrame_def
  NewKeyExchangeRespFrame_def NewOnionDataFrame_def

section \<open>Lemmas\<close>

lemma unat_of_nat_u32 [simp]: "n < 2 ^ 32 \<Longrightarrow> unat (of_nat n :: u32) = n"
  by (simp add: unat_of_nat)

text \<open>A field laid out at an offset of the body is read from there.\<close>

lemma frameField_at:
  assumes "body = pre @ putUint32 (of_nat (length x)) @ x @ post" "length x < 2 ^ 32"
  shows "frameField e1 e2 body (length pre) = Inr (x, length pre + 4 + length x)"
  using assms by (simp add: frameField_def go_slice_def)

definition frameBody :: "Frame \<Rightarrow> bytes" where
  "frameBody f = concat (tl (frameWrites f))"

lemma concat_frameWrites: "concat (frameWrites f) = putUint32 (of_nat (frameLength f)) @ frameBody f"
  by (simp add: frameBody_def frameWrites_def Let_def)

lemma length_frameBody [simp]: "length (frameBody f) = frameLength f"
  by (simp add: frameBody_def frameWrites_def frameLength_def Let_def)

lemma decodeFrameBody_frameBody:
  assumes "frameLength f < 2 ^ 32"
  shows "decodeFrameBody (frameBody f) = Inr f"
proof -
  let ?t = "putUint16 (f_Type f)"
  let ?c = "bytes_of_string (f_CircuitID f)" and ?s = "bytes_of_string (f_StreamID f)"
  let ?p = "f_PayloadJSON f"
  let ?F = "\<lambda>x. putUint32 (of_nat (length x)) @ x"
  have body: "frameBody f = (?t @ ?t) @ ?F ?c @ ?F ?s @ ?F ?p"
    by (simp add: frameBody_def frameWrites_def Let_def)
  have lens: "length ?c < 2 ^ 32" "length ?s < 2 ^ 32" "length ?p < 2 ^ 32"
    using assms by (simp_all add: frameLength_def)
  have len: "length (frameBody f) = 16 + length ?c + length ?s + length ?p"
    by (simp add: frameLength_def)
  have 0: "go_slice (frameBody f) 0 2 = Inr ?t" using body by (simp add: go_slice_def)
  have 1: "frameField e1 e2 (frameBody f) 4 = Inr (?c, 8 + length ?c)" for e1 e2
    using frameField_at [of "frameBody f" "?t @ ?t" ?c "?F ?s @ ?F ?p" e1 e2] body lens by simp
  have 2: "frameField e1 e2 (frameBody f) (8 + length ?c) = Inr (?s, 12 + length ?c + length ?s)" for e1 e2
    using frameField_at [of "frameBody f" "(?t @ ?t) @ ?F ?c" ?s "?F ?p" e1 e2] body lens by simp
  have 3: "frameField e1 e2 (frameBody f) (12 + length ?c + length ?s)
      = Inr (?p, 16 + length ?c + length ?s + length ?p)" for e1 e2
    using frameField_at [of "frameBody f" "(?t @ ?t) @ ?F ?c @ ?F ?s" ?p "[]" e1 e2] body lens by (simp add: ac_simps)
  show ?thesis using len 0 1 2 3 by (simp add: decodeFrameBody_def)
qed

lemma ReadFrame_frameWrites:
  assumes "frameLength f < 2 ^ 32"
  shows "ReadFrame (concat (frameWrites f) @ rest) = Inr (f, rest)"
proof -
  have "frameLength f \<noteq> 0" by (simp add: frameLength_def)
  with assms show ?thesis
    by (simp add: ReadFrame_def concat_frameWrites decodeFrameBody_frameBody)
qed

lemma frameField_no_panic: "frameField e1 e2 body offset \<noteq> Inl Panic"
  by (auto simp: frameField_def Let_def go_slice_def)

lemma decodeFrameBody_no_panic: "decodeFrameBody body \<noteq> Inl Panic"
  using frameField_no_panic by (auto simp: decodeFrameBody_def go_slice_def go_simps split: prod.splits)

lemma frameField_bounds:
  "frameField e1 e2 body offset = Inr (x, n) \<Longrightarrow>
     n \<le> length body \<and> n = offset + 4 + length x \<and> x = take (length x) (drop (offset + 4) body)"
  by (auto simp: frameField_def Let_def go_slice_def split: if_splits)

lemma ReadFrame_shorter: "ReadFrame r = Inr (f, rest) \<Longrightarrow> length rest < length r"
  by (auto simp: ReadFrame_def Let_def go_simps split: prod.splits if_splits)

lemma StartStreamReader_Cons:
  "frameLength f < 2 ^ 32 \<Longrightarrow> StartStreamReader (concat (frameWrites f) @ r)
     = (let (fs, e) = StartStreamReader r in (f # fs, e))"
  using ReadFrame_shorter [OF ReadFrame_frameWrites [of f r]]
  by (subst StartStreamReader.simps) (simp add: ReadFrame_frameWrites)

end
