(* ===== verification/Go_Sha256.thy ===== *)
theory Go_Sha256
  imports Prelude
begin

text \<open>
  \<open>crypto/sha256\<close> (FIPS 180-4) as an executable function on byte lists; the program uses
  it to derive nonces and to hash what it signs.
\<close>

unbundle bit_operations_syntax

definition rotr :: "nat \<Rightarrow> u32 \<Rightarrow> u32" where
  "rotr n x = drop_bit n x OR push_bit (32 - n) x"

text \<open>
  The constants of the standard: the round constants are the first 32 fractional bits of the
  cube roots of the first 64 primes, the initial hash value those of the square roots of the
  first eight. \<open>iroot k b m\<close> is the largest number below \<open>2 ^ b\<close> whose \<open>k\<close>-th power is at
  most \<open>m\<close>, found bit by bit.
\<close>

primrec iroot_step :: "nat \<Rightarrow> int \<Rightarrow> int \<Rightarrow> nat \<Rightarrow> int" where
  "iroot_step k m r 0 = r"
| "iroot_step k m r (Suc b) =
     iroot_step k m (if (r + 2 ^ b) ^ k \<le> m then r + 2 ^ b else r) b"

definition iroot :: "nat \<Rightarrow> nat \<Rightarrow> int \<Rightarrow> int" where
  "iroot k b m = iroot_step k m 0 b"

definition primes_upto :: "int \<Rightarrow> int list" where
  "primes_upto n = filter (\<lambda>p. list_all (\<lambda>d. p mod d \<noteq> 0) [2..p - 1]) [2..n]"

definition frac_root :: "nat \<Rightarrow> int \<Rightarrow> u32" where
  "frac_root k p = word_of_int (iroot k 40 (p * 2 ^ (32 * k)))"

definition sha_k :: "u32 list" where
  "sha_k = map (frac_root 3) (primes_upto 311)"

definition sha_h0 :: "u32 list" where
  "sha_h0 = map (frac_root 2) (primes_upto 19)"

text \<open>The message schedule, kept newest word first while it is extended to 64 words.\<close>

primrec sha_extend :: "nat \<Rightarrow> u32 list \<Rightarrow> u32 list" where
  "sha_extend 0 ws = ws"
| "sha_extend (Suc n) ws =
     (let a = ws ! 14; b = ws ! 1;
          s0 = rotr 7 a XOR rotr 18 a XOR drop_bit 3 a;
          s1 = rotr 17 b XOR rotr 19 b XOR drop_bit 10 b
      in sha_extend n ((ws ! 15 + s0 + ws ! 6 + s1) # ws))"

fun sha_round :: "u32 list \<Rightarrow> u32 \<times> u32 \<Rightarrow> u32 list" where
  "sha_round [a, b, c, d, e, f, g, h] (k, w) =
     (let s1 = rotr 6 e XOR rotr 11 e XOR rotr 25 e;
          ch = (e AND f) XOR (NOT e AND g);
          t1 = h + s1 + ch + k + w;
          s0 = rotr 2 a XOR rotr 13 a XOR rotr 22 a;
          maj = (a AND b) XOR (a AND c) XOR (b AND c)
      in [t1 + s0 + maj, a, b, c, d + t1, e, f, g])"
| "sha_round hs _ = hs"

fun words_of_bytes :: "bytes \<Rightarrow> u32 list" where
  "words_of_bytes (a # b # c # d # r) = getUint32 [a, b, c, d] # words_of_bytes r"
| "words_of_bytes _ = []"

definition sha_block :: "u32 list \<Rightarrow> bytes \<Rightarrow> u32 list" where
  "sha_block hs blk =
     (let ws = rev (sha_extend 48 (rev (words_of_bytes blk)))
      in map2 (+) hs (foldl sha_round hs (zip sha_k ws)))"

function sha_blocks :: "u32 list \<Rightarrow> bytes \<Rightarrow> u32 list" where
  "sha_blocks hs m = (if length m < 64 then hs else sha_blocks (sha_block hs (take 64 m)) (drop 64 m))"
  by pat_completeness auto
termination by (relation "measure (length \<circ> snd)") auto

declare sha_blocks.simps [simp del]

definition sha_pad :: "bytes \<Rightarrow> bytes" where
  "sha_pad m = m @ [0x80] @ replicate ((119 - length m mod 64) mod 64) 0 @ be_encode 8 (8 * length m)"

definition sha256 :: "bytes \<Rightarrow> bytes" where
  "sha256 m = concat (map putUint32 (sha_blocks sha_h0 (sha_pad m)))"

lemma length_sha_round [simp]: "length (sha_round hs kw) = length hs"
  by (cases "(hs, kw)" rule: sha_round.cases) (simp_all add: Let_def)

lemma length_foldl_round [simp]: "length (foldl sha_round hs kws) = length hs"
  by (induction kws arbitrary: hs) auto

lemma length_sha_blocks [simp]: "length (sha_blocks hs m) = length hs"
proof (induction hs m rule: sha_blocks.induct)
  case (1 hs m)
  then show ?case by (subst sha_blocks.simps) (simp add: sha_block_def Let_def)
qed

lemma length_concat_putUint32: "length (concat (map putUint32 ws)) = 4 * length ws"
  by (induction ws) auto

lemma iroot_step_bounds:
  assumes "r ^ k \<le> m" and "m < (r + 2 ^ b) ^ k"
  shows "iroot_step k m r b ^ k \<le> m \<and> m < (iroot_step k m r b + 1) ^ k"
  using assms
proof (induction b arbitrary: r)
  case 0
  then show ?case by simp
next
  case (Suc b)
  have "r + 2 ^ b + 2 ^ b = r + 2 * 2 ^ b" by simp
  with Suc.IH [of "r + 2 ^ b"] Suc.IH [of r] Suc.prems show ?case by (simp add: not_le)
qed

lemma iroot_spec:
  "0 \<le> m \<Longrightarrow> m < (2 ^ b) ^ k \<Longrightarrow> 0 < k \<Longrightarrow> iroot k b m ^ k \<le> m \<and> m < (iroot k b m + 1) ^ k"
  unfolding iroot_def by (rule iroot_step_bounds) (simp_all add: zero_power)

lemma primes_upto_19: "primes_upto 19 = [2, 3, 5, 7, 11, 13, 17, 19]"
  by code_simp

lemma length_sha_h0 [simp]: "length sha_h0 = 8"
  by (simp add: sha_h0_def primes_upto_19)

lemma length_sha256 [simp]: "length (sha256 m) = 32"
  by (simp add: sha256_def length_concat_putUint32)

lemma sha_pad_multiple: "length (sha_pad m) mod 64 = 0"
proof -
  obtain q r where m: "length m = 64 * q + r" and r: "r < 64"
    by (metis div_mult_mod_eq mod_less_divisor mult.commute zero_less_numeral)
  have "length (sha_pad m) = 64 * q + r + 9 + (119 - r) mod 64"
    using m r by (simp add: sha_pad_def)
  moreover have "(r + 9 + (119 - r) mod 64) mod 64 = 0"
  proof -
    have "(r + 9 + (119 - r)) mod 64 = 0" using r by simp
    then show ?thesis by (simp add: mod_add_right_eq)
  qed
  ultimately show ?thesis by (simp add: add.assoc)
qed

end
