(* ===== verification/Hop_Crypto.thy ===== *)
theory Hop_Crypto
  imports Wire Go_Sha256
begin

unbundle bit_operations_syntax

text \<open>
  The cryptographic layer of \<open>internal/protocol/crypto.go\<close>: key exchange, key
  derivation, nonces, additional data and the AEAD calls, and the \<open>HopSession\<close> of
  \<open>types.go\<close>. The primitives come from golang.org/x/crypto and are a parameter, the record
  \<open>crypto\<close>; what the program relies on is stated by the predicates \<open>aead_correct\<close>,
  \<open>aead_binds_aad\<close>, \<open>hkdf_sized\<close> and \<open>dh_agree\<close>, which the record \<open>demo_crypto\<close>
  satisfies. Shown here: nonces and additional data are injective, sealing and opening agree,
  and the two ends of a key exchange derive the same keys.
\<close>

section \<open>Primitives\<close>

record crypto =
  x25519 :: "bytes \<Rightarrow> bytes \<Rightarrow> bytes option"
  x25519_base :: bytes
  hkdf_sha3 :: "bytes \<Rightarrow> string \<Rightarrow> nat \<Rightarrow> bytes"
  aead_seal :: "bytes \<Rightarrow> bytes \<Rightarrow> bytes \<Rightarrow> bytes \<Rightarrow> bytes"
  aead_open :: "bytes \<Rightarrow> bytes \<Rightarrow> bytes \<Rightarrow> bytes \<Rightarrow> bytes option"

text \<open>Opening what was sealed under the same key, nonce and additional data gives it back.\<close>

definition aead_correct :: "crypto \<Rightarrow> bool" where
  "aead_correct C \<longleftrightarrow> (\<forall>k n p a. aead_open C k n (aead_seal C k n p a) a = Some p)"

text \<open>Opening under other additional data is rejected.\<close>

definition aead_binds_aad :: "crypto \<Rightarrow> bool" where
  "aead_binds_aad C \<longleftrightarrow> (\<forall>k n p a a'. a \<noteq> a' \<longrightarrow> aead_open C k n (aead_seal C k n p a) a' = None)"

definition hkdf_sized :: "crypto \<Rightarrow> bool" where
  "hkdf_sized C \<longleftrightarrow> (\<forall>s i n. length (hkdf_sha3 C s i n) = n)"

text \<open>Two private keys agree: each private key with the other's public key gives the same secret.\<close>

definition dh_agree :: "crypto \<Rightarrow> bytes \<Rightarrow> bytes \<Rightarrow> bool" where
  "dh_agree C a b \<longleftrightarrow> (\<exists>pa pb s. x25519 C a (x25519_base C) = Some pa \<and> x25519 C b (x25519_base C) = Some pb
     \<and> length pa = 32 \<and> length pb = 32 \<and> x25519 C a pb = Some s \<and> x25519 C b pa = Some s)"

section \<open>Constants and key exchange\<close>

definition X25519KeySize :: nat where "X25519KeySize = 32"
definition AEADKeySize :: nat where "AEADKeySize = 32"
definition AEADNonceSize :: nat where "AEADNonceSize = 12"

definition HKDFLabelForward :: string where "HKDFLabelForward = ''meshproxy-hop-fwd''"
definition HKDFLabelBackward :: string where "HKDFLabelBackward = ''meshproxy-hop-bwd''"
definition HKDFLabelChatSession0 :: string where "HKDFLabelChatSession0 = ''mesh-proxy/chat/e2ee/v1/hkdf-0''"
definition HKDFLabelChatSession1 :: string where "HKDFLabelChatSession1 = ''mesh-proxy/chat/e2ee/v1/hkdf-1''"
definition HKDFLabelOfflineFriendAEAD :: string where
  "HKDFLabelOfflineFriendAEAD = ''mesh-proxy/chat/offline_friend_e2ee/v1/aead-key''"

text \<open>The random bytes are an argument; the private key is clamped as X25519 requires.\<close>

definition clampKey :: "bytes \<Rightarrow> bytes" where
  "clampKey priv = (let p0 = priv[0 := (priv ! 0) AND 248];
                        p1 = p0[31 := (p0 ! 31) AND 127]
                    in p1[31 := (p1 ! 31) OR 64])"

definition GenerateEphemeralKeyPair :: "crypto \<Rightarrow> bytes \<Rightarrow> (bytes \<times> bytes) result" where
  "GenerateEphemeralKeyPair C rnd =
     res_bind (readFull X25519KeySize rnd) (\<lambda>(r, _).
     let priv = clampKey r in
     res_bind (of_option (Errorf ''x25519'') (x25519 C priv (x25519_base C))) (\<lambda>pub. Inr (priv, pub)))"

definition X25519SharedSecret :: "crypto \<Rightarrow> bytes \<Rightarrow> bytes \<Rightarrow> bytes result" where
  "X25519SharedSecret C localPriv remotePub =
     (if length localPriv \<noteq> X25519KeySize \<or> length remotePub \<noteq> X25519KeySize
      then Inl (Errorf ''x25519: invalid key size'')
      else of_option (Errorf ''x25519'') (x25519 C localPriv remotePub))"

definition DeriveHopKeys :: "crypto \<Rightarrow> bytes \<Rightarrow> bytes \<times> bytes" where
  "DeriveHopKeys C shared = (hkdf_sha3 C shared HKDFLabelForward AEADKeySize,
                             hkdf_sha3 C shared HKDFLabelBackward AEADKeySize)"

definition DeriveChatSessionKeys :: "crypto \<Rightarrow> bytes \<Rightarrow> bytes \<times> bytes" where
  "DeriveChatSessionKeys C shared = (hkdf_sha3 C shared HKDFLabelChatSession0 AEADKeySize,
                                     hkdf_sha3 C shared HKDFLabelChatSession1 AEADKeySize)"

definition DeriveOfflineFriendAEADKey :: "crypto \<Rightarrow> bytes \<Rightarrow> bytes" where
  "DeriveOfflineFriendAEADKey C shared = hkdf_sha3 C shared HKDFLabelOfflineFriendAEAD AEADKeySize"

section \<open>Nonces and additional data\<close>

definition BuildAEADNonce :: "string \<Rightarrow> u64 \<Rightarrow> bytes" where
  "BuildAEADNonce direction counter =
     putUint64 counter @ [if direction = ''bwd'' then 1 else 0] @ [0, 0, 0]"

definition groupChatNonceLabel :: bytes where
  "groupChatNonceLabel = bytes_of_string ''mesh-proxy/chat/group_aead_nonce/v1'' @ [0]"
definition chatFileChunkNonceLabel :: bytes where
  "chatFileChunkNonceLabel = bytes_of_string ''mesh-proxy/chat/file_chunk_aead_nonce/v1'' @ [0]"

definition groupChatNonceInput :: "string \<Rightarrow> string \<Rightarrow> u64 \<Rightarrow> bytes" where
  "groupChatNonceInput groupID senderPeerID senderSeq =
     groupChatNonceLabel @ bytes_of_string groupID @ [0] @ bytes_of_string senderPeerID @ [0] @ putUint64 senderSeq"

definition BuildGroupChatNonce :: "string \<Rightarrow> string \<Rightarrow> u64 \<Rightarrow> bytes" where
  "BuildGroupChatNonce groupID senderPeerID senderSeq =
     take AEADNonceSize (sha256 (groupChatNonceInput groupID senderPeerID senderSeq))"

definition BuildChatFileChunkNonce :: "string \<Rightarrow> u64 \<Rightarrow> bytes" where
  "BuildChatFileChunkNonce msgID offset =
     take AEADNonceSize (sha256 (chatFileChunkNonceLabel @ bytes_of_string msgID @ [0] @ putUint64 offset))"

definition BuildAAD :: "string \<Rightarrow> string \<Rightarrow> string \<Rightarrow> byte \<Rightarrow> bytes" where
  "BuildAAD circuitID streamID direction layerIndex =
     bytes_of_string circuitID @ [0] @ bytes_of_string streamID @ [0] @ bytes_of_string direction @ [0, layerIndex]"

section \<open>AEAD\<close>

text \<open>\<open>chacha20poly1305.New\<close> refuses a key of the wrong size; \<open>Seal\<close> and \<open>Open\<close> panic on a nonce of the wrong size.\<close>

definition AEADSeal :: "crypto \<Rightarrow> bytes \<Rightarrow> bytes \<Rightarrow> bytes \<Rightarrow> bytes \<Rightarrow> bytes result" where
  "AEADSeal C key nonce plaintext aad =
     (if length key \<noteq> AEADKeySize then Inl (Errorf ''chacha20poly1305: bad key length'')
      else if length nonce \<noteq> AEADNonceSize then Inl Panic
      else Inr (aead_seal C key nonce plaintext aad))"

definition AEADOpen :: "crypto \<Rightarrow> bytes \<Rightarrow> bytes \<Rightarrow> bytes \<Rightarrow> bytes \<Rightarrow> bytes result" where
  "AEADOpen C key nonce ciphertext aad =
     (if length key \<noteq> AEADKeySize then Inl (Errorf ''chacha20poly1305: bad key length'')
      else if length nonce \<noteq> AEADNonceSize then Inl Panic
      else of_option (Errorf ''chacha20poly1305: message authentication failed'')
             (aead_open C key nonce ciphertext aad))"

definition AEADOpenGroupMessage ::
  "crypto \<Rightarrow> bytes \<Rightarrow> string \<Rightarrow> string \<Rightarrow> u64 \<Rightarrow> bytes \<Rightarrow> bytes \<Rightarrow> bytes result" where
  "AEADOpenGroupMessage C key groupID senderPeerID senderSeq aad ciphertext =
     (case AEADOpen C key (BuildGroupChatNonce groupID senderPeerID senderSeq) ciphertext aad of
        Inr plain \<Rightarrow> Inr plain
      | Inl _ \<Rightarrow> AEADOpen C key (BuildAEADNonce ''fwd'' senderSeq) ciphertext aad)"

section \<open>Hop sessions\<close>

datatype HopRole = HopRoleRelay | HopRoleExit

record HopSession =
  hs_PeerID :: string
  hs_Role :: HopRole
  hs_SharedSecret :: bytes
  hs_ForwardKey :: bytes
  hs_BackwardKey :: bytes
  hs_ForwardCounter :: u64
  hs_BackwardCounter :: u64
  hs_CreatedAt :: int

definition NewHopSessionFromKeyExchange ::
  "crypto \<Rightarrow> string \<Rightarrow> HopRole \<Rightarrow> bytes \<Rightarrow> bytes \<Rightarrow> int \<Rightarrow> HopSession result" where
  "NewHopSessionFromKeyExchange C peerID role localPriv remotePub createdAt =
     res_bind (X25519SharedSecret C localPriv remotePub) (\<lambda>shared.
     let (fwd, bwd) = DeriveHopKeys C shared in
     Inr \<lparr>hs_PeerID = peerID, hs_Role = role, hs_SharedSecret = shared, hs_ForwardKey = fwd,
          hs_BackwardKey = bwd, hs_ForwardCounter = 0, hs_BackwardCounter = 0, hs_CreatedAt = createdAt\<rparr>)"

section \<open>A concrete instance of the primitives\<close>

text \<open>
  Not a cipher: an instance that satisfies the stated laws, used to evaluate the model on
  concrete inputs. The ciphertext carries key, nonce, additional data and plaintext, the
  first three in a self-delimiting form.
\<close>

definition demo_block :: "bytes \<Rightarrow> bytes" where
  "demo_block b = concat (map (\<lambda>x. [1, x]) b) @ [0]"

fun demo_strip :: "bytes \<Rightarrow> bytes \<Rightarrow> bytes option" where
  "demo_strip [] c = Some c"
| "demo_strip (x # xs) (y # ys) = (if x = y then demo_strip xs ys else None)"
| "demo_strip (x # xs) [] = None"

definition demo_pad :: "nat \<Rightarrow> bytes \<Rightarrow> bytes" where
  "demo_pad n b = take n (b @ replicate n 0)"

definition demo_x25519 :: "bytes \<Rightarrow> bytes \<Rightarrow> bytes option" where
  "demo_x25519 a b = (if length a = 32 \<and> length b = 32 then Some (map2 (XOR) a b) else None)"

definition demo_crypto :: crypto where
  "demo_crypto = \<lparr>x25519 = demo_x25519, x25519_base = replicate 32 9,
     hkdf_sha3 = (\<lambda>s i n. demo_pad n (bytes_of_string (rev i) @ s)),
     aead_seal = (\<lambda>k n p a. demo_block k @ demo_block n @ demo_block a @ p),
     aead_open = (\<lambda>k n c a. demo_strip (demo_block k @ demo_block n @ demo_block a) c)\<rparr>"

lemma demo_strip_append [simp]: "demo_strip x (x @ y) = Some y"
  by (induction x) auto

lemma demo_strip_Some: "demo_strip x c = Some y \<Longrightarrow> c = x @ y"
  by (induction x c rule: demo_strip.induct) (auto split: if_splits)

lemma demo_block_inject [simp]: "demo_block a @ x = demo_block b @ y \<longleftrightarrow> a = b \<and> x = y"
proof (induction a arbitrary: b)
  case Nil
  then show ?case by (cases b) (auto simp: demo_block_def)
next
  case (Cons c a)
  show ?case
  proof (cases b)
    case Nil
    then show ?thesis by (simp add: demo_block_def)
  next
    case (Cons d b')
    with Cons.IH [of b'] show ?thesis by (auto simp: demo_block_def)
  qed
qed

lemma demo_aead_correct [simp]: "aead_correct demo_crypto"
proof -
  have "demo_strip (x @ y @ z) (x @ y @ z @ p) = Some p" for x y z p
    using demo_strip_append [of "x @ y @ z" p] by simp
  then show ?thesis by (simp add: aead_correct_def demo_crypto_def)
qed

lemma demo_aead_binds_aad [simp]: "aead_binds_aad demo_crypto"
proof -
  have False if "demo_strip (demo_block k @ demo_block n @ demo_block a')
      (demo_block k @ demo_block n @ demo_block a @ p) = Some y" "a \<noteq> a'" for k n a a' p y
    using demo_strip_Some [OF that(1)] that(2) by simp
  then show ?thesis by (auto simp: aead_binds_aad_def demo_crypto_def) (meson not_None_eq)
qed

lemma length_demo_pad [simp]: "length (demo_pad n b) = n"
  by (simp add: demo_pad_def)

lemma demo_hkdf_sized [simp]: "hkdf_sized demo_crypto"
  by (simp add: hkdf_sized_def demo_crypto_def)

lemma map2_xor_swap:
  fixes a b c :: bytes
  shows "length a = length b \<Longrightarrow> length b = length c \<Longrightarrow>
     map2 (XOR) a (map2 (XOR) b c) = map2 (XOR) b (map2 (XOR) a c)"
  by (induction a b c rule: list_induct3) (auto simp: xor.left_commute)

lemma demo_dh_agree:
  assumes "length a = 32" "length b = 32"
  shows "dh_agree demo_crypto a b"
  using assms map2_xor_swap [of a b "replicate 32 9"]
  by (simp add: dh_agree_def demo_crypto_def demo_x25519_def)

section \<open>Lemmas\<close>

lemma length_BuildAEADNonce [simp]: "length (BuildAEADNonce d c) = AEADNonceSize"
  by (simp add: BuildAEADNonce_def AEADNonceSize_def)

lemma length_chat_nonces [simp]:
  "length (BuildGroupChatNonce g p s) = AEADNonceSize"
  "length (BuildChatFileChunkNonce m off) = AEADNonceSize"
  by (simp_all add: BuildGroupChatNonce_def BuildChatFileChunkNonce_def AEADNonceSize_def)

lemma BuildAEADNonce_eq_iff [simp]:
  "BuildAEADNonce d c = BuildAEADNonce d' c' \<longleftrightarrow> c = c' \<and> (d = ''bwd'' \<longleftrightarrow> d' = ''bwd'')"
  by (auto simp: BuildAEADNonce_def)

definition no_nul :: "string \<Rightarrow> bool" where
  "no_nul s \<longleftrightarrow> CHR 0x00 \<notin> set s"

lemma byte_of_char_0 [simp]: "byte_of_char c = 0 \<longleftrightarrow> c = CHR 0x00"
proof
  assume "byte_of_char c = 0"
  then have "char_of_byte (byte_of_char c) = char_of_byte 0" by simp
  then have "c = char_of (0 :: nat)" by (simp add: char_of_byte_def)
  also have "\<dots> = CHR 0x00" by code_simp
  finally show "c = CHR 0x00" .
qed (simp add: byte_of_char_def)

lemma no_nul_bytes: "no_nul s \<longleftrightarrow> 0 \<notin> set (bytes_of_string s)"
  by (auto simp: no_nul_def bytes_of_string_def image_iff)

lemma split_at_nul:
  assumes "0 \<notin> set a" "0 \<notin> set b" "a @ (0 :: byte) # x = b @ 0 # y"
  shows "a = b \<and> x = y"
  using assms
proof (induction a arbitrary: b)
  case Nil
  then show ?case by (cases b) auto
next
  case (Cons c a)
  then show ?case by (cases b) auto
qed

lemma split_at_nul_string:
  assumes "no_nul s" "no_nul t" "bytes_of_string s @ 0 # x = bytes_of_string t @ 0 # y"
  shows "s = t \<and> x = y"
  using split_at_nul [OF _ _ assms(3)] assms(1,2) by (simp add: no_nul_bytes)

lemma BuildAAD_inject:
  assumes "no_nul c" "no_nul c'" "no_nul s" "no_nul s'"
    and eq: "BuildAAD c s d l = BuildAAD c' s' d' l'"
  shows "c = c' \<and> s = s' \<and> d = d' \<and> l = l'"
proof -
  let ?D = "bytes_of_string d @ [0, l]" and ?D' = "bytes_of_string d' @ [0, l']"
  have "bytes_of_string c @ 0 # bytes_of_string s @ 0 # ?D
      = bytes_of_string c' @ 0 # bytes_of_string s' @ 0 # ?D'"
    using eq by (simp only: BuildAAD_def append_Cons append_Nil append_assoc)
  from split_at_nul_string [OF assms(1,2) this]
  have c: "c = c'" and r: "bytes_of_string s @ 0 # ?D = bytes_of_string s' @ 0 # ?D'" by blast+
  from split_at_nul_string [OF assms(3,4) r] have s: "s = s'" and t: "?D = ?D'" by blast+
  from t have "(bytes_of_string d @ [0]) @ [l] = (bytes_of_string d' @ [0]) @ [l']" by simp
  then have "d = d' \<and> l = l'" by (simp only: append1_eq_conv bytes_of_string_eq_iff)
  with c s show ?thesis by simp
qed

lemma BuildAAD_layer [simp]: "BuildAAD c s d l = BuildAAD c s d l' \<longleftrightarrow> l = l'"
  by (simp add: BuildAAD_def)

lemma AEADOpen_Seal [simp]:
  assumes "aead_correct C" "length k = AEADKeySize" "length n = AEADNonceSize"
  shows "AEADSeal C k n p a = Inr (aead_seal C k n p a)"
    "AEADOpen C k n (aead_seal C k n p a) a = Inr p"
  using assms by (simp_all add: AEADSeal_def AEADOpen_def aead_correct_def)

lemma AEADOpen_other_aad:
  assumes "aead_binds_aad C" "length k = AEADKeySize" "length n = AEADNonceSize" "a \<noteq> a'"
  shows "AEADOpen C k n (aead_seal C k n p a) a' = Inl (Errorf ''chacha20poly1305: message authentication failed'')"
  using assms by (simp add: AEADOpen_def aead_binds_aad_def)

lemma length_DeriveHopKeys:
  "hkdf_sized C \<Longrightarrow> DeriveHopKeys C s = (f, b) \<Longrightarrow> length f = AEADKeySize \<and> length b = AEADKeySize"
  by (auto simp: DeriveHopKeys_def hkdf_sized_def)

lemma length_clampKey [simp]: "length (clampKey p) = length p"
  by (simp add: clampKey_def Let_def)

lemma GenerateEphemeralKeyPair_priv:
  "GenerateEphemeralKeyPair C rnd = Inr (priv, pub) \<Longrightarrow>
     length priv = X25519KeySize \<and> x25519 C priv (x25519_base C) = Some pub"
  by (auto simp: GenerateEphemeralKeyPair_def Let_def go_simps)

end
