(* ===== verification/Onion.thy ===== *)
theory Onion
  imports Hop_Crypto
begin

text \<open>
  The onion layers of \<open>internal/protocol/onion.go\<close>. A session is a record that the code
  reaches through a pointer and whose counters it advances, so every operation returns the
  updated session beside its result, on the error paths too. The recursive description
  \<open>onion\<close> states what a wrapped message is; \<open>WrapForward\<close> refines it, the first hop peels
  exactly one layer of it, and the layer index that goes into the additional data is
  absolute on the sending side and always 0 on the receiving side.
\<close>

section \<open>Operations\<close>

definition fwdEnvelope :: "string \<Rightarrow> string \<Rightarrow> bytes \<Rightarrow> OnionEnvelope" where
  "fwdEnvelope nextPeer streamID inner =
     \<lparr>oe_Header = \<lparr>rh_NextPeerID = nextPeer, rh_InnerPayloadType = InnerPayloadTypeOnion,
                   rh_StreamID = streamID, rh_Flags = 0\<rparr>,
      oe_InnerCiphertext = inner\<rparr>"

definition bumpFwd :: "HopSession \<Rightarrow> HopSession" where
  "bumpFwd h = h\<lparr>hs_ForwardCounter := hs_ForwardCounter h + 1\<rparr>"

definition bumpBwd :: "HopSession \<Rightarrow> HopSession" where
  "bumpBwd h = h\<lparr>hs_BackwardCounter := hs_BackwardCounter h + 1\<rparr>"

text \<open>
  The loop \<open>for i := len(hops)-1; i >= 0; i--\<close>; the number counts the layers still to be
  added, so the current index is one less.
\<close>

fun wrapForwardLoop ::
  "crypto \<Rightarrow> HopSession list \<Rightarrow> string \<Rightarrow> string \<Rightarrow> nat \<Rightarrow> bytes \<Rightarrow> bytes result \<times> HopSession list" where
  "wrapForwardLoop C hops circuitID streamID 0 plaintext = (Inr plaintext, hops)"
| "wrapForwardLoop C hops circuitID streamID (Suc i) plaintext =
     (let hop = hops ! i;
          toEncrypt = (if i = length hops - 1 then plaintext
                       else json_marshal enc_OnionEnvelope
                              (fwdEnvelope (hs_PeerID (hops ! (i + 1))) streamID plaintext));
          nonce = BuildAEADNonce ''fwd'' (hs_ForwardCounter hop);
          hops' = hops[i := bumpFwd hop];
          aad = BuildAAD circuitID streamID ''fwd'' (of_nat i)
      in case AEADSeal C (hs_ForwardKey hop) nonce toEncrypt aad of
           Inl e \<Rightarrow> (Inl e, hops')
         | Inr ct \<Rightarrow> wrapForwardLoop C hops' circuitID streamID i ct)"

definition WrapForward ::
  "crypto \<Rightarrow> HopSession list \<Rightarrow> string \<Rightarrow> string \<Rightarrow> bytes \<Rightarrow> bytes result \<times> HopSession list" where
  "WrapForward C hops circuitID streamID innerPlaintext =
     (if hops = [] then (Inl (Errorf ''onion: no hops''), hops)
      else wrapForwardLoop C hops circuitID streamID (length hops) innerPlaintext)"

definition UnwrapForward ::
  "crypto \<Rightarrow> HopSession \<Rightarrow> string \<Rightarrow> string \<Rightarrow> bytes \<Rightarrow> (RelayLayerHeader \<times> bytes) result \<times> HopSession" where
  "UnwrapForward C hop circuitID streamID ciphertext =
     (let nonce = BuildAEADNonce ''fwd'' (hs_ForwardCounter hop);
          hop' = bumpFwd hop;
          aad = BuildAAD circuitID streamID ''fwd'' 0
      in case AEADOpen C (hs_ForwardKey hop) nonce ciphertext aad of
           Inl e \<Rightarrow> (Inl e, hop')
         | Inr plain \<Rightarrow>
             (case json_unmarshal dec_OnionEnvelope plain of
                None \<Rightarrow> (Inl (Errorf ''onion unmarshal envelope''), hop')
              | Some env \<Rightarrow> (Inr (oe_Header env, oe_InnerCiphertext env), hop')))"

definition UnwrapForwardFinal ::
  "crypto \<Rightarrow> HopSession \<Rightarrow> string \<Rightarrow> string \<Rightarrow> bytes \<Rightarrow> bytes result \<times> HopSession" where
  "UnwrapForwardFinal C hop circuitID streamID ciphertext =
     (let nonce = BuildAEADNonce ''fwd'' (hs_ForwardCounter hop);
          hop' = bumpFwd hop;
          aad = BuildAAD circuitID streamID ''fwd'' 0
      in (AEADOpen C (hs_ForwardKey hop) nonce ciphertext aad, hop'))"

fun wrapBackwardLoop ::
  "crypto \<Rightarrow> HopSession list \<Rightarrow> string \<Rightarrow> string \<Rightarrow> nat \<Rightarrow> bytes \<Rightarrow> bytes result \<times> HopSession list" where
  "wrapBackwardLoop C hops circuitID streamID 0 plaintext = (Inr plaintext, hops)"
| "wrapBackwardLoop C hops circuitID streamID (Suc i) plaintext =
     (let hop = hops ! i;
          toEncrypt = (if i = length hops - 1 then plaintext
                       else json_marshal enc_OnionEnvelope
                              (fwdEnvelope (hs_PeerID (hops ! (i + 1))) streamID plaintext));
          nonce = BuildAEADNonce ''bwd'' (hs_BackwardCounter hop);
          hops' = hops[i := bumpBwd hop];
          aad = BuildAAD circuitID streamID ''bwd'' (of_nat i)
      in case AEADSeal C (hs_BackwardKey hop) nonce toEncrypt aad of
           Inl e \<Rightarrow> (Inl e, hops')
         | Inr ct \<Rightarrow> wrapBackwardLoop C hops' circuitID streamID i ct)"

definition WrapBackward ::
  "crypto \<Rightarrow> HopSession list \<Rightarrow> string \<Rightarrow> string \<Rightarrow> bytes \<Rightarrow> bytes result \<times> HopSession list" where
  "WrapBackward C hops circuitID streamID innerPlaintext =
     (if hops = [] then (Inl (Errorf ''onion: no hops for backward''), hops)
      else wrapBackwardLoop C hops circuitID streamID (length hops) innerPlaintext)"

definition UnwrapBackward ::
  "crypto \<Rightarrow> HopSession \<Rightarrow> string \<Rightarrow> string \<Rightarrow> bytes \<Rightarrow> bytes result \<times> HopSession" where
  "UnwrapBackward C hop circuitID streamID ciphertext =
     (let nonce = BuildAEADNonce ''bwd'' (hs_BackwardCounter hop);
          hop' = bumpBwd hop;
          aad = BuildAAD circuitID streamID ''bwd'' 0
      in (AEADOpen C (hs_BackwardKey hop) nonce ciphertext aad, hop'))"

section \<open>What a wrapped message is\<close>

definition sealFwd :: "crypto \<Rightarrow> HopSession \<Rightarrow> string \<Rightarrow> string \<Rightarrow> nat \<Rightarrow> bytes \<Rightarrow> bytes" where
  "sealFwd C h circuitID streamID i p =
     aead_seal C (hs_ForwardKey h) (BuildAEADNonce ''fwd'' (hs_ForwardCounter h)) p
       (BuildAAD circuitID streamID ''fwd'' (of_nat i))"

fun onion :: "crypto \<Rightarrow> string \<Rightarrow> string \<Rightarrow> nat \<Rightarrow> HopSession list \<Rightarrow> bytes \<Rightarrow> bytes" where
  "onion C cid sid i [] p = p"
| "onion C cid sid i [h] p = sealFwd C h cid sid i p"
| "onion C cid sid i (h # g # hs) p =
     sealFwd C h cid sid i (json_marshal enc_OnionEnvelope
       (fwdEnvelope (hs_PeerID g) sid (onion C cid sid (Suc i) (g # hs) p)))"

definition keyed :: "HopSession \<Rightarrow> bool" where
  "keyed h \<longleftrightarrow> length (hs_ForwardKey h) = AEADKeySize \<and> length (hs_BackwardKey h) = AEADKeySize"

text \<open>The two ends of a session agree on the forward direction, or on the backward direction.\<close>

definition fwd_sync :: "HopSession \<Rightarrow> HopSession \<Rightarrow> bool" where
  "fwd_sync a b \<longleftrightarrow> hs_ForwardKey a = hs_ForwardKey b \<and> hs_ForwardCounter a = hs_ForwardCounter b"

definition bwd_sync :: "HopSession \<Rightarrow> HopSession \<Rightarrow> bool" where
  "bwd_sync a b \<longleftrightarrow> hs_BackwardKey a = hs_BackwardKey b \<and> hs_BackwardCounter a = hs_BackwardCounter b"

lemma bump_simps [simp]:
  "hs_ForwardKey (bumpFwd h) = hs_ForwardKey h" "hs_PeerID (bumpFwd h) = hs_PeerID h"
  "hs_ForwardCounter (bumpFwd h) = hs_ForwardCounter h + 1" "hs_BackwardKey (bumpBwd h) = hs_BackwardKey h"
  "hs_BackwardCounter (bumpBwd h) = hs_BackwardCounter h + 1" "hs_BackwardKey (bumpFwd h) = hs_BackwardKey h"
  "hs_BackwardCounter (bumpFwd h) = hs_BackwardCounter h" "hs_ForwardKey (bumpBwd h) = hs_ForwardKey h"
  "hs_ForwardCounter (bumpBwd h) = hs_ForwardCounter h" "keyed (bumpFwd h) = keyed h"
  "keyed (bumpBwd h) = keyed h"
  by (simp_all add: bumpFwd_def bumpBwd_def keyed_def)

lemma fwd_sync_bump: "fwd_sync a b \<Longrightarrow> fwd_sync (bumpFwd a) (bumpFwd b)"
  by (simp add: fwd_sync_def)

lemma bwd_sync_bump: "bwd_sync a b \<Longrightarrow> bwd_sync (bumpBwd a) (bumpBwd b)"
  by (simp add: bwd_sync_def)

lemma onion_Suc_drop:
  assumes "Suc i < length hops"
  shows "onion C cid sid i (drop i hops) p = sealFwd C (hops ! i) cid sid i (json_marshal enc_OnionEnvelope
      (fwdEnvelope (hs_PeerID (hops ! Suc i)) sid (onion C cid sid (Suc i) (drop (Suc i) hops) p)))"
proof -
  have "drop i hops = hops ! i # drop (Suc i) hops" using assms by (simp add: Cons_nth_drop_Suc)
  moreover have "drop (Suc i) hops = hops ! Suc i # drop (Suc (Suc i)) hops"
    using assms by (simp add: Cons_nth_drop_Suc)
  ultimately show ?thesis by simp
qed

lemma onion_last_drop:
  assumes "Suc i = length hops"
  shows "onion C cid sid i (drop i hops) p = sealFwd C (hops ! i) cid sid i p"
proof -
  have "drop i hops = [hops ! i]" using assms by (metis Cons_nth_drop_Suc drop_all lessI order_refl)
  then show ?thesis by simp
qed

text \<open>
  After the layers from index \<open>k\<close> outwards have been added, the loop holds the onion of
  the last hops, and exactly their counters have advanced.
\<close>

lemma wrapForwardLoop_onion:
  assumes "k \<le> length hops" "hops \<noteq> []" "\<forall>h \<in> set hops. keyed h" "k < length hops \<or> q = p"
    and "k < length hops \<Longrightarrow> q = onion C cid sid k (drop k hops) p"
  shows "wrapForwardLoop C (take k hops @ map bumpFwd (drop k hops)) cid sid k q
    = (Inr (onion C cid sid 0 hops p), map bumpFwd hops)"
  using assms
proof (induction k arbitrary: q)
  case 0
  then show ?case by simp
next
  case (Suc i)
  let ?h = "hops ! i" and ?s = "take (Suc i) hops @ map bumpFwd (drop (Suc i) hops)"
  have i: "i < length hops" using Suc.prems by simp
  have nth: "?s ! i = ?h" and len: "length ?s = length hops" using i by (simp_all add: nth_append)
  have next_peer: "hs_PeerID (?s ! Suc i) = hs_PeerID (hops ! Suc i)" if "Suc i < length hops"
    using that by (simp add: nth_append)
  have key: "length (hs_ForwardKey ?h) = AEADKeySize" using Suc.prems(3) i by (simp add: keyed_def)
  have upd: "?s[i := bumpFwd ?h] = take i hops @ map bumpFwd (drop i hops)"
    using i by (simp add: take_Suc_conv_app_nth list_update_append Cons_nth_drop_Suc [symmetric])
  define m where "m = (if i = length hops - 1 then q
     else json_marshal enc_OnionEnvelope (fwdEnvelope (hs_PeerID (hops ! Suc i)) sid q))"
  have onion_i: "sealFwd C ?h cid sid i m = onion C cid sid i (drop i hops) p"
  proof (cases "Suc i = length hops")
    case True
    then have "i = length hops - 1" by simp
    with True show ?thesis using Suc.prems(4) by (simp add: m_def onion_last_drop)
  next
    case False
    then have "Suc i < length hops" and "i \<noteq> length hops - 1" using i by simp_all
    with Suc.prems(5) onion_Suc_drop [of i hops C cid sid p] show ?thesis by (simp add: m_def)
  qed
  have seal: "AEADSeal C (hs_ForwardKey ?h) (BuildAEADNonce ''fwd'' (hs_ForwardCounter ?h)) m
      (BuildAAD cid sid ''fwd'' (of_nat i)) = Inr (sealFwd C ?h cid sid i m)"
    using key by (simp add: AEADSeal_def sealFwd_def)
  have m: "(if i = length ?s - 1 then q
     else json_marshal enc_OnionEnvelope (fwdEnvelope (hs_PeerID (?s ! (i + 1))) sid q)) = m"
    using len i next_peer by (auto simp: m_def)
  have "wrapForwardLoop C ?s cid sid (Suc i) q
      = wrapForwardLoop C (take i hops @ map bumpFwd (drop i hops)) cid sid i (sealFwd C ?h cid sid i m)"
    unfolding wrapForwardLoop.simps Let_def m nth by (simp only: seal upd sum.case)
  also have "\<dots> = (Inr (onion C cid sid 0 hops p), map bumpFwd hops)"
    using Suc.prems i onion_i by (intro Suc.IH) auto
  finally show ?case .
qed

lemma WrapForward_onion:
  assumes "hops \<noteq> []" "\<forall>h \<in> set hops. keyed h"
  shows "WrapForward C hops cid sid p = (Inr (onion C cid sid 0 hops p), map bumpFwd hops)"
  using wrapForwardLoop_onion [of "length hops" hops p p C cid sid] assms
  by (simp add: WrapForward_def)

text \<open>The first hop peels one layer; a session of its own key and counter cannot open any other.\<close>

lemma UnwrapForward_onion:
  assumes "aead_correct C" "keyed h" "fwd_sync h r" "ascii (hs_PeerID g)" "ascii sid"
  shows "UnwrapForward C r cid sid (onion C cid sid 0 (h # g # hs) p)
    = (Inr (oe_Header (fwdEnvelope (hs_PeerID g) sid []), onion C cid sid 1 (g # hs) p), bumpFwd r)"
proof -
  let ?env = "fwdEnvelope (hs_PeerID g) sid (onion C cid sid (Suc 0) (g # hs) p)"
  have env: "json_unmarshal dec_OnionEnvelope (json_marshal enc_OnionEnvelope ?env) = Some ?env"
    by (rule codec_OnionEnvelope.unmarshal_marshal) (use assms in \<open>simp add: fwdEnvelope_def kind_defs\<close>)
  have "AEADOpen C (hs_ForwardKey r) (BuildAEADNonce ''fwd'' (hs_ForwardCounter r))
      (onion C cid sid 0 (h # g # hs) p) (BuildAAD cid sid ''fwd'' 0) = Inr (json_marshal enc_OnionEnvelope ?env)"
    using assms(1-3) by (simp add: sealFwd_def fwd_sync_def keyed_def)
  with env show ?thesis by (simp add: UnwrapForward_def Let_def) (simp add: fwdEnvelope_def)
qed

lemma UnwrapForwardFinal_seal:
  assumes "aead_correct C" "keyed h" "fwd_sync h r"
  shows "UnwrapForwardFinal C r cid sid (sealFwd C h cid sid 0 p) = (Inr p, bumpFwd r)"
  using assms by (simp add: UnwrapForwardFinal_def Let_def sealFwd_def fwd_sync_def keyed_def)

lemma UnwrapForwardFinal_inner_layer:
  assumes "aead_binds_aad C" "keyed h" "fwd_sync h r" "i mod 256 \<noteq> 0"
  shows "UnwrapForwardFinal C r cid sid (sealFwd C h cid sid i p)
    = (Inl (Errorf ''chacha20poly1305: message authentication failed''), bumpFwd r)"
proof -
  have "(of_nat i :: byte) \<noteq> 0"
    using assms(4) by (simp add: word_of_nat_eq_0_iff dvd_eq_mod_eq_0)
  then have "BuildAAD cid sid ''fwd'' (of_nat i) \<noteq> BuildAAD cid sid ''fwd'' 0" by simp
  from AEADOpen_other_aad [OF assms(1) _ _ this] assms(2,3) show ?thesis
    by (simp add: UnwrapForwardFinal_def Let_def sealFwd_def fwd_sync_def keyed_def)
qed

section \<open>Streams of messages\<close>

text \<open>A client that wraps messages for its only hop, and the hop that opens them, in lock step.\<close>

fun directExchange ::
  "crypto \<Rightarrow> string \<Rightarrow> HopSession \<Rightarrow> HopSession \<Rightarrow> (string \<times> bytes) list \<Rightarrow> bytes result list" where
  "directExchange C cid client exitHop [] = []"
| "directExchange C cid client exitHop ((sid, m) # ms) =
     (case WrapForward C [client] cid sid m of
        (Inr ct, hops) \<Rightarrow>
          (let (r, exit') = UnwrapForwardFinal C exitHop cid sid ct
           in r # directExchange C cid (hops ! 0) exit' ms)
      | (Inl e, _) \<Rightarrow> [Inl e])"

lemma WrapForward_single:
  "keyed h \<Longrightarrow> WrapForward C [h] cid sid p = (Inr (sealFwd C h cid sid 0 p), [bumpFwd h])"
  by (simp add: WrapForward_onion)

lemma directExchange_delivers_aux:
  "aead_correct C \<Longrightarrow> keyed h \<Longrightarrow> fwd_sync h r \<Longrightarrow>
     directExchange C cid h r ms = map (\<lambda>(sid, m). Inr m) ms"
proof (induction ms arbitrary: h r)
  case Nil
  then show ?case by simp
next
  case (Cons x ms)
  obtain sid m where x: "x = (sid, m)" by (cases x)
  have "directExchange C cid (bumpFwd h) (bumpFwd r) ms = map (\<lambda>(sid, m). Inr m) ms"
    using Cons.prems by (intro Cons.IH) (simp_all add: fwd_sync_bump)
  with Cons.prems x show ?case by (simp add: WrapForward_single UnwrapForwardFinal_seal)
qed

text \<open>The relay step: open one layer and put the inner ciphertext into a cell for the next hop.\<close>

definition relayPeel ::
  "crypto \<Rightarrow> HopSession \<Rightarrow> string \<Rightarrow> string \<Rightarrow> bytes \<Rightarrow> (string \<times> bytes) result \<times> HopSession" where
  "relayPeel C relay cid sid ct =
     (case UnwrapForward C relay cid sid ct of
        (Inl e, r') \<Rightarrow> (Inl e, r')
      | (Inr (header, inner), r') \<Rightarrow> (Inr (rh_NextPeerID header, inner), r'))"

section \<open>Properties\<close>

text \<open>
  C5. \<open>WrapForward\<close> refines the recursive description of an onion for a path of any
  length: the result is the onion of the whole path, and the forward counter of every
  hop has advanced by exactly one.
\<close>

theorem WrapForward_refines_onion:
  assumes "hops \<noteq> []" and "\<forall>h \<in> set hops. keyed h"
  shows "WrapForward C hops cid sid p = (Inr (onion C cid sid 0 hops p), map bumpFwd hops)"
  using assms by (rule WrapForward_onion)

definition demo_session :: "string \<Rightarrow> HopSession" where
  "demo_session pid = \<lparr>hs_PeerID = pid, hs_Role = HopRoleRelay, hs_SharedSecret = replicate 32 7,
     hs_ForwardKey = replicate 32 1, hs_BackwardKey = replicate 32 2, hs_ForwardCounter = 0,
     hs_BackwardCounter = 0, hs_CreatedAt = 0\<rparr>"

lemma keyed_demo [simp]: "keyed (demo_session pid)"
  by (simp add: keyed_def demo_session_def AEADKeySize_def)

lemma peer_demo: "hs_PeerID (demo_session pid) = pid"
  by (simp add: demo_session_def)

lemma sync_demo [simp]: "fwd_sync (demo_session a) (demo_session b)"
  by (simp add: fwd_sync_def demo_session_def)

theorem WrapForward_refines_onion_witness:
  "WrapForward demo_crypto [demo_session ''r'', demo_session ''e''] ''c'' ''s'' [1, 2]
     = (Inr (onion demo_crypto ''c'' ''s'' 0 [demo_session ''r'', demo_session ''e''] [1, 2]),
        [bumpFwd (demo_session ''r''), bumpFwd (demo_session ''e'')])"
  using WrapForward_refines_onion [of "[demo_session ''r'', demo_session ''e'']" demo_crypto "''c''" "''s''" "[1, 2]"]
  by simp

text \<open>
  A relay peels exactly one layer of what the client wrapped for a path of two or more
  hops: it learns the next hop's peer ID and gets the onion of the rest of the path,
  unopened.
\<close>

theorem relay_peels_one_layer:
  assumes "aead_correct C" "\<forall>x \<in> set (h # g # hs). keyed x" "fwd_sync h r"
    and "ascii (hs_PeerID g)" "ascii sid"
    and "WrapForward C (h # g # hs) cid sid p = (Inr ct, hops')"
  shows "relayPeel C r cid sid ct = (Inr (hs_PeerID g, onion C cid sid 1 (g # hs) p), bumpFwd r)
     \<and> fwd_sync (hops' ! 0) (bumpFwd r)"
proof -
  have "ct = onion C cid sid 0 (h # g # hs) p" and h': "hops' = map bumpFwd (h # g # hs)"
    using assms(2,6) by (simp_all add: WrapForward_onion)
  with UnwrapForward_onion [OF assms(1) _ assms(3,4,5), of cid hs p] assms(2)
  have "relayPeel C r cid sid ct = (Inr (hs_PeerID g, onion C cid sid 1 (g # hs) p), bumpFwd r)"
    by (simp add: relayPeel_def fwdEnvelope_def)
  with h' assms(3) show ?thesis by (simp add: fwd_sync_bump)
qed

theorem relay_peels_one_layer_witness:
  "\<exists>ct hops'. WrapForward demo_crypto [demo_session ''r'', demo_session ''e''] ''c'' ''s'' [1, 2] = (Inr ct, hops')
     \<and> relayPeel demo_crypto (demo_session ''x'') ''c'' ''s'' ct
         = (Inr (''e'', onion demo_crypto ''c'' ''s'' 1 [demo_session ''e''] [1, 2]), bumpFwd (demo_session ''x''))"
proof -
  let ?hops = "[demo_session ''r'', demo_session ''e'']"
  obtain ct hops' where w: "WrapForward demo_crypto ?hops ''c'' ''s'' [1, 2] = (Inr ct, hops')"
    by (simp add: WrapForward_onion)
  with relay_peels_one_layer [OF demo_aead_correct _ sync_demo _ _ w, of "''x''"] show ?thesis
    by (simp add: peer_demo)
qed

text \<open>
  On a one-hop path every message of any sequence the client wraps is opened by the
  hop as sent: the counters of the two ends stay in step, whatever the stream IDs are.
\<close>

theorem single_hop_delivers_stream:
  assumes "aead_correct C" "keyed client" "fwd_sync client exitHop"
  shows "directExchange C cid client exitHop ms = map (\<lambda>(sid, m). Inr m) ms"
  using assms by (rule directExchange_delivers_aux)

theorem single_hop_delivers_stream_witness:
  "directExchange demo_crypto ''c'' (demo_session ''e'') (demo_session ''k'') [(''s'', [1]), (''t'', [2, 3])]
     = [Inr [1], Inr [2, 3]]"
  using single_hop_delivers_stream [OF demo_aead_correct keyed_demo sync_demo,
      of "''c''" "''e''" "''k''" "[(''s'', [1]), (''t'', [2, 3])]"] by simp

text \<open>
  On a path of two hops the exit rejects every message: \<open>WrapForward\<close> seals the layer
  of hop \<open>i\<close> with layer index \<open>i\<close> in the additional data, while \<open>UnwrapForwardFinal\<close>
  opens with index 0, so what the relay forwards fails to authenticate although keys
  and counters agree.
\<close>

theorem two_hop_exit_rejects:
  assumes "aead_correct C" "aead_binds_aad C" "keyed h" "keyed g" "fwd_sync h r" "fwd_sync g e"
    and "ascii (hs_PeerID g)" "ascii sid"
  shows "\<exists>ct hops' inner r'. WrapForward C [h, g] cid sid p = (Inr ct, hops')
     \<and> relayPeel C r cid sid ct = (Inr (hs_PeerID g, inner), r')
     \<and> UnwrapForwardFinal C e cid sid inner
         = (Inl (Errorf ''chacha20poly1305: message authentication failed''), bumpFwd e)"
proof -
  have w: "WrapForward C [h, g] cid sid p = (Inr (onion C cid sid 0 [h, g] p), map bumpFwd [h, g])"
    using assms by (intro WrapForward_onion) auto
  have "relayPeel C r cid sid (onion C cid sid 0 [h, g] p) = (Inr (hs_PeerID g, onion C cid sid 1 [g] p), bumpFwd r)"
    using UnwrapForward_onion [of C h r g sid cid "[]" p] assms by (simp add: relayPeel_def fwdEnvelope_def)
  moreover have "onion C cid sid 1 [g] p = sealFwd C g cid sid 1 p" by simp
  moreover note UnwrapForwardFinal_inner_layer [OF assms(2,4,6), of 1 cid sid p]
  ultimately show ?thesis using w by simp
qed

theorem two_hop_exit_rejects_witness:
  "\<exists>ct hops' inner r'. WrapForward demo_crypto [demo_session ''r'', demo_session ''e''] ''c'' ''s'' [9] = (Inr ct, hops')
     \<and> relayPeel demo_crypto (demo_session ''r'') ''c'' ''s'' ct = (Inr (hs_PeerID (demo_session ''e''), inner), r')
     \<and> UnwrapForwardFinal demo_crypto (demo_session ''e'') ''c'' ''s'' inner
         = (Inl (Errorf ''chacha20poly1305: message authentication failed''), bumpFwd (demo_session ''e''))"
  by (rule two_hop_exit_rejects) (simp_all add: peer_demo)

end
