(* ===== verification/Circuit_Store.thy ===== *)
theory Circuit_Store
  imports Prelude
begin

text \<open>
  The in-memory stores of the node. \<open>internal/store/circuits.go\<close> keeps one record
  per circuit, \<open>internal/store/memory.go\<close> is a plain key-value store and
  \<open>internal/traffic/traffic.go\<close> accumulates byte counters. The path plans and the
  circuit states of \<open>internal/protocol/circuit.go\<close>, which the records hold, come first.
  What the clients of a store rely on are the locales \<open>lookup_store\<close> and
  \<open>keyed_store\<close>, interpreted here for the circuit store and in later theories for the
  stream table and the descriptor cache.

  A store holds pointers to records; the callers only change a record they have just
  fetched and put it back at once, so a map from keys to record values is enough. Every
  reading of the clock is an argument.
\<close>

section \<open>What a store keyed by an ID of its records promises\<close>

locale lookup_store =
  fixes get :: "'s \<Rightarrow> string \<Rightarrow> 'r option"
    and put :: "'s \<Rightarrow> 'r \<Rightarrow> 's"
    and key :: "'r \<Rightarrow> string"
  assumes get_put: "get (put s r) k = (if k = key r then Some r else get s k)"
begin

text \<open>A store is consistent when every record is filed under its own ID.\<close>

definition consistent :: "'s \<Rightarrow> bool" where
  "consistent s \<longleftrightarrow> (\<forall>k r. get s k = Some r \<longrightarrow> key r = k)"

lemma consistent_put: "consistent s \<Longrightarrow> consistent (put s r)"
  by (auto simp: consistent_def get_put)

lemma get_put_same: "get (put s r) (key r) = Some r"
  by (simp add: get_put)

lemma put_absorbs: "key r = key r' \<Longrightarrow> get (put (put s r) r') = get (put s r')"
  by (auto simp: get_put fun_eq_iff)

text \<open>After a series of insertions a lookup finds the latest record of that ID.\<close>

lemma get_foldl_put:
  "get (foldl put s rs) k =
     (case find (\<lambda>r. key r = k) (rev rs) of Some r \<Rightarrow> Some r | None \<Rightarrow> get s k)"
proof (induction rs rule: rev_induct)
  case (snoc r rs)
  then show ?case by (simp add: get_put)
qed simp

lemma get_foldl_put_inv: "get (foldl put s rs) k = Some r \<Longrightarrow> r \<in> set rs \<or> get s k = Some r"
  by (induction rs rule: rev_induct) (auto simp: get_put split: if_splits)

lemma consistent_foldl_put: "consistent s \<Longrightarrow> consistent (foldl put s rs)"
  by (induction rs arbitrary: s) (auto intro: consistent_put)

end

text \<open>A store from which records can be removed as well.\<close>

locale keyed_store = lookup_store get put key
  for get :: "'s \<Rightarrow> string \<Rightarrow> 'r option" and put :: "'s \<Rightarrow> 'r \<Rightarrow> 's" and key :: "'r \<Rightarrow> string" +
  fixes del :: "'s \<Rightarrow> string \<Rightarrow> 's"
  assumes get_del: "k \<noteq> [] \<Longrightarrow> get (del s k) k' = (if k' = k then None else get s k')"
begin

lemma consistent_del: "consistent s \<Longrightarrow> k \<noteq> [] \<Longrightarrow> consistent (del s k)"
  by (auto simp: consistent_def get_del)

lemma get_del_same: "k \<noteq> [] \<Longrightarrow> get (del s k) k = None"
  by (simp add: get_del)

lemma del_put: "key r \<noteq> [] \<Longrightarrow> get (del (put s r) (key r)) = get (del s (key r))"
  by (auto simp: get_put get_del fun_eq_iff)

end

section \<open>Path plans and circuit states\<close>

type_synonym CircuitState = string

definition CircuitNew :: CircuitState where "CircuitNew = ''NEW''"
definition CircuitCreating :: CircuitState where "CircuitCreating = ''CREATING''"
definition CircuitOpen :: CircuitState where "CircuitOpen = ''OPEN''"
definition CircuitDegraded :: CircuitState where "CircuitDegraded = ''DEGRADED''"
definition CircuitClosed :: CircuitState where "CircuitClosed = ''CLOSED''"

lemmas CircuitState_defs [simp] =
  CircuitNew_def CircuitCreating_def CircuitOpen_def CircuitDegraded_def CircuitClosed_def

record PathHop =
  ph_PeerID :: string
  ph_IsRelay :: bool
  ph_IsExit :: bool

record PathPlan =
  pp_Hops :: "PathHop list"
  pp_ExitHopIndex :: nat

section \<open>Circuit records\<close>

text \<open>The field \<open>Keys\<close>, which no code sets, is left out.\<close>

record CircuitRecord =
  cr_ID :: string
  cr_State :: CircuitState
  cr_Plan :: PathPlan
  cr_CreatedAt :: time
  cr_UpdatedAt :: time
  cr_BytesSent :: u64
  cr_BytesReceived :: u64
  cr_LastTrafficAt :: time
  cr_LastPingAt :: time
  cr_LastPongAt :: time
  cr_ConsecutiveFailures :: int
  cr_HeartbeatSuccesses :: int
  cr_SmoothedRTT :: duration
  cr_Alive :: bool
  cr_ProtectionUntil :: time

type_synonym CircuitStore = "string \<rightharpoonup> CircuitRecord"

definition NewCircuitStore :: CircuitStore where "NewCircuitStore = Map.empty"

definition cs_Upsert :: "CircuitStore \<Rightarrow> CircuitRecord \<Rightarrow> CircuitStore" where
  "cs_Upsert s rec = s(cr_ID rec \<mapsto> rec)"

definition cs_Get :: "CircuitStore \<Rightarrow> string \<Rightarrow> CircuitRecord option" where
  "cs_Get s cid = s cid"

definition cs_Delete :: "CircuitStore \<Rightarrow> string \<Rightarrow> CircuitStore" where
  "cs_Delete s cid = (if cid = [] then s else s(cid := None))"

text \<open>The methods that change a record in place.\<close>

definition cs_modify :: "CircuitStore \<Rightarrow> string \<Rightarrow> (CircuitRecord \<Rightarrow> CircuitRecord) \<Rightarrow> CircuitStore" where
  "cs_modify s cid f = (case s cid of None \<Rightarrow> s | Some rec \<Rightarrow> s(cid \<mapsto> f rec))"

definition cs_AddStats :: "CircuitStore \<Rightarrow> string \<Rightarrow> u64 \<Rightarrow> u64 \<Rightarrow> time \<Rightarrow> CircuitStore" where
  "cs_AddStats s cid sent recv now =
     (if cid = [] \<or> sent = 0 \<and> recv = 0 then s
      else cs_modify s cid (\<lambda>rec. rec
        \<lparr>cr_BytesSent := cr_BytesSent rec + sent,
         cr_BytesReceived := cr_BytesReceived rec + recv,
         cr_LastTrafficAt := now, cr_UpdatedAt := now\<rparr>))"

definition cs_SetHealth ::
  "CircuitStore \<Rightarrow> string \<Rightarrow> bool \<Rightarrow> time \<Rightarrow> time \<Rightarrow> int \<Rightarrow> int \<Rightarrow> duration \<Rightarrow> time \<Rightarrow> CircuitStore" where
  "cs_SetHealth s cid alive lastPing lastPong failures successes rtt now =
     (if cid = [] then s
      else cs_modify s cid (\<lambda>rec. rec
        \<lparr>cr_Alive := alive, cr_LastPingAt := lastPing, cr_LastPongAt := lastPong,
         cr_ConsecutiveFailures := failures, cr_HeartbeatSuccesses := successes,
         cr_SmoothedRTT := rtt, cr_UpdatedAt := now\<rparr>))"

definition cs_SetState :: "CircuitStore \<Rightarrow> string \<Rightarrow> CircuitState \<Rightarrow> time \<Rightarrow> CircuitStore" where
  "cs_SetState s cid st now =
     (if cid = [] then s
      else cs_modify s cid (\<lambda>rec. rec\<lparr>cr_State := st, cr_UpdatedAt := now\<rparr>))"

definition cs_ExtendProtection :: "CircuitStore \<Rightarrow> string \<Rightarrow> time \<Rightarrow> time \<Rightarrow> CircuitStore" where
  "cs_ExtendProtection s cid until now =
     (if cid = [] \<or> until = 0 then s
      else cs_modify s cid (\<lambda>rec.
        if cr_ProtectionUntil rec < until
        then rec\<lparr>cr_ProtectionUntil := until, cr_UpdatedAt := now\<rparr> else rec))"

definition cs_Count :: "CircuitStore \<Rightarrow> nat" where
  "cs_Count s = card (dom s)"

interpretation circuits: keyed_store cs_Get cs_Upsert cr_ID cs_Delete
  by unfold_locales (auto simp: cs_Get_def cs_Upsert_def cs_Delete_def)

text \<open>
  The in-place updates change only the record they name, never its ID or its plan, and
  never add or remove a circuit.
\<close>

lemma cs_Get_modify:
  "cs_Get (cs_modify s cid f) k = (if k = cid then map_option f (cs_Get s cid) else cs_Get s k)"
  by (auto simp: cs_Get_def cs_modify_def split: option.splits)

lemma dom_cs_modify [simp]: "dom (cs_modify s cid f) = dom s"
  by (auto simp: cs_modify_def split: option.splits)

lemma consistent_modify:
  "circuits.consistent s \<Longrightarrow> (\<And>r. cr_ID (f r) = cr_ID r) \<Longrightarrow> circuits.consistent (cs_modify s cid f)"
  by (auto simp: circuits.consistent_def cs_Get_modify split: if_splits)

lemmas cs_update_defs = cs_AddStats_def cs_SetHealth_def cs_SetState_def cs_ExtendProtection_def

lemma consistent_updates:
  assumes "circuits.consistent s"
  shows "circuits.consistent (cs_AddStats s cid sent recv now)"
    and "circuits.consistent (cs_SetHealth s cid alive lp lq f h rtt now)"
    and "circuits.consistent (cs_SetState s cid st now)"
    and "circuits.consistent (cs_ExtendProtection s cid until now)"
  using assms by (auto simp: cs_update_defs intro!: consistent_modify)

lemma dom_updates [simp]:
  "dom (cs_AddStats s cid sent recv now) = dom s"
  "dom (cs_SetHealth s cid alive lp lq f h rtt now) = dom s"
  "dom (cs_SetState s cid st now) = dom s"
  "dom (cs_ExtendProtection s cid until now) = dom s"
  by (simp_all add: cs_update_defs)

lemma plan_updates [simp]:
  "map_option cr_Plan (cs_Get (cs_AddStats s cid sent recv now) k) = map_option cr_Plan (cs_Get s k)"
  "map_option cr_Plan (cs_Get (cs_SetHealth s cid alive lp lq f h rtt now) k) = map_option cr_Plan (cs_Get s k)"
  "map_option cr_Plan (cs_Get (cs_SetState s cid st now) k) = map_option cr_Plan (cs_Get s k)"
  "map_option cr_Plan (cs_Get (cs_ExtendProtection s cid until now) k) = map_option cr_Plan (cs_Get s k)"
  by (auto simp: cs_update_defs cs_Get_modify option.map_comp comp_def intro!: option.map_cong0)

lemma cs_ExtendProtection_mono:
  "cs_Get s cid = Some rec \<Longrightarrow>
   \<exists>rec'. cs_Get (cs_ExtendProtection s cid until now) cid = Some rec'
     \<and> cr_ProtectionUntil rec \<le> cr_ProtectionUntil rec'"
  by (auto simp: cs_ExtendProtection_def cs_Get_modify)

section \<open>The key-value store\<close>

type_synonym MemoryStore = "string \<rightharpoonup> bytes"

definition NewMemoryStore :: MemoryStore where "NewMemoryStore = Map.empty"

definition ms_Get :: "MemoryStore \<Rightarrow> string \<Rightarrow> bytes option" where "ms_Get s k = s k"

definition ms_Set :: "MemoryStore \<Rightarrow> string \<Rightarrow> bytes \<Rightarrow> MemoryStore" where
  "ms_Set s k v = s(k \<mapsto> v)"

section \<open>Traffic counters\<close>

record Stats =
  st_BytesSent :: u64
  st_BytesReceived :: u64
  st_BytesTotal :: u64

record Recorder =
  rd_sent :: u64
  rd_recv :: u64

definition NewRecorder :: Recorder where "NewRecorder = \<lparr>rd_sent = 0, rd_recv = 0\<rparr>"

text \<open>A nil \<open>*Recorder\<close> is \<open>None\<close>; both methods accept it.\<close>

definition tr_Add :: "Recorder option \<Rightarrow> u64 \<Rightarrow> u64 \<Rightarrow> Recorder option" where
  "tr_Add r sent recv =
     (case r of None \<Rightarrow> None
      | Some r \<Rightarrow>
          if sent = 0 \<and> recv = 0 then Some r
          else let r = (if sent > 0 then r\<lparr>rd_sent := rd_sent r + sent\<rparr> else r)
               in Some (if recv > 0 then r\<lparr>rd_recv := rd_recv r + recv\<rparr> else r))"

definition tr_Snapshot :: "Recorder option \<Rightarrow> Stats" where
  "tr_Snapshot r =
     (case r of None \<Rightarrow> \<lparr>st_BytesSent = 0, st_BytesReceived = 0, st_BytesTotal = 0\<rparr>
      | Some r \<Rightarrow> \<lparr>st_BytesSent = rd_sent r, st_BytesReceived = rd_recv r,
                   st_BytesTotal = rd_sent r + rd_recv r\<rparr>)"

lemma tr_Add_Some:
  "tr_Add (Some r) sent recv = Some \<lparr>rd_sent = rd_sent r + sent, rd_recv = rd_recv r + recv\<rparr>"
  by (cases r) (auto simp: tr_Add_def Let_def word_gt_0)

text \<open>The counters are the sums, modulo \<open>2 ^ 64\<close>, of everything that was added.\<close>

lemma tr_Snapshot_fold:
  "tr_Snapshot (foldl (\<lambda>r (a, b). tr_Add r a b) (Some r) xs) =
   \<lparr>st_BytesSent = rd_sent r + sum_list (map fst xs),
    st_BytesReceived = rd_recv r + sum_list (map snd xs),
    st_BytesTotal = rd_sent r + rd_recv r + sum_list (map (\<lambda>(a, b). a + b) xs)\<rparr>"
  by (induction xs arbitrary: r) (auto simp: tr_Snapshot_def tr_Add_Some algebra_simps)

end
