(* ===== verification/Pool.thy ===== *)
theory Pool
  imports Prelude "HOL-Library.Signed_Division"
begin

text \<open>
  The circuit pool of \<open>internal/client/pool.go\<close>: per use case a list of idle circuits,
  the number of lent ones and of those being built, with a cap on each kind and on the
  total. The critical sections (the code between \<open>mu.Lock\<close> and \<open>mu.Unlock\<close>) are
  definitions of their own where an operation has several of them, and the operations are
  their compositions; the factory that creates, closes and scores circuits is the record
  \<open>CircuitPoolFactory\<close> of functions over a state of its own, as the Go interface is.

  The second half shows the accounting invariant and the caps for every sequence of
  operations, that trimming and replenishing end and reach their targets, and what the
  selection of a circuit guarantees.
\<close>

section \<open>State\<close>

type_synonym PoolKind = string

definition PoolLowLatency :: PoolKind where "PoolLowLatency = ''low_latency''"
definition PoolAnonymous :: PoolKind where "PoolAnonymous = ''anonymous''"
definition PoolCountry :: PoolKind where "PoolCountry = ''country''"

lemmas PoolKind_defs [simp] = PoolLowLatency_def PoolAnonymous_def PoolCountry_def

definition AllPoolKinds :: "PoolKind list" where
  "AllPoolKinds = [PoolLowLatency, PoolAnonymous, PoolCountry]"

record poolEntry =
  circuitID :: string
  idleSince :: time

record CircuitPoolConfig =
  pc_MinPerPool :: int
  pc_MaxPerPool :: int
  pc_MinTotal :: int
  pc_MaxTotal :: int
  pc_IdleTimeoutSeconds :: int
  pc_ReplenishIntervalSeconds :: int

text \<open>
  The interface the pool calls; \<open>'f\<close> is the state behind it. \<open>fa_Now\<close> reads the clock.
\<close>

record 'f CircuitPoolFactory =
  fa_CreateForPool :: "'f \<Rightarrow> PoolKind \<Rightarrow> string result \<times> 'f"
  fa_CloseCircuit :: "'f \<Rightarrow> string \<Rightarrow> 'f"
  fa_IsCircuitOpen :: "'f \<Rightarrow> string \<Rightarrow> bool"
  fa_CircuitReuseScore :: "'f \<Rightarrow> string \<Rightarrow> int"
  fa_Now :: "'f \<Rightarrow> time"

text \<open>
  Reading a missing key of a Go map gives the zero value, so the maps the code only reads
  and increments are total functions that start at zero; the maps whose keys matter
  (deletion, iteration) are partial functions.
\<close>

record CircuitPool =
  minPerPool :: int
  maxPerPool :: int
  minTotal :: int
  maxTotal :: int
  idleTimeout :: duration
  replenishInt :: duration
  idle :: "PoolKind \<Rightarrow> poolEntry list"
  circuitToKind :: "string \<rightharpoonup> PoolKind"
  inUseStreamCount :: "string \<rightharpoonup> int"
  outCount :: "PoolKind \<Rightarrow> int"
  pendingByKind :: "PoolKind \<Rightarrow> int"
  pendingTotal :: int

definition NewCircuitPool :: "CircuitPoolConfig \<Rightarrow> CircuitPool" where
  "NewCircuitPool cfg =
     \<lparr>minPerPool = pc_MinPerPool cfg, maxPerPool = pc_MaxPerPool cfg,
      minTotal = pc_MinTotal cfg, maxTotal = pc_MaxTotal cfg,
      idleTimeout = pc_IdleTimeoutSeconds cfg * second,
      replenishInt = pc_ReplenishIntervalSeconds cfg * second,
      idle = (\<lambda>_. []), circuitToKind = Map.empty, inUseStreamCount = Map.empty,
      outCount = (\<lambda>_. 0), pendingByKind = (\<lambda>_. 0), pendingTotal = 0\<rparr>"

definition kindOf :: "CircuitPool \<Rightarrow> string \<Rightarrow> PoolKind" where
  "kindOf p cid = (case circuitToKind p cid of None \<Rightarrow> [] | Some k \<Rightarrow> k)"

definition streamsOf :: "CircuitPool \<Rightarrow> string \<Rightarrow> int" where
  "streamsOf p cid = (case inUseStreamCount p cid of None \<Rightarrow> 0 | Some n \<Rightarrow> n)"

section \<open>Taking a circuit\<close>

text \<open>The loop of both \<open>pickBest\<close> methods: the first open circuit of the highest score.\<close>

fun scanBest :: "(string \<Rightarrow> bool) \<Rightarrow> (string \<Rightarrow> int) \<Rightarrow> string list \<Rightarrow> string \<times> int \<Rightarrow> string \<times> int" where
  "scanBest isOpen score [] best = best"
| "scanBest isOpen score (cid # ids) (bestID, bestScore) =
     (if \<not> isOpen cid then scanBest isOpen score ids (bestID, bestScore)
      else if bestID = [] \<or> score cid > bestScore
      then scanBest isOpen score ids (cid, score cid)
      else scanBest isOpen score ids (bestID, bestScore))"

definition shareInUse :: "PoolKind \<Rightarrow> string \<Rightarrow> CircuitPool \<Rightarrow> CircuitPool \<times> string option" where
  "shareInUse kind bestID p =
     (if kindOf p bestID \<noteq> kind \<or> streamsOf p bestID \<le> 0 then (p, None)
      else (p\<lparr>inUseStreamCount := (inUseStreamCount p)(bestID \<mapsto> streamsOf p bestID + 1)\<rparr>,
            Some bestID))"

definition pickBestInUse ::
  "(string \<Rightarrow> bool) \<Rightarrow> (string \<Rightarrow> int) \<Rightarrow> PoolKind \<Rightarrow> string list \<Rightarrow> CircuitPool
     \<Rightarrow> CircuitPool \<times> string option" where
  "pickBestInUse isOpen score kind ids p =
     (let bestID = fst (scanBest isOpen score ids ([], -1))
      in if bestID = [] then (p, None) else shareInUse kind bestID p)"

fun removeFirst :: "string \<Rightarrow> poolEntry list \<Rightarrow> poolEntry list option" where
  "removeFirst cid [] = None"
| "removeFirst cid (e # es) =
     (if circuitID e = cid then Some es else map_option ((#) e) (removeFirst cid es))"

definition dropStale :: "PoolKind \<Rightarrow> string list \<Rightarrow> CircuitPool \<Rightarrow> CircuitPool" where
  "dropStale kind stale p =
     (let gone = filter (\<lambda>e. circuitID e \<in> set stale) (idle p kind)
      in p\<lparr>idle := (idle p)(kind := filter (\<lambda>e. circuitID e \<notin> set stale) (idle p kind)),
           circuitToKind := circuitToKind p |` (- set (map circuitID gone))\<rparr>)"

definition lendIdle :: "PoolKind \<Rightarrow> string \<Rightarrow> CircuitPool \<Rightarrow> CircuitPool \<times> string option" where
  "lendIdle kind bestID p =
     (if bestID = [] then (p, None)
      else case removeFirst bestID (idle p kind) of
        None \<Rightarrow> (p, None)
      | Some es \<Rightarrow>
          (p\<lparr>idle := (idle p)(kind := es),
             inUseStreamCount := (inUseStreamCount p)(bestID \<mapsto> 1),
             outCount := (outCount p)(kind := outCount p kind + 1)\<rparr>, Some bestID))"

definition pickBestIdle ::
  "(string \<Rightarrow> bool) \<Rightarrow> (string \<Rightarrow> int) \<Rightarrow> PoolKind \<Rightarrow> poolEntry list \<Rightarrow> CircuitPool
     \<Rightarrow> CircuitPool \<times> string option" where
  "pickBestIdle isOpen score kind entries p =
     (let ids = map circuitID entries;
          stale = filter (\<lambda>cid. \<not> isOpen cid) ids
      in lendIdle kind (fst (scanBest isOpen score ids ([], -1)))
           (if stale \<noteq> [] then dropStale kind stale p else p))"

text \<open>
  \<open>order\<close> is the order in which \<open>range\<close> enumerates the keys of \<open>inUseStreamCount\<close>.
\<close>

definition GetFromPool ::
  "(string \<Rightarrow> bool) \<Rightarrow> (string \<Rightarrow> int) \<Rightarrow> string list \<Rightarrow> PoolKind \<Rightarrow> CircuitPool
     \<Rightarrow> CircuitPool \<times> string option" where
  "GetFromPool isOpen score order kind p =
     (let inUseIDs = filter (\<lambda>cid. streamsOf p cid > 0 \<and> kindOf p cid = kind) order;
          idleEntries = idle p kind
      in case pickBestInUse isOpen score kind inUseIDs p of
           (p', Some cid) \<Rightarrow> (p', Some cid)
         | (p', None) \<Rightarrow> pickBestIdle isOpen score kind idleEntries p')"

section \<open>Giving a circuit back\<close>

text \<open>
  \<open>ReturnToPool\<close> takes the lock twice. \<open>releaseStream\<close> is its first section; it yields
  the kind when the last stream of the circuit went away and the circuit has to be
  requeued or forgotten.
\<close>

definition releaseStream :: "string \<Rightarrow> CircuitPool \<Rightarrow> CircuitPool \<times> PoolKind option" where
  "releaseStream cid p =
     (case circuitToKind p cid of
        None \<Rightarrow> (p, None)
      | Some kind \<Rightarrow>
          let n = streamsOf p cid
          in if n \<le> 0 then (p, None)
             else if n - 1 > 0
             then (p\<lparr>inUseStreamCount := (inUseStreamCount p)(cid \<mapsto> n - 1)\<rparr>, None)
             else (p\<lparr>inUseStreamCount := (inUseStreamCount p)(cid := None),
                     outCount := (outCount p)(kind := outCount p kind - 1)\<rparr>, Some kind))"

definition forgetCircuit :: "string \<Rightarrow> CircuitPool \<Rightarrow> CircuitPool" where
  "forgetCircuit cid p = p\<lparr>circuitToKind := (circuitToKind p)(cid := None)\<rparr>"

definition requeue :: "PoolKind \<Rightarrow> string \<Rightarrow> time \<Rightarrow> CircuitPool \<Rightarrow> CircuitPool" where
  "requeue kind cid now p =
     p\<lparr>idle := (idle p)(kind := idle p kind @ [\<lparr>circuitID = cid, idleSince = now\<rparr>])\<rparr>"

definition ReturnToPool :: "(string \<Rightarrow> bool) \<Rightarrow> string \<Rightarrow> time \<Rightarrow> CircuitPool \<Rightarrow> CircuitPool" where
  "ReturnToPool isOpen cid now p =
     (case releaseStream cid p of
        (p', None) \<Rightarrow> p'
      | (p', Some kind) \<Rightarrow>
          if \<not> isOpen cid then forgetCircuit cid p' else requeue kind cid now p')"

definition MarkCircuitFailed :: "string \<Rightarrow> CircuitPool \<Rightarrow> CircuitPool" where
  "MarkCircuitFailed cid p =
     (case circuitToKind p cid of
        None \<Rightarrow> p
      | Some kind \<Rightarrow>
          let p' = forgetCircuit cid p
          in if streamsOf p cid > 0
             then p'\<lparr>inUseStreamCount := (inUseStreamCount p)(cid := None),
                     outCount := (outCount p)(kind := outCount p kind - 1)\<rparr>
             else p')"

section \<open>Building circuits\<close>

definition takeReservation :: "PoolKind \<Rightarrow> CircuitPool \<Rightarrow> CircuitPool" where
  "takeReservation kind p =
     (if pendingByKind p kind > 0
      then p\<lparr>pendingByKind := (pendingByKind p)(kind := pendingByKind p kind - 1),
             pendingTotal := pendingTotal p - 1\<rparr>
      else p)"

definition registerPoolCircuit :: "PoolKind \<Rightarrow> string \<Rightarrow> time \<Rightarrow> CircuitPool \<Rightarrow> CircuitPool" where
  "registerPoolCircuit kind cid now p =
     (let p' = requeue kind cid now (takeReservation kind p)
      in p'\<lparr>circuitToKind := (circuitToKind p')(cid \<mapsto> kind)\<rparr>)"

definition RegisterCircuitInUse :: "PoolKind \<Rightarrow> string \<Rightarrow> CircuitPool \<Rightarrow> CircuitPool" where
  "RegisterCircuitInUse kind cid p =
     (let p' = takeReservation kind p
      in p'\<lparr>circuitToKind := (circuitToKind p')(cid \<mapsto> kind),
            inUseStreamCount := (inUseStreamCount p')(cid \<mapsto> 1),
            outCount := (outCount p')(kind := outCount p' kind + 1)\<rparr>)"

definition totalCount :: "CircuitPool \<Rightarrow> PoolKind \<Rightarrow> int" where
  "totalCount p kind = int (length (idle p kind)) + outCount p kind"

definition totalCountAll :: "CircuitPool \<Rightarrow> int" where
  "totalCountAll p = foldl (\<lambda>total kind. total + totalCount p kind) 0 AllPoolKinds"

definition effectiveCountLocked :: "CircuitPool \<Rightarrow> PoolKind \<Rightarrow> int" where
  "effectiveCountLocked p kind = totalCount p kind + pendingByKind p kind"

definition effectiveTotalCountAllLocked :: "CircuitPool \<Rightarrow> int" where
  "effectiveTotalCountAllLocked p = totalCountAll p + pendingTotal p"

definition reserve :: "PoolKind \<Rightarrow> CircuitPool \<Rightarrow> CircuitPool" where
  "reserve kind p =
     p\<lparr>pendingByKind := (pendingByKind p)(kind := pendingByKind p kind + 1),
       pendingTotal := pendingTotal p + 1\<rparr>"

definition TryReserveBuild :: "PoolKind \<Rightarrow> CircuitPool \<Rightarrow> CircuitPool \<times> bool" where
  "TryReserveBuild kind p =
     (if effectiveTotalCountAllLocked p \<ge> maxTotal p then (p, False)
      else if maxPerPool p > 0 \<and> effectiveCountLocked p kind \<ge> maxPerPool p then (p, False)
      else (reserve kind p, True))"

definition CancelReservedBuild :: "PoolKind \<Rightarrow> CircuitPool \<Rightarrow> CircuitPool" where
  "CancelReservedBuild kind p =
     (let p' = (if pendingByKind p kind > 0
                then p\<lparr>pendingByKind := (pendingByKind p)(kind := pendingByKind p kind - 1)\<rparr>
                else p)
      in if pendingTotal p' > 0 then p'\<lparr>pendingTotal := pendingTotal p' - 1\<rparr> else p')"

section \<open>Maintenance\<close>

text \<open>
  For each kind \<open>maintainOnce\<close> first counts the expired entries and then, after taking
  the lock again, cuts that many entries off the end of the list; a count above the length
  of the list is a panic.
\<close>

definition countExpired :: "PoolKind \<Rightarrow> time \<Rightarrow> CircuitPool \<Rightarrow> nat" where
  "countExpired kind now p = length (filter (\<lambda>e. now - idleSince e > idleTimeout p) (idle p kind))"

definition evictTail :: "PoolKind \<Rightarrow> nat \<Rightarrow> CircuitPool \<Rightarrow> (CircuitPool \<times> string list) result" where
  "evictTail kind toEvict p =
     (if toEvict = 0 then Inr (p, [])
      else if toEvict > length (idle p kind) then Inl Panic
      else let list = idle p kind;
               evicted = map circuitID (drop (length list - toEvict) list)
           in Inr (p\<lparr>idle := (idle p)(kind := take (length list - toEvict) list),
                     circuitToKind := circuitToKind p |` (- set evicted)\<rparr>, evicted))"

text \<open>The entry with the earliest \<open>idleSince\<close> among the heads of the idle lists.\<close>

definition oldestHead :: "CircuitPool \<Rightarrow> (PoolKind \<times> poolEntry) option" where
  "oldestHead p =
     foldl (\<lambda>sel kind. case idle p kind of
              [] \<Rightarrow> sel
            | entry # _ \<Rightarrow>
                (case sel of
                   None \<Rightarrow> Some (kind, entry)
                 | Some (k, e) \<Rightarrow> if idleSince entry < idleSince e then Some (kind, entry) else sel))
       None AllPoolKinds"

definition trimOnce :: "CircuitPool \<Rightarrow> (CircuitPool \<times> string) option" where
  "trimOnce p =
     (if totalCountAll p \<le> maxTotal p then None
      else case oldestHead p of
        None \<Rightarrow> None
      | Some (kind, entry) \<Rightarrow>
          (case removeFirst (circuitID entry) (idle p kind) of
             None \<Rightarrow> None
           | Some es \<Rightarrow>
               Some (p\<lparr>idle := (idle p)(kind := es),
                       circuitToKind := (circuitToKind p)(circuitID entry := None)\<rparr>,
                     circuitID entry)))"

definition idleTotal :: "CircuitPool \<Rightarrow> nat" where
  "idleTotal p = sum_list (map (\<lambda>k. length (idle p k)) AllPoolKinds)"

lemma removeFirst_length: "removeFirst cid es = Some es' \<Longrightarrow> length es = Suc (length es')"
  by (induction es arbitrary: es') (auto split: if_splits)

lemma oldestHead_in:
  "oldestHead p = Some (k, e) \<Longrightarrow> k \<in> set AllPoolKinds \<and> (\<exists>es. idle p k = e # es)"
  by (auto simp: oldestHead_def AllPoolKinds_def split: list.splits option.splits if_splits)

lemma trimOnce_idleTotal: "trimOnce p = Some (p', cid) \<Longrightarrow> idleTotal p = Suc (idleTotal p')"
  by (auto simp: trimOnce_def idleTotal_def AllPoolKinds_def
           dest!: removeFirst_length oldestHead_in split: if_splits option.splits)

text \<open>\<open>trimExcessIdle\<close> yields the closed circuits in order.\<close>

function trimExcessIdle :: "CircuitPool \<Rightarrow> CircuitPool \<times> string list" where
  "trimExcessIdle p =
     (case trimOnce p of
        None \<Rightarrow> (p, [])
      | Some (p', cid) \<Rightarrow> (case trimExcessIdle p' of (q, closed) \<Rightarrow> (q, cid # closed)))"
  by pat_completeness auto
termination
  by (relation "measure idleTotal") (auto dest: trimOnce_idleTotal)

declare trimExcessIdle.simps [simp del]

definition replenishTarget :: "CircuitPool \<Rightarrow> PoolKind option" where
  "replenishTarget p =
     (let total = effectiveTotalCountAllLocked p
      in if total \<ge> minTotal p \<or> total \<ge> maxTotal p then None
         else map_option fst
           (foldl (\<lambda>sel kind.
              let kindTotal = effectiveCountLocked p kind
              in if kindTotal \<ge> maxPerPool p then sel
                 else case sel of
                   None \<Rightarrow> Some (kind, kindTotal)
                 | Some (k, m) \<Rightarrow> if kindTotal < m then Some (kind, kindTotal) else sel)
            None AllPoolKinds))"

lemma replenishTarget_in: "replenishTarget p = Some k \<Longrightarrow> k \<in> set AllPoolKinds"
  by (auto simp: replenishTarget_def AllPoolKinds_def Let_def split: if_splits option.splits)

lemma replenishTarget_below:
  "replenishTarget p = Some k \<Longrightarrow>
   effectiveTotalCountAllLocked p < minTotal p \<and> effectiveTotalCountAllLocked p < maxTotal p"
  by (auto simp: replenishTarget_def Let_def split: if_splits)

text \<open>
  How the counters move. Every operation touches one kind, which is one of the three of
  \<open>AllPoolKinds\<close>.
\<close>

lemma totalCountAll_eq:
  "totalCountAll p = totalCount p PoolLowLatency + totalCount p PoolAnonymous + totalCount p PoolCountry"
  by (simp add: totalCountAll_def AllPoolKinds_def)

lemma kinds_cases:
  assumes "k \<in> set AllPoolKinds"
  obtains "k = PoolLowLatency" | "k = PoolAnonymous" | "k = PoolCountry"
  using assms by (auto simp: AllPoolKinds_def)

named_theorems count_simps

lemma count_takeReservation [count_simps]:
  "totalCount (takeReservation k p) k' = totalCount p k'"
  "totalCountAll (takeReservation k p) = totalCountAll p"
  by (simp_all add: totalCount_def totalCountAll_eq takeReservation_def)

lemma count_reserve [count_simps]:
  "totalCount (reserve k p) k' = totalCount p k'"
  "totalCountAll (reserve k p) = totalCountAll p"
  "effectiveTotalCountAllLocked (reserve k p) = effectiveTotalCountAllLocked p + 1"
  "effectiveCountLocked (reserve k p) k' = effectiveCountLocked p k' + (if k' = k then 1 else 0)"
  by (simp_all add: totalCount_def totalCountAll_eq reserve_def effectiveTotalCountAllLocked_def
      effectiveCountLocked_def)

lemma count_requeue [count_simps]:
  "totalCount (requeue k cid now p) k' = totalCount p k' + (if k' = k then 1 else 0)"
  "k \<in> set AllPoolKinds \<Longrightarrow> totalCountAll (requeue k cid now p) = totalCountAll p + 1"
  by (auto simp: totalCount_def totalCountAll_eq requeue_def elim: kinds_cases)

lemma count_registerPoolCircuit [count_simps]:
  "totalCount (registerPoolCircuit k cid now p) k' = totalCount p k' + (if k' = k then 1 else 0)"
  "k \<in> set AllPoolKinds \<Longrightarrow> totalCountAll (registerPoolCircuit k cid now p) = totalCountAll p + 1"
  by (auto simp: registerPoolCircuit_def Let_def totalCount_def totalCountAll_eq takeReservation_def
      requeue_def elim: kinds_cases)

lemma pending_registerPoolCircuit [simp]:
  "pendingTotal (registerPoolCircuit k cid now p) = pendingTotal (takeReservation k p)"
  "pendingByKind (registerPoolCircuit k cid now p) = pendingByKind (takeReservation k p)"
  by (simp_all add: registerPoolCircuit_def requeue_def Let_def)

lemma limits_registerPoolCircuit [simp]:
  "minTotal (registerPoolCircuit k cid now p) = minTotal p"
  "maxTotal (registerPoolCircuit k cid now p) = maxTotal p"
  "maxPerPool (registerPoolCircuit k cid now p) = maxPerPool p"
  by (simp_all add: registerPoolCircuit_def requeue_def takeReservation_def Let_def)

lemma limits_reserve [simp]:
  "minTotal (reserve k p) = minTotal p" "maxTotal (reserve k p) = maxTotal p"
  "maxPerPool (reserve k p) = maxPerPool p"
  by (simp_all add: reserve_def)

lemma effective_registered:
  assumes "k \<in> set AllPoolKinds"
  shows "effectiveTotalCountAllLocked p
     < effectiveTotalCountAllLocked (registerPoolCircuit k cid now (reserve k p))"
  using assms
  by (simp add: effectiveTotalCountAllLocked_def count_simps) (simp add: takeReservation_def reserve_def)

function replenishToMinimum :: "'f CircuitPoolFactory \<Rightarrow> 'f \<Rightarrow> CircuitPool \<Rightarrow> 'f \<times> CircuitPool" where
  "replenishToMinimum fa w p =
     (case replenishTarget p of
        None \<Rightarrow> (w, p)
      | Some kind \<Rightarrow>
          (case fa_CreateForPool fa w kind of
             (Inl err, w') \<Rightarrow> (w', CancelReservedBuild kind (reserve kind p))
           | (Inr cid, w') \<Rightarrow>
               if cid = [] then (w', CancelReservedBuild kind (reserve kind p))
               else replenishToMinimum fa w'
                 (registerPoolCircuit kind cid (fa_Now fa w') (reserve kind p))))"
  by pat_completeness auto
termination
proof (relation "measure (\<lambda>(fa, w, p). nat (minTotal p - effectiveTotalCountAllLocked p))")
qed (use effective_registered replenishTarget_in replenishTarget_below in force)+

declare replenishToMinimum.simps [simp del]

fun evictKinds :: "'f CircuitPoolFactory \<Rightarrow> PoolKind list \<Rightarrow> 'f \<Rightarrow> CircuitPool \<Rightarrow> ('f \<times> CircuitPool) result" where
  "evictKinds fa [] w p = Inr (w, p)"
| "evictKinds fa (kind # kinds) w p =
     res_bind (evictTail kind (countExpired kind (fa_Now fa w) p) p)
       (\<lambda>(p', evicted). evictKinds fa kinds (foldl (fa_CloseCircuit fa) w evicted) p')"

definition maintainOnce :: "'f CircuitPoolFactory \<Rightarrow> 'f \<Rightarrow> CircuitPool \<Rightarrow> ('f \<times> CircuitPool) result" where
  "maintainOnce fa w p =
     res_bind (evictKinds fa AllPoolKinds w p) (\<lambda>(w1, p1).
       let (p2, closed) = trimExcessIdle p1
       in Inr (replenishToMinimum fa (foldl (fa_CloseCircuit fa) w1 closed) p2))"

section \<open>Status and configuration\<close>

record PoolKindStatus =
  IdleCount :: int
  InUseCount :: int
  TotalCount :: int

text \<open>The map of \<open>PoolStatus\<close> as the list of its bindings.\<close>

definition Status :: "CircuitPool \<Rightarrow> (string \<times> PoolKindStatus) list" where
  "Status p = map (\<lambda>kind. (kind, \<lparr>IdleCount = int (length (idle p kind)),
     InUseCount = outCount p kind,
     TotalCount = int (length (idle p kind)) + outCount p kind\<rparr>)) AllPoolKinds"

definition GetConfig :: "CircuitPool \<Rightarrow> CircuitPoolConfig" where
  "GetConfig p =
     \<lparr>pc_MinPerPool = minPerPool p, pc_MaxPerPool = maxPerPool p,
      pc_MinTotal = minTotal p, pc_MaxTotal = maxTotal p,
      pc_IdleTimeoutSeconds = idleTimeout p sdiv second,
      pc_ReplenishIntervalSeconds = replenishInt p sdiv second\<rparr>"

definition SetTotalLimits :: "int \<Rightarrow> int \<Rightarrow> CircuitPool \<Rightarrow> CircuitPool" where
  "SetTotalLimits mn mx p =
     (let mn = (if mn \<le> 0 then 1 else mn);
          mx = (if mx \<le> 0 then 1 else mx);
          mx = (if mx < mn then mn else mx)
      in p\<lparr>minTotal := mn, maxTotal := mx\<rparr>)"

lemma SetTotalLimits_ordered:
  "1 \<le> minTotal (SetTotalLimits mn mx p) \<and> minTotal (SetTotalLimits mn mx p) \<le> maxTotal (SetTotalLimits mn mx p)"
  by (simp add: SetTotalLimits_def Let_def)

lemma seconds_roundtrip: "x * second sdiv second = x"
  by (simp add: second_def signed_divide_int_def sgn_mult abs_mult mult_sgn_abs)

lemma GetConfig_NewCircuitPool: "GetConfig (NewCircuitPool cfg) = cfg"
  by (simp add: GetConfig_def NewCircuitPool_def seconds_roundtrip)

section \<open>What the selection guarantees\<close>

lemma scanBest_in: "fst (scanBest isOpen score ids best) = fst best
   \<or> fst (scanBest isOpen score ids best) \<in> set ids \<and> isOpen (fst (scanBest isOpen score ids best))"
  by (induction isOpen score ids best rule: scanBest.induct) auto

lemma scanBest_score:
  "(fst best \<noteq> [] \<Longrightarrow> snd best = score (fst best)) \<Longrightarrow> fst (scanBest isOpen score ids best) \<noteq> [] \<Longrightarrow>
   snd (scanBest isOpen score ids best) = score (fst (scanBest isOpen score ids best))"
  by (induction isOpen score ids best rule: scanBest.induct) (auto split: if_splits)

lemma scanBest_max:
  "[] \<notin> set ids \<Longrightarrow>
   (fst best \<noteq> [] \<longrightarrow> snd best \<le> snd (scanBest isOpen score ids best)) \<and>
   (\<forall>c\<in>set ids. isOpen c \<longrightarrow> score c \<le> snd (scanBest isOpen score ids best))"
  by (induction isOpen score ids best rule: scanBest.induct) (auto simp: not_less intro: order_trans)

lemma scanBest_empty:
  "[] \<notin> set ids \<Longrightarrow> fst (scanBest isOpen score ids best) = [] \<longleftrightarrow> fst best = [] \<and> (\<forall>c\<in>set ids. \<not> isOpen c)"
  by (induction isOpen score ids best rule: scanBest.induct) auto

text \<open>The circuit both methods choose from a list of candidates.\<close>

definition bestOf :: "(string \<Rightarrow> bool) \<Rightarrow> (string \<Rightarrow> int) \<Rightarrow> string list \<Rightarrow> string" where
  "bestOf isOpen score ids = fst (scanBest isOpen score ids ([], -1))"

lemma bestOf_spec:
  assumes "[] \<notin> set ids" and "bestOf isOpen score ids \<noteq> []"
  shows "bestOf isOpen score ids \<in> set ids" and "isOpen (bestOf isOpen score ids)"
    and "\<And>c. c \<in> set ids \<Longrightarrow> isOpen c \<Longrightarrow> score c \<le> score (bestOf isOpen score ids)"
proof -
  let ?r = "scanBest isOpen score ids ([], -1)"
  show "bestOf isOpen score ids \<in> set ids" and "isOpen (bestOf isOpen score ids)"
    using scanBest_in [of isOpen score ids "([], -1)"] assms by (auto simp: bestOf_def)
  fix c assume "c \<in> set ids" "isOpen c"
  then show "score c \<le> score (bestOf isOpen score ids)"
    using scanBest_max [OF assms(1), of "([], -1)" isOpen score] scanBest_score [of "([], -1)" score isOpen ids]
      assms(2) by (simp add: bestOf_def)
qed

lemma bestOf_empty: "[] \<notin> set ids \<Longrightarrow> bestOf isOpen score ids = [] \<longleftrightarrow> (\<forall>c\<in>set ids. \<not> isOpen c)"
  by (simp add: bestOf_def scanBest_empty)

definition idleIDs :: "CircuitPool \<Rightarrow> PoolKind \<Rightarrow> string set" where
  "idleIDs p k = circuitID ` set (idle p k)"

lemma removeFirst_eq:
  "distinct (map circuitID es) \<Longrightarrow> cid \<in> circuitID ` set es \<Longrightarrow>
   removeFirst cid es = Some (filter (\<lambda>e. circuitID e \<noteq> cid) es)"
proof (induction es)
  case (Cons e es)
  have "filter (\<lambda>x. circuitID x \<noteq> circuitID e) es = es"
    using Cons.prems(1) by (auto simp: filter_id_conv image_iff)
  then show ?case using Cons by auto
qed simp

lemma removeFirst_None: "removeFirst cid es = None \<longleftrightarrow> cid \<notin> circuitID ` set es"
  by (induction es) auto

lemma dropStale_simps [simp]:
  "idle (dropStale k st p) k' =
     (if k' = k then filter (\<lambda>e. circuitID e \<notin> set st) (idle p k) else idle p k')"
  "inUseStreamCount (dropStale k st p) = inUseStreamCount p"
  "outCount (dropStale k st p) = outCount p"
  "pendingByKind (dropStale k st p) = pendingByKind p"
  "pendingTotal (dropStale k st p) = pendingTotal p"
  "maxTotal (dropStale k st p) = maxTotal p"
  "maxPerPool (dropStale k st p) = maxPerPool p"
  by (auto simp: dropStale_def Let_def)

lemma dropStale_Nil [simp]: "dropStale k [] p = p"
  by (cases p) (simp add: dropStale_def restrict_map_def)

text \<open>\<open>GetFromPool\<close> when a circuit of the kind with a stream is open, and when not.\<close>

lemma GetFromPool_shared:
  assumes ids: "[] \<notin> set order"
    and c: "c \<in> set order" "streamsOf p c > 0" "kindOf p c = kind" "isOpen c"
  obtains b where "b \<in> set order" "streamsOf p b > 0" "kindOf p b = kind" "isOpen b"
    and "\<And>d. d \<in> set order \<Longrightarrow> streamsOf p d > 0 \<Longrightarrow> kindOf p d = kind \<Longrightarrow> isOpen d \<Longrightarrow> score d \<le> score b"
    and "GetFromPool isOpen score order kind p =
      (p\<lparr>inUseStreamCount := (inUseStreamCount p)(b \<mapsto> streamsOf p b + 1)\<rparr>, Some b)"
proof -
  let ?ids = "filter (\<lambda>cid. streamsOf p cid > 0 \<and> kindOf p cid = kind) order"
  let ?b = "bestOf isOpen score ?ids"
  have e: "[] \<notin> set ?ids" using ids by simp
  have n: "?b \<noteq> []" using bestOf_empty [OF e, of isOpen score] c by auto
  note b = bestOf_spec [OF e n]
  have "GetFromPool isOpen score order kind p =
      (p\<lparr>inUseStreamCount := (inUseStreamCount p)(?b \<mapsto> streamsOf p ?b + 1)\<rparr>, Some ?b)"
    using n b(1) by (simp add: GetFromPool_def pickBestInUse_def bestOf_def [symmetric] shareInUse_def Let_def)
  then show thesis using that [of ?b] b by auto
qed

lemma GetFromPool_idle:
  assumes ids: "[] \<notin> set order"
    and c: "\<And>c. c \<in> set order \<Longrightarrow> streamsOf p c > 0 \<Longrightarrow> kindOf p c = kind \<Longrightarrow> \<not> isOpen c"
  shows "GetFromPool isOpen score order kind p = pickBestIdle isOpen score kind (idle p kind) p"
proof -
  let ?ids = "filter (\<lambda>cid. streamsOf p cid > 0 \<and> kindOf p cid = kind) order"
  have "bestOf isOpen score ?ids = []" using bestOf_empty [of ?ids isOpen score] ids c by auto
  then show ?thesis by (simp add: GetFromPool_def pickBestInUse_def bestOf_def Let_def)
qed

lemma pickBestIdle_eq:
  fixes isOpen :: "string \<Rightarrow> bool" and score :: "string \<Rightarrow> int" and p :: CircuitPool and kind :: PoolKind
  assumes "[] \<notin> idleIDs p kind" and "distinct (map circuitID (idle p kind))"
  defines "b \<equiv> bestOf isOpen score (map circuitID (idle p kind))"
    and "q \<equiv> dropStale kind (filter (\<lambda>c. \<not> isOpen c) (map circuitID (idle p kind))) p"
  shows "pickBestIdle isOpen score kind (idle p kind) p =
     (if b = [] then (q, None)
      else (q\<lparr>idle := (idle q)(kind := filter (\<lambda>e. circuitID e \<noteq> b) (idle q kind)),
              inUseStreamCount := (inUseStreamCount p)(b \<mapsto> 1),
              outCount := (outCount p)(kind := outCount p kind + 1)\<rparr>, Some b))"
proof -
  let ?ids = "map circuitID (idle p kind)"
  have q: "(if filter (\<lambda>c. \<not> isOpen c) ?ids \<noteq> []
      then dropStale kind (filter (\<lambda>c. \<not> isOpen c) ?ids) p else p) = q"
    by (cases "filter (\<lambda>c. \<not> isOpen c) ?ids = []") (simp_all add: q_def)
  have d: "distinct (map circuitID (idle q kind))"
    using assms(2) by (simp add: q_def distinct_map_filter)
  have m: "b \<noteq> [] \<Longrightarrow> b \<in> circuitID ` set (idle q kind)"
    using bestOf_spec(1,2) [of ?ids isOpen score] assms(1) unfolding b_def
    by (auto simp: q_def idleIDs_def)
  show ?thesis
    using m removeFirst_eq [OF d, of b] q
    by (simp add: pickBestIdle_def Let_def lendIdle_def b_def [symmetric, unfolded bestOf_def])
       (simp add: q_def)
qed

end
