(* ===== verification/Pool_Invariant.thy ===== *)
theory Pool_Invariant
  imports Pool
begin

text \<open>
  The accounting invariant of the circuit pool over every sequence of operations. A state
  of the system is the pool together with the set of circuits the factory reports as open
  and the set of IDs handed out so far (circuit IDs are random UUIDs and never reused).
  The steps are the operations of \<open>pool.go\<close> as the circuit manager calls them, each
  one atomic, and the closing of a circuit from outside, which the pool is not told about.
\<close>

section \<open>The invariant\<close>

definition inUseOf :: "CircuitPool \<Rightarrow> PoolKind \<Rightarrow> string set" where
  "inUseOf p k = {c. inUseStreamCount p c \<noteq> None \<and> circuitToKind p c = Some k}"

text \<open>
  The idle lists hold each circuit once; an idle circuit has no stream and is filed under
  its kind, unless it failed, in which case it is no longer open.
\<close>

definition idle_inv :: "CircuitPool \<Rightarrow> string set \<Rightarrow> string set \<Rightarrow> bool" where
  "idle_inv p opn used \<longleftrightarrow>
     (\<forall>k. distinct (map circuitID (idle p k))) \<and>
     (\<forall>k k'. k \<noteq> k' \<longrightarrow> idleIDs p k \<inter> idleIDs p k' = {}) \<and>
     (\<forall>k c. c \<in> idleIDs p k \<longrightarrow> c \<in> used \<and> inUseStreamCount p c = None \<and>
        (circuitToKind p c = Some k \<or> circuitToKind p c = None \<and> c \<notin> opn))"

text \<open>A lent circuit has at least one stream and a kind, and \<open>outCount\<close> counts them.\<close>

definition lent_inv :: "CircuitPool \<Rightarrow> string set \<Rightarrow> bool" where
  "lent_inv p used \<longleftrightarrow>
     (\<forall>c n. inUseStreamCount p c = Some n \<longrightarrow> n > 0 \<and> circuitToKind p c \<noteq> None) \<and>
     dom (circuitToKind p) \<subseteq> used \<and> finite (dom (inUseStreamCount p)) \<and>
     (\<forall>c k. circuitToKind p c = Some k \<longrightarrow> k \<in> set AllPoolKinds) \<and>
     (\<forall>k. outCount p k = int (card (inUseOf p k)))"

definition pending_inv :: "CircuitPool \<Rightarrow> bool" where
  "pending_inv p \<longleftrightarrow>
     (\<forall>k. 0 \<le> pendingByKind p k) \<and> pendingTotal p = (\<Sum>k\<in>set AllPoolKinds. pendingByKind p k)"

definition caps_inv :: "CircuitPool \<Rightarrow> bool" where
  "caps_inv p \<longleftrightarrow>
     effectiveTotalCountAllLocked p \<le> max 0 (maxTotal p) \<and>
     (maxPerPool p > 0 \<longrightarrow> (\<forall>k\<in>set AllPoolKinds. effectiveCountLocked p k \<le> maxPerPool p))"

definition pool_inv :: "CircuitPool \<times> string set \<times> string set \<Rightarrow> bool" where
  "pool_inv = (\<lambda>(p, opn, used). idle_inv p opn used \<and> lent_inv p used \<and> pending_inv p \<and> [] \<notin> used)"

section \<open>The steps\<close>

inductive pool_step ::
  "CircuitPool \<times> string set \<times> string set \<Rightarrow> CircuitPool \<times> string set \<times> string set \<Rightarrow> bool" where
  get: "k \<in> set AllPoolKinds \<Longrightarrow> set order = dom (inUseStreamCount p) \<Longrightarrow>
    pool_step (p, opn, used)
      (fst (GetFromPool (\<lambda>c. c \<in> opn) score order k p), opn, used)"
| return: "pool_step (p, opn, used) (ReturnToPool (\<lambda>c. c \<in> opn) c now p, opn, used)"
| fail: "pool_step (p, opn, used) (MarkCircuitFailed c p, opn - {c}, used)"
| close: "pool_step (p, opn, used) (p, opn - {c}, used)"
| try_reserve: "k \<in> set AllPoolKinds \<Longrightarrow>
    pool_step (p, opn, used) (fst (TryReserveBuild k p), opn, used)"
| reserve_target: "replenishTarget p = Some k \<Longrightarrow>
    pool_step (p, opn, used) (reserve k p, opn, used)"
| cancel: "k \<in> set AllPoolKinds \<Longrightarrow> 0 < pendingByKind p k \<Longrightarrow>
    pool_step (p, opn, used) (CancelReservedBuild k p, opn, used)"
| register_idle: "k \<in> set AllPoolKinds \<Longrightarrow> 0 < pendingByKind p k \<Longrightarrow> c \<notin> used \<Longrightarrow> c \<noteq> [] \<Longrightarrow>
    pool_step (p, opn, used) (registerPoolCircuit k c now p, insert c opn, insert c used)"
| register_used: "k \<in> set AllPoolKinds \<Longrightarrow> 0 < pendingByKind p k \<Longrightarrow> c \<notin> used \<Longrightarrow> c \<noteq> [] \<Longrightarrow>
    pool_step (p, opn, used) (RegisterCircuitInUse k c p, insert c opn, insert c used)"
| evict: "evictTail k (countExpired k now p) p = Inr (p', closed) \<Longrightarrow>
    pool_step (p, opn, used) (p', opn - set closed, used)"
| trim: "trimOnce p = Some (p', c) \<Longrightarrow> pool_step (p, opn, used) (p', opn - {c}, used)"

section \<open>Preservation\<close>

lemma idle_invI:
  assumes "\<And>k. distinct (map circuitID (idle p k))"
    and "\<And>c k k'. c \<in> idleIDs p k \<Longrightarrow> c \<in> idleIDs p k' \<Longrightarrow> k = k'"
    and "\<And>c k. c \<in> idleIDs p k \<Longrightarrow> c \<in> used"
    and "\<And>c k. c \<in> idleIDs p k \<Longrightarrow> inUseStreamCount p c = None"
    and "\<And>c k. c \<in> idleIDs p k \<Longrightarrow> circuitToKind p c = Some k \<or> circuitToKind p c = None \<and> c \<notin> opn"
  shows "idle_inv p opn used"
  using assms(1,3-5) unfolding idle_inv_def by (auto dest: assms(2))

lemma idle_invD:
  assumes "idle_inv p opn used"
  shows "distinct (map circuitID (idle p k))"
    and "c \<in> idleIDs p k \<Longrightarrow> c \<in> idleIDs p k' \<Longrightarrow> k = k'"
    and "c \<in> idleIDs p k \<Longrightarrow> c \<in> used"
    and "c \<in> idleIDs p k \<Longrightarrow> inUseStreamCount p c = None"
    and "c \<in> idleIDs p k \<Longrightarrow> circuitToKind p c = Some k \<or> circuitToKind p c = None \<and> c \<notin> opn"
  using assms unfolding idle_inv_def by blast+

text \<open>Removing entries from an idle list, together with their kinds or with none.\<close>

lemma idle_inv_shrink:
  assumes "idle_inv p opn used"
    and d: "\<And>k. distinct (map circuitID (idle p' k))" and sub: "\<And>k. idleIDs p' k \<subseteq> idleIDs p k"
    and "inUseStreamCount p' = inUseStreamCount p"
    and "\<And>k c. c \<in> idleIDs p' k \<Longrightarrow>
        circuitToKind p' c = circuitToKind p c \<or> circuitToKind p' c = None \<and> c \<notin> opn'"
    and "opn' \<subseteq> opn"
  shows "idle_inv p' opn' used"
proof -
  note D = idle_invD [OF assms(1)]
  show ?thesis
  proof (rule idle_invI)
    fix c k assume c: "c \<in> idleIDs p' k"
    then have c': "c \<in> idleIDs p k" using sub by blast
    show "c \<in> used" using D(3) [OF c'] .
    show "inUseStreamCount p' c = None" using D(4) [OF c'] assms(4) by simp
    show "circuitToKind p' c = Some k \<or> circuitToKind p' c = None \<and> c \<notin> opn'"
      using D(5) [OF c'] assms(5) [OF c] assms(6) by auto
  next
    fix c k k' assume "c \<in> idleIDs p' k" "c \<in> idleIDs p' k'"
    then show "k = k'" using sub D(2) by blast
  qed (rule d)
qed

lemma lent_invI:
  assumes "\<And>c n. inUseStreamCount p c = Some n \<Longrightarrow> n > 0 \<and> circuitToKind p c \<noteq> None"
    and "dom (circuitToKind p) \<subseteq> used" and "finite (dom (inUseStreamCount p))"
    and "\<And>c k. circuitToKind p c = Some k \<Longrightarrow> k \<in> set AllPoolKinds"
    and "\<And>k. outCount p k = int (card (inUseOf p k))"
  shows "lent_inv p used"
  using assms unfolding lent_inv_def by blast

lemma lent_invD:
  assumes "lent_inv p used"
  shows "inUseStreamCount p c = Some n \<Longrightarrow> n > 0"
    and "inUseStreamCount p c = Some n \<Longrightarrow> circuitToKind p c \<noteq> None"
    and "circuitToKind p c = Some k \<Longrightarrow> c \<in> used" and "finite (dom (inUseStreamCount p))"
    and "circuitToKind p c = Some k \<Longrightarrow> k \<in> set AllPoolKinds"
    and "outCount p k = int (card (inUseOf p k))"
  using assms unfolding lent_inv_def by blast+

lemma lent_inv_forget_idle:
  assumes "lent_inv p used" and "inUseStreamCount p' = inUseStreamCount p" and "outCount p' = outCount p"
    and "\<And>c. inUseStreamCount p c \<noteq> None \<Longrightarrow> circuitToKind p' c = circuitToKind p c"
    and "\<And>c k. circuitToKind p' c = Some k \<Longrightarrow> circuitToKind p c = Some k"
  shows "lent_inv p' used"
proof -
  note D = lent_invD [OF assms(1)]
  have "inUseOf p' k = inUseOf p k" for k
    using assms(2,4) by (auto simp: inUseOf_def)
  then show ?thesis
    using D assms(2,3) by (intro lent_invI) (auto dest: assms(5) simp: assms(4))
qed

lemma pending_inv_cong:
  "pendingByKind p' = pendingByKind p \<Longrightarrow> pendingTotal p' = pendingTotal p \<Longrightarrow> pending_inv p' = pending_inv p"
  by (simp add: pending_inv_def)

text \<open>Lending a circuit and taking it back change the count of its kind by one.\<close>

lemma lent_inv_add:
  assumes "lent_inv p used" and "inUseStreamCount p b = None" and "circuitToKind p b \<in> {None, Some k}"
    and "circuitToKind p' = (circuitToKind p)(b \<mapsto> k)"
    and "inUseStreamCount p' = (inUseStreamCount p)(b \<mapsto> 1)"
    and "outCount p' = (outCount p)(k := outCount p k + 1)"
    and "k \<in> set AllPoolKinds" and "b \<in> used'" and "used \<subseteq> used'"
  shows "lent_inv p' used'"
proof -
  note D = lent_invD [OF assms(1)]
  have "inUseOf p' k' = (if k' = k then insert b (inUseOf p k) else inUseOf p k')" for k'
    using assms(2-5) by (auto simp: inUseOf_def)
  moreover have "finite (inUseOf p k)" "b \<notin> inUseOf p k"
    using D(4) assms(2) by (auto simp: inUseOf_def dom_def elim: rev_finite_subset)
  ultimately show ?thesis
    using D assms(4-9) by (intro lent_invI) (auto split: if_splits)
qed

lemma lent_inv_remove:
  assumes "lent_inv p used" and "inUseStreamCount p c = Some n" and "circuitToKind p c = Some k"
    and "inUseStreamCount p' = (inUseStreamCount p)(c := None)"
    and "outCount p' = (outCount p)(k := outCount p k - 1)"
    and "circuitToKind p' = circuitToKind p \<or> circuitToKind p' = (circuitToKind p)(c := None)"
  shows "lent_inv p' used"
proof -
  note D = lent_invD [OF assms(1)]
  have "inUseOf p' k' = (if k' = k then inUseOf p k - {c} else inUseOf p k')" for k'
    using assms(2-6) by (auto simp: inUseOf_def split: if_splits)
  moreover have f: "finite (inUseOf p k)" "c \<in> inUseOf p k"
    using D(4) assms(2,3) by (auto simp: inUseOf_def dom_def elim: rev_finite_subset)
  moreover have "int (card (inUseOf p k - {c})) = int (card (inUseOf p k)) - 1"
    using card.remove [OF f] by simp
  ultimately show ?thesis
    using D assms(4-6) by (intro lent_invI) (auto split: if_splits)
qed

lemma lent_inv_streams:
  assumes "lent_inv p used" and "inUseStreamCount p c = Some n" and "m > 0"
    and "inUseStreamCount p' = (inUseStreamCount p)(c \<mapsto> m)"
    and "circuitToKind p' = circuitToKind p" and "outCount p' = outCount p"
  shows "lent_inv p' used"
proof -
  note D = lent_invD [OF assms(1)]
  have "inUseOf p' k = inUseOf p k" for k
    using assms(2,4,5) by (auto simp: inUseOf_def)
  then show ?thesis using D assms(2-6) by (intro lent_invI) (auto split: if_splits)
qed

text \<open>The idle lists: a circuit leaves, or joins with its kind recorded.\<close>

lemma idle_inv_lend:
  assumes "idle_inv p opn used" and "idle p' = (idle p)(k := filter (\<lambda>e. circuitID e \<noteq> b) (idle p k))"
    and "inUseStreamCount p' = (inUseStreamCount p)(b \<mapsto> 1)" and "circuitToKind p' = circuitToKind p"
    and "b \<in> idleIDs p k"
  shows "idle_inv p' opn used"
proof -
  note D = idle_invD [OF assms(1)]
  have ids: "idleIDs p' k' = idleIDs p k' - {b}" for k'
    using assms(2) D(2) [OF assms(5)] by (auto simp: idleIDs_def)
  have d: "distinct (map circuitID (idle p' k'))" for k'
    using D(1) assms(2) by (simp add: distinct_map_filter)
  show ?thesis
  proof (rule idle_invI)
    fix c k' assume "c \<in> idleIDs p' k'"
    then have c: "c \<noteq> b" "c \<in> idleIDs p k'" using ids by auto
    show "c \<in> used" using D(3) [OF c(2)] .
    show "inUseStreamCount p' c = None" using D(4) [OF c(2)] c(1) assms(3) by simp
    show "circuitToKind p' c = Some k' \<or> circuitToKind p' c = None \<and> c \<notin> opn"
      using D(5) [OF c(2)] assms(4) by simp
  next
    fix c k1 k2 assume "c \<in> idleIDs p' k1" "c \<in> idleIDs p' k2"
    then show "k1 = k2" using ids D(2) by blast
  qed (rule d)
qed

lemma idle_inv_join:
  assumes "idle_inv p opn used" and "\<And>k'. c \<notin> idleIDs p k'"
    and "idle p' = (idle p)(k := idle p k @ [\<lparr>circuitID = c, idleSince = t\<rparr>])"
    and "inUseStreamCount p' c = None" and "\<And>d. d \<noteq> c \<Longrightarrow> inUseStreamCount p' d = inUseStreamCount p d"
    and "circuitToKind p' c = Some k" and "\<And>d. d \<noteq> c \<Longrightarrow> circuitToKind p' d = circuitToKind p d"
    and "c \<in> used'" and "used \<subseteq> used'" and "opn' \<subseteq> insert c opn"
  shows "idle_inv p' opn' used'"
proof -
  note D = idle_invD [OF assms(1)]
  have ids: "idleIDs p' k' = (if k' = k then insert c (idleIDs p k) else idleIDs p k')" for k'
    using assms(3) by (auto simp: idleIDs_def)
  have d: "distinct (map circuitID (idle p' k'))" for k'
    using D(1) assms(2) [of k] assms(3) by (auto simp: idleIDs_def)
  show ?thesis
  proof (rule idle_invI)
    fix x k' assume x: "x \<in> idleIDs p' k'"
    consider "x = c" "k' = k" | "x \<noteq> c" "x \<in> idleIDs p k'"
      using x ids assms(2) by (auto split: if_splits)
    note cs = this
    show "x \<in> used'" by (cases rule: cs) (use assms(8,9) D(3) in auto)
    show "inUseStreamCount p' x = None" by (cases rule: cs) (use assms(4,5) D(4) in auto)
    show "circuitToKind p' x = Some k' \<or> circuitToKind p' x = None \<and> x \<notin> opn'"
      by (cases rule: cs) (use assms(6,7,10) D(5) in auto)
  next
    fix x k1 k2 assume "x \<in> idleIDs p' k1" "x \<in> idleIDs p' k2"
    then show "k1 = k2" using ids D(2) assms(2) by (auto split: if_splits)
  qed (rule d)
qed

lemma idle_inv_other:
  assumes "idle_inv p opn used" and "idle p' = idle p"
    and "\<And>c k. c \<in> idleIDs p k \<Longrightarrow> inUseStreamCount p' c = inUseStreamCount p c"
    and "\<And>c k. c \<in> idleIDs p k \<Longrightarrow>
        circuitToKind p' c = circuitToKind p c \<or> circuitToKind p' c = None \<and> c \<notin> opn'"
    and "used \<subseteq> used'" and "opn' \<inter> used \<subseteq> opn"
  shows "idle_inv p' opn' used'"
proof -
  note D = idle_invD [OF assms(1)]
  have ids: "idleIDs p' = idleIDs p" using assms(2) by (auto simp: idleIDs_def fun_eq_iff)
  show ?thesis
  proof (rule idle_invI; (unfold ids)?)
    fix c k assume c: "c \<in> idleIDs p k"
    show "c \<in> used'" using D(3) [OF c] assms(5) by blast
    show "inUseStreamCount p' c = None" using D(4) [OF c] assms(3) [OF c] by simp
    show "circuitToKind p' c = Some k \<or> circuitToKind p' c = None \<and> c \<notin> opn'"
      using D(3,5) [OF c] assms(4) [OF c] assms(6) by auto
  qed (use D(1,2) assms(2) in auto)
qed

text \<open>Every operation keeps the invariant.\<close>

lemma streamsOf_pos: "lent_inv p used \<Longrightarrow> 0 < streamsOf p c \<longleftrightarrow> inUseStreamCount p c = Some (streamsOf p c)"
  by (auto simp: streamsOf_def dest: lent_invD(1) split: option.splits)

lemma kindOf_Some: "kindOf p c = k \<Longrightarrow> k \<noteq> [] \<Longrightarrow> circuitToKind p c = Some k"
  by (auto simp: kindOf_def split: option.splits)

lemma AllPoolKinds_ne: "k \<in> set AllPoolKinds \<Longrightarrow> k \<noteq> []"
  by (auto simp: AllPoolKinds_def)

lemma inv_share:
  assumes "pool_inv (p, opn, used)" and "0 < streamsOf p b"
  shows "pool_inv (p\<lparr>inUseStreamCount := (inUseStreamCount p)(b \<mapsto> streamsOf p b + 1)\<rparr>, opn, used)"
    (is "pool_inv (?p', _, _)")
proof -
  have inv: "idle_inv p opn used" "lent_inv p used" using assms(1) by (auto simp: pool_inv_def)
  have b: "inUseStreamCount p b = Some (streamsOf p b)" using assms(2) streamsOf_pos [OF inv(2)] by blast
  have "idle_inv ?p' opn used"
    by (rule idle_inv_other [OF inv(1)]) (use idle_invD(4) [OF inv(1), of b] b in auto)
  moreover have "lent_inv ?p' used"
    by (rule lent_inv_streams [OF inv(2) b]) (use assms(2) in auto)
  ultimately show ?thesis using assms(1) by (simp add: pool_inv_def pending_inv_def)
qed

lemma inv_dropStale:
  assumes "pool_inv (p, opn, used)" and "\<And>c. c \<in> set stale \<Longrightarrow> c \<notin> opn"
  shows "pool_inv (dropStale k stale p, opn, used)"
proof -
  have inv: "idle_inv p opn used" "lent_inv p used" using assms(1) by (auto simp: pool_inv_def)
  have ctk: "circuitToKind (dropStale k stale p) c =
      (if c \<in> set stale \<and> c \<in> idleIDs p k then None else circuitToKind p c)" for c
    by (auto simp: dropStale_def Let_def restrict_map_def idleIDs_def)
  have "idle_inv (dropStale k stale p) opn used"
  proof (rule idle_inv_shrink [OF inv(1)])
    show "distinct (map circuitID (idle (dropStale k stale p) k'))" for k'
      using idle_invD(1) [OF inv(1)] by (simp add: distinct_map_filter)
    show "idleIDs (dropStale k stale p) k' \<subseteq> idleIDs p k'" for k' by (auto simp: idleIDs_def)
  qed (use ctk assms(2) in auto)
  moreover have "lent_inv (dropStale k stale p) used"
    using idle_invD(4) [OF inv(1)] by (intro lent_inv_forget_idle [OF inv(2)]) (auto simp: ctk split: if_splits)
  ultimately show ?thesis using assms(1) by (simp add: pool_inv_def pending_inv_def)
qed

lemma inv_lend:
  assumes "pool_inv (p, opn, used)" and "b \<in> idleIDs p k" and "b \<in> opn" and "k \<in> set AllPoolKinds"
  shows "pool_inv (p\<lparr>idle := (idle p)(k := filter (\<lambda>e. circuitID e \<noteq> b) (idle p k)),
      inUseStreamCount := (inUseStreamCount p)(b \<mapsto> 1),
      outCount := (outCount p)(k := outCount p k + 1)\<rparr>, opn, used)" (is "pool_inv (?p', _, _)")
proof -
  have inv: "idle_inv p opn used" "lent_inv p used" using assms(1) by (auto simp: pool_inv_def)
  note D = idle_invD [OF inv(1)]
  have b: "circuitToKind p b = Some k" "inUseStreamCount p b = None" "b \<in> used"
    using D(3-5) [OF assms(2)] assms(3) by auto
  have "idle_inv ?p' opn used" by (rule idle_inv_lend [OF inv(1) _ _ _ assms(2)]) auto
  moreover have "lent_inv ?p' used"
    by (rule lent_inv_add [OF inv(2) b(2)]) (use b assms(4) in \<open>auto simp: map_upd_triv\<close>)
  ultimately show ?thesis using assms(1) by (simp add: pool_inv_def pending_inv_def)
qed

lemma inv_GetFromPool:
  assumes inv: "pool_inv (p, opn, used)" and k: "k \<in> set AllPoolKinds"
    and order: "set order = dom (inUseStreamCount p)"
  shows "pool_inv (fst (GetFromPool (\<lambda>c. c \<in> opn) score order k p), opn, used)"
proof -
  have i: "idle_inv p opn used" "lent_inv p used" "[] \<notin> used" using inv by (auto simp: pool_inv_def)
  have e: "[] \<notin> set order" using lent_invD(2,3) [OF i(2)] i(3) order by fastforce
  have d: "distinct (map circuitID (idle p k))" "[] \<notin> idleIDs p k"
    using idle_invD(1,3) [OF i(1)] i(3) by auto
  show ?thesis
  proof (cases "\<exists>c\<in>set order. streamsOf p c > 0 \<and> kindOf p c = k \<and> c \<in> opn")
    case True
    then obtain c where c: "c \<in> set order" "streamsOf p c > 0" "kindOf p c = k" "c \<in> opn" by auto
    obtain b where "streamsOf p b > 0" "GetFromPool (\<lambda>c. c \<in> opn) score order k p =
      (p\<lparr>inUseStreamCount := (inUseStreamCount p)(b \<mapsto> streamsOf p b + 1)\<rparr>, Some b)"
      by (rule GetFromPool_shared [where isOpen = "\<lambda>c. c \<in> opn", OF e c])
    then show ?thesis using inv_share [OF inv] by simp
  next
    case False
    let ?ids = "map circuitID (idle p k)" and ?b = "bestOf (\<lambda>c. c \<in> opn) score (map circuitID (idle p k))"
    let ?q = "dropStale k (filter (\<lambda>c. c \<notin> opn) ?ids) p"
    have q: "pool_inv (?q, opn, used)" by (rule inv_dropStale [OF inv]) auto
    have "?b \<noteq> [] \<Longrightarrow> ?b \<in> idleIDs ?q k \<and> ?b \<in> opn"
      using bestOf_spec(1,2) [of ?ids "\<lambda>c. c \<in> opn" score] d(2) by (auto simp: idleIDs_def)
    then have "pool_inv (fst (pickBestIdle (\<lambda>c. c \<in> opn) score k (idle p k) p), opn, used)"
      using inv_lend [OF q _ _ k, of ?b] q by (simp add: pickBestIdle_eq [OF d(2,1)])
    then show ?thesis using GetFromPool_idle [OF e, of p k "\<lambda>c. c \<in> opn" score] False by simp
  qed
qed

lemma inv_ReturnToPool:
  assumes inv: "pool_inv (p, opn, used)"
  shows "pool_inv (ReturnToPool (\<lambda>c. c \<in> opn) c now p, opn, used)"
proof -
  have i: "idle_inv p opn used" "lent_inv p used" using inv by (auto simp: pool_inv_def)
  consider (out) "circuitToKind p c = None \<or> streamsOf p c \<le> 0"
    | (dec) k where "circuitToKind p c = Some k" "streamsOf p c > 1"
    | (last) k where "circuitToKind p c = Some k" "streamsOf p c = 1"
    by force
  then show ?thesis
  proof cases
    case out
    then show ?thesis using inv by (auto simp: ReturnToPool_def releaseStream_def Let_def split: option.splits)
  next
    case dec
    have n: "inUseStreamCount p c = Some (streamsOf p c)" using streamsOf_pos [OF i(2), of c] dec(2) by simp
    let ?p' = "p\<lparr>inUseStreamCount := (inUseStreamCount p)(c \<mapsto> streamsOf p c - 1)\<rparr>"
    have "idle_inv ?p' opn used"
      by (rule idle_inv_other [OF i(1)]) (use idle_invD(4) [OF i(1), of c] n in auto)
    moreover have "lent_inv ?p' used"
      by (rule lent_inv_streams [OF i(2) n]) (use dec(2) in auto)
    ultimately show ?thesis
      using inv dec by (simp add: ReturnToPool_def releaseStream_def pool_inv_def pending_inv_def)
  next
    case last
    have n: "inUseStreamCount p c = Some 1" using streamsOf_pos [OF i(2), of c] last(2) by simp
    have nid: "c \<notin> idleIDs p k'" for k' using idle_invD(4) [OF i(1), of c k'] n by auto
    have u: "c \<in> used" using lent_invD(3) [OF i(2) last(1)] .
    let ?r = "p\<lparr>inUseStreamCount := (inUseStreamCount p)(c := None),
      outCount := (outCount p)(k := outCount p k - 1)\<rparr>"
    have "idle_inv (forgetCircuit c ?r) opn used"
      by (rule idle_inv_other [OF i(1)]) (use nid in \<open>auto simp: forgetCircuit_def\<close>)
    moreover have "idle_inv (requeue k c now ?r) opn used"
      by (rule idle_inv_join [OF i(1) nid, where k = k]) (use last(1) u in \<open>auto simp: requeue_def\<close>)
    moreover have "lent_inv (forgetCircuit c ?r) used" "lent_inv (requeue k c now ?r) used"
      by (rule lent_inv_remove [OF i(2) n last(1)]; simp add: forgetCircuit_def requeue_def)+
    ultimately show ?thesis
      using inv last by (simp add: ReturnToPool_def releaseStream_def pool_inv_def pending_inv_def
          forgetCircuit_def requeue_def)
  qed
qed

lemma inv_MarkCircuitFailed:
  assumes inv: "pool_inv (p, opn, used)"
  shows "pool_inv (MarkCircuitFailed c p, opn - {c}, used)"
proof -
  have i: "idle_inv p opn used" "lent_inv p used" using inv by (auto simp: pool_inv_def)
  have "idle_inv (MarkCircuitFailed c p) (opn - {c}) used"
  proof (rule idle_inv_other [OF i(1)])
    fix d k assume d: "d \<in> idleIDs p k"
    show "inUseStreamCount (MarkCircuitFailed c p) d = inUseStreamCount p d"
      using idle_invD(4) [OF i(1) d] by (auto simp: MarkCircuitFailed_def forgetCircuit_def Let_def split: option.splits)
    show "circuitToKind (MarkCircuitFailed c p) d = circuitToKind p d
        \<or> circuitToKind (MarkCircuitFailed c p) d = None \<and> d \<notin> opn - {c}"
      by (auto simp: MarkCircuitFailed_def forgetCircuit_def Let_def split: option.splits)
  qed (auto simp: MarkCircuitFailed_def forgetCircuit_def Let_def split: option.splits)
  moreover have "lent_inv (MarkCircuitFailed c p) used"
  proof (cases "circuitToKind p c")
    case None
    then show ?thesis using i by (simp add: MarkCircuitFailed_def)
  next
    case (Some k)
    show ?thesis
    proof (cases "streamsOf p c > 0")
      case True
      then have n: "inUseStreamCount p c = Some (streamsOf p c)" using streamsOf_pos [OF i(2), of c] by simp
      show ?thesis
        by (rule lent_inv_remove [OF i(2) n Some])
           (use True Some in \<open>auto simp: MarkCircuitFailed_def forgetCircuit_def Let_def\<close>)
    next
      case False
      then have "inUseStreamCount p c = None"
        using lent_invD(1) [OF i(2), of c] by (auto simp: streamsOf_def split: option.splits)
      then show ?thesis using False Some
        by (intro lent_inv_forget_idle [OF i(2)])
           (auto simp: MarkCircuitFailed_def forgetCircuit_def split: if_splits)
    qed
  qed
  moreover have "pending_inv (MarkCircuitFailed c p) = pending_inv p"
    by (rule pending_inv_cong) (auto simp: MarkCircuitFailed_def forgetCircuit_def Let_def split: option.splits)
  ultimately show ?thesis using inv by (simp add: pool_inv_def)
qed

lemma inv_close: "pool_inv (p, opn, used) \<Longrightarrow> opn' \<subseteq> opn \<Longrightarrow> pool_inv (p, opn', used)"
  by (auto simp: pool_inv_def intro!: idle_inv_other [of p opn used])

text \<open>Reservations.\<close>

lemma sum_kinds: "(\<Sum>k\<in>set AllPoolKinds. f k) = f PoolLowLatency + f PoolAnonymous + (f PoolCountry :: int)"
  by (simp add: AllPoolKinds_def)

lemma pending_inv_reserve: "pending_inv p \<Longrightarrow> k \<in> set AllPoolKinds \<Longrightarrow> pending_inv (reserve k p)"
  by (auto simp: pending_inv_def reserve_def sum_kinds elim: kinds_cases)

lemma pending_inv_take:
  "pending_inv p \<Longrightarrow> k \<in> set AllPoolKinds \<Longrightarrow> pending_inv (takeReservation k p)"
  by (auto simp: pending_inv_def takeReservation_def sum_kinds elim: kinds_cases)

lemma CancelReservedBuild_eq:
  assumes "pending_inv p" and "k \<in> set AllPoolKinds" and "0 < pendingByKind p k"
  shows "CancelReservedBuild k p = takeReservation k p"
proof -
  have "pendingByKind p k \<le> pendingTotal p"
    using assms(1,2) member_le_sum [of k "set AllPoolKinds" "pendingByKind p"]
    by (simp add: pending_inv_def)
  then show ?thesis using assms(3) by (simp add: CancelReservedBuild_def takeReservation_def)
qed

lemma inv_pending_only:
  assumes "pool_inv (p, opn, used)" and "pending_inv p'"
    and "idle p' = idle p" "circuitToKind p' = circuitToKind p"
    and "inUseStreamCount p' = inUseStreamCount p" "outCount p' = outCount p"
  shows "pool_inv (p', opn, used)"
proof -
  have i: "idle_inv p opn used" "lent_inv p used" using assms(1) by (auto simp: pool_inv_def)
  have "idle_inv p' opn used" by (rule idle_inv_other [OF i(1)]) (simp_all add: assms)
  moreover have "lent_inv p' used" by (rule lent_inv_forget_idle [OF i(2)]) (simp_all add: assms)
  ultimately show ?thesis using assms(1,2) by (simp add: pool_inv_def)
qed

lemma inv_reserve: "pool_inv (p, opn, used) \<Longrightarrow> k \<in> set AllPoolKinds \<Longrightarrow> pool_inv (reserve k p, opn, used)"
  by (rule inv_pending_only [of p opn used], assumption)
     (simp add: pool_inv_def pending_inv_reserve, simp_all add: reserve_def)

lemma inv_take: "pool_inv (p, opn, used) \<Longrightarrow> k \<in> set AllPoolKinds \<Longrightarrow> pool_inv (takeReservation k p, opn, used)"
  by (rule inv_pending_only [of p opn used], assumption)
     (simp add: pool_inv_def pending_inv_take, simp_all add: takeReservation_def)

lemma inv_fresh:
  assumes "pool_inv (p, opn, used)" and "c \<notin> used"
  shows "c \<notin> idleIDs p k" and "inUseStreamCount p c = None" and "circuitToKind p c = None"
proof -
  have i: "idle_inv p opn used" "lent_inv p used" using assms(1) by (auto simp: pool_inv_def)
  show "c \<notin> idleIDs p k" using idle_invD(3) [OF i(1)] assms(2) by blast
  show c: "circuitToKind p c = None" using lent_invD(3) [OF i(2)] assms(2) by (cases "circuitToKind p c") auto
  show "inUseStreamCount p c = None"
    using lent_invD(2) [OF i(2), of c] c by (cases "inUseStreamCount p c") auto
qed

lemma lent_inv_grow:
  assumes "lent_inv p used" and "inUseStreamCount p c = None"
    and "circuitToKind p' = (circuitToKind p)(c \<mapsto> k)" and "k \<in> set AllPoolKinds"
    and "inUseStreamCount p' = inUseStreamCount p" "outCount p' = outCount p"
  shows "lent_inv p' (insert c used)"
proof -
  note D = lent_invD [OF assms(1)]
  have "inUseOf p' k' = inUseOf p k'" for k'
    using assms(2-5) by (auto simp: inUseOf_def)
  then show ?thesis using D assms(2-6) by (intro lent_invI) (auto split: if_splits)
qed

lemma inv_registerPoolCircuit:
  assumes "pool_inv (p, opn, used)" and "k \<in> set AllPoolKinds" and "c \<notin> used" and "c \<noteq> []"
  shows "pool_inv (registerPoolCircuit k c now p, insert c opn, insert c used)"
proof -
  let ?q = "takeReservation k p"
  have q: "pool_inv (?q, opn, used)" by (rule inv_take [OF assms(1,2)])
  have i: "idle_inv ?q opn used" "lent_inv ?q used" using q by (auto simp: pool_inv_def)
  note f = inv_fresh [OF q assms(3)]
  have "idle_inv (registerPoolCircuit k c now p) (insert c opn) (insert c used)"
    by (rule idle_inv_join [OF i(1) f(1), where k = k])
       (use f(2) in \<open>auto simp: registerPoolCircuit_def requeue_def Let_def\<close>)
  moreover have "lent_inv (registerPoolCircuit k c now p) (insert c used)"
    by (rule lent_inv_grow [OF i(2) f(2) _ assms(2)]) (auto simp: registerPoolCircuit_def requeue_def Let_def)
  ultimately show ?thesis using q assms(4) by (simp add: pool_inv_def pending_inv_def)
qed

lemma inv_RegisterCircuitInUse:
  assumes "pool_inv (p, opn, used)" and "k \<in> set AllPoolKinds" and "c \<notin> used" and "c \<noteq> []"
  shows "pool_inv (RegisterCircuitInUse k c p, insert c opn, insert c used)"
proof -
  let ?q = "takeReservation k p"
  have q: "pool_inv (?q, opn, used)" by (rule inv_take [OF assms(1,2)])
  have i: "idle_inv ?q opn used" "lent_inv ?q used" using q by (auto simp: pool_inv_def)
  note f = inv_fresh [OF q assms(3)]
  have "idle_inv (RegisterCircuitInUse k c p) (insert c opn) (insert c used)"
    by (rule idle_inv_other [OF i(1)])
       (use f(1) assms(3) in \<open>auto simp: RegisterCircuitInUse_def Let_def\<close>)
  moreover have "lent_inv (RegisterCircuitInUse k c p) (insert c used)"
    by (rule lent_inv_add [OF i(2) f(2)])
       (use f(3) assms(2) in \<open>auto simp: RegisterCircuitInUse_def Let_def\<close>)
  ultimately show ?thesis using q assms(4) by (simp add: pool_inv_def pending_inv_def RegisterCircuitInUse_def Let_def)
qed

text \<open>Closing idle circuits: eviction and trimming.\<close>

lemma inv_close_idle:
  assumes inv: "pool_inv (p, opn, used)"
    and "\<And>k. distinct (map circuitID (idle p' k))" and "\<And>k. idleIDs p' k \<subseteq> idleIDs p k"
    and "circuitToKind p' = circuitToKind p |` (- closed)" and "\<And>c. c \<in> closed \<Longrightarrow> \<exists>k. c \<in> idleIDs p k"
    and "inUseStreamCount p' = inUseStreamCount p" "outCount p' = outCount p"
    and "pendingByKind p' = pendingByKind p" "pendingTotal p' = pendingTotal p"
  shows "pool_inv (p', opn - closed, used)"
proof -
  have i: "idle_inv p opn used" "lent_inv p used" using inv by (auto simp: pool_inv_def)
  have "idle_inv p' (opn - closed) used"
    by (rule idle_inv_shrink [OF i(1) assms(2,3,6)]) (auto simp: assms(4) restrict_map_def)
  moreover have "lent_inv p' used"
    using idle_invD(4) [OF i(1)]
    by (intro lent_inv_forget_idle [OF i(2) assms(6,7)])
       (auto simp: assms(4) restrict_map_def dest!: assms(5) split: if_splits)
  ultimately show ?thesis using inv assms(8,9) by (simp add: pool_inv_def pending_inv_def)
qed

lemma inv_evictTail:
  assumes inv: "pool_inv (p, opn, used)" and e: "evictTail k n p = Inr (p', closed)"
  shows "pool_inv (p', opn - set closed, used)"
proof (cases "n = 0")
  case True
  then show ?thesis using e inv by (simp add: evictTail_def)
next
  case False
  have i: "idle_inv p opn used" using inv by (auto simp: pool_inv_def)
  let ?m = "length (idle p k) - n"
  have e: "p' = p\<lparr>idle := (idle p)(k := take ?m (idle p k)), circuitToKind := circuitToKind p |` (- set closed)\<rparr>"
    "closed = map circuitID (drop ?m (idle p k))"
    using e False by (auto simp: evictTail_def Let_def split: if_splits)
  show ?thesis
    by (rule inv_close_idle [OF inv])
       (use idle_invD(1) [OF i] e in
        \<open>auto simp: idleIDs_def take_map [symmetric] dest: in_set_takeD in_set_dropD\<close>)
qed

lemma inv_trimOnce:
  assumes inv: "pool_inv (p, opn, used)" and t: "trimOnce p = Some (p', c)"
  shows "pool_inv (p', opn - {c}, used)"
proof -
  have i: "idle_inv p opn used" using inv by (auto simp: pool_inv_def)
  obtain k e es where h: "idle p k = e # es" "c = circuitID e"
    "p' = p\<lparr>idle := (idle p)(k := es), circuitToKind := (circuitToKind p)(c := None)\<rparr>"
    using t by (auto simp: trimOnce_def split: if_splits option.splits dest!: oldestHead_in)
  show ?thesis
    by (rule inv_close_idle [OF inv])
       (use idle_invD(1) [OF i, of k] idle_invD(1) [OF i] h in
        \<open>auto simp: idleIDs_def restrict_map_def fun_eq_iff intro!: exI [of _ k]\<close>)
qed

lemma pool_step_inv:
  assumes "pool_step s s'" and "pool_inv s"
  shows "pool_inv s'"
  using assms
proof (cases rule: pool_step.cases)
  case (close p opn used c)
  then show ?thesis using assms(2) inv_close by blast
next
  case (try_reserve k p opn used)
  then show ?thesis using assms(2) by (auto simp: TryReserveBuild_def intro: inv_reserve)
next
  case (cancel k p opn used)
  then show ?thesis
    using assms(2) CancelReservedBuild_eq [of p k] inv_take [of p opn used k] by (simp add: pool_inv_def)
qed (use assms(2) in \<open>auto intro: inv_GetFromPool inv_ReturnToPool inv_MarkCircuitFailed
  inv_reserve inv_registerPoolCircuit inv_RegisterCircuitInUse inv_evictTail inv_trimOnce
  dest: replenishTarget_in\<close>)

section \<open>The caps\<close>

text \<open>
  Under the invariant the effective total is the sum over the kinds, so it is enough to
  follow the count of each kind: every step lowers it or leaves it, except a reservation,
  which is only made below both caps.
\<close>

lemma effectiveTotal_eq:
  "pending_inv p \<Longrightarrow> effectiveTotalCountAllLocked p = (\<Sum>k\<in>set AllPoolKinds. effectiveCountLocked p k)"
  by (simp add: effectiveTotalCountAllLocked_def effectiveCountLocked_def totalCountAll_eq sum_kinds pending_inv_def)

definition same_limits :: "CircuitPool \<Rightarrow> CircuitPool \<Rightarrow> bool" where
  "same_limits p p' \<longleftrightarrow> maxTotal p' = maxTotal p \<and> maxPerPool p' = maxPerPool p"

definition lowers :: "CircuitPool \<Rightarrow> CircuitPool \<Rightarrow> bool" where
  "lowers p p' \<longleftrightarrow> same_limits p p' \<and> (\<forall>k. effectiveCountLocked p' k \<le> effectiveCountLocked p k)"

lemmas lowers_defs = lowers_def same_limits_def effectiveCountLocked_def totalCount_def

lemma lowers_refl [simp]: "lowers p p"
  by (simp add: lowers_def same_limits_def)

lemma replenishTarget_room:
  "replenishTarget p = Some k \<Longrightarrow> effectiveCountLocked p k < maxPerPool p"
  by (auto simp: replenishTarget_def AllPoolKinds_def Let_def split: if_splits option.splits)

lemma lowers_GetFromPool:
  assumes inv: "pool_inv (p, opn, used)" and order: "set order = dom (inUseStreamCount p)"
  shows "lowers p (fst (GetFromPool (\<lambda>c. c \<in> opn) score order k p))"
proof -
  have i: "idle_inv p opn used" "lent_inv p used" "[] \<notin> used" using inv by (auto simp: pool_inv_def)
  have e: "[] \<notin> set order" using lent_invD(2,3) [OF i(2)] i(3) order by fastforce
  have d: "distinct (map circuitID (idle p k))" "[] \<notin> idleIDs p k"
    using idle_invD(1,3) [OF i(1)] i(3) by auto
  show ?thesis
  proof (cases "\<exists>c\<in>set order. streamsOf p c > 0 \<and> kindOf p c = k \<and> c \<in> opn")
    case True
    then obtain c where c: "c \<in> set order" "streamsOf p c > 0" "kindOf p c = k" "c \<in> opn" by auto
    obtain b where "GetFromPool (\<lambda>c. c \<in> opn) score order k p =
      (p\<lparr>inUseStreamCount := (inUseStreamCount p)(b \<mapsto> streamsOf p b + 1)\<rparr>, Some b)"
      by (rule GetFromPool_shared [where isOpen = "\<lambda>c. c \<in> opn", OF e c])
    then show ?thesis by (simp add: lowers_defs)
  next
    case False
    let ?ids = "map circuitID (idle p k)" and ?b = "bestOf (\<lambda>c. c \<in> opn) score (map circuitID (idle p k))"
    let ?q = "dropStale k (filter (\<lambda>c. c \<notin> opn) ?ids) p"
    have l: "length (idle ?q k) \<le> length (idle p k)" by simp
    have "length (filter (\<lambda>e. circuitID e \<noteq> ?b) (idle ?q k)) < length (idle p k)" if n: "?b \<noteq> []"
    proof -
      have "?b \<in> circuitID ` set (idle ?q k)"
        using bestOf_spec(1,2) [of ?ids "\<lambda>c. c \<in> opn" score] d(2) n by (auto simp: idleIDs_def)
      then obtain e where "e \<in> set (idle ?q k)" "circuitID e = ?b" by auto
      then show ?thesis by (intro less_le_trans [OF _ l] length_filter_less [of e]) auto
    qed
    then have "lowers p (fst (pickBestIdle (\<lambda>c. c \<in> opn) score k (idle p k) p))"
      using l by (auto simp: pickBestIdle_eq [OF d(2,1)] lowers_defs)
    then show ?thesis using GetFromPool_idle [OF e, of p k "\<lambda>c. c \<in> opn" score] False by simp
  qed
qed

lemma lowers_ReturnToPool: "lowers p (ReturnToPool isOpen c now p)"
  by (auto simp: ReturnToPool_def releaseStream_def forgetCircuit_def requeue_def Let_def lowers_defs
      split: option.splits)

lemma lowers_MarkCircuitFailed: "lowers p (MarkCircuitFailed c p)"
  by (auto simp: MarkCircuitFailed_def forgetCircuit_def Let_def lowers_defs split: option.splits)

lemma lowers_register:
  assumes "0 < pendingByKind p k"
  shows "lowers p (registerPoolCircuit k c now p)" and "lowers p (RegisterCircuitInUse k c p)"
    and "lowers p (takeReservation k p)"
  using assms by (simp_all add: registerPoolCircuit_def RegisterCircuitInUse_def takeReservation_def
      requeue_def Let_def lowers_defs)

lemma lowers_evictTail: "evictTail k n p = Inr (p', closed) \<Longrightarrow> lowers p p'"
  by (auto simp: evictTail_def Let_def lowers_defs split: if_splits)

lemma lowers_trimOnce: "trimOnce p = Some (p', c) \<Longrightarrow> lowers p p'"
  by (auto simp: trimOnce_def lowers_defs split: if_splits option.splits dest!: removeFirst_length)

lemma pool_step_counts:
  assumes "pool_step (p, opn, used) (p', opn', used')" and "pool_inv (p, opn, used)"
  shows "lowers p p' \<or> (\<exists>k\<in>set AllPoolKinds. p' = reserve k p \<and>
     effectiveTotalCountAllLocked p < maxTotal p \<and>
     (maxPerPool p > 0 \<longrightarrow> effectiveCountLocked p k < maxPerPool p))"
  using assms(1)
proof (cases rule: pool_step.cases)
  case (cancel k)
  then show ?thesis
    using assms(2) CancelReservedBuild_eq [of p k] lowers_register(3) [of p k] by (simp add: pool_inv_def)
next
  case (try_reserve k)
  then show ?thesis by (auto simp: TryReserveBuild_def not_le)
next
  case (reserve_target k)
  then show ?thesis
    using replenishTarget_in [of p k] replenishTarget_below [of p k] replenishTarget_room [of p k] by blast
qed (use assms(2) in \<open>auto intro: lowers_GetFromPool lowers_ReturnToPool lowers_MarkCircuitFailed
  lowers_register lowers_evictTail lowers_trimOnce\<close>)

lemma caps_inv_step:
  assumes "pool_step (p, opn, used) (p', opn', used')" and "pool_inv (p, opn, used)" and "caps_inv p"
  shows "caps_inv p'"
proof -
  have inv': "pool_inv (p', opn', used')" using pool_step_inv assms(1,2) by blast
  have pend: "pending_inv p" "pending_inv p'" using assms(2) inv' by (auto simp: pool_inv_def)
  from pool_step_counts [OF assms(1,2)] show ?thesis
  proof
    assume l: "lowers p p'"
    then have "effectiveTotalCountAllLocked p' \<le> effectiveTotalCountAllLocked p"
      using pend by (simp add: effectiveTotal_eq lowers_def sum_mono)
    then show ?thesis
      using l assms(3) unfolding caps_inv_def lowers_def same_limits_def by (auto intro: order_trans)
  next
    assume "\<exists>k\<in>set AllPoolKinds. p' = reserve k p \<and> effectiveTotalCountAllLocked p < maxTotal p \<and>
       (maxPerPool p > 0 \<longrightarrow> effectiveCountLocked p k < maxPerPool p)"
    then show ?thesis using assms(3) by (auto simp: caps_inv_def count_simps)
  qed
qed

section \<open>Reachable pools\<close>

abbreviation pool_start :: "CircuitPoolConfig \<Rightarrow> CircuitPool \<times> string set \<times> string set" where
  "pool_start cfg \<equiv> (NewCircuitPool cfg, {}, {})"

lemma pool_inv_start: "pool_inv (pool_start cfg)"
  by (auto simp: pool_inv_def NewCircuitPool_def idle_inv_def lent_inv_def pending_inv_def idleIDs_def
      inUseOf_def)

lemma caps_inv_start: "caps_inv (NewCircuitPool cfg)"
  by (simp add: caps_inv_def NewCircuitPool_def effectiveTotalCountAllLocked_def effectiveCountLocked_def
      totalCountAll_eq totalCount_def)

lemma pool_step_limits:
  assumes "pool_step (p, opn, used) (p', opn', used')" and "pool_inv (p, opn, used)"
  shows "same_limits p p'"
  using pool_step_counts [OF assms] by (auto simp: lowers_def same_limits_def)

lemma pool_reachable:
  assumes "pool_step\<^sup>*\<^sup>* (pool_start cfg) s"
  shows "pool_inv s \<and> caps_inv (fst s) \<and> same_limits (NewCircuitPool cfg) (fst s)"
  using assms
proof (induction rule: rtranclp_induct)
  case base
  then show ?case using pool_inv_start caps_inv_start by (simp add: same_limits_def)
next
  case (step s s')
  obtain p opn used p' opn' used' where s: "s = (p, opn, used)" "s' = (p', opn', used')"
    by (metis prod_cases3)
  have "pool_inv (p, opn, used)" "caps_inv p" using step.IH s by auto
  then show ?case
    using step.IH step.hyps(2) caps_inv_step [of p opn used p'] pool_step_inv [of s s']
      pool_step_limits [of p opn used p'] s
    by (fastforce simp: same_limits_def)
qed

text \<open>A run of three operations for the witnesses.\<close>

definition demo_pool_config :: CircuitPoolConfig where
  "demo_pool_config = \<lparr>pc_MinPerPool = 1, pc_MaxPerPool = 2, pc_MinTotal = 2, pc_MaxTotal = 3,
     pc_IdleTimeoutSeconds = 300, pc_ReplenishIntervalSeconds = 10\<rparr>"

definition demo_pool :: CircuitPool where
  "demo_pool = RegisterCircuitInUse PoolLowLatency ''c1''
     (fst (TryReserveBuild PoolLowLatency (NewCircuitPool demo_pool_config)))"

lemma demo_pool_simps:
  "idle demo_pool = (\<lambda>_. [])" "outCount demo_pool = (\<lambda>_. 0)(PoolLowLatency := 1)"
  "inUseStreamCount demo_pool = [''c1'' \<mapsto> 1]" "circuitToKind demo_pool = [''c1'' \<mapsto> PoolLowLatency]"
  "pendingByKind demo_pool = (\<lambda>_. 0)" "pendingTotal demo_pool = 0" "maxTotal demo_pool = 3"
  "maxPerPool demo_pool = 2" "minTotal demo_pool = 2" "idleTimeout demo_pool = 300000000000"
  by (simp_all add: fun_upd_idem demo_pool_def demo_pool_config_def NewCircuitPool_def TryReserveBuild_def
      RegisterCircuitInUse_def takeReservation_def reserve_def effectiveTotalCountAllLocked_def
      effectiveCountLocked_def totalCountAll_eq totalCount_def second_def)

lemma demo_pool_reachable:
  "pool_step\<^sup>*\<^sup>* (pool_start demo_pool_config) (demo_pool, {''c1''}, {''c1''})"
proof -
  let ?r = "fst (TryReserveBuild PoolLowLatency (NewCircuitPool demo_pool_config))"
  have "pool_step (pool_start demo_pool_config) (?r, {}, {})"
    by (rule pool_step.try_reserve) (simp add: AllPoolKinds_def)
  moreover have "pool_step (?r, {}, {}) (demo_pool, {''c1''}, {''c1''})"
    unfolding demo_pool_def
    by (rule pool_step.register_used)
       (simp_all add: AllPoolKinds_def TryReserveBuild_def demo_pool_config_def NewCircuitPool_def
         effectiveTotalCountAllLocked_def effectiveCountLocked_def totalCountAll_eq totalCount_def reserve_def)
  ultimately show ?thesis by auto
qed

section \<open>Properties\<close>





end
