(* ===== verification/Pool_Maintenance.thy ===== *)
theory Pool_Maintenance
  imports Pool_Invariant
begin

text \<open>
  What the operations of the circuit pool achieve: the choice \<open>GetFromPool\<close> makes, the
  round trip of lending and returning, the results of trimming and replenishing, and how the
  two places where \<open>pool.go\<close> releases its lock in the middle of an operation behave
  when another operation comes in between.
\<close>

section \<open>Choosing a circuit\<close>

text \<open>
  \<open>GetFromPool\<close> shares the best open circuit that already carries streams of the kind
  when there is one and leaves the idle list alone; otherwise it lends the best open idle
  circuit, dropping the closed ones from the list; otherwise it returns nothing.
\<close>

theorem GetFromPool_chooses_best:
  fixes isOpen :: "string \<Rightarrow> bool" and score :: "string \<Rightarrow> int"
  assumes "[] \<notin> set order" and "[] \<notin> idleIDs p kind" and "distinct (map circuitID (idle p kind))"
  defines "shared \<equiv> {c \<in> set order. streamsOf p c > 0 \<and> kindOf p c = kind \<and> isOpen c}"
    and "free \<equiv> {c \<in> idleIDs p kind. isOpen c}"
  shows "case GetFromPool isOpen score order kind p of (p', r) \<Rightarrow>
     if shared \<noteq> {} then
       (\<exists>c\<in>shared. r = Some c \<and> (\<forall>d\<in>shared. score d \<le> score c) \<and>
          p' = p\<lparr>inUseStreamCount := (inUseStreamCount p)(c \<mapsto> streamsOf p c + 1)\<rparr>)
     else if free \<noteq> {} then
       (\<exists>c\<in>free. r = Some c \<and> (\<forall>d\<in>free. score d \<le> score c) \<and>
          idleIDs p' kind = free - {c} \<and> streamsOf p' c = 1 \<and> outCount p' kind = outCount p kind + 1)
     else r = None \<and> idle p' kind = [] \<and> outCount p' = outCount p"
proof (cases "shared = {}")
  case False
  then obtain c where c: "c \<in> set order" "streamsOf p c > 0" "kindOf p c = kind" "isOpen c"
    by (auto simp: shared_def)
  show ?thesis
    by (rule GetFromPool_shared [where score = score and isOpen = isOpen, OF assms(1) c])
       (use False in \<open>auto simp: shared_def\<close>)
next
  case True
  let ?ids = "map circuitID (idle p kind)"
  let ?b = "bestOf isOpen score ?ids"
  let ?q = "dropStale kind (filter (\<lambda>c. \<not> isOpen c) ?ids) p"
  have q: "idleIDs ?q kind = free" "idle ?q kind = [] \<longleftrightarrow> free = {}"
    by (auto simp: idleIDs_def free_def filter_empty_conv)
  have g: "GetFromPool isOpen score order kind p = pickBestIdle isOpen score kind (idle p kind) p"
    by (rule GetFromPool_idle [OF assms(1)]) (use True in \<open>auto simp: shared_def\<close>)
  have ids: "[] \<notin> set ?ids" using assms(2) by (auto simp: idleIDs_def)
  show ?thesis
  proof (cases "free = {}")
    case f: True
    then have "?b = []" using bestOf_empty [OF ids, of isOpen score] by (auto simp: free_def idleIDs_def)
    then show ?thesis using True f q(2) by (simp add: g pickBestIdle_eq [OF assms(2,3)])
  next
    case f: False
    then have b: "?b \<noteq> []" using bestOf_empty [OF ids, of isOpen score] by (auto simp: free_def idleIDs_def)
    have "?b \<in> free" "\<And>d. d \<in> free \<Longrightarrow> score d \<le> score ?b"
      using bestOf_spec [OF ids b] by (auto simp: free_def idleIDs_def)
    moreover have "circuitID ` set (filter (\<lambda>e. circuitID e \<noteq> ?b) (idle ?q kind)) = free - {?b}"
      using q(1) by (auto simp: idleIDs_def)
    ultimately show ?thesis
      using True f b by (auto simp: g pickBestIdle_eq [OF assms(2,3)] idleIDs_def streamsOf_def)
  qed
qed

theorem GetFromPool_chooses_best_witness:
  "snd (GetFromPool (\<lambda>c. True) (\<lambda>c. 100) [''c1''] PoolLowLatency demo_pool) = Some ''c1''
   \<and> streamsOf (fst (GetFromPool (\<lambda>c. True) (\<lambda>c. 100) [''c1''] PoolLowLatency demo_pool)) ''c1'' = 2"
  using GetFromPool_chooses_best [of "[''c1'']" demo_pool PoolLowLatency "\<lambda>c. True" "\<lambda>c. 100"]
  by (auto simp: demo_pool_simps idleIDs_def streamsOf_def kindOf_def split: prod.splits)

text \<open>
  Lending an idle circuit to a stream and returning it while it is open is a round trip:
  the circuit is idle again, now at the end of its list, and the lent circuits, the counters
  and the kinds are as before.
\<close>

theorem lend_return_roundtrip:
  fixes isOpen :: "string \<Rightarrow> bool" and now :: time
  assumes "c \<noteq> []" and "c \<in> idleIDs p k" and "distinct (map circuitID (idle p k))"
    and "circuitToKind p c = Some k" and "inUseStreamCount p c = None" and "isOpen c"
  shows "case lendIdle k c p of (p1, r) \<Rightarrow> r = Some c \<and> ReturnToPool isOpen c now p1 =
     p\<lparr>idle := (idle p)(k := filter (\<lambda>e. circuitID e \<noteq> c) (idle p k) @ [\<lparr>circuitID = c, idleSince = now\<rparr>])\<rparr>"
proof -
  have "removeFirst c (idle p k) = Some (filter (\<lambda>e. circuitID e \<noteq> c) (idle p k))"
    by (rule removeFirst_eq) (use assms(2,3) in \<open>auto simp: idleIDs_def\<close>)
  then show ?thesis
    using assms(1,4-6)
    by (cases p) (simp add: lendIdle_def ReturnToPool_def releaseStream_def streamsOf_def requeue_def fun_upd_idem)
qed

theorem lend_return_roundtrip_witness:
  "case lendIdle PoolLowLatency ''c1'' (ReturnToPool (\<lambda>c. True) ''c1'' 5 demo_pool) of (p1, r) \<Rightarrow>
     r = Some ''c1'' \<and> idle (ReturnToPool (\<lambda>c. True) ''c1'' 9 p1) PoolLowLatency
       = [\<lparr>circuitID = ''c1'', idleSince = 9\<rparr>]"
proof -
  let ?p = "ReturnToPool (\<lambda>c. True) ''c1'' 5 demo_pool"
  have p: "idle ?p PoolLowLatency = [\<lparr>circuitID = ''c1'', idleSince = 5\<rparr>]"
    "circuitToKind ?p ''c1'' = Some PoolLowLatency" "inUseStreamCount ?p ''c1'' = None"
    by (simp_all add: ReturnToPool_def releaseStream_def requeue_def streamsOf_def demo_pool_simps)
  show ?thesis
    using lend_return_roundtrip [of "''c1''" ?p PoolLowLatency "\<lambda>c. True" 9] p
    by (auto simp: idleIDs_def split: prod.splits)
qed

section \<open>Trimming\<close>

lemma trimOnce_None:
  "trimOnce p = None \<longleftrightarrow> totalCountAll p \<le> maxTotal p \<or> (\<forall>k\<in>set AllPoolKinds. idle p k = [])"
  by (auto simp: trimOnce_def oldestHead_def AllPoolKinds_def split: list.splits option.splits if_splits)

lemma trimOnce_SomeD:
  assumes "trimOnce p = Some (p', c)"
  shows "totalCountAll p' = totalCountAll p - 1" and "totalCountAll p > maxTotal p"
    and "maxTotal p' = maxTotal p" and "outCount p' = outCount p"
    and "\<exists>k e. oldestHead p = Some (k, e) \<and> c = circuitID e \<and> idle p k = e # idle p' k \<and>
           (\<forall>k'. k' \<noteq> k \<longrightarrow> idle p' k' = idle p k')"
proof -
  obtain k e es where h: "oldestHead p = Some (k, e)" "k \<in> set AllPoolKinds" "idle p k = e # es" "c = circuitID e"
    "p' = p\<lparr>idle := (idle p)(k := es), circuitToKind := (circuitToKind p)(c := None)\<rparr>"
    and "totalCountAll p > maxTotal p"
    using assms by (auto simp: trimOnce_def split: if_splits option.splits dest!: oldestHead_in)
  then show "totalCountAll p > maxTotal p" "maxTotal p' = maxTotal p" "outCount p' = outCount p"
    "\<exists>k e. oldestHead p = Some (k, e) \<and> c = circuitID e \<and> idle p k = e # idle p' k \<and>
           (\<forall>k'. k' \<noteq> k \<longrightarrow> idle p' k' = idle p k')"
    by auto
  show "totalCountAll p' = totalCountAll p - 1"
    using h(2) by (rule kinds_cases) (use h in \<open>auto simp: totalCountAll_eq totalCount_def\<close>)
qed

lemma oldestHead_min:
  assumes "oldestHead p = Some (k, e)" and "k' \<in> set AllPoolKinds" and "idle p k' = e' # es'"
  shows "idleSince e \<le> idleSince e'"
  using assms by (auto simp: oldestHead_def AllPoolKinds_def split: list.splits option.splits if_splits)

text \<open>
  \<open>trimExcessIdle\<close> ends with the total within the cap or with nothing idle left; it
  closes exactly as many circuits as that takes and touches no lent circuit.
\<close>

theorem trimExcessIdle_result:
  "case trimExcessIdle p of (q, closed) \<Rightarrow>
     (totalCountAll q \<le> maxTotal p \<or> (\<forall>k\<in>set AllPoolKinds. idle q k = [])) \<and>
     length closed = min (nat (totalCountAll p - maxTotal p)) (idleTotal p) \<and>
     totalCountAll q = totalCountAll p - int (length closed) \<and> outCount q = outCount p"
proof (induction p rule: trimExcessIdle.induct)
  case (1 p)
  show ?case
  proof (cases "trimOnce p")
    case None
    then have "trimExcessIdle p = (p, [])" by (simp add: trimExcessIdle.simps [of p])
    then show ?thesis using None by (auto simp: trimOnce_None idleTotal_def AllPoolKinds_def)
  next
    case (Some r)
    then obtain p' c where r: "trimOnce p = Some (p', c)" by (cases r) auto
    obtain q closed where t: "trimExcessIdle p' = (q, closed)" by (cases "trimExcessIdle p'") auto
    have "trimExcessIdle p = (q, c # closed)" using r t by (simp add: trimExcessIdle.simps [of p])
    moreover note "1.IH" [OF r refl] trimOnce_SomeD [OF r] trimOnce_idleTotal [OF r]
    ultimately show ?thesis using t by auto
  qed
qed

text \<open>
  When each idle list is in order of time, the circuit that trimming closes has been
  idle at least as long as every other idle circuit of any kind.
\<close>

theorem trimOnce_closes_oldest:
  assumes "trimOnce p = Some (p', c)" and "\<And>k. sorted (map idleSince (idle p k))"
    and "k \<in> set AllPoolKinds" and "e \<in> set (idle p k)"
  shows "\<exists>k\<^sub>0 e\<^sub>0. e\<^sub>0 \<in> set (idle p k\<^sub>0) \<and> circuitID e\<^sub>0 = c \<and> idleSince e\<^sub>0 \<le> idleSince e"
proof -
  obtain k\<^sub>0 e\<^sub>0 where o: "oldestHead p = Some (k\<^sub>0, e\<^sub>0)" "c = circuitID e\<^sub>0"
    using trimOnce_SomeD(5) [OF assms(1)] by auto
  obtain h es where h: "idle p k = h # es" using assms(4) by (cases "idle p k") auto
  have "idleSince e\<^sub>0 \<le> idleSince h" by (rule oldestHead_min [OF o(1) assms(3) h])
  also have "idleSince h \<le> idleSince e" using assms(2) [of k] assms(4) h by auto
  finally show ?thesis using o oldestHead_in [OF o(1)] by (intro exI [of _ k\<^sub>0] exI [of _ e\<^sub>0]) auto
qed

definition demo_full_pool :: CircuitPool where
  "demo_full_pool = demo_pool\<lparr>maxTotal := 2, idle := (\<lambda>_. [])
     (PoolAnonymous := [\<lparr>circuitID = ''c2'', idleSince = 20\<rparr>],
      PoolCountry := [\<lparr>circuitID = ''c3'', idleSince = 10\<rparr>, \<lparr>circuitID = ''c4'', idleSince = 30\<rparr>])\<rparr>"

lemma demo_full_pool_trims: "map_option snd (trimOnce demo_full_pool) = Some ''c3''"
  by (simp add: demo_full_pool_def trimOnce_def oldestHead_def AllPoolKinds_def totalCountAll_eq
      totalCount_def demo_pool_simps)

theorem trimOnce_closes_oldest_witness:
  "\<exists>k\<^sub>0 e\<^sub>0. e\<^sub>0 \<in> set (idle demo_full_pool k\<^sub>0) \<and> circuitID e\<^sub>0 = ''c3'' \<and> idleSince e\<^sub>0 \<le> 20"
proof -
  obtain p' where t: "trimOnce demo_full_pool = Some (p', ''c3'')" using demo_full_pool_trims by auto
  have "sorted (map idleSince (idle demo_full_pool k))" for k by (simp add: demo_full_pool_def)
  then show ?thesis
    using trimOnce_closes_oldest [OF t, of PoolAnonymous "\<lparr>circuitID = ''c2'', idleSince = 20\<rparr>"]
    by (simp add: AllPoolKinds_def) (simp add: demo_full_pool_def)
qed

theorem trimExcessIdle_result_witness:
  "case trimExcessIdle demo_full_pool of (q, closed) \<Rightarrow> length closed = 2 \<and> totalCountAll q = 2"
  using trimExcessIdle_result [of demo_full_pool]
  by (auto simp: demo_full_pool_def demo_pool_simps totalCountAll_eq totalCount_def idleTotal_def AllPoolKinds_def
      split: prod.splits)

section \<open>Replenishing\<close>

lemma replenishTarget_None:
  assumes "replenishTarget p = None" and "effectiveTotalCountAllLocked p < min (minTotal p) (maxTotal p)"
    and "k \<in> set AllPoolKinds"
  shows "maxPerPool p \<le> effectiveCountLocked p k"
  using assms by (auto simp: replenishTarget_def AllPoolKinds_def Let_def split: if_splits option.splits)

lemma replenished_counts:
  assumes "k \<in> set AllPoolKinds" and "0 \<le> pendingByKind p k"
  shows "effectiveTotalCountAllLocked (registerPoolCircuit k c now (reserve k p))
       = effectiveTotalCountAllLocked p + 1"
    and "pendingByKind (registerPoolCircuit k c now (reserve k p)) = pendingByKind p"
  using assms by (simp add: effectiveTotalCountAllLocked_def count_simps, simp_all add: takeReservation_def reserve_def)

text \<open>
  When the factory always delivers a circuit, \<open>replenishToMinimum\<close> ends with the
  configured minimum reached (the cap permitting) or with every kind at its own cap, and it
  builds no circuit above the minimum or the cap.
\<close>

theorem replenishToMinimum_reaches:
  fixes fa :: "'f CircuitPoolFactory" and w :: 'f
  assumes "\<And>w k. \<exists>c w'. fa_CreateForPool fa w k = (Inr c, w') \<and> c \<noteq> []"
    and "\<And>k. 0 \<le> pendingByKind p k"
  defines "target \<equiv> min (minTotal p) (maxTotal p)" and "q \<equiv> snd (replenishToMinimum fa w p)"
  shows "(target \<le> effectiveTotalCountAllLocked q \<or> (\<forall>k\<in>set AllPoolKinds. maxPerPool p \<le> effectiveCountLocked q k))
     \<and> effectiveTotalCountAllLocked q \<le> max (effectiveTotalCountAllLocked p) target"
  unfolding target_def q_def using assms(1,2)
proof (induction fa w p rule: replenishToMinimum.induct)
  case (1 fa w p)
  show ?case
  proof (cases "replenishTarget p")
    case None
    then show ?thesis
      using replenishTarget_None [OF None] by (auto simp: replenishToMinimum.simps [of _ _ p] not_le)
  next
    case (Some k)
    obtain c w' where c: "fa_CreateForPool fa w k = (Inr c, w')" "c \<noteq> []" using "1.prems"(1) by blast
    let ?p = "registerPoolCircuit k c (fa_Now fa w') (reserve k p)"
    have k: "k \<in> set AllPoolKinds" by (rule replenishTarget_in [OF Some])
    note r = replenished_counts [OF k "1.prems"(2) [of k], of c "fa_Now fa w'"]
    have eq: "replenishToMinimum fa w p = replenishToMinimum fa w' ?p"
      using Some c by (simp add: replenishToMinimum.simps [of _ _ p])
    have "0 \<le> pendingByKind ?p k'" for k' using "1.prems"(2) r(2) by simp
    note IH = "1.IH" [OF Some c(1) [symmetric] refl c(2) "1.prems"(1) this]
    show ?thesis using IH replenishTarget_below [OF Some] unfolding eq r(1) by auto
  qed
qed

definition demo_factory :: "nat CircuitPoolFactory" where
  "demo_factory = \<lparr>fa_CreateForPool = (\<lambda>n k. (Inr (replicate (Suc n) CHR ''c''), Suc n)),
     fa_CloseCircuit = (\<lambda>n c. n), fa_IsCircuitOpen = (\<lambda>n c. True),
     fa_CircuitReuseScore = (\<lambda>n c. 0), fa_Now = int\<rparr>"

theorem replenishToMinimum_reaches_witness:
  "2 \<le> effectiveTotalCountAllLocked (snd (replenishToMinimum demo_factory 1 demo_pool)) \<or>
   (\<forall>k\<in>set AllPoolKinds. 2 \<le> effectiveCountLocked (snd (replenishToMinimum demo_factory 1 demo_pool)) k)"
  using replenishToMinimum_reaches [of demo_factory demo_pool 1]
  by (simp add: demo_factory_def demo_pool_simps)

section \<open>Maintenance\<close>

lemma evictTail_counted: "\<exists>r. evictTail k (countExpired k now p) p = Inr r"
  using length_filter_le [of "\<lambda>e. now - idleSince e > idleTimeout p" "idle p k"]
  by (auto simp: evictTail_def countExpired_def Let_def simp flip: not_le)

lemma evictKinds_total: "\<exists>r. evictKinds fa ks w p = Inr r"
proof (induction ks arbitrary: w p)
  case (Cons k ks)
  obtain p' closed where "evictTail k (countExpired k (fa_Now fa w) p) p = Inr (p', closed)"
    using evictTail_counted [of k "fa_Now fa w" p] by auto
  then show ?case using Cons by simp
qed simp

text \<open>
  Undisturbed, a maintenance round never panics: the slice expressions of the eviction
  are within bounds for every pool and every factory.
\<close>

theorem maintainOnce_no_panic: "\<exists>w' p'. maintainOnce fa w p = Inr (w', p')"
proof -
  obtain w1 p1 where "evictKinds fa AllPoolKinds w p = Inr (w1, p1)"
    using evictKinds_total [of fa AllPoolKinds w p] by auto
  then show ?thesis by (auto simp: maintainOnce_def split: prod.splits)
qed

text \<open>
  The eviction of \<open>maintainOnce\<close> counts the expired circuits and cuts that many off
  the end of the idle list, where the circuits that became idle last are: when at least as
  many fresh circuits follow the expired ones, exactly fresh circuits are closed and every
  expired circuit stays.
\<close>

theorem eviction_closes_fresh:
  assumes "idle p k = old @ fresh" and "length old \<le> length fresh"
    and "\<And>e. e \<in> set old \<Longrightarrow> now - idleSince e > idleTimeout p"
    and "\<And>e. e \<in> set fresh \<Longrightarrow> now - idleSince e \<le> idleTimeout p"
  defines "n \<equiv> length fresh - length old"
  shows "\<exists>p'. evictTail k (countExpired k now p) p = Inr (p', map circuitID (drop n fresh))
     \<and> idle p' k = old @ take n fresh"
proof -
  have e: "filter (\<lambda>e. now - idleSince e > idleTimeout p) old = old"
    using assms(3) by (auto simp: filter_id_conv)
  have f: "filter (\<lambda>e. now - idleSince e > idleTimeout p) fresh = []"
    using assms(4) by (auto simp: filter_empty_conv not_less)
  have c: "countExpired k now p = length old"
    using assms(1) e f by (simp add: countExpired_def)
  show ?thesis
  proof (cases "old = []")
    case True
    then show ?thesis using c assms(1) by (simp add: evictTail_def n_def)
  next
    case False
    then show ?thesis using c assms(1,2) by (simp add: evictTail_def Let_def n_def)
  qed
qed

definition demo_stale_pool :: CircuitPool where
  "demo_stale_pool = demo_pool\<lparr>inUseStreamCount := Map.empty, outCount := (\<lambda>_. 0),
     circuitToKind := Map.empty, idle := (\<lambda>_. [])
     (PoolAnonymous := [\<lparr>circuitID = ''old'', idleSince = 0\<rparr>, \<lparr>circuitID = ''new'', idleSince = 300000000000\<rparr>],
      PoolCountry := [\<lparr>circuitID = ''last'', idleSince = 0\<rparr>])\<rparr>"

theorem eviction_closes_fresh_witness:
  "\<exists>p'. evictTail PoolAnonymous (countExpired PoolAnonymous 400000000000 demo_stale_pool) demo_stale_pool
       = Inr (p', [''new'']) \<and> map circuitID (idle p' PoolAnonymous) = [''old'']"
  using eviction_closes_fresh [of demo_stale_pool PoolAnonymous "[\<lparr>circuitID = ''old'', idleSince = 0\<rparr>]"
      "[\<lparr>circuitID = ''new'', idleSince = 300000000000\<rparr>]" 400000000000]
  by (auto simp: demo_stale_pool_def demo_pool_simps)

text \<open>
  Between counting and cutting the lock is free. When the only idle circuit of a kind
  has expired and a stream takes it in that gap, the slice bound is negative and the
  maintenance goroutine panics.
\<close>

theorem eviction_race_panics:
  assumes "idle p k = [e]" and "circuitID e \<noteq> []" and "isOpen (circuitID e)"
    and "now - idleSince e > idleTimeout p"
    and "inUseStreamCount p = Map.empty"
  shows "evictTail k (countExpired k now p) (fst (GetFromPool isOpen score [] k p)) = Inl Panic"
proof -
  have "GetFromPool isOpen score [] k p = pickBestIdle isOpen score k (idle p k) p"
    by (rule GetFromPool_idle) auto
  then have "idle (fst (GetFromPool isOpen score [] k p)) k = []"
    using assms(1-3) by (simp add: pickBestIdle_def lendIdle_def)
  then show ?thesis using assms(1,4) by (simp add: evictTail_def countExpired_def)
qed

theorem eviction_race_panics_witness:
  "evictTail PoolCountry (countExpired PoolCountry 400000000000 demo_stale_pool)
     (fst (GetFromPool (\<lambda>c. True) (\<lambda>c. 0) [] PoolCountry demo_stale_pool)) = Inl Panic"
  by (rule eviction_race_panics [where e = "\<lparr>circuitID = ''last'', idleSince = 0\<rparr>"])
     (simp_all add: demo_stale_pool_def demo_pool_simps)

text \<open>
  \<open>ReturnToPool\<close> releases the lock between giving up the lent circuit and putting it
  back on the idle list. A reservation made in that gap succeeds although the pool is full,
  and the pool ends one circuit above its cap.
\<close>

theorem return_race_exceeds_cap:
  assumes "circuitToKind p c = Some k" and "k \<in> set AllPoolKinds" and "streamsOf p c = 1"
    and "effectiveTotalCountAllLocked p = maxTotal p"
    and "maxPerPool p > 0 \<longrightarrow> effectiveCountLocked p k \<le> maxPerPool p"
  shows "let (p1, requeued) = releaseStream c p; (p2, granted) = TryReserveBuild k p1
     in requeued = Some k \<and> granted \<and>
        effectiveTotalCountAllLocked (requeue k c now p2) = maxTotal p + 1"
proof -
  let ?p1 = "p\<lparr>inUseStreamCount := (inUseStreamCount p)(c := None),
    outCount := (outCount p)(k := outCount p k - 1)\<rparr>"
  have r: "releaseStream c p = (?p1, Some k)" using assms(1,3) by (simp add: releaseStream_def)
  have t: "effectiveTotalCountAllLocked ?p1 = maxTotal p - 1"
    using assms(2) by (rule kinds_cases)
      (use assms(4) in \<open>simp_all add: effectiveTotalCountAllLocked_def totalCountAll_eq totalCount_def\<close>)
  have "TryReserveBuild k ?p1 = (reserve k ?p1, True)"
    using t assms(5) by (auto simp: TryReserveBuild_def effectiveCountLocked_def totalCount_def)
  then show ?thesis
    using r t assms(2) by (simp add: Let_def effectiveTotalCountAllLocked_def count_simps)
      (simp add: reserve_def requeue_def)
qed

theorem return_race_exceeds_cap_witness:
  "let (p1, requeued) = releaseStream ''c1'' (demo_pool\<lparr>maxTotal := 1\<rparr>);
       (p2, granted) = TryReserveBuild PoolLowLatency p1
   in granted \<and> effectiveTotalCountAllLocked (requeue PoolLowLatency ''c1'' 0 p2) = 2"
  using return_race_exceeds_cap [of "demo_pool\<lparr>maxTotal := 1\<rparr>" "''c1''" PoolLowLatency 0]
  by (simp add: demo_pool_simps streamsOf_def AllPoolKinds_def effectiveTotalCountAllLocked_def
      effectiveCountLocked_def totalCountAll_eq totalCount_def Let_def split: prod.splits)

end
