(* ===== verification/Discovery.thy ===== *)
theory Discovery
  imports Wire Go_Sha256 Circuit_Store
begin

text \<open>
  Node discovery, \<open>internal/discovery\<close>: signed node descriptors (\<open>descriptor.go\<close>), the
  descriptor cache (\<open>store.go\<close>), signed peer exchange messages (\<open>peer_exchange.go\<close>) and
  the two loops of the manager (\<open>manager.go\<close>), which announce the own descriptor and store
  the verified ones of others. libp2p's keys and peer IDs are the parameter \<open>identity\<close>.
\<close>

section \<open>Identity keys of libp2p\<close>

text \<open>Private and public keys are given by their raw bytes, peer IDs by their text form.\<close>

record identity =
  id_Public :: "bytes \<Rightarrow> bytes"
  id_Sign :: "bytes \<Rightarrow> bytes \<Rightarrow> bytes result"
  id_UnmarshalPublicKey :: "bytes \<Rightarrow> bytes result"
  id_Verify :: "bytes \<Rightarrow> bytes \<Rightarrow> bytes \<Rightarrow> bool result"
  id_IDFromPublicKey :: "bytes \<Rightarrow> string result"

text \<open>
  A private key \<open>k\<close> is usable when its public key can be read back and has a peer ID, and
  when what it signs verifies under its public key.
\<close>

definition usable_key :: "identity \<Rightarrow> bytes \<Rightarrow> bool" where
  "usable_key i k \<longleftrightarrow>
     id_UnmarshalPublicKey i (id_Public i k) = Inr (id_Public i k) \<and>
     (\<exists>pid. id_IDFromPublicKey i (id_Public i k) = Inr pid) \<and>
     (\<forall>m. \<exists>s. id_Sign i k m = Inr s \<and> id_Verify i (id_Public i k) m s = Inr True)"

section \<open>Slices that may be nil\<close>

text \<open>
  \<open>encoding/json\<close> writes a nil slice as \<open>null\<close> and an empty one as \<open>[]\<close>, and reads
  them back that way, so the slices of a descriptor, whose JSON text is signed, are lists
  with an extra value for nil.
\<close>

type_synonym slice = "string list option"

definition jslice :: "slice \<Rightarrow> json" where
  "jslice xs = (case xs of None \<Rightarrow> JNull | Some ys \<Rightarrow> jstrings ys)"

definition get_slice :: "string \<Rightarrow> (string \<times> json) list \<Rightarrow> slice option" where
  "get_slice name fs = (case json_field name fs of JNull \<Rightarrow> Some None
     | _ \<Rightarrow> map_option Some (get_strings name fs))"

lemma get_slice_jslice: "json_field n fs = jslice xs \<Longrightarrow> get_slice n fs = Some xs"
  by (cases xs) (simp_all add: jslice_def get_slice_def)

lemma json_ok_jslice [simp]: "json_ok (jslice xs) \<longleftrightarrow> pred_option (list_all ascii) xs"
  by (cases xs) (simp_all add: jslice_def)

definition slice_ok :: "slice \<Rightarrow> bool" where "slice_ok xs \<longleftrightarrow> pred_option (list_all ascii) xs"

section \<open>Descriptors\<close>

definition TopicAnnounceRelay :: string where "TopicAnnounceRelay = ''meshproxy.node.announce.relay''"
definition TopicAnnounceExit :: string where "TopicAnnounceExit = ''meshproxy.node.announce.exit''"

record ExitDescriptor =
  ed_Country :: string
  ed_City :: string
  ed_AllowTCP :: bool
  ed_AllowUDP :: bool
  ed_RemoteDNS :: bool
  ed_BandwidthMbps :: int
  ed_Tags :: slice

record NodeDescriptor =
  nd_Version :: string
  nd_PeerID :: string
  nd_PubKey :: string
  nd_Roles :: slice
  nd_ListenAddrs :: slice
  nd_Relay :: bool
  nd_Exit :: bool
  nd_ExitInfo :: "ExitDescriptor option"
  nd_Pricing :: string
  nd_ExpiresAt :: int
  nd_StartedAtUnix :: int
  nd_Signature :: string

definition enc_ExitDescriptor :: "ExitDescriptor \<Rightarrow> json" where
  "enc_ExitDescriptor e = JObj [(''country'', JStr (ed_Country e)), (''city'', JStr (ed_City e)),
     (''allow_tcp'', JBool (ed_AllowTCP e)), (''allow_udp'', JBool (ed_AllowUDP e)),
     (''remote_dns'', JBool (ed_RemoteDNS e)), (''bandwidth_mbps'', jint (ed_BandwidthMbps e)),
     (''tags'', jslice (ed_Tags e))]"

definition dec_ExitDescriptor :: "json \<Rightarrow> ExitDescriptor option" where
  "dec_ExitDescriptor j = Option.bind (json_members j) (\<lambda>fs.
     Option.bind (get_string ''country'' fs) (\<lambda>c.
     Option.bind (get_string ''city'' fs) (\<lambda>ct.
     Option.bind (get_bool ''allow_tcp'' fs) (\<lambda>t.
     Option.bind (get_bool ''allow_udp'' fs) (\<lambda>u.
     Option.bind (get_bool ''remote_dns'' fs) (\<lambda>r.
     Option.bind (get_int64 ''bandwidth_mbps'' fs) (\<lambda>b.
     map_option (\<lambda>g. \<lparr>ed_Country = c, ed_City = ct, ed_AllowTCP = t, ed_AllowUDP = u,
         ed_RemoteDNS = r, ed_BandwidthMbps = b, ed_Tags = g\<rparr>)
       (get_slice ''tags'' fs))))))))"

definition enc_NodeDescriptor :: "NodeDescriptor \<Rightarrow> json" where
  "enc_NodeDescriptor d = JObj ([(''version'', JStr (nd_Version d)), (''peer_id'', JStr (nd_PeerID d)),
     (''pubkey'', JStr (nd_PubKey d)), (''roles'', jslice (nd_Roles d)),
     (''listen_addrs'', jslice (nd_ListenAddrs d)), (''relay'', JBool (nd_Relay d)),
     (''exit'', JBool (nd_Exit d))]
     @ opt_field enc_ExitDescriptor ''exit_info'' (nd_ExitInfo d)
     @ [(''pricing'', JStr (nd_Pricing d)), (''expires_at'', jint (nd_ExpiresAt d))]
     @ omitempty (nd_StartedAtUnix d = 0) ''started_at_unix'' (jint (nd_StartedAtUnix d))
     @ [(''signature'', JStr (nd_Signature d))])"

definition dec_NodeDescriptor :: "json \<Rightarrow> NodeDescriptor option" where
  "dec_NodeDescriptor j = Option.bind (json_members j) (\<lambda>fs.
     Option.bind (get_string ''version'' fs) (\<lambda>v.
     Option.bind (get_string ''peer_id'' fs) (\<lambda>p.
     Option.bind (get_string ''pubkey'' fs) (\<lambda>k.
     Option.bind (get_slice ''roles'' fs) (\<lambda>ro.
     Option.bind (get_slice ''listen_addrs'' fs) (\<lambda>la.
     Option.bind (get_bool ''relay'' fs) (\<lambda>r.
     Option.bind (get_bool ''exit'' fs) (\<lambda>e.
     Option.bind (get_ptr dec_ExitDescriptor ''exit_info'' fs) (\<lambda>ei.
     Option.bind (get_string ''pricing'' fs) (\<lambda>pr.
     Option.bind (get_int64 ''expires_at'' fs) (\<lambda>x.
     Option.bind (get_int64 ''started_at_unix'' fs) (\<lambda>st.
     map_option (\<lambda>s. \<lparr>nd_Version = v, nd_PeerID = p, nd_PubKey = k, nd_Roles = ro, nd_ListenAddrs = la,
         nd_Relay = r, nd_Exit = e, nd_ExitInfo = ei, nd_Pricing = pr, nd_ExpiresAt = x,
         nd_StartedAtUnix = st, nd_Signature = s\<rparr>)
       (get_string ''signature'' fs)))))))))))))"

definition ExitDescriptor_ok :: "ExitDescriptor \<Rightarrow> bool" where
  "ExitDescriptor_ok e \<longleftrightarrow> ascii (ed_Country e) \<and> ascii (ed_City e) \<and> int64_ok (ed_BandwidthMbps e) \<and> slice_ok (ed_Tags e)"

definition NodeDescriptor_ok :: "NodeDescriptor \<Rightarrow> bool" where
  "NodeDescriptor_ok d \<longleftrightarrow> ascii (nd_Version d) \<and> ascii (nd_PeerID d) \<and> ascii (nd_PubKey d) \<and>
     slice_ok (nd_Roles d) \<and> slice_ok (nd_ListenAddrs d) \<and> pred_option ExitDescriptor_ok (nd_ExitInfo d) \<and>
     ascii (nd_Pricing d) \<and> int64_ok (nd_ExpiresAt d) \<and> int64_ok (nd_StartedAtUnix d) \<and> ascii (nd_Signature d)"

lemma toLower_descriptor_names:
  "toLower ''country'' = ''country''" "toLower ''city'' = ''city''" "toLower ''allow_tcp'' = ''allow_tcp''"
  "toLower ''allow_udp'' = ''allow_udp''" "toLower ''remote_dns'' = ''remote_dns''"
  "toLower ''bandwidth_mbps'' = ''bandwidth_mbps''" "toLower ''tags'' = ''tags''"
  "toLower ''version'' = ''version''" "toLower ''peer_id'' = ''peer_id''" "toLower ''pubkey'' = ''pubkey''"
  "toLower ''roles'' = ''roles''" "toLower ''listen_addrs'' = ''listen_addrs''" "toLower ''relay'' = ''relay''"
  "toLower ''exit'' = ''exit''" "toLower ''exit_info'' = ''exit_info''" "toLower ''pricing'' = ''pricing''"
  "toLower ''expires_at'' = ''expires_at''" "toLower ''started_at_unix'' = ''started_at_unix''"
  "toLower ''signature'' = ''signature''"
  by (simp_all add: toLower_def to_lower_char_def)

lemma jslice_Null_hit: "json_field n fs = JNull \<Longrightarrow> toLower k = toLower n \<Longrightarrow> json_field n ((k, jslice xs) # fs) = jslice xs"
  by (simp add: json_field_Cons)

interpretation codec_ExitDescriptor: json_codec enc_ExitDescriptor dec_ExitDescriptor ExitDescriptor_ok
proof unfold_locales
  fix e assume ok: "ExitDescriptor_ok e"
  show "json_ok (enc_ExitDescriptor e)"
    using ok by (simp add: enc_ExitDescriptor_def ExitDescriptor_ok_def slice_ok_def)
  show "dec_ExitDescriptor (enc_ExitDescriptor e) = Some e"
    using ok by (simp add: enc_ExitDescriptor_def dec_ExitDescriptor_def ExitDescriptor_ok_def
        json_codec_simps toLower_descriptor_names get_slice_jslice)
qed

lemma enc_ExitDescriptor_not_null [simp]: "enc_ExitDescriptor e \<noteq> JNull"
  by (simp add: enc_ExitDescriptor_def)

lemma NodeDescriptor_fields:
  fixes d :: NodeDescriptor
  defines "fs \<equiv> the (json_members (enc_NodeDescriptor d))"
  shows "json_field ''version'' fs = JStr (nd_Version d)" "json_field ''peer_id'' fs = JStr (nd_PeerID d)"
    "json_field ''pubkey'' fs = JStr (nd_PubKey d)" "json_field ''roles'' fs = jslice (nd_Roles d)"
    "json_field ''listen_addrs'' fs = jslice (nd_ListenAddrs d)" "json_field ''relay'' fs = JBool (nd_Relay d)"
    "json_field ''exit'' fs = JBool (nd_Exit d)"
    "json_field ''exit_info'' fs = (case nd_ExitInfo d of None \<Rightarrow> JNull | Some v \<Rightarrow> enc_ExitDescriptor v)"
    "json_field ''pricing'' fs = JStr (nd_Pricing d)" "json_field ''expires_at'' fs = jint (nd_ExpiresAt d)"
    "json_field ''started_at_unix'' fs = (if nd_StartedAtUnix d = 0 then JNull else jint (nd_StartedAtUnix d))"
    "json_field ''signature'' fs = JStr (nd_Signature d)"
  unfolding fs_def enc_NodeDescriptor_def
  by (simp_all add: json_field_append json_field_skip json_field_hit json_field_opt json_field_omitempty
      toLower_descriptor_names split: option.split)

interpretation codec_NodeDescriptor: json_codec enc_NodeDescriptor dec_NodeDescriptor NodeDescriptor_ok
proof unfold_locales
  fix d assume ok: "NodeDescriptor_ok d"
  have "pred_option (\<lambda>v. json_ok (enc_ExitDescriptor v)) (nd_ExitInfo d)"
    using ok by (auto simp: NodeDescriptor_ok_def elim!: option.pred_mono_strong intro: codec_ExitDescriptor.enc_ok)
  then show "json_ok (enc_NodeDescriptor d)"
    using ok by (simp add: enc_NodeDescriptor_def NodeDescriptor_ok_def slice_ok_def opt_field_ok omitempty_def)
  define fs where "fs = the (json_members (enc_NodeDescriptor d))"
  note f = NodeDescriptor_fields [of d, folded fs_def]
  have m: "json_members (enc_NodeDescriptor d) = Some fs" by (simp add: fs_def enc_NodeDescriptor_def)
  have "get_ptr dec_ExitDescriptor ''exit_info'' fs = Some (nd_ExitInfo d)"
    by (rule get_ptr_opt [OF f(8)])
       (use ok in \<open>auto simp: NodeDescriptor_ok_def pred_option_def
          intro: codec_ExitDescriptor.dec_enc\<close>)
  moreover have "get_int64 ''started_at_unix'' fs = Some (nd_StartedAtUnix d)"
    using f(11) ok by (cases "nd_StartedAtUnix d = 0") (simp_all add: NodeDescriptor_ok_def int64_ok_def)
  moreover have "get_int64 ''expires_at'' fs = Some (nd_ExpiresAt d)"
    using f(10) ok by (simp add: NodeDescriptor_ok_def int64_ok_def)
  ultimately show "dec_NodeDescriptor (enc_NodeDescriptor d) = Some d"
    using f get_slice_jslice [OF f(4)] get_slice_jslice [OF f(5)] by (simp add: dec_NodeDescriptor_def m)
qed

section \<open>Signing and verifying\<close>

definition UnsignedCopy :: "NodeDescriptor \<Rightarrow> NodeDescriptor" where
  "UnsignedCopy d = d\<lparr>nd_Signature := []\<rparr>"

definition MarshalUnsignedJSON :: "NodeDescriptor \<Rightarrow> bytes" where
  "MarshalUnsignedJSON d = json_marshal enc_NodeDescriptor (UnsignedCopy d)"

definition BuildSelfDescriptor ::
  "identity \<Rightarrow> string \<Rightarrow> bytes \<Rightarrow> slice \<Rightarrow> bool \<Rightarrow> bool \<Rightarrow> duration \<Rightarrow> time \<Rightarrow> NodeDescriptor result" where
  "BuildSelfDescriptor i version priv listenAddrs relay exit ttl now =
     res_bind (id_IDFromPublicKey i (id_Public i priv)) (\<lambda>pid.
     Inr \<lparr>nd_Version = version, nd_PeerID = pid, nd_PubKey = b64_encode (id_Public i priv),
          nd_Roles = Some (if exit then [''relay'', ''exit''] else [''relay'']),
          nd_ListenAddrs = listenAddrs, nd_Relay = relay, nd_Exit = exit, nd_ExitInfo = None,
          nd_Pricing = ''free'', nd_ExpiresAt = (now + ttl) div second, nd_StartedAtUnix = 0,
          nd_Signature = []\<rparr>)"

definition SignDescriptor :: "identity \<Rightarrow> bytes \<Rightarrow> NodeDescriptor \<Rightarrow> NodeDescriptor result" where
  "SignDescriptor i priv d =
     res_bind (id_Sign i priv (sha256 (MarshalUnsignedJSON d))) (\<lambda>sig.
       Inr (d\<lparr>nd_Signature := b64_encode sig\<rparr>))"

definition VerifyDescriptor :: "identity \<Rightarrow> NodeDescriptor \<Rightarrow> bool result" where
  "VerifyDescriptor i d =
     res_bind (of_option (Errorf ''illegal base64 data'') (b64_decode (nd_PubKey d))) (\<lambda>rawPub.
     res_bind (id_UnmarshalPublicKey i rawPub) (\<lambda>pub.
     res_bind (of_option (Errorf ''illegal base64 data'') (b64_decode (nd_Signature d))) (\<lambda>sig.
       id_Verify i pub (sha256 (MarshalUnsignedJSON d)) sig)))"

section \<open>The descriptor cache\<close>

type_synonym Store = "string \<rightharpoonup> NodeDescriptor"

definition NewStore :: Store where "NewStore = Map.empty"

definition ds_Upsert :: "Store \<Rightarrow> NodeDescriptor \<Rightarrow> Store" where
  "ds_Upsert s d = s(nd_PeerID d \<mapsto> d)"

definition ds_Get :: "Store \<Rightarrow> string \<Rightarrow> NodeDescriptor option" where
  "ds_Get s peerID = s peerID"

text \<open>\<open>order\<close> is the order in which \<open>range\<close> enumerates the keys of the map.\<close>

definition ds_GetAll :: "string list \<Rightarrow> Store \<Rightarrow> NodeDescriptor list" where
  "ds_GetAll order s = List.map_filter s order"

definition ListRelays :: "string list \<Rightarrow> Store \<Rightarrow> NodeDescriptor list" where
  "ListRelays order s = filter nd_Relay (List.map_filter s order)"

definition ListExits :: "string list \<Rightarrow> Store \<Rightarrow> NodeDescriptor list" where
  "ListExits order s = filter nd_Exit (List.map_filter s order)"

interpretation nodes: lookup_store ds_Get ds_Upsert nd_PeerID
  by unfold_locales (simp add: ds_Get_def ds_Upsert_def)

section \<open>Peer exchange\<close>

record PeerExchangeEntry =
  pe_Descriptor :: "NodeDescriptor option"
  pe_ObservedAddrs :: "string list"

record PeerExchangeMessage =
  pm_Version :: string
  pm_Sender :: "NodeDescriptor option"
  pm_Entries :: "PeerExchangeEntry list option"
  pm_SentAt :: int
  pm_ExpiresAt :: int
  pm_Signature :: string

definition jptr :: "('a \<Rightarrow> json) \<Rightarrow> 'a option \<Rightarrow> json" where
  "jptr enc x = (case x of None \<Rightarrow> JNull | Some v \<Rightarrow> enc v)"

definition enc_PeerExchangeEntry :: "PeerExchangeEntry \<Rightarrow> json" where
  "enc_PeerExchangeEntry e = JObj ([(''descriptor'', jptr enc_NodeDescriptor (pe_Descriptor e))]
     @ omitempty (pe_ObservedAddrs e = []) ''observed_addrs'' (jstrings (pe_ObservedAddrs e)))"

definition enc_PeerExchangeMessage :: "PeerExchangeMessage \<Rightarrow> json" where
  "enc_PeerExchangeMessage m = JObj [(''version'', JStr (pm_Version m)),
     (''sender'', jptr enc_NodeDescriptor (pm_Sender m)),
     (''entries'', jptr (\<lambda>es. JArr (map enc_PeerExchangeEntry es)) (pm_Entries m)),
     (''sent_at'', jint (pm_SentAt m)), (''expires_at'', jint (pm_ExpiresAt m)),
     (''signature'', JStr (pm_Signature m))]"

definition pm_MarshalUnsignedJSON :: "PeerExchangeMessage \<Rightarrow> bytes" where
  "pm_MarshalUnsignedJSON m = json_marshal enc_PeerExchangeMessage (m\<lparr>pm_Signature := []\<rparr>)"

definition SignPeerExchange :: "identity \<Rightarrow> bytes \<Rightarrow> PeerExchangeMessage \<Rightarrow> PeerExchangeMessage result" where
  "SignPeerExchange i priv m =
     res_bind (id_Sign i priv (sha256 (pm_MarshalUnsignedJSON m))) (\<lambda>sig.
       Inr (m\<lparr>pm_Signature := b64_encode sig\<rparr>))"

definition VerifyPeerExchange :: "identity \<Rightarrow> PeerExchangeMessage \<Rightarrow> bool result" where
  "VerifyPeerExchange i m =
     (case pm_Sender m of
        None \<Rightarrow> Inl (Errorf ''missing sender'')
      | Some sender \<Rightarrow>
          (case VerifyDescriptor i sender of
             Inl e \<Rightarrow> Inl (Errorf ''verify sender descriptor'')
           | Inr ok \<Rightarrow>
               if \<not> ok then Inl (Errorf ''verify sender descriptor'')
               else
                 res_bind (of_option (Errorf ''illegal base64 data'') (b64_decode (nd_PubKey sender))) (\<lambda>rawPub.
                 res_bind (id_UnmarshalPublicKey i rawPub) (\<lambda>pub.
                 res_bind (id_IDFromPublicKey i pub) (\<lambda>pid.
                   if pid \<noteq> nd_PeerID sender then Inl (Errorf ''sender peer id mismatch'')
                   else
                     res_bind (of_option (Errorf ''illegal base64 data'') (b64_decode (pm_Signature m))) (\<lambda>sig.
                       id_Verify i pub (sha256 (pm_MarshalUnsignedJSON m)) sig))))))"

section \<open>The manager\<close>

record Manager =
  mg_store :: Store
  mg_self :: "NodeDescriptor option"
  mg_muteAnnounce :: bool

definition NewManager :: "Store \<Rightarrow> NodeDescriptor option \<Rightarrow> Manager" where
  "NewManager s self = \<lparr>mg_store = s, mg_self = self, mg_muteAnnounce = False\<rparr>"

text \<open>\<open>Start\<close> stores the own descriptor before it launches the loops.\<close>

definition mg_Start :: "Manager \<Rightarrow> Manager" where
  "mg_Start m = (case mg_self m of None \<Rightarrow> m | Some d \<Rightarrow> m\<lparr>mg_store := ds_Upsert (mg_store m) d\<rparr>)"

definition SetMuteAnnounce :: "bool \<Rightarrow> Manager \<Rightarrow> Manager" where
  "SetMuteAnnounce mute m = m\<lparr>mg_muteAnnounce := mute\<rparr>"

text \<open>One tick of \<open>runAnnouncements\<close>: the messages published, with their topics.\<close>

definition announceTick :: "Manager \<Rightarrow> (string \<times> bytes) list" where
  "announceTick m =
     (case mg_self m of
        None \<Rightarrow> []
      | Some self \<Rightarrow>
          if mg_muteAnnounce m then []
          else let payload = json_marshal enc_NodeDescriptor self
               in (if nd_Relay self then [(TopicAnnounceRelay, payload)] else [])
                  @ (if nd_Exit self then [(TopicAnnounceExit, payload)] else []))"

text \<open>One message in \<open>runSubscriber\<close>, and the loop over the messages of a topic.\<close>

definition handleAnnounce :: "identity \<Rightarrow> Store \<Rightarrow> bytes \<Rightarrow> Store" where
  "handleAnnounce i s data =
     (case json_unmarshal dec_NodeDescriptor data of
        None \<Rightarrow> s
      | Some desc \<Rightarrow>
          (case VerifyDescriptor i desc of
             Inl e \<Rightarrow> s
           | Inr ok \<Rightarrow> if \<not> ok then s else ds_Upsert s desc))"

definition runSubscriber :: "identity \<Rightarrow> Store \<Rightarrow> bytes list \<Rightarrow> Store" where
  "runSubscriber i s msgs = foldl (handleAnnounce i) s msgs"

section \<open>Lemmas\<close>

lemma Marshal_signed [simp]: "MarshalUnsignedJSON (d\<lparr>nd_Signature := sig\<rparr>) = MarshalUnsignedJSON d"
  by (simp add: MarshalUnsignedJSON_def UnsignedCopy_def)

lemma pm_Marshal_signed [simp]: "pm_MarshalUnsignedJSON (m\<lparr>pm_Signature := sig\<rparr>) = pm_MarshalUnsignedJSON m"
  by (simp add: pm_MarshalUnsignedJSON_def)

lemma usable_keyD:
  assumes "usable_key i k"
  shows "id_UnmarshalPublicKey i (id_Public i k) = Inr (id_Public i k)"
    and "id_Sign i k m = Inr sig \<Longrightarrow> id_Verify i (id_Public i k) m sig = Inr True"
  using assms by (auto simp: usable_key_def) (metis sum.inject(2))

lemma SignDescriptor_total:
  "usable_key i k \<Longrightarrow> \<exists>sig. SignDescriptor i k d = Inr (d\<lparr>nd_Signature := b64_encode sig\<rparr>)"
  unfolding SignDescriptor_def usable_key_def by (metis res_bind_simps(2))

lemma SignDescriptor_verifies:
  assumes "usable_key i k" and "nd_PubKey d = b64_encode (id_Public i k)" and "SignDescriptor i k d = Inr d'"
  shows "VerifyDescriptor i d' = Inr True"
  using assms(2,3) usable_keyD [OF assms(1)]
  by (auto simp: SignDescriptor_def VerifyDescriptor_def res_bind_eq_Inr)

lemma SignDescriptor_ok: "NodeDescriptor_ok d \<Longrightarrow> SignDescriptor i k d = Inr d' \<Longrightarrow> NodeDescriptor_ok d'"
  by (auto simp: SignDescriptor_def res_bind_eq_Inr NodeDescriptor_ok_def)

lemma handleAnnounce_signed:
  assumes "usable_key i k" and "nd_PubKey d = b64_encode (id_Public i k)" and "SignDescriptor i k d = Inr d'"
    and "NodeDescriptor_ok d"
  shows "handleAnnounce i s (json_marshal enc_NodeDescriptor d') = ds_Upsert s d'"
  by (simp add: handleAnnounce_def codec_NodeDescriptor.unmarshal_marshal SignDescriptor_ok [OF assms(4,3)]
      SignDescriptor_verifies [OF assms(1-3)])

lemma handleAnnounce_cases:
  "handleAnnounce i s data = s \<or> (\<exists>d. handleAnnounce i s data = ds_Upsert s d \<and> VerifyDescriptor i d = Inr True)"
  by (auto simp: handleAnnounce_def split: option.splits sum.splits)

text \<open>An instance of the identity parameter, for the witnesses: a signature is the key and the message.\<close>

definition demo_identity :: identity where
  "demo_identity = \<lparr>id_Public = (\<lambda>k. k), id_Sign = (\<lambda>k m. Inr (k @ m)),
     id_UnmarshalPublicKey = (\<lambda>b. if b = [] then Inl (Errorf ''key'') else Inr b),
     id_Verify = (\<lambda>p m s. Inr (s = p @ m)),
     id_IDFromPublicKey = (\<lambda>b. Inr (''12D3KooW'' @ b64_encode b))\<rparr>"

lemma demo_usable_key: "k \<noteq> [] \<Longrightarrow> usable_key demo_identity k"
  by (simp add: usable_key_def demo_identity_def)

definition demo_descriptor :: NodeDescriptor where
  "demo_descriptor = \<lparr>nd_Version = ''1.0'', nd_PeerID = ''12D3KooWAQ=='', nd_PubKey = b64_encode [1],
     nd_Roles = Some [''relay'', ''exit''], nd_ListenAddrs = Some [''/ip4/203.0.113.7/tcp/4001''],
     nd_Relay = True, nd_Exit = True, nd_ExitInfo = None, nd_Pricing = ''free'', nd_ExpiresAt = 60,
     nd_StartedAtUnix = 0, nd_Signature = []\<rparr>"

lemma demo_descriptor_ok: "NodeDescriptor_ok demo_descriptor"
  by (simp add: NodeDescriptor_ok_def demo_descriptor_def slice_ok_def int64_ok_def)

lemma demo_descriptor_built:
  "BuildSelfDescriptor demo_identity ''1.0'' [1] (Some [''/ip4/203.0.113.7/tcp/4001'']) True True
     (60 * second) 0 = Inr demo_descriptor"
proof -
  have "b64_encode [1] = ''AQ==''" by code_simp
  then show ?thesis by (simp add: BuildSelfDescriptor_def demo_identity_def demo_descriptor_def second_def)
qed

section \<open>Properties\<close>

text \<open>
  The descriptor a node builds for itself, signs and announces is accepted by every
  subscriber, whatever it has seen before, and found under the node's peer ID.
\<close>

theorem announced_descriptor_is_stored:
  assumes "usable_key i k" and "BuildSelfDescriptor i version k addrs relay exit ttl now = Inr d"
    and "SignDescriptor i k d = Inr d'" and "(topic, payload) \<in> set (announceTick (NewManager s0 (Some d')))"
    and "ascii version" "ascii (nd_PeerID d)" "slice_ok addrs" "int64_ok ((now + ttl) div second)"
  shows "ds_Get (runSubscriber i s (msgs @ [payload])) (nd_PeerID d) = Some d'"
proof -
  have d: "nd_PubKey d = b64_encode (id_Public i k)" "NodeDescriptor_ok d"
    using assms(2,5-8) by (auto simp: BuildSelfDescriptor_def res_bind_eq_Inr NodeDescriptor_ok_def
        slice_ok_def int64_ok_def)
  have p: "payload = json_marshal enc_NodeDescriptor d'"
    using assms(4) by (auto simp: announceTick_def NewManager_def Let_def split: if_splits)
  have "nd_PeerID d' = nd_PeerID d" using assms(3) by (auto simp: SignDescriptor_def res_bind_eq_Inr)
  then show ?thesis
    using handleAnnounce_signed [OF assms(1) d(1) assms(3) d(2)] nodes.get_put_same
    by (simp add: runSubscriber_def p) metis
qed

theorem announced_descriptor_is_stored_witness:
  "\<exists>d' payload. SignDescriptor demo_identity [1] demo_descriptor = Inr d' \<and>
     ds_Get (runSubscriber demo_identity NewStore [payload]) ''12D3KooWAQ=='' = Some d'"
proof -
  obtain d' where s: "SignDescriptor demo_identity [1] demo_descriptor = Inr d'"
    using SignDescriptor_total [OF demo_usable_key, of "[1]"] by auto
  note b = demo_descriptor_built
  have "nd_Relay d'" using s by (auto simp: SignDescriptor_def res_bind_eq_Inr demo_descriptor_def)
  then have "(TopicAnnounceRelay, json_marshal enc_NodeDescriptor d')
      \<in> set (announceTick (NewManager NewStore (Some d')))"
    by (simp add: announceTick_def NewManager_def Let_def)
  note r = announced_descriptor_is_stored [OF demo_usable_key b s this, of NewStore "[]"]
  show ?thesis
    using s r demo_descriptor_ok
    by (auto simp: NodeDescriptor_ok_def) (auto simp: demo_descriptor_def second_def int64_ok_def slice_ok_def)
qed

text \<open>
  C15. A subscriber stores nothing that does not verify: whatever bytes arrive, a descriptor
  in the cache was there before or carries a valid signature under the public key it
  contains, and is filed under the peer ID it claims.
\<close>

theorem subscriber_stores_only_verified:
  assumes "ds_Get (runSubscriber i s msgs) peerID = Some d"
  shows "ds_Get s peerID = Some d \<or> VerifyDescriptor i d = Inr True \<and> nd_PeerID d = peerID"
  using assms
proof (induction msgs arbitrary: s)
  case (Cons m msgs)
  have "ds_Get (handleAnnounce i s m) peerID = Some d \<or> VerifyDescriptor i d = Inr True \<and> nd_PeerID d = peerID"
    using Cons by (simp add: runSubscriber_def)
  then show ?case
    using handleAnnounce_cases [of i s m] by (auto simp: nodes.get_put split: if_splits)
qed (simp add: runSubscriber_def)

theorem subscriber_stores_only_verified_witness:
  "\<exists>d. ds_Get (runSubscriber demo_identity NewStore [json_marshal enc_NodeDescriptor d]) (nd_PeerID d) = Some d
     \<and> VerifyDescriptor demo_identity d = Inr True"
proof -
  obtain d where s: "SignDescriptor demo_identity [1] demo_descriptor = Inr d"
    using SignDescriptor_total [OF demo_usable_key, of "[1]"] by auto
  have "handleAnnounce demo_identity NewStore (json_marshal enc_NodeDescriptor d) = ds_Upsert NewStore d"
    by (rule handleAnnounce_signed [OF demo_usable_key _ s demo_descriptor_ok])
       (simp_all add: demo_descriptor_def demo_identity_def)
  then have g: "ds_Get (runSubscriber demo_identity NewStore [json_marshal enc_NodeDescriptor d]) (nd_PeerID d) = Some d"
    by (simp add: runSubscriber_def nodes.get_put_same)
  then show ?thesis using subscriber_stores_only_verified [OF g] by (auto simp: ds_Get_def NewStore_def)
qed

text \<open>
  The subscriber does not compare the claimed peer ID with the key. For any descriptor
  and any key of somebody else there is a message that replaces that descriptor in the cache
  by one with the same peer ID, the other key and addresses of the sender's choice.
\<close>

theorem descriptor_can_be_replaced:
  assumes "usable_key i k" and "NodeDescriptor_ok d" and "slice_ok addrs"
  shows "\<exists>forged. nd_PeerID forged = nd_PeerID d \<and> nd_PubKey forged = b64_encode (id_Public i k) \<and>
     nd_ListenAddrs forged = addrs \<and>
     ds_Get (handleAnnounce i s (json_marshal enc_NodeDescriptor forged)) (nd_PeerID d) = Some forged"
proof -
  let ?d = "d\<lparr>nd_PubKey := b64_encode (id_Public i k), nd_ListenAddrs := addrs\<rparr>"
  obtain sig where s: "SignDescriptor i k ?d = Inr (?d\<lparr>nd_Signature := b64_encode sig\<rparr>)"
    using SignDescriptor_total [OF assms(1)] by blast
  have "handleAnnounce i s (json_marshal enc_NodeDescriptor (?d\<lparr>nd_Signature := b64_encode sig\<rparr>))
      = ds_Upsert s (?d\<lparr>nd_Signature := b64_encode sig\<rparr>)"
    by (rule handleAnnounce_signed [OF assms(1) _ s]) (use assms(2,3) in \<open>auto simp: NodeDescriptor_ok_def\<close>)
  then show ?thesis
    by (intro exI [of _ "?d\<lparr>nd_Signature := b64_encode sig\<rparr>"]) (simp add: nodes.get_put)
qed

theorem descriptor_can_be_replaced_witness:
  "\<exists>forged. nd_PeerID forged = ''12D3KooWAQ=='' \<and> nd_PubKey forged = b64_encode [2] \<and>
     ds_Get (handleAnnounce demo_identity (ds_Upsert NewStore demo_descriptor)
       (json_marshal enc_NodeDescriptor forged)) ''12D3KooWAQ=='' = Some forged"
  using descriptor_can_be_replaced [OF demo_usable_key demo_descriptor_ok, of "[2]" None "ds_Upsert NewStore demo_descriptor"]
  by (auto simp: slice_ok_def demo_identity_def) (auto simp: demo_descriptor_def)

text \<open>
  Peer exchange messages are bound to their sender: a message verifies only if the
  sender's peer ID is the one of its public key and the signature over the message holds
  under that key, and every message signed with the key of its sender verifies.
\<close>

theorem peer_exchange_bound_to_sender:
  "(VerifyPeerExchange i m = Inr True \<longrightarrow>
     (\<exists>sender raw pub sig. pm_Sender m = Some sender \<and> b64_decode (nd_PubKey sender) = Some raw \<and>
        id_UnmarshalPublicKey i raw = Inr pub \<and> id_IDFromPublicKey i pub = Inr (nd_PeerID sender) \<and>
        b64_decode (pm_Signature m) = Some sig \<and>
        id_Verify i pub (sha256 (pm_MarshalUnsignedJSON m)) sig = Inr True)) \<and>
   (usable_key i k \<longrightarrow> BuildSelfDescriptor i version k addrs relay exit ttl now = Inr d \<longrightarrow>
     SignDescriptor i k d = Inr self \<longrightarrow> pm_Sender m = Some self \<longrightarrow> SignPeerExchange i k m = Inr m' \<longrightarrow>
     VerifyPeerExchange i m' = Inr True)"
proof (intro conjI impI)
  assume "VerifyPeerExchange i m = Inr True"
  then show "\<exists>sender raw pub sig. pm_Sender m = Some sender \<and> b64_decode (nd_PubKey sender) = Some raw \<and>
        id_UnmarshalPublicKey i raw = Inr pub \<and> id_IDFromPublicKey i pub = Inr (nd_PeerID sender) \<and>
        b64_decode (pm_Signature m) = Some sig \<and>
        id_Verify i pub (sha256 (pm_MarshalUnsignedJSON m)) sig = Inr True"
    by (auto simp: VerifyPeerExchange_def res_bind_eq_Inr of_option_eq split: option.splits sum.splits if_splits)
next
  assume k: "usable_key i k" and d: "BuildSelfDescriptor i version k addrs relay exit ttl now = Inr d"
    and s: "SignDescriptor i k d = Inr self" "pm_Sender m = Some self" and m: "SignPeerExchange i k m = Inr m'"
  have p: "nd_PubKey d = b64_encode (id_Public i k)" "id_IDFromPublicKey i (id_Public i k) = Inr (nd_PeerID d)"
    using d by (auto simp: BuildSelfDescriptor_def res_bind_eq_Inr)
  have "VerifyDescriptor i self = Inr True" by (rule SignDescriptor_verifies [OF k p(1) s(1)])
  moreover have "nd_PubKey self = nd_PubKey d" "nd_PeerID self = nd_PeerID d"
    using s(1) by (auto simp: SignDescriptor_def res_bind_eq_Inr)
  ultimately show "VerifyPeerExchange i m' = Inr True"
    using usable_keyD [OF k] p s(2) m by (auto simp: SignPeerExchange_def VerifyPeerExchange_def res_bind_eq_Inr)
qed

theorem peer_exchange_bound_to_sender_witness:
  "\<exists>self m'. SignDescriptor demo_identity [1] demo_descriptor = Inr self \<and> pm_Sender m' = Some self \<and>
     VerifyPeerExchange demo_identity m' = Inr True"
proof -
  obtain self where s: "SignDescriptor demo_identity [1] demo_descriptor = Inr self"
    using SignDescriptor_total [OF demo_usable_key, of "[1]"] by auto
  let ?m = "\<lparr>pm_Version = ''1.0'', pm_Sender = Some self, pm_Entries = None, pm_SentAt = 1, pm_ExpiresAt = 2,
    pm_Signature = []\<rparr>"
  obtain m' where m: "SignPeerExchange demo_identity [1] ?m = Inr m'" "pm_Sender m' = Some self"
    by (auto simp: SignPeerExchange_def demo_identity_def)
  note b = demo_descriptor_built
  show ?thesis
    using peer_exchange_bound_to_sender [of demo_identity ?m "[1]"] demo_usable_key [of "[1]"] b s m by fastforce
qed

end
