(* ===== verification/Go_Net.thy ===== *)
theory Go_Net
  imports Go_Json
begin

text \<open>
  The parts of Go's \<open>net\<close> package the program uses on addresses: \<open>net.IP\<close> values, their
  text form and \<open>net.ParseIP\<close>, \<open>To4\<close>, \<open>To16\<close>, \<open>IsLoopback\<close>, \<open>IsUnspecified\<close>, and the
  splitting and joining of \<open>host:port\<close>.
\<close>

unbundle bit_operations_syntax

section \<open>Addresses\<close>

text \<open>A \<open>net.IP\<close> is a byte slice of length 4 or 16; nil is the empty slice.\<close>

type_synonym IP = bytes

definition v4InV6Prefix :: bytes where
  "v4InV6Prefix = [0, 0, 0, 0, 0, 0, 0, 0, 0, 0, 0xff, 0xff]"

definition ip_To4 :: "IP \<Rightarrow> IP option" where
  "ip_To4 ip =
     (if length ip = 4 then Some ip
      else if length ip = 16 \<and> take 12 ip = v4InV6Prefix then Some (drop 12 ip)
      else None)"

definition ip_To16 :: "IP \<Rightarrow> IP option" where
  "ip_To16 ip =
     (if length ip = 4 then Some (v4InV6Prefix @ ip)
      else if length ip = 16 then Some ip else None)"

definition IPv6loopback :: IP where "IPv6loopback = [0, 0, 0, 0, 0, 0, 0, 0, 0, 0, 0, 0, 0, 0, 0, 1]"
definition IPv6unspecified :: IP where "IPv6unspecified = [0, 0, 0, 0, 0, 0, 0, 0, 0, 0, 0, 0, 0, 0, 0, 0]"
definition IPv4zero :: IP where "IPv4zero = v4InV6Prefix @ [0, 0, 0, 0]"

definition ip_Equal :: "IP \<Rightarrow> IP \<Rightarrow> bool" where
  "ip_Equal a b \<longleftrightarrow>
     (if length a = length b then a = b
      else if length a = 4 \<and> length b = 16 then b = v4InV6Prefix @ a
      else if length a = 16 \<and> length b = 4 then a = v4InV6Prefix @ b
      else False)"

definition ip_IsLoopback :: "IP \<Rightarrow> bool" where
  "ip_IsLoopback ip =
     (case ip_To4 ip of Some ip4 \<Rightarrow> hd ip4 = 127 | None \<Rightarrow> ip_Equal ip IPv6loopback)"

definition ip_IsUnspecified :: "IP \<Rightarrow> bool" where
  "ip_IsUnspecified ip \<longleftrightarrow> ip_Equal ip IPv4zero \<or> ip_Equal ip IPv6unspecified"

lemma ip_To4_length: "ip_To4 ip = Some ip4 \<Longrightarrow> length ip4 = 4"
  by (auto simp: ip_To4_def split: if_splits)

section \<open>Parsing\<close>

text \<open>
  \<open>net.ParseIP\<close> is \<open>netip.ParseAddr\<close> without zones. The fields of a dotted quad: one to
  three digits each, no leading zero, at most 255, exactly four.
\<close>

fun v4_fields :: "string \<Rightarrow> (nat \<times> nat) \<Rightarrow> bytes \<Rightarrow> bytes option" where
  "v4_fields [] (val, digLen) acc =
     (if length acc = 3 \<and> digLen > 0 then Some (acc @ [of_nat val]) else None)"
| "v4_fields (c # s) (val, digLen) acc =
     (if is_digit c then
        (if digLen = 1 \<and> val = 0 then None
         else let v = val * 10 + digit_val c
              in if v > 255 then None else v4_fields s (v, digLen + 1) acc)
      else if c = CHR ''.'' then
        (if digLen = 0 \<or> s = [] \<or> length acc \<ge> 3 then None
         else v4_fields s (0, 0) (acc @ [of_nat val]))
      else None)"

definition parseIPv4 :: "string \<Rightarrow> bytes option" where
  "parseIPv4 s = v4_fields s (0, 0) []"

text \<open>The hexadecimal group at the front of \<open>s\<close>: its value, its length and the rest.\<close>

fun hex_group :: "string \<Rightarrow> nat \<Rightarrow> nat \<Rightarrow> (nat \<times> nat \<times> string) option" where
  "hex_group [] acc off = Some (acc, off, [])"
| "hex_group (c # s) acc off =
     (case hex_val c of
        None \<Rightarrow> Some (acc, off, c # s)
      | Some d \<Rightarrow> if off > 3 then None
                  else if acc * 16 + d > 65535 then None else hex_group s (acc * 16 + d) (off + 1))"

text \<open>
  The loop of \<open>parseIPv6\<close>. \<open>n\<close> groups are left of the eight, \<open>out\<close> are the bytes so far
  and \<open>ell\<close> is the position of the \<open>::\<close>, if it was seen.
\<close>

fun v6_loop :: "nat \<Rightarrow> string \<Rightarrow> bytes \<Rightarrow> nat option \<Rightarrow> (string \<times> bytes \<times> nat option) option" where
  "v6_loop 0 s out ell = Some (s, out, ell)"
| "v6_loop (Suc n) s out ell =
     (case hex_group s 0 0 of
        None \<Rightarrow> None
      | Some (acc, off, r) \<Rightarrow>
          if off = 0 then None
          else if r \<noteq> [] \<and> hd r = CHR ''.'' then
            (if ell = None \<and> length out \<noteq> 12 then None
             else if length out + 4 > 16 then None
             else map_option (\<lambda>b. ([], out @ b, ell)) (parseIPv4 s))
          else
            let out' = out @ [of_nat (acc div 256), of_nat acc]
            in (case r of
                  [] \<Rightarrow> Some ([], out', ell)
                | c # r1 \<Rightarrow>
                    if c \<noteq> CHR '':'' then None
                    else (case r1 of
                            [] \<Rightarrow> None
                          | c1 # r2 \<Rightarrow>
                              if c1 = CHR '':'' then
                                (if ell \<noteq> None then None
                                 else if r2 = [] then Some ([], out', Some (length out'))
                                 else v6_loop n r2 out' (Some (length out')))
                              else v6_loop n r1 out' ell)))"

definition v6_finish :: "string \<times> bytes \<times> nat option \<Rightarrow> bytes option" where
  "v6_finish = (\<lambda>(s, out, ell).
     if s \<noteq> [] then None
     else if length out < 16 then
       (case ell of None \<Rightarrow> None
        | Some e \<Rightarrow> Some (take e out @ replicate (16 - length out) 0 @ drop e out))
     else if ell \<noteq> None then None else Some out)"

definition parseIPv6 :: "string \<Rightarrow> bytes option" where
  "parseIPv6 s =
     (if hasPrefix s ''::'' then
        (if length s = 2 then Some IPv6unspecified
         else Option.bind (v6_loop 8 (drop 2 s) [] (Some 0)) v6_finish)
      else Option.bind (v6_loop 8 s [] None) v6_finish)"

definition ParseIP :: "string \<Rightarrow> IP option" where
  "ParseIP s =
     (case dropWhile (\<lambda>c. c \<noteq> CHR ''.'' \<and> c \<noteq> CHR '':'' \<and> c \<noteq> CHR ''%'') s of
        [] \<Rightarrow> None
      | c # _ \<Rightarrow>
          if c = CHR ''.'' then map_option (\<lambda>b. v4InV6Prefix @ b) (parseIPv4 s)
          else if c = CHR '':'' \<and> CHR ''%'' \<notin> set s then parseIPv6 s
          else None)"

section \<open>Printing\<close>

text \<open>\<open>strings.Join\<close>\<close>

fun joinStrings :: "string \<Rightarrow> string list \<Rightarrow> string" where
  "joinStrings sep [] = []"
| "joinStrings sep [x] = x"
| "joinStrings sep (x # y # zs) = x @ sep @ joinStrings sep (y # zs)"

definition showIPv4 :: "bytes \<Rightarrow> string" where
  "showIPv4 b = joinStrings ''.'' (map (\<lambda>x. show_nat (unat x)) b)"

fun hex_digits :: "nat \<Rightarrow> string" where
  "hex_digits n = (if n < 16 then [hex_digit n] else hex_digits (n div 16) @ [hex_digit (n mod 16)])"

declare hex_digits.simps [simp del]

fun v6_words :: "bytes \<Rightarrow> nat list" where
  "v6_words (a # b # r) = (unat a * 256 + unat b) # v6_words r"
| "v6_words _ = []"

text \<open>The first longest run of at least two zero words: its start and its length.\<close>

fun zero_run :: "nat list \<Rightarrow> nat \<Rightarrow> nat \<times> nat \<Rightarrow> nat \<times> nat" where
  "zero_run [] i best = best"
| "zero_run (w # ws) i (start, len) =
     (let r = length (takeWhile (\<lambda>x. x = 0) (w # ws))
      in zero_run ws (Suc i) (if r \<ge> 2 \<and> r > len then (i, r) else (start, len)))"

definition showIPv6 :: "bytes \<Rightarrow> string" where
  "showIPv6 b =
     (let ws = v6_words b; (start, len) = zero_run ws 0 (0, 0);
          show = (\<lambda>l. joinStrings '':'' (map hex_digits l))
      in if len = 0 then show ws
         else show (take start ws) @ ''::'' @ show (drop (start + len) ws))"

text \<open>\<open>IP.String\<close>; a slice of another length prints as \<open>?\<close> and its bytes.\<close>

definition ip_String :: "IP \<Rightarrow> string" where
  "ip_String ip =
     (if ip = [] then ''<nil>''
      else case ip_To4 ip of
        Some ip4 \<Rightarrow> showIPv4 ip4
      | None \<Rightarrow> if length ip = 16 then showIPv6 ip else ''?'' @ hexEncode ip)"

section \<open>Round trip of dotted quads\<close>

lemma foldl_digits_mono: "x \<le> foldl (\<lambda>a c. a * 10 + digit_val c) x ds"
proof (induction ds arbitrary: x)
  case (Cons d ds)
  show ?case using Cons [of "x * 10 + digit_val d"] by simp
qed simp

lemma v4_fields_digits:
  assumes "list_all is_digit ds" and "ds = [] \<or> digLen \<noteq> 1 \<or> val \<noteq> 0"
    and "foldl (\<lambda>a c. a * 10 + digit_val c) val ds \<le> 255"
    and "\<forall>c cs. ds = c # cs \<longrightarrow> digLen = 0 \<longrightarrow> cs \<noteq> [] \<longrightarrow> digit_val c \<noteq> 0"
  shows "v4_fields (ds @ r) (val, digLen) acc =
     v4_fields r (foldl (\<lambda>a c. a * 10 + digit_val c) val ds, digLen + length ds) acc"
  using assms
proof (induction ds arbitrary: val digLen)
  case (Cons d ds)
  have "val * 10 + digit_val d \<le> 255"
    using foldl_digits_mono [of "val * 10 + digit_val d" ds] Cons.prems(3) by simp
  moreover have "ds = [] \<or> Suc digLen \<noteq> 1 \<or> val * 10 + digit_val d \<noteq> 0"
    using Cons.prems(4) by auto
  ultimately show ?case
    using Cons.prems Cons.IH [of "Suc digLen" "val * 10 + digit_val d"] by (auto simp: Let_def)
qed simp

lemma v4_field:
  assumes "n < 256"
  shows "v4_fields (show_nat n @ r) (0, 0) acc = v4_fields r (n, length (show_nat n)) acc"
proof -
  have "digit_val c \<noteq> 0" if "show_nat n = c # cs" "cs \<noteq> []" for c cs
  proof
    assume "digit_val c = 0"
    moreover have "is_digit c" using show_nat_digits [of n] that(1) by simp
    ultimately have "code c = code CHR ''0''" by (simp add: digit_val_def is_digit_def)
    then have "c = CHR ''0''" by (simp only: of_char_eq_iff)
    then show False using show_nat_hd_0 [of n cs] that by simp
  qed
  moreover have "foldl (\<lambda>a c. a * 10 + digit_val c) 0 (show_nat n) = n"
    using digits_val_show_nat [of n] by (simp only: digits_val_def)
  ultimately show ?thesis
    using v4_fields_digits [of "show_nat n" 0 0 r acc] assms by simp
qed

lemma v4_dot:
  "length acc < 3 \<Longrightarrow> digLen > 0 \<Longrightarrow> r \<noteq> [] \<Longrightarrow>
   v4_fields (CHR ''.'' # r) (val, digLen) acc = v4_fields r (0, 0) (acc @ [of_nat val])"
  by (simp add: is_digit_def)

lemma parseIPv4_showIPv4: "parseIPv4 (showIPv4 [a, b, c, d]) = Some [a, b, c, d]"
proof -
  have u: "unat (x :: byte) < 256" for x using unsigned_less [of x] by simp
  have l: "0 < length (show_nat n)" for n by simp
  show ?thesis
    using v4_field [OF u, of d "[]"]
    by (simp add: parseIPv4_def showIPv4_def v4_field [OF u] v4_dot l del: length_greater_0_conv)
qed

lemma showIPv4_first_dot:
  "dropWhile (\<lambda>c. c \<noteq> CHR ''.'' \<and> c \<noteq> CHR '':'' \<and> c \<noteq> CHR ''%'') (showIPv4 [a, b, c, d]) \<noteq> [] \<and>
   hd (dropWhile (\<lambda>c. c \<noteq> CHR ''.'' \<and> c \<noteq> CHR '':'' \<and> c \<noteq> CHR ''%'') (showIPv4 [a, b, c, d])) = CHR ''.''"
proof -
  have "\<forall>c\<in>set (show_nat (unat a)). c \<noteq> CHR ''.'' \<and> c \<noteq> CHR '':'' \<and> c \<noteq> CHR ''%''"
    using show_nat_digits [of "unat a"] by (auto simp: list_all_iff is_digit_def)
  then show ?thesis by (simp add: showIPv4_def)
qed

lemma ParseIP_String_v4:
  "ParseIP (ip_String (v4InV6Prefix @ [a, b, c, d])) = Some (v4InV6Prefix @ [a, b, c, d])"
proof -
  have "ip_String (v4InV6Prefix @ [a, b, c, d]) = showIPv4 [a, b, c, d]"
    by (simp add: ip_String_def ip_To4_def v4InV6Prefix_def)
  then show ?thesis
    using showIPv4_first_dot [of a b c d] parseIPv4_showIPv4 [of a b c d]
    by (auto simp: ParseIP_def split: list.splits)
qed

end
