(* ===== verification/Exit_Selection.thy ===== *)
theory Exit_Selection
  imports Discovery Go_Net "HOL-Library.Multiset"
begin

text \<open>
  Choosing candidates for the last hop. \<open>internal/geoip\<close> (\<open>ip.go\<close>, \<open>cache.go\<close>) finds
  the country of a node by its address; \<open>internal/client/exit_selection.go\<close> filters and
  orders the exits by the configuration of \<open>internal/config/config.go\<close>. The multiaddr
  parser of go-multiaddr is a parameter, and so is the country database behind the resolver.
\<close>

section \<open>Addresses for the country lookup\<close>

text \<open>
  \<open>ma\<close> is \<open>multiaddr.NewMultiaddr\<close> followed by \<open>ValueForProtocol\<close>: for a text that parses,
  the values of its \<open>ip4\<close> and \<open>ip6\<close> components, if it has them.
\<close>

type_synonym multiaddr = "string \<Rightarrow> (string option \<times> string option) option"

definition isUnspecifiedOrLoopback :: "IP \<Rightarrow> bool" where
  "isUnspecifiedOrLoopback ip \<longleftrightarrow> ip_IsUnspecified ip \<or> ip_IsLoopback ip"

definition isPublicIPv4 :: "IP \<Rightarrow> bool" where
  "isPublicIPv4 ip \<longleftrightarrow>
     \<not> (ip = [] \<or> ip_To4 ip = None) \<and> \<not> isUnspecifiedOrLoopback ip \<and>
     \<not> (ip ! 0 = 169 \<and> ip ! 1 = 254)"

definition isRoutableIPv6 :: "IP \<Rightarrow> bool" where
  "isRoutableIPv6 ip \<longleftrightarrow>
     \<not> (ip = [] \<or> ip_To4 ip \<noteq> None) \<and> \<not> (ip_IsUnspecified ip \<or> ip_IsLoopback ip) \<and>
     \<not> (length ip \<ge> 2 \<and> ip ! 0 = 0xfe \<and> ip ! 1 AND 0xc0 = 0x80)"

fun firstPublicLoop :: "multiaddr \<Rightarrow> string list \<Rightarrow> string \<Rightarrow> string \<Rightarrow> string" where
  "firstPublicLoop ma [] firstIPv4 firstIPv6 = (if firstIPv4 \<noteq> [] then firstIPv4 else firstIPv6)"
| "firstPublicLoop ma (s # ss) firstIPv4 firstIPv6 =
     (let s = trimSpace s in
      if s = [] then firstPublicLoop ma ss firstIPv4 firstIPv6
      else case ma s of
        None \<Rightarrow> firstPublicLoop ma ss firstIPv4 firstIPv6
      | Some (ip4, ip6) \<Rightarrow>
          if ip4 \<noteq> None \<and> ip4 \<noteq> Some [] then
            (case ParseIP (the ip4) of
               None \<Rightarrow> firstPublicLoop ma ss firstIPv4 firstIPv6
             | Some ip \<Rightarrow>
                 if isPublicIPv4 ip then ip_String ip
                 else if firstIPv4 = [] \<and> \<not> isUnspecifiedOrLoopback ip
                 then firstPublicLoop ma ss (ip_String ip) firstIPv6
                 else firstPublicLoop ma ss firstIPv4 firstIPv6)
          else if ip6 \<noteq> None \<and> ip6 \<noteq> Some [] \<and> firstIPv6 = [] then
            (case ParseIP (the ip6) of
               None \<Rightarrow> firstPublicLoop ma ss firstIPv4 firstIPv6
             | Some ip \<Rightarrow>
                 firstPublicLoop ma ss firstIPv4 (if isRoutableIPv6 ip then ip_String ip else firstIPv6))
          else firstPublicLoop ma ss firstIPv4 firstIPv6)"

definition FirstPublicIP :: "multiaddr \<Rightarrow> string list \<Rightarrow> string" where
  "FirstPublicIP ma listenAddrs = firstPublicLoop ma listenAddrs [] []"

section \<open>The caching resolver\<close>

text \<open>A resolver maps an IP to a country code or an error.\<close>

type_synonym Resolver = "string \<Rightarrow> string result"

record cacheEntry =
  ce_country :: string
  ce_until :: time

record CachedResolver =
  re_inner :: Resolver
  re_ttl :: duration
  re_cache :: "string \<rightharpoonup> cacheEntry"

definition NoopResolver :: Resolver where "NoopResolver ip = Inr []"

definition NewCachedResolver :: "Resolver \<Rightarrow> duration \<Rightarrow> CachedResolver" where
  "NewCachedResolver inner ttl =
     \<lparr>re_inner = inner, re_ttl = (if ttl \<le> 0 then 24 * 60 * minute else ttl), re_cache = Map.empty\<rparr>"

definition cached_Country :: "CachedResolver \<Rightarrow> string \<Rightarrow> time \<Rightarrow> CachedResolver \<times> string result" where
  "cached_Country c ip now =
     (if ip = [] then (c, Inr [])
      else case re_cache c ip of
        Some e \<Rightarrow> if now < ce_until e then (c, Inr (ce_country e))
                  else (case re_inner c ip of
                          Inl err \<Rightarrow> (c, Inl err)
                        | Inr country \<Rightarrow>
                            (c\<lparr>re_cache := (re_cache c)(ip \<mapsto> \<lparr>ce_country = country, ce_until = now + re_ttl c\<rparr>)\<rparr>,
                             Inr country))
      | None \<Rightarrow> (case re_inner c ip of
                   Inl err \<Rightarrow> (c, Inl err)
                 | Inr country \<Rightarrow>
                     (c\<lparr>re_cache := (re_cache c)(ip \<mapsto> \<lparr>ce_country = country, ce_until = now + re_ttl c\<rparr>)\<rparr>,
                      Inr country)))"

text \<open>Every cached answer is one the inner resolver gave.\<close>

definition cache_sound :: "CachedResolver \<Rightarrow> bool" where
  "cache_sound c \<longleftrightarrow> (\<forall>ip e. re_cache c ip = Some e \<longrightarrow> ip \<noteq> [] \<and> re_inner c ip = Inr (ce_country e))"

lemma cache_sound_New: "cache_sound (NewCachedResolver inner ttl)"
  by (simp add: cache_sound_def NewCachedResolver_def)

lemma cache_sound_Country: "cache_sound c \<Longrightarrow> cache_sound (fst (cached_Country c ip now))"
  by (auto simp: cache_sound_def cached_Country_def split: option.splits sum.splits)

lemma cached_Country_inner:
  "cache_sound c \<Longrightarrow> ip \<noteq> [] \<Longrightarrow> snd (cached_Country c ip now) = re_inner c ip"
  by (auto simp: cache_sound_def cached_Country_def split: option.splits sum.splits)

section \<open>Configuration\<close>

type_synonym ExitSelectionMode = string

definition ExitSelectionAuto :: ExitSelectionMode where "ExitSelectionAuto = ''auto''"
definition ExitSelectionCountryOnly :: ExitSelectionMode where "ExitSelectionCountryOnly = ''country_only''"
definition ExitSelectionCountryPreferred :: ExitSelectionMode where
  "ExitSelectionCountryPreferred = ''country_preferred''"
definition ExitSelectionFixedPeer :: ExitSelectionMode where "ExitSelectionFixedPeer = ''fixed_peer''"

lemmas ExitSelectionMode_defs [simp] = ExitSelectionAuto_def ExitSelectionCountryOnly_def
  ExitSelectionCountryPreferred_def ExitSelectionFixedPeer_def

record ExitSelectionConfig =
  es_Mode :: ExitSelectionMode
  es_AllowedCountries :: "string list"
  es_PreferredCountries :: "string list"
  es_FixedExitPeerID :: string
  es_ExcludeCountries :: "string list"
  es_ExcludePeerIDs :: "string list"
  es_RequireRemoteDNS :: bool
  es_RequireTCPSupport :: bool
  es_FallbackToAny :: bool
  es_AllowDirectExit :: bool

section \<open>Properties of a candidate\<close>

definition normCountry :: "string \<Rightarrow> string" where
  "normCountry c = trimSpace (toUpper c)"

definition exitCountry :: "NodeDescriptor \<Rightarrow> string" where
  "exitCountry d = (case nd_ExitInfo d of None \<Rightarrow> [] | Some e \<Rightarrow> normCountry (ed_Country e))"

text \<open>The lookup by address: observed addresses first, then the announced ones.\<close>

definition lookupCountry :: "multiaddr \<Rightarrow> NodeDescriptor \<Rightarrow> Resolver option \<Rightarrow> string list \<Rightarrow> string" where
  "lookupCountry ma d resolver peerAddrs =
     (case resolver of
        None \<Rightarrow> []
      | Some country \<Rightarrow>
          let ip = (if peerAddrs \<noteq> [] then FirstPublicIP ma peerAddrs else []);
              ip = (if ip = [] then FirstPublicIP ma (case nd_ListenAddrs d of None \<Rightarrow> [] | Some as \<Rightarrow> as) else ip)
          in if ip = [] then []
             else (case country ip of
                     Inl err \<Rightarrow> []
                   | Inr c \<Rightarrow> if c = [] then [] else normCountry c))"

definition EffectiveCountry :: "multiaddr \<Rightarrow> NodeDescriptor \<Rightarrow> Resolver option \<Rightarrow> string list \<Rightarrow> string" where
  "EffectiveCountry ma d resolver peerAddrs =
     (case nd_ExitInfo d of
        Some e \<Rightarrow> if trimSpace (ed_Country e) \<noteq> [] then normCountry (ed_Country e)
                  else lookupCountry ma d resolver peerAddrs
      | None \<Rightarrow> lookupCountry ma d resolver peerAddrs)"

definition exitAllowsTCP :: "NodeDescriptor \<Rightarrow> bool" where
  "exitAllowsTCP d = (case nd_ExitInfo d of None \<Rightarrow> True | Some e \<Rightarrow> ed_AllowTCP e)"

definition exitRemoteDNS :: "NodeDescriptor \<Rightarrow> bool" where
  "exitRemoteDNS d = (case nd_ExitInfo d of None \<Rightarrow> False | Some e \<Rightarrow> ed_RemoteDNS e)"

section \<open>Filtering and ordering\<close>

text \<open>The body of the filter loop of \<open>applyExitSelection\<close>: whether a node is kept.\<close>

definition modeAllows :: "ExitSelectionConfig \<Rightarrow> NodeDescriptor \<Rightarrow> string \<Rightarrow> bool" where
  "modeAllows cfg n country =
     (let allowed = map normCountry (es_AllowedCountries cfg)
      in if es_Mode cfg = ExitSelectionFixedPeer then nd_PeerID n = es_FixedExitPeerID cfg
         else if es_Mode cfg = ExitSelectionCountryOnly then \<not> (allowed \<noteq> [] \<and> country \<notin> set allowed)
         else if es_Mode cfg = ExitSelectionCountryPreferred then True
         else es_Mode cfg = ExitSelectionAuto)"

definition exitKept ::
  "ExitSelectionConfig \<Rightarrow> string \<Rightarrow> bool \<Rightarrow> string list \<Rightarrow> (NodeDescriptor \<Rightarrow> string) \<Rightarrow> NodeDescriptor \<Rightarrow> bool" where
  "exitKept cfg localPeerID allowSelfExit excludePeerIDs getCountry n \<longleftrightarrow>
     \<not> (\<not> allowSelfExit \<and> nd_PeerID n = localPeerID) \<and>
     nd_PeerID n \<notin> set (es_ExcludePeerIDs cfg) \<union> set excludePeerIDs \<and>
     getCountry n \<notin> set (map normCountry (es_ExcludeCountries cfg)) \<and>
     \<not> (es_RequireTCPSupport cfg \<and> \<not> exitAllowsTCP n) \<and>
     \<not> (es_RequireRemoteDNS cfg \<and> \<not> exitRemoteDNS n) \<and>
     modeAllows cfg n (getCountry n)"

definition countryKey :: "(NodeDescriptor \<Rightarrow> string) \<Rightarrow> NodeDescriptor \<Rightarrow> string" where
  "countryKey getCountry n = (if getCountry n = [] then ''__'' else getCountry n)"

text \<open>
  The reordering of \<open>country_preferred\<close>; \<open>order\<close> is the order in which \<open>range\<close> visits the
  countries that are left in the map.
\<close>

definition byPreference ::
  "(NodeDescriptor \<Rightarrow> string) \<Rightarrow> string list \<Rightarrow> string list \<Rightarrow> NodeDescriptor list \<Rightarrow> NodeDescriptor list" where
  "byPreference getCountry preferred order ns =
     (let group = (\<lambda>c. filter (\<lambda>n. countryKey getCountry n = c) ns)
      in concat (map group preferred) @ concat (map group (filter (\<lambda>c. c \<notin> set preferred) order)))"

text \<open>A nil configuration is \<open>None\<close>, a nil country function is \<open>None\<close>.\<close>

definition applyExitSelection ::
  "string list \<Rightarrow> NodeDescriptor list \<Rightarrow> ExitSelectionConfig option \<Rightarrow> string \<Rightarrow> bool \<Rightarrow> string list
     \<Rightarrow> (NodeDescriptor \<Rightarrow> string) option \<Rightarrow> NodeDescriptor list" where
  "applyExitSelection order exits cfg localPeerID allowSelfExit excludePeerIDs countryFunc =
     (case cfg of
        None \<Rightarrow> exits
      | Some cfg \<Rightarrow>
          let getCountry = (case countryFunc of None \<Rightarrow> exitCountry | Some f \<Rightarrow> f);
              preferred = map normCountry (es_PreferredCountries cfg);
              out = filter (exitKept cfg localPeerID allowSelfExit excludePeerIDs getCountry) exits
          in if es_Mode cfg = ExitSelectionCountryPreferred \<and> preferred \<noteq> []
             then byPreference getCountry preferred order out else out)"

section \<open>Lemmas\<close>

lemma set_byPreference: "set (byPreference g preferred order ns) \<subseteq> set ns"
  by (auto simp: byPreference_def Let_def)

lemma mset_groups:
  "distinct cs \<Longrightarrow> (\<And>n. n \<in> set ns \<Longrightarrow> f n \<in> set cs) \<Longrightarrow>
   mset (concat (map (\<lambda>c. filter (\<lambda>n. f n = c) ns) cs)) = mset ns"
proof (induction cs arbitrary: ns)
  case (Cons c cs)
  let ?r = "filter (\<lambda>n. f n \<noteq> c) ns"
  have eq: "filter (\<lambda>n. f n = d) ns = filter (\<lambda>n. f n = d) ?r" if "d \<in> set cs" for d
    using Cons.prems(1) that by (auto intro!: filter_cong)
  have "map (\<lambda>c. filter (\<lambda>n. f n = c) ns) cs = map (\<lambda>c. filter (\<lambda>n. f n = c) ?r) cs"
    by (rule map_cong [OF refl]) (rule eq)
  moreover have "mset (concat (map (\<lambda>c. filter (\<lambda>n. f n = c) ?r) cs)) = mset ?r"
    by (rule Cons.IH) (use Cons.prems in auto)
  ultimately have h: "mset (concat (map (\<lambda>c. filter (\<lambda>n. f n = c) ns) cs)) = mset ?r" by (simp only:)
  have "mset (concat (map (\<lambda>c. filter (\<lambda>n. f n = c) ns) (c # cs))) = mset (filter (\<lambda>n. f n = c) ns) + mset ?r"
    by (simp only: list.map concat.simps mset_append h)
  also have "\<dots> = mset ns" using multiset_partition [of "mset ns" "\<lambda>n. f n = c"] by (simp only: mset_filter)
  finally show ?case .
next
  case Nil
  then show ?case by (cases ns) auto
qed

lemma mset_byPreference:
  assumes "distinct preferred" and "distinct order" and "set order = countryKey g ` set ns"
  shows "mset (byPreference g preferred order ns) = mset ns"
proof -
  let ?cs = "preferred @ filter (\<lambda>c. c \<notin> set preferred) order"
  have "byPreference g preferred order ns = concat (map (\<lambda>c. filter (\<lambda>n. countryKey g n = c) ns) ?cs)"
    by (simp add: byPreference_def Let_def)
  moreover have "distinct ?cs" using assms(1,2) by auto
  ultimately show ?thesis using mset_groups [of ?cs ns "countryKey g"] assms(3) by auto
qed

lemma set_applyExitSelection:
  "n \<in> set (applyExitSelection order exits (Some cfg) local self excl cf) \<Longrightarrow>
   n \<in> set exits \<and> exitKept cfg local self excl (case cf of None \<Rightarrow> exitCountry | Some f \<Rightarrow> f) n"
  using set_byPreference by (fastforce simp: applyExitSelection_def Let_def split: if_splits)

section \<open>Properties\<close>

definition demo_exit_config :: ExitSelectionConfig where
  "demo_exit_config = \<lparr>es_Mode = ''country_preferred'', es_AllowedCountries = [],
     es_PreferredCountries = [''sg '', ''JP''], es_FixedExitPeerID = [], es_ExcludeCountries = [''US''],
     es_ExcludePeerIDs = [''bad''], es_RequireRemoteDNS = False, es_RequireTCPSupport = True,
     es_FallbackToAny = True, es_AllowDirectExit = True\<rparr>"

definition demo_exit :: "string \<Rightarrow> string \<Rightarrow> NodeDescriptor" where
  "demo_exit peerID country = demo_descriptor\<lparr>nd_PeerID := peerID, nd_ExitInfo := Some
     \<lparr>ed_Country = country, ed_City = [], ed_AllowTCP = True, ed_AllowUDP = False, ed_RemoteDNS = True,
      ed_BandwidthMbps = 0, ed_Tags = None\<rparr>\<rparr>"

lemma demo_exit_eval:
  "map nd_PeerID (applyExitSelection [''JP'', ''DE'', ''SG'']
     [demo_exit ''e1'' ''DE'', demo_exit ''e2'' ''jp'', demo_exit ''e3'' ''US'', demo_exit ''bad'' ''SG'',
      demo_exit ''e4'' ''SG''] (Some demo_exit_config) ''me'' False [''e9''] None) = [''e4'', ''e2'', ''e1'']"
  by code_simp

text \<open>
  Every exit candidate obeys the configuration: it was announced as an exit, is not the
  local node unless that is allowed, is on no exclusion list, lies in no excluded country,
  offers what is required, and matches the fixed peer or the allowed countries of the mode.
\<close>

theorem exit_candidates_obey_config:
  assumes "n \<in> set (applyExitSelection order exits (Some cfg) localPeerID allowSelfExit excluded cf)"
  defines "country \<equiv> (case cf of None \<Rightarrow> exitCountry | Some f \<Rightarrow> f) n"
  shows "n \<in> set exits \<and> (allowSelfExit \<or> nd_PeerID n \<noteq> localPeerID) \<and>
     nd_PeerID n \<notin> set excluded \<and> nd_PeerID n \<notin> set (es_ExcludePeerIDs cfg) \<and>
     country \<notin> normCountry ` set (es_ExcludeCountries cfg) \<and>
     (es_RequireTCPSupport cfg \<longrightarrow> exitAllowsTCP n) \<and> (es_RequireRemoteDNS cfg \<longrightarrow> exitRemoteDNS n) \<and>
     (es_Mode cfg = ExitSelectionFixedPeer \<longrightarrow> nd_PeerID n = es_FixedExitPeerID cfg) \<and>
     (es_Mode cfg = ExitSelectionCountryOnly \<and> es_AllowedCountries cfg \<noteq> [] \<longrightarrow>
        country \<in> normCountry ` set (es_AllowedCountries cfg))"
  using set_applyExitSelection [OF assms(1)]
  by (auto simp: exitKept_def modeAllows_def country_def Let_def)

theorem exit_candidates_obey_config_witness:
  "\<exists>n. nd_PeerID n = ''e4'' \<and> nd_PeerID n \<notin> set (es_ExcludePeerIDs demo_exit_config) \<and> exitAllowsTCP n"
proof -
  let ?r = "applyExitSelection [''JP'', ''DE'', ''SG'']
     [demo_exit ''e1'' ''DE'', demo_exit ''e2'' ''jp'', demo_exit ''e3'' ''US'', demo_exit ''bad'' ''SG'',
      demo_exit ''e4'' ''SG''] (Some demo_exit_config) ''me'' False [''e9''] None"
  have "''e4'' \<in> nd_PeerID ` set ?r" using demo_exit_eval by (metis list.set_intros(1) list.set_map)
  then obtain n where n: "n \<in> set ?r" "nd_PeerID n = ''e4''" by auto
  show ?thesis using exit_candidates_obey_config [OF n(1)] n(2) by (auto simp: demo_exit_config_def)
qed

text \<open>
  With distinct preferred countries the ordering of \<open>country_preferred\<close> only permutes
  the exits that pass the filters, and every exit of a preferred country comes before every
  other one, whatever order the map is iterated in.
\<close>

theorem preferred_countries_first:
  fixes cfg exits localPeerID allowSelfExit excluded cf
  defines "g \<equiv> (case cf of None \<Rightarrow> exitCountry | Some f \<Rightarrow> f)"
    and "preferred \<equiv> map normCountry (es_PreferredCountries cfg)"
  defines "kept \<equiv> filter (exitKept cfg localPeerID allowSelfExit excluded g) exits"
  assumes "es_Mode cfg = ExitSelectionCountryPreferred" and "distinct preferred"
    and "distinct order" and "set order = countryKey g ` set kept"
  shows "\<exists>first rest. applyExitSelection order exits (Some cfg) localPeerID allowSelfExit excluded cf = first @ rest \<and>
     mset (first @ rest) = mset kept \<and> (preferred \<noteq> [] \<longrightarrow>
       (\<forall>n\<in>set first. countryKey g n \<in> set preferred) \<and> (\<forall>n\<in>set rest. countryKey g n \<notin> set preferred))"
proof (cases "preferred = []")
  case True
  then have "applyExitSelection order exits (Some cfg) localPeerID allowSelfExit excluded cf = kept"
    by (simp add: applyExitSelection_def kept_def g_def preferred_def Let_def)
  then show ?thesis using True by (intro exI [of _ kept] exI [of _ "[]"]) simp
next
  case False
  let ?group = "\<lambda>c. filter (\<lambda>n. countryKey g n = c) kept"
  let ?first = "concat (map ?group preferred)"
  let ?rest = "concat (map ?group (filter (\<lambda>c. c \<notin> set preferred) order))"
  have "applyExitSelection order exits (Some cfg) localPeerID allowSelfExit excluded cf = ?first @ ?rest"
    using False assms(4) by (simp add: applyExitSelection_def byPreference_def kept_def g_def preferred_def Let_def)
  moreover have "mset (?first @ ?rest) = mset kept"
    using mset_byPreference [OF assms(5-7)] by (simp add: byPreference_def Let_def)
  ultimately show ?thesis by (intro exI [of _ ?first] exI [of _ ?rest]) auto
qed

theorem preferred_countries_first_witness:
  "\<exists>first rest. applyExitSelection [''JP''] [demo_exit ''e2'' ''jp''] (Some demo_exit_config) ''me'' False [] None = first @ rest
     \<and> (\<forall>n\<in>set first. countryKey exitCountry n \<in> set [''SG'', ''JP''])"
proof -
  have k: "exitKept demo_exit_config ''me'' False [] exitCountry (demo_exit ''e2'' ''jp'') = True"
    "countryKey exitCountry (demo_exit ''e2'' ''jp'') = ''JP''"
    "map normCountry (es_PreferredCountries demo_exit_config) = [''SG'', ''JP'']"
    by code_simp+
  have "es_Mode demo_exit_config = ExitSelectionCountryPreferred" by (simp add: demo_exit_config_def)
  then show ?thesis
    using preferred_countries_first [where cfg = demo_exit_config and exits = "[demo_exit ''e2'' ''jp'']"
        and localPeerID = "''me''" and allowSelfExit = False and excluded = "[]" and cf = None and order = "[''JP'']"]
    by (auto simp: k)
qed

text \<open>
  The country lookup takes a link-local IPv4 address for a public one: \<open>isPublicIPv4\<close>
  compares the first bytes of the 16-byte form that \<open>net.ParseIP\<close> returns, which are zero
  for every IPv4 address.
\<close>

theorem link_local_counts_as_public:
  assumes "ma s = Some (Some (showIPv4 [169, 254, a, b]), None)" and "trimSpace s = s" and "s \<noteq> []"
  shows "FirstPublicIP ma (s # ss) = showIPv4 [169, 254, a, b]"
proof -
  let ?ip = "v4InV6Prefix @ [169, 254, a, b]"
  have s: "ip_String ?ip = showIPv4 [169, 254, a, b]"
    by (simp add: ip_String_def ip_To4_def v4InV6Prefix_def)
  have "ParseIP (showIPv4 [169, 254, a, b]) = Some ?ip" using ParseIP_String_v4 [of 169 254 a b] s by simp
  moreover have "isPublicIPv4 ?ip"
    by (simp add: isPublicIPv4_def isUnspecifiedOrLoopback_def ip_IsUnspecified_def ip_IsLoopback_def ip_Equal_def
        ip_To4_def v4InV6Prefix_def IPv4zero_def IPv6unspecified_def IPv6loopback_def)
  moreover have "showIPv4 [169, 254, a, b] \<noteq> []" by (simp add: showIPv4_def)
  ultimately show ?thesis using assms s by (simp add: FirstPublicIP_def Let_def)
qed

theorem link_local_counts_as_public_witness:
  "FirstPublicIP (\<lambda>s. Some (Some (showIPv4 [169, 254, 1, 1]), None))
     [''/ip4/169.254.1.1/tcp/4001'', ''/ip4/203.0.113.7/tcp/4001''] = ''169.254.1.1''"
proof -
  have "showIPv4 [169, 254, 1, 1] = ''169.254.1.1''" "trimSpace ''/ip4/169.254.1.1/tcp/4001'' = ''/ip4/169.254.1.1/tcp/4001''"
    by code_simp+
  then show ?thesis
    using link_local_counts_as_public [of "\<lambda>s. Some (Some (showIPv4 [169, 254, 1, 1]), None)"
        "''/ip4/169.254.1.1/tcp/4001''" 1 1] by simp
qed

end
