(* ===== verification/Path_Selector.thy ===== *)
theory Path_Selector
  imports Exit_Selection Pool "HOL-Library.Product_Lexorder" "HOL-Library.List_Lexorder" "HOL-Library.Char_ord"
begin

text \<open>
  Path selection, \<open>internal/client/path_selector.go\<close> and \<open>route_policy.go\<close>: the health the
  client keeps of every peer, the ranking of candidates by it, and the choice of a direct or
  relayed path. The two map iterations and the clock readings of a selection are the record
  \<open>choices\<close>; a result \<open>Inl Panic\<close> stands for the slice \<open>PeerID[:12]\<close> of the log line.
\<close>

section \<open>State\<close>

record RoutePolicy = AllowSelfExit :: bool

definition DefaultRoutePolicy :: RoutePolicy where "DefaultRoutePolicy = \<lparr>AllowSelfExit = False\<rparr>"

record peerHealth =
  SuccessCount :: int
  ConsecutiveFailures :: int
  LastSuccess :: time
  LastFailure :: time
  CooldownUntil :: time
  SmoothedRTT :: duration

definition zeroHealth :: peerHealth where
  "zeroHealth = \<lparr>SuccessCount = 0, ConsecutiveFailures = 0, LastSuccess = 0, LastFailure = 0,
     CooldownUntil = 0, SmoothedRTT = 0\<rparr>"

definition peerFailureCooldownBase :: duration where "peerFailureCooldownBase = 15 * second"
definition peerFailureCooldownMax :: duration where "peerFailureCooldownMax = 4 * minute"

record PathSelector =
  ps_store :: Store
  ps_localPeer :: string
  ps_routePolicy :: RoutePolicy
  ps_exitSelection :: "ExitSelectionConfig option"
  ps_geoIP :: "Resolver option"
  ps_peerAddrsProvider :: "(string \<Rightarrow> string list) option"
  ps_peerHealth :: "string \<rightharpoonup> peerHealth"

definition NewPathSelector :: "Store \<Rightarrow> string \<Rightarrow> RoutePolicy \<Rightarrow> PathSelector" where
  "NewPathSelector s localPeerID policy =
     \<lparr>ps_store = s, ps_localPeer = localPeerID, ps_routePolicy = policy, ps_exitSelection = None,
      ps_geoIP = None, ps_peerAddrsProvider = None, ps_peerHealth = Map.empty\<rparr>"

definition SetExitSelection :: "ExitSelectionConfig option \<Rightarrow> PathSelector \<Rightarrow> PathSelector" where
  "SetExitSelection cfg p = p\<lparr>ps_exitSelection := cfg\<rparr>"

definition GetExitSelection :: "PathSelector \<Rightarrow> ExitSelectionConfig" where
  "GetExitSelection p =
     (case ps_exitSelection p of
        Some cfg \<Rightarrow> cfg
      | None \<Rightarrow> \<lparr>es_Mode = ExitSelectionAuto, es_AllowedCountries = [], es_PreferredCountries = [],
          es_FixedExitPeerID = [], es_ExcludeCountries = [], es_ExcludePeerIDs = [],
          es_RequireRemoteDNS = False, es_RequireTCPSupport = True, es_FallbackToAny = True,
          es_AllowDirectExit = True\<rparr>)"

definition SetGeoIPResolver :: "Resolver option \<Rightarrow> PathSelector \<Rightarrow> PathSelector" where
  "SetGeoIPResolver r p = p\<lparr>ps_geoIP := r\<rparr>"

definition SetPeerAddrsProvider :: "(string \<Rightarrow> string list) option \<Rightarrow> PathSelector \<Rightarrow> PathSelector" where
  "SetPeerAddrsProvider f p = p\<lparr>ps_peerAddrsProvider := f\<rparr>"

definition EffectiveCountryForDescriptor :: "multiaddr \<Rightarrow> PathSelector \<Rightarrow> NodeDescriptor \<Rightarrow> string" where
  "EffectiveCountryForDescriptor ma p d =
     EffectiveCountry ma d (ps_geoIP p)
       (case ps_peerAddrsProvider p of None \<Rightarrow> [] | Some f \<Rightarrow> f (nd_PeerID d))"

section \<open>Reports\<close>

text \<open>
  The smoothing \<open>float64(old)*0.8 + float64(rtt)*0.2\<close>, in IEEE double precision: every
  number is an integer multiple of \<open>2 ^ -55\<close>, and \<open>round53\<close> rounds such an integer to 53
  significant bits, ties to even. The constants are the doubles nearest to 0.8 and 0.2;
  multiplication and addition are not fused.
\<close>

fun bitWidth :: "nat \<Rightarrow> nat" where
  "bitWidth n = (if n = 0 then 0 else Suc (bitWidth (n div 2)))"

declare bitWidth.simps [simp del]

definition round53 :: "nat \<Rightarrow> nat" where
  "round53 n =
     (let k = bitWidth n - 53; q = n div 2 ^ k; r = n mod 2 ^ k
      in if 2 * r > 2 ^ k \<or> 2 * r = 2 ^ k \<and> odd q then Suc q * 2 ^ k else q * 2 ^ k)"

definition smoothRTT :: "duration \<Rightarrow> duration \<Rightarrow> duration" where
  "smoothRTT old rtt =
     (let a = round53 (round53 (nat old) * (4 * 7205759403792794));
          b = round53 (round53 (nat rtt) * 7205759403792794)
      in int (round53 (a + b) div 2 ^ 55))"

definition healthOf :: "PathSelector \<Rightarrow> string \<Rightarrow> peerHealth" where
  "healthOf p peerID = (case ps_peerHealth p peerID of None \<Rightarrow> zeroHealth | Some st \<Rightarrow> st)"

definition updateHop :: "(peerHealth \<Rightarrow> peerHealth) \<Rightarrow> PathSelector \<Rightarrow> PathHop \<Rightarrow> PathSelector" where
  "updateHop f p hop =
     (if ph_PeerID hop = [] then p
      else p\<lparr>ps_peerHealth := (ps_peerHealth p)(ph_PeerID hop \<mapsto> f (healthOf p (ph_PeerID hop)))\<rparr>)"

definition ReportPathRTT :: "PathPlan \<Rightarrow> duration \<Rightarrow> PathSelector \<Rightarrow> PathSelector" where
  "ReportPathRTT plan rtt p =
     (if rtt \<le> 0 then p
      else foldl (updateHop (\<lambda>st. st\<lparr>SmoothedRTT :=
        if SmoothedRTT st > 0 then smoothRTT (SmoothedRTT st) rtt else rtt\<rparr>)) p (pp_Hops plan))"

text \<open>The doubling loop: \<open>n\<close> rounds are left.\<close>

fun backoff :: "nat \<Rightarrow> duration \<Rightarrow> duration" where
  "backoff 0 cooldown = cooldown"
| "backoff (Suc n) cooldown =
     (if cooldown * 2 \<ge> peerFailureCooldownMax then peerFailureCooldownMax else backoff n (cooldown * 2))"

definition reportSuccess :: "time \<Rightarrow> peerHealth \<Rightarrow> peerHealth" where
  "reportSuccess now st =
     st\<lparr>SuccessCount := SuccessCount st + 1, ConsecutiveFailures := 0, LastSuccess := now, CooldownUntil := 0\<rparr>"

definition reportFailure :: "time \<Rightarrow> peerHealth \<Rightarrow> peerHealth" where
  "reportFailure now st =
     (let failures = ConsecutiveFailures st + 1
      in st\<lparr>ConsecutiveFailures := failures, LastFailure := now,
            CooldownUntil := now + backoff (nat (failures - 1)) peerFailureCooldownBase\<rparr>)"

definition reportPath :: "PathPlan \<Rightarrow> bool \<Rightarrow> time \<Rightarrow> PathSelector \<Rightarrow> PathSelector" where
  "reportPath plan success now p =
     foldl (updateHop (if success then reportSuccess now else reportFailure now)) p (pp_Hops plan)"

definition ReportPathSuccess :: "PathPlan \<Rightarrow> time \<Rightarrow> PathSelector \<Rightarrow> PathSelector" where
  "ReportPathSuccess plan now p = reportPath plan True now p"

definition ReportPathFailure :: "PathPlan \<Rightarrow> time \<Rightarrow> PathSelector \<Rightarrow> PathSelector" where
  "ReportPathFailure plan now p = reportPath plan False now p"

section \<open>Ranking\<close>

text \<open>Go compares strings byte by byte.\<close>

definition betterNode :: "NodeDescriptor \<Rightarrow> NodeDescriptor \<Rightarrow> (string \<rightharpoonup> peerHealth) \<Rightarrow> bool" where
  "betterNode a b health =
     (let oka = health (nd_PeerID a) \<noteq> None; okb = health (nd_PeerID b) \<noteq> None;
          ha = (case health (nd_PeerID a) of None \<Rightarrow> zeroHealth | Some h \<Rightarrow> h);
          hb = (case health (nd_PeerID b) of None \<Rightarrow> zeroHealth | Some h \<Rightarrow> h)
      in if oka \<and> okb \<and> SmoothedRTT ha > 0 \<and> SmoothedRTT hb > 0 \<and> SmoothedRTT ha \<noteq> SmoothedRTT hb
         then SmoothedRTT ha < SmoothedRTT hb
         else if oka \<and> okb \<and> SmoothedRTT ha > 0 \<and> SmoothedRTT hb = 0 then True
         else if oka \<and> okb \<and> SmoothedRTT ha = 0 \<and> SmoothedRTT hb > 0 then False
         else if oka \<and> \<not> okb then True
         else if \<not> oka \<and> okb then False
         else if SuccessCount ha \<noteq> SuccessCount hb then SuccessCount ha > SuccessCount hb
         else if ConsecutiveFailures ha \<noteq> ConsecutiveFailures hb
         then ConsecutiveFailures ha < ConsecutiveFailures hb
         else if LastSuccess ha \<noteq> LastSuccess hb then LastSuccess ha > LastSuccess hb
         else nd_PeerID a < nd_PeerID b)"

text \<open>\<open>sort.SliceStable\<close>\<close>

fun insertStable :: "('a \<Rightarrow> 'a \<Rightarrow> bool) \<Rightarrow> 'a \<Rightarrow> 'a list \<Rightarrow> 'a list" where
  "insertStable lt x [] = [x]"
| "insertStable lt x (y # ys) = (if lt y x then y # insertStable lt x ys else x # y # ys)"

definition sliceStable :: "('a \<Rightarrow> 'a \<Rightarrow> bool) \<Rightarrow> 'a list \<Rightarrow> 'a list" where
  "sliceStable lt xs = foldr (insertStable lt) xs []"

definition isCooling :: "PathSelector \<Rightarrow> time \<Rightarrow> NodeDescriptor \<Rightarrow> bool" where
  "isCooling p now n =
     (case ps_peerHealth p (nd_PeerID n) of None \<Rightarrow> False | Some st \<Rightarrow> CooldownUntil st > now)"

definition rankNodes :: "PathSelector \<Rightarrow> time \<Rightarrow> NodeDescriptor list \<Rightarrow> NodeDescriptor list" where
  "rankNodes p now nodes =
     (if length nodes \<le> 1 then nodes
      else let health = ps_peerHealth p |` (nd_PeerID ` set nodes);
               lt = (\<lambda>a b. betterNode a b health);
               available = sliceStable lt (filter (\<lambda>n. \<not> isCooling p now n) nodes);
               cooled = sliceStable lt (filter (isCooling p now) nodes)
           in available @ cooled)"

section \<open>Selection\<close>

record choices =
  ch_relays :: "string list"
  ch_exits :: "string list"
  ch_countries :: "string list"
  ch_now :: time

definition filterRelaysExcluding :: "choices \<Rightarrow> PathSelector \<Rightarrow> string list \<Rightarrow> NodeDescriptor list" where
  "filterRelaysExcluding ch p exclude =
     rankNodes p (ch_now ch)
       (filter (\<lambda>n. \<not> (nd_PeerID n = ps_localPeer p \<or> nd_PeerID n \<in> set exclude))
         (ListRelays (ch_relays ch) (ps_store p)))"

definition filterExitsExcluding :: "choices \<Rightarrow> PathSelector \<Rightarrow> string list \<Rightarrow> NodeDescriptor list" where
  "filterExitsExcluding ch p exclude =
     rankNodes p (ch_now ch)
       (filter (\<lambda>n. \<not> (\<not> AllowSelfExit (ps_routePolicy p) \<and> nd_PeerID n = ps_localPeer p) \<and>
                     nd_PeerID n \<notin> set exclude)
         (ListExits (ch_exits ch) (ps_store p)))"

text \<open>The call of \<open>applyExitSelection\<close>, with the country function it is given.\<close>

definition selectExits ::
  "multiaddr \<Rightarrow> choices \<Rightarrow> PathSelector \<Rightarrow> string list \<Rightarrow> ExitSelectionConfig \<Rightarrow> NodeDescriptor list" where
  "selectExits ma ch p exclude cfg =
     applyExitSelection (ch_countries ch) (filterExitsExcluding ch p exclude) (Some cfg) (ps_localPeer p)
       (AllowSelfExit (ps_routePolicy p)) exclude
       (if ps_geoIP p \<noteq> None \<or> ps_peerAddrsProvider p \<noteq> None
        then Some (EffectiveCountryForDescriptor ma p) else None)"

definition fallbackConfig :: "ExitSelectionConfig \<Rightarrow> ExitSelectionConfig" where
  "fallbackConfig cfg = cfg\<lparr>es_Mode := ExitSelectionAuto, es_AllowedCountries := [],
     es_PreferredCountries := [], es_FixedExitPeerID := [], es_FallbackToAny := False\<rparr>"

definition filterExitsWithSelection ::
  "multiaddr \<Rightarrow> choices \<Rightarrow> PathSelector \<Rightarrow> string list \<Rightarrow> NodeDescriptor list result" where
  "filterExitsWithSelection ma ch p exclude =
     (case ps_exitSelection p of
        None \<Rightarrow> Inr (filterExitsExcluding ch p exclude)
      | Some cfg \<Rightarrow>
          let candidates = selectExits ma ch p exclude cfg
          in if candidates \<noteq> [] then
               (if length (nd_PeerID (hd candidates)) < 12 then Inl Panic else Inr candidates)
             else if es_FallbackToAny cfg \<and> es_Mode cfg \<noteq> ExitSelectionAuto then
               (let candidates = selectExits ma ch p exclude (fallbackConfig cfg)
                in if candidates \<noteq> [] then Inr candidates
                   else Inl (Errorf ''no exit nodes match selection''))
             else Inl (Errorf ''no exit nodes match selection''))"

definition directExit :: "NodeDescriptor \<Rightarrow> PathPlan" where
  "directExit exit =
     \<lparr>pp_Hops = [\<lparr>ph_PeerID = nd_PeerID exit, ph_IsRelay = False, ph_IsExit = True\<rparr>], pp_ExitHopIndex = 0\<rparr>"

definition relayExit :: "NodeDescriptor \<Rightarrow> NodeDescriptor \<Rightarrow> PathPlan" where
  "relayExit relay exit =
     \<lparr>pp_Hops = [\<lparr>ph_PeerID = nd_PeerID relay, ph_IsRelay = True, ph_IsExit = False\<rparr>,
                 \<lparr>ph_PeerID = nd_PeerID exit, ph_IsRelay = False, ph_IsExit = True\<rparr>],
      pp_ExitHopIndex = 1\<rparr>"

text \<open>The nested loops over relays and exits: the first pair of different nodes.\<close>

fun firstPair :: "NodeDescriptor list \<Rightarrow> NodeDescriptor list \<Rightarrow> PathPlan option" where
  "firstPair [] exits = None"
| "firstPair (relay # relays) exits =
     (case find (\<lambda>exit. nd_PeerID relay \<noteq> nd_PeerID exit) exits of
        Some exit \<Rightarrow> Some (relayExit relay exit)
      | None \<Rightarrow> firstPair relays exits)"

definition allowDirect :: "PathSelector \<Rightarrow> bool" where
  "allowDirect p = (case ps_exitSelection p of None \<Rightarrow> True | Some cfg \<Rightarrow> es_AllowDirectExit cfg)"

definition selectRelayExitOrDirect :: "NodeDescriptor list \<Rightarrow> NodeDescriptor list \<Rightarrow> PathPlan result" where
  "selectRelayExitOrDirect relays exits =
     (if exits \<noteq> [] then Inr (directExit (hd exits))
      else case firstPair relays exits of
        Some plan \<Rightarrow> Inr plan
      | None \<Rightarrow> Inl (Errorf ''no exit nodes available''))"

definition SelectRawTunnelPathExcluding ::
  "multiaddr \<Rightarrow> choices \<Rightarrow> PathSelector \<Rightarrow> string list \<Rightarrow> PathPlan result" where
  "SelectRawTunnelPathExcluding ma ch p exclude =
     res_bind (filterExitsWithSelection ma ch p exclude) (\<lambda>exits.
       if exits = [] then Inl (Errorf ''no exit nodes available'')
       else case firstPair (filterRelaysExcluding ch p exclude) exits of
         Some plan \<Rightarrow> Inr plan
       | None \<Rightarrow> if allowDirect p then Inr (directExit (hd exits))
                 else Inl (Errorf ''no relay+exit path available''))"

definition SelectPathForPoolExcluding ::
  "multiaddr \<Rightarrow> choices \<Rightarrow> PathSelector \<Rightarrow> PoolKind \<Rightarrow> string list \<Rightarrow> PathPlan result" where
  "SelectPathForPoolExcluding ma ch p kind exclude =
     res_bind (filterExitsWithSelection ma ch p exclude) (\<lambda>exits.
       let relays = filterRelaysExcluding ch p exclude;
           viaRelay = (case firstPair relays exits of
                         Some plan \<Rightarrow> Inr plan
                       | None \<Rightarrow> Inl (Errorf ''no relay+exit path available''))
       in if exits = [] then Inl (Errorf ''no exit nodes available'')
          else if \<not> allowDirect p \<and> relays = [] then Inl (Errorf ''no relay nodes available (allow_direct_exit is false)'')
          else if kind = PoolLowLatency then
            (if allowDirect p then Inr (directExit (hd exits)) else viaRelay)
          else if kind = PoolAnonymous \<or> kind = PoolCountry then
            (if allowDirect p then Inr (directExit (hd exits)) else viaRelay)
          else
            res_bind (selectRelayExitOrDirect relays exits) (\<lambda>plan.
              if \<not> allowDirect p \<and> length (pp_Hops plan) = 1 then viaRelay else Inr plan))"

definition SelectPathForPool :: "multiaddr \<Rightarrow> choices \<Rightarrow> PathSelector \<Rightarrow> PoolKind \<Rightarrow> PathPlan result" where
  "SelectPathForPool ma ch p kind = SelectPathForPoolExcluding ma ch p kind []"

definition SelectBestPath :: "multiaddr \<Rightarrow> choices \<Rightarrow> PathSelector \<Rightarrow> PathPlan result" where
  "SelectBestPath ma ch p = SelectPathForPool ma ch p PoolAnonymous"

definition ListExitCandidates :: "multiaddr \<Rightarrow> choices \<Rightarrow> PathSelector \<Rightarrow> NodeDescriptor list result" where
  "ListExitCandidates ma ch p = filterExitsWithSelection ma ch p []"

fun debugHops :: "nat \<Rightarrow> PathHop list \<Rightarrow> string" where
  "debugHops i [] = []"
| "debugHops i (hop # hops) =
     (if i > 0 then '' -> '' else []) @ ph_PeerID hop @ ''('' @ (if ph_IsExit hop then ''exit'' else ''relay'') @ '')''
       @ debugHops (Suc i) hops"

definition DebugString :: "PathPlan \<Rightarrow> string" where
  "DebugString plan = debugHops 0 (pp_Hops plan)"

section \<open>The ranking is a linear order\<close>

text \<open>
  What \<open>betterNode\<close> compares, as one key in the lexicographic order of the library: nodes
  with a history first, those with a measured round trip time first and by that time, then
  by successes, failures, last success and peer ID.
\<close>

type_synonym nodeKey = "bool \<times> bool \<times> int \<times> int \<times> int \<times> int \<times> string"

definition nodeKey :: "(string \<rightharpoonup> peerHealth) \<Rightarrow> NodeDescriptor \<Rightarrow> nodeKey" where
  "nodeKey health n =
     (let h = (case health (nd_PeerID n) of None \<Rightarrow> zeroHealth | Some h \<Rightarrow> h)
      in (health (nd_PeerID n) = None, SmoothedRTT h = 0, SmoothedRTT h, - SuccessCount h,
          ConsecutiveFailures h, - LastSuccess h, nd_PeerID n))"

definition health_ok :: "(string \<rightharpoonup> peerHealth) \<Rightarrow> bool" where
  "health_ok health \<longleftrightarrow> (\<forall>h\<in>ran health. 0 \<le> SmoothedRTT h)"

lemma betterNode_iff:
  assumes "health_ok health"
  shows "betterNode a b health \<longleftrightarrow> nodeKey health a < nodeKey health b"
proof -
  have nn: "0 \<le> SmoothedRTT h" if "health k = Some h" for k h
    using assms that by (auto simp: health_ok_def ran_def)
  show ?thesis
  proof (cases "health (nd_PeerID a)"; cases "health (nd_PeerID b)")
    fix ha hb assume h: "health (nd_PeerID a) = Some ha" "health (nd_PeerID b) = Some hb"
    show ?thesis
      using nn [OF h(1)] nn [OF h(2)] h
      by (cases "SmoothedRTT ha = 0"; cases "SmoothedRTT hb = 0")
         (auto simp: betterNode_def nodeKey_def less_prod_def' Let_def)
  qed (auto simp: betterNode_def nodeKey_def less_prod_def' Let_def zeroHealth_def)
qed

lemma sliceStable_sort_key:
  assumes "\<And>a b. lt a b \<longleftrightarrow> f a < f b"
  shows "sliceStable lt xs = sort_key f xs"
proof -
  have "insertStable lt x ys = insort_key f x ys" for x ys
    by (induction ys) (auto simp: assms)
  then have "foldr (insertStable lt) xs [] = foldr (insort_key f) xs []" for xs
    by (induction xs) auto
  then show ?thesis by (simp add: sliceStable_def sort_key_def)
qed

lemma health_ok_restrict: "health_ok h \<Longrightarrow> health_ok (h |` A)"
  by (auto simp: health_ok_def ran_def restrict_map_def)

lemma rankNodes_eq:
  assumes "health_ok (ps_peerHealth p)"
  defines "key \<equiv> nodeKey (ps_peerHealth p)"
  shows "rankNodes p now ns =
     sort_key key (filter (\<lambda>n. \<not> isCooling p now n) ns) @ sort_key key (filter (isCooling p now) ns)"
proof (cases "length ns \<le> 1")
  case True
  then show ?thesis by (cases ns) (auto simp: rankNodes_def)
next
  case False
  let ?h = "ps_peerHealth p |` (nd_PeerID ` set ns)"
  have s: "sliceStable (\<lambda>a b. betterNode a b ?h) xs = sort_key (nodeKey ?h) xs" for xs
    by (rule sliceStable_sort_key) (rule betterNode_iff [OF health_ok_restrict [OF assms(1)]])
  have k: "sort_key (nodeKey ?h) xs = sort_key key xs" if "set xs \<subseteq> set ns" for xs
  proof -
    have "insort_key (nodeKey ?h) x ys = insort_key key x ys" if "x \<in> set ns" "set ys \<subseteq> set ns" for x ys
      using that by (induction ys) (auto simp: key_def nodeKey_def)
    then have "foldr (insort_key (nodeKey ?h)) xs [] = foldr (insort_key key) xs []
        \<and> set (foldr (insort_key key) xs []) \<subseteq> set ns"
      using that by (induction xs) (auto simp: set_insort_key)
    then show ?thesis by (simp add: sort_key_def)
  qed
  show ?thesis using False by (simp add: rankNodes_def s k Let_def)
qed

lemma set_sliceStable: "set (sliceStable lt xs) = set xs"
proof -
  have "set (insertStable lt x ys) = insert x (set ys)" for x ys by (induction ys) auto
  then have "set (foldr (insertStable lt) xs []) = set xs" for xs by (induction xs) auto
  then show ?thesis by (simp add: sliceStable_def)
qed

lemma set_rankNodes: "set (rankNodes p now ns) = set ns"
  by (auto simp: rankNodes_def set_sliceStable Let_def)

lemma bitWidth_0 [simp]: "bitWidth 0 = 0" by (simp add: bitWidth.simps)

lemma smoothRTT_nonneg: "0 \<le> smoothRTT old rtt"
  by (simp add: smoothRTT_def Let_def)

text \<open>Reports keep the round trip times non-negative.\<close>

lemma health_ok_updateHop:
  assumes "health_ok (ps_peerHealth p)" and "\<And>st. 0 \<le> SmoothedRTT st \<Longrightarrow> 0 \<le> SmoothedRTT (f st)"
  shows "health_ok (ps_peerHealth (updateHop f p hop))"
proof -
  have "0 \<le> SmoothedRTT (healthOf p k)" for k
    using assms(1) by (auto simp: healthOf_def health_ok_def ran_def zeroHealth_def split: option.splits)
  then show ?thesis using assms by (auto simp: updateHop_def health_ok_def ran_def)
qed

lemma health_ok_foldl_updateHop:
  "health_ok (ps_peerHealth p) \<Longrightarrow> (\<And>st. 0 \<le> SmoothedRTT st \<Longrightarrow> 0 \<le> SmoothedRTT (f st)) \<Longrightarrow>
   health_ok (ps_peerHealth (foldl (updateHop f) p hops))"
  by (induction hops arbitrary: p) (auto intro: health_ok_updateHop)

lemma health_ok_reports:
  assumes "health_ok (ps_peerHealth p)"
  shows "health_ok (ps_peerHealth (ReportPathRTT plan rtt p))"
    and "health_ok (ps_peerHealth (ReportPathSuccess plan now p))"
    and "health_ok (ps_peerHealth (ReportPathFailure plan now p))"
  using assms by (auto simp: ReportPathRTT_def ReportPathSuccess_def ReportPathFailure_def reportPath_def
      reportSuccess_def reportFailure_def Let_def smoothRTT_nonneg intro!: health_ok_foldl_updateHop)

section \<open>Where the hops of a plan come from\<close>

lemma ListRelays_in: "n \<in> set (ListRelays order s) \<Longrightarrow> nd_Relay n \<and> (\<exists>k. ds_Get s k = Some n)"
  by (auto simp: ListRelays_def map_filter_def ds_Get_def)

lemma ListExits_in: "n \<in> set (ListExits order s) \<Longrightarrow> nd_Exit n \<and> (\<exists>k. ds_Get s k = Some n)"
  by (auto simp: ListExits_def map_filter_def ds_Get_def)

lemma relay_candidates:
  "n \<in> set (filterRelaysExcluding ch p exclude) \<Longrightarrow>
   nd_Relay n \<and> (\<exists>k. ds_Get (ps_store p) k = Some n) \<and> nd_PeerID n \<noteq> ps_localPeer p \<and> nd_PeerID n \<notin> set exclude"
  by (auto simp: filterRelaysExcluding_def set_rankNodes dest: ListRelays_in)

lemma base_candidates:
  "n \<in> set (filterExitsExcluding ch p exclude) \<Longrightarrow>
   nd_Exit n \<and> (\<exists>k. ds_Get (ps_store p) k = Some n) \<and> nd_PeerID n \<notin> set exclude \<and>
   (AllowSelfExit (ps_routePolicy p) \<or> nd_PeerID n \<noteq> ps_localPeer p)"
  by (auto simp: filterExitsExcluding_def set_rankNodes dest: ListExits_in)

lemma fallbackConfig_ExcludePeerIDs [simp]: "es_ExcludePeerIDs (fallbackConfig cfg) = es_ExcludePeerIDs cfg"
  by (simp add: fallbackConfig_def)

lemma filterExitsWithSelection_Inr:
  assumes "filterExitsWithSelection ma ch p exclude = Inr exits"
  shows "ps_exitSelection p = None \<and> exits = filterExitsExcluding ch p exclude \<or>
    (\<exists>cfg. ps_exitSelection p = Some cfg \<and>
       (exits = selectExits ma ch p exclude cfg \<or> exits = selectExits ma ch p exclude (fallbackConfig cfg)))"
  using assms
  by (auto simp: filterExitsWithSelection_def Let_def split: option.splits if_splits)

lemma selectExits_in:
  "n \<in> set (selectExits ma ch p exclude c) \<Longrightarrow>
   n \<in> set (filterExitsExcluding ch p exclude) \<and> nd_PeerID n \<notin> set (es_ExcludePeerIDs c)"
  unfolding selectExits_def by (drule set_applyExitSelection) (simp add: exitKept_def)

lemma exit_candidates:
  assumes "filterExitsWithSelection ma ch p exclude = Inr exits" and "n \<in> set exits"
  shows "n \<in> set (filterExitsExcluding ch p exclude)"
    and "ps_exitSelection p = Some cfg \<Longrightarrow> nd_PeerID n \<notin> set (es_ExcludePeerIDs cfg)"
  using filterExitsWithSelection_Inr [OF assms(1)] assms(2)
  by (auto dest: selectExits_in)

lemma firstPair_Some:
  "firstPair relays exits = Some plan \<Longrightarrow>
   \<exists>relay\<in>set relays. \<exists>exit\<in>set exits. nd_PeerID relay \<noteq> nd_PeerID exit \<and> plan = relayExit relay exit"
  by (induction relays) (auto simp: find_Some_iff split: option.splits)

lemma firstPair_None:
  "firstPair relays exits = None \<longleftrightarrow> (\<forall>relay\<in>set relays. \<forall>exit\<in>set exits. nd_PeerID relay = nd_PeerID exit)"
  by (induction relays) (auto simp: find_None_iff find_Some_iff split: option.splits)

text \<open>A plan over the given candidates: one exit, or a relay and a different exit.\<close>

definition planOver :: "NodeDescriptor list \<Rightarrow> NodeDescriptor list \<Rightarrow> PathPlan \<Rightarrow> bool" where
  "planOver relays exits plan \<longleftrightarrow>
     (\<exists>exit\<in>set exits. plan = directExit exit) \<or>
     (\<exists>relay\<in>set relays. \<exists>exit\<in>set exits. nd_PeerID relay \<noteq> nd_PeerID exit \<and> plan = relayExit relay exit)"

lemma SelectPathForPoolExcluding_planOver:
  assumes "SelectPathForPoolExcluding ma ch p kind exclude = Inr plan"
  obtains exits where "filterExitsWithSelection ma ch p exclude = Inr exits"
    and "planOver (filterRelaysExcluding ch p exclude) exits plan"
    and "allowDirect p \<or> length (pp_Hops plan) = 2"
proof -
  obtain exits where e: "filterExitsWithSelection ma ch p exclude = Inr exits"
    using assms by (auto simp: SelectPathForPoolExcluding_def res_bind_eq_Inr)
  let ?relays = "filterRelaysExcluding ch p exclude"
  have "exits \<noteq> [] \<and> (plan = directExit (hd exits) \<and> allowDirect p \<or> firstPair ?relays exits = Some plan)"
    using assms e by (auto simp: SelectPathForPoolExcluding_def selectRelayExitOrDirect_def Let_def directExit_def
        split: option.splits if_splits)
  then have "planOver ?relays exits plan \<and> (allowDirect p \<or> length (pp_Hops plan) = 2)"
    by (auto simp: planOver_def dest!: firstPair_Some) (auto simp: relayExit_def)
  then show thesis using that e by blast
qed

section \<open>Properties\<close>


lemma nodeKey_distinct: "distinct (map nd_PeerID ns) \<Longrightarrow> distinct (map (nodeKey h) ns)"
  by (induction ns) (auto simp: nodeKey_def Let_def)

lemma nodeKey_inj: "distinct (map nd_PeerID ns) \<Longrightarrow> inj_on (nodeKey h) (set ns)"
  using nodeKey_distinct distinct_map by blast

lemma sort_key_unique:
  assumes "distinct (map nd_PeerID xs)" and "mset xs = mset ys"
  shows "sort_key (nodeKey h) xs = sort_key (nodeKey h) ys"
proof -
  have s: "set xs = set ys" using assms(2) by (rule mset_eq_setD)
  have d: "distinct (map nd_PeerID ys)" using assms by (metis mset_eq_imp_distinct_iff mset_map)
  show ?thesis
  proof (rule map_sorted_distinct_set_unique [of "nodeKey h"])
    show "inj_on (nodeKey h) (set (sort_key (nodeKey h) xs) \<union> set (sort_key (nodeKey h) ys))"
      using nodeKey_inj [OF assms(1)] s by simp
    show "distinct (map (nodeKey h) (sort_key (nodeKey h) xs))" "distinct (map (nodeKey h) (sort_key (nodeKey h) ys))"
      using nodeKey_distinct [OF assms(1), of h] nodeKey_distinct [OF d, of h] nodeKey_inj [OF assms(1)] nodeKey_inj [OF d]
      by (auto simp: distinct_map)
  qed (use s in simp_all)
qed

text \<open>
  The ranking does not depend on the order of the candidates: as long as their peer IDs
  differ, every permutation of the list (the order in which Go iterates the cache is random)
  is ranked into the same list.
\<close>

theorem ranking_ignores_order:
  assumes "health_ok (ps_peerHealth p)" and "distinct (map nd_PeerID ns)" and "mset ns = mset ns'"
  shows "rankNodes p now ns = rankNodes p now ns'"
proof -
  have "sort_key (nodeKey h) (filter P ns) = sort_key (nodeKey h) (filter P ns')" for P h
    by (rule sort_key_unique) (use assms(2,3) in \<open>auto simp: distinct_map_filter\<close>)
  then show ?thesis by (simp add: rankNodes_eq [OF assms(1)])
qed

lemma backoff_eq:
  "0 < c \<Longrightarrow> c \<le> peerFailureCooldownMax \<Longrightarrow> backoff n c = min (c * 2 ^ n) peerFailureCooldownMax"
proof (induction n arbitrary: c)
  case (Suc n)
  show ?case
  proof (cases "c * 2 \<ge> peerFailureCooldownMax")
    case True
    have "c * 2 * 1 \<le> c * 2 * 2 ^ n" using Suc.prems(1) by (intro mult_left_mono) auto
    then show ?thesis using True by (simp add: min_def mult.assoc)
  next
    case False
    then show ?thesis using Suc.IH [of "c * 2"] Suc.prems by (simp add: mult.assoc)
  qed
qed simp

lemma failures_count:
  "ConsecutiveFailures (foldl (\<lambda>st t. reportFailure t st) st ts) = ConsecutiveFailures st + int (length ts)"
  by (induction ts arbitrary: st) (auto simp: reportFailure_def Let_def)

text \<open>
  The cooldown of a failing peer is the base of 15 seconds doubled with every further
  consecutive failure, up to four minutes, counted from the last failure; one success clears
  both the count and the cooldown.
\<close>

theorem cooldown_doubles_up_to_limit:
  assumes "ConsecutiveFailures st = 0"
  shows "CooldownUntil (foldl (\<lambda>st t. reportFailure t st) st (ts @ [t]))
      = t + min (15 * second * 2 ^ length ts) (4 * minute) \<and>
    ConsecutiveFailures (reportSuccess t' (foldl (\<lambda>st t. reportFailure t st) st ts)) = 0 \<and>
    CooldownUntil (reportSuccess t' (foldl (\<lambda>st t. reportFailure t st) st ts)) = 0"
proof -
  have "backoff (length ts) peerFailureCooldownBase = min (15 * second * 2 ^ length ts) (4 * minute)"
    by (subst backoff_eq) (simp_all add: peerFailureCooldownBase_def peerFailureCooldownMax_def second_def minute_def)
  then show ?thesis
    using assms by (simp add: reportFailure_def [of t] reportSuccess_def failures_count Let_def)
qed

theorem cooldown_doubles_up_to_limit_witness:
  "CooldownUntil (foldl (\<lambda>st t. reportFailure t st) zeroHealth ([1, 2] @ [3])) = 3 + 60 * second"
  using cooldown_doubles_up_to_limit [of zeroHealth "[1, 2]" 3] by (simp add: zeroHealth_def second_def minute_def)

lemma backoff_ge: "0 < c \<Longrightarrow> c \<le> peerFailureCooldownMax \<Longrightarrow> c \<le> backoff n c"
  by (simp add: backoff_eq mult_le_cancel_left1)

lemma failed_hop_cools:
  assumes "ph_PeerID hop \<in> ph_PeerID ` set hops" and "ph_PeerID hop \<noteq> []"
    and "now < t + peerFailureCooldownBase"
  shows "\<exists>st. ps_peerHealth (foldl (updateHop (reportFailure t)) p hops) (ph_PeerID hop) = Some st \<and> CooldownUntil st > now"
  using assms(1)
proof (induction hops rule: rev_induct)
  case (snoc h hops)
  have "t + peerFailureCooldownBase \<le> CooldownUntil (reportFailure t st)" for st
    using backoff_ge [of peerFailureCooldownBase]
    by (simp add: reportFailure_def Let_def peerFailureCooldownBase_def peerFailureCooldownMax_def second_def minute_def)
  then have c: "now < CooldownUntil (reportFailure t st)" for st using assms(3) by (rule order.strict_trans2 [rotated])
  show ?case
  proof (cases "ph_PeerID h = ph_PeerID hop")
    case True
    then show ?thesis using assms(2) c by (simp add: updateHop_def)
  next
    case False
    then have "ph_PeerID hop \<in> ph_PeerID ` set hops" using snoc.prems by auto
    then show ?thesis using snoc.IH False by (simp add: updateHop_def)
  qed
qed simp

text \<open>
  After a path failed, its hops are kept away from selection for at least 15 seconds:
  in every ranking during that time they come after all candidates that are not cooling down.
\<close>

theorem failed_path_ranked_last:
  assumes "health_ok (ps_peerHealth p)" and "now < t + 15 * second"
  shows "\<exists>available cooled. rankNodes (ReportPathFailure plan t p) now ns = available @ cooled \<and>
     (\<forall>n\<in>set ns. nd_PeerID n \<noteq> [] \<and> nd_PeerID n \<in> ph_PeerID ` set (pp_Hops plan) \<longrightarrow> n \<notin> set available) \<and>
     (\<forall>n\<in>set cooled. isCooling (ReportPathFailure plan t p) now n)"
proof -
  let ?p = "ReportPathFailure plan t p"
  have "isCooling ?p now n" if "nd_PeerID n \<noteq> []" "nd_PeerID n \<in> ph_PeerID ` set (pp_Hops plan)" for n
    using failed_hop_cools [of "\<lparr>ph_PeerID = nd_PeerID n, ph_IsRelay = False, ph_IsExit = False\<rparr>" "pp_Hops plan" now t p]
      that assms(2)
    by (auto simp: isCooling_def ReportPathFailure_def reportPath_def peerFailureCooldownBase_def)
  then show ?thesis
    unfolding rankNodes_eq [OF health_ok_reports(3) [OF assms(1)]]
    by (intro exI [of _ "sort_key (nodeKey (ps_peerHealth ?p)) (filter (\<lambda>n. \<not> isCooling ?p now n) ns)"]
          exI [of _ "sort_key (nodeKey (ps_peerHealth ?p)) (filter (isCooling ?p now) ns)"]) auto
qed

definition demo_selector :: PathSelector where
  "demo_selector = NewPathSelector
     (foldl ds_Upsert NewStore [demo_exit ''peer-exit-01'' ''SG'', demo_exit ''peer-exit-02'' ''JP''])
     ''me'' DefaultRoutePolicy"

definition demo_choices :: choices where
  "demo_choices = \<lparr>ch_relays = [''peer-exit-02'', ''peer-exit-01''], ch_exits = [''peer-exit-01'', ''peer-exit-02''],
     ch_countries = [], ch_now = 5\<rparr>"

lemma demo_health_ok: "health_ok (ps_peerHealth demo_selector)"
  by (simp add: demo_selector_def NewPathSelector_def health_ok_def)

theorem failed_path_ranked_last_witness:
  "\<exists>available cooled. rankNodes (ReportPathFailure (directExit (demo_exit ''x'' ''SG'')) 1 demo_selector) 2
       [demo_exit ''x'' ''SG'', demo_exit ''y'' ''SG''] = available @ cooled \<and> demo_exit ''x'' ''SG'' \<notin> set available"
  using failed_path_ranked_last [OF demo_health_ok, of 2 1 "directExit (demo_exit ''x'' ''SG'')"
      "[demo_exit ''x'' ''SG'', demo_exit ''y'' ''SG'']"]
  by (auto simp: directExit_def demo_exit_def second_def)

theorem ranking_ignores_order_witness:
  "rankNodes demo_selector 5 [demo_exit ''x'' ''SG'', demo_exit ''y'' ''SG''] =
   rankNodes demo_selector 5 [demo_exit ''y'' ''SG'', demo_exit ''x'' ''SG'']"
  by (rule ranking_ignores_order [OF demo_health_ok]) (simp_all add: demo_exit_def)

text \<open>
  With direct exits allowed, which is the default, the pool of anonymous circuits gets
  one-hop paths: the plan is the best exit alone, although relays may be available.
\<close>

theorem anonymous_pool_goes_direct:
  assumes "allowDirect p" and "filterExitsWithSelection ma ch p exclude = Inr (exit # exits)"
  shows "SelectPathForPoolExcluding ma ch p PoolAnonymous exclude = Inr (directExit exit)"
  using assms by (simp add: SelectPathForPoolExcluding_def Let_def)

lemma demo_exits: "filterExitsWithSelection ma demo_choices demo_selector [] =
    Inr [demo_exit ''peer-exit-01'' ''SG'', demo_exit ''peer-exit-02'' ''JP'']"
proof -
  have "map nd_PeerID [demo_exit ''peer-exit-01'' ''SG'', demo_exit ''peer-exit-02'' ''JP''] =
      [''peer-exit-01'', ''peer-exit-02'']" by (simp add: demo_exit_def)
  moreover have "filterExitsExcluding demo_choices demo_selector [] =
      [demo_exit ''peer-exit-01'' ''SG'', demo_exit ''peer-exit-02'' ''JP'']" by code_simp
  ultimately show ?thesis by (simp add: filterExitsWithSelection_def demo_selector_def NewPathSelector_def)
qed

theorem anonymous_pool_goes_direct_witness:
  "SelectPathForPoolExcluding (\<lambda>_. None) demo_choices demo_selector PoolAnonymous [] =
     Inr (directExit (demo_exit ''peer-exit-01'' ''SG''))"
  by (rule anonymous_pool_goes_direct [OF _ demo_exits])
     (simp add: allowDirect_def demo_selector_def NewPathSelector_def)


text \<open>
  The raw tunnel prefers a relay: it takes a relayed path exactly when some relay
  candidate differs from some exit candidate, and otherwise falls back to the best exit, if
  direct exits are allowed, or reports an error.
\<close>

theorem raw_tunnel_prefers_relay:
  assumes "filterExitsWithSelection ma ch p exclude = Inr exits" and "exits \<noteq> []"
  defines "relays \<equiv> filterRelaysExcluding ch p exclude"
  shows "case SelectRawTunnelPathExcluding ma ch p exclude of
     Inr plan \<Rightarrow> (if \<exists>r\<in>set relays. \<exists>e\<in>set exits. nd_PeerID r \<noteq> nd_PeerID e
                  then \<exists>r\<in>set relays. \<exists>e\<in>set exits. nd_PeerID r \<noteq> nd_PeerID e \<and> plan = relayExit r e
                  else plan = directExit (hd exits) \<and> allowDirect p)
   | Inl err \<Rightarrow> \<not> allowDirect p \<and> (\<forall>r\<in>set relays. \<forall>e\<in>set exits. nd_PeerID r = nd_PeerID e)"
proof (cases "firstPair relays exits")
  case None
  then have "SelectRawTunnelPathExcluding ma ch p exclude =
      (if allowDirect p then Inr (directExit (hd exits)) else Inl (Errorf ''no relay+exit path available''))"
    using assms(1,2) by (simp add: SelectRawTunnelPathExcluding_def relays_def)
  then show ?thesis using None by (auto simp: firstPair_None)
next
  case (Some plan)
  then have "SelectRawTunnelPathExcluding ma ch p exclude = Inr plan"
    using assms(1,2) by (simp add: SelectRawTunnelPathExcluding_def relays_def)
  then show ?thesis using firstPair_Some [OF Some] by auto
qed

theorem raw_tunnel_prefers_relay_witness:
  "\<exists>plan. SelectRawTunnelPathExcluding (\<lambda>_. None) demo_choices demo_selector [] = Inr plan \<and> length (pp_Hops plan) = 2"
proof -
  let ?ns = "[demo_exit ''peer-exit-01'' ''SG'', demo_exit ''peer-exit-02'' ''JP'']"
  have r: "filterRelaysExcluding demo_choices demo_selector [] = ?ns" by code_simp
  have d: "allowDirect demo_selector" by (simp add: allowDirect_def demo_selector_def NewPathSelector_def)
  have c: "\<exists>r\<in>set ?ns. \<exists>e\<in>set ?ns. nd_PeerID r \<noteq> nd_PeerID e" by (auto simp: demo_exit_def)
  note t = raw_tunnel_prefers_relay [OF demo_exits, of "\<lambda>_. None", unfolded r, OF list.distinct(2)]
  show ?thesis
  proof (cases "SelectRawTunnelPathExcluding (\<lambda>_. None) demo_choices demo_selector []")
    case (Inr plan)
    then have "\<exists>r e. plan = relayExit r e" using t c by (simp del: set_simps) blast
    then show ?thesis using Inr by (auto simp: relayExit_def)
  qed (use t d in simp)
qed

end
