(* ===== verification/Go_HostPort.thy ===== *)
theory Go_HostPort
  imports Go_Net
begin

text \<open>
  \<open>net.SplitHostPort\<close> and \<open>net.JoinHostPort\<close> of the Go library, with their error cases,
  and that splitting undoes joining.
\<close>

definition indexByte :: "char \<Rightarrow> string \<Rightarrow> nat option" where
  "indexByte c s = (if c \<in> set s then Some (length (takeWhile (\<lambda>x. x \<noteq> c) s)) else None)"

definition lastIndexByte :: "char \<Rightarrow> string \<Rightarrow> nat option" where
  "lastIndexByte c s =
     (if c \<in> set s then Some (length s - 1 - length (takeWhile (\<lambda>x. x \<noteq> c) (rev s))) else None)"

definition missingPort :: go_error where "missingPort = Errorf ''missing port in address''"
definition tooManyColons :: go_error where "tooManyColons = Errorf ''too many colons in address''"

definition splitTail :: "string \<Rightarrow> nat \<Rightarrow> nat \<Rightarrow> nat \<Rightarrow> string \<Rightarrow> (string \<times> string) result" where
  "splitTail hp i j k host =
     (if CHR ''['' \<in> set (drop j hp) then Inl (Errorf ''unexpected '[' in address'')
      else if CHR '']'' \<in> set (drop k hp) then Inl (Errorf ''unexpected ']' in address'')
      else Inr (host, drop (Suc i) hp))"

definition SplitHostPort :: "string \<Rightarrow> (string \<times> string) result" where
  "SplitHostPort hp =
     (case lastIndexByte CHR '':'' hp of
        None \<Rightarrow> Inl missingPort
      | Some i \<Rightarrow>
          if hd hp = CHR ''['' then
            (case indexByte CHR '']'' hp of
               None \<Rightarrow> Inl (Errorf ''missing ']' in address'')
             | Some e \<Rightarrow>
                 if e + 1 = length hp then Inl missingPort
                 else if e + 1 = i then splitTail hp i 1 (e + 1) (take (e - 1) (drop 1 hp))
                 else if hp ! (e + 1) = CHR '':'' then Inl tooManyColons
                 else Inl missingPort)
          else if CHR '':'' \<in> set (take i hp) then Inl tooManyColons
          else splitTail hp i 0 0 (take i hp))"

definition JoinHostPort :: "string \<Rightarrow> string \<Rightarrow> string" where
  "JoinHostPort host port =
     (if CHR '':'' \<in> set host then ''['' @ host @ '']:'' @ port else host @ '':'' @ port)"

lemma takeWhile_neq_append: "c \<notin> set xs \<Longrightarrow> takeWhile (\<lambda>x. x \<noteq> c) (xs @ c # ys) = xs"
  by (induction xs) auto

lemma lastIndexByte_append:
  "c \<notin> set ys \<Longrightarrow> lastIndexByte c (xs @ c # ys) = Some (length xs)"
  using takeWhile_neq_append [of c "rev ys" "rev xs"] by (simp add: lastIndexByte_def)

lemma indexByte_append: "c \<notin> set xs \<Longrightarrow> indexByte c (xs @ c # ys) = Some (length xs)"
  by (simp add: indexByte_def takeWhile_neq_append)

text \<open>A host without brackets and a port without separators survive the round trip.\<close>

lemma Split_JoinHostPort:
  assumes host: "CHR ''['' \<notin> set host" "CHR '']'' \<notin> set host"
    and port: "CHR '':'' \<notin> set port" "CHR ''['' \<notin> set port" "CHR '']'' \<notin> set port"
  shows "SplitHostPort (JoinHostPort host port) = Inr (host, port)"
proof (cases "CHR '':'' \<in> set host")
  case True
  have l: "lastIndexByte CHR '':'' ((''['' @ host @ '']'') @ CHR '':'' # port) = Some (length host + 2)"
    using lastIndexByte_append [OF port(1), of "''['' @ host @ '']''"] by simp
  have e: "indexByte CHR '']'' ((''['' @ host) @ CHR '']'' # CHR '':'' # port) = Some (length host + 1)"
    using indexByte_append [of "CHR '']''" "''['' @ host" "CHR '':'' # port"] host(2) by simp
  show ?thesis
    using True l e host port by (simp add: JoinHostPort_def SplitHostPort_def splitTail_def)
next
  case False
  have "lastIndexByte CHR '':'' (host @ CHR '':'' # port) = Some (length host)"
    by (rule lastIndexByte_append [OF port(1)])
  moreover have "hd (host @ CHR '':'' # port) \<noteq> CHR ''[''"
    using host(1) by (cases host) auto
  ultimately show ?thesis
    using False host port by (simp add: JoinHostPort_def SplitHostPort_def splitTail_def)
qed

end
