(* ===== verification/Exit_Policy.thy ===== *)
theory Exit_Policy
  imports Go_HostPort Wire
begin

text \<open>
  The exit policy: \<open>internal/exit/policy.go\<close> with the configuration structs it is built
  from, and the three places that run the whole check on a target: \<open>checkBeginPolicy\<close> and
  \<open>checkBeginUDPPolicy\<close> of \<open>exit/service.go\<close> and \<open>checkBeginPolicyLocal\<close> of
  \<open>exit/socks5.go\<close>. A nil \<open>*PolicyChecker\<close> is \<open>None\<close>; the resolver behind
  \<open>net.LookupIP\<close> is the argument \<open>lookupIP\<close>.
\<close>

section \<open>Configuration\<close>

record ExitPolicyConfig =
  AllowTCP :: bool
  AllowUDP :: bool
  RemoteDNS :: bool
  AllowedPorts :: "int list"
  DeniedPorts :: "int list"
  AllowedDomains :: "string list"
  DeniedDomains :: "string list"
  AllowedDomainSuffixes :: "string list"
  DeniedDomainSuffixes :: "string list"
  PeerWhitelist :: "string list"
  PeerBlacklist :: "string list"
  AllowPrivateIPTargets :: bool
  AllowLoopbackTargets :: bool
  AllowLinkLocalTargets :: bool

record ExitRuntimeConfig =
  rt_DrainMode :: bool
  rt_AcceptNewStreams :: bool

record ExitConfig =
  ex_Enabled :: bool
  ex_Policy :: ExitPolicyConfig
  ex_Runtime :: ExitRuntimeConfig

text \<open>The zero values a Go composite literal starts from.\<close>

definition zeroPolicy :: ExitPolicyConfig where
  "zeroPolicy = \<lparr>AllowTCP = False, AllowUDP = False, RemoteDNS = False, AllowedPorts = [],
     DeniedPorts = [], AllowedDomains = [], DeniedDomains = [], AllowedDomainSuffixes = [],
     DeniedDomainSuffixes = [], PeerWhitelist = [], PeerBlacklist = [],
     AllowPrivateIPTargets = False, AllowLoopbackTargets = False, AllowLinkLocalTargets = False\<rparr>"

definition zeroRuntime :: ExitRuntimeConfig where
  "zeroRuntime = \<lparr>rt_DrainMode = False, rt_AcceptNewStreams = False\<rparr>"

section \<open>Reasons\<close>

type_synonym ExitRejectReason = string

definition ExitRejectDisabled :: ExitRejectReason where "ExitRejectDisabled = ''exit_disabled''"
definition ExitRejectDraining :: ExitRejectReason where "ExitRejectDraining = ''exit_draining''"
definition ExitRejectPeerBlacklisted :: ExitRejectReason where
  "ExitRejectPeerBlacklisted = ''peer_blacklisted''"
definition ExitRejectPeerNotWhitelisted :: ExitRejectReason where
  "ExitRejectPeerNotWhitelisted = ''peer_not_whitelisted''"
definition ExitRejectProtocolNotAllowed :: ExitRejectReason where
  "ExitRejectProtocolNotAllowed = ''protocol_not_allowed''"
definition ExitRejectPortDenied :: ExitRejectReason where "ExitRejectPortDenied = ''port_denied''"
definition ExitRejectPortNotAllowed :: ExitRejectReason where
  "ExitRejectPortNotAllowed = ''port_not_allowed''"
definition ExitRejectPrivateTargetDenied :: ExitRejectReason where
  "ExitRejectPrivateTargetDenied = ''private_target_denied''"
definition ExitRejectLoopbackDenied :: ExitRejectReason where
  "ExitRejectLoopbackDenied = ''loopback_target_denied''"
definition ExitRejectLinkLocalDenied :: ExitRejectReason where
  "ExitRejectLinkLocalDenied = ''link_local_target_denied''"
definition ExitRejectDomainDenied :: ExitRejectReason where "ExitRejectDomainDenied = ''domain_denied''"
definition ExitRejectDomainNotAllowed :: ExitRejectReason where
  "ExitRejectDomainNotAllowed = ''domain_not_allowed''"

lemmas reject_defs = ExitRejectDisabled_def ExitRejectDraining_def ExitRejectPeerBlacklisted_def
  ExitRejectPeerNotWhitelisted_def ExitRejectProtocolNotAllowed_def ExitRejectPortDenied_def
  ExitRejectPortNotAllowed_def ExitRejectPrivateTargetDenied_def ExitRejectLoopbackDenied_def
  ExitRejectLinkLocalDenied_def ExitRejectDomainDenied_def ExitRejectDomainNotAllowed_def

section \<open>The checker\<close>

text \<open>A \<open>map[K]bool\<close> that is only written with \<open>true\<close> is a predicate on its keys.\<close>

record PolicyChecker =
  policy :: ExitPolicyConfig
  runtime :: ExitRuntimeConfig
  enabled :: bool
  deniedPortsSet :: "int \<Rightarrow> bool"
  allowedPortsSet :: "int \<Rightarrow> bool"
  deniedDomainsSet :: "string \<Rightarrow> bool"
  allowedDomainsSet :: "string \<Rightarrow> bool"
  peerBlacklistSet :: "string \<Rightarrow> bool"
  peerWhitelistSet :: "string \<Rightarrow> bool"

definition sliceToSetInt :: "int list \<Rightarrow> int \<Rightarrow> bool" where
  "sliceToSetInt s = foldl (\<lambda>m v. m(v := True)) (\<lambda>_. False) s"

definition sliceToSet :: "string list \<Rightarrow> string \<Rightarrow> bool" where
  "sliceToSet s = foldl (\<lambda>m v. m(v := True)) (\<lambda>_. False) s"

definition sliceToSetLower :: "string list \<Rightarrow> string \<Rightarrow> bool" where
  "sliceToSetLower s = foldl (\<lambda>m v. m(toLower (trimSpace v) := True)) (\<lambda>_. False) s"

definition rebuildSets :: "PolicyChecker \<Rightarrow> PolicyChecker" where
  "rebuildSets p = p
     \<lparr>deniedPortsSet := sliceToSetInt (DeniedPorts (policy p)),
      allowedPortsSet := sliceToSetInt (AllowedPorts (policy p)),
      deniedDomainsSet := sliceToSetLower (DeniedDomains (policy p)),
      allowedDomainsSet := sliceToSetLower (AllowedDomains (policy p)),
      peerBlacklistSet := sliceToSet (PeerBlacklist (policy p)),
      peerWhitelistSet := sliceToSet (PeerWhitelist (policy p))\<rparr>"

definition defaultExitPolicyInConfig :: ExitPolicyConfig where
  "defaultExitPolicyInConfig = zeroPolicy
     \<lparr>AllowTCP := True, AllowUDP := False, RemoteDNS := True,
      AllowedPorts := [80, 443, 8080], DeniedPorts := [25, 465, 587, 22, 3389],
      AllowPrivateIPTargets := False, AllowLoopbackTargets := False, AllowLinkLocalTargets := False\<rparr>"

definition NewPolicyChecker :: "ExitConfig option \<Rightarrow> PolicyChecker" where
  "NewPolicyChecker exitCfg =
     (let no = (\<lambda>_. False);
          start = \<lparr>policy = zeroPolicy, runtime = zeroRuntime\<lparr>rt_AcceptNewStreams := True\<rparr>,
            enabled = True, deniedPortsSet = no, allowedPortsSet = no, deniedDomainsSet = (\<lambda>_. False),
            allowedDomainsSet = (\<lambda>_. False), peerBlacklistSet = (\<lambda>_. False),
            peerWhitelistSet = (\<lambda>_. False)\<rparr>;
          p = (case exitCfg of
                 Some c \<Rightarrow> start\<lparr>enabled := ex_Enabled c, policy := ex_Policy c, runtime := ex_Runtime c\<rparr>
               | None \<Rightarrow> start\<lparr>policy := defaultExitPolicyInConfig,
                            runtime := zeroRuntime\<lparr>rt_AcceptNewStreams := True\<rparr>\<rparr>)
      in rebuildSets p)"

definition CheckPeerAllowed :: "PolicyChecker option \<Rightarrow> string \<Rightarrow> ExitRejectReason \<times> bool" where
  "CheckPeerAllowed po peerID =
     (case po of None \<Rightarrow> ('''', True)
      | Some p \<Rightarrow>
          if peerBlacklistSet p peerID then (ExitRejectPeerBlacklisted, False)
          else if length (PeerWhitelist (policy p)) > 0 \<and> \<not> peerWhitelistSet p peerID
            then (ExitRejectPeerNotWhitelisted, False)
          else ('''', True))"

definition CheckProtocolAllowed :: "PolicyChecker option \<Rightarrow> bool \<Rightarrow> ExitRejectReason \<times> bool" where
  "CheckProtocolAllowed po tcp =
     (case po of None \<Rightarrow> ('''', True)
      | Some p \<Rightarrow>
          if tcp \<and> \<not> AllowTCP (policy p) then (ExitRejectProtocolNotAllowed, False)
          else if \<not> tcp \<and> \<not> AllowUDP (policy p) then (ExitRejectProtocolNotAllowed, False)
          else ('''', True))"

definition CheckPortAllowed :: "PolicyChecker option \<Rightarrow> int \<Rightarrow> ExitRejectReason \<times> bool" where
  "CheckPortAllowed po port =
     (case po of None \<Rightarrow> ('''', True)
      | Some p \<Rightarrow>
          if deniedPortsSet p port then (ExitRejectPortDenied, False)
          else if length (AllowedPorts (policy p)) > 0 \<and> \<not> allowedPortsSet p port
            then (ExitRejectPortNotAllowed, False)
          else ('''', True))"

definition isPrivateIPv4 :: "IP \<Rightarrow> bool" where
  "isPrivateIPv4 ip \<longleftrightarrow> length ip = 4 \<and>
     (ip ! 0 = 10 \<or> (ip ! 0 = 172 \<and> ip ! 1 \<ge> 16 \<and> ip ! 1 \<le> 31) \<or> (ip ! 0 = 192 \<and> ip ! 1 = 168))"

definition isLoopbackIPv4 :: "IP \<Rightarrow> bool" where
  "isLoopbackIPv4 ip \<longleftrightarrow> length ip = 4 \<and> ip ! 0 = 127"

definition isLinkLocalIPv4 :: "IP \<Rightarrow> bool" where
  "isLinkLocalIPv4 ip \<longleftrightarrow> length ip = 4 \<and> ip ! 0 = 169 \<and> ip ! 1 = 254"

definition isPrivateIPv6 :: "IP \<Rightarrow> bool" where
  "isPrivateIPv6 ip \<longleftrightarrow> length ip = 16 \<and>
     (ip ! 0 = 0xfd \<and> ip ! 1 = 0 \<or> (ip ! 0 = 0xfc \<and> ip ! 1 = 0))"

definition isLoopbackIPv6 :: "IP \<Rightarrow> bool" where
  "isLoopbackIPv6 ip \<longleftrightarrow> length ip = 16 \<and> list_all (\<lambda>i. ip ! i = 0) [0..<15] \<and> ip ! 15 = 1"

definition isLinkLocalIPv6 :: "IP \<Rightarrow> bool" where
  "isLinkLocalIPv6 ip \<longleftrightarrow> length ip = 16 \<and> ip ! 0 = 0xfe \<and> ip ! 1 = 0x80"

definition CheckTargetIPAllowed :: "PolicyChecker option \<Rightarrow> IP \<Rightarrow> ExitRejectReason \<times> bool" where
  "CheckTargetIPAllowed po ip =
     (case po of None \<Rightarrow> ('''', True)
      | Some p \<Rightarrow>
        (case ip_To4 ip of
           Some ip4 \<Rightarrow>
             if isPrivateIPv4 ip4 \<and> \<not> AllowPrivateIPTargets (policy p)
               then (ExitRejectPrivateTargetDenied, False)
             else if isLoopbackIPv4 ip4 \<and> \<not> AllowLoopbackTargets (policy p)
               then (ExitRejectLoopbackDenied, False)
             else if isLinkLocalIPv4 ip4 \<and> \<not> AllowLinkLocalTargets (policy p)
               then (ExitRejectLinkLocalDenied, False)
             else ('''', True)
         | None \<Rightarrow>
             (case ip_To16 ip of
                Some ip6 \<Rightarrow>
                  if isPrivateIPv6 ip6 \<and> \<not> AllowPrivateIPTargets (policy p)
                    then (ExitRejectPrivateTargetDenied, False)
                  else if isLoopbackIPv6 ip6 \<and> \<not> AllowLoopbackTargets (policy p)
                    then (ExitRejectLoopbackDenied, False)
                  else if isLinkLocalIPv6 ip6 \<and> \<not> AllowLinkLocalTargets (policy p)
                    then (ExitRejectLinkLocalDenied, False)
                  else ('''', True)
              | None \<Rightarrow> ('''', True))))"

definition DomainMatchSuffix :: "string \<Rightarrow> string \<Rightarrow> bool" where
  "DomainMatchSuffix domain0 suffix0 =
     (let domain = toLower (trimSpace domain0); suffix1 = toLower (trimSpace suffix0)
      in if suffix1 = '''' then False
         else let suffix = trimPrefix suffix1 ''.''
              in if domain = suffix then True else hasSuffix domain (''.'' @ suffix))"

definition CheckDomainAllowed :: "PolicyChecker option \<Rightarrow> string \<Rightarrow> ExitRejectReason \<times> bool" where
  "CheckDomainAllowed po host0 =
     (case po of None \<Rightarrow> ('''', True)
      | Some p \<Rightarrow>
          let host = toLower (trimSpace host0) in
          if deniedDomainsSet p host then (ExitRejectDomainDenied, False)
          else if list_ex (\<lambda>suf. DomainMatchSuffix host suf) (DeniedDomainSuffixes (policy p))
            then (ExitRejectDomainDenied, False)
          else if length (AllowedDomains (policy p)) > 0 \<or> length (AllowedDomainSuffixes (policy p)) > 0 then
            (if allowedDomainsSet p host then ('''', True)
             else if list_ex (\<lambda>suf. DomainMatchSuffix host suf) (AllowedDomainSuffixes (policy p))
               then ('''', True)
             else (ExitRejectDomainNotAllowed, False))
          else ('''', True))"

definition IsEnabled :: "PolicyChecker option \<Rightarrow> bool" where
  "IsEnabled po = (case po of None \<Rightarrow> True | Some p \<Rightarrow> enabled p)"

definition AcceptNewStreams :: "PolicyChecker option \<Rightarrow> bool" where
  "AcceptNewStreams po = (case po of None \<Rightarrow> True
     | Some p \<Rightarrow> rt_AcceptNewStreams (runtime p) \<and> \<not> rt_DrainMode (runtime p))"

definition DrainMode :: "PolicyChecker option \<Rightarrow> bool" where
  "DrainMode po = (case po of None \<Rightarrow> False | Some p \<Rightarrow> rt_DrainMode (runtime p))"

definition SetRuntime :: "PolicyChecker option \<Rightarrow> ExitRuntimeConfig \<Rightarrow> PolicyChecker option" where
  "SetRuntime po r = map_option (\<lambda>p. p\<lparr>runtime := r\<rparr>) po"

definition SetPolicy :: "PolicyChecker option \<Rightarrow> ExitPolicyConfig \<Rightarrow> PolicyChecker option" where
  "SetPolicy po c = map_option (\<lambda>p. rebuildSets (p\<lparr>policy := c\<rparr>)) po"

definition GetPolicy :: "PolicyChecker option \<Rightarrow> ExitPolicyConfig" where
  "GetPolicy po = (case po of None \<Rightarrow> zeroPolicy | Some p \<Rightarrow> policy p)"

definition GetRuntime :: "PolicyChecker option \<Rightarrow> ExitRuntimeConfig" where
  "GetRuntime po = (case po of None \<Rightarrow> zeroRuntime | Some p \<Rightarrow> runtime p)"

section \<open>The checks on a target\<close>

text \<open>\<open>if reason, ok := c; !ok { return reason }\<close> followed by the rest of the function.\<close>

definition unless_ok :: "ExitRejectReason \<times> bool \<Rightarrow> ExitRejectReason \<Rightarrow> ExitRejectReason" where
  "unless_ok c k = (if \<not> snd c then fst c else k)"

fun checkAddrs :: "PolicyChecker option \<Rightarrow> IP list \<Rightarrow> ExitRejectReason" where
  "checkAddrs p [] = ''''"
| "checkAddrs p (a # as) = unless_ok (CheckTargetIPAllowed p a) (checkAddrs p as)"

text \<open>The tail the three functions share: the port, the literal address or the domain.\<close>

definition checkTarget ::
  "(string \<Rightarrow> IP list result) \<Rightarrow> PolicyChecker option \<Rightarrow> string \<Rightarrow> int \<Rightarrow> ExitRejectReason" where
  "checkTarget lookupIP p host port =
     unless_ok (CheckPortAllowed p port)
      (case ParseIP host of
         Some ip \<Rightarrow> unless_ok (CheckTargetIPAllowed p ip) ''''
       | None \<Rightarrow>
           unless_ok (CheckDomainAllowed p host)
            (if \<not> RemoteDNS (GetPolicy p) then ''''
             else case lookupIP host of
                    Inl e \<Rightarrow> ExitRejectDomainDenied
                  | Inr addrs \<Rightarrow> checkAddrs p addrs))"

definition isLocalSocks5Upstream :: "string \<Rightarrow> string \<Rightarrow> int \<Rightarrow> bool" where
  "isLocalSocks5Upstream socks5Upstream host port =
     (if socks5Upstream = '''' then False
      else case SplitHostPort socks5Upstream of
             Inl _ \<Rightarrow> False
           | Inr (upstreamHost, upstreamPort) \<Rightarrow>
               if upstreamPort \<noteq> show_int port then False else upstreamHost = host)"

definition checkBeginPolicy ::
  "(string \<Rightarrow> IP list result) \<Rightarrow> string \<Rightarrow> PolicyChecker option \<Rightarrow> string \<Rightarrow> BeginTCP \<Rightarrow> ExitRejectReason" where
  "checkBeginPolicy lookupIP socks5Upstream po peerID begin =
     (if isLocalSocks5Upstream socks5Upstream (bt_TargetHost begin) (bt_TargetPort begin) then ''''
      else if Option.is_none po then ''''
      else if \<not> IsEnabled po then ExitRejectDisabled
      else if \<not> AcceptNewStreams po \<or> DrainMode po then ExitRejectDraining
      else unless_ok (CheckPeerAllowed po peerID)
            (unless_ok (CheckProtocolAllowed po True)
              (checkTarget lookupIP po (bt_TargetHost begin) (bt_TargetPort begin))))"

definition checkBeginUDPPolicy ::
  "(string \<Rightarrow> IP list result) \<Rightarrow> PolicyChecker option \<Rightarrow> string \<Rightarrow> BeginUDP \<Rightarrow> ExitRejectReason" where
  "checkBeginUDPPolicy lookupIP po peerID begin =
     (if Option.is_none po then ''''
      else if \<not> IsEnabled po then ExitRejectDisabled
      else if \<not> AcceptNewStreams po \<or> DrainMode po then ExitRejectDraining
      else unless_ok (CheckPeerAllowed po peerID)
            (unless_ok (CheckProtocolAllowed po False)
              (checkTarget lookupIP po (bu_TargetHost begin) (bu_TargetPort begin))))"

definition checkBeginPolicyLocal ::
  "(string \<Rightarrow> IP list result) \<Rightarrow> PolicyChecker option \<Rightarrow> BeginTCP \<Rightarrow> ExitRejectReason" where
  "checkBeginPolicyLocal lookupIP po begin =
     (if Option.is_none po then ''''
      else if \<not> IsEnabled po then ExitRejectDisabled
      else if \<not> AcceptNewStreams po \<or> DrainMode po then ExitRejectDraining
      else unless_ok (CheckProtocolAllowed po True)
            (checkTarget lookupIP po (bt_TargetHost begin) (bt_TargetPort begin)))"

section \<open>Address blocks\<close>

text \<open>Membership in the block \<open>net/n\<close>: the first \<open>n\<close> bits agree.\<close>

definition in_cidr :: "IP \<Rightarrow> IP \<Rightarrow> nat \<Rightarrow> bool" where
  "in_cidr ip net n \<longleftrightarrow> length ip = length net \<and>
     be_decode ip div 2 ^ (8 * length ip - n) = be_decode net div 2 ^ (8 * length net - n)"

lemma be_decode_append: "be_decode (xs @ ys) = be_decode xs * 256 ^ length ys + be_decode ys"
  by (induction ys rule: rev_induct) (simp_all add: append_assoc [symmetric] algebra_simps del: append_assoc)

lemma be_decode_div_bytes:
  assumes "k \<le> length b"
  shows "be_decode b div 256 ^ (length b - k) = be_decode (take k b)"
proof -
  have "be_decode b = be_decode (take k b) * 256 ^ length (drop k b) + be_decode (drop k b)"
    using be_decode_append [of "take k b" "drop k b"] by simp
  moreover have "be_decode (drop k b) < 256 ^ length (drop k b)" by (rule be_decode_less)
  ultimately show ?thesis by simp
qed

lemma be_decode_inject: "length a = length b \<Longrightarrow> be_decode a = be_decode b \<longleftrightarrow> a = b"
  by (metis be_encode_decode)

lemma in_cidr_bytes:
  assumes "k \<le> length net"
  shows "in_cidr ip net (8 * k) \<longleftrightarrow> length ip = length net \<and> take k ip = take k net"
proof -
  have "(2::nat) ^ (8 * length b - 8 * k) = 256 ^ (length b - k)" for b :: bytes
    by (simp add: power_mult diff_mult_distrib2 [symmetric])
  then show ?thesis
    using be_decode_div_bytes [of k ip] be_decode_div_bytes [of k net] assms
      be_decode_inject [of "take k ip" "take k net"]
    by (auto simp: in_cidr_def)
qed

lemma length_4E:
  assumes "length ip = 4"
  obtains a b c d where "ip = [a, b, c, d]"
  using assms by (auto simp: numeral_eq_Suc length_Suc_conv)

lemma in_cidr_172_16: "in_cidr [a, b, c, d] [172, 16, 0, 0] 12 \<longleftrightarrow> a = 172 \<and> 16 \<le> b \<and> b \<le> 31"
proof -
  have "be_decode [a, b, c, d] div 2 ^ 20 = be_decode [a, b] div 16"
    using be_decode_div_bytes [of 2 "[a, b, c, d]"] div_mult2_eq [of "be_decode [a, b, c, d]" 65536 16] by simp
  then have "in_cidr [a, b, c, d] [172, 16, 0, 0] 12 \<longleftrightarrow> (unat a * 256 + unat b) div 16 = 2753"
    by (simp add: in_cidr_def) (simp add: be_decode_def)
  also have "\<dots> \<longleftrightarrow> unat a = 172 \<and> 16 \<le> unat b \<and> unat b \<le> 31"
  proof -
    have "(unat a * 256 + unat b) div 16 = unat a * 16 + unat b div 16"
      using div_mult_self1 [of 16 "unat b" "unat a * 16"] by (simp add: algebra_simps)
    moreover have "unat b div 16 < 16" using unat_byte_lt [of b] by linarith
    moreover have "(x * 16 + q = 2753) = (x = 172 \<and> q = 1)" if "q < 16" for x q :: nat
      using that by presburger
    moreover have "(unat b div 16 = 1) = (16 \<le> unat b \<and> unat b \<le> 31)" by presburger
    ultimately show ?thesis by simp
  qed
  also have "\<dots> \<longleftrightarrow> a = 172 \<and> 16 \<le> b \<and> b \<le> 31"
    by (simp add: word_le_nat_alt word_unat_eq_iff)
  finally show ?thesis .
qed

lemma isPrivateIPv4_cidr:
  "isPrivateIPv4 ip \<longleftrightarrow>
     in_cidr ip [10, 0, 0, 0] 8 \<or> in_cidr ip [172, 16, 0, 0] 12 \<or> in_cidr ip [192, 168, 0, 0] 16"
proof (cases "length ip = 4")
  case True
  then obtain a b c d where "ip = [a, b, c, d]" by (rule length_4E)
  then show ?thesis
    using in_cidr_bytes [of 1 "[10, 0, 0, 0]" ip] in_cidr_bytes [of 2 "[192, 168, 0, 0]" ip]
    by (simp add: isPrivateIPv4_def in_cidr_172_16)
qed (simp add: isPrivateIPv4_def in_cidr_def)

lemma isLoopbackIPv4_cidr: "isLoopbackIPv4 ip \<longleftrightarrow> in_cidr ip [127, 0, 0, 0] 8"
  using in_cidr_bytes [of 1 "[127, 0, 0, 0]" ip]
  by (cases ip) (auto simp: isLoopbackIPv4_def)

lemma take_2_eq: "2 \<le> length ip \<Longrightarrow> take 2 ip = [ip ! 0, ip ! 1]"
  by (cases ip; cases "tl ip") auto

lemma isLinkLocalIPv4_cidr: "isLinkLocalIPv4 ip \<longleftrightarrow> in_cidr ip [169, 254, 0, 0] 16"
  using in_cidr_bytes [of 2 "[169, 254, 0, 0]" ip] take_2_eq [of ip]
  by (auto simp: isLinkLocalIPv4_def)

definition v6_net :: "byte \<Rightarrow> byte \<Rightarrow> IP" where
  "v6_net a b = [a, b] @ replicate 14 0"

lemma in_cidr_v6_net: "in_cidr ip (v6_net a b) 16 \<longleftrightarrow> length ip = 16 \<and> ip ! 0 = a \<and> ip ! 1 = b"
  using in_cidr_bytes [of 2 "v6_net a b" ip] take_2_eq [of ip] by (auto simp: v6_net_def)

lemma isPrivateIPv6_cidr: "isPrivateIPv6 ip \<longleftrightarrow> in_cidr ip (v6_net 0xfd 0) 16 \<or> in_cidr ip (v6_net 0xfc 0) 16"
  by (auto simp: isPrivateIPv6_def in_cidr_v6_net)

lemma isLinkLocalIPv6_cidr: "isLinkLocalIPv6 ip \<longleftrightarrow> in_cidr ip (v6_net 0xfe 0x80) 16"
  by (auto simp: isLinkLocalIPv6_def in_cidr_v6_net)

lemma isLoopbackIPv6_eq: "isLoopbackIPv6 ip \<longleftrightarrow> ip = IPv6loopback"
proof
  have r: "IPv6loopback = replicate 15 0 @ [1]" by (simp add: IPv6loopback_def numeral_eq_Suc)
  assume l: "isLoopbackIPv6 ip"
  show "ip = IPv6loopback"
  proof (rule nth_equalityI)
    show "length ip = length IPv6loopback" using l by (simp add: isLoopbackIPv6_def IPv6loopback_def)
    fix i assume "i < length ip"
    then have "i < 16" using l by (simp add: isLoopbackIPv6_def)
    then show "ip ! i = IPv6loopback ! i"
      using l by (cases "i = 15") (auto simp: isLoopbackIPv6_def r nth_append list_all_iff)
  qed
qed (simp add: isLoopbackIPv6_def IPv6loopback_def upt_rec numeral_nat)

section \<open>Domain suffixes as label suffixes\<close>

text \<open>The labels of a domain name: what lies between its dots.\<close>

fun labels :: "string \<Rightarrow> string list" where
  "labels [] = [[]]"
| "labels (c # s) = (if c = CHR ''.'' then [] # labels s
                     else (case labels s of l # ls \<Rightarrow> (c # l) # ls | [] \<Rightarrow> [[c]]))"

lemma labels_not_Nil [simp]: "labels s \<noteq> []"
  by (induction s) (auto split: list.splits)

lemma labels_append_dot: "labels (r @ CHR ''.'' # s) = labels r @ labels s"
  by (induction r) (auto split: list.splits simp: Cons_eq_append_conv)

lemma joinStrings_Cons: "xs \<noteq> [] \<Longrightarrow> joinStrings sep (x # xs) = x @ sep @ joinStrings sep xs"
  by (cases xs) auto

lemma join_labels [simp]: "joinStrings ''.'' (labels s) = s"
proof (induction s)
  case (Cons c s)
  obtain l ls where l: "labels s = l # ls" using labels_not_Nil [of s] by (cases "labels s") auto
  show ?case
  proof (cases "c = CHR ''.''")
    case True
    then show ?thesis using Cons l by (simp add: joinStrings_Cons)
  next
    case False
    then show ?thesis using Cons l by (cases ls) (simp_all add: joinStrings_Cons)
  qed
qed simp

lemma joinStrings_append:
  "xs \<noteq> [] \<Longrightarrow> ys \<noteq> [] \<Longrightarrow> joinStrings sep (xs @ ys) = joinStrings sep xs @ sep @ joinStrings sep ys"
proof (induction xs)
  case (Cons x xs)
  then show ?case by (cases xs) (simp_all add: joinStrings_Cons)
qed simp

lemma labels_suffix:
  "(\<exists>L. labels d = L @ labels s) \<longleftrightarrow> d = s \<or> hasSuffix d (''.'' @ s)"
proof
  assume "\<exists>L. labels d = L @ labels s"
  then obtain L where L: "labels d = L @ labels s" by blast
  show "d = s \<or> hasSuffix d (''.'' @ s)"
  proof (cases "L = []")
    case True
    then have "labels d = labels s" using L by simp
    then have "d = s" by (metis join_labels)
    then show ?thesis by simp
  next
    case False
    then have "d = joinStrings ''.'' L @ ''.'' @ s"
      using arg_cong [OF L, of "joinStrings ''.''"] by (simp add: joinStrings_append)
    then show ?thesis by (auto simp: hasSuffix_iff)
  qed
qed (auto simp: hasSuffix_iff labels_append_dot)

definition normDomain :: "string \<Rightarrow> string" where
  "normDomain s = toLower (trimSpace s)"

lemma normDomain_idem [simp]: "normDomain (normDomain s) = normDomain s"
  by (simp add: normDomain_def trimSpace_toLower)

definition label_suffix :: "string \<Rightarrow> string \<Rightarrow> bool" where
  "label_suffix domain suf \<longleftrightarrow> normDomain suf \<noteq> '''' \<and>
     (\<exists>L. labels (normDomain domain) = L @ labels (trimPrefix (normDomain suf) ''.''))"

lemma DomainMatchSuffix_iff: "DomainMatchSuffix domain suf \<longleftrightarrow> label_suffix domain suf"
  by (simp add: DomainMatchSuffix_def label_suffix_def labels_suffix Let_def flip: normDomain_def)

section \<open>What the policy promises\<close>

text \<open>
  The policy as a statement about the current configuration alone, without the sets the
  checker caches: who may use the exit, which ports, which addresses and which names.
\<close>

definition peer_permitted :: "ExitPolicyConfig \<Rightarrow> string \<Rightarrow> bool" where
  "peer_permitted c peer \<longleftrightarrow> peer \<notin> set (PeerBlacklist c) \<and>
     (PeerWhitelist c = [] \<or> peer \<in> set (PeerWhitelist c))"

definition port_permitted :: "ExitPolicyConfig \<Rightarrow> int \<Rightarrow> bool" where
  "port_permitted c port \<longleftrightarrow> port \<notin> set (DeniedPorts c) \<and>
     (AllowedPorts c = [] \<or> port \<in> set (AllowedPorts c))"

definition name_listed :: "string list \<Rightarrow> string list \<Rightarrow> string \<Rightarrow> bool" where
  "name_listed exact suffixes host \<longleftrightarrow>
     normDomain host \<in> normDomain ` set exact \<or> (\<exists>suf\<in>set suffixes. label_suffix host suf)"

definition domain_permitted :: "ExitPolicyConfig \<Rightarrow> string \<Rightarrow> bool" where
  "domain_permitted c host \<longleftrightarrow>
     \<not> name_listed (DeniedDomains c) (DeniedDomainSuffixes c) host \<and>
     (AllowedDomains c = [] \<and> AllowedDomainSuffixes c = [] \<or>
      name_listed (AllowedDomains c) (AllowedDomainSuffixes c) host)"

definition private_block :: "IP \<Rightarrow> bool" where
  "private_block ip \<longleftrightarrow> in_cidr ip [10, 0, 0, 0] 8 \<or> in_cidr ip [172, 16, 0, 0] 12 \<or>
     in_cidr ip [192, 168, 0, 0] 16 \<or> in_cidr ip (v6_net 0xfd 0) 16 \<or> in_cidr ip (v6_net 0xfc 0) 16"

definition loopback_block :: "IP \<Rightarrow> bool" where
  "loopback_block ip \<longleftrightarrow> in_cidr ip [127, 0, 0, 0] 8 \<or> ip = IPv6loopback"

definition link_local_block :: "IP \<Rightarrow> bool" where
  "link_local_block ip \<longleftrightarrow> in_cidr ip [169, 254, 0, 0] 16 \<or> in_cidr ip (v6_net 0xfe 0x80) 16"

text \<open>An address in its shortest form: an IPv4-mapped address counts as IPv4.\<close>

definition unmapped :: "IP \<Rightarrow> IP" where
  "unmapped ip = (case ip_To4 ip of Some ip4 \<Rightarrow> ip4 | None \<Rightarrow> ip)"

definition addr_permitted :: "ExitPolicyConfig \<Rightarrow> IP \<Rightarrow> bool" where
  "addr_permitted c ip \<longleftrightarrow>
     (private_block (unmapped ip) \<longrightarrow> AllowPrivateIPTargets c) \<and>
     (loopback_block (unmapped ip) \<longrightarrow> AllowLoopbackTargets c) \<and>
     (link_local_block (unmapped ip) \<longrightarrow> AllowLinkLocalTargets c)"

definition target_permitted ::
  "(string \<Rightarrow> IP list result) \<Rightarrow> ExitPolicyConfig \<Rightarrow> string \<Rightarrow> int \<Rightarrow> bool" where
  "target_permitted lookupIP c host port \<longleftrightarrow> port_permitted c port \<and>
     (case ParseIP host of
        Some ip \<Rightarrow> addr_permitted c ip
      | None \<Rightarrow> domain_permitted c host \<and>
          (RemoteDNS c \<longrightarrow> (\<exists>addrs. lookupIP host = Inr addrs \<and> list_all (addr_permitted c) addrs)))"

section \<open>The checks agree with the policy\<close>

text \<open>The cached sets hold what the current policy lists.\<close>

definition policy_synced :: "PolicyChecker \<Rightarrow> bool" where
  "policy_synced p \<longleftrightarrow> rebuildSets p = p"

lemma foldl_fun_upd: "foldl (\<lambda>m v. m(f v := True)) m s x \<longleftrightarrow> m x \<or> x \<in> f ` set s"
  by (induction s arbitrary: m) auto

lemma slice_sets:
  "sliceToSetInt s x \<longleftrightarrow> x \<in> set s"
  "sliceToSet t y \<longleftrightarrow> y \<in> set t"
  "sliceToSetLower t y \<longleftrightarrow> y \<in> normDomain ` set t"
  using foldl_fun_upd [of "\<lambda>v. v" "\<lambda>_. False" s x] foldl_fun_upd [of "\<lambda>v. v" "\<lambda>_. False" t y]
    foldl_fun_upd [of normDomain "\<lambda>_. False" t y]
  by (simp_all add: sliceToSetInt_def sliceToSet_def sliceToSetLower_def normDomain_def)

lemma policy_synced_sets:
  assumes "policy_synced p"
  shows "deniedPortsSet p x \<longleftrightarrow> x \<in> set (DeniedPorts (policy p))"
    and "allowedPortsSet p x \<longleftrightarrow> x \<in> set (AllowedPorts (policy p))"
    and "deniedDomainsSet p y \<longleftrightarrow> y \<in> normDomain ` set (DeniedDomains (policy p))"
    and "allowedDomainsSet p y \<longleftrightarrow> y \<in> normDomain ` set (AllowedDomains (policy p))"
    and "peerBlacklistSet p y \<longleftrightarrow> y \<in> set (PeerBlacklist (policy p))"
    and "peerWhitelistSet p y \<longleftrightarrow> y \<in> set (PeerWhitelist (policy p))"
proof -
  have p: "p = rebuildSets p" using assms by (simp add: policy_synced_def)
  show "deniedPortsSet p x \<longleftrightarrow> x \<in> set (DeniedPorts (policy p))"
    by (subst p) (simp add: rebuildSets_def slice_sets)
  show "allowedPortsSet p x \<longleftrightarrow> x \<in> set (AllowedPorts (policy p))"
    by (subst p) (simp add: rebuildSets_def slice_sets)
  show "deniedDomainsSet p y \<longleftrightarrow> y \<in> normDomain ` set (DeniedDomains (policy p))"
    by (subst p) (simp add: rebuildSets_def slice_sets)
  show "allowedDomainsSet p y \<longleftrightarrow> y \<in> normDomain ` set (AllowedDomains (policy p))"
    by (subst p) (simp add: rebuildSets_def slice_sets)
  show "peerBlacklistSet p y \<longleftrightarrow> y \<in> set (PeerBlacklist (policy p))"
    by (subst p) (simp add: rebuildSets_def slice_sets)
  show "peerWhitelistSet p y \<longleftrightarrow> y \<in> set (PeerWhitelist (policy p))"
    by (subst p) (simp add: rebuildSets_def slice_sets)
qed

lemma label_suffix_norm [simp]: "label_suffix (normDomain d) suf = label_suffix d suf"
  by (simp add: label_suffix_def)

lemma CheckPeerAllowed_iff:
  "policy_synced p \<Longrightarrow> snd (CheckPeerAllowed (Some p) peer) \<longleftrightarrow> peer_permitted (policy p) peer"
  by (auto simp: CheckPeerAllowed_def peer_permitted_def policy_synced_sets)

lemma CheckPortAllowed_iff:
  "policy_synced p \<Longrightarrow> snd (CheckPortAllowed (Some p) port) \<longleftrightarrow> port_permitted (policy p) port"
  by (auto simp: CheckPortAllowed_def port_permitted_def policy_synced_sets)

lemma CheckDomainAllowed_iff:
  "policy_synced p \<Longrightarrow> snd (CheckDomainAllowed (Some p) host) \<longleftrightarrow> domain_permitted (policy p) host"
  by (auto simp: CheckDomainAllowed_def domain_permitted_def policy_synced_sets Let_def name_listed_def
        list_ex_iff DomainMatchSuffix_iff simp flip: normDomain_def)

lemma in_cidr_length: "in_cidr ip net n \<Longrightarrow> length ip = length net"
  by (simp add: in_cidr_def)

lemma v4_blocks:
  assumes "length ip = 4"
  shows "private_block ip \<longleftrightarrow> isPrivateIPv4 ip" and "loopback_block ip \<longleftrightarrow> isLoopbackIPv4 ip"
    and "link_local_block ip \<longleftrightarrow> isLinkLocalIPv4 ip"
  using assms by (auto simp: private_block_def loopback_block_def link_local_block_def isPrivateIPv4_cidr
      isLoopbackIPv4_cidr isLinkLocalIPv4_cidr IPv6loopback_def v6_net_def dest: in_cidr_length)

lemma v6_blocks:
  assumes "length ip \<noteq> 4"
  shows "private_block ip \<longleftrightarrow> isPrivateIPv6 ip" and "loopback_block ip \<longleftrightarrow> isLoopbackIPv6 ip"
    and "link_local_block ip \<longleftrightarrow> isLinkLocalIPv6 ip"
  using assms by (auto simp: private_block_def loopback_block_def link_local_block_def isPrivateIPv6_cidr
      isLoopbackIPv6_eq isLinkLocalIPv6_cidr dest: in_cidr_length)

lemma CheckTargetIPAllowed_iff:
  "snd (CheckTargetIPAllowed (Some p) ip) \<longleftrightarrow> addr_permitted (policy p) ip"
proof (cases "ip_To4 ip")
  case None
  then have n: "length ip \<noteq> 4" by (auto simp: ip_To4_def split: if_splits)
  show ?thesis
  proof (cases "length ip = 16")
    case True
    then show ?thesis using None n
      by (auto simp: CheckTargetIPAllowed_def addr_permitted_def unmapped_def v6_blocks ip_To16_def)
  next
    case False
    then show ?thesis using None n
      by (simp add: CheckTargetIPAllowed_def addr_permitted_def unmapped_def v6_blocks ip_To16_def
          isPrivateIPv6_def isLoopbackIPv6_def isLinkLocalIPv6_def)
  qed
next
  case (Some ip4)
  then show ?thesis using ip_To4_length [OF Some]
    by (auto simp: CheckTargetIPAllowed_def addr_permitted_def unmapped_def v4_blocks)
qed

text \<open>A verdict comes with a reason exactly when it is a rejection.\<close>

lemma reasons_nonempty:
  "\<not> snd (CheckPeerAllowed po peer) \<Longrightarrow> fst (CheckPeerAllowed po peer) \<noteq> ''''"
  "\<not> snd (CheckProtocolAllowed po tcp) \<Longrightarrow> fst (CheckProtocolAllowed po tcp) \<noteq> ''''"
  "\<not> snd (CheckPortAllowed po port) \<Longrightarrow> fst (CheckPortAllowed po port) \<noteq> ''''"
  "\<not> snd (CheckTargetIPAllowed po ip) \<Longrightarrow> fst (CheckTargetIPAllowed po ip) \<noteq> ''''"
  "\<not> snd (CheckDomainAllowed po host) \<Longrightarrow> fst (CheckDomainAllowed po host) \<noteq> ''''"
  by (auto simp: CheckPeerAllowed_def CheckProtocolAllowed_def CheckPortAllowed_def CheckDomainAllowed_def
        CheckTargetIPAllowed_def Let_def reject_defs split: option.splits if_splits)

lemma check_accepts:
  "unless_ok (CheckPeerAllowed po peer) k = [] \<longleftrightarrow> snd (CheckPeerAllowed po peer) \<and> k = []"
  "unless_ok (CheckProtocolAllowed po tcp) k = [] \<longleftrightarrow> snd (CheckProtocolAllowed po tcp) \<and> k = []"
  "unless_ok (CheckPortAllowed po port) k = [] \<longleftrightarrow> snd (CheckPortAllowed po port) \<and> k = []"
  "unless_ok (CheckTargetIPAllowed po ip) k = [] \<longleftrightarrow> snd (CheckTargetIPAllowed po ip) \<and> k = []"
  "unless_ok (CheckDomainAllowed po host) k = [] \<longleftrightarrow> snd (CheckDomainAllowed po host) \<and> k = []"
  using reasons_nonempty by (auto simp: unless_ok_def)

lemma checkAddrs_iff: "checkAddrs (Some p) addrs = '''' \<longleftrightarrow> list_all (addr_permitted (policy p)) addrs"
  by (induction addrs) (auto simp: check_accepts CheckTargetIPAllowed_iff)

lemma checkTarget_iff:
  "policy_synced p \<Longrightarrow>
   checkTarget lookupIP (Some p) host port = '''' \<longleftrightarrow> target_permitted lookupIP (policy p) host port"
  by (auto simp: checkTarget_def target_permitted_def check_accepts CheckPortAllowed_iff checkAddrs_iff
        CheckDomainAllowed_iff CheckTargetIPAllowed_iff GetPolicy_def ExitRejectDomainDenied_def
        split: option.splits sum.splits)

section \<open>Operation of the checker\<close>

text \<open>What the API can do to a running checker.\<close>

datatype policy_op = OpSetRuntime ExitRuntimeConfig | OpSetPolicy ExitPolicyConfig

fun policy_apply :: "PolicyChecker option \<Rightarrow> policy_op \<Rightarrow> PolicyChecker option" where
  "policy_apply po (OpSetRuntime r) = SetRuntime po r"
| "policy_apply po (OpSetPolicy c) = SetPolicy po c"

definition policy_run :: "ExitConfig option \<Rightarrow> policy_op list \<Rightarrow> PolicyChecker option" where
  "policy_run cfg ops = foldl policy_apply (Some (NewPolicyChecker cfg)) ops"

lemma rebuildSets_idem [simp]: "rebuildSets (rebuildSets p) = rebuildSets p"
  by (simp add: rebuildSets_def)

lemma policy_apply_synced:
  assumes "policy_synced p"
  obtains p' where "policy_apply (Some p) op = Some p'" "policy_synced p'" "enabled p' = enabled p"
proof (cases op)
  case (OpSetRuntime r)
  then show ?thesis
    using assms that [of "p\<lparr>runtime := r\<rparr>"]
    by (cases p) (simp add: SetRuntime_def policy_synced_def rebuildSets_def)
next
  case (OpSetPolicy c)
  then show ?thesis
    using that [of "rebuildSets (p\<lparr>policy := c\<rparr>)"]
    by (simp add: SetPolicy_def policy_synced_def) (simp add: rebuildSets_def)
qed

lemma foldl_policy_apply:
  "policy_synced p \<Longrightarrow> \<exists>p'. foldl policy_apply (Some p) ops = Some p' \<and> policy_synced p' \<and> enabled p' = enabled p"
proof (induction ops arbitrary: p)
  case (Cons op ops)
  obtain p' where "policy_apply (Some p) op = Some p'" "policy_synced p'" "enabled p' = enabled p"
    using policy_apply_synced [OF Cons.prems] by blast
  with Cons.IH show ?case by fastforce
qed simp

lemma policy_run_Some:
  obtains p where "policy_run cfg ops = Some p" "policy_synced p"
    "enabled p = (case cfg of None \<Rightarrow> True | Some c \<Rightarrow> ex_Enabled c)"
proof -
  have "policy_synced (NewPolicyChecker cfg)" by (simp add: policy_synced_def NewPolicyChecker_def Let_def)
  moreover have "enabled (NewPolicyChecker cfg) = (case cfg of None \<Rightarrow> True | Some c \<Rightarrow> ex_Enabled c)"
    by (simp add: NewPolicyChecker_def Let_def rebuildSets_def split: option.splits)
  ultimately show ?thesis
    using foldl_policy_apply [of "NewPolicyChecker cfg" ops] that by (auto simp: policy_run_def)
qed

definition gate_open :: "PolicyChecker option \<Rightarrow> bool" where
  "gate_open po \<longleftrightarrow> IsEnabled po \<and> rt_AcceptNewStreams (GetRuntime po) \<and> \<not> rt_DrainMode (GetRuntime po)"

lemma gate_reasons: "ExitRejectDisabled \<noteq> []" "ExitRejectDraining \<noteq> []"
  by (simp_all add: reject_defs)

lemma checkBeginPolicy_accepts:
  "checkBeginPolicy lookupIP upstream (policy_run cfg ops) peer begin = '''' \<longleftrightarrow>
     isLocalSocks5Upstream upstream (bt_TargetHost begin) (bt_TargetPort begin) \<or>
     gate_open (policy_run cfg ops) \<and>
     (let c = GetPolicy (policy_run cfg ops)
      in peer_permitted c peer \<and> AllowTCP c \<and>
         target_permitted lookupIP c (bt_TargetHost begin) (bt_TargetPort begin))"
proof -
  obtain p where p: "policy_run cfg ops = Some p" "policy_synced p" by (rule policy_run_Some)
  then show ?thesis
    by (simp add: checkBeginPolicy_def gate_open_def IsEnabled_def AcceptNewStreams_def DrainMode_def
        GetRuntime_def GetPolicy_def check_accepts checkTarget_iff CheckPeerAllowed_iff gate_reasons Let_def)
       (simp add: CheckProtocolAllowed_def)
qed

text \<open>
  C10. However the policy and the runtime state of a checker have been changed, a TCP target is
  accepted exactly when it is the exit's own SOCKS5 upstream, or the exit is enabled and
  accepting, and the current policy permits the peer, TCP, the port, and the address or the
  name: addresses by the blocks they lie in, names label by label.
\<close>

theorem checkBeginPolicy_spec:
  "checkBeginPolicy lookupIP upstream (policy_run cfg ops) peer begin = '''' \<longleftrightarrow>
     isLocalSocks5Upstream upstream (bt_TargetHost begin) (bt_TargetPort begin) \<or>
     gate_open (policy_run cfg ops) \<and>
     (let c = GetPolicy (policy_run cfg ops)
      in peer_permitted c peer \<and> AllowTCP c \<and>
         target_permitted lookupIP c (bt_TargetHost begin) (bt_TargetPort begin))"
  by (rule checkBeginPolicy_accepts)

text \<open>
  The same for UDP, where the exit's own upstream is not exempt.
\<close>

theorem checkBeginUDPPolicy_spec:
  "checkBeginUDPPolicy lookupIP (policy_run cfg ops) peer begin = '''' \<longleftrightarrow>
     gate_open (policy_run cfg ops) \<and>
     (let c = GetPolicy (policy_run cfg ops)
      in peer_permitted c peer \<and> AllowUDP c \<and>
         target_permitted lookupIP c (bu_TargetHost begin) (bu_TargetPort begin))"
proof -
  obtain p where p: "policy_run cfg ops = Some p" "policy_synced p" by (rule policy_run_Some)
  then show ?thesis
    by (simp add: checkBeginUDPPolicy_def gate_open_def IsEnabled_def AcceptNewStreams_def DrainMode_def
        GetRuntime_def GetPolicy_def check_accepts checkTarget_iff CheckPeerAllowed_iff gate_reasons Let_def)
       (simp add: CheckProtocolAllowed_def)
qed

text \<open>
  Suffix matching is matching of whole labels: a domain matches a suffix when the labels
  of the suffix (one leading dot aside) are the last labels of the domain, whatever the case
  and the surrounding blanks of either.
\<close>

theorem DomainMatchSuffix_labels:
  "DomainMatchSuffix domain suf \<longleftrightarrow>
     normDomain suf \<noteq> '''' \<and>
     (\<exists>L. labels (normDomain domain) = L @ labels (trimPrefix (normDomain suf) ''.''))"
  by (simp add: DomainMatchSuffix_iff label_suffix_def)

definition gap_addresses :: "IP list" where
  "gap_addresses = [[0xfd, 1] @ replicate 14 0, IPv4zero, IPv6unspecified, [0xfe, 0x90] @ replicate 14 0]"

definition unblocked :: "IP \<Rightarrow> bool" where
  "unblocked ip = (case ip_To4 ip of
      Some ip4 \<Rightarrow> \<not> isPrivateIPv4 ip4 \<and> \<not> isLoopbackIPv4 ip4 \<and> \<not> isLinkLocalIPv4 ip4
    | None \<Rightarrow> \<not> isPrivateIPv6 ip \<and> \<not> isLoopbackIPv6 ip \<and> \<not> isLinkLocalIPv6 ip)"

lemma unblocked_accepted: "unblocked ip \<Longrightarrow> CheckTargetIPAllowed po ip = ('''', True)"
  by (simp add: unblocked_def CheckTargetIPAllowed_def ip_To16_def ip_To4_def split: option.splits if_splits)

lemma gap_addresses_unblocked: "list_all unblocked gap_addresses"
  by code_simp

text \<open>
  The address checks leave gaps: whatever the policy, a unique local address outside the
  two blocks fd00::/16 and fc00::/16, the unspecified addresses, which reach the exit itself,
  and link-local addresses outside fe80::/16 are accepted.
\<close>

theorem CheckTargetIPAllowed_gaps:
  "list_all (\<lambda>ip. CheckTargetIPAllowed po ip = ('''', True)) gap_addresses"
  using gap_addresses_unblocked by (rule list.pred_mono_strong) (rule unblocked_accepted)

end
