(* ===== verification/Go_Conn.thy ===== *)
theory Go_Conn
  imports Prelude
begin

text \<open>
  Connections. What a peer has sent and not yet been read is a list of bytes, what is written
  goes to a writer, and a function on a connection threads both and may fail. These are the
  combinators the handshakes are written with, and the rules that run them.
\<close>

type_synonym 'w conn = "bytes \<times> 'w"
type_synonym ('w, 'a) conn_io = "'w conn \<Rightarrow> 'a result \<times> 'w conn"

definition io_return :: "'a \<Rightarrow> ('w, 'a) conn_io" where
  "io_return x s = (Inr x, s)"

definition io_fail :: "go_error \<Rightarrow> ('w, 'a) conn_io" where
  "io_fail e s = (Inl e, s)"

definition io_bind :: "('w, 'a) conn_io \<Rightarrow> ('a \<Rightarrow> ('w, 'b) conn_io) \<Rightarrow> ('w, 'b) conn_io" where
  "io_bind m f s = (case m s of (Inl e, s') \<Rightarrow> (Inl e, s') | (Inr x, s') \<Rightarrow> f x s')"

text \<open>A result that does not touch the connection.\<close>

definition io_lift :: "'a result \<Rightarrow> ('w, 'a) conn_io" where
  "io_lift r s = (r, s)"

text \<open>\<open>io.ReadFull\<close> of \<open>n\<close> bytes; a failed read has consumed what there was.\<close>

definition io_readFull :: "nat \<Rightarrow> ('w, bytes) conn_io" where
  "io_readFull n s = (case readFull n (fst s) of
     Inl e \<Rightarrow> (Inl e, [], snd s) | Inr (x, r) \<Rightarrow> (Inr x, r, snd s))"

text \<open>A \<open>Write\<close> whose error is returned, and one whose error is dropped.\<close>

definition io_write :: "'w writer \<Rightarrow> bytes \<Rightarrow> ('w, unit) conn_io" where
  "io_write wr b s = (case wr (snd s) b of
     (Some e, w) \<Rightarrow> (Inl e, fst s, w) | (None, w) \<Rightarrow> (Inr (), fst s, w))"

definition io_write_ignore :: "'w writer \<Rightarrow> bytes \<Rightarrow> ('w, unit) conn_io" where
  "io_write_ignore wr b s = (Inr (), fst s, snd (wr (snd s) b))"

named_theorems conn_simps

lemma io_simps [conn_simps]:
  "io_return x s = (Inr x, s)"
  "io_fail e s = (Inl e, s)"
  "io_lift r s = (r, s)"
  by (simp_all add: io_return_def io_fail_def io_lift_def)

lemma io_bind_Inr: "m s = (Inr x, s') \<Longrightarrow> io_bind m f s = f x s'"
  by (simp add: io_bind_def)

lemma io_bind_Inl: "m s = (Inl e, s') \<Longrightarrow> io_bind m f s = (Inl e, s')"
  by (simp add: io_bind_def)

lemma io_bind_prims [conn_simps]:
  "io_bind (io_return x) f s = f x s"
  "io_bind (io_fail e) f s = (Inl e, s)"
  "io_bind (io_lift (Inr x)) f s = f x s"
  "io_bind (io_lift (Inl e)) f s = (Inl e, s)"
  by (simp_all add: io_bind_def io_return_def io_fail_def io_lift_def)

lemma io_bind_write_ignore [conn_simps]:
  "io_bind (io_write_ignore wr b) f (r, w) = f () (r, snd (wr w b))"
  by (simp add: io_bind_def io_write_ignore_def)

lemma io_readFull_append [conn_simps]:
  "length x = n \<Longrightarrow> io_bind (io_readFull n) f (x @ r, w) = f x (r, w)"
  by (simp add: io_bind_def io_readFull_def)

lemma io_readFull_last [conn_simps]:
  "length x = n \<Longrightarrow> io_bind (io_readFull n) f (x, w) = f x ([], w)"
  using io_readFull_append [of x n f "[]" w] by simp

lemma io_readFull_short [conn_simps]:
  "length x < n \<Longrightarrow> io_bind (io_readFull n) f (x, w) = (Inl (if x = [] then EOF else UnexpectedEOF), [], w)"
  by (simp add: io_bind_def io_readFull_def readFull_def)

lemma io_write_buf [conn_simps]:
  "io_bind (io_write bufWrite b) f (r, w) = f () (r, w @ b)"
  "io_write bufWrite b (r, w) = (Inr (), r, w @ b)"
  "snd (bufWrite w b) = w @ b"
  by (simp_all add: io_bind_def io_write_def bufWrite_def)

text \<open>A computation that never indexes out of range, whatever it reads.\<close>

definition panic_free :: "('w, 'a) conn_io \<Rightarrow> bool" where
  "panic_free m \<longleftrightarrow> (\<forall>s. fst (m s) \<noteq> Inl Panic)"

lemma panic_free_bind:
  "panic_free m \<Longrightarrow> (\<And>x s s'. m s = (Inr x, s') \<Longrightarrow> panic_free (f x)) \<Longrightarrow> panic_free (io_bind m f)"
  by (auto simp: panic_free_def io_bind_def split: sum.splits prod.splits) (metis fst_conv)+

lemma panic_free_readFull [simp]: "panic_free (io_readFull n)"
  by (auto simp: panic_free_def io_readFull_def split: sum.splits prod.splits)

lemma panic_free_return [simp]: "panic_free (io_return x)" "panic_free (io_write_ignore wr b)"
  by (simp_all add: panic_free_def io_return_def io_write_ignore_def)

lemma panic_free_fail: "panic_free (io_fail e) \<longleftrightarrow> e \<noteq> Panic"
  by (simp add: panic_free_def io_fail_def)

lemma io_readFull_length: "io_readFull n s = (Inr x, s') \<Longrightarrow> length x = n"
  by (cases s) (auto simp: io_readFull_def readFull_def split: if_splits)

end
