(* ===== verification/Socks5.thy ===== *)
theory Socks5
  imports Go_Conn Go_HostPort
begin

text \<open>
  The SOCKS5 wire protocol, on the side that serves it (\<open>handleHandshake\<close> and the replies of
  \<open>client/socks5.go\<close> and \<open>exit/socks5.go\<close>), on the side that dials through an upstream
  (\<open>exit/service.go\<close>), and the datagram headers of UDP ASSOCIATE. Buffers filled by
  \<open>io.ReadFull\<close> are indexed within their length; the datagram parser slices a packet of
  any length, so its slice expressions are checked ones.
\<close>

section \<open>Serving a connection\<close>

definition socks5Reply :: "byte \<Rightarrow> bytes" where
  "socks5Reply rep = [0x05, rep, 0x00, 0x01, 0x00, 0x00, 0x00, 0x00, 0x00, 0x00]"

definition sendSocks5Reply :: "'w writer \<Rightarrow> byte \<Rightarrow> ('w, unit) conn_io" where
  "sendSocks5Reply wr rep = io_write wr (socks5Reply rep)"

definition readHost :: "'w writer \<Rightarrow> byte \<Rightarrow> ('w, string) conn_io" where
  "readHost wr atyp =
     (if atyp = 0x01 then io_bind (io_readFull 4) (\<lambda>addr. io_return (ip_String addr))
      else if atyp = 0x03 then
        io_bind (io_readFull 1) (\<lambda>buf.
        io_bind (io_readFull (unat (buf ! 0))) (\<lambda>domain. io_return (string_of_bytes domain)))
      else if atyp = 0x04 then io_bind (io_readFull 16) (\<lambda>addr. io_return (ip_String addr))
      else io_bind (io_write_ignore wr (socks5Reply 0x08)) (\<lambda>_.
           io_fail (Errorf (''unsupported atyp '' @ show_nat (unat atyp)))))"

definition handleHandshake :: "'w writer \<Rightarrow> ('w, string \<times> u16 \<times> byte) conn_io" where
  "handleHandshake wr =
     io_bind (io_readFull 2) (\<lambda>buf.
     if buf ! 0 \<noteq> 0x05 then io_fail (Errorf (''unsupported version '' @ show_nat (unat (buf ! 0)))) else
     io_bind (io_readFull (unat (buf ! 1))) (\<lambda>methods.
     if \<not> list_ex (\<lambda>m. m = 0x00) methods then
       io_bind (io_write_ignore wr [0x05, 0xFF]) (\<lambda>_. io_fail (Errorf ''no acceptable auth method''))
     else
     io_bind (io_write wr [0x05, 0x00]) (\<lambda>_.
     io_bind (io_readFull 4) (\<lambda>header.
     if header ! 0 \<noteq> 0x05 then
       io_fail (Errorf (''invalid request version '' @ show_nat (unat (header ! 0))))
     else if header ! 1 \<noteq> 0x01 \<and> header ! 1 \<noteq> 0x03 then
       io_bind (io_write_ignore wr (socks5Reply 0x07)) (\<lambda>_.
       io_fail (Errorf (''unsupported cmd '' @ show_nat (unat (header ! 1)))))
     else
     io_bind (readHost wr (header ! 3)) (\<lambda>host.
     io_bind (io_readFull 2) (\<lambda>portBuf.
     io_return (host, getUint16 portBuf, header ! 1)))))))"

text \<open>\<open>exit/socks5.go\<close> has the same two functions under other names.\<close>

definition sendExitSocks5Reply :: "'w writer \<Rightarrow> byte \<Rightarrow> ('w, unit) conn_io" where
  "sendExitSocks5Reply wr rep = io_write wr (socks5Reply rep)"

definition exit_handleHandshake :: "'w writer \<Rightarrow> ('w, string \<times> u16 \<times> byte) conn_io" where
  "exit_handleHandshake wr = handleHandshake wr"

definition sendSocks5ReplyWithBind :: "'w writer \<Rightarrow> byte \<Rightarrow> string \<Rightarrow> u16 \<Rightarrow> ('w, unit) conn_io" where
  "sendSocks5ReplyWithBind wr rep bindHost bindPort =
     (let ip = (case ParseIP bindHost of None \<Rightarrow> IPv4zero | Some ip \<Rightarrow> ip);
          ip4 = (case ip_To4 ip of None \<Rightarrow> IPv4zero | Some ip4 \<Rightarrow> ip4)
      in io_write wr [0x05, rep, 0x00, 0x01, ip4 ! 0, ip4 ! 1, ip4 ! 2, ip4 ! 3,
           ucast (drop_bit 8 bindPort), ucast bindPort])"

section \<open>Dialling through an upstream\<close>

definition buildSocks5ConnectRequest :: "string \<Rightarrow> int \<Rightarrow> bytes result" where
  "buildSocks5ConnectRequest targetHost targetPort =
     (let finish = (\<lambda>addr. Inr ([0x05, 0x01, 0x00] @ addr @ putUint16 (word_of_int targetPort)))
      in case ParseIP targetHost of
           Some ip \<Rightarrow>
             (case ip_To4 ip of
                Some v4 \<Rightarrow> finish (0x01 # v4)
              | None \<Rightarrow> finish (0x04 # (case ip_To16 ip of Some b \<Rightarrow> b | None \<Rightarrow> [])))
         | None \<Rightarrow>
             if length targetHost > 255 then Inl (Errorf ''target host too long'')
             else finish ([0x03, of_nat (length targetHost)] @ bytes_of_string targetHost))"

definition socks5ReplyMessage :: "byte \<Rightarrow> string" where
  "socks5ReplyMessage rep =
     (if rep = 0x01 then ''general failure''
      else if rep = 0x02 then ''connection not allowed''
      else if rep = 0x03 then ''network unreachable''
      else if rep = 0x04 then ''host unreachable''
      else if rep = 0x05 then ''connection refused''
      else if rep = 0x06 then ''ttl expired''
      else if rep = 0x07 then ''command not supported''
      else if rep = 0x08 then ''address type not supported''
      else ''reply code '' @ show_nat (unat rep))"

definition readSocks5ConnectReply :: "('w, unit) conn_io" where
  "readSocks5ConnectReply =
     io_bind (io_readFull 4) (\<lambda>header.
     if header ! 0 \<noteq> 0x05 then
       io_fail (Errorf (''invalid socks5 reply version '' @ show_nat (unat (header ! 0))))
     else if header ! 1 \<noteq> 0x00 then
       io_fail (Errorf (''socks5 connect rejected: '' @ socks5ReplyMessage (header ! 1)))
     else
     io_bind (if header ! 3 = 0x01 then io_return 4
              else if header ! 3 = 0x03 then
                io_bind (io_readFull 1) (\<lambda>size. io_return (unat (size ! 0)))
              else if header ! 3 = 0x04 then io_return 16
              else io_fail (Errorf (''unsupported socks5 reply atyp '' @ show_nat (unat (header ! 3)))))
       (\<lambda>addrLen. io_bind (io_readFull (addrLen + 2)) (\<lambda>_. io_return ())))"

text \<open>What \<open>dialViaSocks5Upstream\<close> does on the connection to the upstream once it is open.\<close>

definition socks5Connect :: "'w writer \<Rightarrow> string \<Rightarrow> int \<Rightarrow> ('w, unit) conn_io" where
  "socks5Connect wr targetHost targetPort =
     io_bind (io_write wr [0x05, 0x01, 0x00]) (\<lambda>_.
     io_bind (io_readFull 2) (\<lambda>reply.
     if reply ! 0 \<noteq> 0x05 \<or> reply ! 1 \<noteq> 0x00 then
       io_fail (Errorf (''socks5 auth rejected: ver='' @ show_nat (unat (reply ! 0)) @
                        '' method='' @ show_nat (unat (reply ! 1))))
     else
     io_bind (io_lift (buildSocks5ConnectRequest targetHost targetPort)) (\<lambda>req.
     io_bind (io_write wr req) (\<lambda>_.
     readSocks5ConnectReply))))"

section \<open>Datagrams\<close>

definition parseSocks5UDPRequest :: "bytes \<Rightarrow> (string \<times> int \<times> bytes) result" where
  "parseSocks5UDPRequest b =
     (if length b < 4 then Inl (Errorf ''packet too short'') else
      res_bind
        (if b ! 3 = 0x01 then
           (if length b < 10 then Inl (Errorf ''ipv4 too short'')
            else res_bind (go_slice b 4 8) (\<lambda>a. Inr (ip_String a, 10)))
         else if b ! 3 = 0x03 then
           (if length b < 5 then Inl (Errorf ''domain length missing'')
            else let dlen = unat (b ! 4)
                 in if length b < 7 + dlen then Inl (Errorf ''domain too short'')
                    else res_bind (go_slice b 5 (5 + dlen)) (\<lambda>d. Inr (string_of_bytes d, 5 + dlen + 2)))
         else if b ! 3 = 0x04 then
           (if length b < 22 then Inl (Errorf ''ipv6 too short'')
            else res_bind (go_slice b 4 20) (\<lambda>a. Inr (''['' @ ip_String a @ '']'', 22)))
         else Inl (Errorf (''unsupported atyp '' @ show_nat (unat (b ! 3)))))
        (\<lambda>(host, off).
           if length b < off + 2 then Inl (Errorf ''port missing'') else
           res_bind (go_slice b off (off + 2)) (\<lambda>p.
           res_bind (go_slice b (off + 2) (length b)) (\<lambda>payload.
           Inr (host, uint (getUint16 p), payload)))))"

definition buildSocks5UDPReply :: "string \<Rightarrow> int \<Rightarrow> bytes \<Rightarrow> bytes" where
  "buildSocks5UDPReply dstHost dstPort payload =
     (let port = putUint16 (word_of_int dstPort)
      in case Option.bind (ParseIP dstHost) ip_To4 of
           Some ip4 \<Rightarrow> [0, 0, 0, 0x01] @ ip4 @ port @ payload
         | None \<Rightarrow> [0, 0, 0, 0x03, of_nat (length dstHost)] @ bytes_of_string dstHost @ port @ payload)"

section \<open>Addresses that were parsed\<close>

lemma v4_fields_length: "v4_fields s vd acc = Some b \<Longrightarrow> length b = 4"
  by (induction s vd acc rule: v4_fields.induct) (auto simp: Let_def split: if_splits)

lemma parseIPv4_length: "parseIPv4 s = Some b \<Longrightarrow> length b = 4"
  unfolding parseIPv4_def by (rule v4_fields_length)

lemma v6_loop_length:
  assumes "v6_loop n s out ell = Some (s', out', ell')"
    and "length out + 2 * n \<le> 16" and "pred_option (\<lambda>e. e \<le> length out) ell"
  shows "length out' \<le> 16 \<and> pred_option (\<lambda>e. e \<le> length out') ell'"
  using assms
proof (induction n arbitrary: s out ell)
  case (Suc n)
  have IH: "length out' \<le> 16 \<and> pred_option (\<lambda>e. e \<le> length out') ell'"
    if "v6_loop n t (out @ [x, y]) l = Some (s', out', ell')"
      "pred_option (\<lambda>e. e \<le> length out + 2) l" for t x y l
    using that Suc.IH [of t "out @ [x, y]" l] Suc.prems(2) by simp
  have w: "pred_option (\<lambda>e. e \<le> length out + k) ell" for k
    using Suc.prems(3) by (cases ell) auto
  show ?case
    using Suc.prems w [of 2] w [of 4]
    by (auto simp: Let_def dest!: parseIPv4_length IH
        split: option.splits if_splits list.splits prod.splits)
qed auto

lemma v6_finish_length:
  "v6_finish (s, out, ell) = Some b \<Longrightarrow> length out \<le> 16 \<Longrightarrow> pred_option (\<lambda>e. e \<le> length out) ell \<Longrightarrow> length b = 16"
  by (auto simp: v6_finish_def split: if_splits option.splits)

lemma ParseIP_length: "ParseIP s = Some ip \<Longrightarrow> length ip = 16"
  by (auto simp: ParseIP_def parseIPv6_def IPv6unspecified_def v4InV6Prefix_def bind_eq_Some_conv
      dest!: parseIPv4_length v6_loop_length v6_finish_length split: list.splits if_splits)

section \<open>Both sides together\<close>

text \<open>The name under which a host arrives at the other side: addresses in their canonical text.\<close>

definition canonHost :: "string \<Rightarrow> string" where
  "canonHost host = (case ParseIP host of None \<Rightarrow> host | Some ip \<Rightarrow> ip_String ip)"

lemma ip_String_To4: "ip_To4 ip = Some v4 \<Longrightarrow> ip_String v4 = ip_String ip"
  using ip_To4_length [of ip v4] by (auto simp: ip_String_def ip_To4_def split: if_splits)

lemma readHost_v4 [conn_simps]:
  "length a = 4 \<Longrightarrow> io_bind (readHost wr 1) f (a @ r, w) = f (ip_String a) (r, w)"
  by (rule io_bind_Inr) (simp add: readHost_def conn_simps)

lemma readHost_v6 [conn_simps]:
  "length a = 16 \<Longrightarrow> io_bind (readHost wr 4) f (a @ r, w) = f (ip_String a) (r, w)"
  by (rule io_bind_Inr) (simp add: readHost_def conn_simps)

lemma io_readFull_Cons1 [conn_simps]: "io_bind (io_readFull (Suc 0)) f (a # r, w) = f [a] (r, w)"
  using io_readFull_append [of "[a]" "Suc 0" f r w] by simp

lemma readHost_name [conn_simps]:
  assumes "length h \<le> 255"
  shows "io_bind (readHost wr 3) f (of_nat (length h) # bytes_of_string h @ r, w) = f h (r, w)"
proof (rule io_bind_Inr)
  have n: "unat (of_nat (length h) :: byte) = length h" using assms by (simp add: unat_of_nat)
  show "readHost wr 3 (of_nat (length h) # bytes_of_string h @ r, w) = (Inr h, r, w)"
    by (simp add: readHost_def n conn_simps)
qed

lemma io_readFull_Cons2 [conn_simps]: "io_bind (io_readFull 2) f (a # b # r, w) = f [a, b] (r, w)"
  using io_readFull_append [of "[a, b]" 2 f r w] by simp

lemma io_readFull_Cons4 [conn_simps]: "io_bind (io_readFull 4) f (a # b # c # d # r, w) = f [a, b, c, d] (r, w)"
  using io_readFull_append [of "[a, b, c, d]" 4 f r w] by simp

lemma io_readFull_Cons6 [conn_simps]:
  "io_bind (io_readFull 6) g (a # b # c # d # e # f # r, w) = g [a, b, c, d, e, f] (r, w)"
  using io_readFull_append [of "[a, b, c, d, e, f]" 6 g r w] by simp

text \<open>The greeting with a single method, as clients send it, and a request behind it.\<close>

lemma handleHandshake_request:
  assumes "cmd = 1 \<or> cmd = 3"
  shows "handleHandshake bufWrite ([5, 1, 0, 5, cmd, rsv, atyp] @ r, w) =
    io_bind (readHost bufWrite atyp) (\<lambda>host. io_bind (io_readFull 2) (\<lambda>p. io_return (host, getUint16 p, cmd)))
      (r, w @ [5, 0])"
  using assms by (auto simp: handleHandshake_def conn_simps)

lemma handleHandshake_connect:
  "handleHandshake bufWrite ([5, 1, 0, 5, 1, 0, atyp] @ r, w) =
    io_bind (readHost bufWrite atyp) (\<lambda>host. io_bind (io_readFull 2) (\<lambda>p. io_return (host, getUint16 p, 1)))
      (r, w @ [5, 0])"
  by (rule handleHandshake_request) simp

lemma finish_request:
  "io_bind (io_readFull 2) (\<lambda>p. io_return (host, getUint16 p, cmd)) (putUint16 port @ rest, w) =
    (Inr (host, port, cmd), rest, w)"
  by (simp add: conn_simps)

text \<open>
  C26. The two sides of the SOCKS5 protocol agree: what the exit sends to dial a target through an
  upstream is understood by the server as a CONNECT to that target, names unchanged and
  addresses in canonical form, the port modulo 65536, with nothing read beyond the request.
\<close>

theorem socks5_request_roundtrip:
  assumes "buildSocks5ConnectRequest host port = Inr req"
  shows "handleHandshake bufWrite ([5, 1, 0] @ req @ rest, w) =
    (Inr (canonHost host, word_of_int port, 1), rest, w @ [5, 0])"
proof (cases "ParseIP host")
  case None
  then have len: "length host \<le> 255"
    and req: "req = [5, 1, 0, 3, of_nat (length host)] @ bytes_of_string host @ putUint16 (word_of_int port)"
    using assms by (auto simp: buildSocks5ConnectRequest_def split: if_splits)
  have "[5, 1, 0] @ req @ rest = [5, 1, 0, 5, 1, 0, 3] @
      of_nat (length host) # bytes_of_string host @ putUint16 (word_of_int port) @ rest"
    by (simp add: req)
  then show ?thesis
    using None len
    by (simp only: handleHandshake_connect readHost_name finish_request) (simp add: canonHost_def)
next
  case (Some ip)
  note len = ParseIP_length [OF Some]
  show ?thesis
  proof (cases "ip_To4 ip")
    case None
    then have "[5, 1, 0] @ req @ rest = [5, 1, 0, 5, 1, 0, 4] @ ip @ putUint16 (word_of_int port) @ rest"
      using assms Some len by (simp add: buildSocks5ConnectRequest_def ip_To16_def)
    then show ?thesis
      using len Some by (simp only: handleHandshake_connect readHost_v6 finish_request) (simp add: canonHost_def)
  next
    case v4: (Some v4)
    then have "[5, 1, 0] @ req @ rest = [5, 1, 0, 5, 1, 0, 1] @ v4 @ putUint16 (word_of_int port) @ rest"
      using assms Some by (simp add: buildSocks5ConnectRequest_def)
    then show ?thesis
      using ip_To4_length [OF v4] ip_String_To4 [OF v4] Some
      by (simp only: handleHandshake_connect readHost_v4 finish_request) (simp add: canonHost_def)
  qed
qed

lemma connect_request_example:
  "buildSocks5ConnectRequest ''a.io'' 443 = Inr [5, 1, 0, 3, 4, 97, 46, 105, 111, 1, 187]"
  by code_simp

lemma canonHost_example: "canonHost ''a.io'' = ''a.io''"
  by code_simp

theorem socks5_request_roundtrip_witness:
  "handleHandshake bufWrite ([5, 1, 0] @ [5, 1, 0, 3, 4, 97, 46, 105, 111, 1, 187] @ [42], []) =
    (Inr (''a.io'', 443, 1), [42], [5, 0])"
  using socks5_request_roundtrip [OF connect_request_example, of "[42]" "[]"] by (simp add: canonHost_example)

text \<open>
  The dialling side: with an upstream that accepts the greeting and answers with the reply of
  \<open>sendSocks5Reply\<close>, the dial succeeds exactly when the reply code is 0 and otherwise fails
  with the message of that code; on success nothing beyond the reply is consumed.
\<close>

lemma socks5_reply_understood:
  assumes "buildSocks5ConnectRequest host port = Inr req"
  shows "socks5Connect bufWrite host port ([5, 0] @ socks5Reply rep @ more, w) =
    (if rep = 0 then (Inr (), more, w @ [5, 1, 0] @ req)
     else (Inl (Errorf (''socks5 connect rejected: '' @ socks5ReplyMessage rep)),
           [0, 0, 0, 0, 0, 0] @ more, w @ [5, 1, 0] @ req))"
  using assms by (simp add: socks5Connect_def socks5Reply_def readSocks5ConnectReply_def conn_simps)

section \<open>Datagrams\<close>

text \<open>
  No datagram makes the parser index out of range.
\<close>

theorem parseSocks5UDPRequest_no_panic: "parseSocks5UDPRequest b \<noteq> Inl Panic"
  by (auto simp: parseSocks5UDPRequest_def go_slice_def Let_def split: if_splits)

text \<open>
  The parser skips the destination port of a datagram and takes the first two bytes of the
  data for it: a datagram as the protocol defines it, and as \<open>buildSocks5UDPReply\<close> builds
  it, for an IPv4 target is read as one to the port spelled by its data, with the data cut, and
  one with fewer than two bytes of data is rejected.
\<close>

theorem udp_port_read_from_data:
  assumes "Option.bind (ParseIP host) ip_To4 = Some ip4"
  shows "parseSocks5UDPRequest (buildSocks5UDPReply host port payload) =
    (if length payload < 2 then Inl (Errorf ''port missing'')
     else Inr (ip_String ip4, uint (getUint16 (take 2 payload)), drop 2 payload))"
proof -
  have l: "length ip4 = 4" using assms by (auto simp: bind_eq_Some_conv dest: ip_To4_length)
  obtain a b c d where ip4: "ip4 = [a, b, c, d]"
    using l by (auto simp: numeral_eq_Suc length_Suc_conv)
  obtain p q where port: "putUint16 (word_of_int port) = [p, q]"
    by (simp add: putUint16_def numeral_2_eq_2)
  have "buildSocks5UDPReply host port payload = [0, 0, 0, 1, a, b, c, d, p, q] @ payload"
    using assms ip4 port by (simp add: buildSocks5UDPReply_def)
  then show ?thesis by (simp add: parseSocks5UDPRequest_def go_slice_def ip4)
qed

lemma udp_example: "Option.bind (ParseIP ''1.2.3.4'') ip_To4 = Some [1, 2, 3, 4]"
  by code_simp

theorem udp_port_read_from_data_witness:
  "parseSocks5UDPRequest (buildSocks5UDPReply ''1.2.3.4'' 53 [0, 80, 7]) =
    Inr (ip_String [1, 2, 3, 4], 80, [7])"
proof -
  have "uint (getUint16 [0, 80]) = 80" by code_simp
  then show ?thesis using udp_port_read_from_data [OF udp_example, of 53 "[0, 80, 7]"] by simp
qed

end
