(* ===== verification/Tunnel.thy ===== *)
theory Tunnel
  imports Go_Conn Hop_Crypto
begin

text \<open>
  The end-to-end encrypted tunnel of \<open>internal/tunnel\<close>: JSON frames with a four-byte
  length (\<open>framing.go\<close>), the messages (\<open>types.go\<close>), the handshake and the sealing and opening
  of frames (\<open>session.go\<close>). Random bytes and clock readings are arguments.
\<close>

section \<open>Messages\<close>

definition FrameTypeClientHello :: string where "FrameTypeClientHello = ''client_hello''"
definition FrameTypeServerHello :: string where "FrameTypeServerHello = ''server_hello''"
definition FrameTypeData :: string where "FrameTypeData = ''data''"
definition FrameTypeClose :: string where "FrameTypeClose = ''close''"
definition FrameTypePing :: string where "FrameTypePing = ''ping''"
definition FrameTypePong :: string where "FrameTypePong = ''pong''"

lemmas FrameType_defs = FrameTypeClientHello_def FrameTypeServerHello_def FrameTypeData_def
  FrameTypeClose_def FrameTypePing_def FrameTypePong_def

record RouteHeader =
  rt_Version :: int
  rt_TunnelID :: string
  rt_Path :: "string list"
  rt_HopIndex :: int
  rt_TargetExit :: string

record ClientHello =
  ch_Type :: string
  ch_TunnelID :: string
  ch_PublicKey :: bytes
  ch_Timestamp :: int

record ServerHello =
  sh_Type :: string
  sh_TunnelID :: string
  sh_PublicKey :: bytes
  sh_Timestamp :: int

record EncryptedFrame =
  ef_Type :: string
  ef_Seq :: u64
  ef_Ciphertext :: bytes
  ef_SentAtUnix :: int

definition enc_RouteHeader :: "RouteHeader \<Rightarrow> json" where
  "enc_RouteHeader m = JObj [(''version'', jint (rt_Version m)), (''tunnel_id'', JStr (rt_TunnelID m)),
     (''path'', jstrings (rt_Path m)), (''hop_index'', jint (rt_HopIndex m)),
     (''target_exit'', JStr (rt_TargetExit m))]"
definition dec_RouteHeader :: "json \<Rightarrow> RouteHeader option" where
  "dec_RouteHeader j = Option.bind (json_members j) (\<lambda>fs.
     Option.bind (get_int64 ''version'' fs) (\<lambda>v.
     Option.bind (get_string ''tunnel_id'' fs) (\<lambda>t.
     Option.bind (get_strings ''path'' fs) (\<lambda>p.
     Option.bind (get_int64 ''hop_index'' fs) (\<lambda>h.
     map_option (\<lambda>e. \<lparr>rt_Version = v, rt_TunnelID = t, rt_Path = p, rt_HopIndex = h, rt_TargetExit = e\<rparr>)
       (get_string ''target_exit'' fs))))))"

definition enc_ClientHello :: "ClientHello \<Rightarrow> json" where
  "enc_ClientHello m = JObj [(''type'', JStr (ch_Type m)), (''tunnel_id'', JStr (ch_TunnelID m)),
     (''public_key'', jbytes (ch_PublicKey m)), (''timestamp'', jint (ch_Timestamp m))]"
definition dec_ClientHello :: "json \<Rightarrow> ClientHello option" where
  "dec_ClientHello j = Option.bind (json_members j) (\<lambda>fs.
     Option.bind (get_string ''type'' fs) (\<lambda>y.
     Option.bind (get_string ''tunnel_id'' fs) (\<lambda>t.
     Option.bind (get_bytes ''public_key'' fs) (\<lambda>k.
     map_option (\<lambda>s. \<lparr>ch_Type = y, ch_TunnelID = t, ch_PublicKey = k, ch_Timestamp = s\<rparr>)
       (get_int64 ''timestamp'' fs)))))"

definition enc_ServerHello :: "ServerHello \<Rightarrow> json" where
  "enc_ServerHello m = JObj [(''type'', JStr (sh_Type m)), (''tunnel_id'', JStr (sh_TunnelID m)),
     (''public_key'', jbytes (sh_PublicKey m)), (''timestamp'', jint (sh_Timestamp m))]"
definition dec_ServerHello :: "json \<Rightarrow> ServerHello option" where
  "dec_ServerHello j = Option.bind (json_members j) (\<lambda>fs.
     Option.bind (get_string ''type'' fs) (\<lambda>y.
     Option.bind (get_string ''tunnel_id'' fs) (\<lambda>t.
     Option.bind (get_bytes ''public_key'' fs) (\<lambda>k.
     map_option (\<lambda>s. \<lparr>sh_Type = y, sh_TunnelID = t, sh_PublicKey = k, sh_Timestamp = s\<rparr>)
       (get_int64 ''timestamp'' fs)))))"

definition enc_EncryptedFrame :: "EncryptedFrame \<Rightarrow> json" where
  "enc_EncryptedFrame m = JObj ([(''type'', JStr (ef_Type m)), (''seq'', jint (uint (ef_Seq m)))]
     @ omitempty (ef_Ciphertext m = []) ''ciphertext'' (jbytes (ef_Ciphertext m))
     @ omitempty (ef_SentAtUnix m = 0) ''sent_at_unix'' (jint (ef_SentAtUnix m)))"
definition dec_EncryptedFrame :: "json \<Rightarrow> EncryptedFrame option" where
  "dec_EncryptedFrame j = Option.bind (json_members j) (\<lambda>fs.
     Option.bind (get_string ''type'' fs) (\<lambda>y.
     Option.bind (get_uint 64 ''seq'' fs) (\<lambda>q.
     Option.bind (get_bytes ''ciphertext'' fs) (\<lambda>c.
     map_option (\<lambda>s. \<lparr>ef_Type = y, ef_Seq = of_int q, ef_Ciphertext = c, ef_SentAtUnix = s\<rparr>)
       (get_int64 ''sent_at_unix'' fs)))))"

lemma toLower_tunnel_names:
  "toLower ''version'' = ''version''" "toLower ''tunnel_id'' = ''tunnel_id''" "toLower ''path'' = ''path''"
  "toLower ''target_exit'' = ''target_exit''" "toLower ''type'' = ''type''"
  "toLower ''public_key'' = ''public_key''" "toLower ''timestamp'' = ''timestamp''" "toLower ''seq'' = ''seq''"
  by (simp_all add: toLower_def to_lower_char_def)

lemma uint_u64_bound [simp]: "uint (x :: u64) \<le> 18446744073709551615"
  using unsigned_less [of x, where 'a = int] by simp

lemma get_bytes_absent [simp]: "json_field n fs = JNull \<Longrightarrow> get_bytes n fs = Some []"
  by (simp add: get_bytes_def)

lemmas tunnel_codec_simps = json_codec_simps toLower_tunnel_names

interpretation codec_RouteHeader: json_codec enc_RouteHeader dec_RouteHeader
  "\<lambda>m. int64_ok (rt_Version m) \<and> ascii (rt_TunnelID m) \<and> list_all ascii (rt_Path m) \<and>
       int64_ok (rt_HopIndex m) \<and> ascii (rt_TargetExit m)"
  by unfold_locales (auto simp: enc_RouteHeader_def dec_RouteHeader_def tunnel_codec_simps)

interpretation codec_ClientHello: json_codec enc_ClientHello dec_ClientHello
  "\<lambda>m. ascii (ch_Type m) \<and> ascii (ch_TunnelID m) \<and> int64_ok (ch_Timestamp m)"
  by unfold_locales (auto simp: enc_ClientHello_def dec_ClientHello_def tunnel_codec_simps)

interpretation codec_ServerHello: json_codec enc_ServerHello dec_ServerHello
  "\<lambda>m. ascii (sh_Type m) \<and> ascii (sh_TunnelID m) \<and> int64_ok (sh_Timestamp m)"
  by unfold_locales (auto simp: enc_ServerHello_def dec_ServerHello_def tunnel_codec_simps)

interpretation codec_EncryptedFrame: json_codec enc_EncryptedFrame dec_EncryptedFrame
  "\<lambda>m. ascii (ef_Type m) \<and> int64_ok (ef_SentAtUnix m)"
  by unfold_locales (auto simp: enc_EncryptedFrame_def dec_EncryptedFrame_def tunnel_codec_simps)

section \<open>Frames\<close>

definition MaxJSONFrameSize :: nat where "MaxJSONFrameSize = 16 * 2 ^ 20"

definition WriteJSONFrame :: "('a \<Rightarrow> json) \<Rightarrow> 'w writer \<Rightarrow> 'a \<Rightarrow> ('w, unit) conn_io" where
  "WriteJSONFrame enc wr v =
     (let data = json_marshal enc v
      in if length data > MaxJSONFrameSize
         then io_fail (Errorf (''frame too large: '' @ show_nat (length data)))
         else io_bind (io_write wr (putUint32 (of_nat (length data)))) (\<lambda>_. io_write wr data))"

definition ReadJSONFrame :: "(json \<Rightarrow> 'a option) \<Rightarrow> ('w, 'a) conn_io" where
  "ReadJSONFrame dec =
     io_bind (io_readFull 4) (\<lambda>size.
     let n = unat (getUint32 size) in
     if n = 0 \<or> n > MaxJSONFrameSize then io_fail (Errorf (''invalid frame size '' @ show_nat n)) else
     io_bind (io_readFull n) (\<lambda>data.
     io_lift (of_option (Errorf ''json'') (json_unmarshal dec data))))"

section \<open>Sessions\<close>

record Session =
  TunnelID :: string
  txKey :: bytes
  rxKey :: bytes
  txCounter :: u64
  rxCounter :: u64

definition newSessionFromKeys :: "crypto \<Rightarrow> string \<Rightarrow> bytes \<Rightarrow> bytes \<Rightarrow> bool \<Rightarrow> Session result" where
  "newSessionFromKeys C tunnelID localPriv remotePub clientSide =
     res_bind (X25519SharedSecret C localPriv remotePub) (\<lambda>shared.
     let (fwd, bwd) = DeriveHopKeys C shared
     in Inr (if clientSide then \<lparr>TunnelID = tunnelID, txKey = fwd, rxKey = bwd, txCounter = 0, rxCounter = 0\<rparr>
             else \<lparr>TunnelID = tunnelID, txKey = bwd, rxKey = fwd, txCounter = 0, rxCounter = 0\<rparr>))"

definition clientHello :: "string \<Rightarrow> bytes \<Rightarrow> int \<Rightarrow> ClientHello" where
  "clientHello tunnelID pub now =
     \<lparr>ch_Type = FrameTypeClientHello, ch_TunnelID = tunnelID, ch_PublicKey = pub, ch_Timestamp = now\<rparr>"

definition serverHello :: "string \<Rightarrow> bytes \<Rightarrow> int \<Rightarrow> ServerHello" where
  "serverHello tunnelID pub now =
     \<lparr>sh_Type = FrameTypeServerHello, sh_TunnelID = tunnelID, sh_PublicKey = pub, sh_Timestamp = now\<rparr>"

definition ClientHandshake :: "crypto \<Rightarrow> bytes \<Rightarrow> int \<Rightarrow> 'w writer \<Rightarrow> string \<Rightarrow> ('w, Session) conn_io" where
  "ClientHandshake C rnd now wr tunnelID =
     io_bind (io_lift (GenerateEphemeralKeyPair C rnd)) (\<lambda>(priv, pub).
     io_bind (WriteJSONFrame enc_ClientHello wr (clientHello tunnelID pub now)) (\<lambda>_.
     io_bind (ReadJSONFrame dec_ServerHello) (\<lambda>resp.
     if sh_Type resp \<noteq> FrameTypeServerHello \<or> sh_TunnelID resp \<noteq> tunnelID
        \<or> length (sh_PublicKey resp) \<noteq> X25519KeySize
     then io_fail (Errorf ''invalid server hello'')
     else io_lift (newSessionFromKeys C tunnelID priv (sh_PublicKey resp) True))))"

definition ServerHandshake :: "crypto \<Rightarrow> bytes \<Rightarrow> int \<Rightarrow> 'w writer \<Rightarrow> string \<Rightarrow> ('w, Session) conn_io" where
  "ServerHandshake C rnd now wr tunnelID =
     io_bind (ReadJSONFrame dec_ClientHello) (\<lambda>hello.
     if ch_Type hello \<noteq> FrameTypeClientHello \<or> ch_TunnelID hello \<noteq> tunnelID
        \<or> length (ch_PublicKey hello) \<noteq> X25519KeySize
     then io_fail (Errorf ''invalid client hello'')
     else io_bind (io_lift (GenerateEphemeralKeyPair C rnd)) (\<lambda>(priv, pub).
          io_bind (WriteJSONFrame enc_ServerHello wr (serverHello tunnelID pub now)) (\<lambda>_.
          io_lift (newSessionFromKeys C tunnelID priv (ch_PublicKey hello) False))))"

definition buildAAD :: "string \<Rightarrow> string \<Rightarrow> u64 \<Rightarrow> bytes" where
  "buildAAD tunnelID frameType seq =
     bytes_of_string tunnelID @ [0] @ bytes_of_string frameType @ [0] @ bytes_of_string (show_nat (unat seq))"

definition Seal :: "crypto \<Rightarrow> int \<Rightarrow> Session \<Rightarrow> string \<Rightarrow> bytes \<Rightarrow> (EncryptedFrame \<times> Session) result" where
  "Seal C now s frameType plaintext =
     res_bind (AEADSeal C (txKey s) (BuildAEADNonce ''fwd'' (txCounter s)) plaintext
                 (buildAAD (TunnelID s) frameType (txCounter s))) (\<lambda>ct.
     Inr (\<lparr>ef_Type = frameType, ef_Seq = txCounter s, ef_Ciphertext = ct, ef_SentAtUnix = now\<rparr>,
          s\<lparr>txCounter := txCounter s + 1\<rparr>))"

definition Open :: "crypto \<Rightarrow> Session \<Rightarrow> EncryptedFrame \<Rightarrow> (bytes \<times> Session) result" where
  "Open C s frame =
     res_bind (AEADOpen C (rxKey s) (BuildAEADNonce ''fwd'' (ef_Seq frame)) (ef_Ciphertext frame)
                 (buildAAD (TunnelID s) (ef_Type frame) (ef_Seq frame))) (\<lambda>plain.
     Inr (plain, s\<lparr>rxCounter := ef_Seq frame + 1\<rparr>))"

section \<open>Frames are read as written\<close>

text \<open>A value whose frame is within the limit.\<close>

definition fits :: "('a \<Rightarrow> json) \<Rightarrow> 'a \<Rightarrow> bool" where
  "fits enc v \<longleftrightarrow> 0 < length (json_marshal enc v) \<and> length (json_marshal enc v) \<le> MaxJSONFrameSize"

definition jsonFrame :: "('a \<Rightarrow> json) \<Rightarrow> 'a \<Rightarrow> bytes" where
  "jsonFrame enc v = putUint32 (of_nat (length (json_marshal enc v))) @ json_marshal enc v"

lemma WriteJSONFrame_fits:
  "fits enc v \<Longrightarrow> WriteJSONFrame enc bufWrite v (r, w) = (Inr (), r, w @ jsonFrame enc v)"
  by (simp add: WriteJSONFrame_def fits_def jsonFrame_def Let_def conn_simps)

lemma WriteJSONFrame_too_large:
  "MaxJSONFrameSize < length (json_marshal enc v) \<Longrightarrow> \<exists>e. WriteJSONFrame enc wr v s = (Inl (Errorf e), s)"
  by (simp add: WriteJSONFrame_def fits_def Let_def conn_simps)

lemma unat_frame_size:
  "n \<le> MaxJSONFrameSize \<Longrightarrow> unat (getUint32 (putUint32 (of_nat n))) = n"
  by (simp add: MaxJSONFrameSize_def unat_of_nat)

lemma ReadJSONFrame_jsonFrame:
  assumes "fits enc v"
  shows "ReadJSONFrame dec (jsonFrame enc v @ rest, w) =
    (of_option (Errorf ''json'') (json_unmarshal dec (json_marshal enc v)), rest, w)"
proof -
  let ?d = "json_marshal enc v"
  have n: "unat (getUint32 (putUint32 (of_nat (length ?d)))) = length ?d"
    using assms by (simp only: fits_def unat_frame_size)
  have "ReadJSONFrame dec (putUint32 (of_nat (length ?d)) @ ?d @ rest, w) =
    io_bind (io_readFull (length ?d)) (\<lambda>data. io_lift (of_option (Errorf ''json'') (json_unmarshal dec data))) (?d @ rest, w)"
    using assms n
    by (simp add: ReadJSONFrame_def io_readFull_append Let_def fits_def del: get_putUint32)
  then show ?thesis by (simp add: jsonFrame_def conn_simps)
qed

lemma bind_WriteJSONFrame [conn_simps]:
  "fits enc v \<Longrightarrow> io_bind (WriteJSONFrame enc bufWrite v) f (r, w) = f () (r, w @ jsonFrame enc v)"
  by (rule io_bind_Inr) (rule WriteJSONFrame_fits)

lemma bind_ReadJSONFrame [conn_simps]:
  "fits enc v \<Longrightarrow> json_unmarshal dec (json_marshal enc v) = Some v \<Longrightarrow>
   io_bind (ReadJSONFrame dec) f (jsonFrame enc v @ rest, w) = f v (rest, w)"
  by (rule io_bind_Inr) (simp add: ReadJSONFrame_jsonFrame)

section \<open>Two ends of a tunnel\<close>

text \<open>The sessions belong together: each end receives with the key the other sends with.\<close>

definition paired :: "Session \<Rightarrow> Session \<Rightarrow> bool" where
  "paired a b \<longleftrightarrow> TunnelID a = TunnelID b \<and> rxKey b = txKey a \<and> rxKey a = txKey b \<and>
     length (txKey a) = AEADKeySize \<and> length (txKey b) = AEADKeySize"

lemma newSessionFromKeys_paired:
  assumes "dh_agree C a b" "hkdf_sized C" "length a = X25519KeySize" "length b = X25519KeySize"
    and "x25519 C a (x25519_base C) = Some pa" "x25519 C b (x25519_base C) = Some pb"
  shows "\<exists>c s. newSessionFromKeys C tid a pb True = Inr c \<and> newSessionFromKeys C tid b pa False = Inr s \<and>
    paired c s \<and> txCounter c = 0 \<and> txCounter s = 0"
proof -
  obtain k where k: "x25519 C a pb = Some k" "x25519 C b pa = Some k" "length pa = 32" "length pb = 32"
    using assms by (auto simp: dh_agree_def)
  obtain f g where fg: "DeriveHopKeys C k = (f, g)" by (cases "DeriveHopKeys C k")
  then show ?thesis
    using k assms length_DeriveHopKeys [OF assms(2) fg]
    by (simp add: newSessionFromKeys_def X25519SharedSecret_def X25519KeySize_def paired_def)
qed

lemma handshake_completes:
  assumes laws: "dh_agree C a b" "hkdf_sized C"
    and gen: "GenerateEphemeralKeyPair C rc = Inr (a, pa)" "GenerateEphemeralKeyPair C rs = Inr (b, pb)"
    and msg: "ascii tid" "int64_ok t" "int64_ok t'"
    and fit: "fits enc_ClientHello (clientHello tid pa t)" "fits enc_ServerHello (serverHello tid pb t')"
  shows "\<exists>c s. (\<forall>rest w. ServerHandshake C rs t' bufWrite tid (jsonFrame enc_ClientHello (clientHello tid pa t) @ rest, w) =
        (Inr s, rest, w @ jsonFrame enc_ServerHello (serverHello tid pb t'))) \<and>
    (\<forall>rest w. ClientHandshake C rc t bufWrite tid (jsonFrame enc_ServerHello (serverHello tid pb t') @ rest, w) =
        (Inr c, rest, w @ jsonFrame enc_ClientHello (clientHello tid pa t))) \<and>
    paired c s \<and> txCounter c = 0 \<and> txCounter s = 0"
proof -
  note keys = GenerateEphemeralKeyPair_priv [OF gen(1)] GenerateEphemeralKeyPair_priv [OF gen(2)]
  have pub: "length pa = X25519KeySize" "length pb = X25519KeySize"
    using laws(1) keys by (auto simp: dh_agree_def X25519KeySize_def)
  obtain c s where sess: "newSessionFromKeys C tid a pb True = Inr c" "newSessionFromKeys C tid b pa False = Inr s"
      "paired c s" "txCounter c = 0" "txCounter s = 0"
    using newSessionFromKeys_paired [OF laws, of pa pb tid] keys by auto
  have dec: "json_unmarshal dec_ClientHello (json_marshal enc_ClientHello (clientHello tid pa t)) = Some (clientHello tid pa t)"
      "json_unmarshal dec_ServerHello (json_marshal enc_ServerHello (serverHello tid pb t')) = Some (serverHello tid pb t')"
    using msg by (auto simp: clientHello_def serverHello_def FrameType_defs
        intro!: codec_ClientHello.unmarshal_marshal codec_ServerHello.unmarshal_marshal)
  have "ServerHandshake C rs t' bufWrite tid (jsonFrame enc_ClientHello (clientHello tid pa t) @ rest, w) =
      (Inr s, rest, w @ jsonFrame enc_ServerHello (serverHello tid pb t'))" for rest w
    using fit dec gen sess pub
    by (simp add: ServerHandshake_def conn_simps) (simp add: clientHello_def)
  moreover have "ClientHandshake C rc t bufWrite tid (jsonFrame enc_ServerHello (serverHello tid pb t') @ rest, w) =
      (Inr c, rest, w @ jsonFrame enc_ClientHello (clientHello tid pa t))" for rest w
    using fit dec gen sess pub
    by (simp add: ClientHandshake_def conn_simps) (simp add: serverHello_def)
  ultimately show ?thesis using sess by blast
qed

text \<open>
  The handshake completes: the server, fed the bytes the client writes, answers with bytes on
  which the client completes too, both consume exactly the other's hello, and the two sessions
  use each other's keys.
\<close>

theorem handshake_agrees:
  assumes laws: "dh_agree C a b" "hkdf_sized C"
    and gen: "GenerateEphemeralKeyPair C rc = Inr (a, pa)" "GenerateEphemeralKeyPair C rs = Inr (b, pb)"
    and msg: "ascii tid" "int64_ok t" "int64_ok t'"
    and fit: "fits enc_ClientHello (clientHello tid pa t)" "fits enc_ServerHello (serverHello tid pb t')"
  shows "\<exists>hello resp c s.
    ServerHandshake C rs t' bufWrite tid (hello @ rest', w') = (Inr s, rest', w' @ resp) \<and>
    ClientHandshake C rc t bufWrite tid (resp @ rest, w) = (Inr c, rest, w @ hello) \<and>
    paired c s \<and> txCounter c = 0 \<and> txCounter s = 0"
  using handshake_completes [OF assms] by blast

section \<open>Data\<close>

text \<open>The frames an end writes for a sequence of chunks, and what the other end makes of them.\<close>

fun sealAll :: "crypto \<Rightarrow> int \<Rightarrow> Session \<Rightarrow> bytes list \<Rightarrow> (EncryptedFrame list \<times> Session) result" where
  "sealAll C now s [] = Inr ([], s)"
| "sealAll C now s (p # ps) = res_bind (Seal C now s FrameTypeData p) (\<lambda>(f, s1).
     res_bind (sealAll C now s1 ps) (\<lambda>(fs, s2). Inr (f # fs, s2)))"

fun openAll :: "crypto \<Rightarrow> Session \<Rightarrow> EncryptedFrame list \<Rightarrow> (bytes list \<times> Session) result" where
  "openAll C s [] = Inr ([], s)"
| "openAll C s (f # fs) = res_bind (Open C s f) (\<lambda>(p, s1).
     res_bind (openAll C s1 fs) (\<lambda>(ps, s2). Inr (p # ps, s2)))"

lemma Open_Seal:
  assumes "aead_correct C" "paired a b" "Seal C now a ty p = Inr (f, a')"
  shows "Open C b f = Inr (p, b\<lparr>rxCounter := txCounter a + 1\<rparr>) \<and> a' = a\<lparr>txCounter := txCounter a + 1\<rparr>"
  using assms by (auto simp: Seal_def Open_def paired_def)

lemma paired_counters [simp]:
  "paired (a\<lparr>txCounter := x\<rparr>) b = paired a b" "paired a (b\<lparr>rxCounter := y\<rparr>) = paired a b"
  by (simp_all add: paired_def)

lemma Seal_paired:
  "aead_correct C \<Longrightarrow> paired a b \<Longrightarrow> \<exists>f. Seal C now a ty p = Inr (f, a\<lparr>txCounter := txCounter a + 1\<rparr>)"
  by (simp add: Seal_def paired_def)

lemma openAll_sealAll:
  assumes "aead_correct C" "paired a b"
  shows "\<exists>fs b'. sealAll C now a ps = Inr (fs, a\<lparr>txCounter := txCounter a + of_nat (length ps)\<rparr>) \<and>
    openAll C b fs = Inr (ps, b')"
  using assms(2)
proof (induction ps arbitrary: a b)
  case (Cons p ps)
  obtain f where f: "Seal C now a FrameTypeData p = Inr (f, a\<lparr>txCounter := txCounter a + 1\<rparr>)"
    using Seal_paired [OF assms(1) Cons.prems] by blast
  have o: "Open C b f = Inr (p, b\<lparr>rxCounter := txCounter a + 1\<rparr>)"
    using Open_Seal [OF assms(1) Cons.prems f] by blast
  have "paired (a\<lparr>txCounter := txCounter a + 1\<rparr>) (b\<lparr>rxCounter := txCounter a + 1\<rparr>)"
    using Cons.prems by simp
  from Cons.IH [OF this] f o show ?case by (fastforce simp: algebra_simps)
qed auto

text \<open>
  Whatever chunks one end seals, the other end opens as the same chunks in the same order.
\<close>

theorem tunnel_delivers:
  assumes "aead_correct C" "paired a b"
  shows "\<exists>fs a' b'. sealAll C now a chunks = Inr (fs, a') \<and> openAll C b fs = Inr (chunks, b')"
  using openAll_sealAll [OF assms] by blast

definition demo_end :: "bool \<Rightarrow> Session" where
  "demo_end client = \<lparr>TunnelID = ''t'', txKey = replicate 32 (if client then 1 else 2),
     rxKey = replicate 32 (if client then 2 else 1), txCounter = 0, rxCounter = 0\<rparr>"

lemma demo_paired: "paired (demo_end True) (demo_end False)"
  by (simp add: paired_def demo_end_def AEADKeySize_def)

theorem tunnel_delivers_witness:
  "\<exists>fs a' b'. sealAll demo_crypto 7 (demo_end True) [[1, 2], [], [3]] = Inr (fs, a') \<and>
    openAll demo_crypto (demo_end False) fs = Inr ([[1, 2], [], [3]], b')"
  by (rule tunnel_delivers [OF demo_aead_correct demo_paired])

text \<open>
  A frame that was opened once opens again: \<open>Open\<close> takes the nonce from the frame and never
  compares its sequence number with the counter it keeps, so a recorded frame can be replayed,
  and frames can be dropped or reordered, without either end noticing.
\<close>

theorem replayed_frame_opens:
  assumes "Open C s f = Inr (p, s')"
  shows "Open C s' f = Inr (p, s')"
  using assms by (auto simp: Open_def go_simps)

theorem replayed_frame_opens_witness:
  "\<exists>f a' s'. Seal demo_crypto 7 (demo_end True) FrameTypeData [1, 2] = Inr (f, a') \<and>
     Open demo_crypto (demo_end False) f = Inr ([1, 2], s') \<and> Open demo_crypto s' f = Inr ([1, 2], s')"
proof -
  obtain f a' where f: "Seal demo_crypto 7 (demo_end True) FrameTypeData [1, 2] = Inr (f, a')"
    using Seal_paired [OF demo_aead_correct demo_paired] by blast
  then obtain s' where "Open demo_crypto (demo_end False) f = Inr ([1, 2], s')"
    using Open_Seal [OF demo_aead_correct demo_paired] by blast
  with f replayed_frame_opens [OF this] show ?thesis by blast
qed

definition demo_rnd :: "byte \<Rightarrow> bytes" where "demo_rnd b = replicate 32 b"

definition demo_hello_size :: "nat \<times> nat" where
  "demo_hello_size = (case (GenerateEphemeralKeyPair demo_crypto (demo_rnd 1), GenerateEphemeralKeyPair demo_crypto (demo_rnd 2)) of
     (Inr (a, pa), Inr (b, pb)) \<Rightarrow>
        (length (json_marshal enc_ClientHello (clientHello ''t'' pa 1)),
         length (json_marshal enc_ServerHello (serverHello ''t'' pb 2)))
   | _ \<Rightarrow> (0, 0))"

lemma demo_hello_size_eq: "demo_hello_size = (113, 113)"
  by code_simp

theorem handshake_agrees_witness:
  "\<exists>hello resp c s.
    ServerHandshake demo_crypto (demo_rnd 2) 2 bufWrite ''t'' (hello @ [9], []) = (Inr s, [9], [] @ resp) \<and>
    ClientHandshake demo_crypto (demo_rnd 1) 1 bufWrite ''t'' (resp @ [8], []) = (Inr c, [8], [] @ hello) \<and>
    paired c s \<and> txCounter c = 0 \<and> txCounter s = 0"
proof -
  obtain a pa b pb where g: "GenerateEphemeralKeyPair demo_crypto (demo_rnd 1) = Inr (a, pa)"
      "GenerateEphemeralKeyPair demo_crypto (demo_rnd 2) = Inr (b, pb)"
    using demo_hello_size_eq by (auto simp: demo_hello_size_def split: sum.splits)
  note keys = GenerateEphemeralKeyPair_priv [OF g(1)] GenerateEphemeralKeyPair_priv [OF g(2)]
  have dh: "dh_agree demo_crypto a b" using keys by (simp add: demo_dh_agree X25519KeySize_def)
  have fit: "fits enc_ClientHello (clientHello ''t'' pa 1)" "fits enc_ServerHello (serverHello ''t'' pb 2)"
    using demo_hello_size_eq by (simp_all add: demo_hello_size_def g fits_def MaxJSONFrameSize_def)
  show ?thesis
    by (rule handshake_agrees [OF dh demo_hkdf_sized g _ _ _ fit]) (simp_all add: int64_ok_def)
qed

end
