(* ===== verification/Relay_Service.thy ===== *)
theory Relay_Service
  imports Onion Frames Tunnel Circuit_Store
begin

text \<open>
  The relay of \<open>internal/relay/service.go\<close>: the key exchange with the client, the loop that
  peels one layer of every onion cell and forwards the rest, the pump that wraps what comes
  back, and the pass-through of raw tunnels, whose route headers are followed hop by hop
  through the dispatcher of \<open>app.go\<close>. The libp2p host is the record \<open>relay_env\<close>. A stream's
  session is reached through a pointer that the service map, the loop and the pump share; here
  it lives in the map.
\<close>

section \<open>State\<close>

record relay_env =
  re_Decode :: "string \<Rightarrow> string option"
  re_NewStream :: "string \<Rightarrow> string option"
  re_writeOk :: "string \<Rightarrow> bool"

record RelayService =
  sessionsByStream :: "string \<rightharpoonup> HopSession"
  nextHopStreams :: "string \<rightharpoonup> string"
  rs_traffic :: "Recorder option"

definition NewRelayService :: "Recorder option \<Rightarrow> RelayService" where
  "NewRelayService trafficStats = \<lparr>sessionsByStream = Map.empty, nextHopStreams = Map.empty, rs_traffic = trafficStats\<rparr>"

definition rs_recordTraffic :: "RelayService \<Rightarrow> u64 \<Rightarrow> u64 \<Rightarrow> RelayService" where
  "rs_recordTraffic s sent recv =
     (if rs_traffic s = None \<or> sent = 0 \<and> recv = 0 then s
      else s\<lparr>rs_traffic := tr_Add (rs_traffic s) sent recv\<rparr>)"

text \<open>What the service does to the outside: frames written and the pump started.\<close>

datatype relay_action =
    WriteNext string Frame
  | WriteClient Frame
  | StartPump string string

section \<open>Key exchange\<close>

definition relayAccept ::
  "crypto \<Rightarrow> bytes \<Rightarrow> int \<Rightarrow> RelayService \<Rightarrow> string \<Rightarrow> Frame \<Rightarrow> (RelayService \<times> relay_action list) option" where
  "relayAccept C rnd now s streamID initFrame =
     (if f_Type initFrame \<noteq> MsgTypeKeyExchangeInit then None
      else case json_unmarshal dec_KeyExchangeInit (f_PayloadJSON initFrame) of
        None \<Rightarrow> None
      | Some initMsg \<Rightarrow>
          if length (ki_Payload initMsg) \<noteq> X25519KeySize then None
          else case GenerateEphemeralKeyPair C rnd of
            Inl _ \<Rightarrow> None
          | Inr (relayPriv, relayPub) \<Rightarrow>
              (case NewHopSessionFromKeyExchange C (f_CircuitID initFrame @ ''-client'') HopRoleRelay
                      relayPriv (ki_Payload initMsg) now of
                 Inl _ \<Rightarrow> None
               | Inr session \<Rightarrow>
                   Some (s\<lparr>sessionsByStream := (sessionsByStream s)(streamID \<mapsto> session)\<rparr>,
                         [WriteClient (NewKeyExchangeRespFrame (f_CircuitID initFrame) relayPub)])))"

section \<open>Forward\<close>

text \<open>The frame for the next hop: a key exchange on extend, the inner cell otherwise.\<close>

definition forwardFrame :: "Frame \<Rightarrow> RelayLayerHeader \<Rightarrow> bytes \<Rightarrow> Frame" where
  "forwardFrame frame header innerCipher =
     (if rh_InnerPayloadType header = InnerPayloadTypeKeyExchange \<and> length innerCipher = X25519KeySize
      then NewKeyExchangeInitFrame (f_CircuitID frame) innerCipher
      else \<lparr>f_Type = MsgTypeOnionData, f_CircuitID = f_CircuitID frame, f_StreamID = f_StreamID frame,
            f_PayloadJSON = json_marshal enc_OnionCell \<lparr>oc_HopIndex = 0, oc_Ciphertext = innerCipher\<rparr>\<rparr>)"

definition sendNext ::
  "relay_env \<Rightarrow> RelayService \<Rightarrow> string \<Rightarrow> Frame \<Rightarrow> RelayService \<times> relay_action list" where
  "sendNext E s nextStr out =
     (if re_writeOk E nextStr
      then (rs_recordTraffic s 0 (of_nat (length (f_PayloadJSON out))), [WriteNext nextStr out])
      else (s, []))"

text \<open>
  One round of the loop of \<open>serveStream\<close>. \<open>continue\<close> is a result without actions; the
  slice \<open>NextPeerID[:8]\<close> of the log line can panic.
\<close>

definition relayForward ::
  "crypto \<Rightarrow> relay_env \<Rightarrow> RelayService \<Rightarrow> string \<Rightarrow> Frame \<Rightarrow> (RelayService \<times> relay_action list) result" where
  "relayForward C E s streamID frame =
     (if f_Type frame \<noteq> MsgTypeOnionData then Inr (s, [])
      else case (json_unmarshal dec_OnionCell (f_PayloadJSON frame), sessionsByStream s streamID) of
        (Some cell, Some session) \<Rightarrow>
          (let (r, session') = UnwrapForward C session (f_CircuitID frame) (f_StreamID frame) (oc_Ciphertext cell);
               s1 = s\<lparr>sessionsByStream := (sessionsByStream s)(streamID \<mapsto> session')\<rparr>
           in case r of
                Inl _ \<Rightarrow> Inr (s1, [])
              | Inr (header, innerCipher) \<Rightarrow>
                  res_bind (go_slice (rh_NextPeerID header) 0 8) (\<lambda>_.
                  case re_Decode E (rh_NextPeerID header) of
                    None \<Rightarrow> Inr (s1, [])
                  | Some nextPeerID \<Rightarrow>
                      (case nextHopStreams s1 (f_CircuitID frame) of
                         Some nextStr \<Rightarrow> Inr (sendNext E s1 nextStr (forwardFrame frame header innerCipher))
                       | None \<Rightarrow>
                           (case re_NewStream E nextPeerID of
                              None \<Rightarrow> Inr (s1, [])
                            | Some nextStr \<Rightarrow>
                                let s2 = s1\<lparr>nextHopStreams := (nextHopStreams s1)(f_CircuitID frame \<mapsto> nextStr)\<rparr>;
                                    (s3, acts) = sendNext E s2 nextStr (forwardFrame frame header innerCipher)
                                in Inr (s3, StartPump (f_CircuitID frame) nextStr # acts)))))
      | _ \<Rightarrow> Inr (s, []))"

section \<open>Backward\<close>

text \<open>The plaintext \<open>pumpNextHopToClient\<close> takes from a frame; empty means the frame is skipped.\<close>

definition backwardPlain :: "Frame \<Rightarrow> bytes" where
  "backwardPlain frame =
     (if f_Type frame = MsgTypeKeyExchangeResp then
        (case json_unmarshal dec_KeyExchangeResp (f_PayloadJSON frame) of
           Some resp \<Rightarrow> if length (kr_Payload resp) = X25519KeySize then kr_Payload resp else []
         | None \<Rightarrow> [])
      else if f_Type frame = MsgTypeOnionData \<or> f_Type frame = MsgTypeConnected then f_PayloadJSON frame
      else [])"

text \<open>One round of the pump: the new state, the actions and whether it goes on.\<close>

definition relayBackward ::
  "crypto \<Rightarrow> RelayService \<Rightarrow> string \<Rightarrow> Frame \<Rightarrow> RelayService \<times> relay_action list \<times> bool" where
  "relayBackward C s streamID frame =
     (let plaintext = backwardPlain frame in
      case sessionsByStream s streamID of
        None \<Rightarrow> (s, [], True)
      | Some session \<Rightarrow>
          if plaintext = [] then (s, [], True)
          else
            let nonce = BuildAEADNonce ''bwd'' (hs_BackwardCounter session);
                s1 = s\<lparr>sessionsByStream := (sessionsByStream s)(streamID \<mapsto> bumpBwd session)\<rparr>;
                aad = BuildAAD (f_CircuitID frame) (f_StreamID frame) ''bwd'' 0
            in case AEADSeal C (hs_BackwardKey session) nonce plaintext aad of
                 Inl _ \<Rightarrow> (s1, [], False)
               | Inr wrapped \<Rightarrow>
                   let backPayload = json_marshal enc_OnionCell \<lparr>oc_HopIndex = 0, oc_Ciphertext = wrapped\<rparr>
                   in (rs_recordTraffic s1 (of_nat (length backPayload)) 0,
                       [WriteClient \<lparr>f_Type = MsgTypeOnionData, f_CircuitID = f_CircuitID frame,
                          f_StreamID = f_StreamID frame, f_PayloadJSON = backPayload\<rparr>], True))"

definition pumpEnd :: "RelayService \<Rightarrow> string \<Rightarrow> RelayService" where
  "pumpEnd s circuitID = s\<lparr>nextHopStreams := (nextHopStreams s)(circuitID := None)\<rparr>"

section \<open>Raw tunnels\<close>

text \<open>
  \<open>servePassthroughTunnelWithHeader\<close>: the next hop and the header it gets, or nothing when a
  guard fails. Behind the header the bytes are copied unchanged in both directions.
\<close>

definition headerInRange :: "RouteHeader \<Rightarrow> bool" where
  "headerInRange header \<longleftrightarrow>
     \<not> (length (rt_Path header) = 0 \<or> rt_HopIndex header < 0 \<or> rt_HopIndex header \<ge> int (length (rt_Path header)))"

definition passthroughHop ::
  "string \<Rightarrow> (string \<Rightarrow> string option) \<Rightarrow> RouteHeader \<Rightarrow> (string \<times> RouteHeader) option" where
  "passthroughHop selfID decode header =
     (if \<not> headerInRange header then None
      else if rt_Path header ! nat (rt_HopIndex header) \<noteq> selfID then None
      else let nextIndex = rt_HopIndex header + 1
           in if nextIndex \<ge> int (length (rt_Path header)) then None
              else case decode (rt_Path header ! nat nextIndex) of
                     None \<Rightarrow> None
                   | Some nextPeerID \<Rightarrow> Some (nextPeerID, header\<lparr>rt_HopIndex := nextIndex\<rparr>))"

text \<open>What the relay writes to the next hop: the stream it opened and the bytes that arrive on it.\<close>

definition servePassthroughTunnelWithHeader ::
  "relay_env \<Rightarrow> string \<Rightarrow> RouteHeader \<Rightarrow> bytes \<Rightarrow> (string \<times> bytes) option" where
  "servePassthroughTunnelWithHeader E selfID header rest =
     (case passthroughHop selfID (re_Decode E) header of
        None \<Rightarrow> None
      | Some (nextPeerID, header') \<Rightarrow>
          (case re_NewStream E nextPeerID of
             None \<Rightarrow> None
           | Some nextStr \<Rightarrow>
               (case WriteJSONFrame enc_RouteHeader bufWrite header' ([], []) of
                  (Inl _, _) \<Rightarrow> None
                | (Inr _, _, w) \<Rightarrow> Some (nextPeerID, w @ rest))))"

text \<open>The guards of \<open>serveRawTunnelE2EWithHeader\<close> of the exit.\<close>

definition exitAcceptsRoute :: "string \<Rightarrow> RouteHeader \<Rightarrow> bool" where
  "exitAcceptsRoute selfID header \<longleftrightarrow> headerInRange header \<and>
     \<not> (rt_Path header ! nat (rt_HopIndex header) \<noteq> selfID \<or> last (rt_Path header) \<noteq> selfID) \<and>
     \<not> (rt_TargetExit header \<noteq> '''' \<and> rt_TargetExit header \<noteq> selfID)"

text \<open>The stream handler of \<open>app.go\<close> on a node that is relay and exit.\<close>

datatype route_outcome = RouteDropped | RouteForward string bytes | RouteExit RouteHeader bytes

definition dispatchRawTunnel :: "relay_env \<Rightarrow> string \<Rightarrow> bytes \<Rightarrow> route_outcome" where
  "dispatchRawTunnel E selfID stream =
     (case ReadJSONFrame dec_RouteHeader (stream, ()) of
        (Inl _, _) \<Rightarrow> RouteDropped
      | (Inr header, rest, _) \<Rightarrow>
          if \<not> headerInRange header then RouteDropped
          else if rt_HopIndex header < int (length (rt_Path header)) - 1 then
            (case servePassthroughTunnelWithHeader E selfID header rest of
               None \<Rightarrow> RouteDropped | Some (next, b) \<Rightarrow> RouteForward next b)
          else if exitAcceptsRoute selfID header then RouteExit header rest else RouteDropped)"

text \<open>\<open>writeTunnelRouteHeader\<close> of \<open>client/socks5.go\<close>: the header for a plan.\<close>

definition tunnelRouteHeader :: "string \<Rightarrow> PathPlan \<Rightarrow> RouteHeader" where
  "tunnelRouteHeader tunnelID plan =
     \<lparr>rt_Version = 1, rt_TunnelID = tunnelID, rt_Path = map ph_PeerID (pp_Hops plan), rt_HopIndex = 0,
      rt_TargetExit = ph_PeerID (pp_Hops plan ! pp_ExitHopIndex plan)\<rparr>"

section \<open>Forwarding an onion\<close>

lemma onion_cell_roundtrip:
  "json_unmarshal dec_OnionCell (json_marshal enc_OnionCell c) = Some c"
  by (rule codec_OnionCell.unmarshal_marshal) simp

definition cellFrame :: "string \<Rightarrow> string \<Rightarrow> bytes \<Rightarrow> Frame" where
  "cellFrame cid sid ct = NewOnionDataFrame cid sid \<lparr>oc_HopIndex = 0, oc_Ciphertext = ct\<rparr>"

lemma relayForward_cell:
  assumes "sessionsByStream s str = Some r"
    and "UnwrapForward C r cid sid ct = (Inr (header, inner), r')"
    and "8 \<le> length (rh_NextPeerID header)" "re_Decode E (rh_NextPeerID header) = Some peer"
  shows "relayForward C E s str (cellFrame cid sid ct) =
    (let s1 = s\<lparr>sessionsByStream := (sessionsByStream s)(str \<mapsto> r')\<rparr>;
         out = forwardFrame (cellFrame cid sid ct) header inner
     in case nextHopStreams s cid of
          Some n \<Rightarrow> Inr (sendNext E s1 n out)
        | None \<Rightarrow> (case re_NewStream E peer of
            None \<Rightarrow> Inr (s1, [])
          | Some n \<Rightarrow> (let (s3, acts) = sendNext E (s1\<lparr>nextHopStreams := (nextHopStreams s)(cid \<mapsto> n)\<rparr>) n out
                       in Inr (s3, StartPump cid n # acts))))"
  using assms
  by (simp add: relayForward_def cellFrame_def NewOnionDataFrame_def onion_cell_roundtrip go_slice_Inr Let_def
      split: option.splits)

lemma sendNext_ok: "re_writeOk E n \<Longrightarrow> snd (sendNext E s n out) = [WriteNext n out]"
  by (simp add: sendNext_def)

lemma forwardFrame_onion:
  "rh_InnerPayloadType header = InnerPayloadTypeOnion \<Longrightarrow>
   forwardFrame (cellFrame cid sid ct) header inner = cellFrame cid sid inner"
  by (simp add: forwardFrame_def cellFrame_def NewOnionDataFrame_def kind_defs)

text \<open>
  A relay forwards what the client meant for the next hop: the first cell a client wraps for
  the path relay, next hop and onwards is sent on a new stream to the next hop, with the same
  circuit and stream and with the onion of the remaining hops as its content, and nothing else
  is written.
\<close>

theorem relay_forwards_rest_of_onion:
  assumes "aead_correct C" "\<forall>h\<in>set (h # g # hs). keyed h" "fwd_sync h r"
    and ids: "ascii (hs_PeerID g)" "8 \<le> length (hs_PeerID g)" "ascii sid"
    and wrap: "fst (WrapForward C (h # g # hs) cid sid p) = Inr ct"
    and relay: "sessionsByStream s str = Some r" "nextHopStreams s cid = None"
    and net: "re_Decode E (hs_PeerID g) = Some peer" "re_NewStream E peer = Some n" "re_writeOk E n"
  shows "\<exists>s'. relayForward C E s str (cellFrame cid sid ct) =
      Inr (s', [StartPump cid n, WriteNext n (cellFrame cid sid (onion C cid sid 1 (g # hs) p))]) \<and>
    sessionsByStream s' str = Some (bumpFwd r) \<and> nextHopStreams s' cid = Some n"
proof -
  let ?hdr = "oe_Header (fwdEnvelope (hs_PeerID g) sid [])"
  have ct: "ct = onion C cid sid 0 (h # g # hs) p" using wrap assms(2) by (simp add: WrapForward_onion)
  have un: "UnwrapForward C r cid sid ct = (Inr (?hdr, onion C cid sid 1 (g # hs) p), bumpFwd r)"
    unfolding ct by (rule UnwrapForward_onion) (use assms in auto)
  have hdr: "rh_NextPeerID ?hdr = hs_PeerID g" "rh_InnerPayloadType ?hdr = InnerPayloadTypeOnion"
    by (simp_all add: fwdEnvelope_def)
  show ?thesis
    unfolding relayForward_cell [OF relay(1) un, unfolded hdr, OF ids(2) net(1)] forwardFrame_onion [OF hdr(2)]
    using net relay(2) by (simp add: sendNext_def Let_def rs_recordTraffic_def)
qed

definition demo_relay_env :: relay_env where
  "demo_relay_env = \<lparr>re_Decode = Some, re_NewStream = Some, re_writeOk = (\<lambda>_. True)\<rparr>"

definition demo_relay :: RelayService where
  "demo_relay = (NewRelayService None)\<lparr>sessionsByStream := [''client-a'' \<mapsto> demo_session ''a'', ''client-b'' \<mapsto> demo_session ''b'']\<rparr>"

definition demo_hops :: "HopSession list" where
  "demo_hops = [demo_session ''relay-01'', demo_session ''exit-001'']"

theorem relay_forwards_rest_of_onion_witness:
  "\<exists>s' ct. fst (WrapForward demo_crypto demo_hops ''c'' ''s'' [1, 2]) = Inr ct \<and>
    relayForward demo_crypto demo_relay_env demo_relay ''client-a'' (cellFrame ''c'' ''s'' ct) =
      Inr (s', [StartPump ''c'' ''exit-001'',
        WriteNext ''exit-001'' (cellFrame ''c'' ''s'' (onion demo_crypto ''c'' ''s'' 1 [demo_session ''exit-001''] [1, 2]))])"
proof -
  have k: "\<forall>h\<in>set demo_hops. keyed h" by (simp add: demo_hops_def)
  obtain ct where ct: "fst (WrapForward demo_crypto demo_hops ''c'' ''s'' [1, 2]) = Inr ct"
    using WrapForward_onion [of demo_hops demo_crypto] k by (simp add: demo_hops_def)
  have "\<exists>s'. relayForward demo_crypto demo_relay_env demo_relay ''client-a'' (cellFrame ''c'' ''s'' ct) =
      Inr (s', [StartPump ''c'' ''exit-001'',
        WriteNext ''exit-001'' (cellFrame ''c'' ''s'' (onion demo_crypto ''c'' ''s'' 1 [demo_session ''exit-001''] [1, 2]))]) \<and>
    sessionsByStream s' ''client-a'' = Some (bumpFwd (demo_session ''a'')) \<and> nextHopStreams s' ''c'' = Some ''exit-001''"
    using k ct unfolding demo_hops_def
    by (intro relay_forwards_rest_of_onion [where h = "demo_session ''relay-01''" and peer = "''exit-001''"])
      (simp_all add: demo_aead_correct peer_demo demo_relay_def demo_relay_env_def NewRelayService_def)
  then show ?thesis using ct by blast
qed

text \<open>
  The stream to the next hop is looked up by the circuit ID alone, and that ID is chosen by the
  client: a client that uses the circuit ID of another one has its cells sent on the other's
  stream, whatever next hop its own header names.
\<close>

theorem circuit_id_collision:
  assumes "sessionsByStream s str = Some r"
    and "UnwrapForward C r cid sid ct = (Inr (header, inner), r')"
    and "8 \<le> length (rh_NextPeerID header)" "re_Decode E (rh_NextPeerID header) = Some peer"
    and "nextHopStreams s cid = Some n" "re_writeOk E n"
  shows "\<exists>s'. relayForward C E s str (cellFrame cid sid ct) =
    Inr (s', [WriteNext n (forwardFrame (cellFrame cid sid ct) header inner)])"
  using relayForward_cell [OF assms(1-4)] assms(5,6) by (simp add: sendNext_def Let_def)

theorem circuit_id_collision_witness:
  "\<exists>s' ct header inner r'.
    UnwrapForward demo_crypto (demo_session ''b'') ''c'' ''s'' ct = (Inr (header, inner), r') \<and>
    rh_NextPeerID header = ''exit-002'' \<and>
    relayForward demo_crypto demo_relay_env (demo_relay\<lparr>nextHopStreams := [''c'' \<mapsto> ''exit-001'']\<rparr>) ''client-b''
      (cellFrame ''c'' ''s'' ct) = Inr (s', [WriteNext ''exit-001'' (forwardFrame (cellFrame ''c'' ''s'' ct) header inner)])"
proof -
  let ?h = "demo_session ''relay-01''" and ?g = "demo_session ''exit-002''"
  let ?ct = "onion demo_crypto ''c'' ''s'' 0 [?h, ?g] [1]" and ?s = "demo_relay\<lparr>nextHopStreams := [''c'' \<mapsto> ''exit-001'']\<rparr>"
  have un: "UnwrapForward demo_crypto (demo_session ''b'') ''c'' ''s'' ?ct =
      (Inr (oe_Header (fwdEnvelope (hs_PeerID ?g) ''s'' []), onion demo_crypto ''c'' ''s'' 1 [?g] [1]), bumpFwd (demo_session ''b''))"
    by (rule UnwrapForward_onion) (simp_all add: demo_aead_correct peer_demo)
  have nxt: "rh_NextPeerID (oe_Header (fwdEnvelope (hs_PeerID ?g) ''s'' [])) = ''exit-002''"
    by (simp add: fwdEnvelope_def peer_demo)
  have ses: "sessionsByStream ?s ''client-b'' = Some (demo_session ''b'')" by (simp add: demo_relay_def)
  have "\<exists>s'. relayForward demo_crypto demo_relay_env ?s ''client-b'' (cellFrame ''c'' ''s'' ?ct) =
      Inr (s', [WriteNext ''exit-001'' (forwardFrame (cellFrame ''c'' ''s'' ?ct)
        (oe_Header (fwdEnvelope (hs_PeerID ?g) ''s'' [])) (onion demo_crypto ''c'' ''s'' 1 [?g] [1]))])"
    by (rule circuit_id_collision [OF ses un]) (simp_all add: nxt demo_relay_env_def)
  with un nxt show ?thesis by blast
qed

section \<open>Following a route\<close>

fun routeWalk :: "relay_env \<Rightarrow> nat \<Rightarrow> string \<Rightarrow> bytes \<Rightarrow> (string \<times> RouteHeader \<times> bytes) option" where
  "routeWalk E 0 self stream = None"
| "routeWalk E (Suc k) self stream =
     (case dispatchRawTunnel E self stream of
        RouteDropped \<Rightarrow> None
      | RouteForward next stream' \<Rightarrow> routeWalk E k next stream'
      | RouteExit header rest \<Rightarrow> Some (self, header, rest))"

text \<open>A header every node can read and write, over peers every node can reach.\<close>

definition routable :: "relay_env \<Rightarrow> RouteHeader \<Rightarrow> bool" where
  "routable E rh \<longleftrightarrow> int64_ok (rt_Version rh) \<and> ascii (rt_TunnelID rh) \<and> list_all ascii (rt_Path rh) \<and>
     ascii (rt_TargetExit rh) \<and> length (rt_Path rh) < 2 ^ 63 \<and>
     list_all (\<lambda>i. fits enc_RouteHeader (rh\<lparr>rt_HopIndex := int i\<rparr>)) [0..<length (rt_Path rh)] \<and>
     list_all (\<lambda>p. re_Decode E p = Some p \<and> re_NewStream E p \<noteq> None) (rt_Path rh)"

lemma dispatch_header:
  assumes "routable E rh" "i < length (rt_Path rh)"
  shows "dispatchRawTunnel E self (jsonFrame enc_RouteHeader (rh\<lparr>rt_HopIndex := int i\<rparr>) @ rest) =
    (if Suc i < length (rt_Path rh) then
       (if rt_Path rh ! i = self
        then RouteForward (rt_Path rh ! Suc i) (jsonFrame enc_RouteHeader (rh\<lparr>rt_HopIndex := int (Suc i)\<rparr>) @ rest)
        else RouteDropped)
     else if exitAcceptsRoute self (rh\<lparr>rt_HopIndex := int i\<rparr>) then RouteExit (rh\<lparr>rt_HopIndex := int i\<rparr>) rest
     else RouteDropped)"
proof -
  let ?h = "\<lambda>i. rh\<lparr>rt_HopIndex := int i\<rparr>"
  have fit: "fits enc_RouteHeader (?h j)" if "j < length (rt_Path rh)" for j
    using assms(1) that by (simp add: routable_def list_all_iff)
  have dec: "json_unmarshal dec_RouteHeader (json_marshal enc_RouteHeader (?h i)) = Some (?h i)"
    by (rule codec_RouteHeader.unmarshal_marshal)
      (use assms in \<open>auto simp: routable_def int64_ok_def\<close>)
  have read: "ReadJSONFrame dec_RouteHeader (jsonFrame enc_RouteHeader (?h i) @ rest, ()) = (Inr (?h i), rest, ())"
    by (simp add: ReadJSONFrame_jsonFrame [OF fit [OF assms(2)]] dec)
  have range: "headerInRange (?h i)" using assms(2) by (auto simp: headerInRange_def)
  show ?thesis
  proof (cases "Suc i < length (rt_Path rh)")
    case True
    obtain n where reach: "re_Decode E (rt_Path rh ! Suc i) = Some (rt_Path rh ! Suc i)"
        "re_NewStream E (rt_Path rh ! Suc i) = Some n"
      using assms(1) True by (auto simp: routable_def list_all_length)
    have "WriteJSONFrame enc_RouteHeader bufWrite (?h (Suc i)) ([], []) = (Inr (), [], jsonFrame enc_RouteHeader (?h (Suc i)))"
      using WriteJSONFrame_fits [OF fit [OF True]] by simp
    then show ?thesis
      using True read range reach
      by (simp add: dispatchRawTunnel_def servePassthroughTunnelWithHeader_def passthroughHop_def Let_def
          nat_add_distrib add.commute)
  next
    case False
    then show ?thesis using assms(2) read range by (simp add: dispatchRawTunnel_def)
  qed
qed

lemma routeWalk_from:
  assumes "routable E rh" "i < length (rt_Path rh)"
    and "rt_TargetExit rh = '''' \<or> rt_TargetExit rh = last (rt_Path rh)"
  shows "routeWalk E (length (rt_Path rh) - i) (rt_Path rh ! i)
      (jsonFrame enc_RouteHeader (rh\<lparr>rt_HopIndex := int i\<rparr>) @ rest) =
    Some (last (rt_Path rh), rh\<lparr>rt_HopIndex := int (length (rt_Path rh)) - 1\<rparr>, rest)"
  using assms(2)
proof (induction "length (rt_Path rh) - i" arbitrary: i)
  case 0
  then show ?case by simp
next
  case (Suc k)
  have len: "length (rt_Path rh) - i = Suc k" using Suc.hyps(2) by simp
  show ?case
  proof (cases "Suc i < length (rt_Path rh)")
    case True
    have "length (rt_Path rh) - Suc i = k" using len by simp
    then show ?thesis
      using Suc.hyps(1) [of "Suc i"] True len by (simp add: dispatch_header [OF assms(1) Suc.prems])
  next
    case False
    then have n: "length (rt_Path rh) = Suc i" and ne: "rt_Path rh \<noteq> []" using Suc.prems by auto
    then have last: "rt_Path rh ! i = last (rt_Path rh)" and i: "int i = int (length (rt_Path rh)) - 1"
      using last_conv_nth [OF ne] by auto
    have "exitAcceptsRoute (rt_Path rh ! i) (rh\<lparr>rt_HopIndex := int i\<rparr>)"
      using assms(3) Suc.prems last by (auto simp: exitAcceptsRoute_def headerInRange_def)
    then show ?thesis
      unfolding i [symmetric] len using False last by (simp add: dispatch_header [OF assms(1) Suc.prems])
  qed
qed

text \<open>
  C12. A raw tunnel reaches its exit: for every plan that ends in its exit, over peers that can be
  reached, the bytes the client sends after the route header arrive unchanged at the last hop
  of the plan, which accepts the tunnel, after as many nodes as the plan has hops.
\<close>

theorem route_reaches_exit:
  assumes plan: "pp_Hops plan \<noteq> []" "pp_ExitHopIndex plan = length (pp_Hops plan) - 1"
    and net: "routable E (tunnelRouteHeader tid plan)"
  shows "routeWalk E (length (pp_Hops plan)) (ph_PeerID (pp_Hops plan ! 0))
      (jsonFrame enc_RouteHeader (tunnelRouteHeader tid plan) @ payload) =
    Some (ph_PeerID (last (pp_Hops plan)),
      (tunnelRouteHeader tid plan)\<lparr>rt_HopIndex := int (length (pp_Hops plan)) - 1\<rparr>, payload)"
proof -
  let ?h = "tunnelRouteHeader tid plan"
  have path: "rt_Path ?h = map ph_PeerID (pp_Hops plan)" by (simp add: tunnelRouteHeader_def)
  have start: "?h\<lparr>rt_HopIndex := int 0\<rparr> = ?h" by (simp add: tunnelRouteHeader_def)
  have exit: "rt_TargetExit ?h = last (rt_Path ?h)"
    using plan by (simp add: tunnelRouteHeader_def last_map last_conv_nth)
  have "0 < length (rt_Path ?h)" using plan(1) path by simp
  from routeWalk_from [OF net this disjI2 [OF exit], of payload] show ?thesis
    using plan(1) unfolding start by (simp add: path last_map)
qed

definition demo_plan :: PathPlan where
  "demo_plan = \<lparr>pp_Hops = [\<lparr>ph_PeerID = ''relay-01'', ph_IsRelay = True, ph_IsExit = False\<rparr>,
     \<lparr>ph_PeerID = ''exit-001'', ph_IsRelay = False, ph_IsExit = True\<rparr>], pp_ExitHopIndex = 1\<rparr>"

definition small_frame :: "('a \<Rightarrow> json) \<Rightarrow> 'a \<Rightarrow> bool" where
  "small_frame enc v \<longleftrightarrow> 0 < length (json_marshal enc v) \<and> length (json_marshal enc v) \<le> 500"

lemma small_frame_fits: "small_frame enc v \<Longrightarrow> fits enc v"
  by (simp add: small_frame_def fits_def MaxJSONFrameSize_def)

lemma demo_header_sizes:
  "list_all (\<lambda>i. small_frame enc_RouteHeader ((tunnelRouteHeader ''t'' demo_plan)\<lparr>rt_HopIndex := i\<rparr>)) [0, 1]"
  by code_simp

lemma demo_header:
  "tunnelRouteHeader ''t'' demo_plan = \<lparr>rt_Version = 1, rt_TunnelID = ''t'',
     rt_Path = [''relay-01'', ''exit-001''], rt_HopIndex = 0, rt_TargetExit = ''exit-001''\<rparr>"
  by (simp add: tunnelRouteHeader_def demo_plan_def)

lemma demo_routable: "routable demo_relay_env (tunnelRouteHeader ''t'' demo_plan)"
proof -
  have "list_all (\<lambda>i. fits enc_RouteHeader ((tunnelRouteHeader ''t'' demo_plan)\<lparr>rt_HopIndex := i\<rparr>)) [0, 1]"
    using demo_header_sizes by (auto intro: small_frame_fits)
  then show ?thesis
    by (simp add: routable_def demo_header demo_relay_env_def int64_ok_def)
qed

theorem route_reaches_exit_witness:
  "routeWalk demo_relay_env 2 ''relay-01''
     (jsonFrame enc_RouteHeader (tunnelRouteHeader ''t'' demo_plan) @ [1, 2, 3]) =
   Some (''exit-001'', (tunnelRouteHeader ''t'' demo_plan)\<lparr>rt_HopIndex := 1\<rparr>, [1, 2, 3])"
  using route_reaches_exit [OF _ _ demo_routable, of "[1, 2, 3]"] by (simp add: demo_plan_def numeral_2_eq_2)

end
