(* ===== verification/Exit_Service.thy ===== *)
theory Exit_Service
  imports Exit_Policy Socks5 Relay_Service
begin

text \<open>
  The exit of \<open>internal/exit/service.go\<close>: the key exchange, the handling of every cell of an
  encrypted stream and of every frame of a direct one, the pumps that carry answers back, and
  the dialling of targets, directly or through a SOCKS5 upstream. The network is the record
  \<open>exit_env\<close>; connections and sockets are named by handles, and what a handler does to the
  outside is the list of actions it returns. A \<open>return\<close> out of the loop is the flag
  \<open>False\<close>. The socket of \<open>net.ListenPacket("udp", ..)\<close> always is a \<open>*net.UDPConn\<close>, so the
  type assertion on it does not fail.
\<close>

section \<open>State\<close>

record exit_env =
  xe_Dial :: "string \<Rightarrow> string result"
  xe_upstreamBytes :: "string \<Rightarrow> bytes"
  xe_LookupIP :: "string \<Rightarrow> IP list result"
  xe_ResolveUDPAddr :: "string \<Rightarrow> string result"
  xe_ListenPacket :: "string result"
  xe_connWrite :: "string \<Rightarrow> bytes \<Rightarrow> bool"
  xe_udpWriteTo :: "string \<Rightarrow> bytes \<Rightarrow> bool"

record RejectEntry =
  rj_Reason :: string
  rj_At :: time

record udpSession =
  us_conn :: string
  us_targetAddr :: string
  us_streamKey :: string
  us_circuitID :: string
  us_streamID :: string

text \<open>A stored connection is \<open>None\<close> when it is the nil interface.\<close>

record ExitService =
  xs_Policy :: "PolicyChecker option"
  xs_socks5Upstream :: string
  xs_traffic :: "Recorder option"
  conns :: "string \<rightharpoonup> string option"
  udpSessions :: "string \<rightharpoonup> udpSession"
  sessions :: "string \<rightharpoonup> HopSession"
  recentRejects :: "RejectEntry list"

datatype exit_action =
    XDial string int
  | XWrite Frame
  | XConnWrite string bytes
  | XUDPWrite string bytes string
  | XCloseConn string
  | XCloseUDP string
  | XPump string "string option"
  | XPumpUDP udpSession

definition maxRecentRejects :: nat where "maxRecentRejects = 20"

definition NewExitService :: "PolicyChecker option \<Rightarrow> string \<Rightarrow> Recorder option \<Rightarrow> ExitService" where
  "NewExitService pol upstream trafficStats =
     \<lparr>xs_Policy = pol, xs_socks5Upstream = upstream, xs_traffic = trafficStats, conns = Map.empty,
      udpSessions = Map.empty, sessions = Map.empty, recentRejects = []\<rparr>"

section \<open>Bookkeeping\<close>

definition xs_recordTraffic :: "ExitService \<Rightarrow> u64 \<Rightarrow> u64 \<Rightarrow> ExitService" where
  "xs_recordTraffic s sent recv =
     (if xs_traffic s = None \<or> sent = 0 \<and> recv = 0 then s
      else s\<lparr>xs_traffic := tr_Add (xs_traffic s) sent recv\<rparr>)"

definition storeConn :: "ExitService \<Rightarrow> string \<Rightarrow> string option \<Rightarrow> ExitService" where
  "storeConn s streamID conn = s\<lparr>conns := (conns s)(streamID \<mapsto> conn)\<rparr>"

definition getConn :: "ExitService \<Rightarrow> string \<Rightarrow> string option" where
  "getConn s streamID = (case conns s streamID of None \<Rightarrow> None | Some c \<Rightarrow> c)"

definition closeConn :: "ExitService \<Rightarrow> string \<Rightarrow> ExitService \<times> exit_action list" where
  "closeConn s streamID =
     (case conns s streamID of
        None \<Rightarrow> (s, [])
      | Some c \<Rightarrow> (s\<lparr>conns := (conns s)(streamID := None)\<rparr>,
                   case c of None \<Rightarrow> [] | Some h \<Rightarrow> [XCloseConn h]))"

definition storeUDPSession :: "ExitService \<Rightarrow> string \<Rightarrow> udpSession \<Rightarrow> ExitService" where
  "storeUDPSession s streamID sess = s\<lparr>udpSessions := (udpSessions s)(streamID \<mapsto> sess)\<rparr>"

definition getUDPSession :: "ExitService \<Rightarrow> string \<Rightarrow> udpSession option" where
  "getUDPSession s streamID = udpSessions s streamID"

definition closeUDPSession :: "ExitService \<Rightarrow> string \<Rightarrow> ExitService \<times> exit_action list" where
  "closeUDPSession s streamID =
     (s\<lparr>udpSessions := (udpSessions s)(streamID := None)\<rparr>,
      case udpSessions s streamID of None \<Rightarrow> [] | Some sess \<Rightarrow> [XCloseUDP (us_conn sess)])"

definition recordReject :: "ExitService \<Rightarrow> ExitRejectReason \<Rightarrow> time \<Rightarrow> ExitService" where
  "recordReject s reason now =
     (let rs = recentRejects s @ [\<lparr>rj_Reason = reason, rj_At = now\<rparr>]
      in s\<lparr>recentRejects := if length rs > maxRecentRejects
             then drop (length rs - maxRecentRejects) rs else rs\<rparr>)"

definition GetRecentRejects :: "ExitService \<Rightarrow> RejectEntry list" where
  "GetRecentRejects s = recentRejects s"

definition OpenConnCount :: "ExitService \<Rightarrow> nat" where
  "OpenConnCount s = card (dom (conns s))"

section \<open>Dialling\<close>

fun errorText :: "go_error \<Rightarrow> string" where
  "errorText EOF = ''EOF''"
| "errorText UnexpectedEOF = ''unexpected EOF''"
| "errorText Panic = ''runtime error''"
| "errorText (Errorf s) = s"

definition dialViaSocks5Upstream :: "exit_env \<Rightarrow> ExitService \<Rightarrow> string \<Rightarrow> int \<Rightarrow> string result" where
  "dialViaSocks5Upstream E s targetHost targetPort =
     res_bind (xe_Dial E (xs_socks5Upstream s)) (\<lambda>upstream.
     case socks5Connect bufWrite targetHost targetPort (xe_upstreamBytes E upstream, []) of
       (Inl e, _) \<Rightarrow> Inl e
     | (Inr _, _) \<Rightarrow> Inr upstream)"

definition dialTCPTarget :: "exit_env \<Rightarrow> ExitService \<Rightarrow> string \<Rightarrow> int \<Rightarrow> string result" where
  "dialTCPTarget E s targetHost targetPort =
     (if xs_socks5Upstream s = '''' \<or> isLocalSocks5Upstream (xs_socks5Upstream s) targetHost targetPort
      then xe_Dial E (JoinHostPort targetHost (show_int targetPort))
      else dialViaSocks5Upstream E s targetHost targetPort)"

section \<open>Answers\<close>

definition wrapBackward ::
  "crypto \<Rightarrow> ExitService \<Rightarrow> string \<Rightarrow> string \<Rightarrow> string \<Rightarrow> bytes \<Rightarrow> bytes result \<times> ExitService" where
  "wrapBackward C s streamKey circuitID streamID plaintext =
     (case sessions s streamKey of
        None \<Rightarrow> (Inl (Errorf ''no session''), s)
      | Some sess \<Rightarrow>
          let nonce = BuildAEADNonce ''bwd'' (hs_BackwardCounter sess);
              s' = s\<lparr>sessions := (sessions s)(streamKey \<mapsto> bumpBwd sess)\<rparr>;
              aad = BuildAAD circuitID streamID ''bwd'' 0
          in case AEADSeal C (hs_BackwardKey sess) nonce plaintext aad of
               Inl e \<Rightarrow> (Inl e, s')
             | Inr sealed \<Rightarrow> (Inr (json_marshal enc_OnionCell \<lparr>oc_HopIndex = 0, oc_Ciphertext = sealed\<rparr>), s'))"

definition zeroPayload :: "string \<Rightarrow> OnionPayload" where
  "zeroPayload kind = \<lparr>op_Kind = kind, op_Begin = None, op_BeginUDP = None, op_Data = None, op_End = None,
     op_Connected = None, op_Ping = None, op_Pong = None, op_Pad = []\<rparr>"

text \<open>A payload wrapped for the client, in the frame that carries it.\<close>

definition answerFrame ::
  "crypto \<Rightarrow> ExitService \<Rightarrow> string \<Rightarrow> string \<Rightarrow> string \<Rightarrow> OnionPayload \<Rightarrow> Frame result \<times> ExitService" where
  "answerFrame C s streamKey circuitID streamID payload =
     (case wrapBackward C s streamKey circuitID streamID (MarshalPaddedOnionPayload payload) of
        (Inl e, s') \<Rightarrow> (Inl e, s')
      | (Inr wrapped, s') \<Rightarrow>
          (Inr \<lparr>f_Type = MsgTypeOnionData, f_CircuitID = circuitID, f_StreamID = streamID,
                f_PayloadJSON = wrapped\<rparr>, s'))"

definition connectedPayload :: "Connected \<Rightarrow> OnionPayload" where
  "connectedPayload resp = (zeroPayload ''connected'')\<lparr>op_Connected := Some resp\<rparr>"

definition sendConnectedAndReturn ::
  "crypto \<Rightarrow> ExitService \<Rightarrow> string \<Rightarrow> string \<Rightarrow> string \<Rightarrow> Connected \<Rightarrow> ExitService \<times> exit_action list" where
  "sendConnectedAndReturn C s streamKey circuitID streamID resp =
     (case answerFrame C s streamKey circuitID streamID (connectedPayload resp) of
        (Inl _, s') \<Rightarrow> (s', [])
      | (Inr out, s') \<Rightarrow> (s', [XWrite out]))"

section \<open>Encrypted streams\<close>

definition exitAccept ::
  "crypto \<Rightarrow> bytes \<Rightarrow> ExitService \<Rightarrow> string \<Rightarrow> Frame \<Rightarrow> (ExitService \<times> exit_action list) option" where
  "exitAccept C rnd s streamKey frame =
     (case json_unmarshal dec_KeyExchangeInit (f_PayloadJSON frame) of
        None \<Rightarrow> None
      | Some initMsg \<Rightarrow>
          if length (ki_Payload initMsg) \<noteq> X25519KeySize then None
          else case GenerateEphemeralKeyPair C rnd of
            Inl _ \<Rightarrow> None
          | Inr (exitPriv, exitPub) \<Rightarrow>
              (case NewHopSessionFromKeyExchange C streamKey HopRoleExit exitPriv (ki_Payload initMsg) 0 of
                 Inl _ \<Rightarrow> None
               | Inr session \<Rightarrow>
                   Some (s\<lparr>sessions := (sessions s)(streamKey \<mapsto> session)\<rparr>,
                         [XWrite (NewKeyExchangeRespFrame (f_CircuitID frame) exitPub)])))"

text \<open>
  The case \<open>begin\<close>. The error of the dial is overwritten by that of \<open>wrapBackward\<close> before
  it is tested, so the connection is stored and the pump started after a failed dial too, with
  the nil connection.
\<close>

definition exitBegin ::
  "crypto \<Rightarrow> exit_env \<Rightarrow> time \<Rightarrow> ExitService \<Rightarrow> string \<Rightarrow> string \<Rightarrow> Frame \<Rightarrow> BeginTCP
   \<Rightarrow> ExitService \<times> exit_action list \<times> bool" where
  "exitBegin C E now s streamKey peerID frame begin =
     (let addr = JoinHostPort (bt_TargetHost begin) (show_int (bt_TargetPort begin));
          reason = checkBeginPolicy (xe_LookupIP E) (xs_socks5Upstream s) (xs_Policy s) peerID begin
      in if reason \<noteq> '''' then
           let (s2, acts) = sendConnectedAndReturn C (recordReject s reason now) streamKey
                 (f_CircuitID frame) (f_StreamID frame) \<lparr>cn_OK = False, cn_Error = reason\<rparr>
           in (s2, acts, False)
         else
           let dialled = dialTCPTarget E s (bt_TargetHost begin) (bt_TargetPort begin);
               resp = (case dialled of
                         Inr _ \<Rightarrow> \<lparr>cn_OK = True, cn_Error = ''''\<rparr>
                       | Inl e \<Rightarrow> \<lparr>cn_OK = False, cn_Error = ''dial '' @ addr @ '' failed: '' @ errorText e\<rparr>);
               remote = (case dialled of Inr h \<Rightarrow> Some h | Inl _ \<Rightarrow> None);
               dial = XDial (bt_TargetHost begin) (bt_TargetPort begin)
           in case answerFrame C s streamKey (f_CircuitID frame) (f_StreamID frame) (connectedPayload resp) of
                (Inl _, s1) \<Rightarrow> (s1, [dial], False)
              | (Inr out, s1) \<Rightarrow>
                  (storeConn s1 (f_StreamID frame) remote, [dial, XWrite out, XPump (f_StreamID frame) remote], True))"

definition exitBeginUDP ::
  "crypto \<Rightarrow> exit_env \<Rightarrow> time \<Rightarrow> ExitService \<Rightarrow> string \<Rightarrow> string \<Rightarrow> Frame \<Rightarrow> BeginUDP
   \<Rightarrow> ExitService \<times> exit_action list \<times> bool" where
  "exitBeginUDP C E now s streamKey peerID frame begin =
     (let addr = JoinHostPort (bu_TargetHost begin) (show_int (bu_TargetPort begin));
          reason = checkBeginUDPPolicy (xe_LookupIP E) (xs_Policy s) peerID begin;
          refuse = (\<lambda>s e. let (s2, acts) = sendConnectedAndReturn C s streamKey (f_CircuitID frame)
                      (f_StreamID frame) \<lparr>cn_OK = False, cn_Error = e\<rparr> in (s2, acts, False))
      in if reason \<noteq> '''' then refuse (recordReject s reason now) reason
         else case xe_ResolveUDPAddr E addr of
           Inl e \<Rightarrow> refuse s (''resolve udp '' @ addr @ '': '' @ errorText e)
         | Inr targetAddr \<Rightarrow>
             (case xe_ListenPacket E of
                Inl e \<Rightarrow> refuse s (''listen udp: '' @ errorText e)
              | Inr conn \<Rightarrow>
                  let sess = \<lparr>us_conn = conn, us_targetAddr = targetAddr, us_streamKey = streamKey,
                        us_circuitID = f_CircuitID frame, us_streamID = f_StreamID frame\<rparr>;
                      s1 = storeUDPSession s (f_StreamID frame) sess
                  in case answerFrame C s1 streamKey (f_CircuitID frame) (f_StreamID frame)
                            (connectedPayload \<lparr>cn_OK = True, cn_Error = ''''\<rparr>) of
                       (Inl _, s2) \<Rightarrow> (let (s3, acts) = closeUDPSession s2 (f_StreamID frame) in (s3, acts, False))
                     | (Inr out, s2) \<Rightarrow> (s2, [XWrite out, XPumpUDP sess], True)))"

text \<open>Data for a stream: to its TCP connection, or else to its UDP session; a failed write closes it.\<close>

definition exitData :: "exit_env \<Rightarrow> ExitService \<Rightarrow> string \<Rightarrow> bytes \<Rightarrow> ExitService \<times> exit_action list" where
  "exitData E s streamID payload =
     (case getConn s streamID of
        Some conn \<Rightarrow>
          if xe_connWrite E conn payload then (s, [XConnWrite conn payload]) else closeConn s streamID
      | None \<Rightarrow>
          (case getUDPSession s streamID of
             Some sess \<Rightarrow>
               if xe_udpWriteTo E (us_conn sess) payload then (s, [XUDPWrite (us_conn sess) payload (us_targetAddr sess)])
               else closeUDPSession s streamID
           | None \<Rightarrow> (s, [])))"

definition exitPing ::
  "crypto \<Rightarrow> time \<Rightarrow> ExitService \<Rightarrow> string \<Rightarrow> Frame \<Rightarrow> Ping \<Rightarrow> ExitService \<times> exit_action list" where
  "exitPing C nowMilli s streamKey frame ping =
     (let pong = \<lparr>po_CircuitID = f_CircuitID frame, po_PingID = pi_PingID ping,
            po_SentAtUnix = pi_SentAtUnix ping, po_EchoAtUnix = nowMilli\<rparr>
      in case answerFrame C s streamKey (f_CircuitID frame) (f_StreamID frame)
                ((zeroPayload OnionPayloadKindPong)\<lparr>op_Pong := Some pong\<rparr>) of
           (Inl _, s') \<Rightarrow> (s', [])
         | (Inr out, s') \<Rightarrow> (s', [XWrite out]))"

definition exitEnd :: "ExitService \<Rightarrow> string \<Rightarrow> ExitService \<times> exit_action list" where
  "exitEnd s streamID =
     (let (s1, a1) = closeConn s streamID; (s2, a2) = closeUDPSession s1 streamID in (s2, a1 @ a2))"

text \<open>The inner switch of \<open>serveEncryptedStream\<close> on the kind of the payload.\<close>

definition exitPayload ::
  "crypto \<Rightarrow> exit_env \<Rightarrow> time \<Rightarrow> ExitService \<Rightarrow> string \<Rightarrow> string \<Rightarrow> Frame \<Rightarrow> OnionPayload
   \<Rightarrow> ExitService \<times> exit_action list \<times> bool" where
  "exitPayload C E now s streamKey peerID frame payload =
     (let go_on = (\<lambda>(s, acts). (s, acts, True)) in
      if op_Kind payload = ''begin'' then
        (case op_Begin payload of None \<Rightarrow> (s, [], False)
         | Some begin \<Rightarrow> exitBegin C E now s streamKey peerID frame begin)
      else if op_Kind payload = ''begin_udp'' then
        (case op_BeginUDP payload of None \<Rightarrow> (s, [], False)
         | Some begin \<Rightarrow> exitBeginUDP C E now s streamKey peerID frame begin)
      else if op_Kind payload = ''data'' then
        (case op_Data payload of None \<Rightarrow> (s, [], True)
         | Some d \<Rightarrow> go_on (exitData E s (f_StreamID frame) (dc_Payload d)))
      else if op_Kind payload = OnionPayloadKindPing then
        (case op_Ping payload of None \<Rightarrow> (s, [], True)
         | Some ping \<Rightarrow> go_on (exitPing C now s streamKey frame ping))
      else (s, [], True))"

definition exitEncryptedFrame ::
  "crypto \<Rightarrow> exit_env \<Rightarrow> time \<Rightarrow> ExitService \<Rightarrow> string \<Rightarrow> string \<Rightarrow> Frame
   \<Rightarrow> ExitService \<times> exit_action list \<times> bool" where
  "exitEncryptedFrame C E now s streamKey peerID frame =
     (if f_Type frame = MsgTypeOnionData then
        (case (json_unmarshal dec_OnionCell (f_PayloadJSON frame), sessions s streamKey) of
           (Some cell, Some sess) \<Rightarrow>
             (let (r, sess') = UnwrapForwardFinal C sess (f_CircuitID frame) (f_StreamID frame) (oc_Ciphertext cell);
                  s1 = s\<lparr>sessions := (sessions s)(streamKey \<mapsto> sess')\<rparr>
              in case r of
                   Inl _ \<Rightarrow> (s1, [], False)
                 | Inr innerPlain \<Rightarrow>
                     (case json_unmarshal dec_OnionPayload innerPlain of
                        None \<Rightarrow> (s1, [], False)
                      | Some payload \<Rightarrow> exitPayload C E now s1 streamKey peerID frame payload))
         | _ \<Rightarrow> (s, [], False))
      else if f_Type frame = MsgTypeEnd then
        (let (s1, acts) = exitEnd s (f_StreamID frame) in (s1, acts, False))
      else (s, [], False))"

fun serveEncryptedFrames ::
  "crypto \<Rightarrow> exit_env \<Rightarrow> time \<Rightarrow> ExitService \<Rightarrow> string \<Rightarrow> string \<Rightarrow> Frame list \<Rightarrow> ExitService \<times> exit_action list" where
  "serveEncryptedFrames C E now s streamKey peerID [] = (s, [])"
| "serveEncryptedFrames C E now s streamKey peerID (f # fs) =
     (case exitEncryptedFrame C E now s streamKey peerID f of
        (s1, acts, False) \<Rightarrow> (s1, acts)
      | (s1, acts, True) \<Rightarrow>
          (let (s2, acts2) = serveEncryptedFrames C E now s1 streamKey peerID fs in (s2, acts @ acts2)))"

section \<open>Direct streams\<close>

definition writeConnectedFrame :: "string \<Rightarrow> string \<Rightarrow> Connected \<Rightarrow> exit_action list" where
  "writeConnectedFrame circuitID streamID resp = [XWrite (NewConnectedFrame circuitID streamID resp)]"

definition directBegin ::
  "exit_env \<Rightarrow> time \<Rightarrow> ExitService \<Rightarrow> string \<Rightarrow> Frame \<Rightarrow> BeginTCP \<Rightarrow> ExitService \<times> exit_action list \<times> bool" where
  "directBegin E now s peerID frame begin =
     (let addr = JoinHostPort (bt_TargetHost begin) (show_int (bt_TargetPort begin));
          reason = checkBeginPolicy (xe_LookupIP E) (xs_socks5Upstream s) (xs_Policy s) peerID begin;
          answer = writeConnectedFrame (f_CircuitID frame) (f_StreamID frame);
          dial = XDial (bt_TargetHost begin) (bt_TargetPort begin)
      in if reason \<noteq> '''' then
           (recordReject s reason now, answer \<lparr>cn_OK = False, cn_Error = reason\<rparr>, True)
         else case dialTCPTarget E s (bt_TargetHost begin) (bt_TargetPort begin) of
           Inl e \<Rightarrow> (s, dial # answer \<lparr>cn_OK = False,
                          cn_Error = ''dial '' @ addr @ '' failed: '' @ errorText e\<rparr>, True)
         | Inr remote \<Rightarrow>
             (storeConn s (f_StreamID frame) (Some remote),
              dial # answer \<lparr>cn_OK = True, cn_Error = ''''\<rparr> @ [XPump (f_StreamID frame) (Some remote)], True))"

definition directBeginUDP ::
  "exit_env \<Rightarrow> time \<Rightarrow> ExitService \<Rightarrow> string \<Rightarrow> Frame \<Rightarrow> BeginUDP \<Rightarrow> ExitService \<times> exit_action list \<times> bool" where
  "directBeginUDP E now s peerID frame begin =
     (let addr = JoinHostPort (bu_TargetHost begin) (show_int (bu_TargetPort begin));
          reason = checkBeginUDPPolicy (xe_LookupIP E) (xs_Policy s) peerID begin;
          answer = writeConnectedFrame (f_CircuitID frame) (f_StreamID frame)
      in if reason \<noteq> '''' then
           (recordReject s reason now, answer \<lparr>cn_OK = False, cn_Error = reason\<rparr>, True)
         else case xe_ResolveUDPAddr E addr of
           Inl e \<Rightarrow> (s, answer \<lparr>cn_OK = False, cn_Error = ''resolve udp '' @ addr @ '': '' @ errorText e\<rparr>, True)
         | Inr targetAddr \<Rightarrow>
             (case xe_ListenPacket E of
                Inl e \<Rightarrow> (s, answer \<lparr>cn_OK = False, cn_Error = ''listen udp: '' @ errorText e\<rparr>, True)
              | Inr conn \<Rightarrow>
                  let sess = \<lparr>us_conn = conn, us_targetAddr = targetAddr, us_streamKey = '''',
                        us_circuitID = f_CircuitID frame, us_streamID = f_StreamID frame\<rparr>
                  in (storeUDPSession s (f_StreamID frame) sess,
                      answer \<lparr>cn_OK = True, cn_Error = ''''\<rparr> @ [XPumpUDP sess], True)))"

definition handleDirectFrame ::
  "exit_env \<Rightarrow> time \<Rightarrow> ExitService \<Rightarrow> string \<Rightarrow> Frame \<Rightarrow> ExitService \<times> exit_action list \<times> bool" where
  "handleDirectFrame E now s peerID frame =
     (if f_Type frame = MsgTypeBeginTCP then
        (case json_unmarshal dec_BeginTCP (f_PayloadJSON frame) of
           None \<Rightarrow> (s, [], False) | Some begin \<Rightarrow> directBegin E now s peerID frame begin)
      else if f_Type frame = MsgTypeBeginUDP then
        (case json_unmarshal dec_BeginUDP (f_PayloadJSON frame) of
           None \<Rightarrow> (s, [], False) | Some begin \<Rightarrow> directBeginUDP E now s peerID frame begin)
      else if f_Type frame = MsgTypeData then
        (case json_unmarshal dec_DataCell (f_PayloadJSON frame) of
           None \<Rightarrow> (s, [], True)
         | Some cell \<Rightarrow> (let (s1, acts) = exitData E s (f_StreamID frame) (dc_Payload cell) in (s1, acts, True)))
      else if f_Type frame = MsgTypeEnd then
        (let (s1, acts) = exitEnd s (f_StreamID frame) in (s1, acts, True))
      else (s, [], False))"

fun serveDirectStream ::
  "exit_env \<Rightarrow> time \<Rightarrow> ExitService \<Rightarrow> string \<Rightarrow> Frame list \<Rightarrow> ExitService \<times> exit_action list" where
  "serveDirectStream E now s peerID [] = (s, [])"
| "serveDirectStream E now s peerID (f # fs) =
     (case handleDirectFrame E now s peerID f of
        (s1, acts, False) \<Rightarrow> (s1, acts)
      | (s1, acts, True) \<Rightarrow> (let (s2, acts2) = serveDirectStream E now s1 peerID fs in (s2, acts @ acts2)))"

text \<open>\<open>serveStream\<close>: the type of the first frame decides which protocol the stream speaks.\<close>

definition serveStream ::
  "crypto \<Rightarrow> exit_env \<Rightarrow> bytes \<Rightarrow> time \<Rightarrow> ExitService \<Rightarrow> string \<Rightarrow> string \<Rightarrow> Frame list \<Rightarrow> ExitService \<times> exit_action list" where
  "serveStream C E rnd now s streamKey peerID frames =
     (case frames of
        [] \<Rightarrow> (s, [])
      | f # fs \<Rightarrow>
          if f_Type f \<noteq> MsgTypeKeyExchangeInit then serveDirectStream E now s peerID (f # fs)
          else case exitAccept C rnd s streamKey f of
                 None \<Rightarrow> (s, [])
               | Some (s1, acts) \<Rightarrow>
                   (let (s2, acts2) = serveEncryptedFrames C E now s1 streamKey peerID fs in (s2, acts @ acts2)))"

section \<open>Pumps\<close>

text \<open>One chunk read from a target, on its way back; \<open>None\<close> ends the pump.\<close>

definition pumpChunk ::
  "crypto \<Rightarrow> ExitService \<Rightarrow> string \<Rightarrow> string \<Rightarrow> string \<Rightarrow> bytes \<Rightarrow> ExitService \<times> Frame option" where
  "pumpChunk C s streamKey circuitID streamID chunk =
     (case answerFrame C s streamKey circuitID streamID
             ((zeroPayload ''data'')\<lparr>op_Data := Some \<lparr>dc_Payload = chunk\<rparr>\<rparr>) of
        (Inl _, s') \<Rightarrow> (s', None)
      | (Inr out, s') \<Rightarrow> (xs_recordTraffic s' (of_nat (length (f_PayloadJSON out))) 0, Some out))"

definition pumpChunkPlain :: "ExitService \<Rightarrow> string \<Rightarrow> string \<Rightarrow> bytes \<Rightarrow> ExitService \<times> Frame" where
  "pumpChunkPlain s circuitID streamID chunk =
     (let out = NewDataFrame circuitID streamID chunk
      in (xs_recordTraffic s (of_nat (length (f_PayloadJSON out))) 0, out))"

definition pumpUDPChunk ::
  "crypto \<Rightarrow> ExitService \<Rightarrow> udpSession \<Rightarrow> bytes \<Rightarrow> ExitService \<times> Frame option" where
  "pumpUDPChunk C s sess chunk =
     (case answerFrame C s (us_streamKey sess) (us_circuitID sess) (us_streamID sess)
             ((zeroPayload ''data'')\<lparr>op_Data := Some \<lparr>dc_Payload = chunk\<rparr>\<rparr>) of
        (Inl _, s') \<Rightarrow> (s', None)
      | (Inr out, s') \<Rightarrow> (s', Some out))"

definition pumpUDPChunkPlain :: "udpSession \<Rightarrow> bytes \<Rightarrow> Frame" where
  "pumpUDPChunkPlain sess chunk = NewDataFrame (us_circuitID sess) (us_streamID sess) chunk"

section \<open>Every dial is permitted\<close>

text \<open>The handlers never change the policy or the upstream of the service.\<close>

definition keeps :: "ExitService \<Rightarrow> ExitService \<Rightarrow> bool" where
  "keeps s s' \<longleftrightarrow> xs_Policy s' = xs_Policy s \<and> xs_socks5Upstream s' = xs_socks5Upstream s"

definition dials_admitted :: "exit_env \<Rightarrow> ExitService \<Rightarrow> string \<Rightarrow> exit_action list \<Rightarrow> bool" where
  "dials_admitted E s peerID acts \<longleftrightarrow>
     (\<forall>h p. XDial h p \<in> set acts \<longrightarrow>
        checkBeginPolicy (xe_LookupIP E) (xs_socks5Upstream s) (xs_Policy s) peerID
          \<lparr>bt_TargetHost = h, bt_TargetPort = p\<rparr> = '''')"

lemma keeps_refl [simp]: "keeps s s"
  by (simp add: keeps_def)

lemma keeps_updates [simp]:
  "keeps s (t\<lparr>conns := c\<rparr>) = keeps s t" "keeps s (t\<lparr>udpSessions := u\<rparr>) = keeps s t"
  "keeps s (t\<lparr>sessions := x\<rparr>) = keeps s t" "keeps s (t\<lparr>recentRejects := y\<rparr>) = keeps s t"
  "keeps s (t\<lparr>xs_traffic := z\<rparr>) = keeps s t"
  by (simp_all add: keeps_def)

lemma keeps_trans: "keeps s t \<Longrightarrow> keeps t u \<Longrightarrow> keeps s u"
  by (simp add: keeps_def)

lemma keeps_answerFrame: "answerFrame C s k c i p = (r, s') \<Longrightarrow> keeps s s'"
  by (auto simp: answerFrame_def wrapBackward_def Let_def split: option.splits sum.splits)

lemma keeps_recordReject [simp]: "keeps s (recordReject s reason now)"
  by (simp add: recordReject_def Let_def)

lemma sendConnected_keeps:
  "sendConnectedAndReturn C s k c i resp = (s', acts) \<Longrightarrow> keeps s s' \<and> (\<forall>h p. XDial h p \<notin> set acts)"
  by (auto simp: sendConnectedAndReturn_def dest: keeps_answerFrame split: prod.splits sum.splits)

lemma closeConn_keeps: "closeConn s i = (s', acts) \<Longrightarrow> keeps s s' \<and> (\<forall>h p. XDial h p \<notin> set acts)"
  by (auto simp: closeConn_def split: option.splits)

lemma closeUDPSession_keeps: "closeUDPSession s i = (s', acts) \<Longrightarrow> keeps s s' \<and> (\<forall>h p. XDial h p \<notin> set acts)"
  by (auto simp: closeUDPSession_def split: option.splits)

lemma exitData_keeps: "exitData E s i d = (s', acts) \<Longrightarrow> keeps s s' \<and> (\<forall>h p. XDial h p \<notin> set acts)"
  by (auto simp: exitData_def dest: closeConn_keeps closeUDPSession_keeps split: option.splits if_splits)

lemma exitPing_keeps: "exitPing C t s k f p = (s', acts) \<Longrightarrow> keeps s s' \<and> (\<forall>h p. XDial h p \<notin> set acts)"
  by (auto simp: exitPing_def Let_def dest: keeps_answerFrame split: prod.splits sum.splits)

lemma exitEnd_keeps: "exitEnd s i = (s', acts) \<Longrightarrow> keeps s s' \<and> (\<forall>h p. XDial h p \<notin> set acts)"
  by (auto simp: exitEnd_def dest!: closeConn_keeps closeUDPSession_keeps dest: keeps_trans split: prod.splits)

lemmas quiet_handlers = sendConnected_keeps closeConn_keeps closeUDPSession_keeps exitData_keeps
  exitPing_keeps exitEnd_keeps

text \<open>A handler is safe when it keeps the policy and every dial it makes was admitted by it.\<close>

definition safe_step :: "exit_env \<Rightarrow> ExitService \<Rightarrow> string \<Rightarrow> ExitService \<Rightarrow> exit_action list \<Rightarrow> bool" where
  "safe_step E s peerID s' acts \<longleftrightarrow> keeps s s' \<and> dials_admitted E s peerID acts"

lemma safe_quiet: "keeps s s' \<Longrightarrow> (\<forall>h p. XDial h p \<notin> set acts) \<Longrightarrow> safe_step E s peerID s' acts"
  by (simp add: safe_step_def dials_admitted_def)

lemma safe_append:
  "safe_step E s peerID s1 a1 \<Longrightarrow> safe_step E s1 peerID s2 a2 \<Longrightarrow> safe_step E s peerID s2 (a1 @ a2)"
  by (auto simp: safe_step_def dials_admitted_def keeps_def)

lemma safe_exitBegin:
  assumes "exitBegin C E now s k peerID f b = (s', acts, go)"
  shows "safe_step E s peerID s' acts"
proof (cases "checkBeginPolicy (xe_LookupIP E) (xs_socks5Upstream s) (xs_Policy s) peerID b = ''''")
  case True
  have b: "b = \<lparr>bt_TargetHost = bt_TargetHost b, bt_TargetPort = bt_TargetPort b\<rparr>" by simp
  from assms True show ?thesis
    by (auto simp: exitBegin_def Let_def storeConn_def safe_step_def dials_admitted_def b [symmetric]
        dest: keeps_answerFrame split: prod.splits sum.splits)
next
  case False
  with assms obtain r where "sendConnectedAndReturn C (recordReject s r now) k (f_CircuitID f) (f_StreamID f)
      \<lparr>cn_OK = False, cn_Error = r\<rparr> = (s', acts)"
    by (auto simp: exitBegin_def Let_def split: prod.splits)
  from sendConnected_keeps [OF this] show ?thesis
    by (auto intro: safe_quiet keeps_trans [OF keeps_recordReject])
qed

lemma keeps_store [simp]: "keeps s (storeUDPSession t i u) = keeps s t" "keeps s (storeConn t i c) = keeps s t"
  by (simp_all add: storeUDPSession_def storeConn_def)

lemma keeps_store_left [simp]: "keeps (storeUDPSession s i u) t = keeps s t"
  by (simp add: storeUDPSession_def keeps_def)

lemma safe_exitBeginUDP:
  assumes "exitBeginUDP C E now s k peerID f b = (s', acts, go)"
  shows "safe_step E s peerID s' acts"
  using assms
  by (auto simp: exitBeginUDP_def Let_def intro!: safe_quiet split: prod.splits sum.splits if_splits
      dest!: sendConnected_keeps closeUDPSession_keeps keeps_answerFrame dest: keeps_trans
      intro: keeps_trans [OF keeps_recordReject])

lemma safe_exitPayload:
  "exitPayload C E now s k peerID f p = (s', acts, go) \<Longrightarrow> safe_step E s peerID s' acts"
  by (auto simp: exitPayload_def Let_def split: if_splits option.splits prod.splits
      dest!: quiet_handlers intro: safe_quiet safe_exitBegin safe_exitBeginUDP)

lemma safe_exitEncryptedFrame:
  assumes "exitEncryptedFrame C E now s k peerID f = (s', acts, go)"
  shows "safe_step E s peerID s' acts"
proof -
  have sess: "safe_step E (s\<lparr>sessions := x\<rparr>) peerID t a \<Longrightarrow> safe_step E s peerID t a" for x t a
    by (simp add: safe_step_def dials_admitted_def keeps_def)
  show ?thesis
    using assms
    by (auto simp: exitEncryptedFrame_def Let_def split: if_splits option.splits prod.splits sum.splits
        dest!: safe_exitPayload quiet_handlers intro: safe_quiet sess)
qed

lemma safe_serveEncryptedFrames:
  "serveEncryptedFrames C E now s k peerID fs = (s', acts) \<Longrightarrow> safe_step E s peerID s' acts"
proof (induction fs arbitrary: s s' acts)
  case (Cons f fs)
  then show ?case
    by (auto split: prod.splits bool.splits dest!: safe_exitEncryptedFrame intro: safe_append)
qed (simp add: safe_quiet)

lemma safe_directBegin:
  "directBegin E now s peerID f b = (s', acts, go) \<Longrightarrow> safe_step E s peerID s' acts"
  by (auto simp: directBegin_def Let_def safe_step_def dials_admitted_def writeConnectedFrame_def
      split: if_splits sum.splits) (cases b, simp)+

lemma safe_directBeginUDP:
  "directBeginUDP E now s peerID f b = (s', acts, go) \<Longrightarrow> safe_step E s peerID s' acts"
  by (auto simp: directBeginUDP_def Let_def safe_step_def dials_admitted_def writeConnectedFrame_def
      split: if_splits sum.splits)

lemma safe_handleDirectFrame:
  "handleDirectFrame E now s peerID f = (s', acts, go) \<Longrightarrow> safe_step E s peerID s' acts"
  by (auto simp: handleDirectFrame_def split: if_splits option.splits prod.splits
      dest!: quiet_handlers intro: safe_quiet safe_directBegin safe_directBeginUDP)

lemma safe_serveDirectStream:
  "serveDirectStream E now s peerID fs = (s', acts) \<Longrightarrow> safe_step E s peerID s' acts"
proof (induction fs arbitrary: s s' acts)
  case (Cons f fs)
  then show ?case
    by (auto split: prod.splits bool.splits dest!: safe_handleDirectFrame intro: safe_append)
qed (simp add: safe_quiet)

lemma exitAccept_keeps:
  "exitAccept C rnd s k f = Some (s', acts) \<Longrightarrow> keeps s s' \<and> (\<forall>h p. XDial h p \<notin> set acts)"
  by (auto simp: exitAccept_def split: option.splits sum.splits if_splits)

lemma safe_serveStream:
  "serveStream C E rnd now s k peerID fs = (s', acts) \<Longrightarrow> safe_step E s peerID s' acts"
  by (auto simp: serveStream_def simp del: serveDirectStream.simps split: list.splits if_splits option.splits prod.splits
      dest!: exitAccept_keeps safe_serveEncryptedFrames safe_serveDirectStream
      intro: safe_quiet safe_append)

text \<open>
  C1. Whatever frames arrive on a stream, encrypted or direct, the exit dials a TCP target only if
  the policy in force, in whatever way it has been updated, permits it to that peer, or the
  target is the exit's own upstream.
\<close>

theorem exit_dials_only_permitted:
  assumes "serveStream C E rnd now s streamKey peerID frames = (s', acts)"
    and "xs_Policy s = policy_run cfg ops" and "XDial host port \<in> set acts"
  shows "isLocalSocks5Upstream (xs_socks5Upstream s) host port \<or>
    gate_open (policy_run cfg ops) \<and> peer_permitted (GetPolicy (policy_run cfg ops)) peerID \<and>
    AllowTCP (GetPolicy (policy_run cfg ops)) \<and>
    target_permitted (xe_LookupIP E) (GetPolicy (policy_run cfg ops)) host port"
proof -
  have "checkBeginPolicy (xe_LookupIP E) (xs_socks5Upstream s) (policy_run cfg ops) peerID
      \<lparr>bt_TargetHost = host, bt_TargetPort = port\<rparr> = ''''"
    using safe_serveStream [OF assms(1)] assms(2,3) by (auto simp: safe_step_def dials_admitted_def)
  then show ?thesis by (simp add: checkBeginPolicy_accepts Let_def)
qed

section \<open>Every request is answered\<close>

text \<open>What a client makes of an answer on a circuit of one hop.\<close>

definition clientReads :: "crypto \<Rightarrow> HopSession \<Rightarrow> Frame \<Rightarrow> OnionPayload option" where
  "clientReads C h frame =
     Option.bind (json_unmarshal dec_OnionCell (f_PayloadJSON frame)) (\<lambda>cell.
     case fst (UnwrapBackward C h (f_CircuitID frame) (f_StreamID frame) (oc_Ciphertext cell)) of
       Inl _ \<Rightarrow> None | Inr plain \<Rightarrow> json_unmarshal dec_OnionPayload plain)"

lemma answerFrame_read:
  assumes "aead_correct C" "sessions s k = Some r" "keyed h" "bwd_sync h r" "OnionPayload_ok p" "op_Pad p = []"
  shows "\<exists>out. answerFrame C s k cid sid p = (Inr out, s\<lparr>sessions := (sessions s)(k \<mapsto> bumpBwd r)\<rparr>) \<and>
    clientReads C h out = Some p"
proof -
  have key: "length (hs_BackwardKey r) = AEADKeySize" using assms(3,4) by (simp add: keyed_def bwd_sync_def)
  have "json_unmarshal dec_OnionPayload (json_marshal enc_OnionPayload p) = Some p"
    using assms(5) by (rule codec_OnionPayload.unmarshal_marshal)
  moreover have "p\<lparr>op_Pad := []\<rparr> = p" using assms(6) by simp
  ultimately show ?thesis
    using assms(1-4) key
    by (simp add: answerFrame_def wrapBackward_def MarshalPaddedOnionPayload_def Let_def clientReads_def
        onion_cell_roundtrip UnwrapBackward_def bwd_sync_def)
qed

text \<open>The verdict on a request: the reason of the policy, or the outcome of the dial.\<close>

definition beginVerdict :: "exit_env \<Rightarrow> ExitService \<Rightarrow> string \<Rightarrow> BeginTCP \<Rightarrow> Connected" where
  "beginVerdict E s peerID b =
     (let reason = checkBeginPolicy (xe_LookupIP E) (xs_socks5Upstream s) (xs_Policy s) peerID b
      in if reason \<noteq> '''' then \<lparr>cn_OK = False, cn_Error = reason\<rparr>
         else case dialTCPTarget E s (bt_TargetHost b) (bt_TargetPort b) of
           Inr _ \<Rightarrow> \<lparr>cn_OK = True, cn_Error = ''''\<rparr>
         | Inl e \<Rightarrow> \<lparr>cn_OK = False, cn_Error = ''dial '' @
               JoinHostPort (bt_TargetHost b) (show_int (bt_TargetPort b)) @ '' failed: '' @ errorText e\<rparr>)"

lemma connectedPayload_ok: "ascii (cn_Error resp) \<Longrightarrow> OnionPayload_ok (connectedPayload resp)"
  by (simp add: OnionPayload_ok_def connectedPayload_def zeroPayload_def)

lemma exitBegin_answers:
  assumes "aead_correct C" "sessions s k = Some r" "keyed h" "bwd_sync h r"
    and "ascii (cn_Error (beginVerdict E s peerID b))"
  shows "\<exists>s' acts go out. exitBegin C E now s k peerID f b = (s', acts, go) \<and>
    filter (\<lambda>a. case a of XWrite _ \<Rightarrow> True | _ \<Rightarrow> False) acts = [XWrite out] \<and>
    clientReads C h out = Some (connectedPayload (beginVerdict E s peerID b))"
proof -
  let ?v = "beginVerdict E s peerID b"
  have ok: "OnionPayload_ok (connectedPayload ?v)" "op_Pad (connectedPayload ?v) = []"
    using assms(5) by (simp_all add: connectedPayload_ok) (simp add: connectedPayload_def zeroPayload_def)
  show ?thesis
  proof (cases "checkBeginPolicy (xe_LookupIP E) (xs_socks5Upstream s) (xs_Policy s) peerID b = ''''")
    case True
    obtain out where "answerFrame C s k (f_CircuitID f) (f_StreamID f) (connectedPayload ?v) =
        (Inr out, s\<lparr>sessions := (sessions s)(k \<mapsto> bumpBwd r)\<rparr>)" "clientReads C h out = Some (connectedPayload ?v)"
      using answerFrame_read [OF assms(1-4) ok] by blast
    then show ?thesis using True by (auto simp: exitBegin_def beginVerdict_def Let_def split: sum.splits)
  next
    case False
    let ?s = "recordReject s (checkBeginPolicy (xe_LookupIP E) (xs_socks5Upstream s) (xs_Policy s) peerID b) now"
    have "sessions ?s k = Some r" using assms(2) by (simp add: recordReject_def Let_def)
    then obtain out where "answerFrame C ?s k (f_CircuitID f) (f_StreamID f) (connectedPayload ?v) =
        (Inr out, ?s\<lparr>sessions := (sessions ?s)(k \<mapsto> bumpBwd r)\<rparr>)" "clientReads C h out = Some (connectedPayload ?v)"
      using answerFrame_read [OF assms(1) _ assms(3,4) ok] by blast
    then show ?thesis using False
      by (auto simp: exitBegin_def beginVerdict_def sendConnectedAndReturn_def Let_def)
  qed
qed

lemma beginVerdict_sessions [simp]: "beginVerdict E (s\<lparr>sessions := x\<rparr>) peerID b = beginVerdict E s peerID b"
proof -
  have "dialTCPTarget E (s\<lparr>sessions := x\<rparr>) = dialTCPTarget E s"
    by (intro ext) (simp add: dialTCPTarget_def dialViaSocks5Upstream_def)
  then show ?thesis unfolding beginVerdict_def by (simp only:) simp
qed

definition beginPayload :: "BeginTCP \<Rightarrow> OnionPayload" where
  "beginPayload b = (zeroPayload OnionPayloadKindBegin)\<lparr>op_Begin := Some b\<rparr>"

text \<open>
  A request to open a TCP stream on a circuit of one hop gets exactly one answer, and the client
  can read it: it is positive when the policy permits the target and the dial succeeds, and
  otherwise carries the reason of the policy or the error of the dial.
\<close>

theorem begin_is_answered:
  assumes "aead_correct C" "keyed h" "fwd_sync h r" "bwd_sync h r" "sessions s k = Some r"
    and req: "ascii (bt_TargetHost b)" "int64_ok (bt_TargetPort b)"
    and wrap: "fst (WrapForward C [h] cid sid (MarshalPaddedOnionPayload (beginPayload b))) = Inr ct"
    and err: "ascii (cn_Error (beginVerdict E s peerID b))"
  shows "\<exists>s' acts go out. exitEncryptedFrame C E now s k peerID (cellFrame cid sid ct) = (s', acts, go) \<and>
    filter (\<lambda>a. case a of XWrite _ \<Rightarrow> True | _ \<Rightarrow> False) acts = [XWrite out] \<and>
    clientReads C h out = Some (connectedPayload (beginVerdict E s peerID b))"
proof -
  let ?m = "MarshalPaddedOnionPayload (beginPayload b)" and ?s = "s\<lparr>sessions := (sessions s)(k \<mapsto> bumpFwd r)\<rparr>"
  have ct: "ct = sealFwd C h cid sid 0 ?m" using wrap assms(2) by (simp add: WrapForward_onion)
  have un: "UnwrapForwardFinal C r cid sid ct = (Inr ?m, bumpFwd r)"
    unfolding ct by (rule UnwrapForwardFinal_seal [OF assms(1-3)])
  have "OnionPayload_ok (beginPayload b)" "(beginPayload b)\<lparr>op_Pad := []\<rparr> = beginPayload b"
    using req by (simp_all add: OnionPayload_ok_def beginPayload_def zeroPayload_def kind_defs)
  then have dec: "json_unmarshal dec_OnionPayload ?m = Some (beginPayload b)"
    using codec_OnionPayload.unmarshal_marshal by (simp add: MarshalPaddedOnionPayload_def)
  have "exitEncryptedFrame C E now s k peerID (cellFrame cid sid ct) =
      exitBegin C E now ?s k peerID (cellFrame cid sid ct) b"
    using assms(5) un dec
    by (simp add: exitEncryptedFrame_def cellFrame_def NewOnionDataFrame_def onion_cell_roundtrip Let_def
        exitPayload_def) (simp add: beginPayload_def zeroPayload_def kind_defs)
  moreover have "\<exists>s' acts go out. exitBegin C E now ?s k peerID (cellFrame cid sid ct) b = (s', acts, go) \<and>
      filter (\<lambda>a. case a of XWrite _ \<Rightarrow> True | _ \<Rightarrow> False) acts = [XWrite out] \<and>
      clientReads C h out = Some (connectedPayload (beginVerdict E ?s peerID b))"
    using assms(4) err by (intro exitBegin_answers [OF assms(1) _ assms(2), where r = "bumpFwd r"]) (simp_all add: bwd_sync_def)
  ultimately show ?thesis by simp
qed

section \<open>After a failed dial\<close>

text \<open>
  A dial that fails leaves an entry for its stream behind: the exit answers that the connection
  failed, but stores the nil connection and counts it as open, where the comment says it only
  answers. A direct stream leaves no entry.
\<close>

theorem failed_dial_counts_as_open:
  assumes "checkBeginPolicy (xe_LookupIP E) (xs_socks5Upstream s) (xs_Policy s) peerID b = ''''"
    and "dialTCPTarget E s (bt_TargetHost b) (bt_TargetPort b) = Inl e"
    and "sessions s k = Some r" "keyed r" "conns s (f_StreamID f) = None" "finite (dom (conns s))"
  shows "OpenConnCount (fst (exitBegin C E now s k peerID f b)) = Suc (OpenConnCount s) \<and>
    OpenConnCount (fst (directBegin E now s peerID f b)) = OpenConnCount s"
proof -
  have "conns (fst (exitBegin C E now s k peerID f b)) = (conns s)(f_StreamID f \<mapsto> None)"
    using assms(1-4)
    by (simp add: exitBegin_def answerFrame_def wrapBackward_def AEADSeal_def keyed_def Let_def storeConn_def)
  moreover have "f_StreamID f \<notin> dom (conns s)" using assms(5) by auto
  moreover have "fst (directBegin E now s peerID f b) = s" using assms(1,2) by (simp add: directBegin_def Let_def)
  ultimately show ?thesis using assms(6) by (simp add: OpenConnCount_def)
qed

section \<open>The log of rejections\<close>

definition last_n :: "nat \<Rightarrow> 'a list \<Rightarrow> 'a list" where
  "last_n n xs = drop (length xs - n) xs"

lemma last_n_snoc: "last_n n (last_n n xs @ [x]) = last_n n (xs @ [x])"
proof (cases "length xs \<le> n")
  case False
  then have "length xs - n + (Suc (length xs - (length xs - n)) - n) = Suc (length xs) - n" by simp
  then show ?thesis using False by (simp add: last_n_def)
qed (simp add: last_n_def)

text \<open>
  The exit remembers the latest twenty rejections, in order, and never more.
\<close>

theorem recent_rejects_window:
  "recentRejects (foldl (\<lambda>s (reason, at). recordReject s reason at) (NewExitService pol upstream rec) log) =
     last_n 20 (map (\<lambda>(reason, at). \<lparr>rj_Reason = reason, rj_At = at\<rparr>) log)"
proof (induction log rule: rev_induct)
  case (snoc x log)
  have "recentRejects (recordReject s r t) = last_n 20 (recentRejects s @ [\<lparr>rj_Reason = r, rj_At = t\<rparr>])" for s r t
    by (simp add: recordReject_def Let_def last_n_def maxRecentRejects_def)
  then show ?case using snoc by (simp add: last_n_snoc split: prod.splits)
qed (simp add: NewExitService_def last_n_def)

section \<open>Instances\<close>

definition demo_exit_env :: exit_env where
  "demo_exit_env = \<lparr>xe_Dial = (\<lambda>a. if a = ''1.1.1.1:443'' then Inr ''conn-1'' else Inl (Errorf ''refused'')),
     xe_upstreamBytes = (\<lambda>_. []), xe_LookupIP = (\<lambda>_. Inl (Errorf ''no such host'')),
     xe_ResolveUDPAddr = Inr, xe_ListenPacket = Inr ''udp-1'', xe_connWrite = (\<lambda>_ _. True),
     xe_udpWriteTo = (\<lambda>_ _. True)\<rparr>"

definition demo_exit_service :: ExitService where
  "demo_exit_service = (NewExitService (policy_run None []) '''' None)\<lparr>sessions := [''k'' \<mapsto> demo_session ''x'']\<rparr>"

definition demo_begin :: "string \<Rightarrow> BeginTCP" where
  "demo_begin host = \<lparr>bt_TargetHost = host, bt_TargetPort = 443\<rparr>"

lemma demo_verdicts:
  "checkBeginPolicy (xe_LookupIP demo_exit_env) '''' (policy_run None []) ''p'' (demo_begin ''1.1.1.1'') = ''''"
  "checkBeginPolicy (xe_LookupIP demo_exit_env) '''' (policy_run None []) ''p'' (demo_begin ''8.8.8.8'') = ''''"
  "checkBeginPolicy (xe_LookupIP demo_exit_env) '''' (policy_run None []) ''p'' (demo_begin ''10.0.0.1'') = ''private_target_denied''"
  "isLocalSocks5Upstream '''' ''1.1.1.1'' 443 = False"
  "JoinHostPort ''1.1.1.1'' (show_int 443) = ''1.1.1.1:443''"
  "JoinHostPort ''8.8.8.8'' (show_int 443) = ''8.8.8.8:443''"
  by code_simp+

lemma demo_exit_simps:
  "sessions demo_exit_service ''k'' = Some (demo_session ''x'')" "xs_socks5Upstream demo_exit_service = ''''"
  "xs_Policy demo_exit_service = policy_run None []" "conns demo_exit_service = Map.empty"
  by (simp_all add: demo_exit_service_def NewExitService_def)

lemma demo_dials:
  "dialTCPTarget demo_exit_env demo_exit_service ''1.1.1.1'' 443 = Inr ''conn-1''"
  "dialTCPTarget demo_exit_env demo_exit_service ''8.8.8.8'' 443 = Inl (Errorf ''refused'')"
  using demo_verdicts(5,6) by (simp_all add: dialTCPTarget_def demo_exit_simps demo_exit_env_def)

lemma demo_begin_verdict:
  "beginVerdict demo_exit_env demo_exit_service ''p'' (demo_begin ''1.1.1.1'') = \<lparr>cn_OK = True, cn_Error = ''''\<rparr>"
  using demo_verdicts(1) demo_dials(1)
  by (simp add: beginVerdict_def demo_exit_simps Let_def) (simp add: demo_begin_def)

lemma demo_bwd_sync: "bwd_sync (demo_session a) (demo_session b)"
  by (simp add: bwd_sync_def demo_session_def)

theorem begin_is_answered_witness:
  "\<exists>ct s' acts go out.
    fst (WrapForward demo_crypto [demo_session ''e''] ''c'' ''s''
      (MarshalPaddedOnionPayload (beginPayload (demo_begin ''1.1.1.1'')))) = Inr ct \<and>
    exitEncryptedFrame demo_crypto demo_exit_env 0 demo_exit_service ''k'' ''p'' (cellFrame ''c'' ''s'' ct) = (s', acts, go) \<and>
    filter (\<lambda>a. case a of XWrite _ \<Rightarrow> True | _ \<Rightarrow> False) acts = [XWrite out] \<and>
    clientReads demo_crypto (demo_session ''e'') out = Some (connectedPayload \<lparr>cn_OK = True, cn_Error = ''''\<rparr>)"
proof -
  let ?b = "demo_begin ''1.1.1.1''"
  obtain ct where ct: "fst (WrapForward demo_crypto [demo_session ''e''] ''c'' ''s''
      (MarshalPaddedOnionPayload (beginPayload ?b))) = Inr ct"
    using WrapForward_onion [of "[demo_session ''e'']" demo_crypto] by simp
  have "\<exists>s' acts go out.
      exitEncryptedFrame demo_crypto demo_exit_env 0 demo_exit_service ''k'' ''p'' (cellFrame ''c'' ''s'' ct) = (s', acts, go) \<and>
      filter (\<lambda>a. case a of XWrite _ \<Rightarrow> True | _ \<Rightarrow> False) acts = [XWrite out] \<and>
      clientReads demo_crypto (demo_session ''e'') out =
        Some (connectedPayload (beginVerdict demo_exit_env demo_exit_service ''p'' ?b))"
    by (rule begin_is_answered [OF demo_aead_correct keyed_demo sync_demo demo_bwd_sync demo_exit_simps(1) _ _ ct])
      (unfold demo_begin_verdict, simp_all add: demo_begin_def int64_ok_def)
  with ct show ?thesis unfolding demo_begin_verdict by blast
qed

theorem failed_dial_counts_as_open_witness:
  "OpenConnCount (fst (exitBegin demo_crypto demo_exit_env 0 demo_exit_service ''k'' ''p''
      (cellFrame ''c'' ''s'' []) (demo_begin ''8.8.8.8''))) = 1"
proof -
  have "OpenConnCount demo_exit_service = 0" by (simp add: OpenConnCount_def demo_exit_simps)
  moreover have "dialTCPTarget demo_exit_env demo_exit_service (bt_TargetHost (demo_begin ''8.8.8.8''))
      (bt_TargetPort (demo_begin ''8.8.8.8'')) = Inl (Errorf ''refused'')"
    using demo_dials(2) by (simp add: demo_begin_def)
  ultimately show ?thesis
    using failed_dial_counts_as_open [of demo_exit_env demo_exit_service "''p''" "demo_begin ''8.8.8.8''" _ "''k''" "demo_session ''x''"
        "cellFrame ''c'' ''s'' []" demo_crypto 0] demo_verdicts(2)
    by (simp add: demo_exit_simps)
qed

definition demo_frames :: "Frame list" where
  "demo_frames = [NewBeginTCPFrame ''c'' ''s'' (demo_begin ''1.1.1.1'')]"

lemma demo_begin_read:
  "json_unmarshal dec_BeginTCP (json_marshal enc_BeginTCP (demo_begin ''1.1.1.1'')) = Some (demo_begin ''1.1.1.1'')"
  by (rule codec_BeginTCP.unmarshal_marshal) (simp add: demo_begin_def int64_ok_def)

theorem exit_dials_only_permitted_witness:
  "\<exists>s' acts. serveStream demo_crypto demo_exit_env [] 0 demo_exit_service ''k'' ''p'' demo_frames = (s', acts) \<and>
    XDial ''1.1.1.1'' 443 \<in> set acts \<and> gate_open (policy_run None [])"
proof -
  obtain s' acts where r: "serveStream demo_crypto demo_exit_env [] 0 demo_exit_service ''k'' ''p'' demo_frames = (s', acts)"
    by fastforce
  have d: "XDial ''1.1.1.1'' 443 \<in> set acts"
    using r demo_verdicts(1) demo_dials(1) demo_begin_read
    by (auto simp: serveStream_def demo_frames_def NewBeginTCPFrame_def MsgType_defs handleDirectFrame_def
        directBegin_def Let_def demo_exit_simps) (auto simp: demo_begin_def split: sum.splits)
  have "gate_open (policy_run None [])"
    using exit_dials_only_permitted [OF r demo_exit_simps(3) d] demo_verdicts(4) by (simp add: demo_exit_simps)
  with r d show ?thesis by blast
qed

end
