(* ===== verification/Stream_Manager.thy ===== *)
theory Stream_Manager
  imports Circuit_Store
begin

text \<open>
  The stream manager of the client, \<open>internal/client/stream_manager.go\<close>: the streams by
  ID, each with the local connection its data goes to. A connection is named by a number;
  closing it, or a reply channel, is an action the operation returns, in the order the code
  performs them. The channels of UDP streams are allocated here, so their numbers come from
  a counter of the state.
\<close>

section \<open>Connections\<close>

definition StreamErrClosed :: go_error where
  "StreamErrClosed = Errorf ''circuit stream closed: connection reset by remote''"

text \<open>
  The two kinds of \<open>net.Conn\<close> a stream holds: \<open>streamErrorConn\<close>, which wraps a connection
  and carries the injected read error, and \<open>udpReplyConn\<close>, which sends to a channel.
\<close>

datatype stream_conn = StreamErrorConn nat "go_error option" | UDPReplyConn nat

text \<open>\<open>inner\<close> is what reading the wrapped connection gives.\<close>

definition streamErrorConn_Read :: "stream_conn \<Rightarrow> bytes result \<Rightarrow> bytes result" where
  "streamErrorConn_Read c inner =
     (case c of StreamErrorConn _ (Some e) \<Rightarrow> Inl e
      | StreamErrorConn _ None \<Rightarrow> inner
      | UDPReplyConn _ \<Rightarrow> Inl EOF)"

definition SetReadError :: "go_error \<Rightarrow> stream_conn \<Rightarrow> stream_conn" where
  "SetReadError e c = (case c of StreamErrorConn h _ \<Rightarrow> StreamErrorConn h (Some e) | UDPReplyConn ch \<Rightarrow> UDPReplyConn ch)"

text \<open>
  A buffered channel: what is queued and whether it is closed. A send on a closed channel
  and closing one a second time panic; \<open>None\<close> is a send that blocks.
\<close>

record reply_chan =
  ch_queue :: "bytes list"
  ch_closed :: bool

definition replyChanCap :: nat where "replyChanCap = 64"

definition udpReplyConn_Write :: "bytes \<Rightarrow> reply_chan \<Rightarrow> (nat \<times> reply_chan) result option" where
  "udpReplyConn_Write b ch =
     (if ch_closed ch then Some (Inl Panic)
      else if length (ch_queue ch) \<ge> replyChanCap then None
      else Some (Inr (length b, ch\<lparr>ch_queue := ch_queue ch @ [b]\<rparr>)))"

definition udpReplyConn_Close :: "reply_chan \<Rightarrow> reply_chan result" where
  "udpReplyConn_Close ch = (if ch_closed ch then Inl Panic else Inr (ch\<lparr>ch_closed := True\<rparr>))"

section \<open>Streams\<close>

record Stream =
  sm_ID :: string
  sm_CircuitID :: string
  sm_Conn :: stream_conn
  sm_TargetHost :: string
  sm_TargetPort :: int

record StreamInfo =
  si_ID :: string
  si_CircuitID :: string
  si_TargetHost :: string
  si_TargetPort :: int
  si_State :: string

record StreamManager =
  sm_streams :: "string \<rightharpoonup> Stream"
  sm_nextChan :: nat

datatype conn_action = CloseConn nat | CloseChan nat | ReadError nat go_error

definition NewStreamManager :: StreamManager where
  "NewStreamManager = \<lparr>sm_streams = Map.empty, sm_nextChan = 0\<rparr>"

definition putStream :: "StreamManager \<Rightarrow> Stream \<Rightarrow> StreamManager" where
  "putStream m s = m\<lparr>sm_streams := (sm_streams m)(sm_ID s \<mapsto> s)\<rparr>"

text \<open>\<open>sid\<close> is the ID that \<open>NewStreamID\<close> draws.\<close>

definition RegisterStream :: "string \<Rightarrow> string \<Rightarrow> nat \<Rightarrow> StreamManager \<Rightarrow> Stream \<times> StreamManager" where
  "RegisterStream sid cid conn m =
     (let s = \<lparr>sm_ID = sid, sm_CircuitID = cid, sm_Conn = StreamErrorConn conn None,
               sm_TargetHost = '''', sm_TargetPort = 0\<rparr>
      in (s, putStream m s))"

definition RegisterStreamUDP :: "string \<Rightarrow> string \<Rightarrow> StreamManager \<Rightarrow> (Stream \<times> nat) \<times> StreamManager" where
  "RegisterStreamUDP sid cid m =
     (let ch = sm_nextChan m;
          s = \<lparr>sm_ID = sid, sm_CircuitID = cid, sm_Conn = UDPReplyConn ch,
               sm_TargetHost = '''', sm_TargetPort = 0\<rparr>
      in ((s, ch), putStream (m\<lparr>sm_nextChan := ch + 1\<rparr>) s))"

definition sm_Get :: "StreamManager \<Rightarrow> string \<Rightarrow> Stream option" where
  "sm_Get m sid = sm_streams m sid"

fun closeAction :: "stream_conn \<Rightarrow> conn_action" where
  "closeAction (StreamErrorConn h _) = CloseConn h"
| "closeAction (UDPReplyConn ch) = CloseChan ch"

definition Unregister :: "StreamManager \<Rightarrow> string \<Rightarrow> StreamManager" where
  "Unregister m sid = m\<lparr>sm_streams := (sm_streams m)(sid := None)\<rparr>"

definition Remove :: "StreamManager \<Rightarrow> string \<Rightarrow> StreamManager \<times> conn_action list" where
  "Remove m sid =
     (case sm_streams m sid of
        None \<Rightarrow> (m, [])
      | Some s \<Rightarrow> (m\<lparr>sm_streams := (sm_streams m)(sid := None)\<rparr>, [closeAction (sm_Conn s)]))"

definition SetStreamTarget :: "StreamManager \<Rightarrow> string \<Rightarrow> string \<Rightarrow> int \<Rightarrow> StreamManager" where
  "SetStreamTarget m sid host port =
     (case sm_streams m sid of
        None \<Rightarrow> m
      | Some s \<Rightarrow> m\<lparr>sm_streams := (sm_streams m)(sid \<mapsto> s\<lparr>sm_TargetHost := host, sm_TargetPort := port\<rparr>)\<rparr>)"

text \<open>\<open>order\<close> is the order in which \<open>range\<close> enumerates the keys of the map.\<close>

definition ListStreams :: "string list \<Rightarrow> StreamManager \<Rightarrow> StreamInfo list" where
  "ListStreams order m =
     map (\<lambda>s. \<lparr>si_ID = sm_ID s, si_CircuitID = sm_CircuitID s, si_TargetHost = sm_TargetHost s,
               si_TargetPort = sm_TargetPort s, si_State = ''active''\<rparr>)
       (List.map_filter (sm_streams m) order)"

definition ListByCircuitID :: "string list \<Rightarrow> StreamManager \<Rightarrow> string \<Rightarrow> Stream list" where
  "ListByCircuitID order m cid = filter (\<lambda>s. sm_CircuitID s = cid) (List.map_filter (sm_streams m) order)"

fun notifyStream :: "go_error \<Rightarrow> stream_conn \<Rightarrow> conn_action list" where
  "notifyStream e (StreamErrorConn h _) = [ReadError h e, CloseConn h]"
| "notifyStream e (UDPReplyConn ch) = [CloseChan ch]"

definition NotifyCircuitClosed ::
  "string list \<Rightarrow> StreamManager \<Rightarrow> string \<Rightarrow> go_error option \<Rightarrow> StreamManager \<times> conn_action list" where
  "NotifyCircuitClosed order m cid err =
     (let e = (case err of None \<Rightarrow> StreamErrClosed | Some e \<Rightarrow> e);
          list = ListByCircuitID order m cid
      in (foldl Unregister m (map sm_ID list), concat (map (\<lambda>s. notifyStream e (sm_Conn s)) list)))"

interpretation streams: keyed_store sm_Get putStream sm_ID Unregister
  by unfold_locales (auto simp: sm_Get_def putStream_def Unregister_def)

section \<open>Closing\<close>

lemma sm_streams_foldl_Unregister:
  "sm_streams (foldl Unregister m ids) = sm_streams m |` (- set ids)"
  by (induction ids arbitrary: m) (auto simp: Unregister_def restrict_map_def fun_eq_iff)

lemma sm_nextChan_foldl_Unregister [simp]: "sm_nextChan (foldl Unregister m ids) = sm_nextChan m"
  by (induction ids arbitrary: m) (auto simp: Unregister_def)

lemma set_map_filter: "set (List.map_filter f xs) = {y. \<exists>x \<in> set xs. f x = Some y}"
  by (induction xs) (auto simp: List.map_filter_def)

lemma map_filter_keys:
  "streams.consistent m \<Longrightarrow> map sm_ID (List.map_filter (sm_streams m) order) = filter (\<lambda>k. k \<in> dom (sm_streams m)) order"
  by (induction order) (auto simp: List.map_filter_def streams.consistent_def sm_Get_def)

lemma NotifyCircuitClosed_streams:
  assumes "streams.consistent m" and "dom (sm_streams m) \<subseteq> set order"
  shows "sm_Get (fst (NotifyCircuitClosed order m cid err)) sid =
     (case sm_Get m sid of Some s \<Rightarrow> if sm_CircuitID s = cid then None else Some s | None \<Rightarrow> None)"
proof -
  let ?ids = "sm_ID ` {s. \<exists>k \<in> set order. sm_streams m k = Some s \<and> sm_CircuitID s = cid}"
  have ids: "set (map sm_ID (ListByCircuitID order m cid)) = ?ids"
    by (auto simp: ListByCircuitID_def set_map_filter)
  have "sid \<in> ?ids \<longleftrightarrow> (\<exists>s. sm_streams m sid = Some s \<and> sm_CircuitID s = cid)"
    using assms by (auto simp: streams.consistent_def sm_Get_def image_iff) (metis domI in_mono)+
  moreover have "fst (NotifyCircuitClosed order m cid err) = foldl Unregister m (map sm_ID (ListByCircuitID order m cid))"
    by (simp add: NotifyCircuitClosed_def Let_def)
  ultimately show ?thesis
    by (simp add: sm_Get_def sm_streams_foldl_Unregister ids restrict_map_def del: set_map split: option.splits)
qed

text \<open>The operations of the manager as one sequence of steps, with the actions they perform.\<close>

datatype stream_op =
    OpRegister string string nat
  | OpRegisterUDP string string
  | OpRemove string
  | OpUnregister string
  | OpSetTarget string string int
  | OpCircuitClosed "string list" string "go_error option"

fun streamStep :: "StreamManager \<Rightarrow> stream_op \<Rightarrow> StreamManager \<times> conn_action list" where
  "streamStep m (OpRegister sid cid conn) = (snd (RegisterStream sid cid conn m), [])"
| "streamStep m (OpRegisterUDP sid cid) = (snd (RegisterStreamUDP sid cid m), [])"
| "streamStep m (OpRemove sid) = Remove m sid"
| "streamStep m (OpUnregister sid) = (Unregister m sid, [])"
| "streamStep m (OpSetTarget sid host port) = (SetStreamTarget m sid host port, [])"
| "streamStep m (OpCircuitClosed order cid err) = NotifyCircuitClosed order m cid err"

fun streamRun :: "StreamManager \<Rightarrow> stream_op list \<Rightarrow> StreamManager \<times> conn_action list" where
  "streamRun m [] = (m, [])"
| "streamRun m (op # ops) =
     (let (m1, acts) = streamStep m op; (m2, rest) = streamRun m1 ops in (m2, acts @ rest))"

text \<open>\<open>range\<close> visits a key once.\<close>

fun rangeOnce :: "stream_op \<Rightarrow> bool" where
  "rangeOnce (OpCircuitClosed order _ _) = distinct order"
| "rangeOnce _ = True"

fun closedChan :: "conn_action \<Rightarrow> nat option" where
  "closedChan (CloseChan ch) = Some ch"
| "closedChan _ = None"

definition closedChans :: "conn_action list \<Rightarrow> nat list" where
  "closedChans acts = List.map_filter closedChan acts"

fun chanOf :: "stream_conn \<Rightarrow> nat option" where
  "chanOf (UDPReplyConn ch) = Some ch"
| "chanOf (StreamErrorConn _ _) = None"

text \<open>
  The channels of the registered streams are allocated, and no two streams share one. Every
  step keeps this, and closes only channels that it takes out of the map.
\<close>

definition chans_ok :: "StreamManager \<Rightarrow> bool" where
  "chans_ok m \<longleftrightarrow> streams.consistent m
     \<and> (\<forall>k s ch. sm_Get m k = Some s \<longrightarrow> chanOf (sm_Conn s) = Some ch \<longrightarrow> ch < sm_nextChan m)
     \<and> (\<forall>k k' s s' ch. sm_Get m k = Some s \<longrightarrow> sm_Get m k' = Some s' \<longrightarrow>
          chanOf (sm_Conn s) = Some ch \<longrightarrow> chanOf (sm_Conn s') = Some ch \<longrightarrow> k = k')"

definition liveChans :: "StreamManager \<Rightarrow> nat set" where
  "liveChans m = {ch. \<exists>k s. sm_Get m k = Some s \<and> chanOf (sm_Conn s) = Some ch}"

definition closes_well :: "StreamManager \<Rightarrow> StreamManager \<Rightarrow> conn_action list \<Rightarrow> bool" where
  "closes_well m m' acts \<longleftrightarrow> chans_ok m' \<and> sm_nextChan m \<le> sm_nextChan m' \<and> distinct (closedChans acts)
     \<and> set (closedChans acts) \<subseteq> (liveChans m \<union> {sm_nextChan m..<sm_nextChan m'}) - liveChans m'
     \<and> liveChans m' \<subseteq> liveChans m \<union> {sm_nextChan m..}"

lemma closedChans_simps [simp]:
  "closedChans [] = []"
  "closedChans (a # acts) = (case closedChan a of None \<Rightarrow> closedChans acts | Some ch \<Rightarrow> ch # closedChans acts)"
  "closedChans (acts @ acts') = closedChans acts @ closedChans acts'"
  by (auto simp: closedChans_def List.map_filter_def split: option.splits)

lemma liveChans_below: "chans_ok m \<Longrightarrow> ch \<in> liveChans m \<Longrightarrow> ch < sm_nextChan m"
  by (auto simp: chans_ok_def liveChans_def)

lemma chans_ok_sub:
  assumes "chans_ok m" and "sm_nextChan m' = sm_nextChan m"
    and "\<And>k s. sm_Get m' k = Some s \<Longrightarrow> \<exists>s0. sm_Get m k = Some s0 \<and> sm_Conn s = sm_Conn s0 \<and> sm_ID s = sm_ID s0"
  shows "chans_ok m'" and "liveChans m' \<subseteq> liveChans m"
proof -
  show "chans_ok m'"
    unfolding chans_ok_def streams.consistent_def
  proof (intro conjI allI impI)
    fix k s assume "sm_Get m' k = Some s"
    then show "sm_ID s = k"
      using assms(1,3) by (fastforce simp: chans_ok_def streams.consistent_def)
  next
    fix k s ch assume "sm_Get m' k = Some s" "chanOf (sm_Conn s) = Some ch"
    then show "ch < sm_nextChan m'"
      using assms(1,3) unfolding assms(2) by (fastforce simp: chans_ok_def)
  next
    fix k k' s s' ch assume "sm_Get m' k = Some s" "sm_Get m' k' = Some s'"
      and "chanOf (sm_Conn s) = Some ch" "chanOf (sm_Conn s') = Some ch"
    then show "k = k'" using assms(1,3) unfolding chans_ok_def by metis
  qed
  show "liveChans m' \<subseteq> liveChans m"
    using assms(3) by (fastforce simp: liveChans_def)
qed

lemma closes_well_shrink:
  assumes "chans_ok m" and "sm_nextChan m' = sm_nextChan m"
    and "\<And>k s. sm_Get m' k = Some s \<Longrightarrow> \<exists>s0. sm_Get m k = Some s0 \<and> sm_Conn s = sm_Conn s0 \<and> sm_ID s = sm_ID s0"
    and "distinct (closedChans acts)" and "set (closedChans acts) \<subseteq> liveChans m - liveChans m'"
  shows "closes_well m m' acts"
  using chans_ok_sub [OF assms(1,2,3)] assms(2,4,5) by (auto simp: closes_well_def)

lemma closes_well_refl: "chans_ok m \<Longrightarrow> closes_well m m []"
  by (simp add: closes_well_def)

lemma closes_well_put:
  assumes ok: "chans_ok m" and get: "\<And>k. sm_Get m' k = (if k = sm_ID s then Some s else sm_Get m k)"
    and new: "chanOf (sm_Conn s) = None \<and> sm_nextChan m' = sm_nextChan m
      \<or> chanOf (sm_Conn s) = Some (sm_nextChan m) \<and> sm_nextChan m' = sm_nextChan m + 1"
  shows "closes_well m m' []"
proof -
  have below: "ch < sm_nextChan m" if "sm_Get m k = Some t" "chanOf (sm_Conn t) = Some ch" for k t ch
    using ok that by (auto simp: chans_ok_def)
  have "chans_ok m'"
    unfolding chans_ok_def streams.consistent_def
  proof (intro conjI allI impI)
    fix k t assume "sm_Get m' k = Some t"
    then show "sm_ID t = k"
      using ok by (auto simp: get chans_ok_def streams.consistent_def split: if_splits)
  next
    fix k t ch assume "sm_Get m' k = Some t" "chanOf (sm_Conn t) = Some ch"
    then show "ch < sm_nextChan m'"
      using new by (auto simp: get split: if_splits dest: below)
  next
    fix k k' t t' ch assume "sm_Get m' k = Some t" "sm_Get m' k' = Some t'"
      and "chanOf (sm_Conn t) = Some ch" "chanOf (sm_Conn t') = Some ch"
    moreover have "k = k'" if "sm_Get m k = Some t" "sm_Get m k' = Some t'"
      "chanOf (sm_Conn t) = Some ch" "chanOf (sm_Conn t') = Some ch"
      using ok that unfolding chans_ok_def by metis
    ultimately show "k = k'"
      using new by (auto simp: get split: if_splits dest: below)
  qed
  moreover have "liveChans m' \<subseteq> liveChans m \<union> {sm_nextChan m..}"
    using new by (auto simp: liveChans_def get split: if_splits)
  ultimately show ?thesis using new by (auto simp: closes_well_def)
qed

definition registered :: "StreamManager \<Rightarrow> Stream list \<Rightarrow> bool" where
  "registered m L \<longleftrightarrow> distinct (map sm_ID L) \<and> (\<forall>s \<in> set L. sm_Get m (sm_ID s) = Some s)"

lemma distinct_chans:
  assumes "chans_ok m" and "registered m L"
  shows "distinct (List.map_filter (\<lambda>s. chanOf (sm_Conn s)) L)"
  using assms(2)
proof (induction L)
  case (Cons s L)
  have "ch \<notin> set (List.map_filter (\<lambda>s. chanOf (sm_Conn s)) L)" if "chanOf (sm_Conn s) = Some ch" for ch
  proof
    assume "ch \<in> set (List.map_filter (\<lambda>s. chanOf (sm_Conn s)) L)"
    then obtain t where "t \<in> set L" "chanOf (sm_Conn t) = Some ch" by (auto simp: set_map_filter)
    with that Cons.prems have "sm_ID s = sm_ID t" "sm_ID s \<noteq> sm_ID t"
      using assms(1) unfolding chans_ok_def registered_def by (auto simp: image_iff)
    then show False by simp
  qed
  then show ?case
    using Cons by (auto simp: registered_def List.map_filter_def split: option.splits)
qed (simp add: List.map_filter_def)

lemma closedChans_notify:
  "closedChans (concat (map (\<lambda>s. notifyStream e (sm_Conn s)) L)) = List.map_filter (\<lambda>s. chanOf (sm_Conn s)) L"
proof (induction L)
  case (Cons s L)
  then show ?case by (cases "sm_Conn s") (simp_all add: List.map_filter_def)
qed (simp add: List.map_filter_def)

text \<open>Taking some streams out of the map and closing the connections of exactly these.\<close>

lemma closes_well_unregister:
  assumes ok: "chans_ok m" and L: "registered m L"
    and acts: "closedChans acts = List.map_filter (\<lambda>s. chanOf (sm_Conn s)) L"
  shows "closes_well m (foldl Unregister m (map sm_ID L)) acts"
proof (rule closes_well_shrink [OF ok])
  let ?m = "foldl Unregister m (map sm_ID L)"
  have get: "sm_Get ?m k = (if k \<in> sm_ID ` set L then None else sm_Get m k)" for k
    by (simp add: sm_Get_def sm_streams_foldl_Unregister restrict_map_def)
  show "\<exists>s0. sm_Get m k = Some s0 \<and> sm_Conn s = sm_Conn s0 \<and> sm_ID s = sm_ID s0" if "sm_Get ?m k = Some s" for k s
    using that by (auto simp: get split: if_splits)
  show "distinct (closedChans acts)" using distinct_chans [OF ok L] acts by simp
  have "ch \<in> liveChans m \<and> ch \<notin> liveChans ?m" if "t \<in> set L" "chanOf (sm_Conn t) = Some ch" for t ch
  proof
    have t: "sm_Get m (sm_ID t) = Some t" using L that(1) by (simp add: registered_def)
    then show "ch \<in> liveChans m" using that(2) by (auto simp: liveChans_def)
    have "k = sm_ID t" if "sm_Get m k = Some s" "chanOf (sm_Conn s) = Some ch" for k s
      using ok t that \<open>chanOf (sm_Conn t) = Some ch\<close> unfolding chans_ok_def by metis
    then show "ch \<notin> liveChans ?m"
      using that(1) by (auto simp: liveChans_def get split: if_splits)
  qed
  then show "set (closedChans acts) \<subseteq> liveChans m - liveChans ?m"
    by (auto simp: acts set_map_filter)
qed simp

lemma closes_well_Remove: "chans_ok m \<Longrightarrow> Remove m sid = (m', acts) \<Longrightarrow> closes_well m m' acts"
proof (cases "sm_streams m sid")
  case (Some s)
  assume ok: "chans_ok m" and rm: "Remove m sid = (m', acts)"
  have "sm_ID s = sid" using ok Some by (auto simp: chans_ok_def streams.consistent_def sm_Get_def)
  then have "m' = foldl Unregister m (map sm_ID [s])" "acts = [closeAction (sm_Conn s)]" "registered m [s]"
    using rm Some by (auto simp: Remove_def Unregister_def registered_def sm_Get_def)
  moreover have "closedChans [closeAction (sm_Conn s)] = List.map_filter (\<lambda>s. chanOf (sm_Conn s)) [s]"
    by (cases "sm_Conn s") (simp_all add: List.map_filter_def)
  ultimately show ?thesis using closes_well_unregister [OF ok] by metis
qed (auto simp: Remove_def closes_well_def)

lemma registered_ListByCircuitID:
  assumes "chans_ok m" and "distinct order"
  shows "registered m (ListByCircuitID order m cid)"
proof -
  let ?all = "List.map_filter (sm_streams m) order"
  have c: "streams.consistent m" using assms(1) by (simp add: chans_ok_def)
  have "distinct (map sm_ID ?all)" using assms(2) by (simp add: map_filter_keys [OF c])
  then have "distinct (map sm_ID (ListByCircuitID order m cid))"
    unfolding ListByCircuitID_def by (rule distinct_map_filter)
  then show ?thesis
    using c by (auto simp: registered_def ListByCircuitID_def set_map_filter streams.consistent_def sm_Get_def)
qed

lemma closes_well_Notify:
  assumes ok: "chans_ok m" and "distinct order" and "NotifyCircuitClosed order m cid err = (m', acts)"
  shows "closes_well m m' acts"
  using closes_well_unregister [OF ok registered_ListByCircuitID [OF ok assms(2)] closedChans_notify] assms(3)
  by (auto simp: NotifyCircuitClosed_def Let_def)

lemma closes_well_step:
  assumes ok: "chans_ok m" and "rangeOnce op" and step: "streamStep m op = (m', acts)"
  shows "closes_well m m' acts"
proof (cases op)
  case (OpRegister sid cid conn)
  then show ?thesis
    using step closes_well_put [OF ok, of m' "fst (RegisterStream sid cid conn m)"]
    by (auto simp: RegisterStream_def Let_def sm_Get_def putStream_def)
next
  case (OpRegisterUDP sid cid)
  then show ?thesis
    using step closes_well_put [OF ok, of m' "fst (fst (RegisterStreamUDP sid cid m))"]
    by (auto simp: RegisterStreamUDP_def Let_def sm_Get_def putStream_def)
next
  case (OpUnregister sid)
  then show ?thesis
    using step by (auto simp: Unregister_def sm_Get_def split: if_splits intro!: closes_well_shrink [OF ok])
next
  case (OpSetTarget sid host port)
  then show ?thesis
    using step closes_well_refl [OF ok]
    by (auto simp: SetStreamTarget_def sm_Get_def split: option.splits if_splits intro!: closes_well_shrink [OF ok])
qed (use assms closes_well_Remove closes_well_Notify in auto)

lemma closes_well_trans:
  assumes "chans_ok m" and 1: "closes_well m m1 a1" and 2: "closes_well m1 m' a2"
  shows "closes_well m m' (a1 @ a2)"
proof -
  have live: "liveChans m1 \<subseteq> liveChans m \<union> {sm_nextChan m..}" "liveChans m' \<subseteq> liveChans m1 \<union> {sm_nextChan m1..}"
    and next_le: "sm_nextChan m \<le> sm_nextChan m1" using 1 2 by (auto simp: closes_well_def)
  have below: "ch < sm_nextChan m" if "ch \<in> liveChans m" for ch using liveChans_below [OF assms(1) that] .
  have a1: "set (closedChans a1) \<subseteq> (liveChans m \<union> {sm_nextChan m..<sm_nextChan m1}) - liveChans m1"
    and a2: "set (closedChans a2) \<subseteq> (liveChans m1 \<union> {sm_nextChan m1..<sm_nextChan m'}) - liveChans m'"
    and le: "sm_nextChan m1 \<le> sm_nextChan m'"
    using 1 2 by (auto simp: closes_well_def)
  have a1_lt: "ch < sm_nextChan m1" if "ch \<in> set (closedChans a1)" for ch
    using that a1 below next_le by fastforce
  have "set (closedChans a1) \<inter> liveChans m' = {}" using a1 a1_lt live(2) by fastforce
  moreover have "set (closedChans a1) \<inter> set (closedChans a2) = {}" using a1 a1_lt a2 by fastforce
  moreover have "set (closedChans a2) \<subseteq> liveChans m \<union> {sm_nextChan m..<sm_nextChan m'}"
    using a2 live(1) next_le liveChans_below [of m1] 1 le by (fastforce simp: closes_well_def)
  moreover have "set (closedChans a1) \<subseteq> liveChans m \<union> {sm_nextChan m..<sm_nextChan m'}"
    using a1 le by fastforce
  moreover have "liveChans m' \<subseteq> liveChans m \<union> {sm_nextChan m..}" using live next_le by fastforce
  ultimately show ?thesis
    using 1 2 next_le le unfolding closes_well_def by auto
qed

lemma closes_well_run:
  assumes "chans_ok m" and "\<forall>op \<in> set ops. rangeOnce op" and "streamRun m ops = (m', acts)"
  shows "closes_well m m' acts"
  using assms
proof (induction ops arbitrary: m acts)
  case Nil
  then show ?case by (auto simp: closes_well_def)
next
  case (Cons op ops)
  obtain m1 a1 where step: "streamStep m op = (m1, a1)" by fastforce
  obtain a2 where rest: "streamRun m1 ops = (m', a2)" and acts: "acts = a1 @ a2"
    using Cons.prems(3) step by (auto split: prod.splits)
  have 1: "closes_well m m1 a1" using closes_well_step [OF _ _ step] Cons.prems by simp
  then have "closes_well m1 m' a2" using Cons.IH [OF _ _ rest] Cons.prems by (simp add: closes_well_def)
  then show ?case using closes_well_trans [OF Cons.prems(1) 1] acts by simp
qed

lemma chans_ok_New: "chans_ok NewStreamManager"
  by (simp add: chans_ok_def NewStreamManager_def sm_Get_def streams.consistent_def)

lemma liveChans_New: "liveChans NewStreamManager = {}"
  by (simp add: liveChans_def NewStreamManager_def sm_Get_def)

text \<open>
  C17. Whatever the streams do, in whatever order they are registered, removed, taken out
  for a retry or cut off by their circuit, the manager closes a reply channel at most once,
  so it never panics on closing a closed channel, and a stream that is still registered has
  an open channel, so delivering data to it does not panic either.
\<close>

theorem reply_channels_closed_once:
  assumes "\<forall>op \<in> set ops. rangeOnce op" and "streamRun NewStreamManager ops = (m, acts)"
  shows "distinct (closedChans acts)
    \<and> (\<forall>sid s ch. sm_Get m sid = Some s \<longrightarrow> sm_Conn s = UDPReplyConn ch \<longrightarrow> ch \<notin> set (closedChans acts))"
proof -
  have "ch \<in> liveChans m" if "sm_Get m sid = Some s" "sm_Conn s = UDPReplyConn ch" for sid s ch
    using that by (force simp: liveChans_def)
  then show ?thesis
    using closes_well_run [OF chans_ok_New assms] by (auto simp: closes_well_def)
qed

theorem reply_channels_closed_once_witness:
  "distinct (closedChans (snd (streamRun NewStreamManager
     [OpRegisterUDP ''s1'' ''c1'', OpRegisterUDP ''s2'' ''c1'', OpRemove ''s1'', OpRemove ''s1'',
      OpCircuitClosed [''s1'', ''s2''] ''c1'' None])))"
  by (rule reply_channels_closed_once [OF _ surjective_pairing, THEN conjunct1]) simp

lemma streamStep_consistent:
  "chans_ok m \<Longrightarrow> rangeOnce op \<Longrightarrow> chans_ok (fst (streamStep m op))"
  using closes_well_step [of m op] by (cases "streamStep m op") (auto simp: closes_well_def)

text \<open>
  When a circuit closes, exactly its streams leave the manager, and the local
  connection of each TCP stream among them gets the read error and is closed; the streams of
  other circuits are not touched.
\<close>

theorem NotifyCircuitClosed_cuts_circuit:
  assumes "chans_ok m" and "distinct order" and "set order = dom (sm_streams m)"
    and "NotifyCircuitClosed order m cid err = (m', acts)"
  shows "sm_Get m' sid = (case sm_Get m sid of Some s \<Rightarrow> if sm_CircuitID s = cid then None else Some s | None \<Rightarrow> None)
    \<and> (CloseConn h \<in> set acts \<longleftrightarrow>
        (\<exists>k s r. sm_Get m k = Some s \<and> sm_CircuitID s = cid \<and> sm_Conn s = StreamErrorConn h r))
    \<and> (ReadError h e \<in> set acts \<longleftrightarrow> CloseConn h \<in> set acts \<and> e = (case err of None \<Rightarrow> StreamErrClosed | Some e \<Rightarrow> e))"
proof -
  have c: "streams.consistent m" using assms(1) by (simp add: chans_ok_def)
  have get: "sm_Get m' sid = (case sm_Get m sid of Some s \<Rightarrow> if sm_CircuitID s = cid then None else Some s | None \<Rightarrow> None)"
    using NotifyCircuitClosed_streams [OF c] assms(3,4) by (metis fst_conv subset_refl)
  have act: "CloseConn h \<in> set (notifyStream e' c') \<longleftrightarrow> (\<exists>r. c' = StreamErrorConn h r)"
    "ReadError h e \<in> set (notifyStream e' c') \<longleftrightarrow> e = e' \<and> (\<exists>r. c' = StreamErrorConn h r)" for h e e' c'
    by (cases c'; auto)+
  have L: "s \<in> set (ListByCircuitID order m cid) \<longleftrightarrow> (\<exists>k. sm_Get m k = Some s) \<and> sm_CircuitID s = cid" for s
    using assms(3) by (auto simp: ListByCircuitID_def set_map_filter sm_Get_def)
  have acts: "acts = concat (map (\<lambda>s. notifyStream (case err of None \<Rightarrow> StreamErrClosed | Some e \<Rightarrow> e) (sm_Conn s))
      (ListByCircuitID order m cid))"
    using assms(4) by (auto simp: NotifyCircuitClosed_def Let_def)
  have mem: "a \<in> set acts \<longleftrightarrow> (\<exists>k s. sm_Get m k = Some s \<and> sm_CircuitID s = cid
      \<and> a \<in> set (notifyStream (case err of None \<Rightarrow> StreamErrClosed | Some e \<Rightarrow> e) (sm_Conn s)))" for a
    using L by (simp add: acts) blast
  show ?thesis using get unfolding mem act by blast
qed

theorem NotifyCircuitClosed_cuts_circuit_witness:
  "let m = fst (streamRun NewStreamManager [OpRegister ''s1'' ''c1'' 7, OpRegister ''s2'' ''c2'' 8]);
       (m', acts) = NotifyCircuitClosed [''s1'', ''s2''] m ''c1'' None
   in sm_Get m' ''s1'' = None \<and> sm_Get m' ''s2'' = sm_Get m ''s2''
      \<and> CloseConn 7 \<in> set acts \<and> CloseConn 8 \<notin> set acts \<and> ReadError 7 StreamErrClosed \<in> set acts"
proof -
  define m where "m = fst (streamRun NewStreamManager [OpRegister ''s1'' ''c1'' 7, OpRegister ''s2'' ''c2'' 8])"
  have m: "sm_streams m = [''s1'' \<mapsto> \<lparr>sm_ID = ''s1'', sm_CircuitID = ''c1'', sm_Conn = StreamErrorConn 7 None, sm_TargetHost = [], sm_TargetPort = 0\<rparr>,
      ''s2'' \<mapsto> \<lparr>sm_ID = ''s2'', sm_CircuitID = ''c2'', sm_Conn = StreamErrorConn 8 None, sm_TargetHost = [], sm_TargetPort = 0\<rparr>]"
    by (simp add: m_def RegisterStream_def putStream_def NewStreamManager_def Let_def)
  have ok: "chans_ok m"
    using closes_well_run [OF chans_ok_New _ surjective_pairing, of "[OpRegister ''s1'' ''c1'' 7, OpRegister ''s2'' ''c2'' 8]"]
    by (simp add: closes_well_def m_def)
  obtain m' acts where n: "NotifyCircuitClosed [''s1'', ''s2''] m ''c1'' None = (m', acts)" by fastforce
  have d: "set [''s1'', ''s2''] = dom (sm_streams m)" by (auto simp: m)
  have "sm_Get m' ''s1'' = None" "sm_Get m' ''s2'' = sm_Get m ''s2''" "CloseConn 7 \<in> set acts" "CloseConn 8 \<notin> set acts"
    "ReadError 7 StreamErrClosed \<in> set acts"
    using NotifyCircuitClosed_cuts_circuit [OF ok _ d n, of "''s1''" 7 StreamErrClosed]
      NotifyCircuitClosed_cuts_circuit [OF ok _ d n, of "''s2''" 8 StreamErrClosed]
    by (auto simp: sm_Get_def m split: if_splits)
  then show ?thesis unfolding m_def [symmetric] by (simp add: n)
qed

end
