(* ===== verification/Circuit_Manager.thy ===== *)
theory Circuit_Manager
  imports Stream_Manager Pool_Maintenance Path_Selector Exit_Service
begin

text \<open>
  The circuit manager of the client, \<open>internal/client/circuit_manager.go\<close>: its state, its
  settings, how circuits are built (key exchange with the first hop, extension to the exit,
  retries over other paths), lent out through the pool and closed. What the manager reads
  from outside (the clock, random bytes, the UUID, libp2p streams) is in \<open>create_env\<close>; what
  it does to the outside is a list of actions. The critical sections of the mutex are the
  steps of the model.
\<close>

section \<open>State\<close>

definition heartbeatStreamID :: string where "heartbeatStreamID = ''__heartbeat__''"
definition poolAcquireRetryAttempts :: nat where "poolAcquireRetryAttempts = 50"
definition circuitCreateTimeout :: duration where "circuitCreateTimeout = 30 * second"
definition circuitProtectionWindow :: duration where "circuitProtectionWindow = 2 * minute"
definition highRTTDemotionThreshold :: duration where "highRTTDemotionThreshold = 3 * second"
definition highRTTEvictThreshold :: duration where "highRTTEvictThreshold = 7 * second"

record HeartbeatConfig =
  hb_Enabled :: bool
  hb_Interval :: duration
  hb_Timeout :: duration
  hb_FailureThreshold :: int
  hb_SkipWhenActiveFor :: duration
  hb_IdleMin :: duration
  hb_IdleMax :: duration
  hb_PollInterval :: duration

text \<open>
  A libp2p stream is named by a string. The channels of \<open>pendingConnected\<close> and
  \<open>pendingPongs\<close> have one slot and are removed from the map before they are sent to, so
  a channel is represented by its key. Store, selector and stream manager are never nil: the
  application passes all three.
\<close>

record CircuitManager =
  cm_store :: CircuitStore
  cm_pathSelector :: PathSelector
  cm_streams :: StreamManager
  cm_traffic :: "Recorder option"
  cm_pool :: "CircuitPool option"
  cm_buildRetries :: int
  cm_beginTCPRetries :: int
  cm_activeStreams :: "string \<rightharpoonup> string"
  cm_hopSessions :: "string \<rightharpoonup> HopSession list"
  cm_pendingConnected :: "string set"
  cm_pendingPongs :: "string set"
  cm_heartbeat :: HeartbeatConfig
  cm_beginTimeout :: duration
  cm_heartbeatDue :: "string \<rightharpoonup> time"

datatype client_action =
    CWrite string Frame
  | CCloseStream string
  | CReadLoop string string
  | CDeliverConnected string Connected
  | CDeliverPong string Pong
  | CLocalWrite stream_conn bytes
  | CLocal conn_action

definition zeroHeartbeat :: HeartbeatConfig where
  "zeroHeartbeat = \<lparr>hb_Enabled = False, hb_Interval = 0, hb_Timeout = 0, hb_FailureThreshold = 0,
     hb_SkipWhenActiveFor = 0, hb_IdleMin = 0, hb_IdleMax = 0, hb_PollInterval = 0\<rparr>"

definition NewCircuitManager ::
  "CircuitStore \<Rightarrow> PathSelector \<Rightarrow> StreamManager \<Rightarrow> Recorder option \<Rightarrow> CircuitManager" where
  "NewCircuitManager store selector streams trafficStats =
     \<lparr>cm_store = store, cm_pathSelector = selector, cm_streams = streams, cm_traffic = trafficStats,
      cm_pool = None, cm_buildRetries = 0, cm_beginTCPRetries = 0, cm_activeStreams = Map.empty,
      cm_hopSessions = Map.empty, cm_pendingConnected = {}, cm_pendingPongs = {},
      cm_heartbeat = zeroHeartbeat, cm_beginTimeout = 30 * second, cm_heartbeatDue = Map.empty\<rparr>"

section \<open>Settings\<close>

definition SetPool :: "CircuitPool \<Rightarrow> CircuitManager \<Rightarrow> CircuitManager" where
  "SetPool pool m = m\<lparr>cm_pool := Some pool\<rparr>"

definition SetBuildRetries :: "int \<Rightarrow> CircuitManager \<Rightarrow> CircuitManager" where
  "SetBuildRetries n m =
     (let n = (if n < 0 then 0 else n); n = (if n > 2 then 2 else n) in m\<lparr>cm_buildRetries := n\<rparr>)"

definition SetBeginTCPRetries :: "int \<Rightarrow> CircuitManager \<Rightarrow> CircuitManager" where
  "SetBeginTCPRetries n m =
     (let n = (if n < 0 then 0 else n); n = (if n > 2 then 2 else n) in m\<lparr>cm_beginTCPRetries := n\<rparr>)"

definition BeginTCPRetries :: "CircuitManager \<Rightarrow> int" where
  "BeginTCPRetries m = cm_beginTCPRetries m"

definition SetBeginConnectTimeout :: "duration \<Rightarrow> CircuitManager \<Rightarrow> CircuitManager" where
  "SetBeginConnectTimeout timeout m =
     m\<lparr>cm_beginTimeout := if timeout \<le> 0 then 30 * second else timeout\<rparr>"

text \<open>The assignments of \<open>SetHeartbeatConfig\<close>, in their order.\<close>

definition SetHeartbeatConfig :: "HeartbeatConfig \<Rightarrow> CircuitManager \<Rightarrow> CircuitManager" where
  "SetHeartbeatConfig cfg m =
     (let cfg = cfg\<lparr>hb_Interval := if hb_Interval cfg \<le> 0 then 30 * second else hb_Interval cfg\<rparr>;
          cfg = cfg\<lparr>hb_Timeout := if hb_Timeout cfg \<le> 0 then 8 * second else hb_Timeout cfg\<rparr>;
          cfg = cfg\<lparr>hb_FailureThreshold := if hb_FailureThreshold cfg \<le> 0 then 5 else hb_FailureThreshold cfg\<rparr>;
          cfg = cfg\<lparr>hb_IdleMin := if hb_IdleMin cfg \<le> 0 then 1500 * millisecond else hb_IdleMin cfg\<rparr>;
          cfg = cfg\<lparr>hb_IdleMax := if hb_IdleMax cfg \<le> 0 then 9500 * millisecond else hb_IdleMax cfg\<rparr>;
          cfg = cfg\<lparr>hb_IdleMax := if hb_IdleMax cfg < hb_IdleMin cfg then hb_IdleMin cfg else hb_IdleMax cfg\<rparr>;
          cfg = cfg\<lparr>hb_PollInterval := if hb_PollInterval cfg \<le> 0 then second else hb_PollInterval cfg\<rparr>;
          cfg = cfg\<lparr>hb_SkipWhenActiveFor := if hb_SkipWhenActiveFor cfg < 0 then 0
                    else if hb_SkipWhenActiveFor cfg = 0 then 30 * second else hb_SkipWhenActiveFor cfg\<rparr>
      in m\<lparr>cm_heartbeat := cfg\<rparr>)"

definition SetPoolTotalLimits :: "int \<Rightarrow> int \<Rightarrow> CircuitManager \<Rightarrow> CircuitManager \<times> bool" where
  "SetPoolTotalLimits lo hi m =
     (case cm_pool m of None \<Rightarrow> (m, False) | Some p \<Rightarrow> (m\<lparr>cm_pool := Some (SetTotalLimits lo hi p)\<rparr>, True))"

definition GetPlan :: "CircuitManager \<Rightarrow> string \<Rightarrow> PathPlan option" where
  "GetPlan m cid = map_option cr_Plan (cs_Get (cm_store m) cid)"

definition getHopSessions :: "CircuitManager \<Rightarrow> string \<Rightarrow> HopSession list" where
  "getHopSessions m cid = (case cm_hopSessions m cid of None \<Rightarrow> [] | Some hs \<Rightarrow> hs)"

text \<open>The delay to the next heartbeat; \<open>rnd\<close> is what \<open>rng.Int63n\<close> of the given bound returns.\<close>

definition nextHeartbeatDelayLocked :: "CircuitManager \<Rightarrow> (int \<Rightarrow> int) \<Rightarrow> duration" where
  "nextHeartbeatDelayLocked m rnd =
     (let lo = (if hb_IdleMin (cm_heartbeat m) \<le> 0 then 1500 * millisecond else hb_IdleMin (cm_heartbeat m));
          hi = (if hb_IdleMax (cm_heartbeat m) \<le> 0 then 9500 * millisecond else hb_IdleMax (cm_heartbeat m))
      in if hi \<le> lo then lo else lo + rnd (hi - lo))"

section \<open>Open circuits\<close>

definition isReusableCircuitState :: "CircuitState \<Rightarrow> bool" where
  "isReusableCircuitState st \<longleftrightarrow> st = CircuitOpen \<or> st = CircuitDegraded"

definition isDirectExitPlan :: "PathPlan \<Rightarrow> bool" where
  "isDirectExitPlan plan \<longleftrightarrow> length (pp_Hops plan) = 1 \<and> ph_IsExit (hd (pp_Hops plan))"

definition isDirectExitCircuit :: "CircuitManager \<Rightarrow> string \<Rightarrow> bool" where
  "isDirectExitCircuit m cid =
     (case cs_Get (cm_store m) cid of None \<Rightarrow> False | Some rec \<Rightarrow> isDirectExitPlan (cr_Plan rec))"

definition IsCircuitOpen :: "CircuitManager \<Rightarrow> string \<Rightarrow> bool" where
  "IsCircuitOpen m cid =
     (cm_activeStreams m cid \<noteq> None \<and>
      (case cs_Get (cm_store m) cid of None \<Rightarrow> False
       | Some rec \<Rightarrow> isReusableCircuitState (cr_State rec) \<and> cr_Alive rec))"

definition canReuseCircuit :: "CircuitManager \<Rightarrow> string \<Rightarrow> bool" where
  "canReuseCircuit m cid =
     (cm_activeStreams m cid \<noteq> None \<and>
      (case cs_Get (cm_store m) cid of None \<Rightarrow> False
       | Some rec \<Rightarrow> cr_Alive rec \<and> isReusableCircuitState (cr_State rec)))"

definition CircuitReuseScore :: "CircuitManager \<Rightarrow> time \<Rightarrow> string \<Rightarrow> int" where
  "CircuitReuseScore m now cid =
     (case cs_Get (cm_store m) cid of None \<Rightarrow> 0
      | Some rec \<Rightarrow>
          let score = cr_HeartbeatSuccesses rec * 100;
              score = score - cr_ConsecutiveFailures rec * 50;
              score = (if cr_State rec = CircuitOpen then score + 100 else score);
              score = (if now < cr_ProtectionUntil rec then score + 1000 else score)
          in if cr_SmoothedRTT rec > 0 then
               (let score = score - cr_SmoothedRTT rec div millisecond
                in if cr_SmoothedRTT rec \<ge> highRTTDemotionThreshold then score - 3000 else score)
             else score)"

section \<open>Closing\<close>

definition forgetLocked :: "string \<Rightarrow> CircuitManager \<Rightarrow> CircuitManager" where
  "forgetLocked cid m = m\<lparr>cm_activeStreams := (cm_activeStreams m)(cid := None),
     cm_hopSessions := (cm_hopSessions m)(cid := None), cm_heartbeatDue := (cm_heartbeatDue m)(cid := None)\<rparr>"

definition closeCircuitLocked :: "string \<Rightarrow> CircuitManager \<Rightarrow> CircuitManager" where
  "closeCircuitLocked cid m = (forgetLocked cid m)\<lparr>cm_store := cs_Delete (cm_store m) cid\<rparr>"

definition CloseCircuit :: "string \<Rightarrow> CircuitManager \<Rightarrow> CircuitManager \<times> client_action list" where
  "CloseCircuit cid m =
     (closeCircuitLocked cid m,
      case cm_activeStreams m cid of None \<Rightarrow> [] | Some s \<Rightarrow> [CCloseStream s])"

definition cm_ReturnToPool :: "string \<Rightarrow> time \<Rightarrow> CircuitManager \<Rightarrow> CircuitManager" where
  "cm_ReturnToPool cid now m =
     (case cm_pool m of None \<Rightarrow> m
      | Some p \<Rightarrow> m\<lparr>cm_pool := Some (ReturnToPool (IsCircuitOpen m) cid now p)\<rparr>)"

definition cm_RegisterCircuitInUse :: "PoolKind \<Rightarrow> string \<Rightarrow> CircuitManager \<Rightarrow> CircuitManager" where
  "cm_RegisterCircuitInUse kind cid m =
     (case cm_pool m of None \<Rightarrow> m | Some p \<Rightarrow> m\<lparr>cm_pool := Some (RegisterCircuitInUse kind cid p)\<rparr>)"

definition poolMarkFailed :: "string \<Rightarrow> CircuitManager \<Rightarrow> CircuitManager" where
  "poolMarkFailed cid m =
     (case cm_pool m of None \<Rightarrow> m | Some p \<Rightarrow> m\<lparr>cm_pool := Some (MarkCircuitFailed cid p)\<rparr>)"

definition cm_MarkCircuitFailed :: "string \<Rightarrow> CircuitManager \<Rightarrow> CircuitManager \<times> client_action list" where
  "cm_MarkCircuitFailed cid m = CloseCircuit cid (poolMarkFailed cid m)"

section \<open>Building a circuit\<close>

text \<open>
  What a build reads from outside: the UUID, the readings of the clock in their order, the
  answers of libp2p, two draws of random bytes and the draw of the heartbeat delay. The peer
  is a function of the frames written to it so far: whether the last write fails, and what a
  read then gives.
\<close>

record create_env =
  ce_uuid :: string
  ce_now :: "nat \<Rightarrow> time"
  ce_Decode :: "string \<Rightarrow> string result"
  ce_NewStream :: "string \<Rightarrow> string result"
  ce_rnd0 :: bytes
  ce_rnd1 :: bytes
  ce_write :: "Frame list \<Rightarrow> go_error option"
  ce_read :: "Frame list \<Rightarrow> Frame result"
  ce_delay :: "int \<Rightarrow> int"

text \<open>\<open>fmt.Errorf("..: %w", err)\<close>, also for a nil \<open>err\<close>.\<close>

definition wrapErr :: "string \<Rightarrow> go_error option \<Rightarrow> go_error" where
  "wrapErr prefix err = Errorf (prefix @ (case err of None \<Rightarrow> ''%!w(<nil>)'' | Some e \<Rightarrow> errorText e))"

definition newCircuitRecord :: "string \<Rightarrow> PathPlan \<Rightarrow> time \<Rightarrow> CircuitRecord" where
  "newCircuitRecord cid plan now =
     \<lparr>cr_ID = cid, cr_State = CircuitNew, cr_Plan = plan, cr_CreatedAt = now, cr_UpdatedAt = now,
      cr_BytesSent = 0, cr_BytesReceived = 0, cr_LastTrafficAt = now, cr_LastPingAt = 0, cr_LastPongAt = 0,
      cr_ConsecutiveFailures = 0, cr_HeartbeatSuccesses = 0, cr_SmoothedRTT = 0, cr_Alive = True,
      cr_ProtectionUntil = now + circuitProtectionWindow\<rparr>"

text \<open>
  A failure carries whether the deferred function sees it: an \<open>err\<close> declared in an inner
  scope is returned to the caller, but the deferred function reads the outer one, which is
  then still nil.
\<close>

type_synonym build_failure = "bool \<times> go_error"

definition firstKeyExchange ::
  "crypto \<Rightarrow> create_env \<Rightarrow> string \<Rightarrow> string \<Rightarrow> bytes \<Rightarrow> bytes \<Rightarrow> build_failure + HopSession" where
  "firstKeyExchange C E cid targetPeerID priv0 pub0 =
     (let sent = [NewKeyExchangeInitFrame cid pub0] in
      case ce_write E sent of
        Some e \<Rightarrow> Inl (False, e)
      | None \<Rightarrow>
          (case ce_read E sent of
             Inl e \<Rightarrow> Inl (True, wrapErr ''key exchange with first hop: '' (Some e))
           | Inr resp \<Rightarrow>
               if f_Type resp \<noteq> MsgTypeKeyExchangeResp
               then Inl (True, wrapErr ''key exchange with first hop: '' None)
               else case json_unmarshal dec_KeyExchangeResp (f_PayloadJSON resp) of
                 None \<Rightarrow> Inl (False, Errorf ''invalid key exchange resp'')
               | Some msg \<Rightarrow>
                   if length (kr_Payload msg) \<noteq> X25519KeySize then Inl (False, Errorf ''invalid key exchange resp'')
                   else case NewHopSessionFromKeyExchange C targetPeerID HopRoleRelay priv0 (kr_Payload msg)
                               (ce_now E 3 div second) of
                     Inl e \<Rightarrow> Inl (True, e)
                   | Inr session \<Rightarrow> Inr session))"

definition extendEnvelope :: "string \<Rightarrow> bytes \<Rightarrow> OnionEnvelope" where
  "extendEnvelope exitPeerID pubExit =
     \<lparr>oe_Header = \<lparr>rh_NextPeerID = exitPeerID, rh_InnerPayloadType = InnerPayloadTypeKeyExchange,
                   rh_StreamID = ''extend'', rh_Flags = 0\<rparr>,
      oe_InnerCiphertext = pubExit\<rparr>"

definition extendFrame :: "string \<Rightarrow> bytes \<Rightarrow> Frame" where
  "extendFrame cid ciphertext =
     \<lparr>f_Type = MsgTypeOnionData, f_CircuitID = cid, f_StreamID = ''extend'',
      f_PayloadJSON = json_marshal enc_OnionCell \<lparr>oc_HopIndex = 0, oc_Ciphertext = ciphertext\<rparr>\<rparr>"

text \<open>
  The extension to the exit: the session with the first hop, its counters advanced, and the
  session with the exit. \<open>sent\<close> are the frames written before.
\<close>

definition extendToExit ::
  "crypto \<Rightarrow> create_env \<Rightarrow> string \<Rightarrow> PathPlan \<Rightarrow> Frame list \<Rightarrow> HopSession \<Rightarrow> (HopSession \<times> HopSession) result" where
  "extendToExit C E cid plan sent first =
     (if pp_ExitHopIndex plan \<ge> length (pp_Hops plan) then Inl Panic
      else
        let exitPeerID = ph_PeerID (pp_Hops plan ! pp_ExitHopIndex plan) in
        res_bind (GenerateEphemeralKeyPair C (ce_rnd1 E)) (\<lambda>(privExit, pubExit).
        case WrapForward C [first] cid ''extend'' (json_marshal enc_OnionEnvelope (extendEnvelope exitPeerID pubExit)) of
          (Inl e, _) \<Rightarrow> Inl e
        | (Inr ciphertext, hops) \<Rightarrow>
            (let sent' = sent @ [extendFrame cid ciphertext] in
             case ce_write E sent' of
               Some e \<Rightarrow> Inl e
             | None \<Rightarrow>
                 (case ce_read E sent' of
                    Inl e \<Rightarrow> Inl (wrapErr ''extend response: '' (Some e))
                  | Inr back \<Rightarrow>
                      if f_Type back \<noteq> MsgTypeOnionData then Inl (wrapErr ''extend response: '' None)
                      else case json_unmarshal dec_OnionCell (f_PayloadJSON back) of
                        None \<Rightarrow> Inl (Errorf ''extend response invalid'')
                      | Some backCell \<Rightarrow>
                          (case UnwrapBackward C (hd hops) cid (f_StreamID back) (oc_Ciphertext backCell) of
                             (Inl e, _) \<Rightarrow> Inl (wrapErr ''extend unwrap: '' (Some e))
                           | (Inr exitPub, first') \<Rightarrow>
                               if length exitPub \<noteq> X25519KeySize then Inl (wrapErr ''extend unwrap: '' None)
                               else res_bind (NewHopSessionFromKeyExchange C exitPeerID HopRoleExit privExit exitPub
                                               (ce_now E 4 div second)) (\<lambda>exitSession.
                                    Inr (first', exitSession)))))))"

text \<open>The end of a successful build; a direct circuit gets no heartbeat.\<close>

definition openRecord :: "create_env \<Rightarrow> CircuitRecord \<Rightarrow> CircuitRecord" where
  "openRecord E rec = rec\<lparr>cr_State := CircuitOpen, cr_UpdatedAt := ce_now E 5, cr_Alive := True,
     cr_ProtectionUntil := ce_now E 6 + circuitProtectionWindow\<rparr>"

definition buildHops ::
  "crypto \<Rightarrow> create_env \<Rightarrow> string \<Rightarrow> PathPlan \<Rightarrow> bytes \<Rightarrow> bytes \<Rightarrow> build_failure + HopSession list" where
  "buildHops C E cid plan priv0 pub0 =
     (case firstKeyExchange C E cid (ph_PeerID (hd (pp_Hops plan))) priv0 pub0 of
        Inl f \<Rightarrow> Inl f
      | Inr first \<Rightarrow>
          if length (pp_Hops plan) = 1 then Inr [first\<lparr>hs_Role := HopRoleExit\<rparr>]
          else case extendToExit C E cid plan [NewKeyExchangeInitFrame cid pub0] first of
                 Inl e \<Rightarrow> Inl (False, e)
               | Inr (first', exitSession) \<Rightarrow> Inr [first', exitSession])"

text \<open>The body of \<open>createCircuitWithPlan\<close>, with what its deferred function sees.\<close>

definition buildCircuit ::
  "crypto \<Rightarrow> create_env \<Rightarrow> PathPlan \<Rightarrow> CircuitManager
   \<Rightarrow> (build_failure + string) \<times> CircuitManager \<times> client_action list" where
  "buildCircuit C E plan m =
     (let cid = ce_uuid E;
          rec = (newCircuitRecord cid plan (ce_now E 0))\<lparr>cr_State := CircuitCreating, cr_UpdatedAt := ce_now E 1\<rparr>;
          m0 = m\<lparr>cm_store := cs_Upsert (cm_store m) rec\<rparr>;
          undone = m\<lparr>cm_store := cs_Delete (cm_store m0) cid\<rparr>
      in if pp_Hops plan = [] then (Inl (False, Panic), m0, [])
         else case ce_Decode E (ph_PeerID (hd (pp_Hops plan))) of
           Inl e \<Rightarrow> (Inl (True, e), undone, [])
         | Inr peerID \<Rightarrow>
             if ce_now E 0 + circuitCreateTimeout - ce_now E 2 \<le> 0
             then (Inl (True, Errorf ''circuit create timeout''), undone, [])
             else case ce_NewStream E peerID of
               Inl e \<Rightarrow> (Inl (True, e), undone, [])
             | Inr stream \<Rightarrow>
                 let m1 = m0\<lparr>cm_activeStreams := (cm_activeStreams m0)(cid \<mapsto> stream)\<rparr>;
                     opened = m1\<lparr>cm_store := cs_Upsert (cm_store m1) (openRecord E rec)\<rparr>
                 in if isDirectExitPlan plan then (Inr cid, opened, [CReadLoop cid stream])
                    else case GenerateEphemeralKeyPair C (ce_rnd0 E) of
                      Inl e \<Rightarrow> (Inl (True, e), undone\<lparr>cm_activeStreams := (cm_activeStreams m)(cid := None)\<rparr>,
                                [CCloseStream stream])
                    | Inr (priv0, pub0) \<Rightarrow>
                        (case buildHops C E cid plan priv0 pub0 of
                           Inl f \<Rightarrow> (Inl f, closeCircuitLocked cid m1, [CCloseStream stream])
                         | Inr hops \<Rightarrow>
                             (Inr cid,
                              opened\<lparr>cm_hopSessions := (cm_hopSessions opened)(cid \<mapsto> hops),
                                cm_heartbeatDue := (cm_heartbeatDue opened)
                                  (cid \<mapsto> ce_now E 7 + nextHeartbeatDelayLocked opened (ce_delay E))\<rparr>,
                              [CReadLoop cid stream])))"

definition createCircuitWithPlan ::
  "crypto \<Rightarrow> create_env \<Rightarrow> PathPlan \<Rightarrow> CircuitManager
   \<Rightarrow> string result \<times> CircuitManager \<times> client_action list" where
  "createCircuitWithPlan C E plan m =
     (let (r, m1, acts) = buildCircuit C E plan m;
          report = (\<lambda>rep. m1\<lparr>cm_pathSelector := rep plan (ce_now E 8) (cm_pathSelector m1)\<rparr>)
      in case r of
           Inr cid \<Rightarrow> (Inr cid, report ReportPathSuccess, acts)
         | Inl (True, e) \<Rightarrow> (Inl e, report ReportPathFailure, acts)
         | Inl (False, e) \<Rightarrow> (Inl e, report ReportPathSuccess, acts))"

definition CreateDirectExitCircuit ::
  "crypto \<Rightarrow> create_env \<Rightarrow> PathPlan \<Rightarrow> CircuitManager \<Rightarrow> string result \<times> CircuitManager \<times> client_action list" where
  "CreateDirectExitCircuit C E plan m =
     (if length (pp_Hops plan) \<noteq> 1 \<or> \<not> ph_IsExit (hd (pp_Hops plan))
      then (Inl (Errorf ''invalid direct-exit plan''), m, [])
      else createCircuitWithPlan C E plan m)"

definition CreateRelayExitCircuit ::
  "crypto \<Rightarrow> create_env \<Rightarrow> PathPlan \<Rightarrow> CircuitManager \<Rightarrow> string result \<times> CircuitManager \<times> client_action list" where
  "CreateRelayExitCircuit C E plan m =
     (if length (pp_Hops plan) < 2 then (Inl (Errorf ''relay+exit plan must contain at least 2 hops''), m, [])
      else createCircuitWithPlan C E plan m)"

section \<open>Retries\<close>

text \<open>
  The loop of \<open>CreateForPoolExcluding\<close>, \<open>n\<close> rounds being left. \<open>env\<close> and \<open>ch\<close> give what each
  round reads; the plans that were tried are returned too.
\<close>

fun createLoop ::
  "crypto \<Rightarrow> multiaddr \<Rightarrow> (nat \<Rightarrow> choices) \<Rightarrow> (nat \<Rightarrow> create_env) \<Rightarrow> PoolKind \<Rightarrow> nat \<Rightarrow> string list \<Rightarrow> go_error
   \<Rightarrow> CircuitManager \<Rightarrow> string result \<times> CircuitManager \<times> client_action list \<times> PathPlan list" where
  "createLoop C ma ch env kind 0 exclude lastErr m = (Inl lastErr, m, [], [])"
| "createLoop C ma ch env kind (Suc n) exclude lastErr m =
     (case SelectPathForPoolExcluding ma (ch n) (cm_pathSelector m) kind exclude of
        Inl e \<Rightarrow> (Inl e, m, [], [])
      | Inr plan \<Rightarrow>
          (case createCircuitWithPlan C (env n) plan m of
             (Inr cid, m1, acts) \<Rightarrow> (Inr cid, m1, acts, [plan])
           | (Inl e, m1, acts) \<Rightarrow>
               (let exitPeerID = ph_PeerID (pp_Hops plan ! pp_ExitHopIndex plan);
                    (r, m2, acts2, tried) =
                      createLoop C ma ch env kind n (exclude @ [exitPeerID]) e m1
                in (r, m2, acts @ acts2, plan # tried))))"

definition CreateForPoolExcluding ::
  "crypto \<Rightarrow> multiaddr \<Rightarrow> (nat \<Rightarrow> choices) \<Rightarrow> (nat \<Rightarrow> create_env) \<Rightarrow> PoolKind \<Rightarrow> string list
   \<Rightarrow> CircuitManager \<Rightarrow> string result \<times> CircuitManager \<times> client_action list \<times> PathPlan list" where
  "CreateForPoolExcluding C ma ch env kind excludePeerIDs m =
     createLoop C ma ch env kind (nat (cm_buildRetries m + 1)) excludePeerIDs (Errorf '''') m"

definition CreateForPool ::
  "crypto \<Rightarrow> multiaddr \<Rightarrow> (nat \<Rightarrow> choices) \<Rightarrow> (nat \<Rightarrow> create_env) \<Rightarrow> PoolKind
   \<Rightarrow> CircuitManager \<Rightarrow> string result \<times> CircuitManager \<times> client_action list \<times> PathPlan list" where
  "CreateForPool C ma ch env kind m = CreateForPoolExcluding C ma ch env kind [] m"

section \<open>Taking a circuit from the pool\<close>

text \<open>
  What the rounds of \<open>ensureCircuitFromPoolExcluding\<close> read: the order in which the map of
  circuits in use is iterated, the clock, and what the other goroutines do to the manager
  while it sleeps between two attempts.
\<close>

record acquire_env =
  ae_ma :: multiaddr
  ae_choices :: "nat \<Rightarrow> choices"
  ae_create :: "nat \<Rightarrow> create_env"
  ae_order :: "nat \<Rightarrow> string list"
  ae_now :: "nat \<Rightarrow> time"
  ae_others :: "nat \<Rightarrow> CircuitManager \<Rightarrow> CircuitManager"

definition withPool :: "CircuitManager \<Rightarrow> CircuitPool \<Rightarrow> CircuitManager" where
  "withPool m p = m\<lparr>cm_pool := Some p\<rparr>"

text \<open>One attempt; \<open>None\<close> is the attempt that sleeps and tries again.\<close>

definition acquireOnce ::
  "crypto \<Rightarrow> acquire_env \<Rightarrow> PoolKind \<Rightarrow> string list \<Rightarrow> nat \<Rightarrow> CircuitPool \<Rightarrow> CircuitManager
   \<Rightarrow> (string result \<times> client_action list) option \<times> CircuitManager" where
  "acquireOnce C A kind excludePeerIDs n pool m =
     (case GetFromPool (IsCircuitOpen m) (CircuitReuseScore m (ae_now A n)) (ae_order A n) kind pool of
        (p1, Some cid) \<Rightarrow> (Some (Inr cid, []), withPool m p1)
      | (p1, None) \<Rightarrow>
          (case TryReserveBuild kind p1 of
             (p2, False) \<Rightarrow> (None, withPool m p2)
           | (p2, True) \<Rightarrow>
               (case CreateForPoolExcluding C (ae_ma A) (ae_choices A) (ae_create A) kind excludePeerIDs (withPool m p2) of
                  (Inl e, m1, acts, _) \<Rightarrow>
                    (Some (Inl e, acts), case cm_pool m1 of None \<Rightarrow> m1 | Some p \<Rightarrow> withPool m1 (CancelReservedBuild kind p))
                | (Inr cid, m1, acts, _) \<Rightarrow> (Some (Inr cid, acts), cm_RegisterCircuitInUse kind cid m1))))"

fun acquireLoop ::
  "crypto \<Rightarrow> acquire_env \<Rightarrow> PoolKind \<Rightarrow> string list \<Rightarrow> nat \<Rightarrow> CircuitManager
   \<Rightarrow> string result \<times> CircuitManager \<times> client_action list" where
  "acquireLoop C A kind excludePeerIDs 0 m = (Inl (Errorf ''circuit pool is at capacity''), m, [])"
| "acquireLoop C A kind excludePeerIDs (Suc n) m =
     (case cm_pool m of
        None \<Rightarrow> (Inl Panic, m, [])
      | Some pool \<Rightarrow>
          (case acquireOnce C A kind excludePeerIDs n pool m of
             (Some (r, acts), m1) \<Rightarrow> (r, m1, acts)
           | (None, m1) \<Rightarrow> acquireLoop C A kind excludePeerIDs n (ae_others A n m1)))"

definition ensureCircuitFromPoolExcluding ::
  "crypto \<Rightarrow> acquire_env \<Rightarrow> PoolKind \<Rightarrow> string list \<Rightarrow> CircuitManager
   \<Rightarrow> string result \<times> CircuitManager \<times> client_action list" where
  "ensureCircuitFromPoolExcluding C A kind excludePeerIDs m =
     (case cm_pool m of
        None \<Rightarrow>
          (let (r, m1, acts, _) = CreateForPoolExcluding C (ae_ma A) (ae_choices A) (ae_create A) kind excludePeerIDs m
           in (r, m1, acts))
      | Some _ \<Rightarrow> acquireLoop C A kind excludePeerIDs poolAcquireRetryAttempts m)"

definition EnsureCircuitFromPool ::
  "crypto \<Rightarrow> acquire_env \<Rightarrow> PoolKind \<Rightarrow> CircuitManager \<Rightarrow> string result \<times> CircuitManager \<times> client_action list" where
  "EnsureCircuitFromPool C A kind m = ensureCircuitFromPoolExcluding C A kind [] m"

section \<open>The state of circuits stays consistent\<close>

text \<open>
  Every circuit with a stream has a record, filed under its ID; hop sessions belong to a
  circuit with a stream; and a circuit whose record says it can be used has hop sessions,
  unless it goes directly to its exit, which speaks the unencrypted protocol.
\<close>

definition cm_ok :: "CircuitManager \<Rightarrow> bool" where
  "cm_ok m \<longleftrightarrow> circuits.consistent (cm_store m)
     \<and> dom (cm_activeStreams m) \<subseteq> dom (cm_store m)
     \<and> dom (cm_hopSessions m) \<subseteq> dom (cm_activeStreams m)
     \<and> (\<forall>cid rec. cm_activeStreams m cid \<noteq> None \<longrightarrow> cm_store m cid = Some rec \<longrightarrow>
          isReusableCircuitState (cr_State rec)
          \<and> (isDirectExitPlan (cr_Plan rec) \<or> getHopSessions m cid \<noteq> []))"

lemma cm_ok_New: "cm_ok (NewCircuitManager NewCircuitStore sel str tr)"
  by (simp add: cm_ok_def NewCircuitManager_def NewCircuitStore_def circuits.consistent_def cs_Get_def)

lemma cm_ok_same:
  "cm_ok m \<Longrightarrow> cm_store m' = cm_store m \<Longrightarrow> cm_activeStreams m' = cm_activeStreams m
   \<Longrightarrow> cm_hopSessions m' = cm_hopSessions m \<Longrightarrow> cm_ok m'"
  by (simp add: cm_ok_def getHopSessions_def)

lemma cm_ok_closeCircuitLocked:
  assumes "cm_ok m" and "cid \<noteq> []"
  shows "cm_ok (closeCircuitLocked cid m)"
  using assms circuits.consistent_del [of "cm_store m" cid]
  by (auto simp: cm_ok_def closeCircuitLocked_def forgetLocked_def getHopSessions_def cs_Delete_def
      split: if_splits)

lemma newCircuitRecord_simps [simp]:
  "cr_ID (newCircuitRecord cid plan now) = cid" "cr_Plan (newCircuitRecord cid plan now) = plan"
  by (simp_all add: newCircuitRecord_def)

lemma buildHops_nonempty: "buildHops C E cid plan priv0 pub0 = Inr hops \<Longrightarrow> hops \<noteq> []"
  by (auto simp: buildHops_def split: sum.splits if_splits prod.splits)

text \<open>The UUID of a build is new and not empty.\<close>

definition fresh_id :: "CircuitManager \<Rightarrow> string \<Rightarrow> bool" where
  "fresh_id m cid \<longleftrightarrow> cid \<noteq> [] \<and> cm_store m cid = None \<and> cm_activeStreams m cid = None
     \<and> cm_hopSessions m cid = None \<and> cm_heartbeatDue m cid = None"

lemma fun_upd_None_same: "f x = None \<Longrightarrow> f(x := None) = f"
  by (rule ext) simp

lemma buildCircuit_failed:
  assumes "fresh_id m (ce_uuid E)" and "pp_Hops plan \<noteq> []" and "buildCircuit C E plan m = (Inl f, m', acts)"
  shows "m' = m" and "acts = [] \<or> (\<exists>s. acts = [CCloseStream s])"
  using assms unfolding buildCircuit_def Let_def
  by (auto simp: fresh_id_def cs_Delete_def cs_Upsert_def closeCircuitLocked_def forgetLocked_def fun_upd_None_same
      split: sum.splits if_splits prod.splits)

definition openedRecord :: "create_env \<Rightarrow> PathPlan \<Rightarrow> CircuitRecord" where
  "openedRecord E plan = openRecord E ((newCircuitRecord (ce_uuid E) plan (ce_now E 0))
     \<lparr>cr_State := CircuitCreating, cr_UpdatedAt := ce_now E 1\<rparr>)"

lemma openedRecord_simps [simp]:
  "cr_ID (openedRecord E plan) = ce_uuid E" "cr_State (openedRecord E plan) = ''OPEN''"
  "cr_Alive (openedRecord E plan)" "cr_Plan (openedRecord E plan) = plan"
  by (simp_all add: openedRecord_def openRecord_def)

definition openedBy :: "create_env \<Rightarrow> PathPlan \<Rightarrow> CircuitManager \<Rightarrow> CircuitManager \<Rightarrow> string \<Rightarrow> bool" where
  "openedBy E plan m m' stream \<longleftrightarrow>
     cm_store m' = (cm_store m)(ce_uuid E \<mapsto> openedRecord E plan)
     \<and> cm_activeStreams m' = (cm_activeStreams m)(ce_uuid E \<mapsto> stream)
     \<and> (if isDirectExitPlan plan then cm_hopSessions m' = cm_hopSessions m \<and> cm_heartbeatDue m' = cm_heartbeatDue m
        else (\<exists>hops due. hops \<noteq> [] \<and> cm_hopSessions m' = (cm_hopSessions m)(ce_uuid E \<mapsto> hops)
                \<and> cm_heartbeatDue m' = (cm_heartbeatDue m)(ce_uuid E \<mapsto> due)))
     \<and> cm_pool m' = cm_pool m \<and> cm_streams m' = cm_streams m"

lemma buildCircuit_opened:
  assumes "buildCircuit C E plan m = (Inr cid, m', acts)"
  shows "cid = ce_uuid E \<and> (\<exists>stream. acts = [CReadLoop cid stream] \<and> openedBy E plan m m' stream)"
  using assms unfolding buildCircuit_def Let_def openedBy_def
  by (auto simp: cs_Upsert_def openedRecord_def openRecord_def split: sum.splits if_splits prod.splits)
    (blast dest: buildHops_nonempty)

lemma createCircuitWithPlan_failed:
  assumes "fresh_id m (ce_uuid E)" and "pp_Hops plan \<noteq> []" and "createCircuitWithPlan C E plan m = (Inl e, m', acts)"
  shows "\<exists>report. report \<in> {ReportPathSuccess, ReportPathFailure}
      \<and> m' = m\<lparr>cm_pathSelector := report plan (ce_now E 8) (cm_pathSelector m)\<rparr>
      \<and> (acts = [] \<or> (\<exists>s. acts = [CCloseStream s]))"
proof -
  obtain r m1 a where b: "buildCircuit C E plan m = (r, m1, a)" by (metis prod_cases3)
  obtain f where r: "r = Inl f" using assms(3) b
    by (cases r) (auto simp: createCircuitWithPlan_def Let_def split: prod.splits bool.splits)
  have "m1 = m" "a = [] \<or> (\<exists>s. a = [CCloseStream s])"
    using buildCircuit_failed [OF assms(1,2) b [unfolded r]] by auto
  then show ?thesis
    using assms(3) b r by (auto simp: createCircuitWithPlan_def Let_def split: prod.splits bool.splits)
qed

lemma createCircuitWithPlan_opened:
  assumes "createCircuitWithPlan C E plan m = (Inr cid, m', acts)"
  shows "cid = ce_uuid E \<and> (\<exists>stream. acts = [CReadLoop cid stream] \<and> openedBy E plan m m' stream)"
proof -
  obtain r m1 a where b: "buildCircuit C E plan m = (r, m1, a)" by (metis prod_cases3)
  then have "r = Inr cid" and m': "m' = m1\<lparr>cm_pathSelector := ReportPathSuccess plan (ce_now E 8) (cm_pathSelector m1)\<rparr>" "acts = a"
    using assms by (auto simp: createCircuitWithPlan_def Let_def split: prod.splits bool.splits sum.splits)
  then show ?thesis using buildCircuit_opened [OF b [unfolded \<open>r = Inr cid\<close>]] by (auto simp: openedBy_def m')
qed

lemma cm_ok_opened:
  assumes "cm_ok m" and "openedBy E plan m m' stream"
  shows "cm_ok m'" and "IsCircuitOpen m' (ce_uuid E)"
proof -
  have s: "cm_store m' = (cm_store m)(ce_uuid E \<mapsto> openedRecord E plan)"
    using assms(2) by (simp add: openedBy_def)
  have a: "cm_activeStreams m' = (cm_activeStreams m)(ce_uuid E \<mapsto> stream)"
    using assms(2) by (simp add: openedBy_def)
  have c: "circuits.consistent (cm_store m')"
    using circuits.consistent_put [of "cm_store m" "openedRecord E plan"] assms(1) by (simp add: s cs_Upsert_def cm_ok_def)
  have "dom (cm_hopSessions m') \<subseteq> insert (ce_uuid E) (dom (cm_hopSessions m))"
    using assms(2) by (auto simp: openedBy_def split: if_splits)
  moreover have "dom (cm_hopSessions m) \<subseteq> dom (cm_activeStreams m)"
    using assms(1) by (simp add: cm_ok_def)
  ultimately have d: "dom (cm_hopSessions m') \<subseteq> dom (cm_activeStreams m')"
    unfolding a dom_fun_upd by (simp, blast)
  have h: "isDirectExitPlan plan \<or> getHopSessions m' (ce_uuid E) \<noteq> []"
    "k \<noteq> ce_uuid E \<Longrightarrow> getHopSessions m' k = getHopSessions m k" for k
    using assms(2) by (auto simp: openedBy_def getHopSessions_def split: if_splits)
  show "cm_ok m'"
    using assms(1) c d h unfolding cm_ok_def by (auto simp: s a isReusableCircuitState_def)
  show "IsCircuitOpen m' (ce_uuid E)"
    using s a by (simp add: IsCircuitOpen_def cs_Get_def isReusableCircuitState_def)
qed

section \<open>Properties of building\<close>


text \<open>The exits of the plans a build tried, and what they avoid.\<close>

definition exitOf :: "PathPlan \<Rightarrow> string" where
  "exitOf plan = ph_PeerID (pp_Hops plan ! pp_ExitHopIndex plan)"

lemma selected_plan:
  assumes "SelectPathForPoolExcluding ma ch p kind exclude = Inr plan"
  shows "exitOf plan \<notin> set exclude \<and> pp_Hops plan \<noteq> [] \<and> (\<forall>h \<in> set (pp_Hops plan). ph_PeerID h \<notin> set exclude)"
proof -
  obtain exits where e: "filterExitsWithSelection ma ch p exclude = Inr exits"
    and o: "planOver (filterRelaysExcluding ch p exclude) exits plan"
    using SelectPathForPoolExcluding_planOver [OF assms] by metis
  have "nd_PeerID x \<notin> set exclude" if "x \<in> set exits" for x
    using base_candidates exit_candidates [OF e that] by blast
  then show ?thesis
    using o relay_candidates by (auto simp: planOver_def directExit_def relayExit_def exitOf_def)
qed

lemma createLoop_tried:
  assumes "createLoop C ma ch env kind n exclude lastErr m = (r, m', acts, tried)"
  shows "length tried \<le> n \<and> distinct (map exitOf tried)
     \<and> (\<forall>plan \<in> set tried. \<forall>h \<in> set (pp_Hops plan). ph_PeerID h \<notin> set exclude)
     \<and> set (map exitOf tried) \<inter> set exclude = {}"
  using assms
proof (induction n arbitrary: exclude lastErr m r m' acts tried)
  case (Suc n)
  show ?case
  proof (cases "SelectPathForPoolExcluding ma (ch n) (cm_pathSelector m) kind exclude")
    case (Inl e)
    then show ?thesis using Suc.prems by simp
  next
    case (Inr plan)
    note sel = selected_plan [OF Inr]
    obtain r1 m1 a1 where c: "createCircuitWithPlan C (env n) plan m = (r1, m1, a1)" by (metis prod_cases3)
    show ?thesis
    proof (cases r1)
      case (Inr cid)
      then show ?thesis using Suc.prems sel c \<open>SelectPathForPoolExcluding _ _ _ _ _ = _\<close> by auto
    next
      case (Inl e)
      obtain r2 m2 a2 t2 where l: "createLoop C ma ch env kind n (exclude @ [exitOf plan]) e m1 = (r2, m2, a2, t2)"
        by (metis prod_cases4)
      have "tried = plan # t2"
        using Suc.prems c l Inl \<open>SelectPathForPoolExcluding _ _ _ _ _ = _\<close> by (auto simp: exitOf_def)
      then show ?thesis using Suc.IH [OF l] sel by auto
    qed
  qed
qed simp

text \<open>
  C27. Building with failover: at most \<open>buildRetries + 1\<close> paths are tried, that is three
  however the retries were set; no hop of any of them is a peer the caller excludes; and no
  two of them end at the same exit, so a failed exit is not tried twice.
\<close>

theorem build_failover:
  assumes "CreateForPoolExcluding C ma ch env kind excluded (SetBuildRetries n m) = (r, m', acts, tried)"
  shows "length tried \<le> 3 \<and> int (length tried) \<le> max 0 n + 1 \<and> distinct (map exitOf tried)
     \<and> (\<forall>plan \<in> set tried. \<forall>h \<in> set (pp_Hops plan). ph_PeerID h \<notin> set excluded)"
proof -
  have "nat (cm_buildRetries (SetBuildRetries n m) + 1) \<le> 3"
    "int (nat (cm_buildRetries (SetBuildRetries n m) + 1)) \<le> max 0 n + 1"
    by (auto simp: SetBuildRetries_def)
  then show ?thesis
    using createLoop_tried assms unfolding CreateForPoolExcluding_def by fastforce
qed

lemma GetFromPool_open:
  assumes "GetFromPool isOpen score order kind p = (p', Some c)"
  shows "isOpen c \<and> streamsOf p' c > 0"
proof -
  have "isOpen b" if "fst (scanBest isOpen score ids ([], -1)) = b" "b \<noteq> []" for ids b
    using scanBest_in [of isOpen score ids "([], -1)"] that by auto
  then show ?thesis
    using assms by (auto simp: GetFromPool_def Let_def pickBestInUse_def pickBestIdle_def shareInUse_def lendIdle_def streamsOf_def
        split: if_splits prod.splits option.splits)
qed

lemma openedBy_open: "openedBy E plan m m' stream \<Longrightarrow> IsCircuitOpen m' (ce_uuid E)"
  by (simp add: openedBy_def IsCircuitOpen_def cs_Get_def isReusableCircuitState_def)

lemma createLoop_opened:
  "createLoop C ma ch env kind n exclude lastErr m = (Inr cid, m', acts, tried) \<Longrightarrow> IsCircuitOpen m' cid"
proof (induction n arbitrary: exclude lastErr m acts tried)
  case (Suc n)
  then show ?case
    by (auto split: sum.splits prod.splits dest!: createCircuitWithPlan_opened openedBy_open)
qed simp

lemma createCircuitWithPlan_pool: "createCircuitWithPlan C E plan m = (r, m', acts) \<Longrightarrow> cm_pool m' = cm_pool m"
  by (auto simp: createCircuitWithPlan_def buildCircuit_def Let_def closeCircuitLocked_def forgetLocked_def
      split: sum.splits prod.splits if_splits bool.splits)

lemma createLoop_pool:
  "createLoop C ma ch env kind n exclude lastErr m = (r, m', acts, tried) \<Longrightarrow> cm_pool m' = cm_pool m"
proof (induction n arbitrary: exclude lastErr m r acts tried)
  case (Suc n)
  then show ?case
    by (auto split: sum.splits prod.splits dest!: createCircuitWithPlan_pool)
qed simp

lemma acquireOnce_usable:
  assumes "acquireOnce C A kind excl n pool m = (Some (Inr cid, acts), m')"
  shows "IsCircuitOpen m' cid \<and> (\<exists>p. cm_pool m' = Some p \<and> streamsOf p cid > 0)"
proof -
  have open_pool [simp]: "IsCircuitOpen (withPool m p) = IsCircuitOpen m" for m p
    by (simp add: withPool_def IsCircuitOpen_def fun_eq_iff)
  have reg: "IsCircuitOpen (cm_RegisterCircuitInUse kind cid m1) = IsCircuitOpen m1" for cid m1
    by (simp add: cm_RegisterCircuitInUse_def IsCircuitOpen_def fun_eq_iff split: option.splits)
  obtain p1 got where g: "GetFromPool (IsCircuitOpen m) (CircuitReuseScore m (ae_now A n)) (ae_order A n) kind pool = (p1, got)"
    by fastforce
  show ?thesis
  proof (cases got)
    case (Some c)
    then show ?thesis
      using assms g GetFromPool_open [of "IsCircuitOpen m" _ _ kind pool p1 c] open_pool [of m p1]
      by (auto simp: acquireOnce_def withPool_def simp del: open_pool)
  next
    case None
    obtain p2 where t: "TryReserveBuild kind p1 = (p2, True)"
      using assms g None by (cases "TryReserveBuild kind p1") (auto simp: acquireOnce_def split: bool.splits)
    obtain m1 tried where c: "CreateForPoolExcluding C (ae_ma A) (ae_choices A) (ae_create A) kind excl (withPool m p2) = (Inr cid, m1, acts, tried)"
      and m': "m' = cm_RegisterCircuitInUse kind cid m1"
      using assms g None t by (auto simp: acquireOnce_def split: prod.splits sum.splits)
    note loop = c [unfolded CreateForPoolExcluding_def]
    have "IsCircuitOpen m1 cid" by (rule createLoop_opened [OF loop])
    moreover have "cm_pool m1 = Some p2" using createLoop_pool [OF loop] by (simp add: withPool_def)
    ultimately show ?thesis
      by (simp add: m' reg) (simp add: cm_RegisterCircuitInUse_def RegisterCircuitInUse_def streamsOf_def Let_def)
  qed
qed


section \<open>Concrete runs\<close>

definition demo_create_env :: create_env where
  "demo_create_env = \<lparr>ce_uuid = ''c-1'', ce_now = (\<lambda>_. 5), ce_Decode = Inr, ce_NewStream = (\<lambda>_. Inr ''stream-1''),
     ce_rnd0 = [], ce_rnd1 = [], ce_write = (\<lambda>_. None), ce_read = (\<lambda>_. Inl EOF), ce_delay = (\<lambda>_. 0)\<rparr>"

definition demo_client_pool :: CircuitPoolConfig where
  "demo_client_pool = \<lparr>pc_MinPerPool = 0, pc_MaxPerPool = 2, pc_MinTotal = 0, pc_MaxTotal = 4,
     pc_IdleTimeoutSeconds = 60, pc_ReplenishIntervalSeconds = 10\<rparr>"

definition demo_cm :: CircuitManager where
  "demo_cm = SetPool (NewCircuitPool demo_client_pool)
     (NewCircuitManager NewCircuitStore demo_selector NewStreamManager None)"

definition demo_direct :: PathPlan where
  "demo_direct = directExit (demo_exit ''peer-exit-01'' ''SG'')"

definition demo_acquire_env :: acquire_env where
  "demo_acquire_env = \<lparr>ae_ma = (\<lambda>_. None), ae_choices = (\<lambda>_. demo_choices), ae_create = (\<lambda>_. demo_create_env),
     ae_order = (\<lambda>_. []), ae_now = (\<lambda>_. 5), ae_others = (\<lambda>_ m. m)\<rparr>"

lemma demo_cm_ok: "cm_ok demo_cm" and demo_cm_fresh: "fresh_id demo_cm ''c-1''"
  using cm_ok_same [OF cm_ok_New, of demo_cm demo_selector NewStreamManager None]
  by (simp_all add: demo_cm_def SetPool_def fresh_id_def NewCircuitManager_def NewCircuitStore_def)

lemma demo_direct_simps [simp]:
  "pp_Hops demo_direct = [\<lparr>ph_PeerID = ''peer-exit-01'', ph_IsRelay = False, ph_IsExit = True\<rparr>]"
  "isDirectExitPlan demo_direct"
  by (simp_all add: demo_direct_def directExit_def isDirectExitPlan_def demo_exit_def)

lemma demo_create: "fst (createCircuitWithPlan C demo_create_env demo_direct m) = Inr ''c-1''"
  by (simp add: createCircuitWithPlan_def buildCircuit_def demo_create_env_def Let_def circuitCreateTimeout_def second_def)


theorem build_failover_witness:
  "case CreateForPoolExcluding demo_crypto (\<lambda>_. None) (\<lambda>_. demo_choices) (\<lambda>_. demo_create_env\<lparr>ce_NewStream := \<lambda>_. Inl EOF\<rparr>)
      PoolLowLatency [''peer-exit-02''] (SetBuildRetries 7 demo_cm) of
     (r, m', acts, tried) \<Rightarrow> length tried \<le> 3 \<and> distinct (map exitOf tried)
       \<and> (\<forall>plan \<in> set tried. \<forall>h \<in> set (pp_Hops plan). ph_PeerID h \<noteq> ''peer-exit-02'')"
  using build_failover [of demo_crypto "\<lambda>_. None" "\<lambda>_. demo_choices" "\<lambda>_. demo_create_env\<lparr>ce_NewStream := \<lambda>_. Inl EOF\<rparr>"
      PoolLowLatency "[''peer-exit-02'']" 7 demo_cm]
  by (auto split: prod.splits)

lemma demo_select:
  "cm_pathSelector m = demo_selector \<Longrightarrow>
   SelectPathForPoolExcluding ma demo_choices (cm_pathSelector m) PoolLowLatency [] = Inr demo_direct"
  by (simp add: SelectPathForPoolExcluding_def demo_exits allowDirect_def Let_def demo_direct_def)
     (simp add: demo_selector_def NewPathSelector_def)

lemma demo_reserve: "\<exists>p. TryReserveBuild PoolLowLatency (NewCircuitPool demo_client_pool) = (p, True)"
  by (simp add: TryReserveBuild_def NewCircuitPool_def demo_client_pool_def effectiveTotalCountAllLocked_def
      effectiveCountLocked_def totalCountAll_def totalCount_def AllPoolKinds_def)

lemma demo_nothing_pooled:
  "GetFromPool isOpen score [] kind (NewCircuitPool cfg) = (NewCircuitPool cfg, None)"
  by (simp add: GetFromPool_def pickBestInUse_def pickBestIdle_def lendIdle_def NewCircuitPool_def)

lemma demo_acquireOnce:
  "\<exists>acts m'. acquireOnce demo_crypto demo_acquire_env PoolLowLatency [] n (NewCircuitPool demo_client_pool) demo_cm
     = (Some (Inr ''c-1'', acts), m')"
proof -
  obtain p where p: "TryReserveBuild PoolLowLatency (NewCircuitPool demo_client_pool) = (p, True)"
    using demo_reserve by blast
  let ?m = "withPool demo_cm p"
  have sel: "SelectPathForPoolExcluding (\<lambda>_. None) demo_choices (cm_pathSelector ?m) PoolLowLatency [] = Inr demo_direct"
    by (rule demo_select) (simp add: withPool_def demo_cm_def SetPool_def NewCircuitManager_def)
  obtain m1 a1 where c: "createCircuitWithPlan demo_crypto demo_create_env demo_direct ?m = (Inr ''c-1'', m1, a1)"
    using demo_create [of demo_crypto ?m] by (metis fst_conv prod_cases3)
  have "cm_buildRetries ?m = 0"
    by (simp add: withPool_def demo_cm_def SetPool_def NewCircuitManager_def)
  then have "CreateForPoolExcluding demo_crypto (\<lambda>_. None) (\<lambda>_. demo_choices) (\<lambda>_. demo_create_env) PoolLowLatency [] ?m
      = (Inr ''c-1'', m1, a1, [demo_direct])"
    using sel c by (simp add: CreateForPoolExcluding_def)
  then show ?thesis
    using p by (simp add: acquireOnce_def demo_nothing_pooled demo_acquire_env_def)
qed


section \<open>Heartbeat delays\<close>

lemma heartbeat_delay_bounds:
  fixes cfg :: HeartbeatConfig and m :: CircuitManager
  assumes "\<And>n. 0 < n \<Longrightarrow> 0 \<le> rnd n \<and> rnd n < n"
  defines "m' \<equiv> SetHeartbeatConfig cfg m"
  shows "0 < hb_IdleMin (cm_heartbeat m')" and "hb_IdleMin (cm_heartbeat m') \<le> nextHeartbeatDelayLocked m' rnd"
    and "nextHeartbeatDelayLocked m' rnd \<le> hb_IdleMax (cm_heartbeat m')"
proof -
  have lo: "0 < hb_IdleMin (cm_heartbeat m')" "hb_IdleMin (cm_heartbeat m') \<le> hb_IdleMax (cm_heartbeat m')"
    by (auto simp: m'_def SetHeartbeatConfig_def Let_def duration_defs)
  then show "0 < hb_IdleMin (cm_heartbeat m')" by simp
  show "hb_IdleMin (cm_heartbeat m') \<le> nextHeartbeatDelayLocked m' rnd"
    "nextHeartbeatDelayLocked m' rnd \<le> hb_IdleMax (cm_heartbeat m')"
    using lo assms(1) [of "hb_IdleMax (cm_heartbeat m') - hb_IdleMin (cm_heartbeat m')"]
    by (auto simp: nextHeartbeatDelayLocked_def Let_def)
qed

section \<open>A failed extension counts as a success\<close>

lemma healthOf_updateHop:
  "healthOf (updateHop f p h) k = (if k = ph_PeerID h \<and> k \<noteq> [] then f (healthOf p k) else healthOf p k)"
  by (simp add: updateHop_def healthOf_def)

lemma success_ends_cooldown:
  assumes "h \<in> set (pp_Hops plan)" and "ph_PeerID h \<noteq> []"
  shows "CooldownUntil (healthOf (ReportPathSuccess plan now p) (ph_PeerID h)) = 0
    \<and> ConsecutiveFailures (healthOf (ReportPathSuccess plan now p) (ph_PeerID h)) = 0"
proof -
  have keep: "CooldownUntil (healthOf (foldl (updateHop (reportSuccess now)) p hs) k) = 0
      \<and> ConsecutiveFailures (healthOf (foldl (updateHop (reportSuccess now)) p hs) k) = 0"
    if "CooldownUntil (healthOf p k) = 0 \<and> ConsecutiveFailures (healthOf p k) = 0" for hs p k
    using that by (induction hs arbitrary: p) (auto simp: healthOf_updateHop reportSuccess_def)
  obtain hs hs' where "pp_Hops plan = hs @ h # hs'" using assms(1) by (metis split_list)
  then show ?thesis
    using assms(2) by (simp add: ReportPathSuccess_def reportPath_def)
      (rule keep, simp add: healthOf_updateHop reportSuccess_def)
qed

text \<open>
  When the extension to the exit fails (the relay does not answer, the exit refuses, the
  key is malformed), the caller gets the error and the circuit is gone, but the path selector
  is told the path succeeded: the exit that could not be reached has its failure count and
  its cooldown cleared, so that the next selection ranks it as healthy.
\<close>

theorem failed_extension_reported_as_success:
  assumes "fresh_id m (ce_uuid E)" and "length (pp_Hops plan) \<ge> 2"
    and "ce_Decode E (ph_PeerID (hd (pp_Hops plan))) = Inr peerID"
    and "ce_now E 2 < ce_now E 0 + circuitCreateTimeout" and "ce_NewStream E peerID = Inr stream"
    and "GenerateEphemeralKeyPair C (ce_rnd0 E) = Inr (priv0, pub0)"
    and "firstKeyExchange C E (ce_uuid E) (ph_PeerID (hd (pp_Hops plan))) priv0 pub0 = Inr first"
    and "extendToExit C E (ce_uuid E) plan [NewKeyExchangeInitFrame (ce_uuid E) pub0] first = Inl e"
    and "h \<in> set (pp_Hops plan)" and "ph_PeerID h \<noteq> []"
  shows "\<exists>m'. createCircuitWithPlan C E plan m = (Inl e, m', [CCloseStream stream])
    \<and> CooldownUntil (healthOf (cm_pathSelector m') (ph_PeerID h)) = 0
    \<and> ConsecutiveFailures (healthOf (cm_pathSelector m') (ph_PeerID h)) = 0"
proof -
  have hops: "pp_Hops plan \<noteq> []" "length (pp_Hops plan) \<noteq> 1" using assms(2) by auto
  have "buildHops C E (ce_uuid E) plan priv0 pub0 = Inl (False, e)"
    using assms(7,8) hops(2) by (simp add: buildHops_def)
  then obtain m1 where b: "buildCircuit C E plan m = (Inl (False, e), m1, [CCloseStream stream])"
    using assms(3-6) hops by (auto simp: buildCircuit_def Let_def isDirectExitPlan_def)
  then have "m1 = m" using buildCircuit_failed [OF assms(1) hops(1)] by blast
  then show ?thesis
    using b success_ends_cooldown [OF assms(9,10)] by (simp add: createCircuitWithPlan_def Let_def)
qed

definition demo_relayed :: PathPlan where
  "demo_relayed = relayExit (demo_exit ''peer-relay-1'' ''SG'') (demo_exit ''peer-exit-01'' ''SG'')"

text \<open>The first hop answers the key exchange and then breaks the stream.\<close>

definition demo_broken_env :: create_env where
  "demo_broken_env = demo_create_env
     \<lparr>ce_rnd0 := replicate 32 1, ce_rnd1 := replicate 32 2,
      ce_read := (\<lambda>_. Inr (NewKeyExchangeRespFrame ''c-1'' (replicate 32 7))),
      ce_write := (\<lambda>sent. if length sent < 2 then None else Some EOF)\<rparr>"

lemma demo_keys: "\<exists>priv pub. GenerateEphemeralKeyPair demo_crypto (replicate 32 b) = Inr (priv, pub) \<and> length priv = 32 \<and> length pub = 32"
  by (simp add: GenerateEphemeralKeyPair_def readFull_def X25519KeySize_def Let_def demo_crypto_def demo_x25519_def)

lemma demo_session:
  assumes "length priv = 32" and "length pub = 32"
  shows "\<exists>s. NewHopSessionFromKeyExchange demo_crypto peer role priv pub t = Inr s \<and> keyed s"
  using assms demo_hkdf_sized
  by (simp add: NewHopSessionFromKeyExchange_def X25519SharedSecret_def X25519KeySize_def demo_crypto_def demo_x25519_def
      DeriveHopKeys_def keyed_def AEADKeySize_def)

theorem failed_extension_reported_as_success_witness:
  "\<exists>m'. createCircuitWithPlan demo_crypto demo_broken_env demo_relayed demo_cm = (Inl EOF, m', [CCloseStream ''stream-1''])
     \<and> CooldownUntil (healthOf (cm_pathSelector m') ''peer-exit-01'') = 0"
proof -
  obtain priv0 pub0 where k0: "GenerateEphemeralKeyPair demo_crypto (ce_rnd0 demo_broken_env) = Inr (priv0, pub0)"
    and l0: "length priv0 = 32" "length pub0 = 32"
    using demo_keys [of 1] by (auto simp: demo_broken_env_def)
  obtain priv1 pub1 where k1: "GenerateEphemeralKeyPair demo_crypto (ce_rnd1 demo_broken_env) = Inr (priv1, pub1)"
    using demo_keys [of 2] by (auto simp: demo_broken_env_def)
  obtain first where s: "NewHopSessionFromKeyExchange demo_crypto ''peer-relay-1'' HopRoleRelay priv0 (replicate 32 7) 0 = Inr first"
    and keyed: "keyed first"
    using demo_session [OF l0(1)] by (metis length_replicate)
  have plan: "pp_Hops demo_relayed = [\<lparr>ph_PeerID = ''peer-relay-1'', ph_IsRelay = True, ph_IsExit = False\<rparr>,
      \<lparr>ph_PeerID = ''peer-exit-01'', ph_IsRelay = False, ph_IsExit = True\<rparr>]" "pp_ExitHopIndex demo_relayed = 1"
    by (simp_all add: demo_relayed_def relayExit_def demo_exit_def)
  have first: "firstKeyExchange demo_crypto demo_broken_env ''c-1'' ''peer-relay-1'' priv0 pub0 = Inr first"
    using s by (simp add: firstKeyExchange_def demo_broken_env_def demo_create_env_def NewKeyExchangeRespFrame_def
        codec_KeyExchangeResp.unmarshal_marshal X25519KeySize_def second_def)
  have ext: "extendToExit demo_crypto demo_broken_env ''c-1'' demo_relayed [NewKeyExchangeInitFrame ''c-1'' pub0] first = Inl EOF"
    using k1 keyed by (simp add: extendToExit_def plan WrapForward_def AEADSeal_def keyed_def Let_def)
      (simp add: demo_broken_env_def)
  have "\<exists>m'. createCircuitWithPlan demo_crypto demo_broken_env demo_relayed demo_cm = (Inl EOF, m', [CCloseStream ''stream-1''])
     \<and> CooldownUntil (healthOf (cm_pathSelector m') (ph_PeerID (pp_Hops demo_relayed ! 1))) = 0
     \<and> ConsecutiveFailures (healthOf (cm_pathSelector m') (ph_PeerID (pp_Hops demo_relayed ! 1))) = 0"
  proof (rule failed_extension_reported_as_success)
    show "fresh_id demo_cm (ce_uuid demo_broken_env)" using demo_cm_fresh by (simp add: demo_broken_env_def demo_create_env_def)
    show "firstKeyExchange demo_crypto demo_broken_env (ce_uuid demo_broken_env) (ph_PeerID (hd (pp_Hops demo_relayed))) priv0 pub0
        = Inr first" using first by (simp add: plan demo_broken_env_def demo_create_env_def)
    show "extendToExit demo_crypto demo_broken_env (ce_uuid demo_broken_env) demo_relayed
        [NewKeyExchangeInitFrame (ce_uuid demo_broken_env) pub0] first = Inl EOF"
      using ext by (simp add: demo_broken_env_def demo_create_env_def)
  qed (use k0 in \<open>simp_all add: plan\<close>, simp_all add: demo_broken_env_def demo_create_env_def circuitCreateTimeout_def second_def)
  then show ?thesis by (auto simp: plan)
qed

end
