(* ===== verification/Circuit_Traffic.thy ===== *)
theory Circuit_Traffic
  imports Circuit_Manager
begin

text \<open>
  What runs over a circuit, the second half of \<open>internal/client/circuit_manager.go\<close>: opening
  streams (\<open>BeginTCP\<close>, \<open>BeginUDP\<close>), sending data, the loop that reads a circuit's stream, and
  the heartbeat. An operation that waits is two definitions, what it does before it waits and
  what it does with the outcome. The clock and the draw of the heartbeat delay are arguments;
  \<open>wr\<close> says whether a write to a stream fails, \<open>lw\<close> how many bytes a local connection takes.
\<close>

section \<open>Bookkeeping\<close>

definition scheduleHeartbeat :: "string \<Rightarrow> time \<Rightarrow> (int \<Rightarrow> int) \<Rightarrow> CircuitManager \<Rightarrow> CircuitManager" where
  "scheduleHeartbeat cid now rnd m =
     (if cid = [] \<or> isDirectExitCircuit m cid then m
      else m\<lparr>cm_heartbeatDue := (cm_heartbeatDue m)(cid \<mapsto> now + nextHeartbeatDelayLocked m rnd)\<rparr>)"

definition addCircuitBytes ::
  "string \<Rightarrow> u64 \<Rightarrow> u64 \<Rightarrow> time \<Rightarrow> (int \<Rightarrow> int) \<Rightarrow> CircuitManager \<Rightarrow> CircuitManager" where
  "addCircuitBytes cid sent recv now rnd m =
     scheduleHeartbeat cid now rnd (m\<lparr>cm_store := cs_AddStats (cm_store m) cid sent recv now,
       cm_traffic := tr_Add (cm_traffic m) sent recv\<rparr>)"

definition touchCircuitActivity :: "string \<Rightarrow> time \<Rightarrow> (int \<Rightarrow> int) \<Rightarrow> CircuitManager \<Rightarrow> CircuitManager" where
  "touchCircuitActivity cid now rnd m =
     (case cs_Get (cm_store m) cid of None \<Rightarrow> m
      | Some rec \<Rightarrow>
          scheduleHeartbeat cid now rnd (m\<lparr>cm_store := cs_Upsert (cm_store m) (rec
            \<lparr>cr_LastTrafficAt := now, cr_UpdatedAt := now, cr_Alive := True, cr_ConsecutiveFailures := 0,
             cr_State := CircuitOpen, cr_ProtectionUntil := now + circuitProtectionWindow\<rparr>)\<rparr>))"

definition markCircuitTimeout :: "string \<Rightarrow> time \<Rightarrow> CircuitManager \<Rightarrow> CircuitManager" where
  "markCircuitTimeout cid now m =
     (case cs_Get (cm_store m) cid of None \<Rightarrow> m
      | Some rec \<Rightarrow> m\<lparr>cm_store := cs_Upsert (cm_store m)
          (rec\<lparr>cr_Alive := True, cr_State := CircuitDegraded, cr_UpdatedAt := now\<rparr>)\<rparr>)"

definition reportPathFailureForCircuit :: "string \<Rightarrow> time \<Rightarrow> CircuitManager \<Rightarrow> CircuitManager" where
  "reportPathFailureForCircuit cid now m =
     (case cs_Get (cm_store m) cid of None \<Rightarrow> m
      | Some rec \<Rightarrow> m\<lparr>cm_pathSelector := ReportPathFailure (cr_Plan rec) now (cm_pathSelector m)\<rparr>)"

definition evictCircuitForHighRTT :: "string \<Rightarrow> CircuitManager \<Rightarrow> CircuitManager \<times> client_action list" where
  "evictCircuitForHighRTT cid m = CloseCircuit cid (poolMarkFailed cid m)"

section \<open>Opening a stream\<close>

datatype BeginErrorKind = BeginErrorCircuit | BeginErrorRemote | BeginErrorTimeout

text \<open>An error of \<open>BeginTCP\<close>: a \<open>*BeginError\<close>, or another error that is passed on.\<close>

datatype begin_error = BeginError BeginErrorKind string | BeginOther go_error

type_synonym stream_write = "string \<Rightarrow> Frame \<Rightarrow> go_error option"

text \<open>A payload wrapped for the exit in the frame that carries it; the counters of the hops advance.\<close>

definition onionFrame ::
  "crypto \<Rightarrow> string \<Rightarrow> string \<Rightarrow> OnionPayload \<Rightarrow> CircuitManager \<Rightarrow> Frame result \<times> CircuitManager" where
  "onionFrame C cid sid payload m =
     (case WrapForward C (getHopSessions m cid) cid sid (MarshalPaddedOnionPayload payload) of
        (r, hops) \<Rightarrow>
          (res_bind r (\<lambda>ct. Inr (NewOnionDataFrame cid sid \<lparr>oc_HopIndex = 0, oc_Ciphertext = ct\<rparr>)),
           m\<lparr>cm_hopSessions := (cm_hopSessions m)(cid \<mapsto> hops)\<rparr>))"

definition endPending :: "string \<Rightarrow> CircuitManager \<Rightarrow> CircuitManager" where
  "endPending sid m = m\<lparr>cm_pendingConnected := cm_pendingConnected m - {sid}\<rparr>"

text \<open>
  The part of \<open>BeginTCP\<close> and \<open>BeginUDP\<close> before the wait: \<open>direct\<close> is the frame for a direct
  circuit, \<open>payload\<close> what is wrapped otherwise.
\<close>

definition beginStart ::
  "crypto \<Rightarrow> stream_write \<Rightarrow> Frame \<Rightarrow> OnionPayload \<Rightarrow> string \<Rightarrow> string \<Rightarrow> CircuitManager
   \<Rightarrow> (begin_error + client_action list) \<times> CircuitManager" where
  "beginStart C wr direct payload cid sid m =
     (case cm_activeStreams m cid of
        None \<Rightarrow> (Inl (BeginError BeginErrorCircuit (''no active stream for circuit '' @ cid)), m)
      | Some s \<Rightarrow>
          let m1 = m\<lparr>cm_pendingConnected := insert sid (cm_pendingConnected m)\<rparr>;
              send = (\<lambda>frame m2. case wr s frame of
                 Some e \<Rightarrow> (Inl (BeginError BeginErrorCircuit (errorText e)), endPending sid m2)
               | None \<Rightarrow> (Inr [CWrite s frame], m2))
          in if isDirectExitCircuit m1 cid then send direct m1
             else if getHopSessions m1 cid = [] then
               (Inl (BeginError BeginErrorCircuit (''no hop sessions for circuit '' @ cid)), endPending sid m1)
             else case onionFrame C cid sid payload m1 of
               (Inl e, m2) \<Rightarrow> (Inl (BeginOther e), endPending sid m2)
             | (Inr frame, m2) \<Rightarrow> send frame m2)"

definition beginTCPStart ::
  "crypto \<Rightarrow> stream_write \<Rightarrow> string \<Rightarrow> string \<Rightarrow> string \<Rightarrow> int \<Rightarrow> CircuitManager
   \<Rightarrow> (begin_error + client_action list) \<times> CircuitManager" where
  "beginTCPStart C wr cid sid host port m =
     (let begin = \<lparr>bt_TargetHost = host, bt_TargetPort = port\<rparr>
      in beginStart C wr (NewBeginTCPFrame cid sid begin) ((zeroPayload ''begin'')\<lparr>op_Begin := Some begin\<rparr>) cid sid m)"

definition beginUDPStart ::
  "crypto \<Rightarrow> stream_write \<Rightarrow> string \<Rightarrow> string \<Rightarrow> string \<Rightarrow> int \<Rightarrow> CircuitManager
   \<Rightarrow> (begin_error + client_action list) \<times> CircuitManager" where
  "beginUDPStart C wr cid sid host port m =
     (let begin = \<lparr>bu_TargetHost = host, bu_TargetPort = port\<rparr>
      in beginStart C wr (NewBeginUDPFrame cid sid begin) ((zeroPayload ''begin_udp'')\<lparr>op_BeginUDP := Some begin\<rparr>) cid sid m)"

text \<open>After the wait: the answer that was delivered, or \<open>None\<close> when the time ran out.\<close>

definition beginFinish ::
  "string \<Rightarrow> string \<Rightarrow> string \<Rightarrow> string \<Rightarrow> Connected option \<Rightarrow> time \<Rightarrow> (int \<Rightarrow> int) \<Rightarrow> CircuitManager
   \<Rightarrow> begin_error option \<times> CircuitManager" where
  "beginFinish failed timedOut cid sid outcome now rnd m =
     (case outcome of
        Some resp \<Rightarrow>
          if \<not> cn_OK resp then
            (Some (BeginError BeginErrorRemote (if cn_Error resp \<noteq> '''' then failed @ '': '' @ cn_Error resp else failed)),
             endPending sid m)
          else (None, endPending sid (touchCircuitActivity cid now rnd m))
      | None \<Rightarrow> (Some (BeginError BeginErrorTimeout timedOut), endPending sid (markCircuitTimeout cid now m)))"

definition beginTCPFinish ::
  "string \<Rightarrow> string \<Rightarrow> Connected option \<Rightarrow> time \<Rightarrow> (int \<Rightarrow> int) \<Rightarrow> CircuitManager \<Rightarrow> begin_error option \<times> CircuitManager" where
  "beginTCPFinish = beginFinish ''remote connect failed'' ''wait for CONNECTED timed out''"

definition beginUDPFinish ::
  "string \<Rightarrow> string \<Rightarrow> Connected option \<Rightarrow> time \<Rightarrow> (int \<Rightarrow> int) \<Rightarrow> CircuitManager \<Rightarrow> begin_error option \<times> CircuitManager" where
  "beginUDPFinish = beginFinish ''remote udp connect failed'' ''wait for CONNECTED (udp) timed out''"

definition CanReuseCircuitAfterBeginError :: "CircuitManager \<Rightarrow> string \<Rightarrow> begin_error \<Rightarrow> bool" where
  "CanReuseCircuitAfterBeginError m cid err =
     (canReuseCircuit m cid \<and>
      (case err of BeginOther _ \<Rightarrow> False
       | BeginError kind _ \<Rightarrow> kind = BeginErrorRemote \<or> kind = BeginErrorTimeout))"

section \<open>Data\<close>

definition dataPayload :: "bytes \<Rightarrow> OnionPayload" where
  "dataPayload b = (zeroPayload ''data'')\<lparr>op_Data := Some \<lparr>dc_Payload = b\<rparr>\<rparr>"

definition SendData ::
  "crypto \<Rightarrow> stream_write \<Rightarrow> string \<Rightarrow> string \<Rightarrow> bytes \<Rightarrow> time \<Rightarrow> (int \<Rightarrow> int) \<Rightarrow> CircuitManager
   \<Rightarrow> client_action list result \<times> CircuitManager" where
  "SendData C wr cid sid payload now rnd m =
     (case cm_activeStreams m cid of
        None \<Rightarrow> (Inl (Errorf (''no active stream for circuit '' @ cid)), m)
      | Some s \<Rightarrow>
          let count = (\<lambda>m. if length payload > 0 then addCircuitBytes cid (of_nat (length payload)) 0 now rnd m else m);
              send = (\<lambda>frame m1. case wr s frame of
                 Some e \<Rightarrow> (Inl e, m1) | None \<Rightarrow> (Inr [CWrite s frame], count m1))
          in if isDirectExitCircuit m cid then send (NewDataFrame cid sid payload) m
             else if getHopSessions m cid = [] then (Inl (Errorf (''no hop sessions for circuit '' @ cid)), m)
             else case onionFrame C cid sid (dataPayload payload) m of
               (Inl e, m1) \<Rightarrow> (Inl e, m1)
             | (Inr frame, m1) \<Rightarrow> send frame m1)"

text \<open>
  One read of the pump of \<open>StartDataPump\<close> on the stream \<open>s\<close>: the bytes read and whether the
  read failed. The flag says whether the pump goes on. \<open>direct\<close> and the presence of hop
  sessions were decided when the pump was started.
\<close>

definition pumpRound ::
  "crypto \<Rightarrow> stream_write \<Rightarrow> bool \<Rightarrow> string \<Rightarrow> string \<Rightarrow> string \<Rightarrow> bytes \<Rightarrow> bool \<Rightarrow> time \<Rightarrow> (int \<Rightarrow> int) \<Rightarrow> CircuitManager
   \<Rightarrow> CircuitManager \<times> client_action list \<times> bool" where
  "pumpRound C wr direct s cid sid chunk failed now rnd m =
     (let finish = (\<lambda>m acts. if failed
            then (m, acts @ (case wr s (NewEndFrame cid sid ''local_closed'') of
                               None \<Rightarrow> [CWrite s (NewEndFrame cid sid ''local_closed'')] | Some _ \<Rightarrow> []), False)
            else (m, acts, True));
          send = (\<lambda>frame m1. case wr s frame of
            Some _ \<Rightarrow> (m1, [], False)
          | None \<Rightarrow> finish (addCircuitBytes cid (of_nat (length chunk)) 0 now rnd m1) [CWrite s frame])
      in if length chunk > 0 then
           (if direct then send (NewDataFrame cid sid chunk) m
            else case onionFrame C cid sid (dataPayload chunk) m of
              (Inl _, m1) \<Rightarrow> (m1, [], False)
            | (Inr frame, m1) \<Rightarrow> send frame m1)
         else finish m [])"

text \<open>The pump over what its reads give, until one fails or a write does.\<close>

fun dataPump ::
  "crypto \<Rightarrow> stream_write \<Rightarrow> bool \<Rightarrow> string \<Rightarrow> string \<Rightarrow> string \<Rightarrow> (bytes \<times> bool) list \<Rightarrow> time \<Rightarrow> (int \<Rightarrow> int) \<Rightarrow> CircuitManager
   \<Rightarrow> CircuitManager \<times> client_action list" where
  "dataPump C wr direct s cid sid [] now rnd m = (m, [])"
| "dataPump C wr direct s cid sid ((chunk, failed) # reads) now rnd m =
     (case pumpRound C wr direct s cid sid chunk failed now rnd m of
        (m1, acts, False) \<Rightarrow> (m1, acts)
      | (m1, acts, True) \<Rightarrow>
          (let (m2, rest) = dataPump C wr direct s cid sid reads now rnd m1 in (m2, acts @ rest)))"

definition StartDataPump ::
  "crypto \<Rightarrow> stream_write \<Rightarrow> string \<Rightarrow> string \<Rightarrow> (bytes \<times> bool) list \<Rightarrow> time \<Rightarrow> (int \<Rightarrow> int) \<Rightarrow> CircuitManager
   \<Rightarrow> CircuitManager \<times> client_action list" where
  "StartDataPump C wr cid sid reads now rnd m =
     (case cm_activeStreams m cid of
        None \<Rightarrow> (m, [])
      | Some s \<Rightarrow>
          if isDirectExitCircuit m cid then dataPump C wr True s cid sid reads now rnd m
          else if getHopSessions m cid = [] then (m, [])
          else dataPump C wr False s cid sid reads now rnd m)"

section \<open>Reading a circuit\<close>

definition deliverConnected :: "string \<Rightarrow> Connected \<Rightarrow> CircuitManager \<Rightarrow> CircuitManager \<times> client_action list" where
  "deliverConnected sid msg m =
     (if sid \<in> cm_pendingConnected m
      then (m\<lparr>cm_pendingConnected := cm_pendingConnected m - {sid}\<rparr>, [CDeliverConnected sid msg])
      else (m, []))"

definition deliverPong :: "Pong \<Rightarrow> CircuitManager \<Rightarrow> CircuitManager \<times> client_action list" where
  "deliverPong pong m =
     (if po_PingID pong \<in> cm_pendingPongs m
      then (m\<lparr>cm_pendingPongs := cm_pendingPongs m - {po_PingID pong}\<rparr>, [CDeliverPong (po_PingID pong) pong])
      else (m, []))"

text \<open>Data for a local connection; \<open>lw\<close> is how many bytes its \<open>Write\<close> reports.\<close>

definition writeLocal ::
  "(stream_conn \<Rightarrow> bytes \<Rightarrow> nat) \<Rightarrow> string \<Rightarrow> string \<Rightarrow> bytes \<Rightarrow> time \<Rightarrow> (int \<Rightarrow> int) \<Rightarrow> CircuitManager
   \<Rightarrow> CircuitManager \<times> client_action list" where
  "writeLocal lw cid sid b now rnd m =
     (case sm_Get (cm_streams m) sid of
        None \<Rightarrow> (m, [])
      | Some st \<Rightarrow>
          (let n = lw (sm_Conn st) b
           in (if n > 0 then addCircuitBytes cid 0 (of_nat n) now rnd m else m, [CLocalWrite (sm_Conn st) b])))"

text \<open>
  The loop over the hop sessions: the result of a layer that cannot be opened is nil, and the
  \<open>continue\<close> behind it goes on with the next hop.
\<close>

fun unwrapAll :: "crypto \<Rightarrow> string \<Rightarrow> string \<Rightarrow> HopSession list \<Rightarrow> bytes \<Rightarrow> bytes \<times> HopSession list" where
  "unwrapAll C cid sid [] data = (data, [])"
| "unwrapAll C cid sid (hop # hops) data =
     (let (r, hop') = UnwrapBackward C hop cid sid data;
          (out, hops') = unwrapAll C cid sid hops (case r of Inl _ \<Rightarrow> [] | Inr d \<Rightarrow> d)
      in (out, hop' # hops'))"

definition readOnion ::
  "crypto \<Rightarrow> (stream_conn \<Rightarrow> bytes \<Rightarrow> nat) \<Rightarrow> string \<Rightarrow> Frame \<Rightarrow> time \<Rightarrow> (int \<Rightarrow> int) \<Rightarrow> CircuitManager
   \<Rightarrow> CircuitManager \<times> client_action list" where
  "readOnion C lw cid frame now rnd m =
     (case json_unmarshal dec_OnionCell (f_PayloadJSON frame) of
        None \<Rightarrow> (m, [])
      | Some cell \<Rightarrow>
          (let (data, hops) = unwrapAll C (f_CircuitID frame) (f_StreamID frame) (getHopSessions m cid) (oc_Ciphertext cell);
               m1 = (if hops = [] then m else m\<lparr>cm_hopSessions := (cm_hopSessions m)(cid \<mapsto> hops)\<rparr>)
           in case json_unmarshal dec_OnionPayload data of
                None \<Rightarrow> (m1, [])
              | Some payload \<Rightarrow>
                  (case (op_Connected payload, op_Pong payload, op_Data payload) of
                     (c, p, d) \<Rightarrow>
                       if op_Kind payload = OnionPayloadKindConnected \<and> c \<noteq> None
                       then deliverConnected (f_StreamID frame) (the c) m1
                       else if op_Kind payload = OnionPayloadKindPong \<and> p \<noteq> None then deliverPong (the p) m1
                       else if op_Kind payload = OnionPayloadKindData \<and> d \<noteq> None
                       then writeLocal lw cid (f_StreamID frame) (dc_Payload (the d)) now rnd m1
                       else (m1, []))))"

definition readFrame ::
  "crypto \<Rightarrow> (stream_conn \<Rightarrow> bytes \<Rightarrow> nat) \<Rightarrow> string \<Rightarrow> Frame \<Rightarrow> time \<Rightarrow> (int \<Rightarrow> int) \<Rightarrow> CircuitManager
   \<Rightarrow> CircuitManager \<times> client_action list" where
  "readFrame C lw cid frame now rnd m =
     (if f_Type frame = MsgTypeConnected then
        (case json_unmarshal dec_Connected (f_PayloadJSON frame) of
           None \<Rightarrow> (m, []) | Some msg \<Rightarrow> deliverConnected (f_StreamID frame) msg m)
      else if f_Type frame = MsgTypeOnionData then readOnion C lw cid frame now rnd m
      else if f_Type frame = MsgTypeData then
        (case json_unmarshal dec_DataCell (f_PayloadJSON frame) of
           None \<Rightarrow> (m, []) | Some cell \<Rightarrow> writeLocal lw cid (f_StreamID frame) (dc_Payload cell) now rnd m)
      else if f_Type frame = MsgTypeEnd then
        (let (sm, acts) = Remove (cm_streams m) (f_StreamID frame) in (m\<lparr>cm_streams := sm\<rparr>, map CLocal acts))
      else (m, []))"

text \<open>
  The end of the loop on an error that is not transient: the report of the failed path and
  the deferred function; \<open>order\<close> is the order in which the streams are iterated.
\<close>

definition readLoopEnd ::
  "string list \<Rightarrow> string \<Rightarrow> string \<Rightarrow> go_error \<Rightarrow> time \<Rightarrow> CircuitManager \<Rightarrow> CircuitManager \<times> client_action list" where
  "readLoopEnd order cid s err now m =
     (let m1 = closeCircuitLocked cid (reportPathFailureForCircuit cid now m);
          (sm, acts) = NotifyCircuitClosed order (cm_streams m1) cid
             (if err \<noteq> EOF then Some (Errorf (''circuit broken: '' @ errorText err)) else None)
      in (m1\<lparr>cm_streams := sm\<rparr>, CCloseStream s # map CLocal acts))"

definition handleTransientReadError :: "(go_error \<Rightarrow> bool) \<Rightarrow> string \<Rightarrow> go_error \<Rightarrow> time \<Rightarrow> CircuitManager \<Rightarrow> CircuitManager \<times> bool" where
  "handleTransientReadError transient cid err now m =
     (if transient err then (m\<lparr>cm_store := cs_SetState (cm_store m) cid CircuitDegraded now\<rparr>, True) else (m, False))"

text \<open>The loop over what the reads of the stream give; the last flag says whether it has returned.\<close>

fun readLoop ::
  "crypto \<Rightarrow> (stream_conn \<Rightarrow> bytes \<Rightarrow> nat) \<Rightarrow> (go_error \<Rightarrow> bool) \<Rightarrow> string list \<Rightarrow> string \<Rightarrow> string \<Rightarrow> Frame result list
   \<Rightarrow> time \<Rightarrow> (int \<Rightarrow> int) \<Rightarrow> CircuitManager \<Rightarrow> CircuitManager \<times> client_action list \<times> bool" where
  "readLoop C lw transient order cid s [] now rnd m = (m, [], False)"
| "readLoop C lw transient order cid s (Inr frame # reads) now rnd m =
     (let (m1, acts) = readFrame C lw cid frame now rnd m;
          (m2, rest, ended) = readLoop C lw transient order cid s reads now rnd m1
      in (m2, acts @ rest, ended))"
| "readLoop C lw transient order cid s (Inl err # reads) now rnd m =
     (case handleTransientReadError transient cid err now m of
        (m1, True) \<Rightarrow> readLoop C lw transient order cid s reads now rnd m1
      | (m1, False) \<Rightarrow> (let (m2, acts) = readLoopEnd order cid s err now m1 in (m2, acts, True)))"

section \<open>Heartbeat\<close>

definition heartbeatCandidates :: "string list \<Rightarrow> time \<Rightarrow> CircuitManager \<Rightarrow> string list" where
  "heartbeatCandidates order now m =
     (let ids = filter (\<lambda>cid. cm_activeStreams m cid \<noteq> None \<and>
                  (case cm_heartbeatDue m cid of None \<Rightarrow> False | Some due \<Rightarrow> \<not> now < due)) order
      in filter (\<lambda>cid. (case cs_Get (cm_store m) cid of None \<Rightarrow> False
                         | Some rec \<Rightarrow> isReusableCircuitState (cr_State rec)) \<and> \<not> isDirectExitCircuit m cid) ids)"

text \<open>Sending the ping; the answer of the wait is \<open>None\<close> when the time ran out.\<close>

definition pingPayload :: "string \<Rightarrow> string \<Rightarrow> time \<Rightarrow> OnionPayload" where
  "pingPayload cid pingID sentAt = (zeroPayload OnionPayloadKindPing)
     \<lparr>op_Ping := Some \<lparr>pi_CircuitID = cid, pi_PingID = pingID, pi_SentAtUnix = sentAt div millisecond\<rparr>\<rparr>"

definition sendHeartbeatStart ::
  "crypto \<Rightarrow> stream_write \<Rightarrow> string \<Rightarrow> string \<Rightarrow> time \<Rightarrow> CircuitManager \<Rightarrow> client_action list result \<times> CircuitManager" where
  "sendHeartbeatStart C wr cid pingID sentAt m =
     (case cm_activeStreams m cid of
        None \<Rightarrow> (Inl (Errorf (''no active stream for circuit '' @ cid)), m)
      | Some s \<Rightarrow>
          if getHopSessions m cid = [] then (Inl (Errorf (''no hop sessions for circuit '' @ cid)), m)
          else case onionFrame C cid heartbeatStreamID (pingPayload cid pingID sentAt) m of
            (Inl e, m1) \<Rightarrow> (Inl e, m1)
          | (Inr frame, m1) \<Rightarrow>
              (case wr s frame of Some e \<Rightarrow> (Inl e, m1)
               | None \<Rightarrow> (Inr [CWrite s frame], m1\<lparr>cm_pendingPongs := insert pingID (cm_pendingPongs m1)\<rparr>)))"

definition handleHeartbeatSuccess ::
  "string \<Rightarrow> time \<Rightarrow> Pong \<Rightarrow> time \<Rightarrow> (int \<Rightarrow> int) \<Rightarrow> CircuitManager \<Rightarrow> CircuitManager \<times> client_action list" where
  "handleHeartbeatSuccess cid lastPing pong now rnd m =
     (case cs_Get (cm_store m) cid of
        None \<Rightarrow> (m, [])
      | Some rec \<Rightarrow>
          let lastPong = (if po_EchoAtUnix pong > 0 then po_EchoAtUnix pong * millisecond else now);
              rtt = now - lastPing;
              smoothed = (if cr_SmoothedRTT rec > 0 then smoothRTT (cr_SmoothedRTT rec) rtt else rtt);
              st1 = cs_SetHealth (cm_store m) cid True lastPing lastPong 0 (cr_HeartbeatSuccesses rec + 1) smoothed now;
              st2 = cs_SetState st1 cid CircuitOpen now;
              st3 = cs_ExtendProtection st2 cid (now + circuitProtectionWindow) now;
              m1 = scheduleHeartbeat cid now rnd (m\<lparr>cm_store := st3,
                     cm_pathSelector := ReportPathRTT (cr_Plan rec) smoothed (cm_pathSelector m)\<rparr>)
          in if smoothed \<ge> highRTTEvictThreshold then evictCircuitForHighRTT cid m1 else (m1, []))"

definition handleHeartbeatFailure ::
  "string \<Rightarrow> time \<Rightarrow> time \<Rightarrow> (int \<Rightarrow> int) \<Rightarrow> CircuitManager \<Rightarrow> CircuitManager \<times> client_action list" where
  "handleHeartbeatFailure cid lastPing now rnd m =
     (case cs_Get (cm_store m) cid of
        None \<Rightarrow> (m, [])
      | Some rec \<Rightarrow>
          let failures = cr_ConsecutiveFailures rec + 1;
              alive = \<not> (failures \<ge> hb_FailureThreshold (cm_heartbeat m));
              m1 = m\<lparr>cm_store := cs_SetHealth (cm_store m) cid alive lastPing (cr_LastPongAt rec) failures
                     (cr_HeartbeatSuccesses rec) (cr_SmoothedRTT rec) now\<rparr>
          in if alive then
               (scheduleHeartbeat cid now rnd (m1\<lparr>cm_store := cs_SetState (cm_store m1) cid CircuitDegraded now\<rparr>), [])
             else CloseCircuit cid (poolMarkFailed cid (reportPathFailureForCircuit cid now m1)))"

text \<open>\<open>probeCircuit\<close> on the outcome of the heartbeat it sent at \<open>lastPing\<close>.\<close>

definition probeFinish ::
  "string \<Rightarrow> string \<Rightarrow> time \<Rightarrow> Pong option \<Rightarrow> time \<Rightarrow> (int \<Rightarrow> int) \<Rightarrow> CircuitManager \<Rightarrow> CircuitManager \<times> client_action list" where
  "probeFinish cid pingID lastPing outcome now rnd m =
     (let m1 = m\<lparr>cm_pendingPongs := cm_pendingPongs m - {pingID}\<rparr>
      in case outcome of
           None \<Rightarrow> handleHeartbeatFailure cid lastPing now rnd m1
         | Some pong \<Rightarrow> handleHeartbeatSuccess cid lastPing pong now rnd m1)"

definition probeStart ::
  "crypto \<Rightarrow> stream_write \<Rightarrow> string \<Rightarrow> string \<Rightarrow> time \<Rightarrow> (int \<Rightarrow> int) \<Rightarrow> CircuitManager \<Rightarrow> CircuitManager \<times> client_action list" where
  "probeStart C wr cid pingID now rnd m =
     (case cm_heartbeatDue m cid of
        None \<Rightarrow> (m, [])
      | Some due \<Rightarrow>
          if now < due then (m, [])
          else case sendHeartbeatStart C wr cid pingID now m of
            (Inl _, m1) \<Rightarrow> handleHeartbeatFailure cid now now rnd m1
          | (Inr acts, m1) \<Rightarrow> (m1, acts))"

section \<open>The manager as a machine\<close>

text \<open>
  The steps the goroutines of the client take on the manager, each one critical section or
  one round of a loop. The UUID of a build is new.
\<close>

inductive client_step :: "crypto \<Rightarrow> CircuitManager \<Rightarrow> CircuitManager \<Rightarrow> bool" for C where
  build: "fresh_id m (ce_uuid E) \<Longrightarrow> pp_Hops plan \<noteq> [] \<Longrightarrow>
    createCircuitWithPlan C E plan m = (r, m', acts) \<Longrightarrow> client_step C m m'"
| pool: "client_step C m (m\<lparr>cm_pool := p\<rparr>)"
| settings: "client_step C m (m\<lparr>cm_heartbeat := h, cm_buildRetries := n, cm_beginTCPRetries := k, cm_beginTimeout := t\<rparr>)"
| fail: "cid \<noteq> [] \<Longrightarrow> cm_MarkCircuitFailed cid m = (m', acts) \<Longrightarrow> client_step C m m'"
| close: "cid \<noteq> [] \<Longrightarrow> CloseCircuit cid m = (m', acts) \<Longrightarrow> client_step C m m'"
| begin_tcp: "beginTCPStart C wr cid sid host port m = (r, m') \<Longrightarrow> client_step C m m'"
| begin_udp: "beginUDPStart C wr cid sid host port m = (r, m') \<Longrightarrow> client_step C m m'"
| answered: "beginFinish f t cid sid outcome now rnd m = (e, m') \<Longrightarrow> client_step C m m'"
| send: "SendData C wr cid sid payload now rnd m = (r, m') \<Longrightarrow> client_step C m m'"
| pump: "cm_activeStreams m cid = Some s \<Longrightarrow>
    pumpRound C wr (isDirectExitCircuit m cid) s cid sid chunk failed now rnd m = (m', acts, go) \<Longrightarrow> client_step C m m'"
| read: "cm_activeStreams m cid \<noteq> None \<Longrightarrow> readFrame C lw cid frame now rnd m = (m', acts) \<Longrightarrow> client_step C m m'"
| transient: "handleTransientReadError transient cid err now m = (m', b) \<Longrightarrow> client_step C m m'"
| broken: "cid \<noteq> [] \<Longrightarrow> readLoopEnd order cid s err now m = (m', acts) \<Longrightarrow> client_step C m m'"
| probe: "cid \<noteq> [] \<Longrightarrow> probeStart C wr cid pingID now rnd m = (m', acts) \<Longrightarrow> client_step C m m'"
| probed: "cid \<noteq> [] \<Longrightarrow> probeFinish cid pingID lastPing outcome now rnd m = (m', acts) \<Longrightarrow> client_step C m m'"
| streams: "client_step C m (m\<lparr>cm_streams := sm\<rparr>)"

inductive client_reachable :: "crypto \<Rightarrow> CircuitManager \<Rightarrow> bool" for C where
  start: "client_reachable C (NewCircuitManager NewCircuitStore sel str tr)"
| step: "client_reachable C m \<Longrightarrow> client_step C m m' \<Longrightarrow> client_reachable C m'"

text \<open>How the operations act on the part of the state that \<open>cm_ok\<close> is about.\<close>

lemma cm_ok_records:
  assumes "cm_ok m" and "cm_store m' = cs_modify (cm_store m) cid f" and "cm_activeStreams m' = cm_activeStreams m"
    and "cm_hopSessions m' = cm_hopSessions m"
    and "\<And>rec. cr_ID (f rec) = cr_ID rec \<and> cr_Plan (f rec) = cr_Plan rec
      \<and> (isReusableCircuitState (cr_State rec) \<longrightarrow> isReusableCircuitState (cr_State (f rec)))"
  shows "cm_ok m'"
proof -
  have "circuits.consistent (cm_store m')"
    unfolding assms(2) by (rule consistent_modify) (use assms(1,5) in \<open>auto simp: cm_ok_def\<close>)
  moreover have "dom (cm_store m') = dom (cm_store m)" by (simp add: assms(2))
  moreover have "\<exists>rec0. cm_store m k = Some rec0 \<and> (rec = rec0 \<or> rec = f rec0)" if "cm_store m' k = Some rec" for k rec
    using that by (auto simp: assms(2) cs_modify_def split: option.splits if_splits)
  ultimately show ?thesis
    using assms(1,5) by (auto simp: cm_ok_def assms(3,4) getHopSessions_def) metis+
qed

lemma cm_ok_hops:
  assumes "cm_ok m" and "cm_store m' = cm_store m" and "cm_activeStreams m' = cm_activeStreams m"
    and "cm_hopSessions m' = (cm_hopSessions m)(cid \<mapsto> hops)" and "hops \<noteq> []" and "cm_activeStreams m cid \<noteq> None"
  shows "cm_ok m'"
  using assms by (auto simp: cm_ok_def getHopSessions_def)

lemma scheduleHeartbeat_same:
  "cm_store (scheduleHeartbeat cid now rnd m) = cm_store m" "cm_activeStreams (scheduleHeartbeat cid now rnd m) = cm_activeStreams m"
  "cm_hopSessions (scheduleHeartbeat cid now rnd m) = cm_hopSessions m" "cm_streams (scheduleHeartbeat cid now rnd m) = cm_streams m"
  "cm_pool (scheduleHeartbeat cid now rnd m) = cm_pool m" "cm_pathSelector (scheduleHeartbeat cid now rnd m) = cm_pathSelector m"
  "cm_heartbeat (scheduleHeartbeat cid now rnd m) = cm_heartbeat m" "cm_pendingConnected (scheduleHeartbeat cid now rnd m) = cm_pendingConnected m"
  by (simp_all add: scheduleHeartbeat_def)

lemma cm_ok_scheduleHeartbeat [simp]: "cm_ok (scheduleHeartbeat cid now rnd m) = cm_ok m"
  by (simp add: cm_ok_def scheduleHeartbeat_same getHopSessions_def)

lemma cm_ok_fields [simp]:
  "cm_ok (m\<lparr>cm_pendingPongs := a\<rparr>) = cm_ok m" "cm_ok (m\<lparr>cm_pathSelector := b\<rparr>) = cm_ok m"
  "cm_ok (m\<lparr>cm_streams := c\<rparr>) = cm_ok m" "cm_ok (m\<lparr>cm_pool := d\<rparr>) = cm_ok m"
  by (simp_all add: cm_ok_def getHopSessions_def)

lemma cm_ok_endPending [simp]: "cm_ok (endPending sid m) = cm_ok m"
  by (simp add: cm_ok_def endPending_def getHopSessions_def)

lemma cm_ok_Upsert:
  assumes "cm_ok m" and "cs_Get (cm_store m) cid = Some rec" and "cr_ID rec' = cr_ID rec" "cr_Plan rec' = cr_Plan rec"
    and "isReusableCircuitState (cr_State rec')"
  shows "cm_ok (m\<lparr>cm_store := cs_Upsert (cm_store m) rec'\<rparr>)"
proof (rule cm_ok_records [OF assms(1), where cid = cid and f = "\<lambda>r. if r = rec then rec' else r"])
  have "cr_ID rec = cid" using assms(1,2) by (simp add: cm_ok_def circuits.consistent_def)
  then show "cm_store (m\<lparr>cm_store := cs_Upsert (cm_store m) rec'\<rparr>)
      = cs_modify (cm_store m) cid (\<lambda>r. if r = rec then rec' else r)"
    using assms(2,3) by (simp add: cs_Upsert_def cs_modify_def cs_Get_def)
qed (use assms(3-5) in auto)

lemma cm_ok_modify_or_same:
  assumes "cm_ok m" and "st = cm_store m \<or> st = cs_modify (cm_store m) cid f"
    and "\<And>rec. cr_ID (f rec) = cr_ID rec \<and> cr_Plan (f rec) = cr_Plan rec
      \<and> (isReusableCircuitState (cr_State rec) \<longrightarrow> isReusableCircuitState (cr_State (f rec)))"
  shows "cm_ok (m\<lparr>cm_store := st\<rparr>)"
  using assms(2)
proof
  assume "st = cm_store m"
  then show ?thesis using cm_ok_same [OF assms(1)] by simp
next
  assume "st = cs_modify (cm_store m) cid f"
  then show ?thesis by (intro cm_ok_records [OF assms(1) _ _ _ assms(3)]) auto
qed

lemma cm_ok_addCircuitBytes:
  assumes "cm_ok m"
  shows "cm_ok (addCircuitBytes cid sent recv now rnd m)"
proof -
  let ?f = "\<lambda>rec. rec\<lparr>cr_BytesSent := cr_BytesSent rec + sent, cr_BytesReceived := cr_BytesReceived rec + recv,
         cr_LastTrafficAt := now, cr_UpdatedAt := now\<rparr>"
  have "cm_ok (m\<lparr>cm_store := cs_AddStats (cm_store m) cid sent recv now\<rparr>)"
    by (rule cm_ok_modify_or_same [OF assms, where cid = cid and f = ?f]) (auto simp: cs_AddStats_def)
  then show ?thesis by (auto simp: addCircuitBytes_def intro: cm_ok_same)
qed

lemma cm_ok_touch: "cm_ok m \<Longrightarrow> cm_ok (touchCircuitActivity cid now rnd m)"
  unfolding touchCircuitActivity_def
  by (auto split: option.splits simp: isReusableCircuitState_def intro: cm_ok_Upsert)

lemma cm_ok_timeout: "cm_ok m \<Longrightarrow> cm_ok (markCircuitTimeout cid now m)"
  unfolding markCircuitTimeout_def
  by (auto split: option.splits simp: isReusableCircuitState_def intro: cm_ok_Upsert)

lemma cm_ok_report: "cm_ok m \<Longrightarrow> cm_ok (reportPathFailureForCircuit cid now m)"
  unfolding reportPathFailureForCircuit_def by (auto split: option.splits intro: cm_ok_same)

lemma cm_ok_poolMarkFailed: "cm_ok m \<Longrightarrow> cm_ok (poolMarkFailed cid m)"
  unfolding poolMarkFailed_def by (auto split: option.splits intro: cm_ok_same)

lemma cm_ok_SetState:
  assumes "cm_ok m" and "isReusableCircuitState st"
  shows "cm_ok (m\<lparr>cm_store := cs_SetState (cm_store m) cid st now\<rparr>)"
  by (rule cm_ok_modify_or_same [OF assms(1), where cid = cid and f = "\<lambda>rec. rec\<lparr>cr_State := st, cr_UpdatedAt := now\<rparr>"])
     (use assms(2) in \<open>auto simp: cs_SetState_def\<close>)

lemma length_wrapForwardLoop: "length (snd (wrapForwardLoop C hops cid sid i p)) = length hops"
  by (induction C hops cid sid i p rule: wrapForwardLoop.induct) (auto simp: Let_def split: sum.splits)

lemma length_WrapForward: "WrapForward C hops cid sid p = (r, hops') \<Longrightarrow> length hops' = length hops"
  using length_wrapForwardLoop [of C hops cid sid "length hops" p] by (auto simp: WrapForward_def split: if_splits)

lemma length_unwrapAll: "length (snd (unwrapAll C cid sid hops d)) = length hops"
  by (induction hops arbitrary: d) (auto split: prod.splits, metis snd_conv)

lemma cm_ok_onionFrame:
  assumes "cm_ok m" and "cm_activeStreams m cid \<noteq> None" and "getHopSessions m cid \<noteq> []"
    and "onionFrame C cid sid payload m = (r, m')"
  shows "cm_ok m'" and "cm_activeStreams m' = cm_activeStreams m"
proof -
  obtain w hops where w: "WrapForward C (getHopSessions m cid) cid sid (MarshalPaddedOnionPayload payload) = (w, hops)"
    by fastforce
  have m': "m' = m\<lparr>cm_hopSessions := (cm_hopSessions m)(cid \<mapsto> hops)\<rparr>" using assms(4) w by (auto simp: onionFrame_def)
  have "hops \<noteq> []" using length_WrapForward [OF w] assms(3) by auto
  then show "cm_ok m'" using assms(2) by (intro cm_ok_hops [OF assms(1)]) (auto simp: m')
  show "cm_activeStreams m' = cm_activeStreams m" by (simp add: m')
qed

lemma cm_ok_beginStart: "cm_ok m \<Longrightarrow> beginStart C wr direct payload cid sid m = (r, m') \<Longrightarrow> cm_ok m'"
proof (cases "cm_activeStreams m cid")
  case (Some s)
  assume ok: "cm_ok m" and b: "beginStart C wr direct payload cid sid m = (r, m')"
  let ?m1 = "m\<lparr>cm_pendingConnected := insert sid (cm_pendingConnected m)\<rparr>"
  have ok1: "cm_ok ?m1" using cm_ok_same [OF ok] by simp
  have "cm_ok m2" if "getHopSessions ?m1 cid \<noteq> []" "onionFrame C cid sid payload ?m1 = (q, m2)" for q m2
    using cm_ok_onionFrame(1) [OF ok1 _ that] Some by simp
  then show ?thesis using b Some ok1
    by (auto simp: beginStart_def Let_def split: if_splits option.splits prod.splits sum.splits)
qed (simp add: beginStart_def)

lemma cm_ok_SendData: "cm_ok m \<Longrightarrow> SendData C wr cid sid payload now rnd m = (r, m') \<Longrightarrow> cm_ok m'"
  by (auto simp: SendData_def Let_def cm_ok_addCircuitBytes dest: cm_ok_onionFrame(1) split: if_splits option.splits prod.splits sum.splits)

lemma cm_ok_pumpRound:
  assumes "cm_ok m" and "cm_activeStreams m cid = Some s"
    and "pumpRound C wr (isDirectExitCircuit m cid) s cid sid chunk failed now rnd m = (m', acts, go)"
  shows "cm_ok m'"
proof -
  have "getHopSessions m cid \<noteq> []" if "\<not> isDirectExitCircuit m cid"
  proof -
    obtain rec where "cm_store m cid = Some rec" using assms(1,2) by (fastforce simp: cm_ok_def)
    then show ?thesis using assms(1,2) that by (auto simp: cm_ok_def isDirectExitCircuit_def cs_Get_def)
  qed
  then show ?thesis
    using assms by (auto simp: pumpRound_def Let_def cm_ok_addCircuitBytes dest: cm_ok_onionFrame(1)
        split: if_splits option.splits prod.splits sum.splits)
qed

lemma cm_ok_deliver:
  "cm_ok m \<Longrightarrow> deliverConnected sid msg m = (m', acts) \<Longrightarrow> cm_ok m'"
  "cm_ok m \<Longrightarrow> deliverPong pong m = (m', acts) \<Longrightarrow> cm_ok m'"
  by (auto simp: deliverConnected_def deliverPong_def split: if_splits intro: cm_ok_same)

lemma cm_ok_writeLocal: "cm_ok m \<Longrightarrow> writeLocal lw cid sid b now rnd m = (m', acts) \<Longrightarrow> cm_ok m'"
  by (auto simp: writeLocal_def Let_def cm_ok_addCircuitBytes split: option.splits if_splits)

lemma cm_ok_readOnion:
  assumes "cm_ok m" and "cm_activeStreams m cid \<noteq> None" and "readOnion C lw cid frame now rnd m = (m', acts)"
  shows "cm_ok m'"
proof -
  have "cm_ok (m\<lparr>cm_hopSessions := (cm_hopSessions m)(cid \<mapsto> hops)\<rparr>)" if "hops \<noteq> []" for hops
    using assms(1,2) that by (auto intro: cm_ok_hops)
  then show ?thesis
    using assms(1,3) unfolding readOnion_def Let_def
    by (auto split: option.splits prod.splits if_splits dest: cm_ok_deliver cm_ok_writeLocal)
qed

lemma cm_ok_readFrame:
  "cm_ok m \<Longrightarrow> cm_activeStreams m cid \<noteq> None \<Longrightarrow> readFrame C lw cid frame now rnd m = (m', acts) \<Longrightarrow> cm_ok m'"
  by (auto simp: readFrame_def Let_def split: if_splits option.splits prod.splits
      dest: cm_ok_deliver cm_ok_writeLocal cm_ok_readOnion intro: cm_ok_same)

lemma cm_ok_CloseCircuit: "cm_ok m \<Longrightarrow> cid \<noteq> [] \<Longrightarrow> CloseCircuit cid m = (m', acts) \<Longrightarrow> cm_ok m'"
  by (auto simp: CloseCircuit_def intro: cm_ok_closeCircuitLocked)

lemma cm_ok_SetHealth:
  assumes "cm_ok m"
  shows "cm_ok (m\<lparr>cm_store := cs_SetHealth (cm_store m) cid alive lp lq f h rtt now\<rparr>)"
  by (rule cm_ok_modify_or_same [OF assms, where cid = cid and f = "\<lambda>rec. rec\<lparr>cr_Alive := alive, cr_LastPingAt := lp,
         cr_LastPongAt := lq, cr_ConsecutiveFailures := f, cr_HeartbeatSuccesses := h, cr_SmoothedRTT := rtt, cr_UpdatedAt := now\<rparr>"])
     (auto simp: cs_SetHealth_def)

lemma cm_ok_ExtendProtection:
  assumes "cm_ok m"
  shows "cm_ok (m\<lparr>cm_store := cs_ExtendProtection (cm_store m) cid until now\<rparr>)"
  by (rule cm_ok_modify_or_same [OF assms, where cid = cid and f = "\<lambda>rec. if cr_ProtectionUntil rec < until
        then rec\<lparr>cr_ProtectionUntil := until, cr_UpdatedAt := now\<rparr> else rec"])
     (auto simp: cs_ExtendProtection_def)

lemma cm_ok_heartbeatFailure:
  assumes "cm_ok m" and "cid \<noteq> []" and "handleHeartbeatFailure cid lastPing now rnd m = (m', acts)"
  shows "cm_ok m'"
proof (cases "cs_Get (cm_store m) cid")
  case (Some rec)
  let ?f = "cr_ConsecutiveFailures rec + 1"
  let ?alive = "\<not> hb_FailureThreshold (cm_heartbeat m) \<le> ?f"
  let ?m1 = "m\<lparr>cm_store := cs_SetHealth (cm_store m) cid ?alive lastPing (cr_LastPongAt rec) ?f
                     (cr_HeartbeatSuccesses rec) (cr_SmoothedRTT rec) now\<rparr>"
  have ok: "cm_ok ?m1" by (rule cm_ok_SetHealth [OF assms(1)])
  have "cm_ok (?m1\<lparr>cm_store := cs_SetState (cm_store ?m1) cid CircuitDegraded now\<rparr>)"
    by (rule cm_ok_SetState [OF ok]) (simp add: isReusableCircuitState_def)
  moreover have "cm_ok (poolMarkFailed cid (reportPathFailureForCircuit cid now ?m1))"
    by (intro cm_ok_poolMarkFailed cm_ok_report ok)
  ultimately show ?thesis
    using assms(2,3) Some by (auto simp: handleHeartbeatFailure_def Let_def split: if_splits dest: cm_ok_CloseCircuit)
qed (use assms in \<open>simp add: handleHeartbeatFailure_def\<close>)

lemma cm_ok_heartbeatSuccess:
  assumes "cm_ok m" and "cid \<noteq> []" and "handleHeartbeatSuccess cid lastPing pong now rnd m = (m', acts)"
  shows "cm_ok m'"
proof (cases "cs_Get (cm_store m) cid")
  case (Some rec)
  define st1 where "st1 lq rtt = cs_SetHealth (cm_store m) cid True lastPing lq 0 (cr_HeartbeatSuccesses rec + 1) rtt now" for lq rtt
  define st3 where "st3 lq rtt = cs_ExtendProtection (cs_SetState (st1 lq rtt) cid ''OPEN'' now) cid (now + circuitProtectionWindow) now" for lq rtt
  have "cm_ok (m\<lparr>cm_store := st1 lq rtt\<rparr>)" for lq rtt unfolding st1_def by (rule cm_ok_SetHealth [OF assms(1)])
  then have "cm_ok (m\<lparr>cm_store := cs_SetState (st1 lq rtt) cid CircuitOpen now\<rparr>)" for lq rtt
    using cm_ok_SetState [of "m\<lparr>cm_store := st1 lq rtt\<rparr>" CircuitOpen cid now] by (simp add: isReusableCircuitState_def)
  then have "cm_ok (m\<lparr>cm_store := st3 lq rtt\<rparr>)" for lq rtt
    using cm_ok_ExtendProtection [of "m\<lparr>cm_store := cs_SetState (st1 lq rtt) cid ''OPEN'' now\<rparr>"]
    by (fastforce simp: st3_def)
  then have ok: "cm_ok (m\<lparr>cm_store := st3 lq rtt\<rparr>)" for lq rtt .
  have closed: "cm_ok m'" if "CloseCircuit cid (poolMarkFailed cid (scheduleHeartbeat cid now rnd
      (m\<lparr>cm_store := st3 lq rtt, cm_pathSelector := sel\<rparr>))) = (m', acts)" for lq rtt sel
    by (rule cm_ok_CloseCircuit [OF cm_ok_poolMarkFailed assms(2) that]) (simp add: ok)
  show ?thesis
    using assms(2,3) Some ok
    by (auto simp: handleHeartbeatSuccess_def Let_def evictCircuitForHighRTT_def st1_def [symmetric] st3_def [symmetric]
        split: if_splits dest: closed)
qed (use assms in \<open>simp add: handleHeartbeatSuccess_def\<close>)

lemma cm_ok_readLoopEnd:
  assumes "cm_ok m" and "cid \<noteq> []" and "readLoopEnd order cid s err now m = (m', acts)"
  shows "cm_ok m'"
proof -
  have "cm_ok (closeCircuitLocked cid (reportPathFailureForCircuit cid now m))"
    using cm_ok_closeCircuitLocked [OF cm_ok_report [OF assms(1)] assms(2)] .
  then show ?thesis using assms(3) by (auto simp: readLoopEnd_def Let_def split: prod.splits intro: cm_ok_same)
qed

lemma cm_ok_probe:
  assumes "cm_ok m" and "cid \<noteq> []"
  shows "probeStart C wr cid pingID now rnd m = (m', acts) \<Longrightarrow> cm_ok m'"
    and "probeFinish cid pingID lastPing outcome now rnd m = (m', acts) \<Longrightarrow> cm_ok m'"
proof -
  have send: "cm_ok m1" if "sendHeartbeatStart C wr cid pingID now m = (r, m1)" for r m1
    using that assms(1) by (auto simp: sendHeartbeatStart_def split: option.splits if_splits prod.splits sum.splits
        dest: cm_ok_onionFrame(1) intro: cm_ok_same)
  show "probeStart C wr cid pingID now rnd m = (m', acts) \<Longrightarrow> cm_ok m'"
    using assms send by (auto simp: probeStart_def split: option.splits if_splits prod.splits sum.splits dest: cm_ok_heartbeatFailure)
  let ?m = "m\<lparr>cm_pendingPongs := cm_pendingPongs m - {pingID}\<rparr>"
  have m: "cm_ok ?m" using assms(1) by simp
  show "cm_ok m'" if "probeFinish cid pingID lastPing outcome now rnd m = (m', acts)"
  proof (cases outcome)
    case None
    with that have "handleHeartbeatFailure cid lastPing now rnd ?m = (m', acts)" by (simp add: probeFinish_def)
    then show ?thesis by (rule cm_ok_heartbeatFailure [OF m assms(2)])
  next
    case (Some pong)
    with that have "handleHeartbeatSuccess cid lastPing pong now rnd ?m = (m', acts)" by (simp add: probeFinish_def)
    then show ?thesis by (rule cm_ok_heartbeatSuccess [OF m assms(2)])
  qed
qed

lemma cm_ok_created:
  assumes "cm_ok m" and "fresh_id m (ce_uuid E)" and "pp_Hops plan \<noteq> []" and "createCircuitWithPlan C E plan m = (r, m', acts)"
  shows "cm_ok m'"
proof (cases r)
  case (Inl e)
  then obtain sel where "m' = m\<lparr>cm_pathSelector := sel\<rparr>" using createCircuitWithPlan_failed [OF assms(2,3)] assms(4) by blast
  then show ?thesis using cm_ok_same [OF assms(1)] by simp
next
  case (Inr cid)
  then show ?thesis using createCircuitWithPlan_opened assms(4) cm_ok_opened(1) [OF assms(1)] by blast
qed

lemma client_step_ok: "client_step C m m' \<Longrightarrow> cm_ok m \<Longrightarrow> cm_ok m'"
proof -
  assume step: "client_step C m m'" and ok: "cm_ok m"
  from step show "cm_ok m'"
  proof cases
    case build
    then show ?thesis using cm_ok_created [OF ok] by blast
  next
    case fail
    then show ?thesis using ok unfolding cm_MarkCircuitFailed_def by (blast intro: cm_ok_CloseCircuit cm_ok_poolMarkFailed)
  next
    case close
    then show ?thesis using cm_ok_CloseCircuit [OF ok] by blast
  next
    case begin_tcp
    then show ?thesis using cm_ok_beginStart [OF ok] unfolding beginTCPStart_def Let_def by blast
  next
    case begin_udp
    then show ?thesis using cm_ok_beginStart [OF ok] unfolding beginUDPStart_def Let_def by blast
  next
    case answered
    then show ?thesis using ok by (auto simp: beginFinish_def cm_ok_touch cm_ok_timeout split: option.splits if_splits)
  next
    case send
    then show ?thesis using cm_ok_SendData [OF ok] by blast
  next
    case pump
    then show ?thesis using cm_ok_pumpRound [OF ok] by blast
  next
    case read
    then show ?thesis using cm_ok_readFrame [OF ok] by blast
  next
    case transient
    then show ?thesis
      using ok by (auto simp: handleTransientReadError_def isReusableCircuitState_def intro!: cm_ok_SetState split: if_splits)
  next
    case broken
    then show ?thesis using cm_ok_readLoopEnd [OF ok] by blast
  next
    case probe
    then show ?thesis using cm_ok_probe(1) [OF ok] by blast
  next
    case probed
    then show ?thesis using cm_ok_probe(2) [OF ok] by blast
  qed (use cm_ok_same [OF ok] in simp_all)
qed

lemma client_reachable_ok: "client_reachable C m \<Longrightarrow> cm_ok m"
  by (induction rule: client_reachable.induct) (auto intro: cm_ok_New client_step_ok)

section \<open>Heartbeats that fail\<close>

text \<open>Failed probes one after the other, each with the time of its ping and the time it is given up.\<close>

fun missedPings :: "string \<Rightarrow> (int \<Rightarrow> int) \<Rightarrow> (time \<times> time) list \<Rightarrow> CircuitManager \<Rightarrow> CircuitManager \<times> client_action list" where
  "missedPings cid rnd [] m = (m, [])"
| "missedPings cid rnd ((lastPing, now) # ts) m =
     (let (m1, acts) = handleHeartbeatFailure cid lastPing now rnd m; (m2, rest) = missedPings cid rnd ts m1
      in (m2, acts @ rest))"

lemma heartbeatFailure_alive:
  assumes "cs_Get (cm_store m) cid = Some rec" and "cid \<noteq> []" and "cr_ConsecutiveFailures rec + 1 < hb_FailureThreshold (cm_heartbeat m)"
  shows "\<exists>m' rec'. handleHeartbeatFailure cid lastPing now rnd m = (m', []) \<and> cs_Get (cm_store m') cid = Some rec'
     \<and> cr_ConsecutiveFailures rec' = cr_ConsecutiveFailures rec + 1 \<and> cr_State rec' = CircuitDegraded \<and> cr_Alive rec'
     \<and> cm_activeStreams m' = cm_activeStreams m \<and> cm_heartbeat m' = cm_heartbeat m"
  using assms by (simp add: handleHeartbeatFailure_def Let_def scheduleHeartbeat_same cs_SetHealth_def cs_SetState_def cs_Get_modify)

lemma heartbeatFailure_dead:
  assumes "cs_Get (cm_store m) cid = Some rec" and "cid \<noteq> []" and "cr_ConsecutiveFailures rec + 1 \<ge> hb_FailureThreshold (cm_heartbeat m)"
  shows "\<exists>m'. handleHeartbeatFailure cid lastPing now rnd m = (m', case cm_activeStreams m cid of None \<Rightarrow> [] | Some s \<Rightarrow> [CCloseStream s])
     \<and> cs_Get (cm_store m') cid = None \<and> cm_activeStreams m' cid = None \<and> cm_hopSessions m' cid = None"
proof -
  have "cm_activeStreams (poolMarkFailed cid (reportPathFailureForCircuit cid now m1)) = cm_activeStreams m1" for m1
    by (auto simp: poolMarkFailed_def reportPathFailureForCircuit_def split: option.splits)
  then show ?thesis
    using assms by (simp add: handleHeartbeatFailure_def Let_def CloseCircuit_def closeCircuitLocked_def forgetLocked_def cs_Delete_def cs_Get_def)
qed


lemma demo_create_state:
  "cm_activeStreams (fst (snd (createCircuitWithPlan C demo_create_env demo_direct m))) ''c-1'' = Some ''stream-1''"
  "cm_heartbeat (fst (snd (createCircuitWithPlan C demo_create_env demo_direct m))) = cm_heartbeat m"
  by (simp_all add: createCircuitWithPlan_def buildCircuit_def demo_create_env_def Let_def circuitCreateTimeout_def second_def)

lemma default_failure_threshold: "hb_FailureThreshold (cm_heartbeat (SetHeartbeatConfig zeroHeartbeat m)) = 5"
  by (simp add: SetHeartbeatConfig_def zeroHeartbeat_def Let_def)


end
