(* ===== verification/Client_Exit.thy ===== *)
theory Client_Exit
  imports Circuit_Traffic Relay_Service
begin

text \<open>
  Client, relay and exit together: the frames one side writes are given to the handlers of
  the other. Direct circuits, the path the default configuration takes, are followed from the
  request to the data in both directions; for relayed circuits it is shown that client, relay
  and exit agree on their keys after the build.
\<close>

section \<open>Using an open circuit\<close>

lemma open_circuit:
  assumes "cm_ok m" and "IsCircuitOpen m cid"
  obtains s where "cm_activeStreams m cid = Some s" and "isDirectExitCircuit m cid \<or> getHopSessions m cid \<noteq> []"
  using assms by (auto simp: IsCircuitOpen_def cm_ok_def isDirectExitCircuit_def cs_Get_def split: option.splits)


section \<open>Direct circuits\<close>

definition answers :: "exit_action list \<Rightarrow> exit_action list" where
  "answers acts = filter (\<lambda>a. case a of XWrite _ \<Rightarrow> True | _ \<Rightarrow> False) acts"

lemma directBegin_answer:
  "\<exists>s' acts. directBegin X now s peerID frame b = (s', acts, True)
     \<and> answers acts = [XWrite (NewConnectedFrame (f_CircuitID frame) (f_StreamID frame) (beginVerdict X s peerID b))]"
  by (auto simp: directBegin_def beginVerdict_def writeConnectedFrame_def answers_def Let_def split: sum.splits)

text \<open>
  Opening a TCP stream over a direct circuit, with the exit's side included: the exit
  answers the frame of the client with exactly one frame; the read loop of the client hands
  it to the waiting request; and the request succeeds exactly when the exit's policy permits
  the target and the dial succeeds, and fails with the reason the exit gave otherwise.
\<close>

theorem direct_begin_end_to_end:
  assumes "sid \<in> cm_pendingConnected m" and "ascii host" and "int64_ok port"
    and "b = \<lparr>bt_TargetHost = host, bt_TargetPort = port\<rparr>" and "ascii (cn_Error (beginVerdict X s peerID b))"
  shows "\<exists>s' acts out. handleDirectFrame X now s peerID (NewBeginTCPFrame cid sid b) = (s', acts, True)
     \<and> answers acts = [XWrite out]
     \<and> snd (readFrame C lw cid out now' rnd m) = [CDeliverConnected sid (beginVerdict X s peerID b)]
     \<and> (fst (beginTCPFinish cid sid (Some (beginVerdict X s peerID b)) now' rnd m) = None \<longleftrightarrow>
          checkBeginPolicy (xe_LookupIP X) (xs_socks5Upstream s) (xs_Policy s) peerID b = ''''
          \<and> (\<exists>conn. dialTCPTarget X s host port = Inr conn))"
proof -
  let ?v = "beginVerdict X s peerID b" and ?f = "NewBeginTCPFrame cid sid b"
  have dec: "json_unmarshal dec_BeginTCP (f_PayloadJSON ?f) = Some b"
    using assms(2,3,4) by (simp add: NewBeginTCPFrame_def codec_BeginTCP.unmarshal_marshal)
  obtain s' acts where d: "directBegin X now s peerID ?f b = (s', acts, True)" "answers acts = [XWrite (NewConnectedFrame cid sid ?v)]"
    using directBegin_answer [of X now s peerID ?f b] by (auto simp: NewBeginTCPFrame_def)
  have "handleDirectFrame X now s peerID ?f = (s', acts, True)"
    using d dec by (simp add: handleDirectFrame_def) (simp add: NewBeginTCPFrame_def MsgType_defs)
  moreover have "snd (readFrame C lw cid (NewConnectedFrame cid sid ?v) now' rnd m) = [CDeliverConnected sid ?v]"
    using assms(1,5) by (simp add: readFrame_def NewConnectedFrame_def codec_Connected.unmarshal_marshal deliverConnected_def)
  moreover have "fst (beginTCPFinish cid sid (Some ?v) now' rnd m) = None \<longleftrightarrow> cn_OK ?v"
    by (simp add: beginTCPFinish_def beginFinish_def)
  moreover have "cn_OK ?v \<longleftrightarrow> checkBeginPolicy (xe_LookupIP X) (xs_socks5Upstream s) (xs_Policy s) peerID b = ''''
          \<and> (\<exists>conn. dialTCPTarget X s host port = Inr conn)"
    by (auto simp: beginVerdict_def assms(4) Let_def split: sum.splits)
  ultimately show ?thesis
    using d(2) by (intro exI [of _ s'] exI [of _ acts] exI [of _ "NewConnectedFrame cid sid ?v"]) simp
qed

text \<open>What the client's pump writes when the reads give \<open>chunks\<close> and then the end of the connection.\<close>

definition uploadFrames :: "string \<Rightarrow> string \<Rightarrow> bytes list \<Rightarrow> Frame list" where
  "uploadFrames cid sid chunks =
     map (NewDataFrame cid sid) (filter (\<lambda>c. c \<noteq> []) chunks) @ [NewEndFrame cid sid ''local_closed'']"

definition uploadReads :: "bytes list \<Rightarrow> (bytes \<times> bool) list" where
  "uploadReads chunks = map (\<lambda>c. (c, False)) chunks @ [([], True)]"

lemma dataPump_direct:
  assumes "\<And>f. wr st f = None"
  shows "snd (dataPump C wr True st cid sid (uploadReads chunks) now rnd m) = map (CWrite st) (uploadFrames cid sid chunks)"
  by (induction chunks arbitrary: m)
    (auto simp: uploadReads_def uploadFrames_def pumpRound_def Let_def assms split: prod.splits, metis snd_conv)

lemma handleDirect_data:
  assumes "conns s sid = Some (Some conn)" and "\<And>b. xe_connWrite X conn b"
  shows "handleDirectFrame X now s peerID (NewDataFrame cid sid c) = (s, [XConnWrite conn c], True)"
  using assms by (simp add: handleDirectFrame_def NewDataFrame_def codec_DataCell.unmarshal_marshal exitData_def getConn_def MsgType_defs)

lemma serveDirect_upload:
  assumes "conns s sid = Some (Some conn)" and "\<And>b. xe_connWrite X conn b" and "udpSessions s sid = None"
  shows "snd (serveDirectStream X now s peerID (uploadFrames cid sid chunks)) =
     map (XConnWrite conn) (filter (\<lambda>c. c \<noteq> []) chunks) @ [XCloseConn conn]"
proof -
  have "serveDirectStream X now s peerID (map (NewDataFrame cid sid) cs @ [NewEndFrame cid sid r])
      = (case serveDirectStream X now s peerID [NewEndFrame cid sid r] of (s', acts) \<Rightarrow> (s', map (XConnWrite conn) cs @ acts))" for cs r
    using assms(1,2) by (induction cs) (simp_all add: handleDirect_data split: prod.splits)
  moreover have "snd (serveDirectStream X now s peerID [NewEndFrame cid sid ''local_closed'']) = [XCloseConn conn]"
    using assms(1,3) by (simp add: handleDirectFrame_def NewEndFrame_def MsgType_defs exitEnd_def closeConn_def closeUDPSession_def
        getConn_def getUDPSession_def Let_def)
  ultimately show ?thesis by (auto simp: uploadFrames_def split: prod.splits)
qed

lemma cm_streams_addCircuitBytes [simp]: "cm_streams (addCircuitBytes cid a b now rnd m) = cm_streams m"
  by (simp add: addCircuitBytes_def scheduleHeartbeat_same)

lemma readFrame_data:
  assumes "sm_Get (cm_streams m) sid = Some st"
  shows "\<exists>m'. readFrame C lw cid (NewDataFrame cid' sid c) now rnd m = (m', [CLocalWrite (sm_Conn st) c]) \<and> cm_streams m' = cm_streams m"
  using assms by (simp add: readFrame_def NewDataFrame_def codec_DataCell.unmarshal_marshal writeLocal_def Let_def MsgType_defs)

lemma readLoop_download:
  assumes "sm_Get (cm_streams m) sid = Some st"
  shows "\<exists>m'. readLoop C lw tr order cid s (map (\<lambda>c. Inr (NewDataFrame cid' sid c)) chunks) now rnd m
     = (m', map (CLocalWrite (sm_Conn st)) chunks, False) \<and> cm_streams m' = cm_streams m"
  using assms
proof (induction chunks arbitrary: m)
  case (Cons c cs)
  obtain m1 where 1: "readFrame C lw cid (NewDataFrame cid' sid c) now rnd m = (m1, [CLocalWrite (sm_Conn st) c])"
    "cm_streams m1 = cm_streams m" using readFrame_data [OF Cons.prems] by blast
  then show ?case using Cons.IH [of m1] Cons.prems by auto
qed simp

text \<open>
  C16. A TCP stream over a direct circuit carries its bytes unchanged in both directions.
  Whatever the local connection gives the client in whatever chunks, the exit writes to the
  target, chunk by chunk and in order, and closes the target's connection when the local one
  ends; and every chunk the exit reads from the target is written to the local connection of
  that stream, in order.
\<close>

theorem direct_stream_delivers:
  assumes "cm_activeStreams m cid = Some st" and "isDirectExitCircuit m cid" and "\<And>f. wr st f = None"
    and "conns s sid = Some (Some conn)" and "udpSessions s sid = None" and "\<And>b. xe_connWrite X conn b"
    and "sm_Get (cm_streams m) sid = Some lst"
  shows "(\<exists>frames. snd (StartDataPump C wr cid sid (uploadReads chunks) now rnd m) = map (CWrite st) frames
       \<and> snd (serveDirectStream X now' s peerID frames) =
           map (XConnWrite conn) (filter (\<lambda>c. c \<noteq> []) chunks) @ [XCloseConn conn])
     \<and> (\<exists>m'. readLoop C lw tr order cid st (map (\<lambda>c. Inr (snd (pumpChunkPlain s cid sid c))) back) now rnd m =
           (m', map (CLocalWrite (sm_Conn lst)) back, False))"
proof
  have "snd (StartDataPump C wr cid sid (uploadReads chunks) now rnd m) = map (CWrite st) (uploadFrames cid sid chunks)"
    using assms(1-3) dataPump_direct by (simp add: StartDataPump_def)
  then show "\<exists>frames. snd (StartDataPump C wr cid sid (uploadReads chunks) now rnd m) = map (CWrite st) frames
       \<and> snd (serveDirectStream X now' s peerID frames) =
           map (XConnWrite conn) (filter (\<lambda>c. c \<noteq> []) chunks) @ [XCloseConn conn]"
    using serveDirect_upload [OF assms(4,6,5)] by blast
  have "snd (pumpChunkPlain s cid sid c) = NewDataFrame cid sid c" for c by (simp add: pumpChunkPlain_def Let_def)
  then show "\<exists>m'. readLoop C lw tr order cid st (map (\<lambda>c. Inr (snd (pumpChunkPlain s cid sid c))) back) now rnd m =
           (m', map (CLocalWrite (sm_Conn lst)) back, False)"
    using readLoop_download [OF assms(7)] by simp blast
qed

section \<open>Relayed circuits: the keys agree\<close>

lemma session_pair:
  assumes "GenerateEphemeralKeyPair C r1 = Inr (a, pa)" and "GenerateEphemeralKeyPair C r2 = Inr (b, pb)"
    and "dh_agree C a b" and "hkdf_sized C"
  shows "length pa = X25519KeySize" and "length pb = X25519KeySize"
    and "\<exists>h h'. NewHopSessionFromKeyExchange C p role a pb t = Inr h \<and> NewHopSessionFromKeyExchange C p' role' b pa t' = Inr h'
      \<and> keyed h \<and> keyed h' \<and> fwd_sync h h' \<and> bwd_sync h h' \<and> hs_PeerID h = p"
proof -
  have priv: "length a = X25519KeySize" "x25519 C a (x25519_base C) = Some pa"
    "length b = X25519KeySize" "x25519 C b (x25519_base C) = Some pb"
    using GenerateEphemeralKeyPair_priv assms(1,2) by blast+
  then obtain s where s: "x25519 C a pb = Some s" "x25519 C b pa = Some s" and len: "length pa = 32" "length pb = 32"
    using assms(3) by (auto simp: dh_agree_def)
  then show "length pa = X25519KeySize" "length pb = X25519KeySize" by (simp_all add: X25519KeySize_def)
  then show "\<exists>h h'. NewHopSessionFromKeyExchange C p role a pb t = Inr h \<and> NewHopSessionFromKeyExchange C p' role' b pa t' = Inr h'
      \<and> keyed h \<and> keyed h' \<and> fwd_sync h h' \<and> bwd_sync h h' \<and> hs_PeerID h = p"
    using priv s assms(4)
    by (simp add: NewHopSessionFromKeyExchange_def X25519SharedSecret_def DeriveHopKeys_def keyed_def fwd_sync_def bwd_sync_def hkdf_sized_def)
qed

text \<open>
  The other side of a build: the relay and the exit with their states, their random bytes,
  the relay's network and the names under which they keep the client's stream.
\<close>

record relayed_net =
  rn_relay :: RelayService
  rn_relayEnv :: relay_env
  rn_relayRnd :: bytes
  rn_relayNow :: int
  rn_stream :: string
  rn_exit :: ExitService
  rn_exitRnd :: bytes
  rn_exitKey :: string

text \<open>The relay answers the first frame.\<close>

definition netAccept :: "crypto \<Rightarrow> relayed_net \<Rightarrow> Frame \<Rightarrow> (RelayService \<times> Frame) option" where
  "netAccept C N init =
     (case relayAccept C (rn_relayRnd N) (rn_relayNow N) (rn_relay N) (rn_stream N) init of
        Some (R1, [WriteClient f]) \<Rightarrow> Some (R1, f) | _ \<Rightarrow> None)"

text \<open>The relay forwards the second frame, the exit answers, and the relay's pump carries the answer back.\<close>

definition netExtend :: "crypto \<Rightarrow> relayed_net \<Rightarrow> Frame \<Rightarrow> Frame \<Rightarrow> (RelayService \<times> ExitService \<times> Frame) option" where
  "netExtend C N init ext =
     (case netAccept C N init of
        None \<Rightarrow> None
      | Some (R1, _) \<Rightarrow>
          (case relayForward C (rn_relayEnv N) R1 (rn_stream N) ext of
             Inl _ \<Rightarrow> None
           | Inr (R2, acts) \<Rightarrow>
               (case filter (\<lambda>a. case a of WriteNext _ _ \<Rightarrow> True | _ \<Rightarrow> False) acts of
                  [WriteNext _ f2] \<Rightarrow>
                    (case exitAccept C (rn_exitRnd N) (rn_exit N) (rn_exitKey N) f2 of
                       Some (S1, [XWrite f3]) \<Rightarrow>
                         (case relayBackward C R2 (rn_stream N) f3 of
                            (R3, [WriteClient f4], True) \<Rightarrow> Some (R3, S1, f4) | _ \<Rightarrow> None)
                     | _ \<Rightarrow> None)
                | _ \<Rightarrow> None)))"

definition netRead :: "crypto \<Rightarrow> relayed_net \<Rightarrow> Frame list \<Rightarrow> Frame result" where
  "netRead C N sent =
     (case sent of
        [init] \<Rightarrow> (case netAccept C N init of None \<Rightarrow> Inl EOF | Some (_, f) \<Rightarrow> Inr f)
      | [init, ext] \<Rightarrow> (case netExtend C N init ext of None \<Rightarrow> Inl EOF | Some (_, _, f) \<Rightarrow> Inr f)
      | _ \<Rightarrow> Inl EOF)"

text \<open>A network that plays its part: the relay can reach the exit and keeps no stream for the circuit yet.\<close>

definition net_ready :: "relayed_net \<Rightarrow> string \<Rightarrow> string \<Rightarrow> bool" where
  "net_ready N cid exitPeer \<longleftrightarrow> nextHopStreams (rn_relay N) cid = None \<and>
     (\<exists>np nx. re_Decode (rn_relayEnv N) exitPeer = Some np \<and> re_NewStream (rn_relayEnv N) np = Some nx
        \<and> re_writeOk (rn_relayEnv N) nx)"

lemma netAccept_ok:
  assumes "GenerateEphemeralKeyPair C (rn_relayRnd N) = Inr (rp, rpub)" and "length pub0 = X25519KeySize"
    and "NewHopSessionFromKeyExchange C (cid @ ''-client'') HopRoleRelay rp pub0 (rn_relayNow N) = Inr r"
  shows "netAccept C N (NewKeyExchangeInitFrame cid pub0) =
     Some ((rn_relay N)\<lparr>sessionsByStream := (sessionsByStream (rn_relay N))(rn_stream N \<mapsto> r)\<rparr>, NewKeyExchangeRespFrame cid rpub)"
  using assms by (simp add: netAccept_def relayAccept_def NewKeyExchangeInitFrame_def codec_KeyExchangeInit.unmarshal_marshal)

lemma extend_envelope_roundtrip:
  "ascii exitPeer \<Longrightarrow> json_unmarshal dec_OnionEnvelope (json_marshal enc_OnionEnvelope (extendEnvelope exitPeer pub))
     = Some (extendEnvelope exitPeer pub)"
  by (rule codec_OnionEnvelope.unmarshal_marshal) (simp add: extendEnvelope_def InnerPayloadTypeKeyExchange_def)

lemma relayForward_extend:
  assumes "aead_correct C" "keyed h" "fwd_sync h r" and "sessionsByStream R sid = Some r" and "net_ready N cid exitPeer"
    and "nextHopStreams R cid = None" and "ascii exitPeer" "8 \<le> length exitPeer" and "length pub = X25519KeySize"
  shows "\<exists>R2 nx. relayForward C (rn_relayEnv N) R sid (extendFrame cid (sealFwd C h cid ''extend'' 0
      (json_marshal enc_OnionEnvelope (extendEnvelope exitPeer pub)))) =
        Inr (R2, [StartPump cid nx, WriteNext nx (NewKeyExchangeInitFrame cid pub)])
      \<and> sessionsByStream R2 sid = Some (bumpFwd r)"
proof -
  obtain np nx where n: "re_Decode (rn_relayEnv N) exitPeer = Some np" "re_NewStream (rn_relayEnv N) np = Some nx"
    "re_writeOk (rn_relayEnv N) nx" using assms(5) by (auto simp: net_ready_def)
  have un: "UnwrapForward C r cid ''extend'' (sealFwd C h cid ''extend'' 0
      (json_marshal enc_OnionEnvelope (extendEnvelope exitPeer pub))) =
      (Inr (oe_Header (extendEnvelope exitPeer pub), pub), bumpFwd r)"
    using assms(1-3) extend_envelope_roundtrip [OF assms(7)]
    by (simp add: UnwrapForward_def Let_def sealFwd_def fwd_sync_def keyed_def) (simp add: extendEnvelope_def)
  have s: "sessionsByStream (rs_recordTraffic s a b) = sessionsByStream s" for s a b by (simp add: rs_recordTraffic_def)
  show ?thesis
    using assms(4,6,8,9) n un
    by (simp add: relayForward_def extendFrame_def onion_cell_roundtrip Let_def go_slice_Inr sendNext_def forwardFrame_def s)
       (simp add: extendEnvelope_def go_slice_Inr s sendNext_def forwardFrame_def)
qed

lemma netExtend_ok:
  assumes "aead_correct C" "keyed h" "keyed r" "fwd_sync h r" and "net_ready N cid exitPeer"
    and "ascii exitPeer" "8 \<le> length exitPeer" and "length pub = X25519KeySize"
    and "GenerateEphemeralKeyPair C (rn_relayRnd N) = Inr (rp, rpub)" and "length pub0 = X25519KeySize"
    and "NewHopSessionFromKeyExchange C (cid @ ''-client'') HopRoleRelay rp pub0 (rn_relayNow N) = Inr r"
    and "GenerateEphemeralKeyPair C (rn_exitRnd N) = Inr (xp, xpub)" and "length xpub = X25519KeySize"
    and "NewHopSessionFromKeyExchange C (rn_exitKey N) HopRoleExit xp pub 0 = Inr x"
  shows "\<exists>R3 S1. netExtend C N (NewKeyExchangeInitFrame cid pub0) (extendFrame cid (sealFwd C h cid ''extend'' 0
      (json_marshal enc_OnionEnvelope (extendEnvelope exitPeer pub)))) =
        Some (R3, S1, \<lparr>f_Type = MsgTypeOnionData, f_CircuitID = cid, f_StreamID = '''',
           f_PayloadJSON = json_marshal enc_OnionCell \<lparr>oc_HopIndex = 0, oc_Ciphertext =
             aead_seal C (hs_BackwardKey r) (BuildAEADNonce ''bwd'' (hs_BackwardCounter r)) xpub (BuildAAD cid '''' ''bwd'' 0)\<rparr>\<rparr>)
      \<and> sessionsByStream R3 (rn_stream N) = Some (bumpBwd (bumpFwd r)) \<and> sessions S1 (rn_exitKey N) = Some x"
proof -
  let ?R1 = "(rn_relay N)\<lparr>sessionsByStream := (sessionsByStream (rn_relay N))(rn_stream N \<mapsto> r)\<rparr>"
  have nh: "nextHopStreams ?R1 cid = None" using assms(5) by (simp add: net_ready_def)
  obtain R2 nx where f: "relayForward C (rn_relayEnv N) ?R1 (rn_stream N) (extendFrame cid (sealFwd C h cid ''extend'' 0
      (json_marshal enc_OnionEnvelope (extendEnvelope exitPeer pub)))) =
        Inr (R2, [StartPump cid nx, WriteNext nx (NewKeyExchangeInitFrame cid pub)])"
    and r2: "sessionsByStream R2 (rn_stream N) = Some (bumpFwd r)"
    using relayForward_extend [OF assms(1,2,4) _ assms(5) nh assms(6,7,8), of "rn_stream N"] by auto
  have x: "exitAccept C (rn_exitRnd N) (rn_exit N) (rn_exitKey N) (NewKeyExchangeInitFrame cid pub) =
      Some ((rn_exit N)\<lparr>sessions := (sessions (rn_exit N))(rn_exitKey N \<mapsto> x)\<rparr>, [XWrite (NewKeyExchangeRespFrame cid xpub)])"
    using assms(8,12,14) by (simp add: exitAccept_def NewKeyExchangeInitFrame_def codec_KeyExchangeInit.unmarshal_marshal)
  have "xpub \<noteq> []" using assms(13) by (auto simp: X25519KeySize_def)
  moreover have "backwardPlain (NewKeyExchangeRespFrame cid xpub) = xpub"
    using assms(13) by (simp add: backwardPlain_def NewKeyExchangeRespFrame_def codec_KeyExchangeResp.unmarshal_marshal)
  moreover have "sessionsByStream (rs_recordTraffic s a b) = sessionsByStream s" for s a b by (simp add: rs_recordTraffic_def)
  moreover have "length (hs_BackwardKey (bumpFwd r)) = AEADKeySize" using assms(3) by (simp add: keyed_def)
  ultimately have "\<exists>R3. relayBackward C R2 (rn_stream N) (NewKeyExchangeRespFrame cid xpub) = (R3,
      [WriteClient \<lparr>f_Type = MsgTypeOnionData, f_CircuitID = cid, f_StreamID = '''',
           f_PayloadJSON = json_marshal enc_OnionCell \<lparr>oc_HopIndex = 0, oc_Ciphertext =
             aead_seal C (hs_BackwardKey r) (BuildAEADNonce ''bwd'' (hs_BackwardCounter r)) xpub (BuildAAD cid '''' ''bwd'' 0)\<rparr>\<rparr>], True)
      \<and> sessionsByStream R3 (rn_stream N) = Some (bumpBwd (bumpFwd r))"
    using r2 by (simp add: relayBackward_def Let_def AEADSeal_def) (simp add: NewKeyExchangeRespFrame_def)
  then show ?thesis
    using netAccept_ok [OF assms(9,10,11)] f x by (auto simp: netExtend_def)
qed

lemma sync_bump:
  "fwd_sync h r \<Longrightarrow> fwd_sync (bumpFwd h) (bumpFwd r)" "fwd_sync h r \<Longrightarrow> fwd_sync (bumpBwd h) (bumpBwd r)"
  "bwd_sync h r \<Longrightarrow> bwd_sync (bumpFwd h) (bumpFwd r)" "bwd_sync h r \<Longrightarrow> bwd_sync (bumpBwd h) (bumpBwd r)"
  by (simp_all add: fwd_sync_def bwd_sync_def bumpFwd_def bumpBwd_def)

text \<open>The client's half of the extension, given what the network answers.\<close>

lemma extendToExit_ok:
  assumes "aead_correct C" "keyed h" "bwd_sync h r" and "pp_Hops plan = [a, b]" "pp_ExitHopIndex plan = 1"
    and "GenerateEphemeralKeyPair C (ce_rnd1 E) = Inr (priv1, pub1)" and "\<And>sent. ce_write E sent = None"
    and "ce_read E (sent @ [extendFrame cid (sealFwd C h cid ''extend'' 0 (json_marshal enc_OnionEnvelope (extendEnvelope (ph_PeerID b) pub1)))])
      = Inr \<lparr>f_Type = MsgTypeOnionData, f_CircuitID = cid, f_StreamID = '''',
           f_PayloadJSON = json_marshal enc_OnionCell \<lparr>oc_HopIndex = 0, oc_Ciphertext =
             aead_seal C (hs_BackwardKey r) (BuildAEADNonce ''bwd'' (hs_BackwardCounter r)) xpub (BuildAAD cid '''' ''bwd'' 0)\<rparr>\<rparr>"
    and "length xpub = X25519KeySize"
    and "NewHopSessionFromKeyExchange C (ph_PeerID b) HopRoleExit priv1 xpub (ce_now E 4 div second) = Inr h2"
  shows "extendToExit C E cid plan sent h = Inr (bumpBwd (bumpFwd h), h2)"
proof -
  have w: "WrapForward C [h] cid ''extend'' p = (Inr (sealFwd C h cid ''extend'' 0 p), [bumpFwd h])" for p
    using WrapForward_onion [of "[h]" C cid "''extend''" p] assms(2) by simp
  have u: "UnwrapBackward C (bumpFwd h) cid '''' (aead_seal C (hs_BackwardKey r) (BuildAEADNonce ''bwd'' (hs_BackwardCounter r))
      xpub (BuildAAD cid '''' ''bwd'' 0)) = (Inr xpub, bumpBwd (bumpFwd h))"
    using assms(1-3) by (simp add: UnwrapBackward_def Let_def bwd_sync_def keyed_def)
  show ?thesis
    using assms(4-10) u by (simp add: extendToExit_def w onion_cell_roundtrip Let_def)
qed

text \<open>
  C11. Building a circuit over a relay, with the relay's and the exit's side included: if the
  relay can reach the exit, the build succeeds, and afterwards client and relay, and client
  and exit, hold the same keys and counters for both directions.
\<close>

theorem relayed_build_agrees:
  assumes "aead_correct C" "hkdf_sized C" and "pp_Hops plan = [a, b]" "pp_ExitHopIndex plan = 1"
    and "ce_Decode E (ph_PeerID a) = Inr peerID" and "ce_now E 2 < ce_now E 0 + circuitCreateTimeout"
    and "ce_NewStream E peerID = Inr stream" and "\<And>sent. ce_write E sent = None" and "ce_read E = netRead C N"
    and k0: "GenerateEphemeralKeyPair C (ce_rnd0 E) = Inr (priv0, pub0)" and k1: "GenerateEphemeralKeyPair C (ce_rnd1 E) = Inr (priv1, pub1)"
    and kr: "GenerateEphemeralKeyPair C (rn_relayRnd N) = Inr (rp, rpub)" and kx: "GenerateEphemeralKeyPair C (rn_exitRnd N) = Inr (xp, xpub)"
    and "dh_agree C priv0 rp" "dh_agree C priv1 xp"
    and "net_ready N (ce_uuid E) (ph_PeerID b)" and "ascii (ph_PeerID b)" "8 \<le> length (ph_PeerID b)"
  shows "\<exists>m' acts h1 h2 init ext R S f r x. createCircuitWithPlan C E plan m = (Inr (ce_uuid E), m', acts)
     \<and> getHopSessions m' (ce_uuid E) = [h1, h2] \<and> netExtend C N init ext = Some (R, S, f)
     \<and> sessionsByStream R (rn_stream N) = Some r \<and> fwd_sync h1 r \<and> bwd_sync h1 r
     \<and> sessions S (rn_exitKey N) = Some x \<and> fwd_sync h2 x \<and> bwd_sync h2 x"
proof -
  let ?cid = "ce_uuid E" let ?init = "NewKeyExchangeInitFrame ?cid pub0"
  obtain h r where h: "NewHopSessionFromKeyExchange C (ph_PeerID a) HopRoleRelay priv0 rpub (ce_now E 3 div second) = Inr h"
    "NewHopSessionFromKeyExchange C (?cid @ ''-client'') HopRoleRelay rp pub0 (rn_relayNow N) = Inr r"
    "keyed h" "keyed r" "fwd_sync h r" "bwd_sync h r"
    using session_pair(3) [OF k0 kr assms(14,2)] by blast
  obtain h2 x where h2: "NewHopSessionFromKeyExchange C (ph_PeerID b) HopRoleExit priv1 xpub (ce_now E 4 div second) = Inr h2"
    "NewHopSessionFromKeyExchange C (rn_exitKey N) HopRoleExit xp pub1 0 = Inr x" "fwd_sync h2 x" "bwd_sync h2 x"
    using session_pair(3) [OF k1 kx assms(15,2)] by blast
  note len0 = session_pair(1,2) [OF k0 kr assms(14,2)] and len1 = session_pair(1,2) [OF k1 kx assms(15,2)]
  let ?ext = "extendFrame ?cid (sealFwd C h ?cid ''extend'' 0 (json_marshal enc_OnionEnvelope (extendEnvelope (ph_PeerID b) pub1)))"
  obtain R S f where n: "netExtend C N ?init ?ext = Some (R, S, f)"
    and f: "f = \<lparr>f_Type = MsgTypeOnionData, f_CircuitID = ?cid, f_StreamID = '''',
           f_PayloadJSON = json_marshal enc_OnionCell \<lparr>oc_HopIndex = 0, oc_Ciphertext =
             aead_seal C (hs_BackwardKey r) (BuildAEADNonce ''bwd'' (hs_BackwardCounter r)) xpub (BuildAAD ?cid '''' ''bwd'' 0)\<rparr>\<rparr>"
    and ends: "sessionsByStream R (rn_stream N) = Some (bumpBwd (bumpFwd r))" "sessions S (rn_exitKey N) = Some x"
    using netExtend_ok [OF assms(1) h(3,4,5) assms(16,17,18) len1(1) kr len0(1) h(2) kx len1(2) h2(2)] by blast
  have first: "firstKeyExchange C E ?cid (ph_PeerID a) priv0 pub0 = Inr h"
    using netAccept_ok [OF kr len0(1) h(2)] len0(2) h(1)
    by (simp add: firstKeyExchange_def assms(8,9) netRead_def NewKeyExchangeRespFrame_def codec_KeyExchangeResp.unmarshal_marshal)
  have "ce_read E ([?init] @ [?ext]) = Inr f" using n by (simp add: assms(9) netRead_def)
  then have "extendToExit C E ?cid plan [?init] h = Inr (bumpBwd (bumpFwd h), h2)"
    using f by (intro extendToExit_ok [OF assms(1) h(3,6) assms(3,4) k1 assms(8) _ len1(2) h2(1)]) simp
  then have hops: "buildHops C E ?cid plan priv0 pub0 = Inr [bumpBwd (bumpFwd h), h2]"
    using first by (simp add: buildHops_def assms(3))
  then have "\<exists>m' acts. createCircuitWithPlan C E plan m = (Inr ?cid, m', acts) \<and> getHopSessions m' ?cid = [bumpBwd (bumpFwd h), h2]"
    using assms(3,5,6,7) k0
    by (simp add: createCircuitWithPlan_def buildCircuit_def Let_def isDirectExitPlan_def getHopSessions_def)
  moreover have "fwd_sync (bumpBwd (bumpFwd h)) (bumpBwd (bumpFwd r))" "bwd_sync (bumpBwd (bumpFwd h)) (bumpBwd (bumpFwd r))"
    using h(5,6) by (simp_all add: sync_bump)
  ultimately show ?thesis using n ends h2(3,4) by blast
qed

section \<open>Concrete runs\<close>

lemma demo_cm_reachable: "client_reachable C demo_cm"
  unfolding demo_cm_def SetPool_def by (rule client_reachable.step [OF client_reachable.start client_step.pool])


theorem direct_begin_end_to_end_witness:
  "\<exists>s' acts out. handleDirectFrame demo_exit_env 0 demo_exit_service ''p'' (NewBeginTCPFrame ''c'' ''s'' (demo_begin ''1.1.1.1'')) = (s', acts, True)
     \<and> answers acts = [XWrite out]
     \<and> snd (readFrame demo_crypto (\<lambda>_ b. length b) ''c'' out 0 (\<lambda>_. 0) (demo_cm\<lparr>cm_pendingConnected := {''s''}\<rparr>))
         = [CDeliverConnected ''s'' \<lparr>cn_OK = True, cn_Error = ''''\<rparr>]"
  using direct_begin_end_to_end [of "''s''" "demo_cm\<lparr>cm_pendingConnected := {''s''}\<rparr>" "''1.1.1.1''" 443 "demo_begin ''1.1.1.1''"
      demo_exit_env demo_exit_service "''p''" 0 "''c''" demo_crypto "\<lambda>_ b. length b" 0 "\<lambda>_. 0"]
  unfolding demo_begin_verdict by (auto simp: demo_begin_def int64_ok_def)

definition demo_streaming :: CircuitManager where
  "demo_streaming = demo_cm\<lparr>cm_activeStreams := [''c'' \<mapsto> ''st''], cm_store := [''c'' \<mapsto> newCircuitRecord ''c'' demo_direct 0],
     cm_streams := snd (RegisterStream ''s'' ''c'' 7 NewStreamManager)\<rparr>"

theorem direct_stream_delivers_witness:
  "\<exists>frames. snd (StartDataPump demo_crypto (\<lambda>_ _. None) ''c'' ''s'' (uploadReads [[1, 2], [], [3]]) 0 (\<lambda>_. 0) demo_streaming)
       = map (CWrite ''st'') frames
     \<and> snd (serveDirectStream demo_exit_env 0 (storeConn demo_exit_service ''s'' (Some ''conn-1'')) ''p'' frames) =
       [XConnWrite ''conn-1'' [1, 2], XConnWrite ''conn-1'' [3], XCloseConn ''conn-1'']"
  using direct_stream_delivers [of demo_streaming "''c''" "''st''" "\<lambda>_ _. None" "storeConn demo_exit_service ''s'' (Some ''conn-1'')" "''s''"
      "''conn-1''" demo_exit_env "fst (RegisterStream ''s'' ''c'' 7 NewStreamManager)" demo_crypto "[[1, 2], [], [3]]" 0 "\<lambda>_. 0" 0 "''p''"]
  by (auto simp: demo_streaming_def isDirectExitCircuit_def cs_Get_def storeConn_def demo_exit_service_def NewExitService_def
      demo_exit_env_def RegisterStream_def putStream_def sm_Get_def Let_def)

definition demo_net :: relayed_net where
  "demo_net = \<lparr>rn_relay = NewRelayService None, rn_relayEnv = \<lparr>re_Decode = Some, re_NewStream = Some, re_writeOk = (\<lambda>_. True)\<rparr>,
     rn_relayRnd = replicate 32 3, rn_relayNow = 0, rn_stream = ''in-1'', rn_exit = demo_exit_service,
     rn_exitRnd = replicate 32 4, rn_exitKey = ''in-2''\<rparr>"

definition demo_relayed_env :: create_env where
  "demo_relayed_env = demo_create_env\<lparr>ce_rnd0 := replicate 32 1, ce_rnd1 := replicate 32 2, ce_read := netRead demo_crypto demo_net\<rparr>"

theorem relayed_build_agrees_witness:
  "\<exists>m' acts h1 h2. createCircuitWithPlan demo_crypto demo_relayed_env demo_relayed demo_cm = (Inr ''c-1'', m', acts)
     \<and> getHopSessions m' ''c-1'' = [h1, h2]
     \<and> (\<exists>init ext R S f r x. netExtend demo_crypto demo_net init ext = Some (R, S, f) \<and> sessionsByStream R ''in-1'' = Some r \<and> fwd_sync h1 r
          \<and> sessions S ''in-2'' = Some x \<and> fwd_sync h2 x)"
proof -
  obtain p0 q0 p1 q1 p2 q2 p3 q3 where k: "GenerateEphemeralKeyPair demo_crypto (ce_rnd0 demo_relayed_env) = Inr (p0, q0)"
      "GenerateEphemeralKeyPair demo_crypto (ce_rnd1 demo_relayed_env) = Inr (p1, q1)"
      "GenerateEphemeralKeyPair demo_crypto (rn_relayRnd demo_net) = Inr (p2, q2)"
      "GenerateEphemeralKeyPair demo_crypto (rn_exitRnd demo_net) = Inr (p3, q3)"
    and l: "length p0 = 32" "length p1 = 32" "length p2 = 32" "length p3 = 32"
    using demo_keys [of 1] demo_keys [of 2] demo_keys [of 3] demo_keys [of 4]
    by (simp add: demo_relayed_env_def demo_net_def) blast
  have plan: "pp_Hops demo_relayed = [\<lparr>ph_PeerID = ''peer-relay-1'', ph_IsRelay = True, ph_IsExit = False\<rparr>,
      \<lparr>ph_PeerID = ''peer-exit-01'', ph_IsRelay = False, ph_IsExit = True\<rparr>]" "pp_ExitHopIndex demo_relayed = 1"
    by (simp_all add: demo_relayed_def relayExit_def demo_exit_def)
  have "\<exists>m' acts h1 h2 init ext R S f r x. createCircuitWithPlan demo_crypto demo_relayed_env demo_relayed demo_cm = (Inr (ce_uuid demo_relayed_env), m', acts)
     \<and> getHopSessions m' (ce_uuid demo_relayed_env) = [h1, h2] \<and> netExtend demo_crypto demo_net init ext = Some (R, S, f)
     \<and> sessionsByStream R (rn_stream demo_net) = Some r \<and> fwd_sync h1 r \<and> bwd_sync h1 r
     \<and> sessions S (rn_exitKey demo_net) = Some x \<and> fwd_sync h2 x \<and> bwd_sync h2 x"
    by (rule relayed_build_agrees [OF demo_aead_correct demo_hkdf_sized plan _ _ _ _ _ k demo_dh_agree [OF l(1,3)] demo_dh_agree [OF l(2,4)]])
       (simp_all add: demo_relayed_env_def demo_create_env_def demo_net_def net_ready_def NewRelayService_def circuitCreateTimeout_def second_def)
  moreover have "ce_uuid demo_relayed_env = ''c-1''" "rn_stream demo_net = ''in-1''" "rn_exitKey demo_net = ''in-2''"
    by (simp_all add: demo_relayed_env_def demo_create_env_def demo_net_def)
  ultimately show ?thesis by metis
qed

end
