(* ===== verification/Socks5_Server.thy ===== *)
theory Socks5_Server
  imports Client_Exit Socks5
begin

text \<open>
  The SOCKS5 server of the client, \<open>internal/client/socks5.go\<close>: how a connection is bridged to
  a circuit. A CONNECT request takes a circuit from the pool, opens a stream on it and, when the
  exit refuses or does not answer, tries again on another circuit; a raw tunnel tries one path
  after the other; a UDP association opens one stream per target. While a request waits, the
  other goroutines of the client run: what they do to the manager is an argument.
\<close>

section \<open>State\<close>

text \<open>The server's own settings; circuit manager, selector and stream manager are in \<open>CircuitManager\<close>.\<close>

record Socks5Server =
  ss_addr :: string
  ss_traffic :: "Recorder option"
  ss_allowUDPAssociate :: bool
  ss_tunnelToExit :: bool
  ss_exitUpstream :: string

definition NewSocks5Server :: "string \<Rightarrow> Recorder option \<Rightarrow> Socks5Server" where
  "NewSocks5Server addr trafficStats = \<lparr>ss_addr = addr, ss_traffic = trafficStats,
     ss_allowUDPAssociate = False, ss_tunnelToExit = False, ss_exitUpstream = ''''\<rparr>"

definition SetAllowUDPAssociate :: "bool \<Rightarrow> Socks5Server \<Rightarrow> Socks5Server" where
  "SetAllowUDPAssociate enable s = s\<lparr>ss_allowUDPAssociate := enable\<rparr>"

definition SetTunnelToExit :: "bool \<Rightarrow> string \<Rightarrow> Socks5Server \<Rightarrow> Socks5Server" where
  "SetTunnelToExit enable upstream s = s\<lparr>ss_tunnelToExit := enable, ss_exitUpstream := upstream\<rparr>"

definition ss_recordTraffic :: "u64 \<Rightarrow> u64 \<Rightarrow> Socks5Server \<Rightarrow> Socks5Server" where
  "ss_recordTraffic sent recv s =
     (if ss_traffic s = None \<or> sent = 0 \<and> recv = 0 then s
      else s\<lparr>ss_traffic := tr_Add (ss_traffic s) sent recv\<rparr>)"

text \<open>
  The local connection with the circuit it uses. Closing returns the circuit to the pool, the
  first time only; the flag says whether \<open>once\<close> has run.
\<close>

record poolReturnConn =
  prc_Conn :: nat
  prc_circuitID :: string
  prc_once :: bool

definition poolReturnConn_Close ::
  "poolReturnConn \<Rightarrow> time \<Rightarrow> CircuitManager \<Rightarrow> poolReturnConn \<times> CircuitManager \<times> conn_action list" where
  "poolReturnConn_Close c now m =
     (if prc_once c then (c, m, [])
      else (c\<lparr>prc_once := True\<rparr>, cm_ReturnToPool (prc_circuitID c) now m, [CloseConn (prc_Conn c)]))"

text \<open>What the server does to the outside: the error recorder, the circuit streams, the local connection.\<close>

datatype socks_action =
    SRecord string string
  | SClient client_action
  | SClose
  | SStartDataPump string string
  | SUDPAssociate

section \<open>Opening a stream, with failover\<close>

text \<open>
  What one attempt reads: the pool (\<open>at_acquire\<close>), the ID drawn for the stream, the result
  of a write, what arrives while \<open>BeginTCP\<close> waits together with what the other goroutines
  do meanwhile, the clock and the draw of the heartbeat delay.
\<close>

record attempt_env =
  at_acquire :: acquire_env
  at_sid :: string
  at_write :: stream_write
  at_wait :: "CircuitManager \<Rightarrow> Connected option \<times> CircuitManager"
  at_now :: time
  at_rnd :: "int \<Rightarrow> int"

definition cm_BeginTCP ::
  "crypto \<Rightarrow> attempt_env \<Rightarrow> string \<Rightarrow> string \<Rightarrow> string \<Rightarrow> int \<Rightarrow> CircuitManager
   \<Rightarrow> begin_error option \<times> CircuitManager \<times> client_action list" where
  "cm_BeginTCP C E cid sid host port m =
     (case beginTCPStart C (at_write E) cid sid host port m of
        (Inl e, m1) \<Rightarrow> (Some e, m1, [])
      | (Inr acts, m1) \<Rightarrow>
          (let (outcome, m2) = at_wait E m1;
               (err, m3) = beginTCPFinish cid sid outcome (at_now E) (at_rnd E) m2
           in (err, m3, acts)))"

definition cm_BeginUDP ::
  "crypto \<Rightarrow> attempt_env \<Rightarrow> string \<Rightarrow> string \<Rightarrow> string \<Rightarrow> int \<Rightarrow> CircuitManager
   \<Rightarrow> begin_error option \<times> CircuitManager \<times> client_action list" where
  "cm_BeginUDP C E cid sid host port m =
     (case beginUDPStart C (at_write E) cid sid host port m of
        (Inl e, m1) \<Rightarrow> (Some e, m1, [])
      | (Inr acts, m1) \<Rightarrow>
          (let (outcome, m2) = at_wait E m1;
               (err, m3) = beginUDPFinish cid sid outcome (at_now E) (at_rnd E) m2
           in (err, m3, acts)))"

fun begin_errorText :: "begin_error \<Rightarrow> string" where
  "begin_errorText (BeginError _ msg) = msg"
| "begin_errorText (BeginOther e) = errorText e"

definition releaseCircuitAfterBeginError ::
  "string \<Rightarrow> begin_error \<Rightarrow> time \<Rightarrow> CircuitManager \<Rightarrow> CircuitManager \<times> client_action list" where
  "releaseCircuitAfterBeginError cid err now m =
     (if CanReuseCircuitAfterBeginError m cid err then (cm_ReturnToPool cid now m, [])
      else cm_MarkCircuitFailed cid m)"

text \<open>One attempt on the circuit \<open>cid\<close>: register the stream, ask for the target, and on an error undo both.\<close>

definition attemptTCP ::
  "crypto \<Rightarrow> attempt_env \<Rightarrow> nat \<Rightarrow> string \<Rightarrow> int \<Rightarrow> string \<Rightarrow> CircuitManager
   \<Rightarrow> begin_error option \<times> CircuitManager \<times> client_action list" where
  "attemptTCP C E conn host port cid m =
     (let (stream, sm) = RegisterStream (at_sid E) cid conn (cm_streams m)
      in case cm_BeginTCP C E cid (sm_ID stream) host port (m\<lparr>cm_streams := sm\<rparr>) of
           (None, m1, acts) \<Rightarrow> (None, m1, acts)
         | (Some e, m1, acts) \<Rightarrow>
             (let (m2, acts2) = releaseCircuitAfterBeginError cid e (at_now E) m1
              in (Some e, m2\<lparr>cm_streams := Unregister (cm_streams m2) (sm_ID stream)\<rparr>, acts @ acts2)))"

text \<open>The exit of a circuit the manager still knows, to be excluded from the next attempts.\<close>

definition excludeExit :: "CircuitManager \<Rightarrow> string \<Rightarrow> string list" where
  "excludeExit m cid = (case GetPlan m cid of None \<Rightarrow> [] | Some plan \<Rightarrow> [exitOf plan])"

text \<open>
  The failover loop of \<open>handleConn\<close>, \<open>n\<close> attempts being left. Result: the circuit and the
  stream, or the last error; besides, the circuits that were tried.
\<close>

fun failoverLoop ::
  "crypto \<Rightarrow> (nat \<Rightarrow> attempt_env) \<Rightarrow> nat \<Rightarrow> string \<Rightarrow> int \<Rightarrow> nat \<Rightarrow> string list \<Rightarrow> begin_error \<Rightarrow> CircuitManager
   \<Rightarrow> (begin_error + string \<times> string) \<times> CircuitManager \<times> client_action list \<times> string list" where
  "failoverLoop C env conn host port 0 exclude lastErr m = (Inl lastErr, m, [], [])"
| "failoverLoop C env conn host port (Suc n) exclude lastErr m =
     (case ensureCircuitFromPoolExcluding C (at_acquire (env n)) PoolLowLatency exclude m of
        (Inl e, m1, acts) \<Rightarrow> (Inl (BeginOther e), m1, acts, [])
      | (Inr cid, m1, acts) \<Rightarrow>
          (case attemptTCP C (env n) conn host port cid m1 of
             (None, m2, acts2) \<Rightarrow> (Inr (cid, at_sid (env n)), m2, acts @ acts2, [cid])
           | (Some e, m2, acts2) \<Rightarrow>
               (let (r, m3, acts3, tried) =
                      failoverLoop C env conn host port n (exclude @ excludeExit m2 cid) e m2
                in (r, m3, acts @ acts2 @ acts3, cid # tried))))"

text \<open>
  The part of \<open>handleConn\<close> from the first circuit to the stream. An error says whether a
  circuit had been found. \<open>E0\<close> is what the first attempt reads.
\<close>

definition connectStream ::
  "crypto \<Rightarrow> attempt_env \<Rightarrow> (nat \<Rightarrow> attempt_env) \<Rightarrow> nat \<Rightarrow> string \<Rightarrow> int \<Rightarrow> CircuitManager
   \<Rightarrow> ((bool \<times> begin_error) + string \<times> string) \<times> CircuitManager \<times> client_action list \<times> string list" where
  "connectStream C E0 env conn host port m =
     (case EnsureCircuitFromPool C (at_acquire E0) PoolLowLatency m of
        (Inl e, m1, acts) \<Rightarrow> (Inl (False, BeginOther e), m1, acts, [])
      | (Inr cid, m1, acts) \<Rightarrow>
          (case attemptTCP C E0 conn host port cid m1 of
             (None, m2, acts2) \<Rightarrow> (Inr (cid, at_sid E0), m2, acts @ acts2, [cid])
           | (Some e, m2, acts2) \<Rightarrow>
               (let (r, m3, acts3, tried) =
                      failoverLoop C env conn host port (nat (BeginTCPRetries m2)) (excludeExit m2 cid) e m2
                in (case r of Inl e \<Rightarrow> Inl (True, e) | Inr x \<Rightarrow> Inr x, m3, acts @ acts2 @ acts3, cid # tried))))"

text \<open>
  The CONNECT branch: the replies, the target noted on the stream, and the pump. \<open>conn\<close> is the
  handle of the local connection and \<open>w\<close> its state, \<open>wr\<close> writes to it.
\<close>

definition handleConnect ::
  "crypto \<Rightarrow> 'w writer \<Rightarrow> attempt_env \<Rightarrow> (nat \<Rightarrow> attempt_env) \<Rightarrow> nat \<Rightarrow> string \<Rightarrow> int \<Rightarrow> 'w conn \<Rightarrow> CircuitManager
   \<Rightarrow> 'w conn \<times> CircuitManager \<times> socks_action list" where
  "handleConnect C wr E0 env conn host port w m =
     (case connectStream C E0 env conn host port m of
        (Inl (False, e), m1, acts, _) \<Rightarrow>
          (snd (sendSocks5Reply wr 0x01 w), m1,
           map SClient acts @ [SRecord ''circuit'' (''get/create circuit failed: '' @ begin_errorText e)])
      | (Inl (True, e), m1, acts, _) \<Rightarrow>
          (snd (sendSocks5Reply wr 0x05 w), m1,
           map SClient acts @ [SRecord ''socks5'' (''begin_tcp failed after retries: '' @ begin_errorText e), SClose])
      | (Inr (cid, sid), m1, acts, _) \<Rightarrow>
          (let m2 = m1\<lparr>cm_streams := SetStreamTarget (cm_streams m1) sid host port\<rparr>
           in case sendSocks5Reply wr 0x00 w of
                (Inl _, w1) \<Rightarrow>
                  (let (m3, acts3) = cm_MarkCircuitFailed cid m2;
                       (sm, acts4) = Remove (cm_streams m3) sid
                   in (w1, m3\<lparr>cm_streams := sm\<rparr>,
                       map SClient acts @ map SClient acts3 @ map (SClient \<circ> CLocal) acts4 @ [SClose]))
              | (Inr _, w1) \<Rightarrow> (w1, m2, map SClient acts @ [SStartDataPump cid sid])))"

text \<open>\<open>handleConn\<close> of a server that does not tunnel to its exit.\<close>

definition handleConn ::
  "crypto \<Rightarrow> 'w writer \<Rightarrow> attempt_env \<Rightarrow> (nat \<Rightarrow> attempt_env) \<Rightarrow> nat \<Rightarrow> Socks5Server \<Rightarrow> 'w conn \<Rightarrow> CircuitManager
   \<Rightarrow> 'w conn \<times> CircuitManager \<times> socks_action list" where
  "handleConn C wr E0 env conn s w m =
     (case handleHandshake wr w of
        (Inl _, w1) \<Rightarrow> (w1, m, [])
      | (Inr (host, port, cmd), w1) \<Rightarrow>
          if cmd = 0x03 then
            (if \<not> ss_allowUDPAssociate s then (snd (sendSocks5Reply wr 0x07 w1), m, [SClose])
             else (w1, m, [SUDPAssociate]))
          else handleConnect C wr E0 env conn host (uint port) w1 m)"

section \<open>UDP associations\<close>

text \<open>
  The list of entries holds pointers to the entries of the map and no entry of the map is
  ever replaced, so an entry in the list is named by its key.
\<close>

record udpStreamEntry =
  ue_circuitID :: string
  ue_streamID :: string
  ue_clientAddr :: string
  ue_targetHost :: string
  ue_targetPort :: int
  ue_replyCh :: nat

record udp_association =
  ua_streamsByKey :: "string \<rightharpoonup> udpStreamEntry"
  ua_streamList :: "string list"

definition newAssociation :: udp_association where
  "newAssociation = \<lparr>ua_streamsByKey = Map.empty, ua_streamList = []\<rparr>"

definition udpKey :: "string \<Rightarrow> int \<Rightarrow> string" where
  "udpKey dstHost dstPort = dstHost @ '':'' @ show_int dstPort"

text \<open>A new target: a circuit, a stream on it, and the entry with its reply channel.\<close>

definition openUDPStream ::
  "crypto \<Rightarrow> attempt_env \<Rightarrow> string \<Rightarrow> string \<Rightarrow> int \<Rightarrow> udp_association \<Rightarrow> CircuitManager
   \<Rightarrow> udpStreamEntry option \<times> udp_association \<times> CircuitManager \<times> socks_action list" where
  "openUDPStream C E clientAddr dstHost dstPort a m =
     (case EnsureCircuitFromPool C (at_acquire E) PoolLowLatency m of
        (Inl e, m1, acts) \<Rightarrow>
          (None, a, m1, map SClient acts @ [SRecord ''socks5_udp'' (''circuit failed: '' @ errorText e)])
      | (Inr cid, m1, acts) \<Rightarrow>
          (let ((stream, replyCh), sm) = RegisterStreamUDP (at_sid E) cid (cm_streams m1)
           in case cm_BeginUDP C E cid (sm_ID stream) dstHost dstPort (m1\<lparr>cm_streams := sm\<rparr>) of
                (Some e, m2, acts2) \<Rightarrow>
                  (let (sm2, acts3) = Remove (cm_streams m2) (sm_ID stream);
                       (m3, acts4) = releaseCircuitAfterBeginError cid e (at_now E) (m2\<lparr>cm_streams := sm2\<rparr>)
                   in (None, a, m3, map SClient (acts @ acts2 @ map CLocal acts3 @ acts4)))
              | (None, m2, acts2) \<Rightarrow>
                  (let entry = \<lparr>ue_circuitID = cid, ue_streamID = sm_ID stream, ue_clientAddr = clientAddr,
                         ue_targetHost = dstHost, ue_targetPort = dstPort, ue_replyCh = replyCh\<rparr>;
                       key = udpKey dstHost dstPort
                   in (Some entry,
                       a\<lparr>ua_streamsByKey := (ua_streamsByKey a)(key \<mapsto> entry),
                         ua_streamList := ua_streamList a @ [key]\<rparr>,
                       m2, map SClient (acts @ acts2)))))"

text \<open>One datagram of the loop of \<open>handleUDPAssociate\<close>.\<close>

definition udpDatagram ::
  "crypto \<Rightarrow> attempt_env \<Rightarrow> string \<Rightarrow> bytes \<Rightarrow> udp_association \<Rightarrow> CircuitManager
   \<Rightarrow> udp_association \<times> CircuitManager \<times> socks_action list" where
  "udpDatagram C E clientAddr packet a m =
     (if length packet < 10 then (a, m, [])
      else case parseSocks5UDPRequest packet of
        Inl _ \<Rightarrow> (a, m, [])
      | Inr (dstHost, dstPort, payload) \<Rightarrow>
          let send = (\<lambda>entry a m acts.
                case SendData C (at_write E) (ue_circuitID entry) (ue_streamID entry) payload (at_now E) (at_rnd E) m of
                  (Inl e, m') \<Rightarrow> (a, m', acts @ [SRecord ''socks5_udp'' (''send_data: '' @ errorText e)])
                | (Inr acts', m') \<Rightarrow> (a, m', acts @ map SClient acts'))
          in case ua_streamsByKey a (udpKey dstHost dstPort) of
               Some entry \<Rightarrow>
                 (let entry = entry\<lparr>ue_clientAddr := clientAddr\<rparr>
                  in send entry (a\<lparr>ua_streamsByKey := (ua_streamsByKey a)(udpKey dstHost dstPort \<mapsto> entry)\<rparr>) m [])
             | None \<Rightarrow>
                 (case openUDPStream C E clientAddr dstHost dstPort a m of
                    (None, a1, m1, acts) \<Rightarrow> (a1, m1, acts)
                  | (Some entry, a1, m1, acts) \<Rightarrow> send entry a1 m1 acts))"

text \<open>The datagram sent back to the client for data from the channel of an entry, and where it goes.\<close>

definition udpReply :: "udpStreamEntry \<Rightarrow> bytes \<Rightarrow> bytes \<times> string" where
  "udpReply e data = (buildSocks5UDPReply (ue_targetHost e) (ue_targetPort e) data, ue_clientAddr e)"

text \<open>The goroutine that waits for the end of the TCP connection.\<close>

fun closeEntries :: "udpStreamEntry list \<Rightarrow> time \<Rightarrow> CircuitManager \<Rightarrow> CircuitManager \<times> conn_action list" where
  "closeEntries [] now m = (m, [])"
| "closeEntries (e # es) now m =
     (let (sm, acts) = Remove (cm_streams m) (ue_streamID e);
          (m', rest) = closeEntries es now (cm_ReturnToPool (ue_circuitID e) now (m\<lparr>cm_streams := sm\<rparr>))
      in (m', acts @ rest))"

definition closeAssociation ::
  "time \<Rightarrow> udp_association \<Rightarrow> CircuitManager \<Rightarrow> udp_association \<times> CircuitManager \<times> conn_action list" where
  "closeAssociation now a m =
     (let (m', acts) = closeEntries (List.map_filter (ua_streamsByKey a) (ua_streamList a)) now m
      in (newAssociation, m', acts))"

text \<open>The TCP part of the association: the reply with the address the UDP socket is bound to.\<close>

definition associateReply :: "'w writer \<Rightarrow> u16 result \<Rightarrow> Socks5Server \<Rightarrow> 'w conn \<Rightarrow> bool \<times> 'w conn" where
  "associateReply wr listen s w =
     (case listen of
        Inl _ \<Rightarrow> (False, snd (sendSocks5Reply wr 0x01 w))
      | Inr udpPort \<Rightarrow>
          (let bindHost = (case SplitHostPort (ss_addr s) of Inl _ \<Rightarrow> '''' | Inr (h, _) \<Rightarrow> h);
               bindHost = (if bindHost = '''' then ''127.0.0.1'' else bindHost)
           in case sendSocks5ReplyWithBind wr 0x00 bindHost udpPort w of
                (Inl _, w1) \<Rightarrow> (False, w1) | (Inr _, w1) \<Rightarrow> (True, w1)))"

section \<open>The streams of a connection\<close>

text \<open>
  The IDs in \<open>S\<close> name no stream, and the retries are within the limit of \<open>SetBeginTCPRetries\<close>.
  The other goroutines draw other IDs and use that setter: they keep both.
\<close>

definition unused :: "string set \<Rightarrow> CircuitManager \<Rightarrow> bool" where
  "unused S m \<longleftrightarrow> (\<forall>sid \<in> S. sm_Get (cm_streams m) sid = None) \<and> 0 \<le> cm_beginTCPRetries m \<and> cm_beginTCPRetries m \<le> 2"

definition keepsUnused :: "string set \<Rightarrow> attempt_env \<Rightarrow> bool" where
  "keepsUnused S E \<longleftrightarrow> (\<forall>T \<subseteq> S. \<forall>m. unused T m \<longrightarrow> unused T (snd (at_wait E m)))
     \<and> (\<forall>T \<subseteq> S. \<forall>n m. unused T m \<longrightarrow> unused T (ae_others (at_acquire E) n m))"

lemma unused_cong:
  "cm_streams m' = cm_streams m \<Longrightarrow> cm_beginTCPRetries m' = cm_beginTCPRetries m \<Longrightarrow> unused S m' = unused S m"
  by (simp add: unused_def)

lemma createCircuitWithPlan_streams:
  assumes "createCircuitWithPlan C E plan m = (r, m', acts)"
  shows "cm_streams m' = cm_streams m" and "cm_beginTCPRetries m' = cm_beginTCPRetries m"
  using assms by (auto simp: createCircuitWithPlan_def buildCircuit_def Let_def closeCircuitLocked_def forgetLocked_def
      split: sum.splits prod.splits if_splits bool.splits)

lemma createLoop_unused:
  "createLoop C ma ch env kind n exclude lastErr m = (r, m', acts, tried) \<Longrightarrow> unused S m' = unused S m"
proof (induction n arbitrary: exclude lastErr m r acts tried)
  case (Suc n)
  show ?case
  proof (cases "SelectPathForPoolExcluding ma (ch n) (cm_pathSelector m) kind exclude")
    case (Inr plan)
    obtain r1 m1 a1 where c: "createCircuitWithPlan C (env n) plan m = (r1, m1, a1)" by (metis prod_cases3)
    have "unused S m1 = unused S m" by (rule unused_cong) (fact createCircuitWithPlan_streams [OF c])+
    then show ?thesis using Suc c Inr by (auto split: sum.splits prod.splits)
  qed (use Suc.prems in auto)
qed simp

lemma unused_pool [simp]: "unused S (withPool m p) = unused S m" "unused S (cm_RegisterCircuitInUse kind cid m) = unused S m"
  "unused S (cm_ReturnToPool cid now m) = unused S m" "unused S (poolMarkFailed cid m) = unused S m"
  by (simp_all add: unused_def withPool_def cm_RegisterCircuitInUse_def cm_ReturnToPool_def poolMarkFailed_def split: option.splits)

lemma acquireOnce_unused:
  assumes "acquireOnce C A kind excl n pool m = (r, m')"
  shows "unused S m' = unused S m"
proof -
  obtain p1 got where g: "GetFromPool (IsCircuitOpen m) (CircuitReuseScore m (ae_now A n)) (ae_order A n) kind pool = (p1, got)"
    by fastforce
  obtain p2 ok where t: "TryReserveBuild kind p1 = (p2, ok)" by fastforce
  obtain r1 m1 a1 t1 where c: "CreateForPoolExcluding C (ae_ma A) (ae_choices A) (ae_create A) kind excl (withPool m p2) = (r1, m1, a1, t1)"
    by (metis prod_cases4)
  have "unused S m1 = unused S m" using createLoop_unused [OF c [unfolded CreateForPoolExcluding_def]] by simp
  then show ?thesis
    using assms g t c by (auto simp: acquireOnce_def split: option.splits bool.splits sum.splits)
qed

lemma acquireLoop_unused:
  assumes others: "\<And>n m. unused S m \<Longrightarrow> unused S (ae_others A n m)"
  shows "acquireLoop C A kind excl n m = (r, m', acts) \<Longrightarrow> unused S m \<Longrightarrow> unused S m'"
proof (induction n arbitrary: m)
  case (Suc n)
  show ?case
  proof (cases "cm_pool m")
    case (Some pool)
    obtain o1 m1 where a: "acquireOnce C A kind excl n pool m = (o1, m1)" by fastforce
    have "unused S m1" using acquireOnce_unused [OF a] Suc.prems(2) by simp
    then show ?thesis
      using Suc.prems(1) Suc.IH [of "ae_others A n m1"] Some a others by (auto split: option.splits)
  qed (use Suc.prems in auto)
qed simp

lemma ensure_unused:
  assumes "keepsUnused S E" and "T \<subseteq> S" and "unused T m"
    and "ensureCircuitFromPoolExcluding C (at_acquire E) kind excl m = (r, m', acts)"
  shows "unused T m'"
proof (cases "cm_pool m")
  case None
  then show ?thesis
    using assms(3,4) createLoop_unused
    by (auto simp: ensureCircuitFromPoolExcluding_def CreateForPoolExcluding_def split: prod.splits)
next
  case (Some p)
  have "acquireLoop C (at_acquire E) kind excl poolAcquireRetryAttempts m = (r, m', acts)"
    using assms(4) Some by (simp add: ensureCircuitFromPoolExcluding_def)
  moreover have "unused T (ae_others (at_acquire E) n m)" if "unused T m" for n m
    using assms(1,2) that by (simp add: keepsUnused_def)
  ultimately show ?thesis using acquireLoop_unused assms(3) by metis
qed

lemma unused_beginStart: "beginStart C wr direct payload cid sid m = (r, m') \<Longrightarrow> unused S m' = unused S m"
  by (auto simp: beginStart_def onionFrame_def endPending_def unused_def Let_def
      split: option.splits sum.splits if_splits prod.splits)

lemma unused_beginFinish: "beginFinish f t cid sid outcome now rnd m = (e, m') \<Longrightarrow> unused S m' = unused S m"
  by (auto simp: beginFinish_def endPending_def unused_def touchCircuitActivity_def markCircuitTimeout_def
      scheduleHeartbeat_def split: option.splits if_splits)

lemma cm_BeginTCP_unused:
  assumes "keepsUnused S E" and "T \<subseteq> S" and "unused T m" and "cm_BeginTCP C E cid sid host port m = (err, m', acts)"
  shows "unused T m'"
proof -
  have wait: "unused T m2" if "at_wait E m1 = (x, m2)" "unused T m1" for m1 x m2
    using assms(1,2) that unfolding keepsUnused_def by (metis snd_conv)
  show ?thesis
    using assms(3,4) wait unfolding cm_BeginTCP_def beginTCPStart_def beginTCPFinish_def Let_def
    by (fastforce split: sum.splits prod.splits dest: unused_beginStart [of _ _ _ _ _ _ _ _ _ T] unused_beginFinish [of _ _ _ _ _ _ _ _ _ _ T])
qed

lemma release_unused:
  assumes "releaseCircuitAfterBeginError cid e now m = (m', acts)"
  shows "unused T m' = unused T m"
proof -
  have close: "unused T (closeCircuitLocked cid x) = unused T x" for x
    by (simp add: unused_def closeCircuitLocked_def forgetLocked_def)
  show ?thesis
  proof (cases "CanReuseCircuitAfterBeginError m cid e")
    case False
    then have "m' = closeCircuitLocked cid (poolMarkFailed cid m)"
      using assms by (simp add: releaseCircuitAfterBeginError_def cm_MarkCircuitFailed_def CloseCircuit_def)
    then show ?thesis by (simp add: close)
  qed (use assms in \<open>auto simp: releaseCircuitAfterBeginError_def\<close>)
qed

lemma attemptTCP_streams:
  assumes "keepsUnused S E" and "at_sid E \<in> S" and "unused S m"
    and "attemptTCP C E conn host port cid m = (err, m', acts)"
  shows "case err of None \<Rightarrow> unused (S - {at_sid E}) m' | Some _ \<Rightarrow> unused S m'"
proof -
  let ?m = "m\<lparr>cm_streams := snd (RegisterStream (at_sid E) cid conn (cm_streams m))\<rparr>"
  let ?T = "S - {at_sid E}"
  obtain err1 m1 acts1 where b: "cm_BeginTCP C E cid (at_sid E) host port ?m = (err1, m1, acts1)" by (metis prod_cases3)
  have "unused ?T ?m" using assms(3) by (auto simp: unused_def RegisterStream_def putStream_def sm_Get_def Let_def)
  then have m1: "unused ?T m1" by (rule cm_BeginTCP_unused [OF assms(1) Diff_subset _ b])
  show ?thesis
  proof (cases err1)
    case None
    then show ?thesis using assms(4) b m1 by (auto simp: attemptTCP_def RegisterStream_def Let_def)
  next
    case (Some e)
    obtain m2 acts2 where r: "releaseCircuitAfterBeginError cid e (at_now E) m1 = (m2, acts2)" by fastforce
    have "m' = m2\<lparr>cm_streams := Unregister (cm_streams m2) (at_sid E)\<rparr>" "err = Some e"
      using assms(4) b r Some by (auto simp: attemptTCP_def RegisterStream_def Let_def)
    then show ?thesis using release_unused [OF r] m1 by (auto simp: unused_def Unregister_def sm_Get_def)
  qed
qed

text \<open>What a search for a stream leaves: nothing on failure, at most the new stream on success.\<close>

definition streamFound :: "string set \<Rightarrow> 'e + string \<times> string \<Rightarrow> CircuitManager \<Rightarrow> bool" where
  "streamFound S r m = (case r of Inl _ \<Rightarrow> unused S m | Inr (cid, sid) \<Rightarrow> sid \<in> S \<and> unused (S - {sid}) m)"

lemma failoverLoop_streams:
  assumes env: "\<And>i. keepsUnused S (env i)" "\<And>i. at_sid (env i) \<in> S"
  shows "failoverLoop C env conn host port n excl lastErr m = (r, m', acts, tried) \<Longrightarrow> unused S m
    \<Longrightarrow> streamFound S r m' \<and> length tried \<le> n"
proof (induction n arbitrary: excl lastErr m r m' acts tried)
  case (Suc n)
  obtain r1 m1 a1 where e: "ensureCircuitFromPoolExcluding C (at_acquire (env n)) PoolLowLatency excl m = (r1, m1, a1)"
    by (metis prod_cases3)
  have m1: "unused S m1" by (rule ensure_unused [OF env(1) subset_refl Suc.prems(2) e])
  show ?case
  proof (cases r1)
    case (Inl x)
    then show ?thesis using Suc.prems(1) e m1 by (auto simp: streamFound_def)
  next
    case (Inr cid)
    obtain err m2 a2 where a: "attemptTCP C (env n) conn host port cid m1 = (err, m2, a2)" by (metis prod_cases3)
    note m2 = attemptTCP_streams [OF env(1,2) m1 a]
    show ?thesis
    proof (cases err)
      case None
      then show ?thesis using Suc.prems(1) e Inr a m2 env(2) by (auto simp: streamFound_def)
    next
      case (Some x)
      obtain r3 m3 a3 t3 where l: "failoverLoop C env conn host port n (excl @ excludeExit m2 cid) x m2 = (r3, m3, a3, t3)"
        by (metis prod_cases4)
      then have "r = r3 \<and> m' = m3 \<and> tried = cid # t3"
        using Suc.prems(1) e Inr a Some by auto
      then show ?thesis using Suc.IH [OF l] m2 Some by simp
    qed
  qed
qed (simp add: streamFound_def)

lemma connectStream_streams:
  assumes E0: "keepsUnused S E0" "at_sid E0 \<in> S" and env: "\<And>i. keepsUnused S (env i)" "\<And>i. at_sid (env i) \<in> S"
    and m: "unused S m" and c: "connectStream C E0 env conn host port m = (r, m', acts, tried)"
  shows "streamFound S r m' \<and> length tried \<le> 3"
proof -
  obtain r1 m1 a1 where e: "ensureCircuitFromPoolExcluding C (at_acquire E0) PoolLowLatency [] m = (r1, m1, a1)"
    by (metis prod_cases3)
  have m1: "unused S m1" by (rule ensure_unused [OF E0(1) subset_refl m e])
  show ?thesis
  proof (cases r1)
    case (Inl x)
    then show ?thesis using c e m1 by (auto simp: connectStream_def EnsureCircuitFromPool_def streamFound_def)
  next
    case (Inr cid)
    obtain err m2 a2 where a: "attemptTCP C E0 conn host port cid m1 = (err, m2, a2)" by (metis prod_cases3)
    note m2 = attemptTCP_streams [OF E0 m1 a]
    show ?thesis
    proof (cases err)
      case None
      then show ?thesis using c e Inr a m2 E0(2) by (auto simp: connectStream_def EnsureCircuitFromPool_def streamFound_def)
    next
      case (Some x)
      obtain r3 m3 a3 t3 where l: "failoverLoop C env conn host port (nat (BeginTCPRetries m2)) (excludeExit m2 cid) x m2 = (r3, m3, a3, t3)"
        by (metis prod_cases4)
      then have "r = (case r3 of Inl e \<Rightarrow> Inl (True, e) | Inr x \<Rightarrow> Inr x) \<and> m' = m3 \<and> tried = cid # t3"
        using c e Inr a Some by (auto simp: connectStream_def EnsureCircuitFromPool_def)
      then show ?thesis
        using failoverLoop_streams [OF env l] m2 Some
        by (auto simp: streamFound_def unused_def BeginTCPRetries_def split: sum.splits)
    qed
  qed
qed


definition demo_attempt :: "string \<Rightarrow> Connected option \<Rightarrow> attempt_env" where
  "demo_attempt sid answer = \<lparr>at_acquire = demo_acquire_env, at_sid = sid, at_write = (\<lambda>_ _. None),
     at_wait = (\<lambda>m. (answer, m)), at_now = 5, at_rnd = (\<lambda>_. 0)\<rparr>"

lemma demo_attempt_keeps: "keepsUnused S (demo_attempt sid answer)"
  by (simp add: keepsUnused_def demo_attempt_def demo_acquire_env_def)


section \<open>Failover does not avoid the exit that failed\<close>

lemma ReturnToPool_last:
  assumes "cid \<noteq> []" "streamsOf p cid = 1" "circuitToKind p cid = Some kind" "isOpen cid"
  shows "idle (ReturnToPool isOpen cid now p) = (idle p)(kind := idle p kind @ [\<lparr>circuitID = cid, idleSince = now\<rparr>])"
    and "streamsOf (ReturnToPool isOpen cid now p) x = (if x = cid then 0 else streamsOf p x)"
    and "kindOf (ReturnToPool isOpen cid now p) = kindOf p"
  using assms by (auto simp: ReturnToPool_def releaseStream_def requeue_def streamsOf_def kindOf_def fun_eq_iff
      split: option.splits if_splits)

lemma GetFromPool_unique_best:
  assumes "[] \<notin> set order" and "[] \<notin> idleIDs p kind" and "distinct (map circuitID (idle p kind))"
    and "\<And>c. c \<in> set order \<Longrightarrow> streamsOf p c > 0 \<Longrightarrow> kindOf p c = kind \<Longrightarrow> \<not> isOpen c"
    and "cid \<in> idleIDs p kind" and "isOpen cid"
    and "\<And>c. c \<in> idleIDs p kind \<Longrightarrow> isOpen c \<Longrightarrow> c \<noteq> cid \<Longrightarrow> score c < score cid"
  shows "snd (GetFromPool isOpen score order kind p) = Some cid"
proof -
  let ?ids = "map circuitID (idle p kind)"
  have ids: "set ?ids = idleIDs p kind" by (simp add: idleIDs_def)
  then have e: "[] \<notin> set ?ids" using assms(2) by simp
  have ne: "bestOf isOpen score ?ids \<noteq> []"
    using bestOf_empty [OF e, of isOpen score] assms(5,6) unfolding ids by auto
  have "bestOf isOpen score ?ids = cid"
    using bestOf_spec [OF e ne] assms(5-7) unfolding ids by force
  then show ?thesis
    using ne GetFromPool_idle [where score = score, OF assms(1,4)] pickBestIdle_eq [OF assms(2,3), of isOpen score] by simp
qed

text \<open>
  The failover of CONNECT can retry the very exit that refused the request. The retry asks
  for a circuit that avoids the exit, but \<open>GetFromPool\<close> knows nothing of the exclusion, and
  the circuit has just been given back: when it is the best open circuit of the pool, the
  retry gets the same circuit, hence the same exit.
\<close>

theorem failover_takes_refused_exit:
  fixes A :: acquire_env and m :: CircuitManager
  defines "score \<equiv> CircuitReuseScore m (ae_now A 49)"
  assumes "cm_pool m = Some p" and "cid \<noteq> []" and "canReuseCircuit m cid" and "GetPlan m cid = Some plan"
    and "streamsOf p cid = 1" and "circuitToKind p cid = Some PoolLowLatency"
    and "[] \<notin> set (ae_order A 49)" and "[] \<notin> idleIDs p PoolLowLatency" and "cid \<notin> idleIDs p PoolLowLatency"
    and "distinct (map circuitID (idle p PoolLowLatency))"
    and "\<And>c. c \<noteq> cid \<Longrightarrow> streamsOf p c > 0 \<Longrightarrow> kindOf p c = PoolLowLatency \<Longrightarrow> \<not> IsCircuitOpen m c"
    and "\<And>c. c \<in> idleIDs p PoolLowLatency \<Longrightarrow> IsCircuitOpen m c \<Longrightarrow> score c < score cid"
  shows "case releaseCircuitAfterBeginError cid (BeginError BeginErrorRemote msg) now m of (m1, _) \<Rightarrow>
    excludeExit m1 cid = [exitOf plan] \<and>
    fst (ensureCircuitFromPoolExcluding C A PoolLowLatency (excludeExit m1 cid) m1) = Inr cid"
proof -
  let ?p = "ReturnToPool (IsCircuitOpen m) cid now p"
  let ?m = "withPool m ?p"
  have op: "IsCircuitOpen m cid" using assms(4) by (auto simp: canReuseCircuit_def IsCircuitOpen_def split: option.splits)
  have r: "releaseCircuitAfterBeginError cid (BeginError BeginErrorRemote msg) now m = (?m, [])"
    using assms(2,4) by (simp add: releaseCircuitAfterBeginError_def CanReuseCircuitAfterBeginError_def cm_ReturnToPool_def withPool_def)
  have fields: "IsCircuitOpen ?m = IsCircuitOpen m" "CircuitReuseScore ?m (ae_now A 49) = score" "cm_pool ?m = Some ?p"
    by (simp_all add: withPool_def IsCircuitOpen_def CircuitReuseScore_def score_def fun_eq_iff)
  note ret = ReturnToPool_last [of cid p PoolLowLatency "IsCircuitOpen m" now, OF assms(3,6,7) op]
  have ids: "idleIDs ?p PoolLowLatency = insert cid (idleIDs p PoolLowLatency)"
    "distinct (map circuitID (idle ?p PoolLowLatency))"
    using assms(10,11) by (auto simp: ret idleIDs_def)
  have "snd (GetFromPool (IsCircuitOpen m) score (ae_order A 49) PoolLowLatency ?p) = Some cid"
    by (rule GetFromPool_unique_best [OF assms(8) _ ids(2)])
       (use assms(3,9,12,13) op in \<open>auto simp: ids(1) [simplified PoolKind_defs] ret(2,3) split: if_splits\<close>)
  then obtain p' where g: "GetFromPool (IsCircuitOpen m) score (ae_order A 49) PoolLowLatency ?p = (p', Some cid)"
    by (metis prod.collapse)
  have once: "acquireOnce C A PoolLowLatency excl 49 ?p ?m = (Some (Inr cid, []), withPool ?m p')" for excl
    unfolding acquireOnce_def fields g by simp
  have loop: "acquireLoop C A PoolLowLatency excl (Suc 49) ?m = (Inr cid, withPool ?m p', [])" for excl
    using once by (simp only: acquireLoop.simps fields option.case prod.case)
  have "ensureCircuitFromPoolExcluding C A PoolLowLatency excl ?m = (Inr cid, withPool ?m p', [])" for excl
    using loop [of excl] by (simp add: ensureCircuitFromPoolExcluding_def poolAcquireRetryAttempts_def fields)
  moreover have "excludeExit ?m cid = [exitOf plan]"
    using assms(5) by (auto simp: excludeExit_def GetPlan_def withPool_def)
  ultimately show ?thesis by (simp add: r)
qed

definition demo_lent :: CircuitManager where
  "demo_lent = demo_cm\<lparr>cm_store := [''c-1'' \<mapsto> openedRecord demo_create_env demo_direct],
     cm_activeStreams := [''c-1'' \<mapsto> ''stream-1''],
     cm_pool := Some (RegisterCircuitInUse PoolLowLatency ''c-1'' (NewCircuitPool demo_client_pool))\<rparr>"

theorem failover_takes_refused_exit_witness:
  "case releaseCircuitAfterBeginError ''c-1'' (BeginError BeginErrorRemote ''refused'') 9 demo_lent of (m1, _) \<Rightarrow>
    excludeExit m1 ''c-1'' = [exitOf demo_direct] \<and>
    fst (ensureCircuitFromPoolExcluding demo_crypto demo_acquire_env PoolLowLatency (excludeExit m1 ''c-1'') m1) = Inr ''c-1''"
proof -
  let ?p = "RegisterCircuitInUse PoolLowLatency ''c-1'' (NewCircuitPool demo_client_pool)"
  have p: "streamsOf ?p ''c-1'' = 1" "circuitToKind ?p ''c-1'' = Some PoolLowLatency" "idle ?p PoolLowLatency = []"
    "\<And>c. c \<noteq> ''c-1'' \<Longrightarrow> streamsOf ?p c = 0"
    by (simp_all add: RegisterCircuitInUse_def NewCircuitPool_def streamsOf_def takeReservation_def Let_def)
  have "GetPlan demo_lent ''c-1'' = Some demo_direct" "canReuseCircuit demo_lent ''c-1''"
    by (simp_all add: demo_lent_def GetPlan_def canReuseCircuit_def cs_Get_def isReusableCircuitState_def)
  moreover have "cm_pool demo_lent = Some ?p" "ae_order demo_acquire_env 49 = []"
    by (simp_all add: demo_lent_def demo_acquire_env_def)
  ultimately show ?thesis
    by (intro failover_takes_refused_exit [where p = ?p]) (simp_all only: p(1-3) idleIDs_def, simp_all add: p(4) [simplified PoolKind_defs])
qed

end
