(* ===== verification/Raw_Tunnel.thy ===== *)
theory Raw_Tunnel
  imports Socks5_Server Relay_Service
begin

text \<open>
  Raw tunnels: with \<open>socks5_tunnel_to_exit\<close> the client does not speak SOCKS5 itself but sends
  the connection's bytes, encrypted end to end, to the SOCKS5 server behind the exit. Here are
  the failover loop \<open>handleTunnelConn\<close> and the two pumps of \<open>pipeEncryptedTunnel\<close>
  (\<open>client/socks5.go\<close>), the exit's end \<open>serveRawTunnelE2EWithHeader\<close> (\<open>exit/service.go\<close>) and
  the exit's own SOCKS5 server (\<open>exit/socks5.go\<close>). The two ends run the same loops up to how
  they tally traffic, so the loops take the counting as an argument.
\<close>

section \<open>The pumps\<close>

text \<open>
  From the local connection into the tunnel: \<open>reads\<close> is what the reads give, \<open>w\<close> the stream.
  The result says whether both ends were closed.
\<close>

fun sealPump ::
  "crypto \<Rightarrow> 'w writer \<Rightarrow> int \<Rightarrow> (u64 \<Rightarrow> u64 \<Rightarrow> 's \<Rightarrow> 's) \<Rightarrow> (bytes \<times> go_error option) list \<Rightarrow> Session \<Rightarrow> 'w conn \<Rightarrow> 's
   \<Rightarrow> Session \<times> 'w conn \<times> 's \<times> bool" where
  "sealPump C wr now tally [] sess w s = (sess, w, s, False)"
| "sealPump C wr now tally ((chunk, err) # reads) sess w s =
     (let finish = (\<lambda>sess w s. case err of
            None \<Rightarrow> sealPump C wr now tally reads sess w s
          | Some e \<Rightarrow>
              if e = EOF then
                (case Seal C now sess FrameTypeClose [] of
                   Inl _ \<Rightarrow> (sess, w, s, True)
                 | Inr (frame, sess1) \<Rightarrow> (sess1, snd (WriteJSONFrame enc_EncryptedFrame wr frame w), s, True))
              else (sess, w, s, True))
      in if length chunk > 0 then
           (case Seal C now sess FrameTypeData chunk of
              Inl _ \<Rightarrow> (sess, w, s, True)
            | Inr (frame, sess1) \<Rightarrow>
                (case WriteJSONFrame enc_EncryptedFrame wr frame w of
                   (Inl _, w1) \<Rightarrow> (sess1, w1, s, True)
                 | (Inr _, w1) \<Rightarrow> finish sess1 w1 (tally 0 (of_nat (length chunk)) s)))
         else finish sess w s)"

lemma ReadJSONFrame_shorter: "ReadJSONFrame dec (inp, w) = (Inr v, rest, w') \<Longrightarrow> length rest < length inp"
  by (auto simp: ReadJSONFrame_def io_bind_def io_readFull_def io_fail_def io_lift_def readFull_def Let_def
      split: prod.splits sum.splits if_splits)

text \<open>
  From the tunnel to the local connection: every frame is read from \<open>inp\<close>, what the peer has
  sent; \<open>lw\<close> says whether a write to the local connection fails. Result: what was written.
\<close>

function openPump ::
  "crypto \<Rightarrow> (bytes \<Rightarrow> go_error option) \<Rightarrow> (u64 \<Rightarrow> u64 \<Rightarrow> 's \<Rightarrow> 's) \<Rightarrow> bytes \<Rightarrow> Session \<Rightarrow> 's
   \<Rightarrow> bytes list \<times> Session \<times> 's" where
  "openPump C lw tally inp sess s =
     (case ReadJSONFrame dec_EncryptedFrame (inp, ()) of
        (Inl _, _) \<Rightarrow> ([], sess, s)
      | (Inr frame, rest, _) \<Rightarrow>
          if ef_Type frame = FrameTypeData then
            (case Open C sess frame of
               Inl _ \<Rightarrow> ([], sess, s)
             | Inr (plain, sess1) \<Rightarrow>
                 if plain = [] then openPump C lw tally rest sess1 s
                 else (case lw plain of
                         Some _ \<Rightarrow> ([], sess1, s)
                       | None \<Rightarrow>
                           (let (out, r) = openPump C lw tally rest sess1 (tally (of_nat (length plain)) 0 s)
                            in (plain # out, r))))
          else if ef_Type frame = FrameTypeClose then ([], sess, s)
          else openPump C lw tally rest sess s)"
  by pat_completeness auto

termination
  by (relation "measure (\<lambda>(C, lw, tally, inp, sess, s). length inp)") (auto dest!: ReadJSONFrame_shorter sym [of "(Inr _, _)"])

declare openPump.simps [simp del]

text \<open>The two ends.\<close>

definition pipeEncryptedTunnel ::
  "crypto \<Rightarrow> 'w writer \<Rightarrow> (bytes \<Rightarrow> go_error option) \<Rightarrow> int \<Rightarrow> (bytes \<times> go_error option) list \<Rightarrow> bytes \<Rightarrow> 'w
   \<Rightarrow> Session \<Rightarrow> Socks5Server \<Rightarrow> bytes list \<times> 'w \<times> Socks5Server" where
  "pipeEncryptedTunnel C wr lw now reads inp w sess s =
     (let (out, _, s1) = openPump C lw ss_recordTraffic inp sess s;
          (_, (_, w1), s2, _) = sealPump C wr now ss_recordTraffic reads sess (inp, w) s1
      in (out, w1, s2))"

section \<open>The client's end\<close>

text \<open>What one attempt of \<open>handleTunnelConn\<close> reads; a stream is the bytes its peer sends and the writer's state.\<close>

record 'w tunnel_env =
  tn_ma :: multiaddr
  tn_choices :: choices
  tn_Decode :: "string \<Rightarrow> string result"
  tn_NewStream :: "string \<Rightarrow> 'w conn result"
  tn_write :: "'w writer"
  tn_tunnelID :: "string result"
  tn_rnd :: bytes
  tn_now :: time

definition selectTunnelPath :: "'w tunnel_env \<Rightarrow> PathSelector \<Rightarrow> string list \<Rightarrow> (PathPlan \<times> string) result" where
  "selectTunnelPath T sel excludeExitIDs =
     res_bind (SelectRawTunnelPathExcluding (tn_ma T) (tn_choices T) sel excludeExitIDs) (\<lambda>plan.
     if pp_Hops plan = [] then Inl (Errorf ''empty raw tunnel path'')
     else res_bind (tn_Decode T (ph_PeerID (hd (pp_Hops plan)))) (\<lambda>pid. Inr (plan, pid)))"

definition writeTunnelRouteHeader ::
  "'w tunnel_env \<Rightarrow> string \<Rightarrow> PathPlan \<Rightarrow> Socks5Server \<Rightarrow> 'w conn \<Rightarrow> unit result \<times> 'w conn \<times> Socks5Server" where
  "writeTunnelRouteHeader T tunnelID plan s w =
     (case WriteJSONFrame enc_RouteHeader (tn_write T) (tunnelRouteHeader tunnelID plan) w of
        (Inl e, w1) \<Rightarrow> (Inl e, w1, s)
      | (Inr _, w1) \<Rightarrow>
          (Inr (), w1, ss_recordTraffic 0
             (of_nat (length (json_marshal enc_RouteHeader (tunnelRouteHeader tunnelID plan)))) s))"

text \<open>
  An attempt: the session on its stream; or the error that ends the search; or the error, the peer
  to avoid from now on, and whether the path is reported as failed.
\<close>

datatype 'w tunnel_attempt =
    TunnelUp PathPlan Session "'w conn" | TunnelNoPath go_error | TunnelFailed go_error PathPlan string bool

definition tunnelAttempt ::
  "crypto \<Rightarrow> 'w tunnel_env \<Rightarrow> string list \<Rightarrow> PathSelector \<Rightarrow> Socks5Server \<Rightarrow> 'w tunnel_attempt \<times> Socks5Server" where
  "tunnelAttempt C T excludeExitIDs sel s =
     (case selectTunnelPath T sel excludeExitIDs of
        Inl e \<Rightarrow> (TunnelNoPath e, s)
      | Inr (plan, peerID) \<Rightarrow>
          (case tn_NewStream T peerID of
             Inl e \<Rightarrow> (TunnelFailed e plan peerID True, s)
           | Inr w \<Rightarrow>
               (case tn_tunnelID T of
                  Inl e \<Rightarrow> (TunnelFailed e plan (exitOf plan) False, s)
                | Inr tunnelID \<Rightarrow>
                    (case writeTunnelRouteHeader T tunnelID plan s w of
                       (Inl e, _, s1) \<Rightarrow> (TunnelFailed e plan (exitOf plan) True, s1)
                     | (Inr _, w1, s1) \<Rightarrow>
                         (case ClientHandshake C (tn_rnd T) (tn_now T div second) (tn_write T) tunnelID w1 of
                            (Inl e, _) \<Rightarrow> (TunnelFailed e plan (exitOf plan) True, s1)
                          | (Inr sess, w2) \<Rightarrow> (TunnelUp plan sess w2, s1))))))"

text \<open>The loop of \<open>handleTunnelConn\<close>, \<open>n\<close> rounds being left; the plans that failed are returned too.\<close>

fun tunnelLoop ::
  "crypto \<Rightarrow> (nat \<Rightarrow> 'w tunnel_env) \<Rightarrow> nat \<Rightarrow> string list \<Rightarrow> go_error option \<Rightarrow> PathSelector \<Rightarrow> Socks5Server
   \<Rightarrow> (go_error option + PathPlan \<times> Session \<times> 'w conn) \<times> PathSelector \<times> Socks5Server \<times> PathPlan list" where
  "tunnelLoop C env 0 excludeExitIDs lastErr sel s = (Inl lastErr, sel, s, [])"
| "tunnelLoop C env (Suc n) excludeExitIDs lastErr sel s =
     (case tunnelAttempt C (env n) excludeExitIDs sel s of
        (TunnelUp plan sess w, s1) \<Rightarrow>
          (Inr (plan, sess, w), ReportPathSuccess plan (tn_now (env n)) sel, s1, [])
      | (TunnelNoPath e, s1) \<Rightarrow> (Inl (Some e), sel, s1, [])
      | (TunnelFailed e plan avoid report, s1) \<Rightarrow>
          (let sel1 = (if report then ReportPathFailure plan (tn_now (env n)) sel else sel);
               (r, sel2, s2, failed) = tunnelLoop C env n (excludeExitIDs @ [avoid]) (Some e) sel1 s1
           in (r, sel2, s2, plan # failed)))"

definition handleTunnelConn ::
  "crypto \<Rightarrow> (nat \<Rightarrow> 'w tunnel_env) \<Rightarrow> Socks5Server \<Rightarrow> CircuitManager
   \<Rightarrow> (PathPlan \<times> Session \<times> 'w conn) option \<times> CircuitManager \<times> Socks5Server \<times> socks_action list \<times> PathPlan list" where
  "handleTunnelConn C env s m =
     (case tunnelLoop C env (nat (BeginTCPRetries m + 1)) [] None (cm_pathSelector m) s of
        (Inr up, sel, s1, failed) \<Rightarrow> (Some up, m\<lparr>cm_pathSelector := sel\<rparr>, s1, [], failed)
      | (Inl lastErr, sel, s1, failed) \<Rightarrow>
          (None, m\<lparr>cm_pathSelector := sel\<rparr>, s1,
           (case lastErr of None \<Rightarrow> []
            | Some e \<Rightarrow> [SRecord ''socks5_tunnel'' (''open raw tunnel failed: '' @ errorText e)]) @ [SClose], failed))"

section \<open>The exit's end\<close>

text \<open>
  From the route header to the pumps: what the upstream is sent, what is written to the
  tunnel and the traffic; \<open>reads\<close> is what the upstream sends. \<open>None\<close>: the stream is dropped.
\<close>

definition serveRawTunnelE2EWithHeader ::
  "crypto \<Rightarrow> exit_env \<Rightarrow> 'w writer \<Rightarrow> bytes \<Rightarrow> int \<Rightarrow> (bytes \<times> go_error option) list \<Rightarrow> string \<Rightarrow> RouteHeader
   \<Rightarrow> 'w conn \<Rightarrow> ExitService \<Rightarrow> (string \<times> bytes list) option \<times> 'w conn \<times> ExitService" where
  "serveRawTunnelE2EWithHeader C X wr rnd now reads selfID header w s =
     (if \<not> exitAcceptsRoute selfID header then (None, w, s)
      else case ServerHandshake C rnd now wr (rt_TunnelID header) w of
        (Inl _, w1) \<Rightarrow> (None, w1, s)
      | (Inr sess, inp, out) \<Rightarrow>
          (case xe_Dial X (xs_socks5Upstream s) of
             Inl _ \<Rightarrow> (None, (inp, out), s)
           | Inr upstream \<Rightarrow>
               (let lw = (\<lambda>b. if xe_connWrite X upstream b then None else Some (Errorf ''write''));
                    (got, _, s1) = openPump C lw (\<lambda>a b s. xs_recordTraffic s a b) inp sess s;
                    (_, w2, s2, _) = sealPump C wr now (\<lambda>a b s. xs_recordTraffic s a b) reads sess (inp, out) s1
                in (Some (upstream, got), w2, s2))))"

definition serveRawTunnelE2E ::
  "crypto \<Rightarrow> exit_env \<Rightarrow> 'w writer \<Rightarrow> bytes \<Rightarrow> int \<Rightarrow> (bytes \<times> go_error option) list \<Rightarrow> string
   \<Rightarrow> 'w conn \<Rightarrow> ExitService \<Rightarrow> (string \<times> bytes list) option \<times> 'w conn \<times> ExitService" where
  "serveRawTunnelE2E C X wr rnd now reads selfID w s =
     (if xs_socks5Upstream s = [] then (None, w, s)
      else case ReadJSONFrame dec_RouteHeader w of
        (Inl _, w1) \<Rightarrow> (None, w1, s)
      | (Inr header, w1) \<Rightarrow> serveRawTunnelE2EWithHeader C X wr rnd now reads selfID header w1 s)"

section \<open>The exit's SOCKS5 server\<close>

text \<open>\<open>handleConn\<close> of \<open>exit/socks5.go\<close> up to the copying: the address dialled and the connection, if any.\<close>

definition exit_handleConn ::
  "exit_env \<Rightarrow> 'w writer \<Rightarrow> PolicyChecker option \<Rightarrow> 'w conn \<Rightarrow> 'w conn \<times> string option \<times> string option" where
  "exit_handleConn X wr pol w =
     (case exit_handleHandshake wr w of
        (Inl _, w1) \<Rightarrow> (w1, None, None)
      | (Inr (host, port, cmd), w1) \<Rightarrow>
          if cmd \<noteq> 0x01 then (snd (sendExitSocks5Reply wr 0x07 w1), None, None)
          else if checkBeginPolicyLocal (xe_LookupIP X) pol \<lparr>bt_TargetHost = host, bt_TargetPort = uint port\<rparr> \<noteq> ''''
          then (snd (sendExitSocks5Reply wr 0x02 w1), None, None)
          else let addr = JoinHostPort host (show_int (uint port)) in
            (case xe_Dial X addr of
               Inl _ \<Rightarrow> (snd (sendExitSocks5Reply wr 0x05 w1), Some addr, None)
             | Inr remote \<Rightarrow>
                 (case sendExitSocks5Reply wr 0x00 w1 of
                    (Inl _, w2) \<Rightarrow> (w2, Some addr, None)
                  | (Inr _, w2) \<Rightarrow> (w2, Some addr, Some remote))))"

section \<open>Frames of a pump fit\<close>

lemma length_json_esc: "length (json_esc c) \<le> 6"
  by (auto simp: json_esc_def uXXXX_def)

lemma length_json_quote_ascii: "ascii s \<Longrightarrow> length (json_quote s) \<le> 6 * length s + 2"
proof -
  assume "ascii s"
  then have "length (json_quote_body s) \<le> 6 * length s"
  proof (induction s)
    case (Cons c s)
    then show ?case using length_json_esc [of c] by simp
  qed simp
  then show ?thesis by (simp add: json_quote_def)
qed

lemma length_b64_encode: "length (b64_encode b) \<le> 2 * length b + 4"
  by (induction b rule: b64_encode.induct) simp_all

text \<open>The ciphertext is longer than the plaintext by 16 bytes, the tag of Poly1305.\<close>

definition aead_overhead :: "crypto \<Rightarrow> bool" where
  "aead_overhead C \<longleftrightarrow> (\<forall>k n p a. length (aead_seal C k n p a) = length p + 16)"

lemma length_show_int64:
  assumes "int64_ok i"
  shows "length (show_int i) \<le> 20"
proof -
  have "nat \<bar>i\<bar> < 10 ^ Suc 18" using assms by (auto simp: int64_ok_def nat_less_iff)
  from length_show_nat [OF this] show ?thesis by (auto simp: show_int_def)
qed

lemma length_show_u64: "length (show_int (uint (x :: u64))) \<le> 20"
proof -
  have "unat x < 10 ^ Suc 19" using unsigned_less [of x, where ?'a = nat] by simp
  then show ?thesis using length_show_nat [of "unat x" 19] by (simp add: show_int_def)
qed

lemma json_quote_keys:
  "length (json_quote ''type'') = 6" "length (json_quote ''seq'') = 5"
  "length (json_quote ''ciphertext'') = 12" "length (json_quote ''sent_at_unix'') = 14"
  by (simp_all add: json_quote_def json_esc_def)

lemma encrypted_frame_fits:
  assumes "aead_overhead C" and "Seal C now s ty p = Inr (f, s')" and "ascii ty" and "length ty \<le> 20"
    and "int64_ok now" and "length p \<le> TCPDataChunkBytes"
  shows "fits enc_EncryptedFrame f"
proof -
  have f: "ef_Type f = ty" "ef_SentAtUnix f = now" "length (ef_Ciphertext f) = length p + 16"
    using assms(1,2) by (auto simp: Seal_def AEADSeal_def aead_overhead_def split: if_splits)
  have q: "length (json_quote ty) \<le> 122" "length (json_quote (b64_encode (ef_Ciphertext f))) \<le> 12 * length p + 218"
    "0 < length (json_quote ty)"
    using length_json_quote_ascii [OF assms(3)] assms(4) length_b64_encode [of "ef_Ciphertext f"]
      length_json_quote_ascii [OF ascii_b64_encode, of "ef_Ciphertext f"] f(3)
    by (auto simp: json_quote_def)
  have n: "length (show_int (uint (ef_Seq f))) \<le> 20" "length (show_int now) \<le> 20"
    using length_show_u64 length_show_int64 assms(5) by auto
  have "length (json_marshal enc_EncryptedFrame f) \<le> 12 * length p + 500" "0 < length (json_marshal enc_EncryptedFrame f)"
    using q n by (auto simp: json_marshal_def marshal_tree_def enc_EncryptedFrame_def omitempty_def jint_def jbytes_def f json_quote_keys)
  then show ?thesis using assms(6) by (simp add: fits_def MaxJSONFrameSize_def TCPDataChunkBytes_def)
qed

section \<open>What one end sends, the other end receives\<close>

lemma sealed_frame_reads:
  assumes "aead_overhead C" and "Seal C now s ty p = Inr (f, s')" and "ty \<in> {FrameTypeData, FrameTypeClose}"
    and "int64_ok now" and "length p \<le> TCPDataChunkBytes"
  shows "fits enc_EncryptedFrame f" and "ef_Type f = ty"
    and "ReadJSONFrame dec_EncryptedFrame (jsonFrame enc_EncryptedFrame f @ rest, w) = (Inr f, rest, w)"
proof -
  have ty: "ascii ty" "length ty \<le> 20" using assms(3) by (auto simp: FrameType_defs)
  show fit: "fits enc_EncryptedFrame f" by (rule encrypted_frame_fits [OF assms(1,2) ty assms(4,5)])
  show t: "ef_Type f = ty" using assms(2) by (auto simp: Seal_def AEADSeal_def split: if_splits)
  have "ef_SentAtUnix f = now" using assms(2) by (auto simp: Seal_def AEADSeal_def split: if_splits)
  then have "json_unmarshal dec_EncryptedFrame (json_marshal enc_EncryptedFrame f) = Some f"
    using t ty(1) assms(4) by (auto intro!: codec_EncryptedFrame.unmarshal_marshal)
  then show "ReadJSONFrame dec_EncryptedFrame (jsonFrame enc_EncryptedFrame f @ rest, w) = (Inr f, rest, w)"
    by (simp add: ReadJSONFrame_jsonFrame [OF fit])
qed

lemma openPump_data:
  assumes "aead_correct C" "aead_overhead C" "paired a b" and seal: "Seal C now a FrameTypeData p = Inr (f, a')"
    and "int64_ok now" "length p \<le> TCPDataChunkBytes" "p \<noteq> []" "lw p = None"
  shows "openPump C lw tally (jsonFrame enc_EncryptedFrame f @ rest) b s =
    (let (out, r) = openPump C lw tally rest (b\<lparr>rxCounter := txCounter a + 1\<rparr>) (tally (of_nat (length p)) 0 s) in (p # out, r))"
  using sealed_frame_reads(2) [OF assms(2) seal _ assms(5,6)] sealed_frame_reads(3) [OF assms(2) seal _ assms(5,6), of rest "()"] Open_Seal [OF assms(1,3) seal] assms(7,8)
  by (subst openPump.simps) simp

lemma openPump_close:
  assumes "aead_overhead C" and seal: "Seal C now a FrameTypeClose [] = Inr (f, a')" and "int64_ok now"
  shows "openPump C lw tally (jsonFrame enc_EncryptedFrame f @ rest) b s = ([], b, s)"
  using sealed_frame_reads(2) [OF assms(1) seal _ assms(3)] sealed_frame_reads(3) [OF assms(1) seal _ assms(3), of rest "()"]
  by (subst openPump.simps) (simp add: FrameType_defs)

text \<open>The reads of a connection that sends the chunks and then closes, and the chunks that carry data.\<close>

definition localReads :: "bytes list \<Rightarrow> (bytes \<times> go_error option) list" where
  "localReads chunks = map (\<lambda>c. (c, None)) chunks @ [([], Some EOF)]"

definition carried :: "bytes list \<Rightarrow> bytes list" where
  "carried chunks = filter (\<lambda>c. c \<noteq> []) chunks"

definition received :: "(u64 \<Rightarrow> u64 \<Rightarrow> 's \<Rightarrow> 's) \<Rightarrow> bytes list \<Rightarrow> 's \<Rightarrow> 's" where
  "received tally chunks s = fold (\<lambda>c. tally (of_nat (length c)) 0) (carried chunks) s"

definition transmitted :: "(u64 \<Rightarrow> u64 \<Rightarrow> 's \<Rightarrow> 's) \<Rightarrow> bytes list \<Rightarrow> 's \<Rightarrow> 's" where
  "transmitted tally chunks s = fold (\<lambda>c. tally 0 (of_nat (length c))) (carried chunks) s"

lemma pumps_agree:
  assumes laws: "aead_correct C" "aead_overhead C" and now: "int64_ok now"
  shows "paired a b \<Longrightarrow> \<forall>c \<in> set chunks. length c \<le> TCPDataChunkBytes \<and> lw c = None \<Longrightarrow>
    \<exists>sent a'. (\<forall>inp w s. sealPump C bufWrite now tally (localReads chunks) a (inp, w) s =
        (a', (inp, w @ sent), transmitted tally chunks s, True)) \<and>
      (\<forall>rest t. \<exists>b'. openPump C lw tally' (sent @ rest) b t = (carried chunks, b', received tally' chunks t))"
proof (induction chunks arbitrary: a b)
  case Nil
  obtain f where f: "Seal C now a FrameTypeClose [] = Inr (f, a\<lparr>txCounter := txCounter a + 1\<rparr>)"
    using Seal_paired [OF laws(1) Nil.prems(1)] by blast
  have "fits enc_EncryptedFrame f" by (rule sealed_frame_reads [OF laws(2) f _ now]) simp_all
  then show ?case
    using f by (simp add: localReads_def carried_def received_def transmitted_def WriteJSONFrame_fits openPump_close [OF laws(2) f now])
next
  case (Cons c cs)
  show ?case
  proof (cases "c = []")
    case True
    then show ?thesis using Cons.IH [OF Cons.prems(1)] Cons.prems(2) by (simp add: localReads_def carried_def received_def transmitted_def)
  next
    case False
    let ?a = "a\<lparr>txCounter := txCounter a + 1\<rparr>" and ?b = "b\<lparr>rxCounter := txCounter a + 1\<rparr>"
    have len: "length c \<le> TCPDataChunkBytes" "lw c = None" using Cons.prems(2) by auto
    obtain f where f: "Seal C now a FrameTypeData c = Inr (f, ?a)"
      using Seal_paired [OF laws(1) Cons.prems(1)] by blast
    have fit: "fits enc_EncryptedFrame f" by (rule sealed_frame_reads [OF laws(2) f _ now len(1)]) simp
    have pair: "paired ?a ?b" using Cons.prems(1) by simp
    obtain sent a' where s: "\<And>inp w s. sealPump C bufWrite now tally (localReads cs) ?a (inp, w) s =
          (a', (inp, w @ sent), transmitted tally cs s, True)"
      and o: "\<And>rest t. \<exists>b'. openPump C lw tally' (sent @ rest) ?b t = (carried cs, b', received tally' cs t)"
      using Cons.IH [OF pair] Cons.prems(2) by (metis list.set_intros(2))
    have "sealPump C bufWrite now tally (localReads (c # cs)) a (inp, w) s =
        (a', (inp, w @ jsonFrame enc_EncryptedFrame f @ sent), transmitted tally (c # cs) s, True)" for inp w s
      using f fit s False by (simp add: localReads_def transmitted_def carried_def WriteJSONFrame_fits)
    moreover have "\<exists>b'. openPump C lw tally' ((jsonFrame enc_EncryptedFrame f @ sent) @ rest) b t =
        (carried (c # cs), b', received tally' (c # cs) t)" for rest t
      using openPump_data [where lw = lw, OF laws Cons.prems(1) f now len(1) False len(2), of tally' "sent @ rest" t]
        o [of rest "tally' (of_nat (length c)) 0 t"] False
      by (auto simp: carried_def received_def)
    ultimately show ?thesis by blast
  qed
qed

lemma paired_sym: "paired a b \<Longrightarrow> paired b a"
  by (simp add: paired_def)


definition demo_tagged :: crypto where
  "demo_tagged = demo_crypto\<lparr>aead_seal := (\<lambda>k n p a. replicate 16 0 @ p), aead_open := (\<lambda>k n c a. Some (drop 16 c))\<rparr>"

lemma demo_tagged_laws: "aead_correct demo_tagged" "aead_overhead demo_tagged" "hkdf_sized demo_tagged"
  using demo_hkdf_sized by (simp_all add: demo_tagged_def aead_correct_def aead_overhead_def hkdf_sized_def)

lemma demo_tagged_keys:
  "GenerateEphemeralKeyPair demo_tagged r = GenerateEphemeralKeyPair demo_crypto r" "dh_agree demo_tagged = dh_agree demo_crypto"
  by (simp_all add: demo_tagged_def GenerateEphemeralKeyPair_def dh_agree_def fun_eq_iff)

definition demo_header :: RouteHeader where
  "demo_header = \<lparr>rt_Version = 1, rt_TunnelID = ''t'', rt_Path = [''r'', ''e''], rt_HopIndex = 1, rt_TargetExit = ''e''\<rparr>"

definition demo_upstream_service :: ExitService where
  "demo_upstream_service = demo_exit_service\<lparr>xs_socks5Upstream := ''1.1.1.1:443''\<rparr>"


section \<open>Failover over paths\<close>

lemma raw_path_avoids:
  assumes "SelectRawTunnelPathExcluding ma ch p exclude = Inr plan"
  shows "\<forall>h \<in> set (pp_Hops plan). ph_PeerID h \<notin> set exclude" and "exitOf plan \<in> ph_PeerID ` set (pp_Hops plan)"
proof -
  obtain exits where e: "filterExitsWithSelection ma ch p exclude = Inr exits"
    and o: "planOver (filterRelaysExcluding ch p exclude) exits plan"
    using assms by (auto simp: SelectRawTunnelPathExcluding_def planOver_def res_bind_eq_Inr split: if_splits option.splits
        dest!: firstPair_Some) (use hd_in_set in fastforce)
  have "nd_PeerID x \<notin> set exclude" if "x \<in> set exits" for x
    using base_candidates exit_candidates [OF e that] by blast
  then show "\<forall>h \<in> set (pp_Hops plan). ph_PeerID h \<notin> set exclude" "exitOf plan \<in> ph_PeerID ` set (pp_Hops plan)"
    using o relay_candidates by (auto simp: planOver_def directExit_def relayExit_def exitOf_def)
qed

lemma tunnelAttempt_plan:
  assumes "\<And>s pid. tn_Decode T s = Inr pid \<Longrightarrow> pid = s" and "tunnelAttempt C T exclude sel s = (r, s')"
  shows "case r of
      TunnelUp plan _ _ \<Rightarrow> \<forall>h \<in> set (pp_Hops plan). ph_PeerID h \<notin> set exclude
    | TunnelNoPath _ \<Rightarrow> True
    | TunnelFailed _ plan avoid _ \<Rightarrow>
        (\<forall>h \<in> set (pp_Hops plan). ph_PeerID h \<notin> set exclude) \<and> avoid \<in> ph_PeerID ` set (pp_Hops plan)"
proof (cases "selectTunnelPath T sel exclude")
  case (Inl e)
  then show ?thesis using assms(2) by (auto simp: tunnelAttempt_def)
next
  case (Inr pp)
  obtain plan pid where pp: "pp = (plan, pid)" by fastforce
  have sel: "SelectRawTunnelPathExcluding (tn_ma T) (tn_choices T) sel exclude = Inr plan" "pp_Hops plan \<noteq> []"
    "pid = ph_PeerID (hd (pp_Hops plan))"
    using Inr assms(1) by (auto simp: selectTunnelPath_def pp res_bind_eq_Inr split: if_splits)
  have "pid \<in> ph_PeerID ` set (pp_Hops plan)" using sel by simp
  then show ?thesis
    using assms(2) Inr raw_path_avoids [OF sel(1)]
    by (auto simp: tunnelAttempt_def pp split: sum.splits prod.splits tunnel_attempt.splits)
qed

lemma tunnelLoop_failed:
  assumes dec: "\<And>i s pid. tn_Decode (env i) s = Inr pid \<Longrightarrow> pid = s"
  shows "tunnelLoop C env n exclude lastErr sel s = (r, sel', s', failed) \<Longrightarrow>
    length failed \<le> n \<and> distinct failed \<and> (\<forall>plan \<in> set failed. \<forall>h \<in> set (pp_Hops plan). ph_PeerID h \<notin> set exclude) \<and>
    (\<forall>plan sess w. r = Inr (plan, sess, w) \<longrightarrow> plan \<notin> set failed \<and> length failed < n \<and>
       (\<forall>h \<in> set (pp_Hops plan). ph_PeerID h \<notin> set exclude))"
proof (induction n arbitrary: exclude lastErr sel s r sel' s' failed)
  case (Suc n)
  obtain r1 s1 where a: "tunnelAttempt C (env n) exclude sel s = (r1, s1)" by fastforce
  note plan = tunnelAttempt_plan [OF dec a]
  show ?case
  proof (cases r1)
    case (TunnelFailed e plan1 avoid report)
    let ?sel = "if report then ReportPathFailure plan1 (tn_now (env n)) sel else sel"
    obtain r2 sel2 s2 f2 where l: "tunnelLoop C env n (exclude @ [avoid]) (Some e) ?sel s1 = (r2, sel2, s2, f2)"
      by (metis prod_cases4)
    then have "r = r2 \<and> failed = plan1 # f2" using Suc.prems a TunnelFailed by (auto simp: Let_def)
    then show ?thesis using Suc.IH [OF l] plan TunnelFailed by fastforce
  qed (use Suc.prems a plan in auto)
qed simp


definition demo_tunnel_env :: "bytes tunnel_env" where
  "demo_tunnel_env = \<lparr>tn_ma = (\<lambda>_. None), tn_choices = demo_choices, tn_Decode = Inr, tn_NewStream = (\<lambda>_. Inl EOF),
     tn_write = bufWrite, tn_tunnelID = Inr ''t'', tn_rnd = [], tn_now = 5\<rparr>"


end
