(* ===== verification/Chat_Relay.thy ===== *)
theory Chat_Relay
  imports Tunnel Discovery
begin

text \<open>
  The messages of the chat relay protocol, \<open>internal/chatrelay\<close>: what is signed
  (\<open>sign.go\<close>), how the two ends of a session derive their keys and how packets are sealed
  (\<open>crypto.go\<close>). A session goes from a source over one relay to a destination; the relay
  forwards signed requests and sealed packets it cannot read.
\<close>

section \<open>Messages\<close>

record SignatureBlock =
  sb_Algorithm :: string
  sb_Value :: string

record RelayConnectRequest =
  rq_Version :: int
  rq_SessionID :: string
  rq_SrcID :: string
  rq_DstID :: string
  rq_Timestamp :: int
  rq_TTLSec :: int
  rq_Signature :: SignatureBlock

record RelayConnectResponse =
  rp_Version :: int
  rp_SessionID :: string
  rp_SrcID :: string
  rp_DstID :: string
  rp_RelayID :: string
  rp_Accepted :: bool
  rp_ExpireAt :: int
  rp_Signature :: SignatureBlock

text \<open>Request and response of the handshake have the same fields.\<close>

record RelayHandshake =
  rk_Version :: int
  rk_SessionID :: string
  rk_SrcID :: string
  rk_DstID :: string
  rk_EphPub :: string
  rk_CipherSuite :: string
  rk_Timestamp :: int
  rk_Signature :: SignatureBlock

record RelayDataCipher =
  dc_Algorithm :: string
  dc_Nonce :: string
  dc_Ciphertext :: string

record RelayDataFrame =
  rd_Version :: int
  rd_SessionID :: string
  rd_SrcID :: string
  rd_DstID :: string
  rd_PacketSeq :: u64
  rd_Cipher :: RelayDataCipher

record RelayHeartbeat =
  hb_Version :: int
  hb_SessionID :: string
  hb_SrcID :: string
  hb_DstID :: string
  hb_RelayID :: string
  hb_PingID :: string
  hb_SentAt :: int
  hb_Signature :: SignatureBlock

definition noSignature :: SignatureBlock where
  "noSignature = \<lparr>sb_Algorithm = [], sb_Value = []\<rparr>"

section \<open>JSON\<close>

text \<open>A struct field that is not a pointer keeps its zero value when the member is missing or null.\<close>

definition get_struct :: "'a \<Rightarrow> (json \<Rightarrow> 'a option) \<Rightarrow> string \<Rightarrow> (string \<times> json) list \<Rightarrow> 'a option" where
  "get_struct zero dec name fs = (case json_field name fs of JNull \<Rightarrow> Some zero | j \<Rightarrow> dec j)"

definition noCipher :: RelayDataCipher where
  "noCipher = \<lparr>dc_Algorithm = [], dc_Nonce = [], dc_Ciphertext = []\<rparr>"

definition enc_SignatureBlock :: "SignatureBlock \<Rightarrow> json" where
  "enc_SignatureBlock m = JObj [(''algorithm'', JStr (sb_Algorithm m)), (''value'', JStr (sb_Value m))]"

definition dec_SignatureBlock :: "json \<Rightarrow> SignatureBlock option" where
  "dec_SignatureBlock j = Option.bind (json_members j) (\<lambda>fs.
     Option.bind (get_string ''algorithm'' fs) (\<lambda>a.
     map_option (\<lambda>b. \<lparr>sb_Algorithm = a, sb_Value = b\<rparr>)
       (get_string ''value'' fs)))"

definition SignatureBlock_ok :: "SignatureBlock \<Rightarrow> bool" where
  "SignatureBlock_ok m \<longleftrightarrow> ascii (sb_Algorithm m) \<and> ascii (sb_Value m)"

definition enc_RelayConnectRequest :: "RelayConnectRequest \<Rightarrow> json" where
  "enc_RelayConnectRequest m = JObj [(''version'', jint (rq_Version m)),
     (''session_id'', JStr (rq_SessionID m)), (''src_id'', JStr (rq_SrcID m)),
     (''dst_id'', JStr (rq_DstID m)), (''timestamp'', jint (rq_Timestamp m)),
     (''ttl_sec'', jint (rq_TTLSec m)), (''signature'', enc_SignatureBlock (rq_Signature m))]"

definition dec_RelayConnectRequest :: "json \<Rightarrow> RelayConnectRequest option" where
  "dec_RelayConnectRequest j = Option.bind (json_members j) (\<lambda>fs.
     Option.bind (get_int64 ''version'' fs) (\<lambda>a.
     Option.bind (get_string ''session_id'' fs) (\<lambda>b.
     Option.bind (get_string ''src_id'' fs) (\<lambda>c.
     Option.bind (get_string ''dst_id'' fs) (\<lambda>d.
     Option.bind (get_int64 ''timestamp'' fs) (\<lambda>e.
     Option.bind (get_int64 ''ttl_sec'' fs) (\<lambda>f.
     map_option (\<lambda>g. \<lparr>rq_Version = a, rq_SessionID = b, rq_SrcID = c, rq_DstID = d, rq_Timestamp = e, rq_TTLSec = f, rq_Signature = g\<rparr>)
       (get_struct noSignature dec_SignatureBlock ''signature'' fs))))))))"

definition RelayConnectRequest_ok :: "RelayConnectRequest \<Rightarrow> bool" where
  "RelayConnectRequest_ok m \<longleftrightarrow> int64_ok (rq_Version m) \<and>
     ascii (rq_SessionID m) \<and> ascii (rq_SrcID m) \<and> ascii (rq_DstID m) \<and>
     int64_ok (rq_Timestamp m) \<and> int64_ok (rq_TTLSec m) \<and> SignatureBlock_ok (rq_Signature m)"

definition enc_RelayConnectResponse :: "RelayConnectResponse \<Rightarrow> json" where
  "enc_RelayConnectResponse m = JObj [(''version'', jint (rp_Version m)),
     (''session_id'', JStr (rp_SessionID m)), (''src_id'', JStr (rp_SrcID m)),
     (''dst_id'', JStr (rp_DstID m)), (''relay_id'', JStr (rp_RelayID m)),
     (''accepted'', JBool (rp_Accepted m)), (''expire_at'', jint (rp_ExpireAt m)),
     (''signature'', enc_SignatureBlock (rp_Signature m))]"

definition dec_RelayConnectResponse :: "json \<Rightarrow> RelayConnectResponse option" where
  "dec_RelayConnectResponse j = Option.bind (json_members j) (\<lambda>fs.
     Option.bind (get_int64 ''version'' fs) (\<lambda>a.
     Option.bind (get_string ''session_id'' fs) (\<lambda>b.
     Option.bind (get_string ''src_id'' fs) (\<lambda>c.
     Option.bind (get_string ''dst_id'' fs) (\<lambda>d.
     Option.bind (get_string ''relay_id'' fs) (\<lambda>e.
     Option.bind (get_bool ''accepted'' fs) (\<lambda>f.
     Option.bind (get_int64 ''expire_at'' fs) (\<lambda>g.
     map_option (\<lambda>h. \<lparr>rp_Version = a, rp_SessionID = b, rp_SrcID = c, rp_DstID = d, rp_RelayID = e, rp_Accepted = f, rp_ExpireAt = g, rp_Signature = h\<rparr>)
       (get_struct noSignature dec_SignatureBlock ''signature'' fs)))))))))"

definition RelayConnectResponse_ok :: "RelayConnectResponse \<Rightarrow> bool" where
  "RelayConnectResponse_ok m \<longleftrightarrow> int64_ok (rp_Version m) \<and>
     ascii (rp_SessionID m) \<and> ascii (rp_SrcID m) \<and> ascii (rp_DstID m) \<and>
     ascii (rp_RelayID m) \<and> int64_ok (rp_ExpireAt m) \<and> SignatureBlock_ok (rp_Signature m)"

definition enc_RelayHandshake :: "RelayHandshake \<Rightarrow> json" where
  "enc_RelayHandshake m = JObj [(''version'', jint (rk_Version m)),
     (''session_id'', JStr (rk_SessionID m)), (''src_id'', JStr (rk_SrcID m)),
     (''dst_id'', JStr (rk_DstID m)), (''eph_pub'', JStr (rk_EphPub m)),
     (''cipher_suite'', JStr (rk_CipherSuite m)), (''timestamp'', jint (rk_Timestamp m)),
     (''signature'', enc_SignatureBlock (rk_Signature m))]"

definition dec_RelayHandshake :: "json \<Rightarrow> RelayHandshake option" where
  "dec_RelayHandshake j = Option.bind (json_members j) (\<lambda>fs.
     Option.bind (get_int64 ''version'' fs) (\<lambda>a.
     Option.bind (get_string ''session_id'' fs) (\<lambda>b.
     Option.bind (get_string ''src_id'' fs) (\<lambda>c.
     Option.bind (get_string ''dst_id'' fs) (\<lambda>d.
     Option.bind (get_string ''eph_pub'' fs) (\<lambda>e.
     Option.bind (get_string ''cipher_suite'' fs) (\<lambda>f.
     Option.bind (get_int64 ''timestamp'' fs) (\<lambda>g.
     map_option (\<lambda>h. \<lparr>rk_Version = a, rk_SessionID = b, rk_SrcID = c, rk_DstID = d, rk_EphPub = e, rk_CipherSuite = f, rk_Timestamp = g, rk_Signature = h\<rparr>)
       (get_struct noSignature dec_SignatureBlock ''signature'' fs)))))))))"

definition RelayHandshake_ok :: "RelayHandshake \<Rightarrow> bool" where
  "RelayHandshake_ok m \<longleftrightarrow> int64_ok (rk_Version m) \<and> ascii (rk_SessionID m) \<and>
     ascii (rk_SrcID m) \<and> ascii (rk_DstID m) \<and> ascii (rk_EphPub m) \<and>
     ascii (rk_CipherSuite m) \<and> int64_ok (rk_Timestamp m) \<and> SignatureBlock_ok (rk_Signature m)"

definition enc_RelayDataCipher :: "RelayDataCipher \<Rightarrow> json" where
  "enc_RelayDataCipher m = JObj [(''algorithm'', JStr (dc_Algorithm m)), (''nonce'', JStr (dc_Nonce m)),
     (''ciphertext'', JStr (dc_Ciphertext m))]"

definition dec_RelayDataCipher :: "json \<Rightarrow> RelayDataCipher option" where
  "dec_RelayDataCipher j = Option.bind (json_members j) (\<lambda>fs.
     Option.bind (get_string ''algorithm'' fs) (\<lambda>a.
     Option.bind (get_string ''nonce'' fs) (\<lambda>b.
     map_option (\<lambda>c. \<lparr>dc_Algorithm = a, dc_Nonce = b, dc_Ciphertext = c\<rparr>)
       (get_string ''ciphertext'' fs))))"

definition RelayDataCipher_ok :: "RelayDataCipher \<Rightarrow> bool" where
  "RelayDataCipher_ok m \<longleftrightarrow> ascii (dc_Algorithm m) \<and> ascii (dc_Nonce m) \<and>
     ascii (dc_Ciphertext m)"

definition enc_RelayDataFrame :: "RelayDataFrame \<Rightarrow> json" where
  "enc_RelayDataFrame m = JObj [(''version'', jint (rd_Version m)),
     (''session_id'', JStr (rd_SessionID m)), (''src_id'', JStr (rd_SrcID m)),
     (''dst_id'', JStr (rd_DstID m)), (''packet_seq'', jint (uint (rd_PacketSeq m))),
     (''cipher'', enc_RelayDataCipher (rd_Cipher m))]"

definition dec_RelayDataFrame :: "json \<Rightarrow> RelayDataFrame option" where
  "dec_RelayDataFrame j = Option.bind (json_members j) (\<lambda>fs.
     Option.bind (get_int64 ''version'' fs) (\<lambda>a.
     Option.bind (get_string ''session_id'' fs) (\<lambda>b.
     Option.bind (get_string ''src_id'' fs) (\<lambda>c.
     Option.bind (get_string ''dst_id'' fs) (\<lambda>d.
     Option.bind (get_uint 64 ''packet_seq'' fs) (\<lambda>e.
     map_option (\<lambda>f. \<lparr>rd_Version = a, rd_SessionID = b, rd_SrcID = c, rd_DstID = d, rd_PacketSeq = of_int e, rd_Cipher = f\<rparr>)
       (get_struct noCipher dec_RelayDataCipher ''cipher'' fs)))))))"

definition RelayDataFrame_ok :: "RelayDataFrame \<Rightarrow> bool" where
  "RelayDataFrame_ok m \<longleftrightarrow> int64_ok (rd_Version m) \<and> ascii (rd_SessionID m) \<and>
     ascii (rd_SrcID m) \<and> ascii (rd_DstID m) \<and> RelayDataCipher_ok (rd_Cipher m)"

definition enc_RelayHeartbeat :: "RelayHeartbeat \<Rightarrow> json" where
  "enc_RelayHeartbeat m = JObj [(''version'', jint (hb_Version m)),
     (''session_id'', JStr (hb_SessionID m)), (''src_id'', JStr (hb_SrcID m)),
     (''dst_id'', JStr (hb_DstID m)), (''relay_id'', JStr (hb_RelayID m)),
     (''ping_id'', JStr (hb_PingID m)), (''sent_at'', jint (hb_SentAt m)),
     (''signature'', enc_SignatureBlock (hb_Signature m))]"

definition dec_RelayHeartbeat :: "json \<Rightarrow> RelayHeartbeat option" where
  "dec_RelayHeartbeat j = Option.bind (json_members j) (\<lambda>fs.
     Option.bind (get_int64 ''version'' fs) (\<lambda>a.
     Option.bind (get_string ''session_id'' fs) (\<lambda>b.
     Option.bind (get_string ''src_id'' fs) (\<lambda>c.
     Option.bind (get_string ''dst_id'' fs) (\<lambda>d.
     Option.bind (get_string ''relay_id'' fs) (\<lambda>e.
     Option.bind (get_string ''ping_id'' fs) (\<lambda>f.
     Option.bind (get_int64 ''sent_at'' fs) (\<lambda>g.
     map_option (\<lambda>h. \<lparr>hb_Version = a, hb_SessionID = b, hb_SrcID = c, hb_DstID = d, hb_RelayID = e, hb_PingID = f, hb_SentAt = g, hb_Signature = h\<rparr>)
       (get_struct noSignature dec_SignatureBlock ''signature'' fs)))))))))"

definition RelayHeartbeat_ok :: "RelayHeartbeat \<Rightarrow> bool" where
  "RelayHeartbeat_ok m \<longleftrightarrow> int64_ok (hb_Version m) \<and> ascii (hb_SessionID m) \<and>
     ascii (hb_SrcID m) \<and> ascii (hb_DstID m) \<and> ascii (hb_RelayID m) \<and>
     ascii (hb_PingID m) \<and> int64_ok (hb_SentAt m) \<and> SignatureBlock_ok (hb_Signature m)"

lemma toLower_relay_names:
  "toLower ''accepted'' = ''accepted''" "toLower ''algorithm'' = ''algorithm''" "toLower ''cipher'' = ''cipher''" "toLower ''cipher_suite'' = ''cipher_suite''" "toLower ''ciphertext'' = ''ciphertext''" "toLower ''dst_id'' = ''dst_id''" "toLower ''eph_pub'' = ''eph_pub''" "toLower ''expire_at'' = ''expire_at''" "toLower ''nonce'' = ''nonce''" "toLower ''packet_seq'' = ''packet_seq''" "toLower ''ping_id'' = ''ping_id''" "toLower ''relay_id'' = ''relay_id''" "toLower ''sent_at'' = ''sent_at''" "toLower ''session_id'' = ''session_id''" "toLower ''signature'' = ''signature''" "toLower ''src_id'' = ''src_id''" "toLower ''timestamp'' = ''timestamp''" "toLower ''ttl_sec'' = ''ttl_sec''" "toLower ''value'' = ''value''" "toLower ''version'' = ''version''"
  by (simp_all add: toLower_def to_lower_char_def)

lemma get_struct_hit: "json_field name fs = enc v \<Longrightarrow> enc v \<noteq> JNull \<Longrightarrow> dec (enc v) = Some v \<Longrightarrow> get_struct z dec name fs = Some v"
  by (cases "enc v") (auto simp: get_struct_def)

lemmas relay_codec_simps = json_codec_simps toLower_relay_names

interpretation codec_SignatureBlock: json_codec enc_SignatureBlock dec_SignatureBlock SignatureBlock_ok
  by unfold_locales (auto simp: enc_SignatureBlock_def dec_SignatureBlock_def SignatureBlock_ok_def relay_codec_simps)

lemma get_SignatureBlock:
  "json_field name fs = enc_SignatureBlock v \<Longrightarrow> SignatureBlock_ok v \<Longrightarrow> get_struct z dec_SignatureBlock name fs = Some v"
  by (rule get_struct_hit [where enc = enc_SignatureBlock]) (simp_all add: codec_SignatureBlock.dec_enc, simp add: enc_SignatureBlock_def)

lemma enc_SignatureBlock_not_null [simp]: "enc_SignatureBlock v \<noteq> JNull"
  by (simp add: enc_SignatureBlock_def)

interpretation codec_RelayDataCipher: json_codec enc_RelayDataCipher dec_RelayDataCipher RelayDataCipher_ok
  by unfold_locales (auto simp: enc_RelayDataCipher_def dec_RelayDataCipher_def RelayDataCipher_ok_def relay_codec_simps)

lemma get_RelayDataCipher:
  "json_field name fs = enc_RelayDataCipher v \<Longrightarrow> RelayDataCipher_ok v \<Longrightarrow> get_struct z dec_RelayDataCipher name fs = Some v"
  by (rule get_struct_hit [where enc = enc_RelayDataCipher]) (simp_all add: codec_RelayDataCipher.dec_enc, simp add: enc_RelayDataCipher_def)

lemma enc_RelayDataCipher_not_null [simp]: "enc_RelayDataCipher v \<noteq> JNull"
  by (simp add: enc_RelayDataCipher_def)

interpretation codec_RelayConnectRequest: json_codec enc_RelayConnectRequest dec_RelayConnectRequest RelayConnectRequest_ok
  by unfold_locales
     (auto simp: enc_RelayConnectRequest_def dec_RelayConnectRequest_def RelayConnectRequest_ok_def relay_codec_simps get_SignatureBlock get_RelayDataCipher
        codec_SignatureBlock.enc_ok codec_RelayDataCipher.enc_ok)

interpretation codec_RelayConnectResponse: json_codec enc_RelayConnectResponse dec_RelayConnectResponse RelayConnectResponse_ok
  by unfold_locales
     (auto simp: enc_RelayConnectResponse_def dec_RelayConnectResponse_def RelayConnectResponse_ok_def relay_codec_simps get_SignatureBlock get_RelayDataCipher
        codec_SignatureBlock.enc_ok codec_RelayDataCipher.enc_ok)

interpretation codec_RelayHandshake: json_codec enc_RelayHandshake dec_RelayHandshake RelayHandshake_ok
  by unfold_locales
     (auto simp: enc_RelayHandshake_def dec_RelayHandshake_def RelayHandshake_ok_def relay_codec_simps get_SignatureBlock get_RelayDataCipher
        codec_SignatureBlock.enc_ok codec_RelayDataCipher.enc_ok)

interpretation codec_RelayDataFrame: json_codec enc_RelayDataFrame dec_RelayDataFrame RelayDataFrame_ok
  by unfold_locales
     (auto simp: enc_RelayDataFrame_def dec_RelayDataFrame_def RelayDataFrame_ok_def relay_codec_simps get_SignatureBlock get_RelayDataCipher
        codec_SignatureBlock.enc_ok codec_RelayDataCipher.enc_ok)

interpretation codec_RelayHeartbeat: json_codec enc_RelayHeartbeat dec_RelayHeartbeat RelayHeartbeat_ok
  by unfold_locales
     (auto simp: enc_RelayHeartbeat_def dec_RelayHeartbeat_def RelayHeartbeat_ok_def relay_codec_simps get_SignatureBlock get_RelayDataCipher
        codec_SignatureBlock.enc_ok codec_RelayDataCipher.enc_ok)

section \<open>What is signed\<close>

definition signPrefixConnect :: string where "signPrefixConnect = ''mesh-proxy/chatrelay/v1/connect'' @ [CHR 0x0A]"
definition signPrefixConnectResp :: string where
  "signPrefixConnectResp = ''mesh-proxy/chatrelay/v1/connect-response'' @ [CHR 0x0A]"
definition signPrefixHandshake :: string where "signPrefixHandshake = ''mesh-proxy/chatrelay/v1/handshake'' @ [CHR 0x0A]"
definition signPrefixHeartbeat :: string where "signPrefixHeartbeat = ''mesh-proxy/chatrelay/v1/heartbeat'' @ [CHR 0x0A]"

text \<open>The fields of a canonical form, separated by the byte 0x1e.\<close>

fun sepJoin :: "string list \<Rightarrow> string" where
  "sepJoin [] = []"
| "sepJoin [x] = x"
| "sepJoin (x # xs) = x @ CHR 0x1E # sepJoin xs"

definition showBool :: "bool \<Rightarrow> string" where
  "showBool b = (if b then ''true'' else ''false'')"

definition connectFields :: "RelayConnectRequest \<Rightarrow> string list" where
  "connectFields r = [show_int (rq_Version r), rq_SessionID r, rq_SrcID r, rq_DstID r,
     show_int (rq_Timestamp r), show_int (rq_TTLSec r)]"

definition CanonicalConnect :: "RelayConnectRequest \<Rightarrow> bytes" where
  "CanonicalConnect r = bytes_of_string (sepJoin (connectFields r))"

definition connectResponseFields :: "RelayConnectResponse \<Rightarrow> string list" where
  "connectResponseFields r = [show_int (rp_Version r), rp_SessionID r, rp_SrcID r, rp_DstID r, rp_RelayID r,
     showBool (rp_Accepted r), show_int (rp_ExpireAt r)]"

definition CanonicalConnectResponse :: "RelayConnectResponse \<Rightarrow> bytes" where
  "CanonicalConnectResponse r = bytes_of_string (sepJoin (connectResponseFields r))"

definition handshakeFields :: "RelayHandshake \<Rightarrow> string list" where
  "handshakeFields r = [show_int (rk_Version r), rk_SessionID r, rk_SrcID r, rk_DstID r, rk_EphPub r,
     rk_CipherSuite r, show_int (rk_Timestamp r)]"

definition CanonicalHandshake :: "RelayHandshake \<Rightarrow> bytes" where
  "CanonicalHandshake r = bytes_of_string (sepJoin (handshakeFields r))"

definition heartbeatFields :: "RelayHeartbeat \<Rightarrow> string list" where
  "heartbeatFields r = [show_int (hb_Version r), hb_SessionID r, hb_SrcID r, hb_DstID r, hb_RelayID r,
     hb_PingID r, show_int (hb_SentAt r)]"

definition CanonicalHeartbeat :: "RelayHeartbeat \<Rightarrow> bytes" where
  "CanonicalHeartbeat r = bytes_of_string (sepJoin (heartbeatFields r))"

definition SignBytes :: "identity \<Rightarrow> bytes \<Rightarrow> string \<Rightarrow> bytes \<Rightarrow> SignatureBlock result" where
  "SignBytes I priv prefix canonical =
     res_bind (id_Sign I priv (bytes_of_string prefix @ canonical)) (\<lambda>sig.
     Inr \<lparr>sb_Algorithm = ''ed25519'', sb_Value = b64_encode sig\<rparr>)"

text \<open>\<open>None\<close> is a nil error.\<close>

definition VerifyEd25519 :: "identity \<Rightarrow> bytes \<Rightarrow> string \<Rightarrow> bytes \<Rightarrow> string \<Rightarrow> go_error option" where
  "VerifyEd25519 I pub prefix canonical sigB64 =
     (case b64_decode (trimSpace sigB64) of
        None \<Rightarrow> Some (Errorf ''invalid signature encoding'')
      | Some sig \<Rightarrow>
          if sig = [] then Some (Errorf ''invalid signature encoding'')
          else case id_Verify I pub (bytes_of_string prefix @ canonical) sig of
            Inl e \<Rightarrow> Some e
          | Inr ok \<Rightarrow> if ok then None else Some (Errorf ''signature verification failed''))"

section \<open>Keys and packets\<close>

definition CipherSuiteX25519Chacha :: string where "CipherSuiteX25519Chacha = ''x25519-chacha20poly1305''"

text \<open>\<open>H secret salt info n\<close> reads \<open>n\<close> bytes of HKDF with SHA-256.\<close>

type_synonym hkdf = "bytes \<Rightarrow> bytes \<Rightarrow> bytes \<Rightarrow> nat \<Rightarrow> bytes"

definition DeriveRelaySessionKeys :: "hkdf \<Rightarrow> bytes \<Rightarrow> string \<Rightarrow> bool \<Rightarrow> (bytes \<times> bytes) result" where
  "DeriveRelaySessionKeys H sharedSecret sessionID initiator =
     (if length sharedSecret \<noteq> X25519KeySize then Inl (Errorf ''invalid shared secret length'')
      else if sessionID = [] then Inl (Errorf ''empty session_id'')
      else let salt = sha256 (bytes_of_string ''chatrelay/v1/session'' @ [0] @ bytes_of_string sessionID);
               fwd = H sharedSecret salt (bytes_of_string ''chatrelay/v1/fwd'') AEADKeySize;
               bwd = H sharedSecret salt (bytes_of_string ''chatrelay/v1/bwd'') AEADKeySize
           in Inr (if initiator then (fwd, bwd) else (bwd, fwd)))"

definition dataAAD :: "string \<Rightarrow> bytes" where
  "dataAAD sessionID = bytes_of_string ''chatrelay/v1/data'' @ [0] @ bytes_of_string sessionID"

definition SealDataFrame :: "crypto \<Rightarrow> bytes \<Rightarrow> string \<Rightarrow> u64 \<Rightarrow> bytes \<Rightarrow> (bytes \<times> bytes) result" where
  "SealDataFrame C tx sessionID packetSeq plaintext =
     (if length tx \<noteq> AEADKeySize then Inl (Errorf ''invalid tx key'')
      else let nonce = BuildAEADNonce ''relay-v1'' packetSeq
           in Inr (nonce, aead_seal C tx nonce plaintext (dataAAD sessionID)))"

text \<open>
  The nonce comes from the frame. The library panics on a nonce that is not twelve bytes long; the
  sequence number is not used.
\<close>

definition OpenDataFrame :: "crypto \<Rightarrow> bytes \<Rightarrow> string \<Rightarrow> u64 \<Rightarrow> bytes \<Rightarrow> bytes \<Rightarrow> bytes result" where
  "OpenDataFrame C rx sessionID packetSeq nonce ciphertext =
     (if length rx \<noteq> AEADKeySize then Inl (Errorf ''invalid rx key'')
      else if length nonce \<noteq> AEADNonceSize then Inl Panic
      else of_option (Errorf ''chacha20poly1305: message authentication failed'')
             (aead_open C rx nonce ciphertext (dataAAD sessionID)))"

section \<open>Lemmas\<close>

text \<open>A field that cannot be confused with the separator.\<close>

definition sepFree :: "string \<Rightarrow> bool" where
  "sepFree s \<longleftrightarrow> CHR 0x1E \<notin> set s"

lemma sepFree_simps [simp]: "sepFree []" "sepFree (c # s) \<longleftrightarrow> c \<noteq> CHR 0x1E \<and> sepFree s" "sepFree (s @ t) \<longleftrightarrow> sepFree s \<and> sepFree t"
  by (auto simp: sepFree_def)

lemma sepFree_show [simp]: "sepFree (show_int i)" "sepFree (showBool b)"
proof -
  have "sepFree s" if "list_all is_digit s" for s
    using that by (induction s) (auto simp: is_digit_def)
  from this [OF show_nat_digits] show "sepFree (show_int i)" by (simp add: show_int_def)
  show "sepFree (showBool b)" by (simp add: showBool_def)
qed

lemma sepFree_split:
  assumes "sepFree x" "sepFree y" "x @ CHR 0x1E # r = y @ CHR 0x1E # s"
  shows "x = y \<and> r = s"
  using assms
proof (induction x arbitrary: y)
  case Nil
  then show ?case by (cases y) auto
next
  case (Cons c x)
  then show ?case by (cases y) auto
qed

lemma sepJoin_inject:
  "list_all sepFree xs \<Longrightarrow> list_all sepFree ys \<Longrightarrow> length xs = length ys \<Longrightarrow> sepJoin xs = sepJoin ys \<Longrightarrow> xs = ys"
proof (induction xs arbitrary: ys rule: sepJoin.induct)
  case (3 x x' xs)
  obtain y y' ys' where ys: "ys = y # y' # ys'"
    using 3(4) by (metis length_Suc_conv)
  have "x = y \<and> sepJoin (x' # xs) = sepJoin (y' # ys')"
    using sepFree_split [of x y "sepJoin (x' # xs)" "sepJoin (y' # ys')"] 3(2,3,5) by (simp add: ys)
  then show ?case using 3(1) [of "y' # ys'"] 3(2,3,4) by (simp add: ys)
next
  case (2 x)
  then obtain y where "ys = [y]" by (cases ys) auto
  then show ?case using 2 by simp
qed simp

lemma show_int_inject [simp]: "show_int i = show_int j \<longleftrightarrow> i = j"
  by (metis option.inject parse_show_int)

lemma showBool_inject [simp]: "showBool a = showBool b \<longleftrightarrow> a = b"
  by (simp add: showBool_def)

section \<open>Signatures verify\<close>

lemma trimSpace_id: "\<forall>c \<in> set s. \<not> is_space c \<Longrightarrow> trimSpace s = s"
proof -
  have d: "\<forall>c \<in> set xs. \<not> is_space c \<Longrightarrow> dropWhile is_space xs = xs" for xs by (cases xs) auto
  show "\<forall>c \<in> set s. \<not> is_space c \<Longrightarrow> ?thesis" by (simp add: trimSpace_def d [of s] d [of "rev s"])
qed

lemma b64_char_not_space [simp]: "n < 64 \<Longrightarrow> \<not> is_space (b64_char n)"
  by (auto simp: b64_char_def is_space_def)

lemma trimSpace_b64 [simp]: "trimSpace (b64_encode b) = b64_encode b"
proof (rule trimSpace_id)
  show "\<forall>c \<in> set (b64_encode b). \<not> is_space c"
    by (induction b rule: b64_encode.induct) (simp_all, simp_all add: is_space_def)
qed

lemma b64_encode_nil [simp]: "b64_encode b = [] \<longleftrightarrow> b = []"
  by (cases b rule: b64_encode.cases) simp_all

text \<open>A private key that signs, with signatures that are not empty and verify under its public key.\<close>

definition signs :: "identity \<Rightarrow> bytes \<Rightarrow> bool" where
  "signs I k \<longleftrightarrow> (\<forall>m. \<exists>s. s \<noteq> [] \<and> id_Sign I k m = Inr s \<and> id_Verify I (id_Public I k) m s = Inr True)"

lemma sign_verify:
  assumes "signs I k"
  shows "\<exists>sig. SignBytes I k prefix m = Inr sig \<and> trimSpace (sb_Algorithm sig) \<noteq> [] \<and> trimSpace (sb_Value sig) \<noteq> [] \<and>
    VerifyEd25519 I (id_Public I k) prefix m (sb_Value sig) = None"
proof -
  obtain s where "s \<noteq> []" "id_Sign I k (bytes_of_string prefix @ m) = Inr s" "id_Verify I (id_Public I k) (bytes_of_string prefix @ m) s = Inr True"
    using assms unfolding signs_def by meson
  then show ?thesis by (simp add: SignBytes_def VerifyEd25519_def) (simp add: trimSpace_def is_space_def)
qed

text \<open>The signature is not part of what is signed.\<close>

lemma canonical_unsigned [simp]:
  "CanonicalConnect (q\<lparr>rq_Signature := g\<rparr>) = CanonicalConnect q"
  "CanonicalConnectResponse (p\<lparr>rp_Signature := g\<rparr>) = CanonicalConnectResponse p"
  "CanonicalHandshake (k\<lparr>rk_Signature := g\<rparr>) = CanonicalHandshake k"
  "CanonicalHeartbeat (h\<lparr>hb_Signature := g\<rparr>) = CanonicalHeartbeat h"
  by (simp_all add: CanonicalConnect_def CanonicalConnectResponse_def CanonicalHandshake_def CanonicalHeartbeat_def
      connectFields_def connectResponseFields_def handshakeFields_def heartbeatFields_def)

lemma demo_signs: "k \<noteq> [] \<Longrightarrow> signs demo_identity k"
  by (simp add: signs_def demo_identity_def)

section \<open>Signatures bind the message\<close>

text \<open>The four kinds of signed message and the bytes that are signed.\<close>

datatype relay_message =
    MsgConnect RelayConnectRequest | MsgConnectResponse RelayConnectResponse
  | MsgHandshake RelayHandshake | MsgHeartbeat RelayHeartbeat

fun signedBytes :: "relay_message \<Rightarrow> bytes" where
  "signedBytes (MsgConnect r) = bytes_of_string signPrefixConnect @ CanonicalConnect r"
| "signedBytes (MsgConnectResponse r) = bytes_of_string signPrefixConnectResp @ CanonicalConnectResponse r"
| "signedBytes (MsgHandshake r) = bytes_of_string signPrefixHandshake @ CanonicalHandshake r"
| "signedBytes (MsgHeartbeat r) = bytes_of_string signPrefixHeartbeat @ CanonicalHeartbeat r"

fun messageFields :: "relay_message \<Rightarrow> string list" where
  "messageFields (MsgConnect r) = connectFields r"
| "messageFields (MsgConnectResponse r) = connectResponseFields r"
| "messageFields (MsgHandshake r) = handshakeFields r"
| "messageFields (MsgHeartbeat r) = heartbeatFields r"

fun unsigned :: "relay_message \<Rightarrow> relay_message" where
  "unsigned (MsgConnect r) = MsgConnect (r\<lparr>rq_Signature := noSignature\<rparr>)"
| "unsigned (MsgConnectResponse r) = MsgConnectResponse (r\<lparr>rp_Signature := noSignature\<rparr>)"
| "unsigned (MsgHandshake r) = MsgHandshake (r\<lparr>rk_Signature := noSignature\<rparr>)"
| "unsigned (MsgHeartbeat r) = MsgHeartbeat (r\<lparr>hb_Signature := noSignature\<rparr>)"

lemmas signPrefix_defs = signPrefixConnect_def signPrefixConnectResp_def signPrefixHandshake_def signPrefixHeartbeat_def
lemmas canonical_defs = CanonicalConnect_def CanonicalConnectResponse_def CanonicalHandshake_def CanonicalHeartbeat_def

lemma signedBytes_text:
  "signedBytes m = bytes_of_string ((case m of MsgConnect _ \<Rightarrow> signPrefixConnect | MsgConnectResponse _ \<Rightarrow> signPrefixConnectResp
     | MsgHandshake _ \<Rightarrow> signPrefixHandshake | MsgHeartbeat _ \<Rightarrow> signPrefixHeartbeat) @ sepJoin (messageFields m))"
  by (cases m) (simp_all add: canonical_defs)

lemma fields_determine:
  "messageFields m = messageFields n \<Longrightarrow> (case (m, n) of
      (MsgConnect _, MsgConnect _) \<Rightarrow> True | (MsgConnectResponse _, MsgConnectResponse _) \<Rightarrow> True
    | (MsgHandshake _, MsgHandshake _) \<Rightarrow> True | (MsgHeartbeat _, MsgHeartbeat _) \<Rightarrow> True | _ \<Rightarrow> False)
   \<Longrightarrow> unsigned m = unsigned n"
  by (cases m; cases n)
     (auto simp: connectFields_def connectResponseFields_def handshakeFields_def heartbeatFields_def intro: RelayConnectRequest.equality
       RelayConnectResponse.equality RelayHandshake.equality RelayHeartbeat.equality)


text \<open>A request and a response of a demonstration session.\<close>

definition demo_connect :: RelayConnectRequest where
  "demo_connect = \<lparr>rq_Version = 1, rq_SessionID = ''6ba7b810'', rq_SrcID = ''12D3KooWAQ=='', rq_DstID = ''12D3KooWAg=='',
     rq_Timestamp = 1000, rq_TTLSec = 3600, rq_Signature = noSignature\<rparr>"


section \<open>Transmission\<close>

text \<open>
  What \<open>ReadJSONFrame\<close> gives for a value sent with \<open>WriteJSONFrame\<close> over a stream that
  loses nothing: nothing when the frame is too large or the text cannot be decoded.
\<close>

definition wire :: "('a \<Rightarrow> json) \<Rightarrow> (json \<Rightarrow> 'b option) \<Rightarrow> 'a \<Rightarrow> 'b option" where
  "wire enc dec v = (if fits enc v then json_unmarshal dec (json_marshal enc v) else None)"

lemma wire_is_frame:
  "fits enc v \<Longrightarrow> fst (ReadJSONFrame dec (snd (snd (WriteJSONFrame enc bufWrite v (r, []))), w)) =
     of_option (Errorf ''json'') (wire enc dec v)"
  using ReadJSONFrame_jsonFrame [of enc v dec "[]" w] by (simp add: WriteJSONFrame_fits wire_def)

text \<open>Every relay message whose strings are ASCII and that fits a frame arrives as it was sent.\<close>

lemma wire_relay:
  "RelayConnectRequest_ok q \<Longrightarrow> fits enc_RelayConnectRequest q \<Longrightarrow> wire enc_RelayConnectRequest dec_RelayConnectRequest q = Some q"
  "RelayConnectResponse_ok p \<Longrightarrow> fits enc_RelayConnectResponse p \<Longrightarrow> wire enc_RelayConnectResponse dec_RelayConnectResponse p = Some p"
  "RelayHandshake_ok k \<Longrightarrow> fits enc_RelayHandshake k \<Longrightarrow> wire enc_RelayHandshake dec_RelayHandshake k = Some k"
  "RelayDataFrame_ok d \<Longrightarrow> fits enc_RelayDataFrame d \<Longrightarrow> wire enc_RelayDataFrame dec_RelayDataFrame d = Some d"
  "RelayHeartbeat_ok h \<Longrightarrow> fits enc_RelayHeartbeat h \<Longrightarrow> wire enc_RelayHeartbeat dec_RelayHeartbeat h = Some h"
  by (simp_all add: wire_def codec_RelayConnectRequest.unmarshal_marshal codec_RelayConnectResponse.unmarshal_marshal
      codec_RelayHandshake.unmarshal_marshal codec_RelayDataFrame.unmarshal_marshal codec_RelayHeartbeat.unmarshal_marshal)


section \<open>Packets open\<close>

lemma open_sealed:
  assumes "aead_correct C" "SealDataFrame C tx sid seq p = Inr (nonce, ct)"
  shows "OpenDataFrame C tx sid seq' nonce ct = Inr p"
  using assms by (auto simp: SealDataFrame_def OpenDataFrame_def Let_def aead_correct_def length_BuildAEADNonce split: if_splits)

lemma DeriveRelaySessionKeys_agree:
  assumes "\<And>s salt i n. length (H s salt i n) = n" "length shared = X25519KeySize" "sid \<noteq> []"
  shows "\<exists>a b. DeriveRelaySessionKeys H shared sid True = Inr (a, b) \<and> DeriveRelaySessionKeys H shared sid False = Inr (b, a) \<and>
    length a = AEADKeySize \<and> length b = AEADKeySize"
  using assms by (simp add: DeriveRelaySessionKeys_def Let_def)

end
