(* ===== verification/Chat_Store.thy ===== *)
theory Chat_Store
  imports Chat_Relay "HOL-Library.Product_Lexorder" "HOL-Library.List_Lexorder" "HOL-Library.Char_ord"
    "HOL-Library.Option_ord"
begin

text \<open>
  The database of the chat service, \<open>internal/chat\<close>: the records of \<open>types.go\<close>, and the operations
  of \<open>message_store.go\<close>, \<open>conversation_store.go\<close>, \<open>request_store.go\<close>, \<open>direct_store.go\<close> and the peers of
  \<open>store.go\<close>. A table is the list of its rows in the order they were inserted; each SQL statement of the
  source is written out as the update it makes (\<open>INSERT OR REPLACE\<close> deletes every row that agrees with
  the new one on a unique column and appends it). Where \<open>ORDER BY\<close> leaves the order of two rows open they
  keep the order of the table. Statements do not fail, except that \<open>database/sql\<close> refuses an argument of
  type \<open>uint64\<close> whose highest bit is set.
\<close>

named_theorems chat_consts

section \<open>Constants\<close>

definition MessageTypeSessionRequest :: string where [chat_consts]: "MessageTypeSessionRequest = ''session_request''"
definition MessageTypeSessionAccept :: string where [chat_consts]: "MessageTypeSessionAccept = ''session_accept''"
definition MessageTypeSessionReject :: string where [chat_consts]: "MessageTypeSessionReject = ''session_reject''"
definition MessageTypeSessionAcceptAck :: string where [chat_consts]: "MessageTypeSessionAcceptAck = ''session_accept_ack''"
definition MessageTypeChatText :: string where [chat_consts]: "MessageTypeChatText = ''chat_text''"
definition MessageTypeChatFile :: string where [chat_consts]: "MessageTypeChatFile = ''chat_file''"
definition MessageTypeGroupInviteNote :: string where [chat_consts]: "MessageTypeGroupInviteNote = ''group_invite_notice''"
definition MessageTypeChatSyncRequest :: string where [chat_consts]: "MessageTypeChatSyncRequest = ''chat_sync_request''"
definition MessageTypeChatSyncResponse :: string where [chat_consts]: "MessageTypeChatSyncResponse = ''chat_sync_response''"
definition MessageTypeDeliveryAck :: string where [chat_consts]: "MessageTypeDeliveryAck = ''delivery_ack''"
definition MessageTypeMessageRevoke :: string where [chat_consts]: "MessageTypeMessageRevoke = ''message_revoke''"
definition MessageTypeRetentionUpdate :: string where [chat_consts]: "MessageTypeRetentionUpdate = ''retention_update''"

definition RequestStatePending :: string where [chat_consts]: "RequestStatePending = ''pending''"
definition RequestStateAccepted :: string where [chat_consts]: "RequestStateAccepted = ''accepted''"
definition RequestStateRejected :: string where [chat_consts]: "RequestStateRejected = ''rejected''"
definition RequestStateBlocked :: string where [chat_consts]: "RequestStateBlocked = ''blocked''"

definition ConversationStateActive :: string where [chat_consts]: "ConversationStateActive = ''active''"
definition ConversationStateNoFriend :: string where [chat_consts]: "ConversationStateNoFriend = ''no_friend''"

definition TransportModeDirect :: string where [chat_consts]: "TransportModeDirect = ''direct''"
definition TransportModeServer :: string where [chat_consts]: "TransportModeServer = ''server''"
definition TransportModeOfflineStore :: string where [chat_consts]: "TransportModeOfflineStore = ''offline_store''"

definition MessageStateLocalOnly :: string where [chat_consts]: "MessageStateLocalOnly = ''local_only''"
definition MessageStateSentToTransport :: string where [chat_consts]: "MessageStateSentToTransport = ''sent_to_transport''"
definition MessageStateDeliveredRemote :: string where [chat_consts]: "MessageStateDeliveredRemote = ''delivered_remote''"
definition MessageStateReceived :: string where [chat_consts]: "MessageStateReceived = ''received''"
definition MessageStateQueuedForRetry :: string where [chat_consts]: "MessageStateQueuedForRetry = ''queued_for_retry''"

definition TransportKindNative :: string where [chat_consts]: "TransportKindNative = ''native''"
definition RelayStatusNone :: string where [chat_consts]: "RelayStatusNone = ''none''"

definition MinRetentionMinutes :: int where "MinRetentionMinutes = 1"
definition MaxRetentionMinutes :: int where "MaxRetentionMinutes = 60 * 24 * 365"
definition MaxChatFileBytes :: nat where "MaxChatFileBytes = 67108864"

section \<open>Records\<close>

record Message =
  ms_MsgID :: string
  ms_ConversationID :: string
  ms_SenderPeerID :: string
  ms_ReceiverPeerID :: string
  ms_Direction :: string
  ms_MsgType :: string
  ms_Plaintext :: string
  ms_FileName :: string
  ms_MIMEType :: string
  ms_FileSize :: int
  ms_FileCID :: string
  ms_TransportMode :: string
  ms_State :: string
  ms_Counter :: u64
  ms_CreatedAt :: time
  ms_DeliveredAt :: time
  ms_TransportKind :: string
  ms_RelayStatus :: string
  ms_UpstreamMessageID :: string
  ms_ClientMsgID :: string
  ms_AckPending :: bool
  ms_LastRelayAt :: time

definition zeroMessage :: Message where
  "zeroMessage = \<lparr>ms_MsgID = [], ms_ConversationID = [], ms_SenderPeerID = [], ms_ReceiverPeerID = [], ms_Direction = [],
     ms_MsgType = [], ms_Plaintext = [], ms_FileName = [], ms_MIMEType = [], ms_FileSize = 0, ms_FileCID = [],
     ms_TransportMode = [], ms_State = [], ms_Counter = 0, ms_CreatedAt = 0, ms_DeliveredAt = 0, ms_TransportKind = [],
     ms_RelayStatus = [], ms_UpstreamMessageID = [], ms_ClientMsgID = [], ms_AckPending = False, ms_LastRelayAt = 0\<rparr>"

record Conversation =
  cv_ConversationID :: string
  cv_PeerID :: string
  cv_State :: string
  cv_LastMessageAt :: time
  cv_LastMessage :: string
  cv_LastTransportMode :: string
  cv_UnreadCount :: int
  cv_RetentionMinutes :: int
  cv_RetentionSyncState :: string
  cv_RetentionSyncedAt :: time
  cv_CreatedAt :: time
  cv_UpdatedAt :: time
  cv_UpstreamConversationID :: string
  cv_LastUpstreamSyncSeq :: u64

definition zeroConversation :: Conversation where
  "zeroConversation = \<lparr>cv_ConversationID = [], cv_PeerID = [], cv_State = [], cv_LastMessageAt = 0, cv_LastMessage = [],
     cv_LastTransportMode = [], cv_UnreadCount = 0, cv_RetentionMinutes = 0, cv_RetentionSyncState = [],
     cv_RetentionSyncedAt = 0, cv_CreatedAt = 0, cv_UpdatedAt = 0, cv_UpstreamConversationID = [],
     cv_LastUpstreamSyncSeq = 0\<rparr>"

record sessionState =
  sx_ConversationID :: string
  sx_PeerID :: string
  sx_SendKey :: bytes
  sx_RecvKey :: bytes
  sx_SendCounter :: u64
  sx_RecvCounter :: u64

record Request =
  fq_RequestID :: string
  fq_FromPeerID :: string
  fq_ToPeerID :: string
  fq_State :: string
  fq_IntroText :: string
  fq_Nickname :: string
  fq_Bio :: string
  fq_Avatar :: string
  fq_RetentionMinutes :: int
  fq_RemoteChatKexPub :: string
  fq_ConversationID :: string
  fq_LastTransportMode :: string
  fq_RetryCount :: int
  fq_NextRetryAt :: time
  fq_RetryJobStatus :: string
  fq_CreatedAt :: time
  fq_UpdatedAt :: time

definition zeroRequest :: Request where
  "zeroRequest = \<lparr>fq_RequestID = [], fq_FromPeerID = [], fq_ToPeerID = [], fq_State = [], fq_IntroText = [], fq_Nickname = [],
     fq_Bio = [], fq_Avatar = [], fq_RetentionMinutes = 0, fq_RemoteChatKexPub = [], fq_ConversationID = [],
     fq_LastTransportMode = [], fq_RetryCount = 0, fq_NextRetryAt = 0, fq_RetryJobStatus = [], fq_CreatedAt = 0,
     fq_UpdatedAt = 0\<rparr>"

text \<open>The binding columns of the peers table are not modelled.\<close>

record Contact =
  ck_PeerID :: string
  ck_Nickname :: string
  ck_Bio :: string
  ck_Avatar :: string
  ck_CID :: string
  ck_RemoteNickname :: string
  ck_RetentionMinutes :: int
  ck_Blocked :: bool
  ck_LastSeenAt :: time
  ck_UpdatedAt :: time

record Profile =
  pf_PeerID :: string
  pf_Nickname :: string
  pf_Bio :: string
  pf_Avatar :: string
  pf_AvatarCID :: string
  pf_ChatKexPub :: string
  pf_CreatedAt :: time

text \<open>The rows of the tables of pending jobs.\<close>

record outboxJob =
  oj_JobID :: string
  oj_PeerID :: string
  oj_MsgID :: string
  oj_Status :: string
  oj_RetryCount :: int
  oj_NextRetryAt :: time
  oj_LastTransportAttempt :: time

record revokeJob =
  vj_JobID :: string
  vj_ConversationID :: string
  vj_PeerID :: string
  vj_MsgID :: string
  vj_Status :: string
  vj_RetryCount :: int
  vj_NextRetryAt :: time
  vj_LastTransportAttempt :: time
  vj_CreatedAt :: time

record friendJob =
  fj_JobID :: string
  fj_PeerID :: string
  fj_Status :: string
  fj_RetryCount :: int
  fj_NextRetryAt :: time
  fj_LastTransportAttempt :: time
  fj_CreatedAt :: time

text \<open>The item of a message's row that a retry or a synchronisation reads.\<close>

record outboxRetryItem =
  oi_JobID :: string
  oi_PeerID :: string
  oi_MsgID :: string
  oi_Message :: Message
  oi_CiphertextBlob :: bytes
  oi_RetryCount :: int

text \<open>
  The database. The keys of a session are stored in base64 and read back as they were, and the row of a
  message is the message with its blob.
\<close>

record ChatDB =
  db_localPeerID :: string
  db_profile :: Profile
  db_kexPriv :: bytes
  db_peers :: "Contact list"
  db_requests :: "Request list"
  db_conversations :: "Conversation list"
  db_messages :: "(Message \<times> bytes) list"
  db_sessions :: "sessionState list"
  db_outbox :: "outboxJob list"
  db_revokes :: "revokeJob list"
  db_friendJobs :: "friendJob list"

section \<open>SQL\<close>

definition ErrNoRows :: go_error where "ErrNoRows = Errorf ''sql: no rows in result set''"

text \<open>A row of a \<open>SELECT\<close> by key, and the three ways a row is written.\<close>

definition queryRow :: "('a \<Rightarrow> bool) \<Rightarrow> 'a list \<Rightarrow> 'a result" where
  "queryRow P tbl = of_option ErrNoRows (find P tbl)"

definition replaceRow :: "('a \<Rightarrow> bool) \<Rightarrow> 'a \<Rightarrow> 'a list \<Rightarrow> 'a list" where
  "replaceRow conflicts r tbl = filter (\<lambda>x. \<not> conflicts x) tbl @ [r]"

definition updateRows :: "('a \<Rightarrow> bool) \<Rightarrow> ('a \<Rightarrow> 'a) \<Rightarrow> 'a list \<Rightarrow> 'a list" where
  "updateRows P f tbl = map (\<lambda>x. if P x then f x else x) tbl"

definition upsertRow :: "('a \<Rightarrow> bool) \<Rightarrow> ('a \<Rightarrow> 'a) \<Rightarrow> 'a \<Rightarrow> 'a list \<Rightarrow> 'a list" where
  "upsertRow P f r tbl = (if \<exists>x\<in>set tbl. P x then updateRows P f tbl else tbl @ [r])"

definition deleteRows :: "('a \<Rightarrow> bool) \<Rightarrow> 'a list \<Rightarrow> 'a list" where
  "deleteRows P tbl = filter (\<lambda>x. \<not> P x) tbl"

definition orderAsc :: "('a \<Rightarrow> 'k::linorder) \<Rightarrow> 'a list \<Rightarrow> 'a list" where
  "orderAsc k tbl = sort_key k tbl"

definition orderDesc :: "('a \<Rightarrow> 'k::linorder) \<Rightarrow> 'a list \<Rightarrow> 'a list" where
  "orderDesc k tbl = rev (sort_key k (rev tbl))"

definition sqlUint64 :: "u64 \<Rightarrow> unit result" where
  "sqlUint64 c = (if 2 ^ 63 \<le> unat c then Inl (Errorf ''sql: uint64 values with high bit set are not supported'') else Inr ())"

text \<open>
  Points in time are stored as text in the layout \<open>RFC3339Nano\<close>: the date and time of day, which has a
  fixed width and is given here by the second it names, and the fraction of the second without its trailing
  zeros, ended by \<open>Z\<close>. SQL compares the texts.
\<close>

type_synonym dbText = "int \<times> string"

definition pad9 :: "nat \<Rightarrow> string" where
  "pad9 n = (let d = show_nat n in replicate (9 - length d) (CHR ''0'') @ d)"

definition fracText :: "nat \<Rightarrow> string" where
  "fracText n = (if n = 0 then ''Z''
     else CHR ''.'' # rev (dropWhile (\<lambda>c. c = CHR ''0'') (rev (pad9 n))) @ ''Z'')"

definition timeText :: "time \<Rightarrow> dbText" where
  "timeText t = (t div second, fracText (nat (t mod second)))"

definition formatDBTime :: "time \<Rightarrow> dbText option" where
  "formatDBTime t = (if t = 0 then None else Some (timeText t))"


text \<open>What a stored text is read back as, by \<open>time.Parse\<close> on the layout.\<close>

definition parseFrac :: "string \<Rightarrow> nat" where
  "parseFrac f = (case f of c # r \<Rightarrow>
       if c = CHR ''.'' then let d = butlast r in digits_val d * 10 ^ (9 - length d) else 0
     | [] \<Rightarrow> 0)"

definition parseDBTime :: "dbText option \<Rightarrow> time" where
  "parseDBTime v = (case v of None \<Rightarrow> 0 | Some (s, f) \<Rightarrow> s * second + int (parseFrac f))"

section \<open>Small functions\<close>

definition firstNonEmpty :: "string \<Rightarrow> string \<Rightarrow> string" where
  "firstNonEmpty v fallback = (if v = [] then fallback else v)"

definition shortPeerID :: "string \<Rightarrow> string" where
  "shortPeerID v = (if length v \<le> 8 then v else drop (length v - 8) v)"

text \<open>The first runes of a string; a byte that does not start a rune counts as one and becomes U+FFFD.\<close>

fun takeRunes :: "nat \<Rightarrow> string \<Rightarrow> string" where
  "takeRunes 0 s = []"
| "takeRunes (Suc n) s = (if s = [] then []
     else let k = utf8_len s in if k = 0 then utf8_encode 65533 @ takeRunes n (tl s)
          else take k s @ takeRunes n (drop k s))"

definition truncateUTF8Runes :: "string \<Rightarrow> nat \<Rightarrow> string" where
  "truncateUTF8Runes s maxRunes = takeRunes maxRunes (trimSpace s)"

definition lastMessagePreviewRunes :: nat where "lastMessagePreviewRunes = 20"

definition filePreview :: string where
  "filePreview = ''['' @ utf8_encode 27284 @ utf8_encode 26696 @ '']''"

definition invitePreview :: string where
  "invitePreview = ''['' @ utf8_encode 32676 @ utf8_encode 32068 @ utf8_encode 36992 @ utf8_encode 35531 @ '']''"

definition messagePreviewFromMessage :: "Message \<Rightarrow> string" where
  "messagePreviewFromMessage msg =
     (if ms_MsgType msg = MessageTypeChatFile then
        let fn = trimSpace (ms_FileName msg)
        in if fn \<noteq> [] then truncateUTF8Runes fn lastMessagePreviewRunes
           else truncateUTF8Runes filePreview lastMessagePreviewRunes
      else if ms_MsgType msg = MessageTypeGroupInviteNote then
        let t = trimSpace (ms_Plaintext msg)
        in if t = [] then truncateUTF8Runes invitePreview lastMessagePreviewRunes
           else truncateUTF8Runes t lastMessagePreviewRunes
      else truncateUTF8Runes (ms_Plaintext msg) lastMessagePreviewRunes)"

definition relaySQLValues :: "Message \<Rightarrow> Message" where
  "relaySQLValues msg = msg\<lparr>
     ms_TransportKind := (if ms_TransportKind msg = [] then TransportKindNative else ms_TransportKind msg),
     ms_RelayStatus := (if ms_RelayStatus msg = [] then RelayStatusNone else ms_RelayStatus msg)\<rparr>"

text \<open>The identifier of the conversation of two peers is the same whichever of them derives it.\<close>

definition deriveStableConversationID :: "string \<Rightarrow> string \<Rightarrow> string" where
  "deriveStableConversationID a b =
     (let p0 = (if b < a then b else a); p1 = (if b < a then a else b)
      in ''stable_v1:'' @ hexEncode (sha256 (bytes_of_string (''stable_v1:'' @ p0) @ [0] @ bytes_of_string p1)))"

section \<open>Conversations\<close>

definition setMessages :: "((Message \<times> bytes) list \<Rightarrow> (Message \<times> bytes) list) \<Rightarrow> ChatDB \<Rightarrow> ChatDB" where
  "setMessages f db = db\<lparr>db_messages := f (db_messages db)\<rparr>"

definition updateConversation :: "string \<Rightarrow> (Conversation \<Rightarrow> Conversation) \<Rightarrow> ChatDB \<Rightarrow> ChatDB" where
  "updateConversation cid f db =
     db\<lparr>db_conversations := updateRows (\<lambda>c. cv_ConversationID c = cid) f (db_conversations db)\<rparr>"

definition updateSession :: "string \<Rightarrow> (sessionState \<Rightarrow> sessionState) \<Rightarrow> ChatDB \<Rightarrow> ChatDB" where
  "updateSession cid f db =
     db\<lparr>db_sessions := updateRows (\<lambda>x. sx_ConversationID x = cid) f (db_sessions db)\<rparr>"

definition GetConversation :: "string \<Rightarrow> ChatDB \<Rightarrow> Conversation result" where
  "GetConversation cid db = queryRow (\<lambda>c. cv_ConversationID c = cid) (db_conversations db)"

definition GetConversationByPeer :: "string \<Rightarrow> ChatDB \<Rightarrow> Conversation result" where
  "GetConversationByPeer peerID db = queryRow (\<lambda>c. cv_PeerID c = peerID) (db_conversations db)"

definition GetSessionState :: "string \<Rightarrow> ChatDB \<Rightarrow> sessionState result" where
  "GetSessionState cid db = queryRow (\<lambda>x. sx_ConversationID x = cid) (db_sessions db)"

text \<open>The columns of a new row that are empty are taken from the row of the same conversation, or else from that of the same peer.\<close>

definition inheritConversation :: "Conversation \<Rightarrow> Conversation \<Rightarrow> Conversation" where
  "inheritConversation ex c = c\<lparr>
     cv_LastMessageAt := (if cv_LastMessageAt c = 0 then cv_LastMessageAt ex else cv_LastMessageAt c),
     cv_LastMessage := (if cv_LastMessage c = [] then cv_LastMessage ex else cv_LastMessage c),
     cv_UnreadCount := (if cv_UnreadCount c = 0 \<and> 0 < cv_UnreadCount ex then cv_UnreadCount ex else cv_UnreadCount c),
     cv_RetentionMinutes := (if cv_RetentionMinutes c = 0 \<and> 0 < cv_RetentionMinutes ex then cv_RetentionMinutes ex else cv_RetentionMinutes c),
     cv_RetentionSyncState := (if cv_RetentionSyncState c = [] then cv_RetentionSyncState ex else cv_RetentionSyncState c),
     cv_RetentionSyncedAt := (if cv_RetentionSyncedAt c = 0 then cv_RetentionSyncedAt ex else cv_RetentionSyncedAt c),
     cv_CreatedAt := (if cv_CreatedAt c = 0 then cv_CreatedAt ex else cv_CreatedAt c)\<rparr>"

definition inheritPeerConversation :: "Conversation \<Rightarrow> Conversation \<Rightarrow> Conversation" where
  "inheritPeerConversation ex c = c\<lparr>
     cv_LastMessage := (if cv_LastMessage c = [] then cv_LastMessage ex else cv_LastMessage c),
     cv_RetentionMinutes := (if cv_RetentionMinutes c = 0 \<and> 0 < cv_RetentionMinutes ex then cv_RetentionMinutes ex else cv_RetentionMinutes c),
     cv_RetentionSyncState := (if cv_RetentionSyncState c = [] then cv_RetentionSyncState ex else cv_RetentionSyncState c),
     cv_RetentionSyncedAt := (if cv_RetentionSyncedAt c = 0 then cv_RetentionSyncedAt ex else cv_RetentionSyncedAt c)\<rparr>"

definition filledConversation :: "Conversation \<Rightarrow> ChatDB \<Rightarrow> Conversation" where
  "filledConversation conv db =
     (case GetConversation (cv_ConversationID conv) db of
        Inr ex \<Rightarrow> inheritConversation ex conv
      | Inl _ \<Rightarrow> (case GetConversationByPeer (cv_PeerID conv) db of
          Inr ex \<Rightarrow> inheritPeerConversation ex conv
        | Inl _ \<Rightarrow> conv))"

definition conversationRow :: "time \<Rightarrow> Conversation \<Rightarrow> Conversation" where
  "conversationRow now c = c\<lparr>
     cv_LastMessageAt := (if cv_LastMessageAt c = 0 then now else cv_LastMessageAt c),
     cv_RetentionSyncState := firstNonEmpty (cv_RetentionSyncState c) ''synced'',
     cv_CreatedAt := (if cv_CreatedAt c = 0 then now else cv_CreatedAt c),
     cv_UpdatedAt := now\<rparr>"

text \<open>
  The two tables are not written in one transaction: the row of the conversation stays when the counters of
  the session are refused. Both columns of a conversation's key are unique.
\<close>

definition CreateConversation :: "time \<Rightarrow> Conversation \<Rightarrow> sessionState \<Rightarrow> ChatDB \<Rightarrow> Conversation result \<times> ChatDB" where
  "CreateConversation now conv sess db =
     (let row = conversationRow now (filledConversation conv db)
      in case sqlUint64 (cv_LastUpstreamSyncSeq row) of Inl e \<Rightarrow> (Inl e, db)
       | Inr _ \<Rightarrow>
         let db1 = db\<lparr>db_conversations := replaceRow (\<lambda>c. cv_ConversationID c = cv_ConversationID row \<or> cv_PeerID c = cv_PeerID row)
                        row (db_conversations db)\<rparr>
         in case res_bind (sqlUint64 (sx_SendCounter sess)) (\<lambda>_. sqlUint64 (sx_RecvCounter sess)) of
              Inl e \<Rightarrow> (Inl e, db1)
            | Inr _ \<Rightarrow>
              let db2 = db1\<lparr>db_sessions := replaceRow (\<lambda>x. sx_ConversationID x = sx_ConversationID sess) sess (db_sessions db1)\<rparr>
              in (GetConversation (cv_ConversationID conv) db2, db2))"

definition ClearConversationUnreadCount :: "time \<Rightarrow> string \<Rightarrow> ChatDB \<Rightarrow> Conversation result \<times> ChatDB" where
  "ClearConversationUnreadCount now cid db =
     (case GetConversation cid db of Inl e \<Rightarrow> (Inl e, db)
      | Inr _ \<Rightarrow> let db1 = updateConversation cid (\<lambda>c. c\<lparr>cv_UnreadCount := 0, cv_UpdatedAt := now\<rparr>) db
                 in (GetConversation cid db1, db1))"

definition UpdateConversationState :: "time \<Rightarrow> string \<Rightarrow> string \<Rightarrow> ChatDB \<Rightarrow> ChatDB" where
  "UpdateConversationState now cid state db =
     (if cid = [] then db else updateConversation cid (\<lambda>c. c\<lparr>cv_State := state, cv_UpdatedAt := now\<rparr>) db)"

definition UpdateConversationRetentionSync :: "time \<Rightarrow> string \<Rightarrow> string \<Rightarrow> time \<Rightarrow> ChatDB \<Rightarrow> ChatDB" where
  "UpdateConversationRetentionSync now cid syncState syncedAt db =
     updateConversation cid (\<lambda>c. c\<lparr>cv_RetentionSyncState := (if syncState = [] then ''synced'' else syncState),
       cv_RetentionSyncedAt := syncedAt, cv_UpdatedAt := now\<rparr>) db"

definition UpdateSendCounter :: "string \<Rightarrow> u64 \<Rightarrow> ChatDB \<Rightarrow> unit result \<times> ChatDB" where
  "UpdateSendCounter cid counter db =
     (case sqlUint64 counter of Inl e \<Rightarrow> (Inl e, db)
      | Inr _ \<Rightarrow> (Inr (), updateSession cid (\<lambda>x. x\<lparr>sx_SendCounter := counter\<rparr>) db))"

definition UpdateRecvCounter :: "string \<Rightarrow> u64 \<Rightarrow> ChatDB \<Rightarrow> unit result \<times> ChatDB" where
  "UpdateRecvCounter cid counter db =
     (case sqlUint64 counter of Inl e \<Rightarrow> (Inl e, db)
      | Inr _ \<Rightarrow> (Inr (), updateSession cid (\<lambda>x. x\<lparr>sx_RecvCounter := counter\<rparr>) db))"

text \<open>The most recent message of a conversation gives the summary of its row.\<close>

definition conversationMessages :: "string \<Rightarrow> ChatDB \<Rightarrow> Message list" where
  "conversationMessages cid db = filter (\<lambda>m. ms_ConversationID m = cid) (map fst (db_messages db))"

definition refreshConversationMessageSummary :: "time \<Rightarrow> string \<Rightarrow> ChatDB \<Rightarrow> ChatDB" where
  "refreshConversationMessageSummary now cid db =
     (case orderDesc (\<lambda>m. (timeText (ms_CreatedAt m), unat (ms_Counter m))) (conversationMessages cid db) of
        [] \<Rightarrow> updateConversation cid (\<lambda>c. c\<lparr>cv_LastMessageAt := 0, cv_LastMessage := [], cv_UpdatedAt := now\<rparr>) db
      | m # _ \<Rightarrow> updateConversation cid (\<lambda>c. c\<lparr>cv_LastMessageAt := ms_CreatedAt m,
           cv_LastMessage := messagePreviewFromMessage m, cv_UpdatedAt := now\<rparr>) db)"

text \<open>A duration of so many minutes is computed in 64 bits.\<close>

definition minutesDuration :: "int \<Rightarrow> duration" where
  "minutesDuration minutes = sint (word_of_int (minutes * minute) :: 64 word)"

definition cleanupConversationExpiredMessages :: "time \<Rightarrow> string \<Rightarrow> int \<Rightarrow> time \<Rightarrow> ChatDB \<Rightarrow> ChatDB" where
  "cleanupConversationExpiredMessages clock cid minutes now db =
     (let cutoff = timeText (now + minutesDuration (- minutes))
      in refreshConversationMessageSummary clock cid
           (setMessages (deleteRows (\<lambda>(m, _). ms_ConversationID m = cid \<and> timeText (ms_CreatedAt m) \<le> cutoff)) db))"

definition UpdateConversationRetention :: "time \<Rightarrow> string \<Rightarrow> int \<Rightarrow> ChatDB \<Rightarrow> Conversation result \<times> ChatDB" where
  "UpdateConversationRetention now cid minutes db =
     (if minutes \<noteq> 0 \<and> (minutes < MinRetentionMinutes \<or> MaxRetentionMinutes < minutes)
      then (Inl (Errorf ''retention_minutes must be 0 or in range''), db)
      else let db1 = updateConversation cid (\<lambda>c. c\<lparr>cv_RetentionMinutes := minutes, cv_UpdatedAt := now\<rparr>) db;
               db2 = (if 0 < minutes then cleanupConversationExpiredMessages now cid minutes now db1 else db1)
           in (GetConversation cid db2, db2))"

text \<open>The conversations to clean are listed before any of them is.\<close>

definition CleanupExpiredMessages :: "time \<Rightarrow> time \<Rightarrow> ChatDB \<Rightarrow> ChatDB" where
  "CleanupExpiredMessages clock now db =
     fold (\<lambda>c. cleanupConversationExpiredMessages clock (cv_ConversationID c) (cv_RetentionMinutes c) now)
       (filter (\<lambda>c. 0 < cv_RetentionMinutes c) (db_conversations db)) db"


text \<open>Deleting a conversation deletes its messages, its jobs and its session, in one transaction.\<close>

definition DeleteConversationData :: "time \<Rightarrow> string \<Rightarrow> ChatDB \<Rightarrow> unit result \<times> ChatDB" where
  "DeleteConversationData now cid0 db =
     (let cid = trimSpace cid0 in
      if cid = [] then (Inl (Errorf ''conversation_id is empty''), db)
      else case GetConversation cid db of Inl e \<Rightarrow> (Inl e, db)
       | Inr _ \<Rightarrow> (Inr (), db\<lparr>
           db_outbox := deleteRows (\<lambda>j. \<exists>m\<in>set (conversationMessages cid db). ms_MsgID m = oj_MsgID j) (db_outbox db),
           db_revokes := deleteRows (\<lambda>j. vj_ConversationID j = cid) (db_revokes db),
           db_messages := deleteRows (\<lambda>(m, _). ms_ConversationID m = cid) (db_messages db),
           db_sessions := deleteRows (\<lambda>x. sx_ConversationID x = cid) (db_sessions db),
           db_friendJobs := deleteRows (\<lambda>j. \<exists>r\<in>set (db_requests db). fq_ConversationID r = cid \<and> fq_RequestID r = fj_JobID j) (db_friendJobs db),
           db_requests := updateRows (\<lambda>r. fq_ConversationID r = cid) (\<lambda>r. r\<lparr>fq_ConversationID := [], fq_UpdatedAt := now\<rparr>) (db_requests db),
           db_conversations := deleteRows (\<lambda>c. cv_ConversationID c = cid) (db_conversations db)\<rparr>))"

text \<open>The row of the new identifier replaces the one of the old, as the peer's column is unique too.\<close>

definition migratedSessions :: "string \<Rightarrow> string \<Rightarrow> sessionState list \<Rightarrow> sessionState list" where
  "migratedSessions old new ss = deleteRows (\<lambda>x. sx_ConversationID x = old)
     (fold (\<lambda>x. replaceRow (\<lambda>y. sx_ConversationID y = new) (x\<lparr>sx_ConversationID := new\<rparr>))
        (filter (\<lambda>x. sx_ConversationID x = old) ss) ss)"

definition MigrateConversationID :: "time \<Rightarrow> string \<Rightarrow> string \<Rightarrow> ChatDB \<Rightarrow> unit result \<times> ChatDB" where
  "MigrateConversationID now old0 new0 db =
     (let old = trimSpace old0; new = trimSpace new0 in
      if old = [] \<or> new = [] \<or> old = new then (Inr (), db)
      else case GetConversation old db of Inl e \<Rightarrow> (Inl e, db)
       | Inr c \<Rightarrow>
         let row = c\<lparr>cv_ConversationID := new, cv_UpdatedAt := now\<rparr>
         in (Inr (), db\<lparr>
           db_conversations := deleteRows (\<lambda>x. cv_ConversationID x = old)
             (replaceRow (\<lambda>x. cv_ConversationID x = new \<or> cv_PeerID x = cv_PeerID c) row (db_conversations db)),
           db_sessions := migratedSessions old new (db_sessions db),
           db_messages := updateRows (\<lambda>(m, _). ms_ConversationID m = old) (\<lambda>(m, b). (m\<lparr>ms_ConversationID := new\<rparr>, b)) (db_messages db),
           db_revokes := updateRows (\<lambda>j. vj_ConversationID j = old) (\<lambda>j. j\<lparr>vj_ConversationID := new\<rparr>) (db_revokes db),
           db_requests := updateRows (\<lambda>r. fq_ConversationID r = old) (\<lambda>r. r\<lparr>fq_ConversationID := new, fq_UpdatedAt := now\<rparr>) (db_requests db)\<rparr>))"

section \<open>Peers\<close>

definition UpsertPeer :: "time \<Rightarrow> string \<Rightarrow> string \<Rightarrow> string \<Rightarrow> ChatDB \<Rightarrow> ChatDB" where
  "UpsertPeer now peerID nickname bio db =
     (if peerID = [] then db
      else let nick = trimSpace nickname; b = trimSpace bio;
               insNick = (if nick = [] then ''peer-'' @ shortPeerID peerID else nick)
           in db\<lparr>db_peers := upsertRow (\<lambda>p. ck_PeerID p = peerID)
                (\<lambda>p. p\<lparr>ck_Nickname := (if nick \<noteq> [] then insNick else ck_Nickname p),
                       ck_Bio := (if b \<noteq> [] then b else ck_Bio p), ck_LastSeenAt := now, ck_UpdatedAt := now\<rparr>)
                \<lparr>ck_PeerID = peerID, ck_Nickname = insNick, ck_Bio = b, ck_Avatar = [], ck_CID = [], ck_RemoteNickname = [],
                 ck_RetentionMinutes = 0, ck_Blocked = False, ck_LastSeenAt = now, ck_UpdatedAt = now\<rparr> (db_peers db)\<rparr>)"

text \<open>The retention and the nickname the peer gave itself come from the other tables.\<close>

definition GetPeer :: "string \<Rightarrow> ChatDB \<Rightarrow> Contact result" where
  "GetPeer peerID db = map_sum id (\<lambda>p. p\<lparr>
       ck_RetentionMinutes := (case GetConversationByPeer peerID db of Inr c \<Rightarrow> cv_RetentionMinutes c | Inl _ \<Rightarrow> 0),
       ck_RemoteNickname := (case orderDesc (\<lambda>r. (timeText (fq_UpdatedAt r), timeText (fq_CreatedAt r)))
            (filter (\<lambda>r. fq_Nickname r \<noteq> [] \<and> fq_FromPeerID r = peerID \<and> fq_ToPeerID r = db_localPeerID db) (db_requests db)) of
          [] \<Rightarrow> [] | r # _ \<Rightarrow> fq_Nickname r)\<rparr>)
     (queryRow (\<lambda>p. ck_PeerID p = peerID) (db_peers db))"

definition updatePeers :: "string \<Rightarrow> (Contact \<Rightarrow> Contact) \<Rightarrow> ChatDB \<Rightarrow> ChatDB" where
  "updatePeers peerID f db = db\<lparr>db_peers := updateRows (\<lambda>p. ck_PeerID p = peerID) f (db_peers db)\<rparr>"

definition updatePeerAvatar :: "time \<Rightarrow> string \<Rightarrow> string \<Rightarrow> string option \<Rightarrow> ChatDB \<Rightarrow> unit result \<times> ChatDB" where
  "updatePeerAvatar now peerID avatar0 pinnedCID db =
     (let avatar = trimSpace avatar0 in
      if peerID = [] then (Inl ErrNoRows, db)
      else case queryRow (\<lambda>p. ck_PeerID p = peerID) (db_peers db) of Inl e \<Rightarrow> (Inl e, db)
       | Inr old \<Rightarrow>
         let finalCID = (case pinnedCID of Some c \<Rightarrow> trimSpace c
                         | None \<Rightarrow> if ck_Avatar old \<noteq> avatar then [] else ck_CID old)
         in (Inr (), updatePeers peerID (\<lambda>p. p\<lparr>ck_Avatar := avatar, ck_CID := finalCID, ck_UpdatedAt := now\<rparr>) db))"

definition UpdatePeerAvatar :: "time \<Rightarrow> string \<Rightarrow> string \<Rightarrow> ChatDB \<Rightarrow> unit result \<times> ChatDB" where
  "UpdatePeerAvatar now peerID avatar db = updatePeerAvatar now peerID avatar None db"

definition UpdatePeerNickname :: "time \<Rightarrow> string \<Rightarrow> string \<Rightarrow> ChatDB \<Rightarrow> Contact result \<times> ChatDB" where
  "UpdatePeerNickname now peerID nickname0 db =
     (let nickname = trimSpace nickname0;
          nick = (if nickname = [] then ''peer-'' @ shortPeerID peerID else nickname)
      in if peerID = [] then (Inl ErrNoRows, db)
         else let db1 = updatePeers peerID (\<lambda>p. p\<lparr>ck_Nickname := nick, ck_UpdatedAt := now\<rparr>) db
              in (GetPeer peerID db1, db1))"

definition SetPeerBlocked :: "time \<Rightarrow> string \<Rightarrow> bool \<Rightarrow> ChatDB \<Rightarrow> Contact result \<times> ChatDB" where
  "SetPeerBlocked now peerID blocked db =
     (if peerID = [] then (Inl ErrNoRows, db)
      else let db1 = updatePeers peerID (\<lambda>p. p\<lparr>ck_Blocked := blocked, ck_UpdatedAt := now\<rparr>) db
           in (GetPeer peerID db1, db1))"

definition DeletePeerAndRelatedData :: "string \<Rightarrow> ChatDB \<Rightarrow> unit result \<times> ChatDB" where
  "DeletePeerAndRelatedData peerID0 db =
     (let peerID = trimSpace peerID0 in
      if peerID = [] then (Inl (Errorf ''peer_id is empty''), db)
      else (Inr (), db\<lparr>
        db_friendJobs := deleteRows (\<lambda>j. fj_PeerID j = peerID)
          (deleteRows (\<lambda>j. \<exists>r\<in>set (db_requests db). (fq_FromPeerID r = peerID \<or> fq_ToPeerID r = peerID) \<and> fq_RequestID r = fj_JobID j)
             (db_friendJobs db)),
        db_requests := deleteRows (\<lambda>r. fq_FromPeerID r = peerID \<or> fq_ToPeerID r = peerID) (db_requests db),
        db_peers := deleteRows (\<lambda>p. ck_PeerID p = peerID) (db_peers db)\<rparr>))"

section \<open>Friend requests\<close>

text \<open>A request is read with the columns of its retry job, if there is one.\<close>

definition joinJob :: "ChatDB \<Rightarrow> Request \<Rightarrow> Request" where
  "joinJob db r = (case find (\<lambda>j. fj_JobID j = fq_RequestID r) (db_friendJobs db) of
     None \<Rightarrow> r\<lparr>fq_RetryCount := 0, fq_NextRetryAt := 0, fq_RetryJobStatus := []\<rparr>
   | Some j \<Rightarrow> r\<lparr>fq_RetryCount := fj_RetryCount j, fq_NextRetryAt := fj_NextRetryAt j, fq_RetryJobStatus := fj_Status j\<rparr>)"

definition GetRequest :: "string \<Rightarrow> ChatDB \<Rightarrow> Request result" where
  "GetRequest rid db = map_sum id (joinJob db) (queryRow (\<lambda>r. fq_RequestID r = rid) (db_requests db))"

definition ListRequests :: "string \<Rightarrow> ChatDB \<Rightarrow> Request list" where
  "ListRequests localPeerID db = map (joinJob db) (orderDesc (\<lambda>r. timeText (fq_CreatedAt r))
     (filter (\<lambda>r. fq_FromPeerID r = localPeerID \<or> fq_ToPeerID r = localPeerID) (db_requests db)))"

text \<open>
  A stored request that was decided keeps its state when the same request comes in again. Both times of a
  new row are those of the insertion.
\<close>

definition requestRow :: "time \<Rightarrow> Request \<Rightarrow> Request" where
  "requestRow now r = r\<lparr>fq_RetryCount := 0, fq_NextRetryAt := 0, fq_RetryJobStatus := [], fq_CreatedAt := now, fq_UpdatedAt := now\<rparr>"

definition decided :: "string \<Rightarrow> bool" where
  "decided st \<longleftrightarrow> st \<in> {RequestStateAccepted, RequestStateRejected, RequestStateBlocked}"

definition UpsertIncomingRequest :: "time \<Rightarrow> Request \<Rightarrow> ChatDB \<Rightarrow> ChatDB" where
  "UpsertIncomingRequest now req db =
     db\<lparr>db_requests := upsertRow (\<lambda>r. fq_RequestID r = fq_RequestID req)
       (\<lambda>r. r\<lparr>fq_State := (if decided (fq_State r) then fq_State r else fq_State req),
              fq_IntroText := fq_IntroText req, fq_Nickname := fq_Nickname req, fq_Bio := fq_Bio req,
              fq_Avatar := fq_Avatar req, fq_RetentionMinutes := fq_RetentionMinutes req,
              fq_RemoteChatKexPub := fq_RemoteChatKexPub req, fq_UpdatedAt := now\<rparr>)
       (requestRow now req) (db_requests db)\<rparr>"

definition SaveOutgoingRequest :: "time \<Rightarrow> Request \<Rightarrow> ChatDB \<Rightarrow> ChatDB" where
  "SaveOutgoingRequest now req db =
     db\<lparr>db_requests := replaceRow (\<lambda>r. fq_RequestID r = fq_RequestID req) (requestRow now req) (db_requests db)\<rparr>"

definition updateRequest :: "string \<Rightarrow> (Request \<Rightarrow> Request) \<Rightarrow> ChatDB \<Rightarrow> ChatDB" where
  "updateRequest rid f db = db\<lparr>db_requests := updateRows (\<lambda>r. fq_RequestID r = rid) f (db_requests db)\<rparr>"

definition UpdateRequestAvatar :: "time \<Rightarrow> string \<Rightarrow> string \<Rightarrow> ChatDB \<Rightarrow> ChatDB" where
  "UpdateRequestAvatar now rid avatar = updateRequest rid (\<lambda>r. r\<lparr>fq_Avatar := trimSpace avatar, fq_UpdatedAt := now\<rparr>)"

definition UpdateRequestRemoteChatKexPub :: "time \<Rightarrow> string \<Rightarrow> string \<Rightarrow> ChatDB \<Rightarrow> ChatDB" where
  "UpdateRequestRemoteChatKexPub now rid pub = updateRequest rid (\<lambda>r. r\<lparr>fq_RemoteChatKexPub := trimSpace pub, fq_UpdatedAt := now\<rparr>)"

definition UpdateRequestState :: "time \<Rightarrow> string \<Rightarrow> string \<Rightarrow> string \<Rightarrow> ChatDB \<Rightarrow> ChatDB" where
  "UpdateRequestState now rid state cid = updateRequest rid (\<lambda>r. r\<lparr>fq_State := state, fq_ConversationID := cid, fq_UpdatedAt := now\<rparr>)"

definition HasAcceptedRequest :: "string \<Rightarrow> string \<Rightarrow> ChatDB \<Rightarrow> bool" where
  "HasAcceptedRequest from to db \<longleftrightarrow>
     (\<exists>r\<in>set (db_requests db). fq_FromPeerID r = from \<and> fq_ToPeerID r = to \<and> fq_State r = RequestStateAccepted)"

definition LatestRequestBetweenPeers :: "string \<Rightarrow> string \<Rightarrow> ChatDB \<Rightarrow> Request result" where
  "LatestRequestBetweenPeers a b db =
     (case orderDesc (\<lambda>r. (timeText (fq_UpdatedAt r), timeText (fq_CreatedAt r)))
        (filter (\<lambda>r. fq_FromPeerID r = a \<and> fq_ToPeerID r = b \<or> fq_FromPeerID r = b \<and> fq_ToPeerID r = a) (db_requests db)) of
        [] \<Rightarrow> Inl ErrNoRows | r # _ \<Rightarrow> Inr (joinJob db r))"

definition UpsertFriendRequestJob :: "time \<Rightarrow> string \<Rightarrow> string \<Rightarrow> string \<Rightarrow> int \<Rightarrow> time \<Rightarrow> time \<Rightarrow> ChatDB \<Rightarrow> ChatDB" where
  "UpsertFriendRequestJob now rid peerID status retryCount nextRetryAt lastAttempt db =
     (if rid = [] \<or> peerID = [] then db
      else db\<lparr>db_friendJobs := upsertRow (\<lambda>j. fj_JobID j = rid)
        (\<lambda>j. j\<lparr>fj_PeerID := peerID, fj_Status := status, fj_RetryCount := retryCount, fj_NextRetryAt := nextRetryAt,
               fj_LastTransportAttempt := lastAttempt\<rparr>)
        \<lparr>fj_JobID = rid, fj_PeerID = peerID, fj_Status = status, fj_RetryCount = retryCount, fj_NextRetryAt = nextRetryAt,
         fj_LastTransportAttempt = lastAttempt, fj_CreatedAt = now\<rparr> (db_friendJobs db)\<rparr>)"

definition DeleteFriendRequestJob :: "string \<Rightarrow> ChatDB \<Rightarrow> ChatDB" where
  "DeleteFriendRequestJob rid db =
     (if rid = [] then db else db\<lparr>db_friendJobs := deleteRows (\<lambda>j. fj_JobID j = rid) (db_friendJobs db)\<rparr>)"

definition dueAt :: "time \<Rightarrow> time \<Rightarrow> bool" where
  "dueAt now t \<longleftrightarrow> formatDBTime t \<noteq> None \<and> formatDBTime t \<le> formatDBTime now"

definition ListFriendRequestJobsForRetry :: "time \<Rightarrow> int \<Rightarrow> ChatDB \<Rightarrow> friendJob list" where
  "ListFriendRequestJobsForRetry now limit db =
     take (if limit \<le> 0 then 32 else nat limit)
       (orderAsc (\<lambda>j. (formatDBTime (fj_NextRetryAt j), formatDBTime (fj_LastTransportAttempt j)))
         (filter (\<lambda>j. fj_Status j = MessageStateQueuedForRetry \<and> dueAt now (fj_NextRetryAt j)) (db_friendJobs db)))"


section \<open>Messages\<close>

definition insertMessage :: "Message \<Rightarrow> bytes \<Rightarrow> ChatDB \<Rightarrow> ChatDB" where
  "insertMessage msg blob = setMessages (replaceRow (\<lambda>(m, _). ms_MsgID m = ms_MsgID msg) (relaySQLValues msg, blob))"

definition touchConversation :: "Message \<Rightarrow> Conversation \<Rightarrow> Conversation" where
  "touchConversation msg c = c\<lparr>cv_LastMessageAt := ms_CreatedAt msg, cv_LastMessage := messagePreviewFromMessage msg,
     cv_UpdatedAt := ms_CreatedAt msg, cv_LastTransportMode := ms_TransportMode msg\<rparr>"

text \<open>The message, the summary of the conversation and the counter are written in one transaction.\<close>

definition AddInboundMessageAndAdvanceRecvCounter :: "Message \<Rightarrow> bytes \<Rightarrow> u64 \<Rightarrow> bool \<Rightarrow> ChatDB \<Rightarrow> unit result \<times> ChatDB" where
  "AddInboundMessageAndAdvanceRecvCounter msg blob newRecvCounter incrementUnread db =
     (case res_bind (sqlUint64 (ms_Counter msg)) (\<lambda>_. sqlUint64 newRecvCounter) of Inl e \<Rightarrow> (Inl e, db)
      | Inr _ \<Rightarrow>
        let cid = ms_ConversationID msg;
            db1 = insertMessage msg blob db;
            db2 = updateConversation cid (\<lambda>c. let c1 = touchConversation msg c in
                    if incrementUnread then c1\<lparr>cv_UnreadCount := cv_UnreadCount c + 1\<rparr> else c1) db1
        in if \<exists>x\<in>set (db_sessions db2). sx_ConversationID x = cid
           then (Inr (), updateSession cid (\<lambda>x. x\<lparr>sx_RecvCounter := newRecvCounter\<rparr>) db2)
           else (Inl (Errorf ''session_states missing for conversation''), db))"

definition AddMessage :: "Message \<Rightarrow> bytes \<Rightarrow> ChatDB \<Rightarrow> Message result \<times> ChatDB" where
  "AddMessage msg blob db =
     (case sqlUint64 (ms_Counter msg) of Inl e \<Rightarrow> (Inl e, db)
      | Inr _ \<Rightarrow> (Inr msg, updateConversation (ms_ConversationID msg) (touchConversation msg) (insertMessage msg blob db)))"

definition GetMessage :: "string \<Rightarrow> ChatDB \<Rightarrow> Message result" where
  "GetMessage mid db = queryRow (\<lambda>m. ms_MsgID m = mid) (map fst (db_messages db))"

definition GetMessageBlob :: "string \<Rightarrow> ChatDB \<Rightarrow> bytes result" where
  "GetMessageBlob mid db = map_sum id snd (queryRow (\<lambda>(m, _). ms_MsgID m = mid) (db_messages db))"

definition ListMessages :: "string \<Rightarrow> ChatDB \<Rightarrow> Message list" where
  "ListMessages cid db = orderAsc (\<lambda>m. timeText (ms_CreatedAt m)) (conversationMessages cid db)"

definition ListMessagesPage :: "string \<Rightarrow> int \<Rightarrow> int \<Rightarrow> ChatDB \<Rightarrow> Message list \<times> nat" where
  "ListMessagesPage cid limit0 offset0 db =
     (let limit = (if limit0 \<le> 0 then 100 else nat limit0); offset = (if offset0 < 0 then 0 else nat offset0)
      in (take limit (drop offset (ListMessages cid db)), length (conversationMessages cid db)))"

definition updateMessage :: "string \<Rightarrow> (Message \<Rightarrow> Message) \<Rightarrow> ChatDB \<Rightarrow> ChatDB" where
  "updateMessage mid f = setMessages (updateRows (\<lambda>(m, _). ms_MsgID m = mid) (\<lambda>(m, b). (f m, b)))"

definition MarkMessageDelivered :: "string \<Rightarrow> time \<Rightarrow> ChatDB \<Rightarrow> ChatDB" where
  "MarkMessageDelivered mid deliveredAt =
     updateMessage mid (\<lambda>m. m\<lparr>ms_State := MessageStateDeliveredRemote, ms_DeliveredAt := deliveredAt\<rparr>)"

definition UpdateMessageState :: "string \<Rightarrow> string \<Rightarrow> ChatDB \<Rightarrow> ChatDB" where
  "UpdateMessageState mid state db = (if mid = [] then db else updateMessage mid (\<lambda>m. m\<lparr>ms_State := state\<rparr>) db)"

definition UpsertOutboxJob :: "string \<Rightarrow> string \<Rightarrow> string \<Rightarrow> int \<Rightarrow> time \<Rightarrow> time \<Rightarrow> ChatDB \<Rightarrow> ChatDB" where
  "UpsertOutboxJob mid peerID status retryCount nextRetryAt lastAttempt db =
     (if mid = [] \<or> peerID = [] then db
      else let j = \<lparr>oj_JobID = mid, oj_PeerID = peerID, oj_MsgID = mid, oj_Status = status, oj_RetryCount = retryCount,
                    oj_NextRetryAt = nextRetryAt, oj_LastTransportAttempt = lastAttempt\<rparr>
           in db\<lparr>db_outbox := upsertRow (\<lambda>x. oj_JobID x = mid) (\<lambda>_. j) j (db_outbox db)\<rparr>)"

definition DeleteOutboxJob :: "string \<Rightarrow> ChatDB \<Rightarrow> ChatDB" where
  "DeleteOutboxJob mid db =
     (if mid = [] then db
      else db\<lparr>db_outbox := deleteRows (\<lambda>j. oj_JobID j = mid \<or> oj_MsgID j = mid) (db_outbox db)\<rparr>)"

definition removeMessage :: "string \<Rightarrow> string \<Rightarrow> ChatDB \<Rightarrow> ChatDB" where
  "removeMessage cid mid = setMessages (deleteRows (\<lambda>(m, _). ms_ConversationID m = cid \<and> ms_MsgID m = mid))"

definition DeleteMessage :: "time \<Rightarrow> string \<Rightarrow> string \<Rightarrow> ChatDB \<Rightarrow> ChatDB" where
  "DeleteMessage now cid mid db =
     (if cid = [] \<or> mid = [] then db else refreshConversationMessageSummary now cid (removeMessage cid mid db))"

definition QueueMessageRevoke :: "time \<Rightarrow> string \<Rightarrow> string \<Rightarrow> string \<Rightarrow> ChatDB \<Rightarrow> ChatDB" where
  "QueueMessageRevoke now cid peerID mid db =
     (if cid = [] \<or> peerID = [] \<or> mid = [] then db
      else let j = \<lparr>vj_JobID = mid, vj_ConversationID = cid, vj_PeerID = peerID, vj_MsgID = mid,
                    vj_Status = MessageStateQueuedForRetry, vj_RetryCount = 0, vj_NextRetryAt = now,
                    vj_LastTransportAttempt = 0, vj_CreatedAt = now\<rparr>;
               db1 = db\<lparr>db_revokes := upsertRow (\<lambda>x. vj_JobID x = mid) (\<lambda>_. j) j (db_revokes db)\<rparr>
           in refreshConversationMessageSummary now cid (removeMessage cid mid (DeleteOutboxJob mid db1)))"

definition DeleteMessageRevokeJob :: "string \<Rightarrow> ChatDB \<Rightarrow> ChatDB" where
  "DeleteMessageRevokeJob mid db =
     (if mid = [] then db
      else db\<lparr>db_revokes := deleteRows (\<lambda>j. vj_JobID j = mid \<or> vj_MsgID j = mid) (db_revokes db)\<rparr>)"

definition pendingStatus :: "string \<Rightarrow> bool" where
  "pendingStatus st \<longleftrightarrow> st = MessageStateQueuedForRetry \<or> st = MessageStateSentToTransport"

definition ListMessageRevokeJobsForPeer :: "string \<Rightarrow> int \<Rightarrow> ChatDB \<Rightarrow> revokeJob list" where
  "ListMessageRevokeJobsForPeer peerID limit db =
     take (if limit \<le> 0 then 32 else nat limit)
       (orderAsc (\<lambda>j. (formatDBTime (vj_NextRetryAt j), formatDBTime (vj_LastTransportAttempt j), formatDBTime (vj_CreatedAt j)))
         (filter (\<lambda>j. vj_PeerID j = peerID \<and> pendingStatus (vj_Status j)) (db_revokes db)))"

text \<open>The jobs of the outbox joined with the messages they are for.\<close>

definition outboxItems :: "(outboxJob \<Rightarrow> bool) \<Rightarrow> ChatDB \<Rightarrow> (outboxJob \<times> outboxRetryItem) list" where
  "outboxItems P db = concat (map (\<lambda>j. map (\<lambda>(m, b). (j, \<lparr>oi_JobID = oj_JobID j, oi_PeerID = oj_PeerID j, oi_MsgID = oj_MsgID j,
        oi_Message = m, oi_CiphertextBlob = b, oi_RetryCount = oj_RetryCount j\<rparr>))
      (filter (\<lambda>(m, _). ms_MsgID m = oj_MsgID j) (db_messages db)))
    (filter (\<lambda>j. P j \<and> pendingStatus (oj_Status j)) (db_outbox db)))"

definition ListOutboxJobsForRetry :: "time \<Rightarrow> int \<Rightarrow> ChatDB \<Rightarrow> outboxRetryItem list" where
  "ListOutboxJobsForRetry now limit db =
     take (if limit \<le> 0 then 32 else nat limit)
       (map snd (orderAsc (\<lambda>(j, _). (formatDBTime (oj_NextRetryAt j), formatDBTime (oj_LastTransportAttempt j)))
          (outboxItems (\<lambda>j. dueAt now (oj_NextRetryAt j)) db)))"

definition ListOutboxJobsForPeer :: "string \<Rightarrow> int \<Rightarrow> ChatDB \<Rightarrow> outboxRetryItem list" where
  "ListOutboxJobsForPeer peerID limit db =
     take (if limit \<le> 0 then 64 else nat limit)
       (orderAsc (\<lambda>i. timeText (ms_CreatedAt (oi_Message i))) (map snd (outboxItems (\<lambda>j. oj_PeerID j = peerID) db)))"

definition ListOutgoingMessagesForSync :: "string \<Rightarrow> string \<Rightarrow> u64 \<Rightarrow> int \<Rightarrow> ChatDB \<Rightarrow> (Message \<times> bytes) list result" where
  "ListOutgoingMessagesForSync cid senderPeerID nextCounter limit db = res_bind (sqlUint64 nextCounter) (\<lambda>_. Inr (
     take (if limit \<le> 0 then 128 else nat limit)
       (orderAsc (\<lambda>(m, _). unat (ms_Counter m))
         (filter (\<lambda>(m, _). ms_ConversationID m = cid \<and> ms_SenderPeerID m = senderPeerID \<and> ms_Direction m = ''outbound'' \<and>
            nextCounter \<le> ms_Counter m) (db_messages db)))))"

definition ListMessagesMissingOutbox :: "int \<Rightarrow> ChatDB \<Rightarrow> Message list" where
  "ListMessagesMissingOutbox limit db =
     take (if limit \<le> 0 then 256 else nat limit)
       (orderAsc (\<lambda>m. timeText (ms_CreatedAt m))
         (filter (\<lambda>m. ms_Direction m = ''outbound'' \<and> (ms_TransportMode m = TransportModeDirect \<or> ms_TransportMode m = TransportModeServer) \<and>
            (ms_State m = MessageStateLocalOnly \<or> pendingStatus (ms_State m)) \<and>
            ms_MsgType m \<in> {MessageTypeChatText, MessageTypeChatFile, MessageTypeGroupInviteNote} \<and>
            \<not> (\<exists>j\<in>set (db_outbox db). oj_MsgID j = ms_MsgID m)) (map fst (db_messages db))))"

section \<open>The list of conversations\<close>

text \<open>
  A conversation is listed when the peers are friends or a session exists; of the rows of one peer the most
  recent is kept. The rows of the query are taken in its order and the result is sorted again.
\<close>

definition listedConversation :: "ChatDB \<Rightarrow> Conversation \<Rightarrow> bool" where
  "listedConversation db c \<longleftrightarrow>
     HasAcceptedRequest (db_localPeerID db) (cv_PeerID c) db \<or> HasAcceptedRequest (cv_PeerID c) (db_localPeerID db) db \<or>
     (\<exists>x\<in>set (db_sessions db). sx_ConversationID x = cv_ConversationID c)"

definition newestOfPeer :: "Conversation \<Rightarrow> Conversation list \<Rightarrow> Conversation list" where
  "newestOfPeer c kept = (case find (\<lambda>p. cv_PeerID p = cv_PeerID c) kept of
     None \<Rightarrow> kept @ [c]
   | Some p \<Rightarrow> if cv_UpdatedAt p < cv_UpdatedAt c \<or> cv_UpdatedAt c = cv_UpdatedAt p \<and> cv_ConversationID p < cv_ConversationID c
              then replaceRow (\<lambda>x. cv_PeerID x = cv_PeerID c) c kept else kept)"

definition ListConversations :: "ChatDB \<Rightarrow> Conversation list" where
  "ListConversations db = orderDesc (\<lambda>c. (cv_UpdatedAt c, cv_ConversationID c))
     (fold newestOfPeer (orderDesc (\<lambda>c. timeText (cv_UpdatedAt c)) (filter (listedConversation db) (db_conversations db))) [])"

section \<open>Session keys\<close>

text \<open>The peer whose identifier is the smaller sends under the first key.\<close>

definition deriveSessionState :: "crypto \<Rightarrow> string \<Rightarrow> string \<Rightarrow> string \<Rightarrow> bytes \<Rightarrow> string \<Rightarrow> sessionState result" where
  "deriveSessionState C cid localPeerID remotePeerID localPriv remotePubB64 =
     (let pub64 = trimSpace remotePubB64 in
      if pub64 = [] then Inl (Errorf ''remote chat kex pub is empty'')
      else res_bind (of_option (Errorf ''illegal base64 data'') (b64_decode pub64)) (\<lambda>remotePub.
        res_bind (X25519SharedSecret C localPriv remotePub) (\<lambda>shared.
        let (k1, k2) = DeriveChatSessionKeys C shared; low = localPeerID < remotePeerID
        in Inr \<lparr>sx_ConversationID = cid, sx_PeerID = remotePeerID, sx_SendKey = (if low then k1 else k2),
                sx_RecvKey = (if low then k2 else k1), sx_SendCounter = 0, sx_RecvCounter = 0\<rparr>)))"

end
