(* ===== verification/Chat_Events.thy ===== *)
theory Chat_Events
  imports Chat_Store
begin

text \<open>
  The events the chat service pushes to its web socket clients, \<open>internal/chat/events.go\<close>: what an event
  carries and the hub that hands it to the subscribers. A channel is its capacity, the events waiting in it
  and whether it was closed; the hub of the model keeps every channel it ever made, so that a reader's view
  is there after it unsubscribed.
\<close>

section \<open>Events\<close>

record GroupDeliverySummary =
  gd_Total :: int
  gd_Pending :: int
  gd_SentToTransport :: int
  gd_QueuedForRetry :: int
  gd_DeliveredRemote :: int
  gd_Failed :: int

record ChatEvent =
  ev_Type :: string
  ev_Kind :: string
  ev_ConversationID :: string
  ev_MsgID :: string
  ev_MsgType :: string
  ev_RequestID :: string
  ev_FromPeerID :: string
  ev_ToPeerID :: string
  ev_State :: string
  ev_AtUnixMillis :: int
  ev_Plaintext :: string
  ev_FileName :: string
  ev_MIMEType :: string
  ev_FileSize :: int
  ev_SenderPeerID :: string
  ev_ReceiverPeerID :: string
  ev_Direction :: string
  ev_Counter :: u64
  ev_TransportMode :: string
  ev_MessageState :: string
  ev_CreatedAtUnixMillis :: int
  ev_DeliveredAtUnixMillis :: int
  ev_Epoch :: u64
  ev_SenderSeq :: u64
  ev_DeliverySummary :: "GroupDeliverySummary option"

definition zeroEvent :: ChatEvent where
  "zeroEvent = \<lparr>ev_Type = [], ev_Kind = [], ev_ConversationID = [], ev_MsgID = [], ev_MsgType = [], ev_RequestID = [],
     ev_FromPeerID = [], ev_ToPeerID = [], ev_State = [], ev_AtUnixMillis = 0, ev_Plaintext = [], ev_FileName = [],
     ev_MIMEType = [], ev_FileSize = 0, ev_SenderPeerID = [], ev_ReceiverPeerID = [], ev_Direction = [], ev_Counter = 0,
     ev_TransportMode = [], ev_MessageState = [], ev_CreatedAtUnixMillis = 0, ev_DeliveredAtUnixMillis = 0, ev_Epoch = 0,
     ev_SenderSeq = 0, ev_DeliverySummary = None\<rparr>"

definition unixMilli :: "time \<Rightarrow> int" where "unixMilli t = t div millisecond"

definition ofUnixMilli :: "int \<Rightarrow> time" where "ofUnixMilli ms = ms * millisecond"

definition newMessageEvent :: "time \<Rightarrow> string \<Rightarrow> string \<Rightarrow> string \<Rightarrow> string \<Rightarrow> ChatEvent" where
  "newMessageEvent now kind cid mid msgType = zeroEvent\<lparr>ev_Type := ''message'', ev_Kind := kind, ev_ConversationID := cid,
     ev_MsgID := mid, ev_MsgType := msgType, ev_AtUnixMillis := unixMilli now\<rparr>"

definition chatEventDirectMessage :: "time \<Rightarrow> Message \<Rightarrow> ChatEvent" where
  "chatEventDirectMessage now m = zeroEvent\<lparr>ev_Type := ''message'', ev_Kind := ''direct'',
     ev_ConversationID := ms_ConversationID m, ev_MsgID := ms_MsgID m, ev_MsgType := ms_MsgType m,
     ev_Plaintext := ms_Plaintext m, ev_FileName := ms_FileName m, ev_MIMEType := ms_MIMEType m, ev_FileSize := ms_FileSize m,
     ev_SenderPeerID := ms_SenderPeerID m, ev_ReceiverPeerID := ms_ReceiverPeerID m, ev_Direction := ms_Direction m,
     ev_Counter := ms_Counter m, ev_TransportMode := ms_TransportMode m, ev_MessageState := ms_State m,
     ev_CreatedAtUnixMillis := unixMilli (ms_CreatedAt m), ev_AtUnixMillis := unixMilli now\<rparr>"

definition newFriendRequestEvent :: "time \<Rightarrow> string \<Rightarrow> string \<Rightarrow> string \<Rightarrow> string \<Rightarrow> string \<Rightarrow> ChatEvent" where
  "newFriendRequestEvent now state rid fromPeer toPeer cid = zeroEvent\<lparr>ev_Type := ''friend_request'', ev_Kind := ''direct'',
     ev_ConversationID := cid, ev_RequestID := rid, ev_FromPeerID := fromPeer, ev_ToPeerID := toPeer, ev_State := state,
     ev_AtUnixMillis := unixMilli now\<rparr>"

definition newConversationDeletedEvent :: "time \<Rightarrow> string \<Rightarrow> string \<Rightarrow> ChatEvent" where
  "newConversationDeletedEvent now cid peerID = zeroEvent\<lparr>ev_Type := ''conversation_deleted'', ev_Kind := ''direct'',
     ev_ConversationID := cid, ev_FromPeerID := peerID, ev_AtUnixMillis := unixMilli now\<rparr>"

definition newContactDeletedEvent :: "time \<Rightarrow> string \<Rightarrow> ChatEvent" where
  "newContactDeletedEvent now peerID = zeroEvent\<lparr>ev_Type := ''contact_deleted'', ev_Kind := ''direct'',
     ev_FromPeerID := peerID, ev_AtUnixMillis := unixMilli now\<rparr>"

definition newDirectMessageStateEvent :: "time \<Rightarrow> Message \<Rightarrow> ChatEvent" where
  "newDirectMessageStateEvent now m = zeroEvent\<lparr>ev_Type := ''message_state'', ev_Kind := ''direct'',
     ev_ConversationID := ms_ConversationID m, ev_MsgID := ms_MsgID m, ev_MsgType := ms_MsgType m,
     ev_SenderPeerID := ms_SenderPeerID m, ev_ReceiverPeerID := ms_ReceiverPeerID m, ev_Direction := ms_Direction m,
     ev_Counter := ms_Counter m, ev_MessageState := ms_State m, ev_CreatedAtUnixMillis := unixMilli (ms_CreatedAt m),
     ev_AtUnixMillis := unixMilli now,
     ev_DeliveredAtUnixMillis := (if ms_DeliveredAt m = 0 then 0 else unixMilli (ms_DeliveredAt m))\<rparr>"

section \<open>The hub\<close>

record eventChan =
  ec_cap :: nat
  ec_queue :: "ChatEvent list"
  ec_closed :: bool

record chatEventHub =
  eh_nextID :: int
  eh_subs :: "int list"
  eh_chans :: "int \<Rightarrow> eventChan option"

definition newChatEventHub :: chatEventHub where
  "newChatEventHub = \<lparr>eh_nextID = 1, eh_subs = [], eh_chans = (\<lambda>_. None)\<rparr>"

definition subscribe :: "nat \<Rightarrow> chatEventHub \<Rightarrow> int \<times> chatEventHub" where
  "subscribe buffer h = (let i = eh_nextID h in
     (i, h\<lparr>eh_nextID := i + 1, eh_subs := eh_subs h @ [i],
           eh_chans := (eh_chans h)(i \<mapsto> \<lparr>ec_cap = buffer, ec_queue = [], ec_closed = False\<rparr>)\<rparr>))"

text \<open>Sending on a closed channel and closing it twice panic.\<close>

definition closeChan :: "int \<Rightarrow> chatEventHub \<Rightarrow> chatEventHub result" where
  "closeChan i h = (case eh_chans h i of
     Some c \<Rightarrow> if ec_closed c then Inl Panic else Inr (h\<lparr>eh_chans := (eh_chans h)(i \<mapsto> c\<lparr>ec_closed := True\<rparr>)\<rparr>)
   | None \<Rightarrow> Inl Panic)"

definition trySend :: "ChatEvent \<Rightarrow> int \<Rightarrow> chatEventHub \<Rightarrow> chatEventHub result" where
  "trySend e i h = (case eh_chans h i of
     Some c \<Rightarrow> if ec_closed c then Inl Panic
               else if length (ec_queue c) < ec_cap c
               then Inr (h\<lparr>eh_chans := (eh_chans h)(i \<mapsto> c\<lparr>ec_queue := ec_queue c @ [e]\<rparr>)\<rparr>) else Inr h
   | None \<Rightarrow> Inl Panic)"

definition unsubscribe :: "int \<Rightarrow> chatEventHub \<Rightarrow> chatEventHub result" where
  "unsubscribe i h = (if i \<in> set (eh_subs h) then closeChan i (h\<lparr>eh_subs := filter (\<lambda>j. j \<noteq> i) (eh_subs h)\<rparr>) else Inr h)"

fun sendAll :: "ChatEvent \<Rightarrow> int list \<Rightarrow> chatEventHub \<Rightarrow> chatEventHub result" where
  "sendAll e [] h = Inr h"
| "sendAll e (i # is) h = res_bind (trySend e i h) (sendAll e is)"

definition publish :: "ChatEvent \<Rightarrow> chatEventHub \<Rightarrow> chatEventHub result" where
  "publish e h = sendAll e (eh_subs h) h"

text \<open>A reader takes the first event waiting.\<close>

definition receive :: "int \<Rightarrow> chatEventHub \<Rightarrow> ChatEvent option \<times> chatEventHub" where
  "receive i h = (case eh_chans h i of
     Some c \<Rightarrow> (case ec_queue c of e # q \<Rightarrow> (Some e, h\<lparr>eh_chans := (eh_chans h)(i \<mapsto> c\<lparr>ec_queue := q\<rparr>)\<rparr>) | [] \<Rightarrow> (None, h))
   | None \<Rightarrow> (None, h))"


section \<open>No panic, no event out of order\<close>

definition pushEvent :: "ChatEvent \<Rightarrow> eventChan \<Rightarrow> eventChan" where
  "pushEvent e c = (if length (ec_queue c) < ec_cap c then c\<lparr>ec_queue := ec_queue c @ [e]\<rparr> else c)"

lemma pushEvent_fields [simp]:
  "ec_cap (pushEvent e c) = ec_cap c" "ec_closed (pushEvent e c) = ec_closed c"
  "length (ec_queue (pushEvent e c)) \<le> ec_cap c \<longleftrightarrow> length (ec_queue c) \<le> ec_cap c"
  by (simp_all add: pushEvent_def)

definition openChan :: "chatEventHub \<Rightarrow> int \<Rightarrow> bool" where
  "openChan h i \<longleftrightarrow> (\<exists>c. eh_chans h i = Some c \<and> \<not> ec_closed c)"

definition hub_ok :: "chatEventHub \<Rightarrow> bool" where
  "hub_ok h \<longleftrightarrow> distinct (eh_subs h) \<and> (\<forall>i\<in>set (eh_subs h). openChan h i) \<and>
     (\<forall>i. eh_nextID h \<le> i \<longrightarrow> eh_chans h i = None) \<and>
     (\<forall>i c. eh_chans h i = Some c \<longrightarrow> length (ec_queue c) \<le> ec_cap c)"

lemma trySend_open:
  "openChan h i \<Longrightarrow> trySend e i h = Inr (h\<lparr>eh_chans := (eh_chans h)(i := map_option (pushEvent e) (eh_chans h i))\<rparr>)"
  by (auto simp: openChan_def trySend_def pushEvent_def fun_upd_idem)

lemma sendAll_open:
  "distinct is \<Longrightarrow> \<forall>i\<in>set is. openChan h i \<Longrightarrow>
   sendAll e is h = Inr (h\<lparr>eh_chans := (\<lambda>j. if j \<in> set is then map_option (pushEvent e) (eh_chans h j) else eh_chans h j)\<rparr>)"
proof (induction "is" arbitrary: h)
  case (Cons i "is")
  let ?h = "h\<lparr>eh_chans := (eh_chans h)(i := map_option (pushEvent e) (eh_chans h i))\<rparr>"
  have "\<forall>j\<in>set is. openChan ?h j" using Cons.prems by (auto simp: openChan_def)
  then have "sendAll e is ?h = Inr (?h\<lparr>eh_chans := (\<lambda>j. if j \<in> set is then map_option (pushEvent e) (eh_chans ?h j) else eh_chans ?h j)\<rparr>)"
    using Cons by simp
  moreover have "(\<lambda>j. if j \<in> set is then map_option (pushEvent e) (eh_chans ?h j) else eh_chans ?h j)
      = (\<lambda>j. if j \<in> set (i # is) then map_option (pushEvent e) (eh_chans h j) else eh_chans h j)"
    using Cons.prems(1) by (auto simp: fun_eq_iff)
  ultimately show ?case using trySend_open [of h i e] Cons.prems(2) by simp
qed simp

text \<open>What publishing does: an open channel with room gets the event at its end, every other keeps what it has.\<close>

lemma publish_result:
  "hub_ok h \<Longrightarrow> publish e h =
     Inr (h\<lparr>eh_chans := (\<lambda>j. if j \<in> set (eh_subs h) then map_option (pushEvent e) (eh_chans h j) else eh_chans h j)\<rparr>)"
  unfolding publish_def by (rule sendAll_open) (auto simp: hub_ok_def)

lemma hub_ok_publish: "hub_ok h \<Longrightarrow> publish e h = Inr h' \<Longrightarrow> hub_ok h'"
  using publish_result [of h e] by (force simp: hub_ok_def openChan_def split: if_splits)

lemma hub_ok_subscribe: "hub_ok h \<Longrightarrow> hub_ok (snd (subscribe b h))"
  by (fastforce simp: hub_ok_def openChan_def subscribe_def Let_def)

lemma unsubscribe_result:
  assumes "hub_ok h" "i \<in> set (eh_subs h)"
  obtains c where "eh_chans h i = Some c" "\<not> ec_closed c"
    "unsubscribe i h = Inr (h\<lparr>eh_subs := filter (\<lambda>j. j \<noteq> i) (eh_subs h), eh_chans := (eh_chans h)(i \<mapsto> c\<lparr>ec_closed := True\<rparr>)\<rparr>)"
  using assms by (auto simp: hub_ok_def openChan_def unsubscribe_def closeChan_def)

lemma hub_ok_unsubscribe: "hub_ok h \<Longrightarrow> unsubscribe i h = Inr h' \<Longrightarrow> hub_ok h'"
proof (cases "i \<in> set (eh_subs h)")
  case True
  assume h: "hub_ok h" and u: "unsubscribe i h = Inr h'"
  obtain c where "eh_chans h i = Some c" "\<not> ec_closed c"
    "h' = h\<lparr>eh_subs := filter (\<lambda>j. j \<noteq> i) (eh_subs h), eh_chans := (eh_chans h)(i \<mapsto> c\<lparr>ec_closed := True\<rparr>)\<rparr>"
    using unsubscribe_result [OF h True] u by (metis sum.inject(2))
  then show ?thesis using h by (auto simp: hub_ok_def openChan_def split: if_splits)
qed (simp add: unsubscribe_def)

lemma hub_ok_receive: "hub_ok h \<Longrightarrow> hub_ok (snd (receive i h))"
proof (cases "\<exists>c e q. eh_chans h i = Some c \<and> ec_queue c = e # q")
  case True
  assume h: "hub_ok h"
  from True obtain c e q where c: "eh_chans h i = Some c" "ec_queue c = e # q" by blast
  have "length (ec_queue c) \<le> ec_cap c" using h c(1) by (auto simp: hub_ok_def)
  then show ?thesis using h c by (auto simp: receive_def hub_ok_def openChan_def split: if_splits)
qed (auto simp: receive_def split: option.splits list.splits)

inductive hub_reach :: "chatEventHub \<Rightarrow> bool" where
  hub_new: "hub_reach newChatEventHub"
| hub_subscribe: "hub_reach h \<Longrightarrow> hub_reach (snd (subscribe b h))"
| hub_unsubscribe: "hub_reach h \<Longrightarrow> unsubscribe i h = Inr h' \<Longrightarrow> hub_reach h'"
| hub_publish: "hub_reach h \<Longrightarrow> publish e h = Inr h' \<Longrightarrow> hub_reach h'"
| hub_receive: "hub_reach h \<Longrightarrow> hub_reach (snd (receive i h))"

lemma hub_reach_ok: "hub_reach h \<Longrightarrow> hub_ok h"
proof (induction rule: hub_reach.induct)
  case hub_new
  show ?case by (simp add: hub_ok_def newChatEventHub_def)
qed (auto intro: hub_ok_publish hub_ok_subscribe hub_ok_unsubscribe hub_ok_receive)

text \<open>C39. In any interleaving of subscribing, unsubscribing (also twice), publishing and reading, no operation of the event
  hub sends on a closed channel or closes one twice; publishing appends the event to the channel of each subscriber
  that has room, drops it for the others, and leaves the channels of those who unsubscribed as they are.\<close>

theorem event_hub_never_panics:
  assumes "hub_reach h"
  shows "\<exists>h1 h2. unsubscribe i h = Inr h1 \<and> publish e h = Inr h2 \<and> eh_subs h2 = eh_subs h \<and>
     eh_chans h2 = (\<lambda>j. if j \<in> set (eh_subs h) then map_option (pushEvent e) (eh_chans h j) else eh_chans h j)"
proof -
  have h: "hub_ok h" by (rule hub_reach_ok [OF assms])
  have "\<exists>h1. unsubscribe i h = Inr h1"
  proof (cases "i \<in> set (eh_subs h)")
    case True
    show ?thesis by (rule unsubscribe_result [OF h True]) blast
  qed (simp add: unsubscribe_def)
  then show ?thesis using publish_result [OF h, of e] by auto
qed

theorem event_hub_never_panics_witness:
  "\<exists>h1 h2. unsubscribe 1 (snd (subscribe 1 newChatEventHub)) = Inr h1 \<and> publish zeroEvent (snd (subscribe 1 newChatEventHub)) = Inr h2 \<and>
     map_option ec_queue (eh_chans h2 1) = Some [zeroEvent]"
  using event_hub_never_panics [OF hub_subscribe [OF hub_new], of 1 1 zeroEvent]
  by (auto simp: subscribe_def Let_def newChatEventHub_def pushEvent_def)

end
