(* ===== verification/Chat_Service.thy ===== *)
theory Chat_Service
  imports Chat_Events
begin

text \<open>
  The chat service of \<open>internal/chat/service.go\<close>: its messages, its state, how it sends, and the handshake
  of two peers who become friends (requests, acceptances, rejections and their retries), with the repair of
  conversations in \<open>direct_state.go\<close>. The service is one without a meshchat server (\<open>isServerModeActive\<close> is
  false). The network is the record \<open>chat_net\<close>: what libp2p, the relays and the offline store answer to the
  n-th call. A goroutine the code starts is a task that is run later.
\<close>

section \<open>Messages\<close>

record SessionRequest =
  sr_Type :: string
  sr_RequestID :: string
  sr_FromPeerID :: string
  sr_ToPeerID :: string
  sr_Nickname :: string
  sr_Bio :: string
  sr_AvatarName :: string
  sr_RetentionMinutes :: int
  sr_IntroText :: string
  sr_ChatKexPub :: string
  sr_SentAtUnix :: int
  sr_Signature :: bytes

record SessionAccept =
  sa_Type :: string
  sa_RequestID :: string
  sa_ConversationID :: string
  sa_FromPeerID :: string
  sa_ToPeerID :: string
  sa_Bio :: string
  sa_AvatarName :: string
  sa_RetentionMinutes :: int
  sa_ChatKexPub :: string
  sa_SentAtUnix :: int
  sa_Signature :: bytes

record SessionAcceptAck =
  sk_Type :: string
  sk_RequestID :: string
  sk_ConversationID :: string
  sk_FromPeerID :: string
  sk_ToPeerID :: string
  sk_SentAtUnix :: int
  sk_Signature :: bytes

record SessionReject =
  sj_Type :: string
  sj_RequestID :: string
  sj_FromPeerID :: string
  sj_ToPeerID :: string
  sj_SentAtUnix :: int
  sj_Signature :: bytes

record AvatarRequest =
  ar_Type :: string
  ar_FromPeerID :: string
  ar_ToPeerID :: string
  ar_AvatarName :: string
  ar_SentAtUnix :: int
  ar_Signature :: bytes

record ChatText =
  tx_Type :: string
  tx_ConversationID :: string
  tx_MsgID :: string
  tx_FromPeerID :: string
  tx_ToPeerID :: string
  tx_Ciphertext :: bytes
  tx_Counter :: u64
  tx_SentAtUnix :: int
  tx_Signature :: bytes

record ChatFile =
  fl_Type :: string
  fl_ConversationID :: string
  fl_MsgID :: string
  fl_FromPeerID :: string
  fl_ToPeerID :: string
  fl_FileName :: string
  fl_MIMEType :: string
  fl_FileSize :: int
  fl_FileCID :: string
  fl_Ciphertext :: bytes
  fl_Counter :: u64
  fl_SentAtUnix :: int
  fl_Signature :: bytes

record DeliveryAck =
  da_Type :: string
  da_ConversationID :: string
  da_MsgID :: string
  da_FromPeerID :: string
  da_ToPeerID :: string
  da_AckedAtUnix :: int
  da_Signature :: bytes

record ChatSyncRequest =
  sq_Type :: string
  sq_ConversationID :: string
  sq_FromPeerID :: string
  sq_ToPeerID :: string
  sq_NextCounter :: u64
  sq_SentAtUnix :: int
  sq_Signature :: bytes

record ChatSyncResponse =
  sp_Type :: string
  sp_ConversationID :: string
  sp_FromPeerID :: string
  sp_RemoteSendCounter :: u64
  sp_Messages :: "ChatText list"
  sp_Files :: "ChatFile list"
  sp_Signature :: bytes

record MessageRevoke =
  mr_Type :: string
  mr_ConversationID :: string
  mr_MsgID :: string
  mr_FromPeerID :: string
  mr_ToPeerID :: string
  mr_RevokedAtUnix :: int
  mr_Signature :: bytes

record RetentionUpdate =
  ru_Type :: string
  ru_ConversationID :: string
  ru_FromPeerID :: string
  ru_ToPeerID :: string
  ru_RetentionMinutes :: int
  ru_UpdatedAtUnix :: int
  ru_Signature :: bytes

record RetentionAck =
  ra_Type :: string
  ra_ConversationID :: string
  ra_FromPeerID :: string
  ra_ToPeerID :: string
  ra_RetentionMinutes :: int
  ra_AckedAtUnix :: int
  ra_Signature :: bytes

text \<open>What a service sends to a peer (the \<open>any\<close> of the sending functions).\<close>

datatype ChatEnvelope =
    EnvSessionRequest SessionRequest
  | EnvSessionAccept SessionAccept
  | EnvSessionReject SessionReject
  | EnvSessionAcceptAck SessionAcceptAck
  | EnvAvatarRequest AvatarRequest
  | EnvChatText ChatText
  | EnvChatFile ChatFile
  | EnvDeliveryAck DeliveryAck
  | EnvChatSyncResponse ChatSyncResponse
  | EnvMessageRevoke MessageRevoke
  | EnvRetentionUpdate RetentionUpdate

text \<open>The goroutines the service starts.\<close>

datatype ChatTask =
    SendDirect Message bytes bytes
  | SendFriendControl string string string ChatEnvelope bool
  | SendReject string SessionReject
  | SendRetentionUpdate string RetentionUpdate
  | SyncOnGap string string u64
  | AutoFetchFile Message
  | AvatarFetch string AvatarRequest

section \<open>State\<close>

record chat_net =
  cn_crypto :: crypto
  cn_uuid :: "nat \<Rightarrow> string"
  cn_jitter :: "nat \<Rightarrow> duration"
  cn_decodes :: "string \<Rightarrow> bool"
  cn_connected :: "nat \<Rightarrow> string \<Rightarrow> bool"
  cn_relayPreferred :: "nat \<Rightarrow> string \<Rightarrow> bool"
  cn_sendJSON :: "nat \<Rightarrow> string \<Rightarrow> ChatEnvelope \<Rightarrow> go_error option"
  cn_sendViaRelay :: "nat \<Rightarrow> string \<Rightarrow> ChatEnvelope \<Rightarrow> go_error option"
  cn_offlineSubmit :: "nat \<Rightarrow> Message \<Rightarrow> bytes \<Rightarrow> go_error option"
  cn_offlineNodes :: "string \<Rightarrow> bool"
  cn_friendSubmit :: "nat \<Rightarrow> string \<Rightarrow> string \<Rightarrow> ChatEnvelope \<Rightarrow> go_error option"
  cn_chatSync :: "nat \<Rightarrow> string \<Rightarrow> ChatSyncRequest \<Rightarrow> ChatSyncResponse result"
  cn_ackSignature :: "DeliveryAck \<Rightarrow> go_error option"
  cn_fileCID :: "bytes \<Rightarrow> string result"
  cn_pinChatFile :: "(string \<Rightarrow> bytes \<Rightarrow> string result) option"
  cn_groupInvite :: "ChatText \<Rightarrow> bytes \<Rightarrow> go_error option"
  cn_avatarNeeded :: "string \<Rightarrow> string \<Rightarrow> bool"

record ChatService =
  cs_localPeer :: string
  cs_db :: ChatDB
  cs_hub :: chatEventHub
  cs_calls :: nat
  cs_sent :: "(string \<times> ChatEnvelope) list"
  cs_tasks :: "ChatTask list"
  cs_avatarFetchSeen :: "string \<Rightarrow> time option"

text \<open>
  An operation of the service returns a value, fails with an error, or, for the ones that may call
  themselves, has used up its fuel.
\<close>

datatype 'a outcome = Returns 'a | Fails go_error | OutOfFuel

type_synonym 'a svc = "ChatService \<Rightarrow> 'a outcome \<times> ChatService"

named_theorems svc_simps

definition ret :: "'a \<Rightarrow> 'a svc" where "ret x s = (Returns x, s)"
definition fail :: "go_error \<Rightarrow> 'a svc" where "fail e s = (Fails e, s)"

definition bindS :: "'a svc \<Rightarrow> ('a \<Rightarrow> 'b svc) \<Rightarrow> 'b svc" where
  "bindS m f s = (case m s of
     (Returns x, s') \<Rightarrow> f x s' | (Fails e, s') \<Rightarrow> (Fails e, s') | (OutOfFuel, s') \<Rightarrow> (OutOfFuel, s'))"

text \<open>The error of a call becomes a value: \<open>if err := ...\<close> and \<open>_ = ...\<close>.\<close>

definition attempt :: "'a svc \<Rightarrow> 'a result svc" where
  "attempt m s = (case m s of
     (Returns x, s') \<Rightarrow> (Returns (Inr x), s') | (Fails e, s') \<Rightarrow> (Returns (Inl e), s') | (OutOfFuel, s') \<Rightarrow> (OutOfFuel, s'))"

definition liftR :: "'a result \<Rightarrow> 'a svc" where
  "liftR r s = (case r of Inr x \<Rightarrow> (Returns x, s) | Inl e \<Rightarrow> (Fails e, s))"

definition readDB :: "(ChatDB \<Rightarrow> 'a result) \<Rightarrow> 'a svc" where
  "readDB f s = liftR (f (cs_db s)) s"

definition execDB :: "(ChatDB \<Rightarrow> ChatDB) \<Rightarrow> unit svc" where
  "execDB f s = (Returns (), s\<lparr>cs_db := f (cs_db s)\<rparr>)"

definition execR :: "(ChatDB \<Rightarrow> 'a result \<times> ChatDB) \<Rightarrow> 'a svc" where
  "execR f s = (case f (cs_db s) of (r, db) \<Rightarrow> liftR r (s\<lparr>cs_db := db\<rparr>))"

definition gets :: "(ChatService \<Rightarrow> 'a) \<Rightarrow> 'a svc" where "gets f s = (Returns (f s), s)"

definition goTask :: "ChatTask \<Rightarrow> unit svc" where
  "goTask t s = (Returns (), s\<lparr>cs_tasks := cs_tasks s @ [t]\<rparr>)"

definition nextCall :: "nat svc" where
  "nextCall s = (Returns (cs_calls s), s\<lparr>cs_calls := cs_calls s + 1\<rparr>)"

lemma svc_run [svc_simps]:
  "ret x s = (Returns x, s)" "fail e s = (Fails e, s)" "gets h s = (Returns (h s), s)"
  "liftR (Inr x) s = (Returns x, s)" "liftR (Inl e) s = (Fails e, s)"
  "readDB f s = liftR (f (cs_db s)) s" "execDB g s = (Returns (), s\<lparr>cs_db := g (cs_db s)\<rparr>)"
  "goTask t s = (Returns (), s\<lparr>cs_tasks := cs_tasks s @ [t]\<rparr>)"
  "nextCall s = (Returns (cs_calls s), s\<lparr>cs_calls := cs_calls s + 1\<rparr>)"
  by (simp_all add: ret_def fail_def gets_def liftR_def readDB_def execDB_def goTask_def nextCall_def)

lemma bindS_run [svc_simps]:
  "m s = (Returns x, s') \<Longrightarrow> bindS m f s = f x s'"
  "m s = (Fails e, s') \<Longrightarrow> bindS m f s = (Fails e, s')"
  "m s = (OutOfFuel, s') \<Longrightarrow> bindS m f s = (OutOfFuel, s')"
  by (simp_all add: bindS_def)

lemma attempt_run [svc_simps]:
  "m s = (Returns x, s') \<Longrightarrow> attempt m s = (Returns (Inr x), s')"
  "m s = (Fails e, s') \<Longrightarrow> attempt m s = (Returns (Inl e), s')"
  "m s = (OutOfFuel, s') \<Longrightarrow> attempt m s = (OutOfFuel, s')"
  by (simp_all add: attempt_def)


section \<open>Sending\<close>

definition publishChatEvent :: "ChatEvent \<Rightarrow> unit svc" where
  "publishChatEvent e s = (case publish e (cs_hub s) of
     Inr h \<Rightarrow> (Returns (), s\<lparr>cs_hub := h\<rparr>) | Inl err \<Rightarrow> (Fails err, s))"

text \<open>An envelope that went out is recorded with its receiver.\<close>

definition transmit :: "(nat \<Rightarrow> string \<Rightarrow> ChatEnvelope \<Rightarrow> go_error option) \<Rightarrow> string \<Rightarrow> ChatEnvelope \<Rightarrow> unit svc" where
  "transmit via peerID v s = (case via (cs_calls s) peerID v of
     Some e \<Rightarrow> (Fails e, s\<lparr>cs_calls := cs_calls s + 1\<rparr>)
   | None \<Rightarrow> (Returns (), s\<lparr>cs_calls := cs_calls s + 1, cs_sent := cs_sent s @ [(peerID, v)]\<rparr>))"

definition sendJSON :: "chat_net \<Rightarrow> string \<Rightarrow> ChatEnvelope \<Rightarrow> unit svc" where
  "sendJSON N = transmit (cn_sendJSON N)"

definition sendViaRelay :: "chat_net \<Rightarrow> string \<Rightarrow> ChatEnvelope \<Rightarrow> unit svc" where
  "sendViaRelay N = transmit (cn_sendViaRelay N)"

definition sendEnvelopeDirectOrRelay :: "chat_net \<Rightarrow> string \<Rightarrow> ChatEnvelope \<Rightarrow> bool svc" where
  "sendEnvelopeDirectOrRelay N peerID v =
     bindS nextCall (\<lambda>n.
     bindS (if cn_relayPreferred N n peerID then attempt (sendViaRelay N peerID v) else ret (Inl ErrNoRows)) (\<lambda>r.
     case r of Inr _ \<Rightarrow> ret True
     | Inl _ \<Rightarrow> bindS (attempt (sendJSON N peerID v)) (\<lambda>d.
         case d of Inr _ \<Rightarrow> ret False | Inl _ \<Rightarrow> bindS (sendViaRelay N peerID v) (\<lambda>_. ret True))))"

definition sendEnvelope :: "chat_net \<Rightarrow> string \<Rightarrow> ChatEnvelope \<Rightarrow> unit svc" where
  "sendEnvelope N peerID v =
     bindS nextCall (\<lambda>n.
     bindS (if cn_relayPreferred N n peerID then attempt (sendViaRelay N peerID v) else ret (Inl ErrNoRows)) (\<lambda>r.
     case r of Inr _ \<Rightarrow> ret ()
     | Inl _ \<Rightarrow> bindS (attempt (sendJSON N peerID v)) (\<lambda>d.
         case d of Inr _ \<Rightarrow> ret () | Inl _ \<Rightarrow> sendViaRelay N peerID v)))"

text \<open>A friend control message goes to the offline store too when it went over a relay or not at all.\<close>

definition tryOfflineFriendStoreSubmit :: "chat_net \<Rightarrow> string \<Rightarrow> string \<Rightarrow> ChatEnvelope \<Rightarrow> unit svc" where
  "tryOfflineFriendStoreSubmit N peerID mid v s =
     (case cn_friendSubmit N (cs_calls s) peerID mid v of
        Some e \<Rightarrow> (Fails e, s\<lparr>cs_calls := cs_calls s + 1\<rparr>) | None \<Rightarrow> (Returns (), s\<lparr>cs_calls := cs_calls s + 1\<rparr>))"

definition sendFriendControlEnvelope :: "chat_net \<Rightarrow> string \<Rightarrow> ChatEnvelope \<Rightarrow> string \<Rightarrow> unit svc" where
  "sendFriendControlEnvelope N peerID v mid =
     bindS (attempt (sendEnvelopeDirectOrRelay N peerID v)) (\<lambda>r.
     case r of Inl e \<Rightarrow> bindS (attempt (tryOfflineFriendStoreSubmit N peerID mid v)) (\<lambda>_. fail e)
     | Inr usedRelay \<Rightarrow> if usedRelay then bindS (attempt (tryOfflineFriendStoreSubmit N peerID mid v)) (\<lambda>_. ret ()) else ret ())"

text \<open>The delay of a retry doubles with each attempt, up to half an hour; up to a tenth of it is added at random.\<close>

definition friendRequestRetryBaseDelay :: duration where "friendRequestRetryBaseDelay = 10 * second"
definition friendRequestRetryMaxDelay :: duration where "friendRequestRetryMaxDelay = 30 * minute"
definition friendRequestRetryDeadline :: duration where "friendRequestRetryDeadline = 7 * 24 * 60 * minute"

definition retryDelay :: "int \<Rightarrow> duration" where
  "retryDelay retryCount0 =
     (let retryCount = (if retryCount0 < 0 then 0 else retryCount0); e = (if 10 < retryCount then 10 else retryCount);
          delay = friendRequestRetryBaseDelay * 2 ^ nat e
      in if friendRequestRetryMaxDelay < delay then friendRequestRetryMaxDelay else delay)"

definition scheduleFriendRequestRetry :: "chat_net \<Rightarrow> time \<Rightarrow> string \<Rightarrow> string \<Rightarrow> int \<Rightarrow> unit svc" where
  "scheduleFriendRequestRetry N now rid peerID retryCount =
     bindS nextCall (\<lambda>n.
     let delay = retryDelay retryCount; jitterMax = delay div 10;
         jitter = (if 0 < jitterMax then cn_jitter N n mod jitterMax else 0)
     in execDB (UpsertFriendRequestJob now rid peerID MessageStateQueuedForRetry
          (if retryCount < 0 then 0 else retryCount) (now + (delay + jitter)) now))"

text \<open>What the goroutine that sends a friend control message does.\<close>

definition sendOutgoingFriendControl :: "chat_net \<Rightarrow> time \<Rightarrow> string \<Rightarrow> string \<Rightarrow> ChatEnvelope \<Rightarrow> bool \<Rightarrow> unit svc" where
  "sendOutgoingFriendControl N now mid peerID payload scheduleRetry =
     bindS (if cn_offlineNodes N peerID then attempt (tryOfflineFriendStoreSubmit N peerID mid payload) else ret (Inr ())) (\<lambda>_.
     bindS (attempt (sendEnvelopeDirectOrRelay N peerID payload)) (\<lambda>r.
     case r of Inr _ \<Rightarrow> ret ()
     | Inl _ \<Rightarrow> if scheduleRetry then bindS (attempt (scheduleFriendRequestRetry N now mid peerID 0)) (\<lambda>_. ret ()) else ret ()))"

definition dispatchOutgoingFriendControl :: "string \<Rightarrow> string \<Rightarrow> string \<Rightarrow> ChatEnvelope \<Rightarrow> bool \<Rightarrow> unit svc" where
  "dispatchOutgoingFriendControl mid peerID kind payload scheduleRetry =
     goTask (SendFriendControl mid peerID kind payload scheduleRetry)"

section \<open>Avatars\<close>

text \<open>The base name of a path (\<open>filepath.Base\<close> on a slash-separated system).\<close>

definition filepathBase :: "string \<Rightarrow> string" where
  "filepathBase p = (if p = [] then ''.'' else
     let q = rev (dropWhile (\<lambda>c. c = CHR ''/'') (rev p)) in
     if q = [] then ''/'' else rev (takeWhile (\<lambda>c. c \<noteq> CHR ''/'') (rev q)))"

definition NormalizeAvatarFileName :: "string \<Rightarrow> string" where
  "NormalizeAvatarFileName name = (let b = filepathBase (trimSpace name) in if b = ''.'' \<or> b = ''/'' then [] else b)"

definition NormalizeChatFileName :: "string \<Rightarrow> string" where
  "NormalizeChatFileName name =
     (let b = filepathBase (trimSpace name) in
      if b = [] \<or> b = ''.'' \<or> b = ''/'' then ''file'' else take 120 (filter (\<lambda>c. c \<noteq> CHR 0x00) b))"

definition directAvatarFetchTTL :: duration where "directAvatarFetchTTL = minute"

text \<open>
  An avatar is fetched from a connected peer that has not said it does not answer, when the file is not there
  (\<open>cn_avatarNeeded\<close>) and it was not asked for within the last minute.
\<close>

definition requestAvatarFetch :: "chat_net \<Rightarrow> time \<Rightarrow> string \<Rightarrow> string \<Rightarrow> unit svc" where
  "requestAvatarFetch N now peerID name =
     (let avatarName = NormalizeAvatarFileName name; key = peerID @ CHR 0x00 # avatarName in
      bindS nextCall (\<lambda>n. bindS (gets cs_localPeer) (\<lambda>me. bindS (gets (\<lambda>s. cs_avatarFetchSeen s key)) (\<lambda>seen.
      if peerID = [] \<or> avatarName = [] \<or> \<not> cn_decodes N peerID \<or> \<not> cn_connected N n peerID \<or> \<not> cn_avatarNeeded N peerID avatarName
         \<or> (case seen of Some ts \<Rightarrow> now - ts < directAvatarFetchTTL | None \<Rightarrow> False)
      then ret ()
      else bindS (\<lambda>s. (Returns (), s\<lparr>cs_avatarFetchSeen := (cs_avatarFetchSeen s)(key \<mapsto> now)\<rparr>)) (\<lambda>_.
        goTask (AvatarFetch peerID \<lparr>ar_Type = ''avatar_request'', ar_FromPeerID = me, ar_ToPeerID = peerID,
          ar_AvatarName = avatarName, ar_SentAtUnix = unixMilli now, ar_Signature = []\<rparr>))))))"

definition learnAvatar :: "chat_net \<Rightarrow> time \<Rightarrow> string \<Rightarrow> string \<Rightarrow> unit svc" where
  "learnAvatar N now peerID avatarName =
     (if avatarName = [] then ret ()
      else bindS (attempt (execR (UpdatePeerAvatar now peerID avatarName))) (\<lambda>_. requestAvatarFetch N now peerID avatarName))"


section \<open>Becoming friends\<close>

definition GetProfile :: "(Profile \<times> bytes) svc" where
  "GetProfile = gets (\<lambda>s. (db_profile (cs_db s), db_kexPriv (cs_db s)))"

definition peerIDForRequest :: "string \<Rightarrow> Request \<Rightarrow> string" where
  "peerIDForRequest localPeer r =
     (if fq_FromPeerID r = localPeer then trimSpace (fq_ToPeerID r)
      else if fq_ToPeerID r = localPeer then trimSpace (fq_FromPeerID r) else [])"

definition activeConversation :: "string \<Rightarrow> string \<Rightarrow> string \<Rightarrow> int \<Rightarrow> time \<Rightarrow> time \<Rightarrow> Conversation" where
  "activeConversation cid peerID mode retention createdAt now = zeroConversation\<lparr>cv_ConversationID := cid, cv_PeerID := peerID,
     cv_State := ConversationStateActive, cv_LastTransportMode := mode, cv_RetentionMinutes := retention,
     cv_CreatedAt := createdAt, cv_UpdatedAt := now\<rparr>"

text \<open>A conversation under another identifier is moved to the one both peers derive.\<close>

definition canonicalConversation :: "time \<Rightarrow> string \<Rightarrow> Conversation \<Rightarrow> Conversation svc" where
  "canonicalConversation now target ex =
     (if cv_ConversationID ex \<noteq> target
      then bindS (execR (MigrateConversationID now (cv_ConversationID ex) target)) (\<lambda>_. readDB (GetConversation target))
      else ret ex)"

definition SendRequest :: "chat_net \<Rightarrow> time \<Rightarrow> string \<Rightarrow> string \<Rightarrow> Request svc" where
  "SendRequest N now toPeerID introText =
     bindS (gets cs_localPeer) (\<lambda>me. bindS (attempt (readDB (GetPeer toPeerID))) (\<lambda>contact.
     if (case contact of Inr c \<Rightarrow> ck_Blocked c | Inl _ \<Rightarrow> False) then fail (Errorf ''peer is blocked'')
     else bindS GetProfile (\<lambda>(profile, _).
     bindS (attempt (readDB (GetConversationByPeer toPeerID))) (\<lambda>conv.
     bindS nextCall (\<lambda>n.
     let retention = (case conv of Inr c \<Rightarrow> cv_RetentionMinutes c | Inl _ \<Rightarrow> 0);
         req = zeroRequest\<lparr>fq_RequestID := cn_uuid N n, fq_FromPeerID := me, fq_ToPeerID := toPeerID,
           fq_State := RequestStatePending, fq_IntroText := trimSpace introText, fq_Nickname := pf_Nickname profile,
           fq_Bio := pf_Bio profile, fq_Avatar := (case contact of Inr c \<Rightarrow> ck_Avatar c | Inl _ \<Rightarrow> []),
           fq_RetentionMinutes := retention, fq_LastTransportMode := TransportModeDirect, fq_CreatedAt := now,
           fq_UpdatedAt := now, fq_RemoteChatKexPub := pf_ChatKexPub profile\<rparr>;
         wire = \<lparr>sr_Type = MessageTypeSessionRequest, sr_RequestID = fq_RequestID req, sr_FromPeerID = me, sr_ToPeerID = toPeerID,
           sr_Nickname = pf_Nickname profile, sr_Bio = pf_Bio profile, sr_AvatarName = pf_Avatar profile,
           sr_RetentionMinutes = retention, sr_IntroText = fq_IntroText req, sr_ChatKexPub = pf_ChatKexPub profile,
           sr_SentAtUnix = unixMilli now, sr_Signature = []\<rparr>
     in bindS (execDB (SaveOutgoingRequest now req)) (\<lambda>_.
        bindS (execDB (UpsertPeer now toPeerID [] [])) (\<lambda>_.
        bindS (dispatchOutgoingFriendControl (fq_RequestID req) toPeerID MessageTypeSessionRequest (EnvSessionRequest wire) False) (\<lambda>_.
        readDB (GetRequest (fq_RequestID req))))))))))"

definition acceptWire :: "time \<Rightarrow> Profile \<Rightarrow> string \<Rightarrow> string \<Rightarrow> string \<Rightarrow> string \<Rightarrow> int \<Rightarrow> ChatEnvelope" where
  "acceptWire now profile rid cid me peerID retention = EnvSessionAccept
     \<lparr>sa_Type = MessageTypeSessionAccept, sa_RequestID = rid, sa_ConversationID = cid, sa_FromPeerID = me, sa_ToPeerID = peerID,
      sa_Bio = pf_Bio profile, sa_AvatarName = pf_Avatar profile, sa_RetentionMinutes = retention,
      sa_ChatKexPub = pf_ChatKexPub profile, sa_SentAtUnix = unixMilli now, sa_Signature = []\<rparr>"

text \<open>The end of both branches: the request is accepted, and the peer is told until it acknowledges.\<close>

definition acceptDone :: "chat_net \<Rightarrow> time \<Rightarrow> Request \<Rightarrow> Profile \<Rightarrow> string \<Rightarrow> int \<Rightarrow> Conversation \<Rightarrow> Conversation svc" where
  "acceptDone N now req profile me retention conv =
     (let rid = fq_RequestID req; from = fq_FromPeerID req; cid = cv_ConversationID conv in
      bindS (execDB (UpdateRequestState now rid RequestStateAccepted cid)) (\<lambda>_.
      bindS (execDB (UpsertPeer now from (fq_Nickname req) (fq_Bio req))) (\<lambda>_.
      bindS (attempt (scheduleFriendRequestRetry N now rid from 0)) (\<lambda>_.
      bindS (dispatchOutgoingFriendControl rid from MessageTypeSessionAccept (acceptWire now profile rid cid me from retention) False) (\<lambda>_.
      ret conv)))))"

definition AcceptRequest :: "chat_net \<Rightarrow> time \<Rightarrow> string \<Rightarrow> Conversation svc" where
  "AcceptRequest N now rid =
     bindS (readDB (GetRequest rid)) (\<lambda>req. bindS (gets cs_localPeer) (\<lambda>me.
     let from = fq_FromPeerID req; target = deriveStableConversationID me from in
     if fq_ToPeerID req \<noteq> me then fail (Errorf ''request is not addressed to local peer'')
     else bindS GetProfile (\<lambda>(profile, priv). bindS (attempt (readDB (GetConversationByPeer from))) (\<lambda>existing.
     case existing of
       Inr ex0 \<Rightarrow>
         let retention = (if fq_RetentionMinutes req < cv_RetentionMinutes ex0 then cv_RetentionMinutes ex0 else fq_RetentionMinutes req) in
         bindS (canonicalConversation now target ex0) (\<lambda>ex.
         bindS (liftR (deriveSessionState (cn_crypto N) target me from priv (fq_RemoteChatKexPub req))) (\<lambda>sess.
         bindS (execR (CreateConversation now (activeConversation target from TransportModeDirect retention (cv_CreatedAt ex) now) sess))
           (acceptDone N now req profile me retention)))
     | Inl e \<Rightarrow>
         if e \<noteq> ErrNoRows then fail e
         else
         bindS (liftR (deriveSessionState (cn_crypto N) target me from priv (fq_RemoteChatKexPub req))) (\<lambda>sess.
         bindS (execR (CreateConversation now (activeConversation target from TransportModeDirect 0 now now) sess)) (\<lambda>conv.
         bindS (if fq_RetentionMinutes req \<noteq> cv_RetentionMinutes conv
                then attempt (execR (UpdateConversationRetention now (cv_ConversationID conv) (fq_RetentionMinutes req)))
                else ret (Inl ErrNoRows)) (\<lambda>upd.
         acceptDone N now req profile me (fq_RetentionMinutes req) (case upd of Inr c \<Rightarrow> c | Inl _ \<Rightarrow> conv))))))))"

definition RejectRequest :: "time \<Rightarrow> string \<Rightarrow> unit svc" where
  "RejectRequest now rid =
     bindS (readDB (GetRequest rid)) (\<lambda>req. bindS (gets cs_localPeer) (\<lambda>me.
     if fq_ToPeerID req \<noteq> me then fail (Errorf ''request is not addressed to local peer'')
     else bindS (execDB (UpdateRequestState now rid RequestStateRejected [])) (\<lambda>_.
       dispatchOutgoingFriendControl rid (fq_FromPeerID req) MessageTypeSessionReject
         (EnvSessionReject \<lparr>sj_Type = MessageTypeSessionReject, sj_RequestID = rid, sj_FromPeerID = me,
            sj_ToPeerID = fq_FromPeerID req, sj_SentAtUnix = unixMilli now, sj_Signature = []\<rparr>) False)))"

text \<open>An envelope about a request that is not known, or not from its other side, is ignored.\<close>

definition errChatEnvelopeIgnored :: go_error where "errChatEnvelopeIgnored = Errorf ''chat envelope ignored''"

definition validateFriendRequestEnvelope :: "string \<Rightarrow> string \<Rightarrow> Request svc" where
  "validateFriendRequestEnvelope rid fromPeerID =
     bindS (gets cs_localPeer) (\<lambda>me.
     if rid = [] \<or> fromPeerID = [] \<or> fromPeerID = me then fail errChatEnvelopeIgnored
     else bindS (attempt (readDB (GetRequest rid))) (\<lambda>r.
     case r of Inl e \<Rightarrow> if e = ErrNoRows then fail errChatEnvelopeIgnored else fail e
     | Inr req \<Rightarrow> if peerIDForRequest me req = [] \<or> peerIDForRequest me req \<noteq> fromPeerID then fail errChatEnvelopeIgnored
                  else ret req))"

definition validateSessionAcceptAck :: "SessionAcceptAck \<Rightarrow> Request svc" where
  "validateSessionAcceptAck ack =
     bindS (validateFriendRequestEnvelope (sk_RequestID ack) (sk_FromPeerID ack)) (\<lambda>req.
     if sk_ConversationID ack \<noteq> [] \<and> fq_ConversationID req \<noteq> [] \<and> fq_ConversationID req \<noteq> sk_ConversationID ack
     then fail errChatEnvelopeIgnored else ret req)"

definition blockedPeer :: "string \<Rightarrow> bool svc" where
  "blockedPeer peerID = bindS (attempt (readDB (GetPeer peerID))) (\<lambda>c. ret (case c of Inr p \<Rightarrow> ck_Blocked p | Inl _ \<Rightarrow> False))"

definition handleIncomingSessionRequestEnvelope :: "chat_net \<Rightarrow> time \<Rightarrow> SessionRequest \<Rightarrow> string \<Rightarrow> bool \<Rightarrow> unit svc" where
  "handleIncomingSessionRequestEnvelope N now req mode publishEvent =
     bindS (gets cs_localPeer) (\<lambda>me.
     if sr_FromPeerID req = [] \<or> sr_FromPeerID req = me then ret ()
     else if sr_ToPeerID req \<noteq> [] \<and> sr_ToPeerID req \<noteq> me then ret ()
     else bindS (blockedPeer (sr_FromPeerID req)) (\<lambda>blocked. if blocked then ret () else
     let avatarName = NormalizeAvatarFileName (sr_AvatarName req); from = sr_FromPeerID req;
         learn = bindS (execDB (UpsertPeer now from (sr_Nickname req) (sr_Bio req))) (\<lambda>_. learnAvatar N now from avatarName);
         stored = zeroRequest\<lparr>fq_RequestID := sr_RequestID req, fq_FromPeerID := from, fq_ToPeerID := sr_ToPeerID req,
           fq_State := RequestStatePending, fq_IntroText := sr_IntroText req, fq_Nickname := sr_Nickname req, fq_Bio := sr_Bio req,
           fq_Avatar := avatarName, fq_RetentionMinutes := sr_RetentionMinutes req, fq_RemoteChatKexPub := sr_ChatKexPub req,
           fq_LastTransportMode := mode, fq_CreatedAt := ofUnixMilli (sr_SentAtUnix req), fq_UpdatedAt := now\<rparr>
     in bindS (if trimSpace (sr_RequestID req) \<noteq> [] then attempt (readDB (GetRequest (sr_RequestID req))) else ret (Inl ErrNoRows)) (\<lambda>existing.
     case existing of
       Inr ex \<Rightarrow> if decided (fq_State ex) then learn
                 else bindS learn (\<lambda>_. bindS (execDB (UpsertIncomingRequest now stored)) (\<lambda>_.
                      if publishEvent then publishChatEvent (newFriendRequestEvent now RequestStatePending (fq_RequestID stored) from (fq_ToPeerID stored) [])
                      else ret ()))
     | Inl e \<Rightarrow> if e \<noteq> ErrNoRows then fail e
                else bindS learn (\<lambda>_. bindS (execDB (UpsertIncomingRequest now stored)) (\<lambda>_.
                      if publishEvent then publishChatEvent (newFriendRequestEvent now RequestStatePending (fq_RequestID stored) from (fq_ToPeerID stored) [])
                      else ret ())))))"

text \<open>The end of both branches of an acceptance that came in.\<close>

definition acceptedDone :: "chat_net \<Rightarrow> time \<Rightarrow> SessionAccept \<Rightarrow> string \<Rightarrow> bool \<Rightarrow> bool \<Rightarrow> unit svc" where
  "acceptedDone N now accept cid publishEvent sendAck =
     bindS (gets cs_localPeer) (\<lambda>me.
     bindS (if trimSpace (sa_ChatKexPub accept) \<noteq> [] then execDB (UpdateRequestRemoteChatKexPub now (sa_RequestID accept) (sa_ChatKexPub accept)) else ret ()) (\<lambda>_.
     bindS (execDB (UpdateRequestState now (sa_RequestID accept) RequestStateAccepted cid)) (\<lambda>_.
     bindS (execDB (DeleteFriendRequestJob (sa_RequestID accept))) (\<lambda>_.
     bindS (if publishEvent then publishChatEvent (newFriendRequestEvent now RequestStateAccepted (sa_RequestID accept) (sa_FromPeerID accept) (sa_ToPeerID accept) cid)
            else ret ()) (\<lambda>_.
     if sendAck then bindS (attempt (sendFriendControlEnvelope N (sa_FromPeerID accept)
          (EnvSessionAcceptAck \<lparr>sk_Type = MessageTypeSessionAcceptAck, sk_RequestID = sa_RequestID accept, sk_ConversationID = cid,
             sk_FromPeerID = me, sk_ToPeerID = sa_FromPeerID accept, sk_SentAtUnix = unixMilli now, sk_Signature = []\<rparr>)
          (sa_RequestID accept))) (\<lambda>_. ret ())
     else ret ())))))"

definition learnAcceptor :: "chat_net \<Rightarrow> time \<Rightarrow> SessionAccept \<Rightarrow> unit svc" where
  "learnAcceptor N now accept =
     (let avatarName = NormalizeAvatarFileName (sa_AvatarName accept) in
      bindS (execDB (UpsertPeer now (sa_FromPeerID accept) [] (sa_Bio accept))) (\<lambda>_.
      if avatarName = [] then ret ()
      else bindS (attempt (execR (UpdatePeerAvatar now (sa_FromPeerID accept) avatarName))) (\<lambda>_.
           bindS (execDB (UpdateRequestAvatar now (sa_RequestID accept) avatarName)) (\<lambda>_.
           requestAvatarFetch N now (sa_FromPeerID accept) avatarName))))"

definition handleIncomingSessionAcceptEnvelope :: "chat_net \<Rightarrow> time \<Rightarrow> SessionAccept \<Rightarrow> bool \<Rightarrow> bool \<Rightarrow> unit svc" where
  "handleIncomingSessionAcceptEnvelope N now accept publishEvent sendAck =
     bindS (gets cs_localPeer) (\<lambda>me.
     let from = sa_FromPeerID accept; target = deriveStableConversationID me from in
     if sa_ToPeerID accept \<noteq> [] \<and> sa_ToPeerID accept \<noteq> me then ret ()
     else if from = [] \<or> from = me then ret ()
     else bindS (attempt (validateFriendRequestEnvelope (sa_RequestID accept) from)) (\<lambda>v.
     case v of Inl e \<Rightarrow> if e = errChatEnvelopeIgnored then ret () else fail e
     | Inr _ \<Rightarrow> bindS (attempt (readDB (GetConversationByPeer from))) (\<lambda>existing.
     case existing of
       Inr ex0 \<Rightarrow>
         let retention = (if sa_RetentionMinutes accept < cv_RetentionMinutes ex0 then cv_RetentionMinutes ex0 else sa_RetentionMinutes accept) in
         bindS (learnAcceptor N now accept) (\<lambda>_.
         bindS GetProfile (\<lambda>(_, priv).
         bindS (canonicalConversation now target ex0) (\<lambda>ex.
         bindS (liftR (deriveSessionState (cn_crypto N) target me from priv (sa_ChatKexPub accept))) (\<lambda>sess.
         bindS (execR (CreateConversation now (activeConversation target from TransportModeDirect retention (cv_CreatedAt ex) now) sess)) (\<lambda>_.
         acceptedDone N now accept target publishEvent sendAck)))))
     | Inl e \<Rightarrow>
         if e \<noteq> ErrNoRows then fail e
         else
         bindS GetProfile (\<lambda>(_, priv).
         bindS (liftR (deriveSessionState (cn_crypto N) target me from priv (sa_ChatKexPub accept))) (\<lambda>sess.
         bindS (execR (CreateConversation now (activeConversation target from TransportModeDirect 0 now now) sess)) (\<lambda>_.
         bindS (learnAcceptor N now accept) (\<lambda>_.
         bindS (if 0 < sa_RetentionMinutes accept
                then bindS (execR (UpdateConversationRetention now target (sa_RetentionMinutes accept))) (\<lambda>_. ret ()) else ret ()) (\<lambda>_.
         acceptedDone N now accept target publishEvent sendAck))))))))"

definition handleIncomingSessionRejectEnvelope :: "time \<Rightarrow> SessionReject \<Rightarrow> bool \<Rightarrow> unit svc" where
  "handleIncomingSessionRejectEnvelope now reject publishEvent =
     bindS (gets cs_localPeer) (\<lambda>me.
     if sj_ToPeerID reject \<noteq> [] \<and> sj_ToPeerID reject \<noteq> me then ret ()
     else if sj_FromPeerID reject = [] \<or> sj_FromPeerID reject = me then ret ()
     else bindS (attempt (validateFriendRequestEnvelope (sj_RequestID reject) (sj_FromPeerID reject))) (\<lambda>v.
     case v of Inl e \<Rightarrow> if e = errChatEnvelopeIgnored then ret () else fail e
     | Inr req \<Rightarrow> if fq_State req \<noteq> RequestStatePending then ret ()
       else let cid = deriveStableConversationID me (sj_FromPeerID reject) in
         bindS (execDB (UpdateRequestState now (sj_RequestID reject) RequestStateRejected [])) (\<lambda>_.
         bindS (execDB (DeleteFriendRequestJob (sj_RequestID reject))) (\<lambda>_.
         bindS (execDB (UpdateConversationState now cid ConversationStateNoFriend)) (\<lambda>_.
         if publishEvent then publishChatEvent (newFriendRequestEvent now RequestStateRejected (sj_RequestID reject)
              (sj_FromPeerID reject) (sj_ToPeerID reject) cid)
         else ret ())))))"

definition handleIncomingSessionAcceptAckEnvelope :: "SessionAcceptAck \<Rightarrow> unit svc" where
  "handleIncomingSessionAcceptAckEnvelope ack =
     bindS (gets cs_localPeer) (\<lambda>me.
     if sk_ToPeerID ack \<noteq> me then ret ()
     else bindS (attempt (validateSessionAcceptAck ack)) (\<lambda>v.
     case v of Inl e \<Rightarrow> if e = errChatEnvelopeIgnored then ret () else fail e
     | Inr _ \<Rightarrow> execDB (DeleteFriendRequestJob (sk_RequestID ack))))"

text \<open>One retry of a pending job: a request that is still open is sent again, an acceptance until it is acknowledged.\<close>

definition retryFriendRequestJob :: "chat_net \<Rightarrow> time \<Rightarrow> friendJob \<Rightarrow> unit svc" where
  "retryFriendRequestJob N now item =
     (let rid = fj_JobID item; peerID = fj_PeerID item; drop' = execDB (DeleteFriendRequestJob rid) in
     bindS (gets cs_localPeer) (\<lambda>me. bindS (attempt (readDB (GetRequest rid))) (\<lambda>r.
     case r of Inl e \<Rightarrow> bindS drop' (\<lambda>_. fail e)
     | Inr req \<Rightarrow>
       if fq_CreatedAt req \<noteq> 0 \<and> fq_CreatedAt req + friendRequestRetryDeadline < now
       then bindS (if fq_State req = RequestStatePending then execDB (UpdateRequestState now (fq_RequestID req) RequestStateRejected []) else ret ()) (\<lambda>_. drop')
       else if fq_State req \<noteq> RequestStatePending \<and> fq_State req \<noteq> RequestStateAccepted then drop'
       else bindS (blockedPeer peerID) (\<lambda>blocked.
       if blocked then bindS (execDB (UpdateRequestState now (fq_RequestID req) RequestStateBlocked [])) (\<lambda>_. drop')
       else bindS GetProfile (\<lambda>(profile, _).
       if fq_State req = RequestStatePending
       then bindS (attempt (sendFriendControlEnvelope N peerID (EnvSessionRequest
              \<lparr>sr_Type = MessageTypeSessionRequest, sr_RequestID = fq_RequestID req, sr_FromPeerID = me, sr_ToPeerID = fq_ToPeerID req,
               sr_Nickname = fq_Nickname req, sr_Bio = fq_Bio req, sr_AvatarName = pf_Avatar profile,
               sr_RetentionMinutes = fq_RetentionMinutes req, sr_IntroText = fq_IntroText req, sr_ChatKexPub = fq_RemoteChatKexPub req,
               sr_SentAtUnix = unixMilli now, sr_Signature = []\<rparr>) (fq_RequestID req))) (\<lambda>sent.
            case sent of Inr _ \<Rightarrow> drop'
            | Inl e \<Rightarrow> bindS (scheduleFriendRequestRetry N now (fq_RequestID req) peerID (fj_RetryCount item + 1)) (\<lambda>_. fail e))
       else if fq_ConversationID req = [] then drop'
       else bindS (attempt (readDB (GetConversation (fq_ConversationID req)))) (\<lambda>cv.
            case cv of Inl e \<Rightarrow> bindS drop' (\<lambda>_. fail e)
            | Inr conv \<Rightarrow>
              let retention = (if fq_RetentionMinutes req < cv_RetentionMinutes conv then cv_RetentionMinutes conv else fq_RetentionMinutes req) in
              bindS (attempt (sendFriendControlEnvelope N peerID
                 (acceptWire now profile (fq_RequestID req) (cv_ConversationID conv) me peerID retention) (fq_RequestID req))) (\<lambda>sent.
              bindS (scheduleFriendRequestRetry N now (fq_RequestID req) peerID (fj_RetryCount item + 1)) (\<lambda>_.
              case sent of Inr _ \<Rightarrow> ret () | Inl e \<Rightarrow> fail e))))))))"

definition friendRequestRetryBatchSize :: int where "friendRequestRetryBatchSize = 32"

fun retryAll :: "('a \<Rightarrow> unit svc) \<Rightarrow> 'a list \<Rightarrow> unit svc" where
  "retryAll f [] = ret ()"
| "retryAll f (x # xs) = bindS (attempt (f x)) (\<lambda>_. retryAll f xs)"

definition processFriendRequestRetries :: "chat_net \<Rightarrow> time \<Rightarrow> unit svc" where
  "processFriendRequestRetries N now =
     bindS (gets (\<lambda>s. ListFriendRequestJobsForRetry now friendRequestRetryBatchSize (cs_db s))) (retryAll (retryFriendRequestJob N now))"

end
