(* ===== verification/Chat_Repair.thy ===== *)
theory Chat_Repair
  imports Chat_Service
begin

text \<open>
  The state of a direct conversation and its repair, \<open>internal/chat/direct_state.go\<close>: how the conversation
  and the session of an incoming message are found or rebuilt from an accepted request, what a retention
  update does, when a rejection is sent back, and the two repairs that run when the service starts.
\<close>

section \<open>Loading the state of a conversation\<close>

definition remoteChatKexPubForRepair :: "string \<Rightarrow> Request \<Rightarrow> string \<Rightarrow> (string \<Rightarrow> string option) \<Rightarrow> string" where
  "remoteChatKexPubForRepair me req peerID inboundPubByPeer =
     (if fq_ToPeerID req = me then trimSpace (fq_RemoteChatKexPub req)
      else trimSpace (case inboundPubByPeer peerID of Some p \<Rightarrow> p | None \<Rightarrow> []))"

text \<open>The accepted request of the peer, preferably the one of the conversation asked for, and the key the peer sent.\<close>

definition findAcceptedRequestForPeer :: "string \<Rightarrow> string \<Rightarrow> string \<Rightarrow> ChatDB \<Rightarrow> (Request \<times> string) result" where
  "findAcceptedRequestForPeer me peerID preferred db =
     (let requests = ListRequests me db;
          inboundPub = (case find (\<lambda>r. peerIDForRequest me r = peerID \<and> fq_ToPeerID r = me \<and> trimSpace (fq_RemoteChatKexPub r) \<noteq> []) requests of
                          Some r \<Rightarrow> trimSpace (fq_RemoteChatKexPub r) | None \<Rightarrow> []);
          accepted = filter (\<lambda>r. peerIDForRequest me r = peerID \<and> fq_State r = RequestStateAccepted) requests;
          selected = (case find (\<lambda>r. preferred \<noteq> [] \<and> trimSpace (fq_ConversationID r) = preferred) accepted of
                        Some r \<Rightarrow> Some r | None \<Rightarrow> (case accepted of r # _ \<Rightarrow> Some r | [] \<Rightarrow> None))
      in case selected of None \<Rightarrow> Inl ErrNoRows
         | Some r \<Rightarrow> Inr (r, remoteChatKexPubForRepair me r peerID [peerID \<mapsto> inboundPub]))"

definition repairIncomingDirectState :: "chat_net \<Rightarrow> time \<Rightarrow> string \<Rightarrow> string \<Rightarrow> string \<Rightarrow> (Conversation \<times> sessionState) svc" where
  "repairIncomingDirectState N now cid from mode =
     (if cid = [] \<or> from = [] then fail ErrNoRows
      else bindS (gets cs_localPeer) (\<lambda>me.
        bindS (readDB (findAcceptedRequestForPeer me from cid)) (\<lambda>(req, remotePub).
        bindS (attempt (readDB (GetConversationByPeer from))) (\<lambda>existing.
        if (case existing of Inl e \<Rightarrow> e \<noteq> ErrNoRows | Inr _ \<Rightarrow> False) then fail (projl existing)
        else let target = (case existing of Inr c \<Rightarrow> cv_ConversationID c | Inl _ \<Rightarrow> cid) in
        bindS (attempt (readDB (GetSessionState target))) (\<lambda>had.
        bindS (case had of Inr x \<Rightarrow> ret x
               | Inl e \<Rightarrow> if e \<noteq> ErrNoRows then fail e
                 else if remotePub = [] then fail ErrNoRows
                 else bindS GetProfile (\<lambda>(_, priv). liftR (deriveSessionState (cn_crypto N) target me from priv remotePub))) (\<lambda>sess0.
        let retention = (case existing of Inr c \<Rightarrow> if fq_RetentionMinutes req < cv_RetentionMinutes c then cv_RetentionMinutes c else fq_RetentionMinutes req
                         | Inl _ \<Rightarrow> fq_RetentionMinutes req);
            lastMode = (case existing of Inr c \<Rightarrow> if trimSpace (cv_LastTransportMode c) \<noteq> [] then cv_LastTransportMode c else mode | Inl _ \<Rightarrow> mode);
            created0 = (case existing of Inr c \<Rightarrow> if cv_CreatedAt c \<noteq> 0 then cv_CreatedAt c else fq_CreatedAt req | Inl _ \<Rightarrow> fq_CreatedAt req);
            created = (if created0 = 0 then now else created0);
            sess = sess0\<lparr>sx_ConversationID := target, sx_PeerID := from\<rparr>
        in bindS (execR (CreateConversation now (activeConversation target from lastMode retention created now) sess)) (\<lambda>conv.
           bindS (execDB (UpdateRequestState now (fq_RequestID req) RequestStateAccepted target)) (\<lambda>_.
           bindS (if remotePub \<noteq> [] then execDB (UpdateRequestRemoteChatKexPub now (fq_RequestID req) remotePub) else ret ()) (\<lambda>_.
           ret (conv, sess))))))))))"

text \<open>The flag says whether the state was repaired.\<close>

definition loadIncomingDirectState :: "chat_net \<Rightarrow> time \<Rightarrow> string \<Rightarrow> string \<Rightarrow> string \<Rightarrow> (Conversation \<times> sessionState \<times> bool) svc" where
  "loadIncomingDirectState N now cid from mode =
     bindS (attempt (readDB (GetConversation cid))) (\<lambda>c.
     bindS (case c of Inr _ \<Rightarrow> attempt (readDB (GetSessionState cid)) | Inl e \<Rightarrow> ret (Inl e)) (\<lambda>x.
     case (c, x) of
       (Inr conv, Inr sess) \<Rightarrow> ret (conv, sess, False)
     | _ \<Rightarrow> if (case x of Inl e \<Rightarrow> e \<noteq> ErrNoRows | Inr _ \<Rightarrow> False) then fail (projl x)
            else bindS (repairIncomingDirectState N now cid from mode) (\<lambda>(conv, sess). ret (conv, sess, True))))"

section \<open>Rejections and retention\<close>

text \<open>A rejection goes back to a peer some request connects us with, unless one was accepted.\<close>

definition maybeSendSessionRejectForConversation :: "time \<Rightarrow> string \<Rightarrow> bool svc" where
  "maybeSendSessionRejectForConversation now from =
     (if from = [] then ret False
      else bindS (gets cs_localPeer) (\<lambda>me.
        bindS (attempt (readDB (LatestRequestBetweenPeers from me))) (\<lambda>latest.
        let rid = (case latest of Inr r \<Rightarrow> fq_RequestID r | Inl _ \<Rightarrow> []) in
        if rid = [] then ret False
        else bindS (attempt (readDB (GetRequest rid))) (\<lambda>r.
        if (case r of Inr q \<Rightarrow> fq_ToPeerID q = me \<and> fq_FromPeerID q = from \<and> fq_State q = RequestStateAccepted | Inl _ \<Rightarrow> False)
        then ret False
        else bindS (gets (\<lambda>s. HasAcceptedRequest from me (cs_db s))) (\<lambda>accepted.
        if accepted then ret False
        else bindS (goTask (SendReject from \<lparr>sj_Type = MessageTypeSessionReject, sj_RequestID = rid, sj_FromPeerID = me,
               sj_ToPeerID = from, sj_SentAtUnix = unixMilli now, sj_Signature = []\<rparr>)) (\<lambda>_. ret True))))))"

text \<open>The identity of the peer at the other end of a stream; over a relay there is none and nothing is compared.\<close>

definition streamPeerIdentityOK :: "string \<Rightarrow> string \<Rightarrow> bool" where
  "streamPeerIdentityOK streamPeerID claimedPeerID \<longleftrightarrow>
     (let s = trimSpace streamPeerID; c = trimSpace claimedPeerID
      in if s = [] then True else if c = [] then False else s = c)"

definition handleIncomingRetentionUpdate :: "chat_net \<Rightarrow> time \<Rightarrow> RetentionUpdate \<Rightarrow> string \<Rightarrow> string \<Rightarrow> unit svc" where
  "handleIncomingRetentionUpdate N now update mode streamPeerID =
     (if streamPeerID \<noteq> [] \<and> \<not> streamPeerIdentityOK streamPeerID (ru_FromPeerID update) then ret ()
      else bindS (attempt (loadIncomingDirectState N now (ru_ConversationID update) (ru_FromPeerID update) mode)) (\<lambda>r.
        case r of
          Inl e \<Rightarrow> bindS (if e = ErrNoRows then maybeSendSessionRejectForConversation now (ru_FromPeerID update) else ret False) (\<lambda>rejected.
                   if rejected then ret () else fail e)
        | Inr (conv, _, _) \<Rightarrow>
            bindS (execR (UpdateConversationRetention now (cv_ConversationID conv) (ru_RetentionMinutes update))) (\<lambda>conv'.
            execDB (UpdateConversationRetentionSync now (cv_ConversationID conv') ''synced'' now))))"

definition handleRetentionAck :: "time \<Rightarrow> RetentionAck \<Rightarrow> string \<Rightarrow> unit svc" where
  "handleRetentionAck now ack streamPeerID =
     (if \<not> streamPeerIdentityOK streamPeerID (ra_FromPeerID ack) then ret ()
      else execDB (UpdateConversationRetentionSync now (ra_ConversationID ack) ''synced'' (ofUnixMilli (ra_AckedAtUnix ack))))"

text \<open>The local side: the change is stored, announced, and sent to the peer.\<close>

definition ServiceUpdateConversationRetention :: "time \<Rightarrow> string \<Rightarrow> int \<Rightarrow> Conversation svc" where
  "ServiceUpdateConversationRetention now cid minutes =
     bindS (gets cs_localPeer) (\<lambda>me. bindS (readDB (GetConversation cid)) (\<lambda>conv.
     bindS (execR (UpdateConversationRetention now cid minutes)) (\<lambda>updated.
     bindS (execDB (UpdateConversationRetentionSync now cid ''pending'' 0)) (\<lambda>_.
     bindS (publishChatEvent (newMessageEvent now ''direct'' (cv_ConversationID updated) [] MessageTypeRetentionUpdate)) (\<lambda>_.
     bindS (goTask (SendRetentionUpdate (cv_PeerID conv) \<lparr>ru_Type = MessageTypeRetentionUpdate, ru_ConversationID = cid,
        ru_FromPeerID = me, ru_ToPeerID = cv_PeerID conv, ru_RetentionMinutes = minutes, ru_UpdatedAtUnix = unixMilli now,
        ru_Signature = []\<rparr>)) (\<lambda>_.
     readDB (GetConversation (cv_ConversationID updated))))))))"

section \<open>Deleting\<close>

definition DeleteConversationLocal :: "time \<Rightarrow> string \<Rightarrow> unit svc" where
  "DeleteConversationLocal now cid0 =
     (let cid = trimSpace cid0 in
      if cid = [] then fail (Errorf ''conversation_id is empty'')
      else bindS (gets cs_localPeer) (\<lambda>me. bindS (readDB (GetConversation cid)) (\<lambda>conv.
        if cv_PeerID conv = me then fail (Errorf ''invalid conversation'')
        else bindS (execR (DeleteConversationData now cid)) (\<lambda>_.
          publishChatEvent (newConversationDeletedEvent now cid (cv_PeerID conv))))))"

text \<open>The conversations of a contact are deleted until there is none left; each round removes a row.\<close>

primrec deleteConversationsOf :: "nat \<Rightarrow> time \<Rightarrow> string \<Rightarrow> unit svc" where
  "deleteConversationsOf 0 now peerID = (\<lambda>s. (OutOfFuel, s))"
| "deleteConversationsOf (Suc k) now peerID =
     bindS (attempt (readDB (GetConversationByPeer peerID))) (\<lambda>c.
     case c of Inl e \<Rightarrow> if e = ErrNoRows then ret () else fail e
     | Inr conv \<Rightarrow> bindS (execR (DeleteConversationData now (cv_ConversationID conv))) (\<lambda>_. deleteConversationsOf k now peerID))"

definition DeleteContactLocal :: "nat \<Rightarrow> time \<Rightarrow> string \<Rightarrow> unit svc" where
  "DeleteContactLocal fuel now peerID0 =
     (let peerID = trimSpace peerID0 in
      if peerID = [] then fail (Errorf ''peer_id is empty'')
      else bindS (gets cs_localPeer) (\<lambda>me.
        if peerID = me then fail (Errorf ''cannot delete self'')
        else bindS (deleteConversationsOf fuel now peerID) (\<lambda>_.
             bindS (execR (DeletePeerAndRelatedData peerID)) (\<lambda>_. publishChatEvent (newContactDeletedEvent now peerID)))))"

section \<open>Repairs at the start\<close>

text \<open>Requests that kept the peer's key but stayed pending are finished.\<close>

definition rebuildOrphan :: "chat_net \<Rightarrow> time \<Rightarrow> string \<Rightarrow> bytes \<Rightarrow> Request \<Rightarrow> unit svc" where
  "rebuildOrphan N now me priv req =
     (let peerID = peerIDForRequest me req; target = deriveStableConversationID me peerID; rid = fq_RequestID req in
      bindS (attempt (bindS (liftR (deriveSessionState (cn_crypto N) target me peerID priv (fq_RemoteChatKexPub req))) (\<lambda>sess.
         execR (CreateConversation now (activeConversation target peerID TransportModeDirect (fq_RetentionMinutes req) now now) sess)))) (\<lambda>made.
      case made of Inl _ \<Rightarrow> ret ()
      | Inr _ \<Rightarrow>
        bindS (if fq_ToPeerID req = me then execDB (UpsertPeer now peerID (fq_Nickname req) (fq_Bio req)) else ret ()) (\<lambda>_.
        bindS (execDB (UpdateRequestState now rid RequestStateAccepted target)) (\<lambda>_.
        bindS (execDB (DeleteFriendRequestJob rid)) (\<lambda>_.
        publishChatEvent (newFriendRequestEvent now RequestStateAccepted rid peerID me target))))))"

definition repairOrphan :: "chat_net \<Rightarrow> time \<Rightarrow> string \<Rightarrow> bytes \<Rightarrow> Request \<Rightarrow> unit svc" where
  "repairOrphan N now me priv req =
     (let peerID = peerIDForRequest me req in
      if fq_State req \<noteq> RequestStatePending \<or> trimSpace (fq_RemoteChatKexPub req) = [] \<or> peerID = [] then ret ()
      else bindS (attempt (readDB (GetConversationByPeer peerID))) (\<lambda>c.
        case c of
          Inl e \<Rightarrow> if e \<noteq> ErrNoRows then ret () else rebuildOrphan N now me priv req
        | Inr conv \<Rightarrow>
            bindS (if cv_State conv = ConversationStateActive then attempt (readDB (GetSessionState (cv_ConversationID conv)))
                   else ret (Inl ErrNoRows)) (\<lambda>x.
            case x of Inr _ \<Rightarrow> execDB (UpdateRequestState now (fq_RequestID req) RequestStateAccepted (cv_ConversationID conv))
            | Inl _ \<Rightarrow> rebuildOrphan N now me priv req)))"

fun forEach :: "('a \<Rightarrow> unit svc) \<Rightarrow> 'a list \<Rightarrow> unit svc" where
  "forEach f [] = ret ()"
| "forEach f (x # xs) = bindS (f x) (\<lambda>_. forEach f xs)"

definition repairOrphanPendingSessionAccepts :: "chat_net \<Rightarrow> time \<Rightarrow> unit svc" where
  "repairOrphanPendingSessionAccepts N now =
     bindS (gets cs_localPeer) (\<lambda>me. bindS (gets (\<lambda>s. ListRequests me (cs_db s))) (\<lambda>requests.
     bindS GetProfile (\<lambda>(_, priv). forEach (repairOrphan N now me priv) requests)))"

text \<open>
  Accepted requests whose conversation has another identifier, is not active or has no session are brought
  to the state an acceptance makes today. The map from peers to conversations is carried along.
\<close>

definition repairHistoricalConversation ::
  "chat_net \<Rightarrow> time \<Rightarrow> string \<Rightarrow> bytes \<Rightarrow> (string \<Rightarrow> string option) \<Rightarrow> Request \<Rightarrow> (string \<Rightarrow> Conversation option) \<Rightarrow> (string \<Rightarrow> Conversation option) svc" where
  "repairHistoricalConversation N now me priv inboundPub req convs =
     (let peerID = peerIDForRequest me req; target = deriveStableConversationID me peerID in
      if peerID = [] then ret convs
      else
      bindS (case convs peerID of Some ex \<Rightarrow> bindS (canonicalConversation now target ex) (\<lambda>c. ret (convs(peerID \<mapsto> c)))
             | None \<Rightarrow> ret convs) (\<lambda>convs1.
      bindS (if trimSpace (fq_ConversationID req) \<noteq> target
             then execDB (UpdateRequestState now (fq_RequestID req) RequestStateAccepted target) else ret ()) (\<lambda>_.
      bindS (attempt (readDB (GetSessionState target))) (\<lambda>had.
      let existing = convs1 peerID; hadSession = \<not> isl had; remotePub = remoteChatKexPubForRepair me req peerID inboundPub;
          made = (if remotePub = [] then Inl ErrNoRows else deriveSessionState (cn_crypto N) target me peerID priv remotePub);
          sess0 = (if hadSession then had else made)
      in if (case had of Inl e \<Rightarrow> e \<noteq> ErrNoRows | Inr _ \<Rightarrow> False) then fail (projl had)
      else case sess0 of Inl _ \<Rightarrow> ret convs1
      | Inr sess1 \<Rightarrow>
        if hadSession \<and> (case existing of Some c \<Rightarrow> cv_State c = ConversationStateActive | None \<Rightarrow> False) then ret convs1
        else let
          retention = (case existing of Some c \<Rightarrow> if fq_RetentionMinutes req < cv_RetentionMinutes c then cv_RetentionMinutes c else fq_RetentionMinutes req
                       | None \<Rightarrow> fq_RetentionMinutes req);
          mode0 = (if trimSpace (fq_LastTransportMode req) = [] then TransportModeDirect else trimSpace (fq_LastTransportMode req));
          mode = (case existing of Some c \<Rightarrow> if trimSpace (cv_LastTransportMode c) \<noteq> [] then cv_LastTransportMode c else mode0 | None \<Rightarrow> mode0);
          created0 = (case existing of Some c \<Rightarrow> if cv_CreatedAt c \<noteq> 0 then cv_CreatedAt c else fq_CreatedAt req | None \<Rightarrow> fq_CreatedAt req);
          created = (if created0 = 0 then now else created0)
        in bindS (execR (CreateConversation now (activeConversation target peerID mode retention created now)
             (sess1\<lparr>sx_ConversationID := target, sx_PeerID := peerID\<rparr>))) (\<lambda>conv. ret (convs1(peerID \<mapsto> conv)))))))"

fun repairHistoricalAll ::
  "chat_net \<Rightarrow> time \<Rightarrow> string \<Rightarrow> bytes \<Rightarrow> (string \<Rightarrow> string option) \<Rightarrow> Request list \<Rightarrow> (string \<Rightarrow> Conversation option) \<Rightarrow> unit svc" where
  "repairHistoricalAll N now me priv inboundPub [] convs = ret ()"
| "repairHistoricalAll N now me priv inboundPub (r # rs) convs =
     bindS (repairHistoricalConversation N now me priv inboundPub r convs) (repairHistoricalAll N now me priv inboundPub rs)"

text \<open>The first key a peer sent with one of its own requests, in the order of the list.\<close>

definition inboundPubs :: "string \<Rightarrow> Request list \<Rightarrow> string \<Rightarrow> string option" where
  "inboundPubs me requests peerID =
     (if peerID = [] then None
      else map_option (\<lambda>r. trimSpace (fq_RemoteChatKexPub r))
        (find (\<lambda>r. peerIDForRequest me r = peerID \<and> fq_ToPeerID r = me \<and> trimSpace (fq_RemoteChatKexPub r) \<noteq> []) requests))"

definition repairHistoricalDirectState :: "chat_net \<Rightarrow> time \<Rightarrow> unit svc" where
  "repairHistoricalDirectState N now =
     bindS (gets cs_localPeer) (\<lambda>me. bindS (gets (\<lambda>s. ListRequests me (cs_db s))) (\<lambda>requests.
     bindS (gets (\<lambda>s. ListConversations (cs_db s))) (\<lambda>conversations.
     let accepted = filter (\<lambda>r. peerIDForRequest me r \<noteq> [] \<and> fq_State r = RequestStateAccepted) requests;
         byPeer = map_of (map (\<lambda>c. (cv_PeerID c, c)) (rev (filter (\<lambda>c. cv_PeerID c \<noteq> []) conversations)))
     in if accepted = [] then ret ()
        else bindS GetProfile (\<lambda>(_, priv). repairHistoricalAll N now me priv (inboundPubs me requests) accepted byPeer))))"

end
