(* ===== verification/Chat_Direct.thy ===== *)
theory Chat_Direct
  imports Chat_Repair
begin

text \<open>
  Direct messages, \<open>internal/chat/service.go\<close>: sending texts and files, the outbox and its retries,
  acknowledgements and revocations, the counter of an incoming message, and the synchronisation that fills
  a gap. Handling a message may start a synchronisation, whose answer is handled as messages again: the
  functions take the call that closes this circle as an argument, and \<open>chatSync\<close> ties it with the depth it
  may go to.
\<close>

section \<open>Sending\<close>

definition textAAD :: "string \<Rightarrow> string \<Rightarrow> bytes" where
  "textAAD cid msgType = bytes_of_string cid @ [0] @ bytes_of_string msgType"

definition directAckWait :: duration where "directAckWait = 20 * second"

definition outboundMessage :: "time \<Rightarrow> string \<Rightarrow> string \<Rightarrow> string \<Rightarrow> string \<Rightarrow> string \<Rightarrow> u64 \<Rightarrow> Message" where
  "outboundMessage now mid cid me peerID msgType counter = zeroMessage\<lparr>ms_MsgID := mid, ms_ConversationID := cid,
     ms_SenderPeerID := me, ms_ReceiverPeerID := peerID, ms_Direction := ''outbound'', ms_MsgType := msgType,
     ms_TransportMode := TransportModeDirect, ms_State := MessageStateLocalOnly, ms_Counter := counter, ms_CreatedAt := now\<rparr>"

text \<open>What both kinds of messages do once they are built: the row, the counter and the job, then the goroutine.\<close>

definition storeOutbound :: "time \<Rightarrow> Message \<Rightarrow> bytes \<Rightarrow> Message svc" where
  "storeOutbound now msg blob =
     bindS (execR (AddMessage msg blob)) (\<lambda>msg.
     bindS (execR (UpdateSendCounter (ms_ConversationID msg) (ms_Counter msg + 1))) (\<lambda>_.
     bindS (execDB (UpsertOutboxJob (ms_MsgID msg) (ms_ReceiverPeerID msg) MessageStateQueuedForRetry 0 now 0)) (\<lambda>_.
     bindS (goTask (SendDirect msg blob [])) (\<lambda>_. ret msg))))"

definition SendText :: "chat_net \<Rightarrow> time \<Rightarrow> string \<Rightarrow> string \<Rightarrow> Message svc" where
  "SendText N now cid text0 =
     (let text = trimSpace text0 in
      if text = [] then fail (Errorf ''message text is empty'')
      else bindS (gets cs_localPeer) (\<lambda>me. bindS (readDB (GetConversation cid)) (\<lambda>conv.
        bindS (blockedPeer (cv_PeerID conv)) (\<lambda>blocked.
        if blocked then fail (Errorf ''peer is blocked'')
        else bindS (readDB (GetSessionState cid)) (\<lambda>sess.
        let counter = sx_SendCounter sess; nonce = BuildAEADNonce ''fwd'' counter in
        bindS (liftR (AEADSeal (cn_crypto N) (sx_SendKey sess) nonce (bytes_of_string text) (textAAD cid MessageTypeChatText))) (\<lambda>ciphertext.
        bindS nextCall (\<lambda>n.
        storeOutbound now ((outboundMessage now (cn_uuid N n) cid me (cv_PeerID conv) MessageTypeChatText counter)\<lparr>ms_Plaintext := text\<rparr>)
          ciphertext)))))))"

definition SendFile :: "chat_net \<Rightarrow> time \<Rightarrow> string \<Rightarrow> string \<Rightarrow> string \<Rightarrow> bytes \<Rightarrow> bool \<Rightarrow> Message svc" where
  "SendFile N now cid fileName mimeType data uploadToIPFS =
     (if data = [] then fail (Errorf ''file is empty'')
      else if MaxChatFileBytes < length data then fail (Errorf ''file too large'')
      else bindS (gets cs_localPeer) (\<lambda>me. bindS (readDB (GetConversation cid)) (\<lambda>conv.
        bindS (blockedPeer (cv_PeerID conv)) (\<lambda>blocked.
        if blocked then fail (Errorf ''peer is blocked'')
        else bindS (readDB (GetSessionState cid)) (\<lambda>sess.
        bindS (if uploadToIPFS then (case cn_pinChatFile N of
                   None \<Rightarrow> fail (Errorf ''ipfs not available for chat file upload'')
                 | Some pin \<Rightarrow> bindS (liftR (pin (NormalizeChatFileName fileName) data)) (\<lambda>c.
                     if trimSpace c = [] then fail (Errorf ''ipfs pin chat file returned empty cid'') else ret c))
               else liftR (cn_fileCID N data)) (\<lambda>fileCID.
        bindS nextCall (\<lambda>n.
        storeOutbound now ((outboundMessage now (cn_uuid N n) cid me (cv_PeerID conv) MessageTypeChatFile (sx_SendCounter sess))
            \<lparr>ms_FileName := NormalizeChatFileName fileName, ms_MIMEType := mimeType, ms_FileSize := int (length data), ms_FileCID := fileCID\<rparr>)
          data)))))))"

definition buildDirectEnvelope :: "chat_net \<Rightarrow> Message \<Rightarrow> bytes \<Rightarrow> bytes \<Rightarrow> ChatEnvelope result" where
  "buildDirectEnvelope N msg storedBlob cached =
     (if ms_MsgType msg = MessageTypeChatText \<or> ms_MsgType msg = MessageTypeGroupInviteNote
      then Inr (EnvChatText \<lparr>tx_Type = ms_MsgType msg, tx_ConversationID = ms_ConversationID msg, tx_MsgID = ms_MsgID msg,
             tx_FromPeerID = ms_SenderPeerID msg, tx_ToPeerID = ms_ReceiverPeerID msg,
             tx_Ciphertext = (if cached = [] then storedBlob else cached), tx_Counter = ms_Counter msg,
             tx_SentAtUnix = unixMilli (ms_CreatedAt msg), tx_Signature = []\<rparr>)
      else if ms_MsgType msg = MessageTypeChatFile
      then let c0 = trimSpace (ms_FileCID msg);
               c = (if c0 = [] \<and> storedBlob \<noteq> [] then (case cn_fileCID N storedBlob of Inr v \<Rightarrow> v | Inl _ \<Rightarrow> c0) else c0)
           in Inr (EnvChatFile \<lparr>fl_Type = MessageTypeChatFile, fl_ConversationID = ms_ConversationID msg, fl_MsgID = ms_MsgID msg,
             fl_FromPeerID = ms_SenderPeerID msg, fl_ToPeerID = ms_ReceiverPeerID msg, fl_FileName = ms_FileName msg,
             fl_MIMEType = ms_MIMEType msg, fl_FileSize = ms_FileSize msg, fl_FileCID = c, fl_Ciphertext = [],
             fl_Counter = ms_Counter msg, fl_SentAtUnix = unixMilli (ms_CreatedAt msg), fl_Signature = []\<rparr>)
      else Inl (Errorf ''unsupported direct msg_type''))"

text \<open>Only texts go to the offline store.\<close>

definition tryOfflineStoreSubmit :: "chat_net \<Rightarrow> Message \<Rightarrow> bytes \<Rightarrow> unit svc" where
  "tryOfflineStoreSubmit N msg blob s =
     (case cn_offlineSubmit N (cs_calls s) msg blob of
        Some e \<Rightarrow> (Fails e, s\<lparr>cs_calls := cs_calls s + 1\<rparr>) | None \<Rightarrow> (Returns (), s\<lparr>cs_calls := cs_calls s + 1\<rparr>))"

definition submitText :: "chat_net \<Rightarrow> Message \<Rightarrow> bytes \<Rightarrow> bool svc" where
  "submitText N msg blob =
     (if ms_MsgType msg = MessageTypeChatText \<or> ms_MsgType msg = MessageTypeGroupInviteNote
      then bindS (attempt (tryOfflineStoreSubmit N msg blob)) (\<lambda>r. ret (\<not> isl r))
      else ret False)"

text \<open>
  Without a connection the message goes to the offline store first, then directly, then over a relay; with
  one it goes directly first. It counts as sent when one of the three took it.
\<close>

definition sendStoredDirectMessage :: "chat_net \<Rightarrow> Message \<Rightarrow> bytes \<Rightarrow> bytes \<Rightarrow> unit svc" where
  "sendStoredDirectMessage N msg storedBlob cached =
     bindS (liftR (buildDirectEnvelope N msg storedBlob cached)) (\<lambda>wire.
     let peerID = ms_ReceiverPeerID msg; blob = (if cached = [] then storedBlob else cached);
         relayLast = (\<lambda>storeOK. bindS (attempt (sendViaRelay N peerID wire)) (\<lambda>r.
           case r of Inr _ \<Rightarrow> ret () | Inl _ \<Rightarrow> if storeOK then ret () else fail (Errorf ''relay and direct or offline store failed'')))
     in if \<not> cn_decodes N peerID then fail (Errorf ''peer id'')
        else bindS nextCall (\<lambda>n.
        if \<not> cn_connected N n peerID
        then bindS (submitText N msg blob) (\<lambda>storeOK.
             bindS (attempt (sendJSON N peerID wire)) (\<lambda>d.
             case d of Inr _ \<Rightarrow> ret () | Inl _ \<Rightarrow> relayLast storeOK))
        else bindS (attempt (sendJSON N peerID wire)) (\<lambda>d.
             case d of Inr _ \<Rightarrow> ret () | Inl _ \<Rightarrow> bindS (submitText N msg blob) relayLast)))"

definition publishDirectMessageStateUpdate :: "time \<Rightarrow> string \<Rightarrow> unit svc" where
  "publishDirectMessageStateUpdate now mid =
     bindS (attempt (readDB (GetMessage mid))) (\<lambda>r.
     case r of Inl _ \<Rightarrow> ret () | Inr m \<Rightarrow> publishChatEvent (newDirectMessageStateEvent now m))"

definition scheduleOutboxRetry :: "time \<Rightarrow> string \<Rightarrow> string \<Rightarrow> int \<Rightarrow> unit svc" where
  "scheduleOutboxRetry now mid peerID retryCount =
     execDB (UpsertOutboxJob mid peerID MessageStateQueuedForRetry retryCount now now)"

definition markOutboxSentToTransport :: "string \<Rightarrow> string \<Rightarrow> int \<Rightarrow> time \<Rightarrow> unit svc" where
  "markOutboxSentToTransport mid peerID retryCount attemptedAt =
     execDB (UpsertOutboxJob mid peerID MessageStateSentToTransport retryCount (attemptedAt + directAckWait) attemptedAt)"

text \<open>A message that was revoked or already sent meanwhile is left alone.\<close>

definition completeOutboundDirectSend :: "chat_net \<Rightarrow> time \<Rightarrow> Message \<Rightarrow> bytes \<Rightarrow> bytes \<Rightarrow> unit svc" where
  "completeOutboundDirectSend N now msg storedBlob cached =
     bindS (gets cs_localPeer) (\<lambda>me. bindS (attempt (readDB (GetMessage (ms_MsgID msg)))) (\<lambda>r.
     case r of Inl _ \<Rightarrow> ret ()
     | Inr cur \<Rightarrow>
       if ms_Direction cur \<noteq> ''outbound'' \<or> ms_SenderPeerID cur \<noteq> me \<or> ms_State cur \<noteq> MessageStateLocalOnly then ret ()
       else bindS (attempt (sendStoredDirectMessage N msg storedBlob cached)) (\<lambda>sent.
         case sent of
           Inl _ \<Rightarrow> bindS (attempt (execR (AddMessage (msg\<lparr>ms_State := MessageStateQueuedForRetry\<rparr>) storedBlob))) (\<lambda>w.
             if isl w then ret ()
             else bindS (scheduleOutboxRetry now (ms_MsgID msg) (ms_ReceiverPeerID msg) 1) (\<lambda>_.
                  publishDirectMessageStateUpdate now (ms_MsgID msg)))
         | Inr _ \<Rightarrow> bindS (attempt (execR (AddMessage (msg\<lparr>ms_State := MessageStateSentToTransport\<rparr>) storedBlob))) (\<lambda>w.
             if isl w then ret ()
             else bindS (markOutboxSentToTransport (ms_MsgID msg) (ms_ReceiverPeerID msg) 0 now) (\<lambda>_.
                  publishDirectMessageStateUpdate now (ms_MsgID msg))))))"

section \<open>The outbox\<close>

definition retryOutboxJob :: "chat_net \<Rightarrow> time \<Rightarrow> outboxRetryItem \<Rightarrow> unit svc" where
  "retryOutboxJob N now item =
     bindS (readDB (GetMessage (oi_MsgID item))) (\<lambda>msg.
     bindS (attempt (sendStoredDirectMessage N msg (oi_CiphertextBlob item) [])) (\<lambda>sent.
     case sent of
       Inl _ \<Rightarrow> bindS (execDB (UpdateMessageState (oi_MsgID item) MessageStateQueuedForRetry)) (\<lambda>_.
                bindS (publishDirectMessageStateUpdate now (oi_MsgID item)) (\<lambda>_.
                scheduleOutboxRetry now (oi_MsgID item) (oi_PeerID item) (oi_RetryCount item + 1)))
     | Inr _ \<Rightarrow> bindS (execDB (UpdateMessageState (oi_MsgID item) MessageStateSentToTransport)) (\<lambda>_.
                bindS (markOutboxSentToTransport (oi_MsgID item) (oi_PeerID item) (oi_RetryCount item) now) (\<lambda>_.
                publishDirectMessageStateUpdate now (oi_MsgID item)))))"

definition outboxRetryBatchSize :: int where "outboxRetryBatchSize = 64"
definition directRetryBatchSize :: int where "directRetryBatchSize = 64"

text \<open>One tick of the retry loop.\<close>

definition outboxRetryTick :: "chat_net \<Rightarrow> time \<Rightarrow> unit svc" where
  "outboxRetryTick N now =
     bindS (gets (\<lambda>s. ListOutboxJobsForRetry now outboxRetryBatchSize (cs_db s))) (retryAll (retryOutboxJob N now))"

definition recoverOutboxJob :: "time \<Rightarrow> Message \<Rightarrow> unit svc" where
  "recoverOutboxJob now m =
     (let status = (if ms_State m = [] \<or> ms_State m = MessageStateLocalOnly then MessageStateQueuedForRetry else ms_State m) in
      bindS (execDB (UpsertOutboxJob (ms_MsgID m) (ms_ReceiverPeerID m) status 0 now 0)) (\<lambda>_.
      if ms_State m = MessageStateLocalOnly
      then bindS (execDB (UpdateMessageState (ms_MsgID m) MessageStateQueuedForRetry)) (\<lambda>_. publishDirectMessageStateUpdate now (ms_MsgID m))
      else ret ()))"

definition recoverMissingOutboxJobs :: "time \<Rightarrow> unit svc" where
  "recoverMissingOutboxJobs now =
     bindS (gets (\<lambda>s. ListMessagesMissingOutbox directRetryBatchSize (cs_db s))) (forEach (recoverOutboxJob now))"

section \<open>Acknowledgements and revocations\<close>

definition sendDeliveryAck :: "chat_net \<Rightarrow> time \<Rightarrow> Conversation \<Rightarrow> string \<Rightarrow> string \<Rightarrow> unit svc" where
  "sendDeliveryAck N now conv mid toPeerID =
     bindS (gets cs_localPeer) (\<lambda>me.
     sendEnvelope N (cv_PeerID conv) (EnvDeliveryAck \<lparr>da_Type = MessageTypeDeliveryAck, da_ConversationID = cv_ConversationID conv,
       da_MsgID = mid, da_FromPeerID = me, da_ToPeerID = toPeerID, da_AckedAtUnix = unixMilli now, da_Signature = []\<rparr>))"

text \<open>An acknowledgement counts when it comes from the receiver of one of our messages; over a relay it must be signed.\<close>

definition handleIncomingDeliveryAck :: "chat_net \<Rightarrow> time \<Rightarrow> DeliveryAck \<Rightarrow> string \<Rightarrow> unit svc" where
  "handleIncomingDeliveryAck N now ack streamPeerID =
     bindS (gets cs_localPeer) (\<lambda>me.
     if trimSpace (da_MsgID ack) = [] then ret ()
     else bindS (if trimSpace streamPeerID = [] then (case cn_ackSignature N ack of Some e \<Rightarrow> fail e | None \<Rightarrow> ret ()) else ret ()) (\<lambda>_.
     if streamPeerID \<noteq> [] \<and> trimSpace (da_FromPeerID ack) \<noteq> [] \<and> trimSpace (da_FromPeerID ack) \<noteq> trimSpace streamPeerID then ret ()
     else if da_ToPeerID ack \<noteq> [] \<and> da_ToPeerID ack \<noteq> me then ret ()
     else bindS (attempt (readDB (GetMessage (da_MsgID ack)))) (\<lambda>r.
     case r of Inl e \<Rightarrow> if e = ErrNoRows then ret () else fail e
     | Inr m \<Rightarrow>
       if ms_Direction m \<noteq> ''outbound'' \<or> ms_SenderPeerID m \<noteq> me then ret ()
       else if trimSpace (da_FromPeerID ack) \<noteq> [] \<and> ms_ReceiverPeerID m \<noteq> da_FromPeerID ack then ret ()
       else if trimSpace (da_ConversationID ack) \<noteq> [] \<and> ms_ConversationID m \<noteq> da_ConversationID ack \<and>
               da_ConversationID ack \<noteq> deriveStableConversationID (ms_SenderPeerID m) (ms_ReceiverPeerID m) then ret ()
       else bindS (execDB (MarkMessageDelivered (da_MsgID ack) (ofUnixMilli (da_AckedAtUnix ack)))) (\<lambda>_.
            bindS (publishDirectMessageStateUpdate now (da_MsgID ack)) (\<lambda>_.
            execDB (DeleteOutboxJob (da_MsgID ack)))))))"

definition RevokeMessage :: "chat_net \<Rightarrow> time \<Rightarrow> string \<Rightarrow> string \<Rightarrow> unit svc" where
  "RevokeMessage N now cid mid =
     bindS (gets cs_localPeer) (\<lambda>me. bindS (readDB (GetMessage mid)) (\<lambda>msg.
     if ms_ConversationID msg \<noteq> cid then fail (Errorf ''message does not belong to conversation'')
     else if ms_State msg = MessageStateLocalOnly \<or> ms_State msg = MessageStateQueuedForRetry
     then bindS (execDB (DeleteOutboxJob mid)) (\<lambda>_. execDB (DeleteMessage now cid mid))
     else if ms_Direction msg \<noteq> ''outbound'' \<or> ms_SenderPeerID msg \<noteq> me then fail (Errorf ''only outbound local messages can be revoked'')
     else if ms_TransportMode msg = TransportModeServer then fail (Errorf ''chat server mode does not support revoking sent messages yet'')
     else bindS (attempt (sendEnvelope N (ms_ReceiverPeerID msg) (EnvMessageRevoke \<lparr>mr_Type = MessageTypeMessageRevoke,
            mr_ConversationID = cid, mr_MsgID = mid, mr_FromPeerID = me, mr_ToPeerID = ms_ReceiverPeerID msg,
            mr_RevokedAtUnix = unixMilli now, mr_Signature = []\<rparr>))) (\<lambda>sent.
          case sent of Inr _ \<Rightarrow> bindS (execDB (DeleteOutboxJob mid)) (\<lambda>_. execDB (DeleteMessage now cid mid))
          | Inl _ \<Rightarrow> execDB (QueueMessageRevoke now cid (ms_ReceiverPeerID msg) mid))))"

definition sendPendingMessageRevokes :: "chat_net \<Rightarrow> time \<Rightarrow> string \<Rightarrow> unit svc" where
  "sendPendingMessageRevokes N now peerID =
     bindS (gets cs_localPeer) (\<lambda>me. bindS (gets (\<lambda>s. ListMessageRevokeJobsForPeer peerID directRetryBatchSize (cs_db s)))
     (forEach (\<lambda>j. bindS (sendEnvelope N peerID (EnvMessageRevoke \<lparr>mr_Type = MessageTypeMessageRevoke,
          mr_ConversationID = vj_ConversationID j, mr_MsgID = vj_MsgID j, mr_FromPeerID = me, mr_ToPeerID = peerID,
          mr_RevokedAtUnix = unixMilli now, mr_Signature = []\<rparr>)) (\<lambda>_. execDB (DeleteMessageRevokeJob (vj_MsgID j))))))"

text \<open>Only the sender of a message may revoke it.\<close>

definition handleIncomingMessageRevoke :: "time \<Rightarrow> MessageRevoke \<Rightarrow> string \<Rightarrow> unit svc" where
  "handleIncomingMessageRevoke now revoke streamPeerID =
     (if \<not> streamPeerIdentityOK streamPeerID (mr_FromPeerID revoke) then ret ()
      else bindS (attempt (readDB (GetMessage (mr_MsgID revoke)))) (\<lambda>r.
        case r of Inl e \<Rightarrow> if e = ErrNoRows then ret () else fail e
        | Inr m \<Rightarrow> if ms_ConversationID m \<noteq> mr_ConversationID revoke \<or> ms_SenderPeerID m \<noteq> mr_FromPeerID revoke then ret ()
                   else execDB (DeleteMessage now (mr_ConversationID revoke) (mr_MsgID revoke))))"


section \<open>Incoming messages\<close>

definition errChatCounterGap :: go_error where "errChatCounterGap = Errorf ''chat: counter gap after sync''"

text \<open>
  The counter of a message against the one expected: an older message was received before and is
  acknowledged again, for a newer one the gap is filled first. A message from the offline store is taken
  across a gap. The result says whether the message is a duplicate, whether it skips a gap, and the error.
  The first argument is how often the loop may go round.
\<close>

type_synonym syncCall = "string \<Rightarrow> string \<Rightarrow> u64 \<Rightarrow> unit svc"

primrec checkIncomingDirectCounter ::
  "nat \<Rightarrow> syncCall \<Rightarrow> chat_net \<Rightarrow> time \<Rightarrow> Conversation \<Rightarrow> sessionState \<Rightarrow> string \<Rightarrow> u64 \<Rightarrow> bool \<Rightarrow> (bool \<times> bool \<times> go_error option) svc" where
  "checkIncomingDirectCounter 0 sync N now conv sess mid counter skipGap = (\<lambda>s. (OutOfFuel, s))"
| "checkIncomingDirectCounter (Suc k) sync N now conv sess mid counter skipGap =
     (let expected = sx_RecvCounter sess; cid = cv_ConversationID conv; peerID = cv_PeerID conv in
      if counter < expected then
        (if skipGap then ret (True, False, None)
         else bindS (attempt (sendDeliveryAck N now conv mid peerID)) (\<lambda>r.
              ret (True, False, case r of Inl e \<Rightarrow> Some e | Inr _ \<Rightarrow> None)))
      else if expected < counter then
        (if skipGap then ret (False, True, None)
         else bindS (attempt (sync cid peerID expected)) (\<lambda>r.
              case r of Inl _ \<Rightarrow> bindS (goTask (SyncOnGap cid peerID expected)) (\<lambda>_. ret (False, False, Some errChatCounterGap))
              | Inr _ \<Rightarrow> bindS (attempt (readDB (GetSessionState cid))) (\<lambda>x.
                  case x of Inl e \<Rightarrow> ret (False, False, Some e)
                  | Inr sess' \<Rightarrow> checkIncomingDirectCounter k sync N now conv sess' mid counter skipGap)))
      else ret (False, False, None))"

type_synonym counterCheck = "Conversation \<Rightarrow> sessionState \<Rightarrow> string \<Rightarrow> u64 \<Rightarrow> bool \<Rightarrow> (bool \<times> bool \<times> go_error option) svc"

definition isDirectChatAuthFailure :: "go_error \<Rightarrow> bool" where
  "isDirectChatAuthFailure e \<longleftrightarrow> e = Errorf ''chacha20poly1305: message authentication failed''"

text \<open>
  When the first message does not open, the local state is taken to be stale: the conversation is deleted
  and loaded again.
\<close>

definition tryRecoverDirectStateOnCounterZeroAuthFailure ::
  "chat_net \<Rightarrow> time \<Rightarrow> ChatText \<Rightarrow> string \<Rightarrow> Conversation \<Rightarrow> go_error \<Rightarrow> (Conversation \<times> sessionState) svc" where
  "tryRecoverDirectStateOnCounterZeroAuthFailure N now msg mode current decryptErr =
     (if tx_Counter msg \<noteq> 0 \<or> \<not> isDirectChatAuthFailure decryptErr then fail decryptErr
      else bindS (execR (DeleteConversationData now (cv_ConversationID current))) (\<lambda>_.
           bindS (loadIncomingDirectState N now (tx_ConversationID msg) (tx_FromPeerID msg) mode) (\<lambda>(conv, sess, _).
           ret (conv, sess))))"

definition inboundText :: "string \<Rightarrow> ChatText \<Rightarrow> string \<Rightarrow> string \<Rightarrow> bytes \<Rightarrow> Message" where
  "inboundText me msg msgType mode plain = zeroMessage\<lparr>ms_MsgID := tx_MsgID msg, ms_ConversationID := tx_ConversationID msg,
     ms_SenderPeerID := tx_FromPeerID msg, ms_ReceiverPeerID := me, ms_Direction := ''inbound'', ms_MsgType := msgType,
     ms_Plaintext := string_of_bytes plain, ms_TransportMode := mode, ms_State := MessageStateReceived,
     ms_Counter := tx_Counter msg, ms_CreatedAt := ofUnixMilli (tx_SentAtUnix msg)\<rparr>"

text \<open>The plaintext and the conversation it belongs to, after one attempt to recover.\<close>

definition openIncomingText ::
  "chat_net \<Rightarrow> time \<Rightarrow> ChatText \<Rightarrow> string \<Rightarrow> string \<Rightarrow> Conversation \<Rightarrow> sessionState \<Rightarrow> (Conversation \<times> bytes) svc" where
  "openIncomingText N now msg msgType mode conv sess =
     (let nonce = BuildAEADNonce ''fwd'' (tx_Counter msg); aad = textAAD (tx_ConversationID msg) msgType in
      case AEADOpen (cn_crypto N) (sx_RecvKey sess) nonce (tx_Ciphertext msg) aad of
        Inr plain \<Rightarrow> ret (conv, plain)
      | Inl e \<Rightarrow> bindS (tryRecoverDirectStateOnCounterZeroAuthFailure N now msg mode conv e) (\<lambda>(conv', sess').
          bindS (liftR (AEADOpen (cn_crypto N) (sx_RecvKey sess') nonce (tx_Ciphertext msg) aad)) (\<lambda>plain. ret (conv', plain))))"

definition handleIncomingChatTextWith ::
  "counterCheck \<Rightarrow> chat_net \<Rightarrow> time \<Rightarrow> ChatText \<Rightarrow> string \<Rightarrow> string \<Rightarrow> bool \<Rightarrow> bool \<Rightarrow> unit svc" where
  "handleIncomingChatTextWith check N now msg mode streamPeerID incrementUnread skipGap =
     bindS (gets cs_localPeer) (\<lambda>me.
     if streamPeerID \<noteq> [] \<and> \<not> streamPeerIdentityOK streamPeerID (tx_FromPeerID msg) then ret ()
     else bindS (blockedPeer (tx_FromPeerID msg)) (\<lambda>blocked. if blocked then ret () else
     bindS (attempt (loadIncomingDirectState N now (tx_ConversationID msg) (tx_FromPeerID msg) mode)) (\<lambda>st.
     case st of
       Inl e \<Rightarrow> bindS (if e = ErrNoRows then maybeSendSessionRejectForConversation now (tx_FromPeerID msg) else ret False) (\<lambda>rejected.
                if rejected then ret () else fail e)
     | Inr (conv, sess, _) \<Rightarrow>
       bindS (check conv sess (tx_MsgID msg) (tx_Counter msg) skipGap) (\<lambda>(duplicate, _, err).
       if duplicate then (case err of Some e \<Rightarrow> if mode = TransportModeOfflineStore then ret () else fail e | None \<Rightarrow> ret ())
       else case err of Some e \<Rightarrow> fail e
       | None \<Rightarrow>
         let msgType = (if tx_Type msg = [] then MessageTypeChatText else tx_Type msg) in
         if msgType \<noteq> MessageTypeChatText \<and> msgType \<noteq> MessageTypeGroupInviteNote then fail (Errorf ''unsupported chat text type'')
         else bindS (openIncomingText N now msg msgType mode conv sess) (\<lambda>(conv', plain).
         bindS (if msgType = MessageTypeGroupInviteNote then (case cn_groupInvite N msg plain of Some e \<Rightarrow> fail e | None \<Rightarrow> ret ()) else ret ()) (\<lambda>_.
         let incoming = inboundText me msg msgType mode plain in
         bindS (execR (AddInboundMessageAndAdvanceRecvCounter incoming (tx_Ciphertext msg) (tx_Counter msg + 1) incrementUnread)) (\<lambda>_.
         bindS (publishChatEvent (chatEventDirectMessage now incoming)) (\<lambda>_.
         bindS (execDB (UpsertPeer now (tx_FromPeerID msg) [] [])) (\<lambda>_.
         if mode = TransportModeOfflineStore then ret () else sendDeliveryAck N now conv' (tx_MsgID msg) (tx_FromPeerID msg))))))))))"

definition handleIncomingChatFileWith ::
  "counterCheck \<Rightarrow> chat_net \<Rightarrow> time \<Rightarrow> ChatFile \<Rightarrow> string \<Rightarrow> string \<Rightarrow> bool \<Rightarrow> unit svc" where
  "handleIncomingChatFileWith check N now msg mode streamPeerID incrementUnread =
     bindS (gets cs_localPeer) (\<lambda>me.
     if streamPeerID \<noteq> [] \<and> \<not> streamPeerIdentityOK streamPeerID (fl_FromPeerID msg) then ret ()
     else bindS (blockedPeer (fl_FromPeerID msg)) (\<lambda>blocked. if blocked then ret () else
     bindS (attempt (loadIncomingDirectState N now (fl_ConversationID msg) (fl_FromPeerID msg) mode)) (\<lambda>st.
     case st of
       Inl e \<Rightarrow> bindS (if e = ErrNoRows then maybeSendSessionRejectForConversation now (fl_FromPeerID msg) else ret False) (\<lambda>rejected.
                if rejected then ret () else fail e)
     | Inr (conv, sess, _) \<Rightarrow>
       bindS (check conv sess (fl_MsgID msg) (fl_Counter msg) False) (\<lambda>(duplicate, _, err).
       if duplicate then (case err of Some e \<Rightarrow> if mode = TransportModeOfflineStore then ret () else fail e | None \<Rightarrow> ret ())
       else case err of Some e \<Rightarrow> fail e
       | None \<Rightarrow>
         bindS (if fl_Ciphertext msg = [] then ret ([], fl_FileSize msg)
                else bindS (liftR (AEADOpen (cn_crypto N) (sx_RecvKey sess) (BuildAEADNonce ''fwd'' (fl_Counter msg)) (fl_Ciphertext msg)
                       (textAAD (fl_ConversationID msg) MessageTypeChatFile))) (\<lambda>plain. ret (plain, int (length plain)))) (\<lambda>(storedBlob, fileSize).
         bindS (if trimSpace (fl_FileCID msg) = [] \<and> storedBlob \<noteq> [] then liftR (cn_fileCID N storedBlob) else ret (trimSpace (fl_FileCID msg))) (\<lambda>fileCID.
         let incoming = zeroMessage\<lparr>ms_MsgID := fl_MsgID msg, ms_ConversationID := fl_ConversationID msg,
               ms_SenderPeerID := fl_FromPeerID msg, ms_ReceiverPeerID := me, ms_Direction := ''inbound'', ms_MsgType := MessageTypeChatFile,
               ms_FileName := NormalizeChatFileName (fl_FileName msg), ms_MIMEType := fl_MIMEType msg, ms_FileSize := fileSize,
               ms_FileCID := fileCID, ms_TransportMode := mode, ms_State := MessageStateReceived, ms_Counter := fl_Counter msg,
               ms_CreatedAt := ofUnixMilli (fl_SentAtUnix msg)\<rparr> in
         bindS (execR (AddInboundMessageAndAdvanceRecvCounter incoming storedBlob (fl_Counter msg + 1) incrementUnread)) (\<lambda>_.
         bindS (publishChatEvent (chatEventDirectMessage now incoming)) (\<lambda>_.
         bindS (execDB (UpsertPeer now (fl_FromPeerID msg) [] [])) (\<lambda>_.
         bindS (sendDeliveryAck N now conv (fl_MsgID msg) (fl_FromPeerID msg)) (\<lambda>_.
         if incrementUnread \<and> fl_Ciphertext msg = [] \<and> fl_FromPeerID msg \<noteq> me \<and> 0 < fileSize
         then goTask (AutoFetchFile incoming) else ret ()))))))))))"

section \<open>Synchronisation\<close>

definition directSyncBatchSize :: int where "directSyncBatchSize = 256"
definition directSyncMaxRounds :: nat where "directSyncMaxRounds = 64"

text \<open>Texts and files of an answer are handled in the order of their counters.\<close>

fun applySyncItems :: "(ChatText \<Rightarrow> unit svc) \<Rightarrow> (ChatFile \<Rightarrow> unit svc) \<Rightarrow> ChatText list \<Rightarrow> ChatFile list \<Rightarrow> unit svc" where
  "applySyncItems ht hf [] [] = ret ()"
| "applySyncItems ht hf (m # ms) [] = bindS (ht m) (\<lambda>_. applySyncItems ht hf ms [])"
| "applySyncItems ht hf [] (f # fs) = bindS (hf f) (\<lambda>_. applySyncItems ht hf [] fs)"
| "applySyncItems ht hf (m # ms) (f # fs) =
     (if tx_Counter m \<le> fl_Counter f then bindS (ht m) (\<lambda>_. applySyncItems ht hf ms (f # fs))
      else bindS (hf f) (\<lambda>_. applySyncItems ht hf (m # ms) fs))"

text \<open>An empty answer from a peer that has sent more moves the counter across what it has no longer.\<close>

definition applyChatSyncResponse :: "(ChatText \<Rightarrow> unit svc) \<Rightarrow> (ChatFile \<Rightarrow> unit svc) \<Rightarrow> string \<Rightarrow> ChatSyncResponse \<Rightarrow> unit svc" where
  "applyChatSyncResponse ht hf cid resp =
     bindS (readDB (GetSessionState cid)) (\<lambda>sess.
     if sp_Messages resp = [] \<and> sp_Files resp = [] \<and> sx_RecvCounter sess < sp_RemoteSendCounter resp
     then execR (UpdateRecvCounter cid (sp_RemoteSendCounter resp))
     else applySyncItems ht hf (sp_Messages resp) (sp_Files resp))"

definition requestChatSync :: "chat_net \<Rightarrow> string \<Rightarrow> ChatSyncRequest \<Rightarrow> ChatSyncResponse svc" where
  "requestChatSync N peerID req = bindS nextCall (\<lambda>n. liftR (cn_chatSync N n peerID req))"

definition syncRequest :: "time \<Rightarrow> string \<Rightarrow> string \<Rightarrow> string \<Rightarrow> u64 \<Rightarrow> ChatSyncRequest" where
  "syncRequest now me cid peerID nextCounter = \<lparr>sq_Type = MessageTypeChatSyncRequest, sq_ConversationID = cid, sq_FromPeerID = me,
     sq_ToPeerID = peerID, sq_NextCounter = nextCounter, sq_SentAtUnix = unixMilli now, sq_Signature = []\<rparr>"

primrec syncRounds :: "nat \<Rightarrow> (string \<Rightarrow> ChatSyncResponse \<Rightarrow> unit svc) \<Rightarrow> chat_net \<Rightarrow> time \<Rightarrow> syncCall" where
  "syncRounds 0 apply_resp N now cid peerID nextCounter = fail (Errorf ''chat sync exceeded max rounds'')"
| "syncRounds (Suc r) apply_resp N now cid peerID nextCounter =
     bindS (gets cs_localPeer) (\<lambda>me.
     bindS (requestChatSync N peerID (syncRequest now me cid peerID nextCounter)) (\<lambda>resp.
     bindS (apply_resp cid resp) (\<lambda>_.
     bindS (readDB (GetSessionState cid)) (\<lambda>sess.
     if sp_RemoteSendCounter resp \<le> sx_RecvCounter sess then ret ()
     else if sx_RecvCounter sess \<le> nextCounter then fail (Errorf ''chat sync made no progress'')
     else syncRounds r apply_resp N now cid peerID (sx_RecvCounter sess)))))"

text \<open>
  The circle of \<open>syncConversationFromCounter\<close>, \<open>applyChatSyncResponse\<close>, \<open>handleIncomingChatText\<close> and
  \<open>checkIncomingDirectCounter\<close>, to the given depth.
\<close>

primrec syncConversationFromCounter :: "nat \<Rightarrow> chat_net \<Rightarrow> time \<Rightarrow> syncCall" where
  "syncConversationFromCounter 0 N now cid peerID nextCounter = (\<lambda>s. (OutOfFuel, s))"
| "syncConversationFromCounter (Suc d) N now cid peerID nextCounter =
     (let check = checkIncomingDirectCounter (Suc d) (syncConversationFromCounter d N now) N now in
      syncRounds directSyncMaxRounds
        (applyChatSyncResponse (\<lambda>m. handleIncomingChatTextWith check N now m TransportModeDirect [] False False)
           (\<lambda>f. handleIncomingChatFileWith check N now f TransportModeDirect [] False)) N now cid peerID nextCounter)"

definition counterCheckOf :: "nat \<Rightarrow> chat_net \<Rightarrow> time \<Rightarrow> counterCheck" where
  "counterCheckOf d N now = checkIncomingDirectCounter (Suc d) (syncConversationFromCounter d N now) N now"

definition handleIncomingChatText :: "nat \<Rightarrow> chat_net \<Rightarrow> time \<Rightarrow> ChatText \<Rightarrow> string \<Rightarrow> string \<Rightarrow> bool \<Rightarrow> bool \<Rightarrow> unit svc" where
  "handleIncomingChatText d N now = handleIncomingChatTextWith (counterCheckOf d N now) N now"

definition handleIncomingChatFile :: "nat \<Rightarrow> chat_net \<Rightarrow> time \<Rightarrow> ChatFile \<Rightarrow> string \<Rightarrow> string \<Rightarrow> bool \<Rightarrow> unit svc" where
  "handleIncomingChatFile d N now = handleIncomingChatFileWith (counterCheckOf d N now) N now"

definition SyncConversation :: "nat \<Rightarrow> chat_net \<Rightarrow> time \<Rightarrow> string \<Rightarrow> unit svc" where
  "SyncConversation d N now cid =
     bindS (readDB (GetConversation cid)) (\<lambda>conv. bindS (readDB (GetSessionState cid)) (\<lambda>sess.
     syncConversationFromCounter d N now cid (cv_PeerID conv) (sx_RecvCounter sess)))"

section \<open>Answering a synchronisation\<close>

definition enc_ChatText :: "ChatText \<Rightarrow> json" where
  "enc_ChatText m = JObj ([(''type'', JStr (tx_Type m)), (''conversation_id'', JStr (tx_ConversationID m)),
     (''msg_id'', JStr (tx_MsgID m)), (''from_peer_id'', JStr (tx_FromPeerID m)), (''to_peer_id'', JStr (tx_ToPeerID m)),
     (''ciphertext'', jbytes (tx_Ciphertext m)), (''counter'', jint (uint (tx_Counter m))), (''sent_at_unix'', jint (tx_SentAtUnix m))]
     @ omitempty (tx_Signature m = []) ''signature'' (jbytes (tx_Signature m)))"

definition enc_ChatFile :: "ChatFile \<Rightarrow> json" where
  "enc_ChatFile m = JObj ([(''type'', JStr (fl_Type m)), (''conversation_id'', JStr (fl_ConversationID m)),
     (''msg_id'', JStr (fl_MsgID m)), (''from_peer_id'', JStr (fl_FromPeerID m)), (''to_peer_id'', JStr (fl_ToPeerID m)),
     (''file_name'', JStr (fl_FileName m)), (''mime_type'', JStr (fl_MIMEType m)), (''file_size'', jint (fl_FileSize m))]
     @ omitempty (fl_FileCID m = []) ''file_cid'' (JStr (fl_FileCID m)) @
     [(''ciphertext'', if fl_Ciphertext m = [] then JNull else jbytes (fl_Ciphertext m)),
      (''counter'', jint (uint (fl_Counter m))), (''sent_at_unix'', jint (fl_SentAtUnix m))]
     @ omitempty (fl_Signature m = []) ''signature'' (jbytes (fl_Signature m)))"

definition enc_ChatSyncResponse :: "ChatSyncResponse \<Rightarrow> json" where
  "enc_ChatSyncResponse m = JObj ([(''type'', JStr (sp_Type m)), (''conversation_id'', JStr (sp_ConversationID m))]
     @ omitempty (sp_FromPeerID m = []) ''from_peer_id'' (JStr (sp_FromPeerID m))
     @ omitempty (sp_RemoteSendCounter m = 0) ''remote_send_counter'' (jint (uint (sp_RemoteSendCounter m)))
     @ omitempty (sp_Messages m = []) ''messages'' (JArr (map enc_ChatText (sp_Messages m)))
     @ omitempty (sp_Files m = []) ''files'' (JArr (map enc_ChatFile (sp_Files m)))
     @ omitempty (sp_Signature m = []) ''signature'' (jbytes (sp_Signature m)))"

definition fitsFrame :: "ChatSyncResponse \<Rightarrow> bool" where
  "fitsFrame resp \<longleftrightarrow> length (marshal_tree (enc_ChatSyncResponse resp)) \<le> MaxJSONFrameSize"

text \<open>Items are added while the encoded answer fits in a frame; one that does not fit alone is an error.\<close>

fun fillSyncResponse :: "chat_net \<Rightarrow> (Message \<times> bytes) list \<Rightarrow> ChatSyncResponse \<Rightarrow> ChatSyncResponse result" where
  "fillSyncResponse N [] resp = Inr resp"
| "fillSyncResponse N ((m, blob) # items) resp =
     (let msg = zeroMessage\<lparr>ms_MsgID := ms_MsgID m, ms_ConversationID := ms_ConversationID m, ms_SenderPeerID := ms_SenderPeerID m,
            ms_ReceiverPeerID := ms_ReceiverPeerID m, ms_MsgType := ms_MsgType m, ms_FileName := ms_FileName m,
            ms_MIMEType := ms_MIMEType m, ms_FileSize := ms_FileSize m, ms_FileCID := ms_FileCID m, ms_Counter := ms_Counter m,
            ms_CreatedAt := ofUnixMilli (unixMilli (ms_CreatedAt m))\<rparr>
      in case buildDirectEnvelope N msg blob [] of
           Inl e \<Rightarrow> Inl e
         | Inr (EnvChatText t) \<Rightarrow>
             let resp' = resp\<lparr>sp_Messages := sp_Messages resp @ [t]\<rparr> in
             if fitsFrame resp' then fillSyncResponse N items resp'
             else if sp_Messages resp = [] \<and> sp_Files resp = [] then Inl (Errorf ''chat sync item too large'') else Inr resp
         | Inr (EnvChatFile f) \<Rightarrow>
             let resp' = resp\<lparr>sp_Files := sp_Files resp @ [f]\<rparr> in
             if fitsFrame resp' then fillSyncResponse N items resp'
             else if sp_Messages resp = [] \<and> sp_Files resp = [] then Inl (Errorf ''chat sync item too large'') else Inr resp
         | Inr _ \<Rightarrow> Inl (Errorf ''unsupported chat sync wire''))"

definition emptySyncResponse :: "string \<Rightarrow> string \<Rightarrow> u64 \<Rightarrow> ChatSyncResponse" where
  "emptySyncResponse cid me counter = \<lparr>sp_Type = MessageTypeChatSyncResponse, sp_ConversationID = cid, sp_FromPeerID = me,
     sp_RemoteSendCounter = counter, sp_Messages = [], sp_Files = [], sp_Signature = []\<rparr>"

text \<open>The answer is read from the database and changes nothing.\<close>

definition handleChatSyncRequest :: "chat_net \<Rightarrow> ChatService \<Rightarrow> ChatSyncRequest \<Rightarrow> string \<Rightarrow> ChatSyncResponse result" where
  "handleChatSyncRequest N s req remotePeerID =
     (let cid = sq_ConversationID req; me = cs_localPeer s; db = cs_db s in
      if sq_Type req \<noteq> MessageTypeChatSyncRequest then Inl (Errorf ''invalid chat sync request type'')
      else if sq_FromPeerID req \<noteq> remotePeerID then Inl (Errorf ''chat sync requester mismatch'')
      else case GetConversation cid db of
        Inl e \<Rightarrow> if e = ErrNoRows then Inr (emptySyncResponse cid me 0) else Inl e
      | Inr conv \<Rightarrow>
        if cv_PeerID conv \<noteq> remotePeerID \<or> sq_ToPeerID req \<noteq> me then Inl (Errorf ''chat sync conversation mismatch'')
        else res_bind (ListOutgoingMessagesForSync cid me (sq_NextCounter req) directSyncBatchSize db) (\<lambda>items.
             fillSyncResponse N items
               (emptySyncResponse cid me (case GetSessionState cid db of Inr x \<Rightarrow> sx_SendCounter x | Inl _ \<Rightarrow> 0))))"

section \<open>Running what was started\<close>

text \<open>
  Each goroutine as the step it makes when it runs. Fetching a file or an avatar only asks the peer, and the
  answer is handled elsewhere.
\<close>

definition runTask :: "nat \<Rightarrow> chat_net \<Rightarrow> time \<Rightarrow> ChatTask \<Rightarrow> unit svc" where
  "runTask d N now t = (case t of
     SendDirect msg blob cached \<Rightarrow> completeOutboundDirectSend N now msg blob cached
   | SendFriendControl mid peerID kind payload retry \<Rightarrow> sendOutgoingFriendControl N now mid peerID payload retry
   | SendReject peerID rej \<Rightarrow> bindS (attempt (sendEnvelope N peerID (EnvSessionReject rej))) (\<lambda>_. ret ())
   | SendRetentionUpdate peerID upd \<Rightarrow> bindS (attempt (sendEnvelope N peerID (EnvRetentionUpdate upd))) (\<lambda>_. ret ())
   | SyncOnGap cid peerID next \<Rightarrow> bindS (attempt (syncConversationFromCounter d N now cid peerID next)) (\<lambda>_. ret ())
   | AutoFetchFile msg \<Rightarrow> ret ()
   | AvatarFetch peerID req \<Rightarrow> bindS (attempt (sendJSON N peerID (EnvAvatarRequest req))) (\<lambda>_. ret ()))"

end
