(* ===== verification/Chat_Store_Laws.thy ===== *)
theory Chat_Store_Laws
  imports Chat_Store
begin

text \<open>
  What the chat database promises: a row put under a key is the one found under it (the contract \<open>row_table\<close>,
  interpreted on the tables of messages, sessions, requests and jobs), the primary keys stay unique under
  every operation, a stored time is read back as it was, and the order of the stored texts is the order of
  the times only from one second to the next.
\<close>

section \<open>Keyed tables\<close>

locale row_table =
  fixes get :: "'k \<Rightarrow> 'row list \<Rightarrow> 'row option"
    and put :: "'row \<Rightarrow> 'row list \<Rightarrow> 'row list"
    and key :: "'row \<Rightarrow> 'k"
  assumes get_put: "get (key r) (put r t) = Some r"
    and get_put_other: "k \<noteq> key r \<Longrightarrow> get k (put r t) = get k t"
begin

lemma get_puts_other: "k \<notin> key ` set rs \<Longrightarrow> get k (fold put rs t) = get k t"
  by (induction rs arbitrary: t) (auto simp: get_put_other)

lemma get_puts: "distinct (map key rs) \<Longrightarrow> r \<in> set rs \<Longrightarrow> get (key r) (fold put rs t) = Some r"
  by (induction rs arbitrary: t) (auto simp: get_put get_puts_other)

end

definition getBy :: "('a \<Rightarrow> 'k) \<Rightarrow> 'k \<Rightarrow> 'a list \<Rightarrow> 'a option" where
  "getBy key k tbl = find (\<lambda>r. key r = k) tbl"

lemma find_append: "find P (xs @ ys) = (case find P xs of Some x \<Rightarrow> Some x | None \<Rightarrow> find P ys)"
  by (induction xs) auto

lemma find_filter_other: "(\<And>x. P x \<Longrightarrow> Q x) \<Longrightarrow> find P (filter Q xs) = find P xs"
  by (induction xs) auto

lemma find_filter_none: "(\<And>x. P x \<Longrightarrow> \<not> Q x) \<Longrightarrow> find P (filter Q xs) = None"
  by (induction xs) auto

lemma getBy_replaceRow:
  "getBy key k (replaceRow (\<lambda>x. key x = key r) r tbl) = (if k = key r then Some r else getBy key k tbl)"
proof (cases "k = key r")
  case True
  have "find (\<lambda>x. key x = key r) (filter (\<lambda>x. key x \<noteq> key r) tbl) = None" by (rule find_filter_none) simp
  with True show ?thesis by (simp add: getBy_def replaceRow_def find_append)
next
  case False
  have "find (\<lambda>x. key x = k) (filter (\<lambda>x. key x \<noteq> key r) tbl) = find (\<lambda>x. key x = k) tbl"
    by (rule find_filter_other) (use False in auto)
  with False show ?thesis by (auto simp: getBy_def replaceRow_def find_append split: option.splits)
qed

lemma getBy_updateRows:
  assumes "\<And>x. key (f x) = key x"
  shows "getBy key k (updateRows (\<lambda>x. key x = j) f tbl) = map_option (\<lambda>x. if k = j then f x else x) (getBy key k tbl)"
  by (induction tbl) (auto simp: getBy_def updateRows_def assms)

lemma getBy_overwrite:
  "key r = j \<Longrightarrow> getBy key k (updateRows (\<lambda>x. key x = j) (\<lambda>_. r) tbl)
     = (if k = j then map_option (\<lambda>_. r) (getBy key k tbl) else getBy key k tbl)"
  by (induction tbl) (auto simp: getBy_def updateRows_def)

lemma getBy_None: "getBy key k tbl = None \<longleftrightarrow> (\<forall>x\<in>set tbl. key x \<noteq> k)"
  by (induction tbl) (auto simp: getBy_def)

lemma getBy_upsertRow:
  "key r = j \<Longrightarrow> getBy key k (upsertRow (\<lambda>x. key x = j) (\<lambda>_. r) r tbl) = (if k = j then Some r else getBy key k tbl)"
proof (cases "\<exists>x\<in>set tbl. key x = j")
  case True
  assume r: "key r = j"
  from True obtain y where "getBy key j tbl = Some y" using getBy_None [of key j tbl] by auto
  with True r show ?thesis by (simp add: upsertRow_def getBy_overwrite)
next
  case False
  assume r: "key r = j"
  from False have "getBy key j tbl = None" by (simp add: getBy_None)
  with False r show ?thesis by (auto simp: upsertRow_def getBy_def find_append split: option.splits)
qed

lemma queryRow_getBy: "queryRow (\<lambda>r. key r = k) tbl = of_option ErrNoRows (getBy key k tbl)"
  by (simp add: queryRow_def getBy_def)

definition messageKey :: "Message \<times> bytes \<Rightarrow> string" where "messageKey r = ms_MsgID (fst r)"

definition putMessage :: "Message \<times> bytes \<Rightarrow> (Message \<times> bytes) list \<Rightarrow> (Message \<times> bytes) list" where
  "putMessage r = replaceRow (\<lambda>x. messageKey x = messageKey r) r"

definition putSession :: "sessionState \<Rightarrow> sessionState list \<Rightarrow> sessionState list" where
  "putSession r = replaceRow (\<lambda>x. sx_ConversationID x = sx_ConversationID r) r"

definition putRequest :: "Request \<Rightarrow> Request list \<Rightarrow> Request list" where
  "putRequest r = replaceRow (\<lambda>x. fq_RequestID x = fq_RequestID r) r"

definition putOutbox :: "outboxJob \<Rightarrow> outboxJob list \<Rightarrow> outboxJob list" where
  "putOutbox r = upsertRow (\<lambda>x. oj_JobID x = oj_JobID r) (\<lambda>_. r) r"

interpretation messages: row_table "getBy messageKey" putMessage messageKey
  by unfold_locales (simp_all add: putMessage_def getBy_replaceRow)

interpretation sessions: row_table "getBy sx_ConversationID" putSession sx_ConversationID
  by unfold_locales (simp_all add: putSession_def getBy_replaceRow)

interpretation requests: row_table "getBy fq_RequestID" putRequest fq_RequestID
  by unfold_locales (simp_all add: putRequest_def getBy_replaceRow)

interpretation outbox: row_table "getBy oj_JobID" putOutbox oj_JobID
  by unfold_locales (simp_all add: putOutbox_def getBy_upsertRow)

lemma insertMessage_put: "insertMessage m b db = db\<lparr>db_messages := putMessage (relaySQLValues m, b) (db_messages db)\<rparr>"
  by (simp add: insertMessage_def setMessages_def putMessage_def messageKey_def relaySQLValues_def case_prod_unfold)

lemma SaveOutgoingRequest_put:
  "SaveOutgoingRequest now r db = db\<lparr>db_requests := putRequest (requestRow now r) (db_requests db)\<rparr>"
  by (simp add: SaveOutgoingRequest_def putRequest_def requestRow_def)

lemma GetSessionState_getBy: "GetSessionState cid db = of_option ErrNoRows (getBy sx_ConversationID cid (db_sessions db))"
  by (simp add: GetSessionState_def queryRow_getBy)

lemma find_map: "find P (map f xs) = map_option f (find (P \<circ> f) xs)"
  by (induction xs) auto

lemma GetMessage_getBy: "GetMessage mid db = of_option ErrNoRows (map_option fst (getBy messageKey mid (db_messages db)))"
  by (simp add: GetMessage_def queryRow_def find_map getBy_def messageKey_def comp_def)

lemma GetMessageBlob_getBy: "GetMessageBlob mid db = of_option ErrNoRows (map_option snd (getBy messageKey mid (db_messages db)))"
  by (cases "getBy messageKey mid (db_messages db)")
     (simp_all add: GetMessageBlob_def queryRow_def getBy_def messageKey_def case_prod_unfold)


section \<open>Primary keys\<close>

definition unique :: "('a \<Rightarrow> 'k) \<Rightarrow> 'a list \<Rightarrow> bool" where
  "unique key tbl \<longleftrightarrow> distinct (map key tbl)"

named_theorems unique_intros

lemma unique_replaceRow [unique_intros]: "unique key t \<Longrightarrow> (\<And>x. key x = key r \<Longrightarrow> P x) \<Longrightarrow> unique key (replaceRow P r t)"
  by (auto simp: unique_def replaceRow_def distinct_map_filter)

lemma unique_deleteRows [unique_intros]: "unique key t \<Longrightarrow> unique key (deleteRows P t)"
  by (simp add: unique_def deleteRows_def distinct_map_filter)

lemma unique_updateRows [unique_intros]: "unique key t \<Longrightarrow> (\<And>x. key (f x) = key x) \<Longrightarrow> unique key (updateRows P f t)"
proof -
  assume u: "unique key t" and f: "\<And>x. key (f x) = key x"
  have "map key (updateRows P f t) = map key t" by (simp add: updateRows_def f)
  with u show ?thesis by (simp add: unique_def)
qed

lemma unique_upsertRow [unique_intros]:
  "unique key t \<Longrightarrow> (\<And>x. P x \<Longrightarrow> key (f x) = key x) \<Longrightarrow> (\<And>x. key x = key r \<Longrightarrow> P x) \<Longrightarrow> unique key (upsertRow P f r t)"
proof -
  assume u: "unique key t" and f: "\<And>x. P x \<Longrightarrow> key (f x) = key x" and r: "\<And>x. key x = key r \<Longrightarrow> P x"
  have "map key (updateRows P f t) = map key t" by (simp add: updateRows_def f)
  then show ?thesis using u r by (auto simp: unique_def upsertRow_def)
qed

lemma unique_fold [unique_intros]: "unique key t \<Longrightarrow> (\<And>x t. unique key t \<Longrightarrow> unique key (g x t)) \<Longrightarrow> unique key (fold g xs t)"
  by (induction xs arbitrary: t) auto

definition db_ok :: "ChatDB \<Rightarrow> bool" where
  "db_ok db \<longleftrightarrow> unique messageKey (db_messages db) \<and> unique cv_ConversationID (db_conversations db) \<and>
     unique cv_PeerID (db_conversations db) \<and> unique sx_ConversationID (db_sessions db) \<and>
     unique fq_RequestID (db_requests db) \<and> unique ck_PeerID (db_peers db) \<and> unique oj_JobID (db_outbox db) \<and>
     unique vj_JobID (db_revokes db) \<and> unique fj_JobID (db_friendJobs db)"

text \<open>A change of the database keeps every table's key, given the tables it leaves alone.\<close>

lemma db_ok_update_simps [simp]:
  "db_ok (updateConversation cid f db) \<longleftrightarrow> db_ok db" if "\<And>c. cv_ConversationID (f c) = cv_ConversationID c" "\<And>c. cv_PeerID (f c) = cv_PeerID c"
  using that by (simp add: db_ok_def updateConversation_def unique_def updateRows_def comp_def if_distrib cong: if_cong)

lemma db_ok_updateSession [simp]:
  "(\<And>x. sx_ConversationID (f x) = sx_ConversationID x) \<Longrightarrow> db_ok (updateSession cid f db) \<longleftrightarrow> db_ok db"
  by (simp add: db_ok_def updateSession_def unique_def updateRows_def comp_def if_distrib cong: if_cong)

lemma db_ok_updateRequest [simp]:
  "(\<And>r. fq_RequestID (f r) = fq_RequestID r) \<Longrightarrow> db_ok (updateRequest rid f db) \<longleftrightarrow> db_ok db"
  by (simp add: db_ok_def updateRequest_def unique_def updateRows_def comp_def if_distrib cong: if_cong)

lemma db_ok_updatePeers [simp]:
  "(\<And>p. ck_PeerID (f p) = ck_PeerID p) \<Longrightarrow> db_ok (updatePeers pid f db) \<longleftrightarrow> db_ok db"
  by (simp add: db_ok_def updatePeers_def unique_def updateRows_def comp_def if_distrib cong: if_cong)

lemma db_ok_updateMessage [simp]:
  "(\<And>m. ms_MsgID (f m) = ms_MsgID m) \<Longrightarrow> db_ok (updateMessage mid f db) \<longleftrightarrow> db_ok db"
proof -
  assume f: "\<And>m. ms_MsgID (f m) = ms_MsgID m"
  have "map messageKey (updateRows (\<lambda>(m, _). ms_MsgID m = mid) (\<lambda>(m, b). (f m, b)) t) = map messageKey t" for t
    by (simp add: updateRows_def messageKey_def f case_prod_unfold)
  then show ?thesis by (simp add: db_ok_def updateMessage_def setMessages_def unique_def)
qed

lemma db_ok_refresh [simp]: "db_ok (refreshConversationMessageSummary now cid db) \<longleftrightarrow> db_ok db"
  by (simp add: refreshConversationMessageSummary_def split: list.split)

lemma db_ok_cleanup: "db_ok db \<Longrightarrow> db_ok (cleanupConversationExpiredMessages clock cid minutes now db)"
  by (simp add: cleanupConversationExpiredMessages_def setMessages_def Let_def) (simp add: db_ok_def unique_deleteRows)

lemma db_ok_insertMessage: "db_ok db \<Longrightarrow> db_ok (insertMessage m b db)"
  by (simp add: insertMessage_put putMessage_def db_ok_def unique_replaceRow)

lemma db_ok_removeMessage: "db_ok db \<Longrightarrow> db_ok (removeMessage cid mid db)"
  by (simp add: removeMessage_def setMessages_def db_ok_def unique_deleteRows)

lemma filledConversation_ids [simp]:
  "cv_ConversationID (conversationRow now (filledConversation conv db)) = cv_ConversationID conv"
  "cv_PeerID (conversationRow now (filledConversation conv db)) = cv_PeerID conv"
  by (simp_all add: conversationRow_def filledConversation_def inheritConversation_def inheritPeerConversation_def split: sum.split)

lemma db_ok_CreateConversation: "db_ok db \<Longrightarrow> db_ok (snd (CreateConversation now conv sess db))"
  by (auto simp: CreateConversation_def Let_def db_ok_def split: sum.split intro!: unique_replaceRow)

lemma db_ok_DeleteConversationData: "db_ok db \<Longrightarrow> db_ok (snd (DeleteConversationData now cid db))"
  by (auto simp: DeleteConversationData_def Let_def db_ok_def split: sum.split intro!: unique_deleteRows unique_updateRows)

lemma unique_migratedSessions: "unique sx_ConversationID ss \<Longrightarrow> unique sx_ConversationID (migratedSessions old new ss)"
  unfolding migratedSessions_def by (intro unique_intros) auto

lemma db_ok_MigrateConversationID: "db_ok db \<Longrightarrow> db_ok (snd (MigrateConversationID now old new db))"
  by (auto simp: MigrateConversationID_def Let_def db_ok_def messageKey_def unique_migratedSessions case_prod_unfold split: sum.split
      intro!: unique_deleteRows unique_updateRows unique_replaceRow)

lemma db_ok_UpsertPeer: "db_ok db \<Longrightarrow> db_ok (UpsertPeer now pid nick bio db)"
  by (auto simp: UpsertPeer_def Let_def db_ok_def intro!: unique_upsertRow)

lemma db_ok_DeletePeer: "db_ok db \<Longrightarrow> db_ok (snd (DeletePeerAndRelatedData pid db))"
  by (auto simp: DeletePeerAndRelatedData_def Let_def db_ok_def intro!: unique_deleteRows)

lemma db_ok_UpsertIncomingRequest: "db_ok db \<Longrightarrow> db_ok (UpsertIncomingRequest now r db)"
  by (auto simp: UpsertIncomingRequest_def requestRow_def db_ok_def intro!: unique_upsertRow)

lemma db_ok_SaveOutgoingRequest: "db_ok db \<Longrightarrow> db_ok (SaveOutgoingRequest now r db)"
  by (auto simp: SaveOutgoingRequest_def requestRow_def db_ok_def intro!: unique_replaceRow)

lemma db_ok_friendJobs:
  "db_ok db \<Longrightarrow> db_ok (UpsertFriendRequestJob now rid pid st n t1 t2 db)" "db_ok db \<Longrightarrow> db_ok (DeleteFriendRequestJob rid db)"
  by (auto simp: UpsertFriendRequestJob_def DeleteFriendRequestJob_def db_ok_def intro!: unique_upsertRow unique_deleteRows)

lemma db_ok_outbox:
  "db_ok db \<Longrightarrow> db_ok (UpsertOutboxJob mid pid st n t1 t2 db)" "db_ok db \<Longrightarrow> db_ok (DeleteOutboxJob mid db)"
  by (auto simp: UpsertOutboxJob_def DeleteOutboxJob_def Let_def db_ok_def intro!: unique_upsertRow unique_deleteRows)

lemma db_ok_revokes:
  "db_ok db \<Longrightarrow> db_ok (QueueMessageRevoke now cid pid mid db)" "db_ok db \<Longrightarrow> db_ok (DeleteMessageRevokeJob mid db)"
proof -
  assume ok: "db_ok db"
  show "db_ok (DeleteMessageRevokeJob mid db)" using ok by (auto simp: DeleteMessageRevokeJob_def db_ok_def intro!: unique_deleteRows)
  let ?j = "\<lparr>vj_JobID = mid, vj_ConversationID = cid, vj_PeerID = pid, vj_MsgID = mid, vj_Status = MessageStateQueuedForRetry,
      vj_RetryCount = 0, vj_NextRetryAt = now, vj_LastTransportAttempt = 0, vj_CreatedAt = now\<rparr>"
  have "db_ok (db\<lparr>db_revokes := upsertRow (\<lambda>x. vj_JobID x = mid) (\<lambda>_. ?j) ?j (db_revokes db)\<rparr>)"
    using ok by (auto simp: db_ok_def intro!: unique_upsertRow)
  then show "db_ok (QueueMessageRevoke now cid pid mid db)"
    using ok by (auto simp: QueueMessageRevoke_def Let_def intro!: db_ok_removeMessage db_ok_outbox(2))
qed

lemma db_ok_AddInbound: "db_ok db \<Longrightarrow> db_ok (snd (AddInboundMessageAndAdvanceRecvCounter m b c inc db))"
  by (auto simp: AddInboundMessageAndAdvanceRecvCounter_def touchConversation_def Let_def db_ok_insertMessage split: sum.split)

lemma db_ok_AddMessage: "db_ok db \<Longrightarrow> db_ok (snd (AddMessage m b db))"
  by (auto simp: AddMessage_def touchConversation_def db_ok_insertMessage split: sum.split)

lemma db_ok_UpdateConversationRetention: "db_ok db \<Longrightarrow> db_ok (snd (UpdateConversationRetention now cid minutes db))"
  by (auto simp: UpdateConversationRetention_def Let_def intro!: db_ok_cleanup)

lemma db_ok_CleanupExpired: "db_ok db \<Longrightarrow> db_ok (CleanupExpiredMessages clock now db)"
proof -
  have "db_ok (fold (\<lambda>c. cleanupConversationExpiredMessages clock (cv_ConversationID c) (cv_RetentionMinutes c) now) cs d)" if "db_ok d" for cs d
    using that by (induction cs arbitrary: d) (auto intro: db_ok_cleanup)
  then show "db_ok db \<Longrightarrow> ?thesis" by (simp add: CleanupExpiredMessages_def)
qed


text \<open>The operations of the store as steps; the clock and the arguments are arbitrary.\<close>

definition emptyDB :: "string \<Rightarrow> Profile \<Rightarrow> bytes \<Rightarrow> ChatDB" where
  "emptyDB me profile priv = \<lparr>db_localPeerID = me, db_profile = profile, db_kexPriv = priv, db_peers = [], db_requests = [],
     db_conversations = [], db_messages = [], db_sessions = [], db_outbox = [], db_revokes = [], db_friendJobs = []\<rparr>"

inductive db_step :: "ChatDB \<Rightarrow> ChatDB \<Rightarrow> bool" where
  "db_step db (snd (CreateConversation now conv sess db))"
| "db_step db (snd (ClearConversationUnreadCount now cid db))"
| "db_step db (UpdateConversationState now cid st db)"
| "db_step db (UpdateConversationRetentionSync now cid st t db)"
| "db_step db (snd (UpdateConversationRetention now cid minutes db))"
| "db_step db (CleanupExpiredMessages clock now db)"
| "db_step db (snd (UpdateSendCounter cid c db))"
| "db_step db (snd (UpdateRecvCounter cid c db))"
| "db_step db (snd (DeleteConversationData now cid db))"
| "db_step db (snd (MigrateConversationID now old new db))"
| "db_step db (UpsertPeer now pid nick bio db)"
| "db_step db (snd (updatePeerAvatar now pid avatar pinned db))"
| "db_step db (snd (UpdatePeerNickname now pid nick db))"
| "db_step db (snd (SetPeerBlocked now pid b db))"
| "db_step db (snd (DeletePeerAndRelatedData pid db))"
| "db_step db (UpsertIncomingRequest now req db)"
| "db_step db (SaveOutgoingRequest now req db)"
| "db_step db (UpdateRequestAvatar now rid avatar db)"
| "db_step db (UpdateRequestRemoteChatKexPub now rid pub db)"
| "db_step db (UpdateRequestState now rid st cid db)"
| "db_step db (UpsertFriendRequestJob now rid pid st n t1 t2 db)"
| "db_step db (DeleteFriendRequestJob rid db)"
| "db_step db (snd (AddInboundMessageAndAdvanceRecvCounter m b c inc db))"
| "db_step db (snd (AddMessage m b db))"
| "db_step db (MarkMessageDelivered mid t db)"
| "db_step db (UpdateMessageState mid st db)"
| "db_step db (UpsertOutboxJob mid pid st n t1 t2 db)"
| "db_step db (DeleteOutboxJob mid db)"
| "db_step db (DeleteMessage now cid mid db)"
| "db_step db (QueueMessageRevoke now cid pid mid db)"
| "db_step db (DeleteMessageRevokeJob mid db)"

lemma db_ok_step: "db_step db db' \<Longrightarrow> db_ok db \<Longrightarrow> db_ok db'"
  by (induction rule: db_step.induct)
     (auto simp: ClearConversationUnreadCount_def UpdateConversationState_def UpdateConversationRetentionSync_def UpdateSendCounter_def
        UpdateRecvCounter_def updatePeerAvatar_def UpdatePeerNickname_def SetPeerBlocked_def UpdateRequestAvatar_def
        UpdateRequestRemoteChatKexPub_def UpdateRequestState_def MarkMessageDelivered_def UpdateMessageState_def DeleteMessage_def Let_def
        intro!: db_ok_CreateConversation db_ok_UpdateConversationRetention db_ok_CleanupExpired db_ok_DeleteConversationData
          db_ok_MigrateConversationID db_ok_UpsertPeer db_ok_DeletePeer db_ok_UpsertIncomingRequest db_ok_SaveOutgoingRequest
          db_ok_friendJobs db_ok_outbox db_ok_revokes db_ok_AddInbound db_ok_AddMessage db_ok_removeMessage
        split: sum.split)


definition demo_profile :: Profile where
  "demo_profile = \<lparr>pf_PeerID = ''me'', pf_Nickname = ''n'', pf_Bio = [], pf_Avatar = [], pf_AvatarCID = [], pf_ChatKexPub = [],
     pf_CreatedAt = 1\<rparr>"


section \<open>Stored times\<close>

lemma length_pad9: "n < 1000000000 \<Longrightarrow> length (pad9 n) = 9"
  using length_show_nat [of n 8] by (simp add: pad9_def Let_def)

lemma digits_val_foldl: "foldl (\<lambda>a c. a * 10 + digit_val c) a s = a * 10 ^ length s + digits_val s"
  unfolding digits_val_def
proof (induction s arbitrary: a)
  case (Cons c s)
  show ?case using Cons [of "a * 10 + digit_val c"] Cons [of "digit_val c"] by (simp add: algebra_simps)
qed simp

lemma digits_val_append: "digits_val (s @ t) = digits_val s * 10 ^ length t + digits_val t"
  using digits_val_foldl [of "digits_val s" t] by (simp add: digits_val_def)

lemma digits_val_zeros [simp]: "digits_val (replicate k (CHR ''0'')) = 0"
proof (induction k)
  case (Suc k)
  have "digits_val [CHR ''0''] = 0" by (simp add: digits_val_def digit_val_def)
  with Suc show ?case using digits_val_append [of "[CHR ''0'']" "replicate k (CHR ''0'')"] by simp
qed (simp add: digits_val_def)

lemma strip_zeros:
  obtains k where "d = rev (dropWhile (\<lambda>c. c = z) (rev d)) @ replicate k z"
proof
  let ?t = "takeWhile (\<lambda>c. c = z) (rev d)"
  have "\<forall>x\<in>set ?t. x = z" by (metis set_takeWhileD)
  then have "?t = replicate (length ?t) z" by (simp add: replicate_length_same)
  moreover have "rev d = ?t @ dropWhile (\<lambda>c. c = z) (rev d)" by simp
  ultimately show "d = rev (dropWhile (\<lambda>c. c = z) (rev d)) @ replicate (length ?t) z"
    by (metis rev_append rev_replicate rev_rev_ident)
qed

lemma parse_fracText: "n < 1000000000 \<Longrightarrow> parseFrac (fracText n) = n"
proof (cases "n = 0")
  case False
  assume n: "n < 1000000000"
  let ?d = "rev (dropWhile (\<lambda>c. c = CHR ''0'') (rev (pad9 n)))"
  obtain k where k: "pad9 n = ?d @ replicate k (CHR ''0'')" by (rule strip_zeros)
  have "length ?d + k = 9" using arg_cong [OF k, of length] length_pad9 [OF n] by simp
  then have e: "9 - length ?d = k" by simp
  have "digits_val (pad9 n) = n" by (simp add: pad9_def Let_def digits_val_append)
  then have "digits_val ?d * 10 ^ k = n" by (subst (asm) k) (simp add: digits_val_append)
  with False e show ?thesis by (simp add: fracText_def parseFrac_def Let_def butlast_append)
qed (simp add: fracText_def parseFrac_def)


lemma timeText_seconds: "t div second < u div second \<Longrightarrow> timeText t < timeText u"
  by (simp add: timeText_def)

lemma digit_chars: "digit_char 0 = CHR ''0''" "digit_char (Suc 0) = CHR ''1''" "digit_char 1 = CHR ''1''" "digit_char 2 = CHR ''2''" "digit_char 5 = CHR ''5''"
  by (simp_all add: digit_char_def char_of_def bit_0)

lemma fracText_120_125: "fracText 120000000 = ''.12Z''" "fracText 125000000 = ''.125Z''"
  by (simp_all add: fracText_def pad9_def Let_def show_nat.simps digit_chars)

lemma text_125_before_120: "''.125Z'' < (''.12Z'' :: string)"
  by code_simp

text \<open>The list of a conversation's messages is sorted by the stored texts, and within a second that is not the order of
  the times: of two messages at 120 and 125 milliseconds the later one is listed first.\<close>

theorem messages_listed_out_of_order:
  assumes "db_messages db = [(m1, b1), (m2, b2)]" "ms_ConversationID m1 = cid" "ms_ConversationID m2 = cid"
    and "ms_CreatedAt m1 = s * second + 120 * millisecond" "ms_CreatedAt m2 = s * second + 125 * millisecond"
  shows "ms_CreatedAt m1 < ms_CreatedAt m2 \<and> ListMessages cid db = [m2, m1]"
proof -
  have t: "timeText (ms_CreatedAt m1) = (s, ''.12Z'')" "timeText (ms_CreatedAt m2) = (s, ''.125Z'')"
    using fracText_120_125 by (simp_all add: timeText_def assms(4,5) second_def millisecond_def)
  have "\<not> (''.12Z'' :: string) \<le> ''.125Z''" using text_125_before_120 by simp
  then have "ListMessages cid db = [m2, m1]" by (simp add: ListMessages_def conversationMessages_def orderAsc_def assms(1-3) t)
  then show ?thesis by (simp add: assms(4,5) millisecond_def)
qed

theorem messages_listed_out_of_order_witness:
  "ListMessages ''c'' ((emptyDB ''me'' demo_profile [])\<lparr>db_messages :=
     [(zeroMessage\<lparr>ms_ConversationID := ''c'', ms_CreatedAt := 5 * second + 120 * millisecond\<rparr>, []),
      (zeroMessage\<lparr>ms_ConversationID := ''c'', ms_CreatedAt := 5 * second + 125 * millisecond\<rparr>, [])]\<rparr>)
   = [zeroMessage\<lparr>ms_ConversationID := ''c'', ms_CreatedAt := 5 * second + 125 * millisecond\<rparr>,
      zeroMessage\<lparr>ms_ConversationID := ''c'', ms_CreatedAt := 5 * second + 120 * millisecond\<rparr>]"
  by (rule conjunct2 [OF messages_listed_out_of_order [where s = 5]]) simp_all

end
