(* ===== verification/Chat_Relay_Table.thy ===== *)
theory Chat_Relay_Table
  imports Chat_Relay Circuit_Store "HOL-Library.AList"
begin

text \<open>
  The relay's side of the chat relay, \<open>internal/relay/chatrelay_v1.go\<close>: the table of
  registered sessions with its caps, the rate limits and the four forwarders. The locale
  \<open>session_table\<close> states what a table indexed by source promises when an entry is removed;
  the relay's table and the destination's table are both instances of it.

  A Go map that is ranged over is an association list; the order of a range statement is an
  argument of the operation, a function that permutes the list. The receiver and the table of the
  forwarders are never nil: the dispatcher checks it.
\<close>

section \<open>Tables indexed by source\<close>

text \<open>
  The loop that looks for the entry with the earliest expiry, which both tables have: the first
  of them in range order, the empty string when no entry expires before \<open>1 << 62 - 1\<close>.
\<close>

definition earliest :: "('r \<Rightarrow> int) \<Rightarrow> (string \<times> 'r) list \<Rightarrow> string" where
  "earliest ex xs = fst (foldl (\<lambda>(victim, minExp) (sid, r). if ex r < minExp then (sid, ex r) else (victim, minExp))
     ([], 2 ^ 62 - 1) xs)"

text \<open>A range order: every entry once.\<close>

definition rangeOrder :: "('a list \<Rightarrow> 'a list) \<Rightarrow> bool" where
  "rangeOrder rng \<longleftrightarrow> (\<forall>xs. set (rng xs) = set xs)"

text \<open>The list of a source names exactly the sessions of that source.\<close>

definition indexed :: "('r \<Rightarrow> string) \<Rightarrow> (string \<times> 'r) list \<Rightarrow> (string \<Rightarrow> string list) \<Rightarrow> bool" where
  "indexed sr xs ids \<longleftrightarrow> distinct (map fst xs) \<and> (\<forall>s. set (ids s) = {sid. \<exists>r. map_of xs sid = Some r \<and> sr r = s})"

text \<open>
  What a capped table promises: its index is exact, no source has more than \<open>perSrc\<close> sessions,
  every session expires, and the whole table is at most one entry over its cap.
\<close>

definition capInv ::
  "('r \<Rightarrow> string) \<Rightarrow> ('r \<Rightarrow> int) \<Rightarrow> nat \<Rightarrow> nat \<Rightarrow> (string \<times> 'r) list \<Rightarrow> (string \<Rightarrow> string list) \<Rightarrow> bool" where
  "capInv sr ex perSrc cap xs ids \<longleftrightarrow> indexed sr xs ids \<and> (\<forall>s. length (ids s) \<le> perSrc) \<and>
     (\<forall>(sid, r) \<in> set xs. sid \<noteq> [] \<and> ex r < 2 ^ 62 - 1) \<and> length xs \<le> cap + 1"

text \<open>A session ID is not in use by another source.\<close>

definition freeFor :: "('r \<Rightarrow> string) \<Rightarrow> string \<Rightarrow> string \<Rightarrow> (string \<times> 'r) list \<Rightarrow> bool" where
  "freeFor sr sid src xs \<longleftrightarrow> (\<forall>r. map_of xs sid = Some r \<longrightarrow> sr r = src)"

lemma alist_update_bounds:
  "length (AList.update k v xs) \<le> Suc (length xs)" "set (AList.update k v xs) \<subseteq> insert (k, v) (set xs)"
  by (induction xs) auto

lemma earliest_member: "earliest ex xs \<noteq> [] \<Longrightarrow> earliest ex xs \<in> fst ` set xs"
proof -
  have "fst (foldl (\<lambda>(victim, minExp) (sid, r). if ex r < minExp then (sid, ex r) else (victim, minExp)) (v, m) xs) \<in> insert v (fst ` set xs)" for v m
    by (induction xs arbitrary: v m) (auto, force+)
  from this [of "[]"] show "earliest ex xs \<noteq> [] \<Longrightarrow> ?thesis" by (auto simp: earliest_def)
qed

lemma earliest_found:
  assumes "\<forall>(sid, r) \<in> set xs. sid \<noteq> [] \<and> ex r < 2 ^ 62 - 1" and "xs \<noteq> []"
  shows "earliest ex xs \<noteq> []"
proof -
  let ?f = "\<lambda>(victim, minExp) (sid, r). if ex r < minExp then (sid, ex r) else (victim, minExp)"
  have keep: "v \<noteq> [] \<Longrightarrow> \<forall>(sid, r) \<in> set ys. sid \<noteq> [] \<Longrightarrow> fst (foldl ?f (v, m) ys) \<noteq> []" for v m ys
    by (induction ys arbitrary: v m) (auto split: if_splits)
  obtain sid r ys where xs: "xs = (sid, r) # ys" using assms(2) by (cases xs) auto
  then have "sid \<noteq> []" "ex r < 2 ^ 62 - 1" "\<forall>(sid, r) \<in> set ys. sid \<noteq> []" using assms(1) by auto
  then show ?thesis using keep [of sid ys "ex r"] by (simp add: earliest_def xs)
qed

locale session_table =
  fixes sess :: "'t \<Rightarrow> (string \<times> 'r) list"
    and ids :: "'t \<Rightarrow> string \<Rightarrow> string list"
    and sr :: "'r \<Rightarrow> string"
    and ex :: "'r \<Rightarrow> int"
    and remove :: "string \<Rightarrow> 't \<Rightarrow> 't"
  assumes sess_remove: "sess (remove sid t) = AList.delete sid (sess t)"
    and ids_remove: "ids (remove sid t) = (case map_of (sess t) sid of None \<Rightarrow> ids t
          | Some r \<Rightarrow> (ids t)(sr r := filter (\<lambda>y. y \<noteq> sid) (ids t (sr r))))"
begin

lemma remove_indexed: "indexed sr (sess t) (ids t) \<Longrightarrow> indexed sr (sess (remove sid t)) (ids (remove sid t))"
  by (auto simp: indexed_def sess_remove ids_remove distinct_delete delete_conv' map_upd_Some_unfold
      dest: eq_key_imp_eq_value split: option.splits if_splits)

lemma remove_shorter:
  assumes "indexed sr (sess t) (ids t)" and "ids t s \<noteq> []"
  shows "length (ids (remove (hd (ids t s)) t) s) < length (ids t s)"
proof -
  have "hd (ids t s) \<in> set (ids t s)" using assms(2) by simp
  then obtain r where "map_of (sess t) (hd (ids t s)) = Some r" "sr r = s"
    using assms(1) by (auto simp: indexed_def)
  then show ?thesis using assms(2) by (cases "ids t s") (auto simp: ids_remove less_Suc_eq_le)
qed

lemma remove_le: "length (ids (remove sid t) s) \<le> length (ids t s)" "length (sess (remove sid t)) \<le> length (sess t)"
  by (auto simp: ids_remove sess_remove length_delete_le split: option.splits)

lemma remove_subset: "set (sess (remove sid t)) \<subseteq> set (sess t)"
  by (auto simp: sess_remove AList.delete_eq)

lemma remove_capInv:
  "capInv sr ex m n (sess t) (ids t) \<Longrightarrow> capInv sr ex m n (sess (remove sid t)) (ids (remove sid t))"
  unfolding capInv_def using remove_indexed [of t sid] remove_le [of sid t] remove_subset [of sid t]
  by (auto intro: le_trans)

lemma remove_free: "freeFor sr sid src (sess t) \<Longrightarrow> freeFor sr sid src (sess (remove v t))"
  by (auto simp: freeFor_def sess_remove delete_conv' map_upd_Some_unfold)

lemma sessions_of_source:
  assumes "indexed sr (sess t) (ids t)"
  shows "length (filter (\<lambda>(_, r). sr r = s) (sess t)) \<le> length (ids t s)"
proof -
  let ?f = "filter (\<lambda>(_, r). sr r = s) (sess t)"
  have d: "distinct (map fst (sess t))" using assms by (simp add: indexed_def)
  then have "distinct (map fst ?f)" by (rule distinct_map_filter)
  moreover have "set (map fst ?f) \<subseteq> set (ids t s)"
    using assms d by (auto simp: indexed_def)
  ultimately show ?thesis
    by (metis card_length card_mono distinct_card le_trans length_map List.finite_set)
qed

end


text \<open>A table that evicts the entry with the earliest expiry while it is over its cap.\<close>

locale evicting_table = session_table +
  fixes evict :: "((string \<times> 'b) list \<Rightarrow> (string \<times> 'b) list) \<Rightarrow> 'a \<Rightarrow> 'a"
    and evicts :: "((string \<times> 'b) list \<Rightarrow> (string \<times> 'b) list) \<Rightarrow> 'a \<Rightarrow> 'a"
    and cap :: nat
  assumes evict: "evict rng t = (let v = earliest ex (rng (sess t)) in if v \<noteq> [] then remove v t else t)"
    and evicts: "evicts rng t = (if cap < length (sess t)
          then let t' = evict rng t in if length (sess t) \<le> length (sess t') then t' else evicts rng t' else t)"
begin

lemma evict_cases: "evict rng t = t \<or> (\<exists>v. evict rng t = remove v t)"
  by (auto simp: evict Let_def)

lemma evict_shrinks:
  assumes "rangeOrder rng" and "\<forall>(sid, r) \<in> set (sess t). sid \<noteq> [] \<and> ex r < 2 ^ 62 - 1" and "sess t \<noteq> []"
  shows "length (sess (evict rng t)) < length (sess t)"
proof -
  have set: "set (rng (sess t)) = set (sess t)" using assms(1) by (simp add: rangeOrder_def)
  then have ne: "rng (sess t) \<noteq> []" using assms(3) by auto
  have v: "earliest ex (rng (sess t)) \<noteq> []"
    by (rule earliest_found [OF _ ne]) (use assms(2) set in simp)
  from earliest_member [OF this] have "earliest ex (rng (sess t)) \<in> fst ` set (sess t)" using set by simp
  then have "length (AList.delete (earliest ex (rng (sess t))) (sess t)) < length (sess t)"
    by (auto simp: AList.delete_eq intro!: length_filter_less)
  then show ?thesis using v by (simp add: evict sess_remove)
qed

text \<open>Whatever removing an entry keeps, the eviction loop keeps.\<close>

lemma evicts_keeps:
  assumes "\<And>v t. P t \<Longrightarrow> P (remove v t)" and "P t"
  shows "P (evicts rng t)"
  using assms(2)
proof (induction t rule: measure_induct_rule [of "\<lambda>t. length (sess t)"])
  case (less t)
  have "P (evict rng t)" using less(2) assms(1) evict_cases [of rng t] by auto
  then show ?case using less by (subst evicts) (auto simp: Let_def)
qed

lemma evicts_bound:
  assumes "rangeOrder rng" and "\<forall>(sid, r) \<in> set (sess t). sid \<noteq> [] \<and> ex r < 2 ^ 62 - 1"
  shows "length (sess (evicts rng t)) \<le> cap"
  using assms(2)
proof (induction t rule: measure_induct_rule [of "\<lambda>t. length (sess t)"])
  case (less t)
  show ?case
  proof (cases "cap < length (sess t)")
    case True
    then have "length (sess (evict rng t)) < length (sess t)"
      using evict_shrinks [OF assms(1) less(2)] by fastforce
    moreover have "set (sess (evict rng t)) \<subseteq> set (sess t)"
      using evict_cases [of rng t] remove_subset by (metis order_refl)
    then have "\<forall>(sid, r) \<in> set (sess (evict rng t)). sid \<noteq> [] \<and> ex r < 2 ^ 62 - 1" using less(2) by blast
    ultimately show ?thesis using less(1) True by (subst evicts) (simp add: Let_def)
  qed (simp add: evicts [of rng t])
qed

text \<open>The loop over the table that removes what has expired.\<close>

lemma purge_keeps:
  assumes "\<And>v t. P t \<Longrightarrow> P (remove v t)" and "P t"
  shows "P (fold (\<lambda>(sid, r) t. if now > ex r then remove sid t else t) xs t)"
  using assms(2) by (induction xs arbitrary: t) (auto simp: assms(1))

lemma purge_sess:
  "sess (fold (\<lambda>(sid, r) t. if now > ex r then remove sid t else t) xs t) =
     filter (\<lambda>(k, _). \<forall>r. (k, r) \<in> set xs \<longrightarrow> now \<le> ex r) (sess t)"
proof (induction xs arbitrary: t)
  case (Cons x xs)
  obtain sid r where x: "x = (sid, r)" by force
  show ?case unfolding x
    by (auto simp: Cons.IH sess_remove AList.delete_eq not_less intro!: filter_cong)
qed (simp add: case_prod_beta')

end

text \<open>
  A table with both caps: \<open>purge\<close> removes what has expired and then evicts, now and then or when
  the table is over its cap, \<open>enforce\<close> removes the sessions of a source from the front until there
  is room for one more, and \<open>add\<close> enters a session.
\<close>

locale capped_table = evicting_table +
  fixes touch :: "time \<Rightarrow> 'a \<Rightarrow> 'a"
    and purge :: "((string \<times> 'b) list \<Rightarrow> (string \<times> 'b) list) \<Rightarrow> time \<Rightarrow> 'a \<Rightarrow> 'a"
    and enforce :: "string \<Rightarrow> 'a \<Rightarrow> 'a option"
    and add :: "string \<Rightarrow> 'b \<Rightarrow> 'a \<Rightarrow> 'a"
    and perSrc :: nat
  assumes touch: "sess (touch now t) = sess t" "ids (touch now t) = ids t"
    and purge: "purge rng now t = t \<and> length (sess t) \<le> cap \<or>
          purge rng now t = evicts rng (fold (\<lambda>(sid, r) t. if now div second > ex r then remove sid t else t)
            (rng (sess t)) (touch now t))"
    and enforce: "enforce s t = (if perSrc \<le> length (ids t s)
          then case ids t s of [] \<Rightarrow> Some t | sid # _ \<Rightarrow> enforce s (remove sid t) else Some t)"
    and add: "sess (add sid r t) = AList.update sid r (sess t)" "ids (add sid r t) = (ids t)(sr r := ids t (sr r) @ [sid])"
    and perSrc: "0 < perSrc"
begin

lemma purge_keeps_all:
  assumes "\<And>v u. P u \<Longrightarrow> P (remove v u)" and "P t" "P (touch now t)"
  shows "P (purge rng now t)"
  using purge [of rng now t]
proof
  assume "purge rng now t = evicts rng (fold (\<lambda>(sid, r) t. if now div second > ex r then remove sid t else t) (rng (sess t)) (touch now t))"
  then show ?thesis
    using evicts_keeps [of P, OF assms(1)] purge_keeps [of P "touch now t", OF assms(1,3)] by simp
qed (use assms(2) in simp)

lemma purge_capInv:
  "capInv sr ex m n (sess t) (ids t) \<Longrightarrow> capInv sr ex m n (sess (purge rng now t)) (ids (purge rng now t))"
  by (rule purge_keeps_all [where P = "\<lambda>u. capInv sr ex m n (sess u) (ids u)"]) (auto simp: remove_capInv touch)

lemma purge_free: "freeFor sr sid src (sess t) \<Longrightarrow> freeFor sr sid src (sess (purge rng now t))"
  by (rule purge_keeps_all [where P = "\<lambda>u. freeFor sr sid src (sess u)"]) (auto simp: remove_free touch)

lemma purge_bound:
  assumes "rangeOrder rng" and "capInv sr ex m n (sess t) (ids t)"
  shows "length (sess (purge rng now t)) \<le> cap"
  using purge [of rng now t]
proof
  let ?u = "fold (\<lambda>(sid, r) t. if now div second > ex r then remove sid t else t) (rng (sess t)) (touch now t)"
  assume p: "purge rng now t = evicts rng ?u"
  have "capInv sr ex m n (sess ?u) (ids ?u)"
    by (rule purge_keeps [where P = "\<lambda>u. capInv sr ex m n (sess u) (ids u)"]) (use assms(2) in \<open>auto simp: remove_capInv touch\<close>)
  then show ?thesis using evicts_bound [OF assms(1), of ?u] by (simp add: p capInv_def)
qed simp

text \<open>What a purge leaves was there before; below the total cap it takes only what has expired.\<close>

lemma purge_map_of:
  assumes "map_of (sess (purge rng now t)) sid = Some r"
  shows "map_of (sess t) sid = Some r"
proof -
  let ?P = "\<lambda>u. \<forall>r. map_of (sess u) sid = Some r \<longrightarrow> map_of (sess t) sid = Some r"
  have "?P (purge rng now t)"
    by (rule purge_keeps_all [where P = ?P]) (auto simp: sess_remove touch delete_conv' map_upd_Some_unfold)
  then show ?thesis using assms by simp
qed

lemma purge_map_of_unexpired:
  assumes "distinct (map fst (sess t))" "length (sess t) \<le> cap" "rangeOrder rng"
    and "map_of (sess t) sid = Some r" "now div second \<le> ex r"
  shows "map_of (sess (purge rng now t)) sid = Some r"
  using purge [of rng now t]
proof
  define u where "u = fold (\<lambda>(sid, r) t. if now div second > ex r then remove sid t else t) (rng (sess t)) (touch now t)"
  assume "purge rng now t = evicts rng (fold (\<lambda>(sid, r) t. if now div second > ex r then remove sid t else t) (rng (sess t)) (touch now t))"
  then have p: "purge rng now t = evicts rng u" by (simp add: u_def)
  have s: "sess u = filter (\<lambda>(k, _). \<forall>r. (k, r) \<in> set (sess t) \<longrightarrow> now div second \<le> ex r) (sess t)"
    unfolding u_def purge_sess using assms(3) by (simp add: rangeOrder_def touch)
  then have "length (sess u) \<le> cap"
    using assms(2) by (simp only: s order_trans [OF length_filter_le])
  then have "evicts rng u = u" by (simp add: evicts [of rng u])
  moreover have "r' = r" if "(sid, r') \<in> set (sess t)" for r'
    using map_of_is_SomeI [OF assms(1) that] assms(4) by simp
  then have "\<forall>r'. (sid, r') \<in> set (sess t) \<longrightarrow> now div second \<le> ex r'"
    using assms(5) by blast
  then have "(sid, r) \<in> set (sess u)"
    using map_of_SomeD [OF assms(4)] by (simp add: s)
  then have "map_of (sess u) sid = Some r"
    using assms(1) by (simp add: s distinct_map_filter)
  ultimately show ?thesis by (simp add: p)
qed (use assms(4) in simp)

text \<open>On an exact index the loop ends, and makes room.\<close>

lemma enforce_makes_room:
  "indexed sr (sess t) (ids t) \<Longrightarrow> (\<And>v u. P u \<Longrightarrow> P (remove v u)) \<Longrightarrow> P t \<Longrightarrow>
   \<exists>t'. enforce src t = Some t' \<and> P t' \<and> length (ids t' src) < perSrc"
proof (induction t rule: measure_induct_rule [of "\<lambda>t. length (ids t src)"])
  case (less t)
  show ?case
  proof (cases "perSrc \<le> length (ids t src)")
    case True
    then obtain sid rest where l: "ids t src = sid # rest"
      using perSrc by (cases "ids t src") auto
    show ?thesis
      using less.IH [of "remove sid t"] remove_shorter [of t src] remove_indexed [of t sid] less.prems True
      by (subst enforce) (simp add: l)
  qed (use less.prems in \<open>simp add: enforce [of src t]\<close>)
qed

lemma add_capInv:
  assumes "capInv sr ex perSrc cap (sess t) (ids t)" "freeFor sr sid (sr r) (sess t)" "sid \<noteq> []" "ex r < 2 ^ 62 - 1"
    and "length (sess t) \<le> cap" "length (ids t (sr r)) < perSrc"
  shows "capInv sr ex perSrc cap (sess (add sid r t)) (ids (add sid r t))"
proof -
  have "indexed sr (sess (add sid r t)) (ids (add sid r t))"
    using assms(1,2)
    by (auto simp: capInv_def freeFor_def indexed_def add distinct_update update_conv' split: if_splits)
  moreover have "\<forall>(sid, r) \<in> set (sess (add sid r t)). sid \<noteq> [] \<and> ex r < 2 ^ 62 - 1"
    using assms(1,3,4) alist_update_bounds(2) [of sid r "sess t"] by (fastforce simp: capInv_def add)
  moreover have "length (sess (add sid r t)) \<le> cap + 1"
    using assms(5) alist_update_bounds(1) [of sid r "sess t"] by (simp add: add)
  moreover have "\<forall>s. length (ids (add sid r t) s) \<le> perSrc"
    using assms(1,6) by (simp add: capInv_def add)
  ultimately show ?thesis by (simp add: capInv_def)
qed

text \<open>Purging, making room and adding: the registration of a session.\<close>

lemma room_for_session:
  assumes "rangeOrder rng" "capInv sr ex perSrc cap (sess t) (ids t)" "freeFor sr sid src (sess t)"
  shows "\<exists>t'. enforce src (purge rng now t) = Some t' \<and> capInv sr ex perSrc cap (sess t') (ids t') \<and>
    freeFor sr sid src (sess t') \<and> length (sess t') \<le> cap \<and> length (ids t' src) < perSrc"
proof -
  let ?u = "purge rng now t"
  let ?P = "\<lambda>u. capInv sr ex perSrc cap (sess u) (ids u) \<and> freeFor sr sid src (sess u) \<and> length (sess u) \<le> cap"
  have u: "?P ?u" using purge_capInv purge_free purge_bound assms by blast
  moreover have "indexed sr (sess ?u) (ids ?u)" using u by (simp add: capInv_def)
  moreover have "?P v \<Longrightarrow> ?P (remove x v)" for v x
    using remove_capInv remove_free remove_le(2) [of x v] by auto
  ultimately show ?thesis using enforce_makes_room [of ?u ?P src] by blast
qed

lemma cap_per_source:
  "capInv sr ex perSrc cap (sess t) (ids t) \<Longrightarrow> length (filter (\<lambda>(_, r). sr r = s) (sess t)) \<le> perSrc"
  using sessions_of_source [of t s] by (force simp: capInv_def intro: le_trans)

end

section \<open>The relay's table\<close>

definition MaxRelayV1FrameBytes :: nat where "MaxRelayV1FrameBytes = 12 * 2 ^ 20"
definition chatRelayV1MaxSessionsPerSrc :: nat where "chatRelayV1MaxSessionsPerSrc = 64"
definition chatRelayV1MaxSessionsTotal :: nat where "chatRelayV1MaxSessionsTotal = 8192"
definition chatRelayV1PurgeInterval :: duration where "chatRelayV1PurgeInterval = 2 * second"
definition chatRelayV1MinConnectGap :: duration where "chatRelayV1MinConnectGap = 200 * millisecond"
definition chatRelayV1MinHeartbeatGap :: duration where "chatRelayV1MinHeartbeatGap = 400 * millisecond"

record chatRelayV1Reg =
  cr_srcID :: string
  cr_dstID :: string
  cr_expireAt :: int
  cr_createdAt :: int

record ChatRelayV1Table =
  ct_sessions :: "(string \<times> chatRelayV1Reg) list"
  ct_bySrc :: "string \<Rightarrow> string list"
  ct_lastPurge :: time
  ct_lastConnectAt :: "string \<rightharpoonup> time"
  ct_lastHeartbeatAt :: "string \<rightharpoonup> time"

type_synonym reg_range = "(string \<times> chatRelayV1Reg) list \<Rightarrow> (string \<times> chatRelayV1Reg) list"

definition NewChatRelayV1Table :: ChatRelayV1Table where
  "NewChatRelayV1Table = \<lparr>ct_sessions = [], ct_bySrc = (\<lambda>_. []), ct_lastPurge = 0,
     ct_lastConnectAt = Map.empty, ct_lastHeartbeatAt = Map.empty\<rparr>"

definition removeStringFromSlice :: "string list \<Rightarrow> string \<Rightarrow> string list" where
  "removeStringFromSlice s x = filter (\<lambda>y. y \<noteq> x) s"

definition removeSessionLocked :: "string \<Rightarrow> ChatRelayV1Table \<Rightarrow> ChatRelayV1Table" where
  "removeSessionLocked sid t =
     (case map_of (ct_sessions t) sid of
        None \<Rightarrow> t
      | Some r \<Rightarrow> t\<lparr>ct_sessions := AList.delete sid (ct_sessions t),
                    ct_bySrc := (ct_bySrc t)(cr_srcID r := removeStringFromSlice (ct_bySrc t (cr_srcID r)) sid)\<rparr>)"

definition evictOneSessionLocked :: "reg_range \<Rightarrow> ChatRelayV1Table \<Rightarrow> ChatRelayV1Table" where
  "evictOneSessionLocked rng t =
     (let victim = earliest cr_expireAt (rng (ct_sessions t))
      in if victim \<noteq> [] then removeSessionLocked victim t else t)"

text \<open>The loop of \<open>maybePurgeExpiredLocked\<close> that brings the table under its total cap.\<close>

function evictOverflow :: "reg_range \<Rightarrow> ChatRelayV1Table \<Rightarrow> ChatRelayV1Table" where
  "evictOverflow rng t =
     (if chatRelayV1MaxSessionsTotal < length (ct_sessions t)
      then let t' = evictOneSessionLocked rng t
           in if length (ct_sessions t) \<le> length (ct_sessions t') then t' else evictOverflow rng t'
      else t)"
  by pat_completeness auto
termination by (relation "measure (\<lambda>(_, t). length (ct_sessions t))") auto

declare evictOverflow.simps [simp del]

definition maybePurgeExpiredLocked :: "reg_range \<Rightarrow> time \<Rightarrow> ChatRelayV1Table \<Rightarrow> ChatRelayV1Table" where
  "maybePurgeExpiredLocked rng now t =
     (let nowUnix = now div second;
          heavy = ct_lastPurge t = 0 \<or> now - ct_lastPurge t \<ge> chatRelayV1PurgeInterval
                    \<or> length (ct_sessions t) > chatRelayV1MaxSessionsTotal
      in if \<not> heavy then t
         else evictOverflow rng
                (fold (\<lambda>(sid, r) t. if nowUnix > cr_expireAt r then removeSessionLocked sid t else t)
                   (rng (ct_sessions t)) (t\<lparr>ct_lastPurge := now\<rparr>)))"

text \<open>
  The loop that makes room for one more session of a source. Nothing in the loop shows that it
  ends, so \<open>None\<close> stands for a loop that runs for ever, with the table's mutex held.
\<close>

partial_function (option) enforcePerSrcCapLocked :: "string \<Rightarrow> ChatRelayV1Table \<Rightarrow> ChatRelayV1Table option" where
  "enforcePerSrcCapLocked srcID t =
     (if length (ct_bySrc t srcID) \<ge> chatRelayV1MaxSessionsPerSrc
      then (case ct_bySrc t srcID of
              [] \<Rightarrow> Some t
            | sid # _ \<Rightarrow> enforcePerSrcCapLocked srcID (removeSessionLocked sid t))
      else Some t)"

definition AllowConnectForward :: "time \<Rightarrow> string \<Rightarrow> ChatRelayV1Table \<Rightarrow> bool \<times> ChatRelayV1Table" where
  "AllowConnectForward now inboundPeerID t =
     (if inboundPeerID = [] then (True, t)
      else case ct_lastConnectAt t inboundPeerID of
        Some prev \<Rightarrow> if now - prev < chatRelayV1MinConnectGap then (False, t)
                     else (True, t\<lparr>ct_lastConnectAt := (ct_lastConnectAt t)(inboundPeerID \<mapsto> now)\<rparr>)
      | None \<Rightarrow> (True, t\<lparr>ct_lastConnectAt := (ct_lastConnectAt t)(inboundPeerID \<mapsto> now)\<rparr>))"

definition AllowHeartbeatForward :: "time \<Rightarrow> string \<Rightarrow> ChatRelayV1Table \<Rightarrow> bool \<times> ChatRelayV1Table" where
  "AllowHeartbeatForward now inboundPeerID t =
     (if inboundPeerID = [] then (True, t)
      else case ct_lastHeartbeatAt t inboundPeerID of
        Some prev \<Rightarrow> if now - prev < chatRelayV1MinHeartbeatGap then (False, t)
                     else (True, t\<lparr>ct_lastHeartbeatAt := (ct_lastHeartbeatAt t)(inboundPeerID \<mapsto> now)\<rparr>)
      | None \<Rightarrow> (True, t\<lparr>ct_lastHeartbeatAt := (ct_lastHeartbeatAt t)(inboundPeerID \<mapsto> now)\<rparr>))"

definition insertSession :: "string \<Rightarrow> chatRelayV1Reg \<Rightarrow> ChatRelayV1Table \<Rightarrow> ChatRelayV1Table" where
  "insertSession sessionID r t = t\<lparr>ct_sessions := AList.update sessionID r (ct_sessions t),
     ct_bySrc := (ct_bySrc t)(cr_srcID r := ct_bySrc t (cr_srcID r) @ [sessionID])\<rparr>"

definition RegisterSession ::
  "reg_range \<Rightarrow> time \<Rightarrow> string \<Rightarrow> string \<Rightarrow> string \<Rightarrow> int \<Rightarrow> ChatRelayV1Table \<Rightarrow> ChatRelayV1Table option" where
  "RegisterSession rng now sessionID srcID dstID expireAt t =
     (if sessionID = [] then Some t
      else Option.bind (enforcePerSrcCapLocked srcID (maybePurgeExpiredLocked rng now t)) (\<lambda>t'.
        Some (insertSession sessionID
          \<lparr>cr_srcID = srcID, cr_dstID = dstID, cr_expireAt = expireAt, cr_createdAt = now div second\<rparr> t')))"

definition ValidSession ::
  "reg_range \<Rightarrow> string \<Rightarrow> string \<Rightarrow> string \<Rightarrow> int \<Rightarrow> ChatRelayV1Table \<Rightarrow> bool \<times> ChatRelayV1Table" where
  "ValidSession rng sessionID srcID dstID nowUnix t =
     (let t' = maybePurgeExpiredLocked rng (nowUnix * second) t
      in (case map_of (ct_sessions t') sessionID of
            None \<Rightarrow> False
          | Some r \<Rightarrow> nowUnix \<le> cr_expireAt r \<and> cr_srcID r = srcID \<and> cr_dstID r = dstID, t'))"

interpretation rt: capped_table ct_sessions ct_bySrc cr_srcID cr_expireAt removeSessionLocked
  evictOneSessionLocked evictOverflow chatRelayV1MaxSessionsTotal
  "\<lambda>now t. t\<lparr>ct_lastPurge := now\<rparr>" maybePurgeExpiredLocked enforcePerSrcCapLocked insertSession chatRelayV1MaxSessionsPerSrc
proof unfold_locales
  show "ct_sessions (removeSessionLocked sid t) = AList.delete sid (ct_sessions t)" for sid t
    by (simp add: removeSessionLocked_def delete_idem map_of_eq_None_iff split: option.split)
  show "ct_bySrc (removeSessionLocked sid t) = (case map_of (ct_sessions t) sid of None \<Rightarrow> ct_bySrc t
      | Some r \<Rightarrow> (ct_bySrc t)(cr_srcID r := filter (\<lambda>y. y \<noteq> sid) (ct_bySrc t (cr_srcID r))))" for sid t
    by (simp add: removeSessionLocked_def removeStringFromSlice_def split: option.split)
  show "evictOneSessionLocked rng t = (let v = earliest cr_expireAt (rng (ct_sessions t)) in
      if v \<noteq> [] then removeSessionLocked v t else t)" for rng t
    by (simp add: evictOneSessionLocked_def)
  show "maybePurgeExpiredLocked rng now t = t \<and> length (ct_sessions t) \<le> chatRelayV1MaxSessionsTotal \<or>
    maybePurgeExpiredLocked rng now t = evictOverflow rng
      (fold (\<lambda>(sid, r) t. if now div second > cr_expireAt r then removeSessionLocked sid t else t)
        (rng (ct_sessions t)) (t\<lparr>ct_lastPurge := now\<rparr>))" for rng now t
    by (simp add: maybePurgeExpiredLocked_def Let_def)
qed (rule evictOverflow.simps, simp, simp, rule enforcePerSrcCapLocked.simps,
     simp_all add: insertSession_def chatRelayV1MaxSessionsPerSrc_def)


section \<open>The caps hold\<close>

definition tableInv :: "ChatRelayV1Table \<Rightarrow> bool" where
  "tableInv t \<longleftrightarrow> capInv cr_srcID cr_expireAt chatRelayV1MaxSessionsPerSrc chatRelayV1MaxSessionsTotal (ct_sessions t) (ct_bySrc t)"

text \<open>Sources pick random session identifiers, but nothing makes them.\<close>

definition idFree :: "string \<Rightarrow> string \<Rightarrow> ChatRelayV1Table \<Rightarrow> bool" where
  "idFree sid src t \<longleftrightarrow> freeFor cr_srcID sid src (ct_sessions t)"

lemma RegisterSession_step:
  assumes "rangeOrder rng" "tableInv t" "idFree sid src t" "expireAt < 2 ^ 62 - 1"
  shows "\<exists>t'. RegisterSession rng now sid src dst expireAt t = Some t' \<and> tableInv t'"
proof (cases "sid = []")
  case False
  obtain t' where t': "enforcePerSrcCapLocked src (maybePurgeExpiredLocked rng now t) = Some t'" "tableInv t'"
      "idFree sid src t'" "length (ct_sessions t') \<le> chatRelayV1MaxSessionsTotal" "length (ct_bySrc t' src) < chatRelayV1MaxSessionsPerSrc"
    using rt.room_for_session [OF assms(1), of t sid src now] assms(2,3) by (auto simp: tableInv_def idFree_def)
  let ?r = "\<lparr>cr_srcID = src, cr_dstID = dst, cr_expireAt = expireAt, cr_createdAt = now div second\<rparr>"
  have "tableInv (insertSession sid ?r t')"
    using rt.add_capInv [of t' sid ?r] t' assms(4) False by (simp add: tableInv_def idFree_def)
  then show ?thesis using False t'(1) by (simp add: RegisterSession_def)
qed (use assms(2) in \<open>simp add: RegisterSession_def\<close>)

text \<open>The tables a relay can have: every operation, at any time and with any range order.\<close>

inductive tableReach :: "ChatRelayV1Table \<Rightarrow> bool" where
  new: "tableReach NewChatRelayV1Table"
| register: "tableReach t \<Longrightarrow> rangeOrder rng \<Longrightarrow> idFree sid src t \<Longrightarrow> expireAt < 2 ^ 62 - 1 \<Longrightarrow>
    RegisterSession rng now sid src dst expireAt t = Some t' \<Longrightarrow> tableReach t'"
| valid: "tableReach t \<Longrightarrow> rangeOrder rng \<Longrightarrow> tableReach (snd (ValidSession rng sid src dst nowUnix t))"
| connect: "tableReach t \<Longrightarrow> tableReach (snd (AllowConnectForward now pid t))"
| heartbeat: "tableReach t \<Longrightarrow> tableReach (snd (AllowHeartbeatForward now pid t))"

lemma tableReach_inv: "tableReach t \<Longrightarrow> tableInv t"
proof (induction rule: tableReach.induct)
  case new
  show ?case by (simp add: tableInv_def NewChatRelayV1Table_def capInv_def indexed_def)
next
  case (register t rng sid src expireAt now dst t')
  from RegisterSession_step [OF register(2) register(6) register(3) register(4), of now dst] register(5) show ?case by simp
next
  case (valid t rng sid src dst nowUnix)
  then show ?case by (simp add: ValidSession_def Let_def tableInv_def rt.purge_capInv)
next
  case (connect t now pid)
  then show ?case by (simp add: AllowConnectForward_def tableInv_def split: option.split)
next
  case (heartbeat t now pid)
  then show ?case by (simp add: AllowHeartbeatForward_def tableInv_def split: option.split)
qed


lemma idFree_new [simp]: "idFree sid src NewChatRelayV1Table"
  by (simp add: idFree_def freeFor_def NewChatRelayV1Table_def)

lemma rangeOrder_id [simp]: "rangeOrder (\<lambda>xs. xs)" "rangeOrder rev"
  by (simp_all add: rangeOrder_def)


section \<open>A session ID registered by two sources\<close>

text \<open>
  A session ID in the list of a source that the table does not give to that source: removing it
  leaves the list of the source as it is.
\<close>

definition stale :: "string \<Rightarrow> string \<Rightarrow> ChatRelayV1Table \<Rightarrow> bool" where
  "stale sid src t \<longleftrightarrow> (\<forall>r. map_of (ct_sessions t) sid = Some r \<longrightarrow> cr_srcID r \<noteq> src)"

lemma stale_remove:
  "stale sid src t \<Longrightarrow> stale sid src (removeSessionLocked v t)"
  "stale sid src t \<Longrightarrow> ct_bySrc (removeSessionLocked sid t) src = ct_bySrc t src"
  by (auto simp: stale_def rt.sess_remove rt.ids_remove delete_conv' map_upd_Some_unfold split: option.splits)

lemma enforce_hangs:
  assumes "stale sid src t" "ct_bySrc t src = sid # rest" "length rest \<ge> 63"
  shows "enforcePerSrcCapLocked src t = None"
proof -
  have "\<not> (stale sid s u \<and> ct_bySrc u s = sid # rest \<and> length rest \<ge> 63)"
    if "enforcePerSrcCapLocked s u = Some v" for s u v
  proof (rule enforcePerSrcCapLocked.raw_induct [OF _ that,
      where P = "\<lambda>s u _. \<not> (stale sid s u \<and> ct_bySrc u s = sid # rest \<and> length rest \<ge> 63)"], goal_cases)
    case (1 f s u v)
    show ?case
    proof
      assume h: "stale sid s u \<and> ct_bySrc u s = sid # rest \<and> length rest \<ge> 63"
      then have "f s (removeSessionLocked sid u) = Some v"
        using 1(2) by (simp add: chatRelayV1MaxSessionsPerSrc_def)
      from 1(1) [OF this] show False using h stale_remove by simp
    qed
  qed
  then show ?thesis using assms by (cases "enforcePerSrcCapLocked src t") auto
qed


lemma purge_fresh:
  assumes "\<forall>x \<in> set (ct_sessions t). now div second \<le> cr_expireAt (snd x)" "length (ct_sessions t) \<le> chatRelayV1MaxSessionsTotal" "rangeOrder rng"
  shows "\<exists>p. maybePurgeExpiredLocked rng now t = t\<lparr>ct_lastPurge := p\<rparr>"
proof -
  have "fold (\<lambda>(sid, r) t. if now div second > cr_expireAt r then removeSessionLocked sid t else t) xs u = u"
    if "set xs \<subseteq> set (ct_sessions t)" for xs u
    using that assms(1) by (induction xs arbitrary: u) force+
  from this [of "rng (ct_sessions t)"] show ?thesis
    using assms(2,3) evictOverflow.simps [of rng "t\<lparr>ct_lastPurge := now\<rparr>"]
    by (auto simp: maybePurgeExpiredLocked_def Let_def rangeOrder_def intro: exI [of _ "ct_lastPurge t"])
qed

text \<open>Registrations of one source, one after the other.\<close>

fun registerAll :: "reg_range \<Rightarrow> time \<Rightarrow> string \<Rightarrow> string \<Rightarrow> int \<Rightarrow> string list \<Rightarrow> ChatRelayV1Table \<Rightarrow> ChatRelayV1Table option" where
  "registerAll rng now src dst expireAt [] t = Some t"
| "registerAll rng now src dst expireAt (sid # sids) t =
     Option.bind (RegisterSession rng now sid src dst expireAt t) (registerAll rng now src dst expireAt sids)"

definition poisoned :: "time \<Rightarrow> string \<Rightarrow> string \<Rightarrow> nat \<Rightarrow> ChatRelayV1Table \<Rightarrow> bool" where
  "poisoned now sid src n t \<longleftrightarrow> stale sid src t \<and> (\<exists>rest. ct_bySrc t src = sid # rest \<and> length rest = n) \<and>
     (\<forall>x \<in> set (ct_sessions t). now div second \<le> cr_expireAt (snd x)) \<and> length (ct_sessions t) \<le> n + 1"

lemma RegisterSession_room:
  assumes "\<forall>x \<in> set (ct_sessions t). now div second \<le> cr_expireAt (snd x)" "length (ct_sessions t) \<le> chatRelayV1MaxSessionsTotal"
    and "rangeOrder rng" "length (ct_bySrc t src) < 64" "sid \<noteq> []"
  shows "\<exists>p. RegisterSession rng now sid src dst expireAt t =
    Some (insertSession sid \<lparr>cr_srcID = src, cr_dstID = dst, cr_expireAt = expireAt, cr_createdAt = now div second\<rparr> (t\<lparr>ct_lastPurge := p\<rparr>))"
proof -
  obtain p where "maybePurgeExpiredLocked rng now t = t\<lparr>ct_lastPurge := p\<rparr>" using purge_fresh assms(1-3) by blast
  then show ?thesis
    using assms(4,5) by (auto simp: RegisterSession_def enforcePerSrcCapLocked.simps chatRelayV1MaxSessionsPerSrc_def)
qed

lemma poisoned_register:
  assumes "poisoned now sid src n t" "n < 63" "x \<noteq> sid" "x \<noteq> []" "rangeOrder rng" "now div second \<le> expireAt"
  shows "\<exists>t'. RegisterSession rng now x src dst expireAt t = Some t' \<and> poisoned now sid src (Suc n) t'"
proof -
  let ?r = "\<lparr>cr_srcID = src, cr_dstID = dst, cr_expireAt = expireAt, cr_createdAt = now div second\<rparr>"
  obtain rest where rest: "ct_bySrc t src = sid # rest" "length rest = n" using assms(1) by (auto simp: poisoned_def)
  obtain p where "RegisterSession rng now x src dst expireAt t = Some (insertSession x ?r (t\<lparr>ct_lastPurge := p\<rparr>))"
    using RegisterSession_room [of t now rng src x dst expireAt] assms rest
    by (auto simp: poisoned_def chatRelayV1MaxSessionsTotal_def)
  moreover have "poisoned now sid src (Suc n) (insertSession x ?r (t\<lparr>ct_lastPurge := p\<rparr>))"
    using assms(1,3,6) rest alist_update_bounds [of x ?r "ct_sessions t"]
    by (fastforce simp: poisoned_def insertSession_def stale_def update_conv')
  ultimately show ?thesis by blast
qed

lemma poisoned_registerAll:
  "poisoned now sid src n t \<Longrightarrow> n + length xs \<le> 63 \<Longrightarrow> sid \<notin> set xs \<Longrightarrow> [] \<notin> set xs \<Longrightarrow> rangeOrder rng \<Longrightarrow> now div second \<le> expireAt \<Longrightarrow>
   \<exists>t'. registerAll rng now src dst expireAt xs t = Some t' \<and> poisoned now sid src (n + length xs) t'"
proof (induction xs arbitrary: n t)
  case (Cons x xs)
  obtain t1 where t1: "RegisterSession rng now x src dst expireAt t = Some t1" "poisoned now sid src (Suc n) t1"
    using poisoned_register [of now sid src n t x rng expireAt dst] Cons.prems by auto
  show ?case using Cons.IH [of "Suc n" t1] Cons.prems t1 by simp
qed simp

lemma poisoned_hangs:
  assumes "poisoned now sid src 63 t" "rangeOrder rng" "y \<noteq> []"
  shows "RegisterSession rng now y src dst expireAt t = None"
proof -
  obtain p where p: "maybePurgeExpiredLocked rng now t = t\<lparr>ct_lastPurge := p\<rparr>"
    using purge_fresh [of t now rng] assms by (auto simp: poisoned_def chatRelayV1MaxSessionsTotal_def)
  obtain rest where "ct_bySrc t src = sid # rest" "length rest = 63" using assms(1) by (auto simp: poisoned_def)
  moreover have "stale sid src t" using assms(1) by (simp add: poisoned_def)
  ultimately have "enforcePerSrcCapLocked src (t\<lparr>ct_lastPurge := p\<rparr>) = None"
    by (intro enforce_hangs [where rest = rest and sid = sid]) (simp_all add: stale_def)
  then show ?thesis using p assms(3) by (simp add: RegisterSession_def)
qed

text \<open>
  C30. A session ID used by two sources stops the relay: after the source \<open>A\<close> and then another
  source \<open>B\<close> register the same session ID, \<open>A\<close> can register 63 further sessions, and its next
  registration never returns, while it holds the lock of the table.
\<close>

theorem shared_session_id_hangs:
  assumes "A \<noteq> B" "sid \<noteq> []" "length xs = 63" "sid \<notin> set xs" "[] \<notin> set xs" "y \<noteq> []"
    and "now div second \<le> expireAt" "rangeOrder rng"
  shows "\<exists>t1 t2 t3. RegisterSession rng now sid A dst expireAt NewChatRelayV1Table = Some t1 \<and>
    RegisterSession rng now sid B dst expireAt t1 = Some t2 \<and>
    registerAll rng now A dst expireAt xs t2 = Some t3 \<and>
    RegisterSession rng now y A dst expireAt t3 = None"
proof -
  let ?r = "\<lambda>s. \<lparr>cr_srcID = s, cr_dstID = dst, cr_expireAt = expireAt, cr_createdAt = now div second\<rparr>"
  obtain p where t1: "RegisterSession rng now sid A dst expireAt NewChatRelayV1Table
      = Some (insertSession sid (?r A) (NewChatRelayV1Table\<lparr>ct_lastPurge := p\<rparr>))"
    using RegisterSession_room [of NewChatRelayV1Table now rng A sid dst expireAt] assms by (auto simp: NewChatRelayV1Table_def)
  let ?t1 = "insertSession sid (?r A) (NewChatRelayV1Table\<lparr>ct_lastPurge := p\<rparr>)"
  obtain q where t2: "RegisterSession rng now sid B dst expireAt ?t1 = Some (insertSession sid (?r B) (?t1\<lparr>ct_lastPurge := q\<rparr>))"
    using RegisterSession_room [of ?t1 now rng B sid dst expireAt] assms
    by (auto simp: NewChatRelayV1Table_def insertSession_def chatRelayV1MaxSessionsTotal_def)
  have "poisoned now sid A 0 (insertSession sid (?r B) (?t1\<lparr>ct_lastPurge := q\<rparr>))"
    using assms(1,7) by (simp add: poisoned_def stale_def insertSession_def NewChatRelayV1Table_def)
  from poisoned_registerAll [OF this, of xs rng expireAt dst] assms obtain t3 where
    t3: "registerAll rng now A dst expireAt xs (insertSession sid (?r B) (?t1\<lparr>ct_lastPurge := q\<rparr>)) = Some t3" "poisoned now sid A 63 t3"
    by auto
  show ?thesis using t1 t2 t3(1) poisoned_hangs [OF t3(2) assms(8,6)] by blast
qed

theorem shared_session_id_hangs_witness:
  "\<exists>t1 t2 t3. RegisterSession rev second ''s'' ''A'' ''D'' 3600 NewChatRelayV1Table = Some t1 \<and>
    RegisterSession rev second ''s'' ''B'' ''D'' 3600 t1 = Some t2 \<and>
    registerAll rev second ''A'' ''D'' 3600 (map (\<lambda>n. CHR ''x'' # show_nat n) [0..<63]) t2 = Some t3 \<and>
    RegisterSession rev second ''t'' ''A'' ''D'' 3600 t3 = None"
  by (rule shared_session_id_hangs) (auto simp: second_def)


section \<open>Forwarding\<close>

text \<open>
  The libp2p host of the relay: how a peer ID is read and printed, and what comes of a stream to
  the next peer on which one message is written and one is read. \<open>'w\<close> is the state of the
  rest of the network, which answering a message may change.
\<close>

datatype 'a exchange = DialFailed | WriteFailed | NoReply | Reply 'a

record 'w fwd_env =
  fe_Decode :: "string \<Rightarrow> string option"
  fe_String :: "string \<Rightarrow> string"
  fe_connect :: "'w \<Rightarrow> string \<Rightarrow> RelayConnectRequest \<Rightarrow> RelayConnectResponse exchange \<times> 'w"
  fe_handshake :: "'w \<Rightarrow> string \<Rightarrow> RelayHandshake \<Rightarrow> RelayHandshake exchange \<times> 'w"
  fe_data :: "'w \<Rightarrow> string \<Rightarrow> RelayDataFrame \<Rightarrow> unit exchange \<times> 'w"
  fe_heartbeat :: "'w \<Rightarrow> string \<Rightarrow> RelayHeartbeat \<Rightarrow> RelayHeartbeat exchange \<times> 'w"

definition relayV1RecordJSON :: "('a \<Rightarrow> json) \<Rightarrow> 'a \<Rightarrow> Recorder option \<Rightarrow> Recorder option" where
  "relayV1RecordJSON enc v tr = (if tr = None then tr else tr_Add tr 0 (of_nat (length (json_marshal enc v))))"

definition relayV1InboundSrcMatchesRemotePeer :: "'w fwd_env \<Rightarrow> string \<Rightarrow> string \<Rightarrow> bool" where
  "relayV1InboundSrcMatchesRemotePeer E remote claimedSrcID \<longleftrightarrow>
     remote \<noteq> [] \<and> trimSpace claimedSrcID \<noteq> [] \<and> fe_Decode E (trimSpace claimedSrcID) = Some remote"

definition relayV1SigBlockPresent :: "SignatureBlock \<Rightarrow> bool" where
  "relayV1SigBlockPresent sig \<longleftrightarrow> trimSpace (sb_Algorithm sig) \<noteq> [] \<and> trimSpace (sb_Value sig) \<noteq> []"

text \<open>
  The state a forwarder leaves and the message it writes back, if any; \<open>None\<close> when it never
  returns.
\<close>

type_synonym ('w, 'a) forwarded = "('w \<times> ChatRelayV1Table \<times> Recorder option \<times> 'a option) option"

definition ForwardRelayConnect ::
  "'w fwd_env \<Rightarrow> reg_range \<Rightarrow> time \<Rightarrow> time \<Rightarrow> string \<Rightarrow> RelayConnectRequest \<Rightarrow>
   'w \<times> ChatRelayV1Table \<times> Recorder option \<Rightarrow> ('w, RelayConnectResponse) forwarded" where
  "ForwardRelayConnect E rng now1 now2 inbound req s =
     (case s of (w, tbl0, tr) \<Rightarrow>
      case AllowConnectForward now1 (fe_String E inbound) tbl0 of (allowed, tbl) \<Rightarrow>
      if \<not> allowed then Some (w, tbl, tr, None)
      else if \<not> relayV1InboundSrcMatchesRemotePeer E inbound (rq_SrcID req) \<or> \<not> relayV1SigBlockPresent (rq_Signature req)
        then Some (w, tbl, tr, None)
      else case fe_Decode E (trimSpace (rq_DstID req)) of
        None \<Rightarrow> Some (w, tbl, tr, None)
      | Some dstPID \<Rightarrow>
          (case fe_connect E w dstPID req of
             (NoReply, w') \<Rightarrow> Some (w', tbl, relayV1RecordJSON enc_RelayConnectRequest req tr, None)
           | (Reply resp, w') \<Rightarrow>
               Option.bind
                 (if rp_Accepted resp \<and> rp_SessionID resp = rq_SessionID req
                  then RegisterSession rng now2 (rq_SessionID req) (rq_SrcID req) (rq_DstID req) (rp_ExpireAt resp) tbl
                  else Some tbl)
                 (\<lambda>tbl'. Some (w', tbl', relayV1RecordJSON enc_RelayConnectResponse resp
                    (relayV1RecordJSON enc_RelayConnectRequest req tr), Some resp))
           | (_, w') \<Rightarrow> Some (w', tbl, tr, None)))"

definition ForwardRelayHandshake ::
  "'w fwd_env \<Rightarrow> reg_range \<Rightarrow> time \<Rightarrow> string \<Rightarrow> RelayHandshake \<Rightarrow>
   'w \<times> ChatRelayV1Table \<times> Recorder option \<Rightarrow> 'w \<times> ChatRelayV1Table \<times> Recorder option \<times> RelayHandshake option" where
  "ForwardRelayHandshake E rng now inbound req s =
     (case s of (w, tbl0, tr) \<Rightarrow>
      if \<not> relayV1InboundSrcMatchesRemotePeer E inbound (rk_SrcID req) \<or> \<not> relayV1SigBlockPresent (rk_Signature req)
        then (w, tbl0, tr, None)
      else case ValidSession rng (rk_SessionID req) (rk_SrcID req) (rk_DstID req) (now div second) tbl0 of (valid, tbl) \<Rightarrow>
      if \<not> valid then (w, tbl, tr, None)
      else case fe_Decode E (trimSpace (rk_DstID req)) of
        None \<Rightarrow> (w, tbl, tr, None)
      | Some dstPID \<Rightarrow>
          (case fe_handshake E w dstPID req of
             (NoReply, w') \<Rightarrow> (w', tbl, relayV1RecordJSON enc_RelayHandshake req tr, None)
           | (Reply resp, w') \<Rightarrow> (w', tbl, relayV1RecordJSON enc_RelayHandshake resp
               (relayV1RecordJSON enc_RelayHandshake req tr), Some resp)
           | (_, w') \<Rightarrow> (w', tbl, tr, None)))"

definition approxRelayDataSize :: "RelayDataFrame \<Rightarrow> nat" where
  "approxRelayDataSize f = length (json_marshal enc_RelayDataFrame f)"

text \<open>A data frame is written and nothing is read back.\<close>

definition ForwardRelayData ::
  "'w fwd_env \<Rightarrow> reg_range \<Rightarrow> time \<Rightarrow> string \<Rightarrow> RelayDataFrame \<Rightarrow>
   'w \<times> ChatRelayV1Table \<times> Recorder option \<Rightarrow> 'w \<times> ChatRelayV1Table \<times> Recorder option" where
  "ForwardRelayData E rng now inbound frame s =
     (case s of (w, tbl0, tr) \<Rightarrow>
      if \<not> relayV1InboundSrcMatchesRemotePeer E inbound (rd_SrcID frame) then s
      else case ValidSession rng (rd_SessionID frame) (rd_SrcID frame) (rd_DstID frame) (now div second) tbl0 of (valid, tbl) \<Rightarrow>
      if \<not> valid then (w, tbl, tr)
      else if approxRelayDataSize frame > MaxRelayV1FrameBytes then (w, tbl, tr)
      else case fe_Decode E (trimSpace (rd_DstID frame)) of
        None \<Rightarrow> (w, tbl, tr)
      | Some dstPID \<Rightarrow>
          (case fe_data E w dstPID frame of
             (DialFailed, w') \<Rightarrow> (w', tbl, tr)
           | (WriteFailed, w') \<Rightarrow> (w', tbl, tr)
           | (_, w') \<Rightarrow> (w', tbl, relayV1RecordJSON enc_RelayDataFrame frame tr)))"

definition ForwardRelayHeartbeat ::
  "'w fwd_env \<Rightarrow> reg_range \<Rightarrow> time \<Rightarrow> time \<Rightarrow> string \<Rightarrow> RelayHeartbeat \<Rightarrow>
   'w \<times> ChatRelayV1Table \<times> Recorder option \<Rightarrow> 'w \<times> ChatRelayV1Table \<times> Recorder option \<times> RelayHeartbeat option" where
  "ForwardRelayHeartbeat E rng now1 now2 inbound ping s =
     (case s of (w, tbl0, tr) \<Rightarrow>
      case AllowHeartbeatForward now1 (fe_String E inbound) tbl0 of (allowed, tbl1) \<Rightarrow>
      if \<not> allowed then (w, tbl1, tr, None)
      else if \<not> relayV1InboundSrcMatchesRemotePeer E inbound (hb_SrcID ping) \<or> \<not> relayV1SigBlockPresent (hb_Signature ping)
        then (w, tbl1, tr, None)
      else case ValidSession rng (hb_SessionID ping) (hb_SrcID ping) (hb_DstID ping) (now2 div second) tbl1 of (valid, tbl) \<Rightarrow>
      if \<not> valid then (w, tbl, tr, None)
      else case fe_Decode E (trimSpace (hb_DstID ping)) of
        None \<Rightarrow> (w, tbl, tr, None)
      | Some dstPID \<Rightarrow>
          (case fe_heartbeat E w dstPID ping of
             (NoReply, w') \<Rightarrow> (w', tbl, relayV1RecordJSON enc_RelayHeartbeat ping tr, None)
           | (Reply pong, w') \<Rightarrow> (w', tbl, relayV1RecordJSON enc_RelayHeartbeat pong
               (relayV1RecordJSON enc_RelayHeartbeat ping tr), Some pong)
           | (_, w') \<Rightarrow> (w', tbl, tr, None)))"


section \<open>What is forwarded\<close>

definition sessionOpen :: "string \<Rightarrow> string \<Rightarrow> string \<Rightarrow> int \<Rightarrow> ChatRelayV1Table \<Rightarrow> bool" where
  "sessionOpen sid src dst nowUnix t \<longleftrightarrow> (case map_of (ct_sessions t) sid of None \<Rightarrow> False
     | Some r \<Rightarrow> cr_srcID r = src \<and> cr_dstID r = dst \<and> nowUnix \<le> cr_expireAt r)"

lemma ValidSession_sound:
  assumes "ValidSession rng sid src dst n t = (True, t')"
  shows "sessionOpen sid src dst n t"
proof -
  let ?t = "maybePurgeExpiredLocked rng (n * second) t"
  obtain r where r: "map_of (ct_sessions ?t) sid = Some r" "n \<le> cr_expireAt r" "cr_srcID r = src" "cr_dstID r = dst"
    using assms by (auto simp: ValidSession_def Let_def split: option.splits)
  from rt.purge_map_of [OF r(1)] r(2-4) show ?thesis by (simp add: sessionOpen_def)
qed

lemma ValidSession_complete:
  assumes "distinct (map fst (ct_sessions t))" "length (ct_sessions t) \<le> chatRelayV1MaxSessionsTotal" "rangeOrder rng"
    and "sessionOpen sid src dst n t"
  shows "ValidSession rng sid src dst n t = (True, maybePurgeExpiredLocked rng (n * second) t)"
proof -
  obtain r where r: "map_of (ct_sessions t) sid = Some r" "cr_srcID r = src" "cr_dstID r = dst" "n \<le> cr_expireAt r"
    using assms(4) by (auto simp: sessionOpen_def split: option.splits)
  have "map_of (ct_sessions (maybePurgeExpiredLocked rng (n * second) t)) sid = Some r"
    by (rule rt.purge_map_of_unexpired [OF assms(1-3) r(1)]) (use r(4) in \<open>simp add: second_def\<close>)
  then show ?thesis using r by (simp add: ValidSession_def Let_def)
qed

text \<open>
  C31. The relay carries data only inside a session it registered: when forwarding a data frame
  has any effect on the network, then the frame came from the peer it names as its source, the
  table has an open session with that ID, source and destination, the frame is within the size
  limit, and the effect is that of writing this frame unchanged on a stream to the registered
  destination.
\<close>

theorem data_forwarded_in_session:
  assumes "ForwardRelayData E rng now inbound frame (w, t, tr) = (w', t', tr')" "w' \<noteq> w"
  shows "fe_Decode E (trimSpace (rd_SrcID frame)) = Some inbound \<and>
    sessionOpen (rd_SessionID frame) (rd_SrcID frame) (rd_DstID frame) (now div second) t \<and>
    approxRelayDataSize frame \<le> MaxRelayV1FrameBytes \<and>
    (\<exists>dst. fe_Decode E (trimSpace (rd_DstID frame)) = Some dst \<and> w' = snd (fe_data E w dst frame))"
proof -
  have m: "relayV1InboundSrcMatchesRemotePeer E inbound (rd_SrcID frame)"
    using assms by (auto simp: ForwardRelayData_def split: if_splits)
  obtain v u where v: "ValidSession rng (rd_SessionID frame) (rd_SrcID frame) (rd_DstID frame) (now div second) t = (v, u)" by force
  have v': "v" and size: "approxRelayDataSize frame \<le> MaxRelayV1FrameBytes"
    using assms m v by (auto simp: ForwardRelayData_def split: if_splits)
  obtain dst where dst: "fe_Decode E (trimSpace (rd_DstID frame)) = Some dst"
    using assms m v v' size by (auto simp: ForwardRelayData_def split: option.splits)
  have "w' = snd (fe_data E w dst frame)"
    using assms(1) m v v' size dst
    by (cases "fe_data E w dst frame") (auto simp: ForwardRelayData_def split: exchange.splits)
  moreover have "sessionOpen (rd_SessionID frame) (rd_SrcID frame) (rd_DstID frame) (now div second) t"
    using ValidSession_sound v v' by simp
  ultimately show ?thesis using m size dst by (simp add: relayV1InboundSrcMatchesRemotePeer_def)
qed


text \<open>A network that records what is written, and a table with one session, for the witnesses.\<close>

definition demo_fwd :: "(string \<times> RelayDataFrame) list fwd_env" where
  "demo_fwd = \<lparr>fe_Decode = Some, fe_String = (\<lambda>p. p), fe_connect = (\<lambda>w _ _. (DialFailed, w)),
     fe_handshake = (\<lambda>w _ _. (DialFailed, w)), fe_data = (\<lambda>w p f. (Reply (), w @ [(p, f)])),
     fe_heartbeat = (\<lambda>w _ _. (DialFailed, w))\<rparr>"

definition demo_table :: ChatRelayV1Table where
  "demo_table = insertSession ''s1'' \<lparr>cr_srcID = ''A'', cr_dstID = ''B'', cr_expireAt = 3600, cr_createdAt = 1\<rparr>
     (NewChatRelayV1Table\<lparr>ct_lastPurge := second\<rparr>)"

lemma demo_table_registered: "RegisterSession rev second ''s1'' ''A'' ''B'' 3600 NewChatRelayV1Table = Some demo_table"
  by (simp add: RegisterSession_def maybePurgeExpiredLocked_def evictOverflow.simps enforcePerSrcCapLocked.simps
      demo_table_def NewChatRelayV1Table_def chatRelayV1MaxSessionsPerSrc_def second_def)

lemma demo_table_reach: "tableReach demo_table"
  by (rule tableReach.register [OF tableReach.new _ _ _ demo_table_registered]) simp_all

definition demo_data :: RelayDataFrame where
  "demo_data = \<lparr>rd_Version = 1, rd_SessionID = ''s1'', rd_SrcID = ''A'', rd_DstID = ''B'', rd_PacketSeq = 0, rd_Cipher = noCipher\<rparr>"

lemma demo_data_size: "approxRelayDataSize demo_data \<le> MaxRelayV1FrameBytes"
proof -
  have "approxRelayDataSize demo_data \<le> 500" by code_simp
  then show ?thesis by (simp add: MaxRelayV1FrameBytes_def)
qed

theorem data_forwarded_in_session_witness:
  "sessionOpen ''s1'' ''A'' ''B'' 1 demo_table"
proof -
  have "ForwardRelayData demo_fwd rev second ''A'' demo_data ([], demo_table, None) = ([(''B'', demo_data)], demo_table, None)"
    using demo_data_size
    by (simp add: ForwardRelayData_def relayV1InboundSrcMatchesRemotePeer_def demo_fwd_def demo_data_def ValidSession_def
        maybePurgeExpiredLocked_def demo_table_def insertSession_def NewChatRelayV1Table_def second_def chatRelayV1PurgeInterval_def
        chatRelayV1MaxSessionsTotal_def relayV1RecordJSON_def trimSpace_def is_space_def)
  from data_forwarded_in_session [OF this] show ?thesis by (simp add: demo_data_def second_def)
qed

end
