(* ===== verification/Chat_Relay_Dest.thy ===== *)
theory Chat_Relay_Dest
  imports Chat_Relay_Table
begin

text \<open>
  What the destination of a chat relay session keeps, \<open>internal/chat/relay_v1.go\<close>: the table of
  accepted connects with the same caps as the relay's table, the keys of the sessions, and the
  buffer that puts data packets back in order.
\<close>

section \<open>State\<close>

definition relayV1BMaxSessionsPerSrc :: nat where "relayV1BMaxSessionsPerSrc = 64"
definition relayV1BMaxSessionsTotal :: nat where "relayV1BMaxSessionsTotal = 8192"
definition relayV1BPurgeInterval :: duration where "relayV1BPurgeInterval = 2 * second"
definition relayV1BMinConnectGap :: duration where "relayV1BMinConnectGap = 200 * millisecond"
definition relayV1BMinHeartbeatGap :: duration where "relayV1BMinHeartbeatGap = 400 * millisecond"
definition relayV1BMaxDataReorderGap :: u64 where "relayV1BMaxDataReorderGap = 64"
definition relayV1BMaxDataPendingSlots :: nat where "relayV1BMaxDataPendingSlots = 64"

record relayV1BConnReg =
  br_srcID :: string
  br_expireAt :: int

text \<open>A nil map of pending packets behaves as an empty one.\<close>

record relayV1KeyEntry =
  ke_tx :: bytes
  ke_rx :: bytes
  ke_lastDataSeq :: u64
  ke_pending :: "(u64 \<times> bytes) list"

definition relayV1BKey :: "string \<Rightarrow> string \<Rightarrow> string" where
  "relayV1BKey sessionID srcID = sessionID @ CHR 0x00 # srcID"

record relayV1B =
  rb_Connect :: "(string \<times> relayV1BConnReg) list"
  rb_BySrc :: "string \<Rightarrow> string list"
  rb_Keys :: "string \<rightharpoonup> relayV1KeyEntry"
  rb_LastPurge :: time
  rb_LastConnectAt :: "string \<rightharpoonup> time"
  rb_LastHbAt :: "string \<rightharpoonup> time"

definition NewRelayV1B :: relayV1B where
  "NewRelayV1B = \<lparr>rb_Connect = [], rb_BySrc = (\<lambda>_. []), rb_Keys = Map.empty, rb_LastPurge = 0,
     rb_LastConnectAt = Map.empty, rb_LastHbAt = Map.empty\<rparr>"

type_synonym conn_range = "(string \<times> relayV1BConnReg) list \<Rightarrow> (string \<times> relayV1BConnReg) list"

section \<open>The table of connects\<close>

definition relayV1BRemoveStringFromSlice :: "string list \<Rightarrow> string \<Rightarrow> string list" where
  "relayV1BRemoveStringFromSlice s x = filter (\<lambda>y. y \<noteq> x) s"

definition relayV1BRemoveConnectLocked :: "string \<Rightarrow> relayV1B \<Rightarrow> relayV1B" where
  "relayV1BRemoveConnectLocked sessionID s =
     (case map_of (rb_Connect s) sessionID of
        None \<Rightarrow> s
      | Some r \<Rightarrow> s\<lparr>rb_Connect := AList.delete sessionID (rb_Connect s),
                    rb_BySrc := (rb_BySrc s)(br_srcID r := relayV1BRemoveStringFromSlice (rb_BySrc s (br_srcID r)) sessionID),
                    rb_Keys := (rb_Keys s)(relayV1BKey sessionID (br_srcID r) := None)\<rparr>)"

definition relayV1BEvictOldestLocked :: "conn_range \<Rightarrow> relayV1B \<Rightarrow> relayV1B" where
  "relayV1BEvictOldestLocked rng s =
     (let victim = earliest br_expireAt (rng (rb_Connect s))
      in if victim \<noteq> [] then relayV1BRemoveConnectLocked victim s else s)"

text \<open>The loop that brings the table under its total cap, in the purge and before a new entry.\<close>

function relayV1BEvictOverflow :: "conn_range \<Rightarrow> relayV1B \<Rightarrow> relayV1B" where
  "relayV1BEvictOverflow rng s =
     (if relayV1BMaxSessionsTotal < length (rb_Connect s)
      then let s' = relayV1BEvictOldestLocked rng s
           in if length (rb_Connect s) \<le> length (rb_Connect s') then s' else relayV1BEvictOverflow rng s'
      else s)"
  by pat_completeness auto
termination by (relation "measure (\<lambda>(_, s). length (rb_Connect s))") auto

declare relayV1BEvictOverflow.simps [simp del]

definition relayV1BMaybePurgeLocked :: "conn_range \<Rightarrow> time \<Rightarrow> relayV1B \<Rightarrow> relayV1B" where
  "relayV1BMaybePurgeLocked rng now s =
     (let nowUnix = now div second;
          heavy = rb_LastPurge s = 0 \<or> now - rb_LastPurge s \<ge> relayV1BPurgeInterval
                    \<or> length (rb_Connect s) > relayV1BMaxSessionsTotal
      in if \<not> heavy then s
         else relayV1BEvictOverflow rng
                (fold (\<lambda>(sid, r) s. if nowUnix > br_expireAt r then relayV1BRemoveConnectLocked sid s else s)
                   (rng (rb_Connect s)) (s\<lparr>rb_LastPurge := now\<rparr>)))"

definition relayV1BConnectValidLocked :: "time \<Rightarrow> string \<Rightarrow> string \<Rightarrow> relayV1B \<Rightarrow> bool" where
  "relayV1BConnectValidLocked now sessionID srcID s =
     (case map_of (rb_Connect s) sessionID of
        None \<Rightarrow> False
      | Some r \<Rightarrow> br_srcID r = srcID \<and> now div second \<le> br_expireAt r)"

partial_function (option) relayV1BEnforcePerSrcCapLocked :: "string \<Rightarrow> relayV1B \<Rightarrow> relayV1B option" where
  "relayV1BEnforcePerSrcCapLocked srcID s =
     (if length (rb_BySrc s srcID) \<ge> relayV1BMaxSessionsPerSrc
      then (case rb_BySrc s srcID of
              [] \<Rightarrow> Some s
            | sid # _ \<Rightarrow> relayV1BEnforcePerSrcCapLocked srcID (relayV1BRemoveConnectLocked sid s))
      else Some s)"

definition insertConnect :: "string \<Rightarrow> relayV1BConnReg \<Rightarrow> relayV1B \<Rightarrow> relayV1B" where
  "insertConnect sessionID r s = s\<lparr>rb_Connect := AList.update sessionID r (rb_Connect s),
     rb_BySrc := (rb_BySrc s)(br_srcID r := rb_BySrc s (br_srcID r) @ [sessionID])\<rparr>"

definition relayV1BTryRegisterConnect ::
  "conn_range \<Rightarrow> time \<Rightarrow> string \<Rightarrow> string \<Rightarrow> int \<Rightarrow> relayV1B \<Rightarrow> (bool \<times> relayV1B) option" where
  "relayV1BTryRegisterConnect rng now sessionID srcID expireAt s0 =
     (if sessionID = [] \<or> srcID = [] then Some (False, s0)
      else let s = relayV1BMaybePurgeLocked rng now s0 in
      if map_of (rb_Connect s) sessionID \<noteq> None then Some (True, s)
      else if (case rb_LastConnectAt s srcID of None \<Rightarrow> False | Some prev \<Rightarrow> now - prev < relayV1BMinConnectGap)
        then Some (False, s)
      else Option.bind (relayV1BEnforcePerSrcCapLocked srcID (s\<lparr>rb_LastConnectAt := (rb_LastConnectAt s)(srcID \<mapsto> now)\<rparr>)) (\<lambda>s1.
        let s2 = relayV1BEvictOverflow rng s1
        in Some (True, insertConnect sessionID \<lparr>br_srcID = srcID, br_expireAt = expireAt\<rparr> s2)))"

definition relayV1BHasConnect :: "conn_range \<Rightarrow> time \<Rightarrow> time \<Rightarrow> string \<Rightarrow> string \<Rightarrow> relayV1B \<Rightarrow> bool \<times> relayV1B" where
  "relayV1BHasConnect rng now1 now2 sessionID srcID s0 =
     (let s = relayV1BMaybePurgeLocked rng now1 s0 in (relayV1BConnectValidLocked now2 sessionID srcID s, s))"

definition relayV1BConnectExpire :: "conn_range \<Rightarrow> time \<Rightarrow> string \<Rightarrow> relayV1B \<Rightarrow> int \<times> relayV1B" where
  "relayV1BConnectExpire rng now sessionID s0 =
     (let s = relayV1BMaybePurgeLocked rng now s0
      in (case map_of (rb_Connect s) sessionID of None \<Rightarrow> 0 | Some r \<Rightarrow> br_expireAt r, s))"

definition relayV1BHeartbeatAllowedAndHasConnect ::
  "conn_range \<Rightarrow> time \<Rightarrow> string \<Rightarrow> string \<Rightarrow> relayV1B \<Rightarrow> bool \<times> relayV1B" where
  "relayV1BHeartbeatAllowedAndHasConnect rng now sessionID srcID s0 =
     (let s = relayV1BMaybePurgeLocked rng now s0 in
      if (case rb_LastHbAt s srcID of None \<Rightarrow> False | Some prev \<Rightarrow> now - prev < relayV1BMinHeartbeatGap) then (False, s)
      else (relayV1BConnectValidLocked now sessionID srcID s, s\<lparr>rb_LastHbAt := (rb_LastHbAt s)(srcID \<mapsto> now)\<rparr>))"

definition relayV1BStoreKeysLocked :: "string \<Rightarrow> bytes \<Rightarrow> bytes \<Rightarrow> relayV1B \<Rightarrow> relayV1B" where
  "relayV1BStoreKeysLocked mapKey tx rx s =
     s\<lparr>rb_Keys := (rb_Keys s)(mapKey \<mapsto> \<lparr>ke_tx = tx, ke_rx = rx, ke_lastDataSeq = - 1, ke_pending = []\<rparr>)\<rparr>"

definition relayV1BGetKeys :: "conn_range \<Rightarrow> time \<Rightarrow> string \<Rightarrow> string \<Rightarrow> relayV1B \<Rightarrow> (bytes \<times> bytes) option \<times> relayV1B" where
  "relayV1BGetKeys rng now sessionID srcID s0 =
     (let s = relayV1BMaybePurgeLocked rng now s0
      in (map_option (\<lambda>k. (ke_tx k, ke_rx k)) (rb_Keys s (relayV1BKey sessionID srcID)), s))"

section \<open>Packets in order\<close>

text \<open>The loop that delivers what waited for the packet that has just been delivered.\<close>

function flushPending :: "u64 \<Rightarrow> (u64 \<times> bytes) list \<Rightarrow> bytes list \<times> u64 \<times> (u64 \<times> bytes) list" where
  "flushPending lastSeq pending =
     (case map_of pending (lastSeq + 1) of
        None \<Rightarrow> ([], lastSeq, pending)
      | Some pend \<Rightarrow>
          let (out, l, rest) = flushPending (lastSeq + 1) (AList.delete (lastSeq + 1) pending)
          in (pend # out, l, rest))"
  by pat_completeness auto
termination
proof (relation "measure (\<lambda>(_, p). length p)")
  fix lastSeq and pending :: "(u64 \<times> bytes) list" and x2
  assume "map_of pending (lastSeq + 1) = Some x2"
  then show "((lastSeq + 1, AList.delete (lastSeq + 1) pending), lastSeq, pending) \<in> measure (\<lambda>(_, p). length p)"
    by (auto simp: AList.delete_eq dest!: map_of_SomeD intro!: length_filter_less)
qed simp

declare flushPending.simps [simp del]

definition ingestPacket :: "u64 \<Rightarrow> bytes \<Rightarrow> relayV1KeyEntry \<Rightarrow> bytes list \<times> relayV1KeyEntry" where
  "ingestPacket seq plain k =
     (let nextExpected = (if ke_lastDataSeq k \<noteq> - 1 then ke_lastDataSeq k + 1 else 0) in
      if ke_lastDataSeq k \<noteq> - 1 \<and> seq \<le> ke_lastDataSeq k then ([], k)
      else if map_of (ke_pending k) seq \<noteq> None then ([], k)
      else if seq = nextExpected then
        (let (out, l, rest) = flushPending seq (ke_pending k)
         in (plain # out, k\<lparr>ke_lastDataSeq := l, ke_pending := rest\<rparr>))
      else if seq < nextExpected then ([], k)
      else if seq - nextExpected > relayV1BMaxDataReorderGap then ([], k)
      else if length (ke_pending k) \<ge> relayV1BMaxDataPendingSlots then ([], k)
      else ([], k\<lparr>ke_pending := AList.update seq plain (ke_pending k)\<rparr>))"

definition relayV1BIngestRelayDataPacket ::
  "conn_range \<Rightarrow> time \<Rightarrow> string \<Rightarrow> string \<Rightarrow> u64 \<Rightarrow> bytes \<Rightarrow> relayV1B \<Rightarrow> bytes list \<times> relayV1B" where
  "relayV1BIngestRelayDataPacket rng now sessionID srcID seq plain s0 =
     (let s = relayV1BMaybePurgeLocked rng now s0; key = relayV1BKey sessionID srcID
      in case rb_Keys s key of
           None \<Rightarrow> ([], s)
         | Some k \<Rightarrow> (case ingestPacket seq plain k of (out, k') \<Rightarrow> (out, s\<lparr>rb_Keys := (rb_Keys s)(key \<mapsto> k')\<rparr>)))"

interpretation bt: capped_table rb_Connect rb_BySrc br_srcID br_expireAt relayV1BRemoveConnectLocked
  relayV1BEvictOldestLocked relayV1BEvictOverflow relayV1BMaxSessionsTotal
  "\<lambda>now s. s\<lparr>rb_LastPurge := now\<rparr>" relayV1BMaybePurgeLocked relayV1BEnforcePerSrcCapLocked insertConnect relayV1BMaxSessionsPerSrc
proof unfold_locales
  show "rb_Connect (relayV1BRemoveConnectLocked sid t) = AList.delete sid (rb_Connect t)" for sid t
    by (simp add: relayV1BRemoveConnectLocked_def delete_idem map_of_eq_None_iff split: option.split)
  show "rb_BySrc (relayV1BRemoveConnectLocked sid t) = (case map_of (rb_Connect t) sid of None \<Rightarrow> rb_BySrc t
      | Some r \<Rightarrow> (rb_BySrc t)(br_srcID r := filter (\<lambda>y. y \<noteq> sid) (rb_BySrc t (br_srcID r))))" for sid t
    by (simp add: relayV1BRemoveConnectLocked_def relayV1BRemoveStringFromSlice_def split: option.split)
  show "relayV1BEvictOldestLocked rng t = (let v = earliest br_expireAt (rng (rb_Connect t)) in
      if v \<noteq> [] then relayV1BRemoveConnectLocked v t else t)" for rng t
    by (simp add: relayV1BEvictOldestLocked_def)
  show "relayV1BMaybePurgeLocked rng now t = t \<and> length (rb_Connect t) \<le> relayV1BMaxSessionsTotal \<or>
    relayV1BMaybePurgeLocked rng now t = relayV1BEvictOverflow rng
      (fold (\<lambda>(sid, r) t. if now div second > br_expireAt r then relayV1BRemoveConnectLocked sid t else t)
        (rng (rb_Connect t)) (t\<lparr>rb_LastPurge := now\<rparr>))" for rng now t
    by (simp add: relayV1BMaybePurgeLocked_def Let_def)
qed (rule relayV1BEvictOverflow.simps, simp, simp, rule relayV1BEnforcePerSrcCapLocked.simps,
     simp_all add: insertConnect_def relayV1BMaxSessionsPerSrc_def)

section \<open>The caps hold, and keys belong to connects\<close>

text \<open>Every key belongs to a connect in the table, under the source that connected.\<close>

definition keysOwned :: "relayV1B \<Rightarrow> bool" where
  "keysOwned s \<longleftrightarrow> (\<forall>key k. rb_Keys s key = Some k \<longrightarrow> (\<exists>sid r. map_of (rb_Connect s) sid = Some r \<and> key = relayV1BKey sid (br_srcID r)))"

definition destInv :: "relayV1B \<Rightarrow> bool" where
  "destInv s \<longleftrightarrow> capInv br_srcID br_expireAt relayV1BMaxSessionsPerSrc relayV1BMaxSessionsTotal (rb_Connect s) (rb_BySrc s) \<and> keysOwned s"

lemma keysOwned_remove:
  assumes "keysOwned s"
  shows "keysOwned (relayV1BRemoveConnectLocked sid s)"
  unfolding keysOwned_def
proof (intro allI impI)
  fix key x assume k: "rb_Keys (relayV1BRemoveConnectLocked sid s) key = Some x"
  then obtain sid' r' where o: "map_of (rb_Connect s) sid' = Some r'" "key = relayV1BKey sid' (br_srcID r')"
    using assms by (auto simp: keysOwned_def relayV1BRemoveConnectLocked_def split: option.splits if_splits)
  moreover have "sid' \<noteq> sid"
    using k o by (auto simp: relayV1BRemoveConnectLocked_def split: if_splits)
  ultimately show "\<exists>sid' r. map_of (rb_Connect (relayV1BRemoveConnectLocked sid s)) sid' = Some r \<and> key = relayV1BKey sid' (br_srcID r)"
    by (auto simp: bt.sess_remove delete_conv')
qed

lemma destInv_remove: "destInv s \<Longrightarrow> destInv (relayV1BRemoveConnectLocked sid s)"
  by (simp add: destInv_def bt.remove_capInv keysOwned_remove)

lemma destInv_touch [simp]:
  "destInv (s\<lparr>rb_LastPurge := now\<rparr>) = destInv s" "destInv (s\<lparr>rb_LastConnectAt := m\<rparr>) = destInv s" "destInv (s\<lparr>rb_LastHbAt := m\<rparr>) = destInv s"
  by (simp_all add: destInv_def keysOwned_def)

lemma destInv_purge: "destInv s \<Longrightarrow> destInv (relayV1BMaybePurgeLocked rng now s)"
  by (rule bt.purge_keeps_all [where P = destInv]) (auto simp: destInv_remove)

lemma destInv_evict: "destInv s \<Longrightarrow> destInv (relayV1BEvictOverflow rng s)"
  by (rule bt.evicts_keeps [where P = destInv]) (auto simp: destInv_remove)

lemma destInv_insert:
  assumes "destInv s" "map_of (rb_Connect s) sid = None" "sid \<noteq> []" "br_expireAt r < 2 ^ 62 - 1"
    and "length (rb_Connect s) \<le> relayV1BMaxSessionsTotal" "length (rb_BySrc s (br_srcID r)) < relayV1BMaxSessionsPerSrc"
  shows "destInv (insertConnect sid r s)"
proof -
  have "keysOwned (insertConnect sid r s)"
    unfolding keysOwned_def
  proof (intro allI impI)
    fix key x assume "rb_Keys (insertConnect sid r s) key = Some x"
    then obtain sid' r' where "map_of (rb_Connect s) sid' = Some r'" "key = relayV1BKey sid' (br_srcID r')"
      using assms(1) by (fastforce simp: destInv_def keysOwned_def insertConnect_def)
    then show "\<exists>sid' r'. map_of (rb_Connect (insertConnect sid r s)) sid' = Some r' \<and> key = relayV1BKey sid' (br_srcID r')"
      using assms(2) by (intro exI [of _ sid'] exI [of _ r']) (auto simp: insertConnect_def update_conv')
  qed
  then show ?thesis using assms bt.add_capInv [of s sid r] by (simp add: destInv_def freeFor_def)
qed

lemma TryRegister_step:
  assumes "rangeOrder rng" "destInv s" "expireAt < 2 ^ 62 - 1"
  shows "\<exists>ok s'. relayV1BTryRegisterConnect rng now sid src expireAt s = Some (ok, s') \<and> destInv s'"
proof -
  define p where "p = relayV1BMaybePurgeLocked rng now s"
  define q where "q = p\<lparr>rb_LastConnectAt := (rb_LastConnectAt p)(src \<mapsto> now)\<rparr>"
  have p: "destInv p" using assms(2) by (simp add: p_def destInv_purge)
  have "length (rb_Connect p) \<le> relayV1BMaxSessionsTotal"
    using bt.purge_bound [OF assms(1)] assms(2) by (auto simp: p_def destInv_def)
  then have q: "destInv q" "length (rb_Connect q) \<le> relayV1BMaxSessionsTotal" using p by (simp_all add: q_def)
  define P where "P u \<longleftrightarrow> destInv u \<and> length (rb_Connect u) \<le> relayV1BMaxSessionsTotal \<and>
    (map_of (rb_Connect p) sid = None \<longrightarrow> map_of (rb_Connect u) sid = None)" for u
  have "indexed br_srcID (rb_Connect q) (rb_BySrc q)" using q by (simp add: destInv_def capInv_def)
  moreover have "P u \<Longrightarrow> P (relayV1BRemoveConnectLocked v u)" for u v
    using bt.remove_le(2) [of v u] by (auto simp: P_def destInv_remove bt.sess_remove delete_conv')
  moreover have "P q" using q by (simp add: P_def q_def)
  ultimately obtain s1 where s1: "relayV1BEnforcePerSrcCapLocked src q = Some s1" "P s1" "length (rb_BySrc s1 src) < relayV1BMaxSessionsPerSrc"
    using bt.enforce_makes_room [of q P src] by blast
  have e: "relayV1BEvictOverflow rng s1 = s1" using s1(2) by (simp add: P_def relayV1BEvictOverflow.simps)
  have "destInv (insertConnect sid \<lparr>br_srcID = src, br_expireAt = expireAt\<rparr> s1)" if "sid \<noteq> []" "map_of (rb_Connect p) sid = None"
    using that s1 assms(3) by (intro destInv_insert) (auto simp: P_def)
  then show ?thesis
    using assms(2) p s1(1) e by (auto simp: relayV1BTryRegisterConnect_def Let_def p_def [symmetric] q_def [symmetric])
qed


text \<open>What the destination can do to its tables. Keys are stored for a valid connect only.\<close>

inductive destReach :: "relayV1B \<Rightarrow> bool" where
  new: "destReach NewRelayV1B"
| register: "destReach s \<Longrightarrow> rangeOrder rng \<Longrightarrow> expireAt < 2 ^ 62 - 1 \<Longrightarrow>
    relayV1BTryRegisterConnect rng now sid src expireAt s = Some (ok, s') \<Longrightarrow> destReach s'"
| hasConnect: "destReach s \<Longrightarrow> rangeOrder rng \<Longrightarrow> destReach (snd (relayV1BHasConnect rng now1 now2 sid src s))"
| expire: "destReach s \<Longrightarrow> rangeOrder rng \<Longrightarrow> destReach (snd (relayV1BConnectExpire rng now sid s))"
| heartbeat: "destReach s \<Longrightarrow> rangeOrder rng \<Longrightarrow> destReach (snd (relayV1BHeartbeatAllowedAndHasConnect rng now sid src s))"
| keys: "destReach s \<Longrightarrow> relayV1BConnectValidLocked now sid src s \<Longrightarrow> destReach (relayV1BStoreKeysLocked (relayV1BKey sid src) tx rx s)"
| getKeys: "destReach s \<Longrightarrow> rangeOrder rng \<Longrightarrow> destReach (snd (relayV1BGetKeys rng now sid src s))"
| ingest: "destReach s \<Longrightarrow> rangeOrder rng \<Longrightarrow> destReach (snd (relayV1BIngestRelayDataPacket rng now sid src seq plain s))"

lemma destInv_keys:
  "destInv s \<Longrightarrow> (\<exists>r. map_of (rb_Connect s) sid = Some r \<and> br_srcID r = src) \<or> rb_Keys s (relayV1BKey sid src) \<noteq> None \<Longrightarrow>
   destInv (s\<lparr>rb_Keys := (rb_Keys s)(relayV1BKey sid src \<mapsto> k)\<rparr>)"
  by (fastforce simp: destInv_def keysOwned_def)

lemma destReach_inv: "destReach s \<Longrightarrow> destInv s"
proof (induction rule: destReach.induct)
  case new
  show ?case by (simp add: NewRelayV1B_def destInv_def capInv_def indexed_def keysOwned_def)
next
  case (register s rng expireAt now sid src ok s')
  from TryRegister_step [OF register(2,5,3), of now sid src] register(4) show ?case by simp
next
  case (keys s now sid src tx rx)
  then show ?case
    by (auto simp: relayV1BStoreKeysLocked_def relayV1BConnectValidLocked_def destInv_keys split: option.splits)
next
  case (ingest s rng now sid src seq plain)
  let ?s = "relayV1BMaybePurgeLocked rng now s"
  have "destInv ?s" using ingest by (simp add: destInv_purge)
  then show ?case
    by (auto simp: relayV1BIngestRelayDataPacket_def Let_def destInv_keys split: option.splits prod.splits)
qed (simp_all add: relayV1BHasConnect_def relayV1BConnectExpire_def relayV1BHeartbeatAllowedAndHasConnect_def
    relayV1BGetKeys_def Let_def destInv_purge)

text \<open>
  The destination's tables: whatever connects, handshakes, heartbeats and packets arrive,
  no source has more than 64 connects, there are at most 8193 in all, keys exist only for a
  connect in the table and its source, and taking a connect always returns; unlike at the relay,
  a session ID that is used twice does no harm.
\<close>

theorem destination_caps_hold:
  assumes "destReach s"
  shows "length (filter (\<lambda>(_, r). br_srcID r = src) (rb_Connect s)) \<le> 64 \<and> length (rb_Connect s) \<le> 8193 \<and>
    keysOwned s \<and> (rangeOrder rng \<and> expireAt < 2 ^ 62 - 1 \<longrightarrow> relayV1BTryRegisterConnect rng now sid src expireAt s \<noteq> None)"
proof -
  have i: "destInv s" by (rule destReach_inv [OF assms])
  then have "length (filter (\<lambda>(_, r). br_srcID r = src) (rb_Connect s)) \<le> 64"
    using bt.cap_per_source [of s src] by (simp add: destInv_def relayV1BMaxSessionsPerSrc_def)
  then show ?thesis
    using i TryRegister_step [of rng s expireAt now sid src]
    by (auto simp: destInv_def capInv_def relayV1BMaxSessionsTotal_def)
qed

theorem destination_caps_hold_witness:
  "keysOwned NewRelayV1B \<and> relayV1BTryRegisterConnect rev second ''s'' ''A'' 3600 NewRelayV1B \<noteq> None"
  using destination_caps_hold [OF destReach.new, of "''A''" rev 3600 second "''s''"] by simp

section \<open>Delivery in order\<close>

text \<open>
  \<open>f i\<close> is the payload of packet \<open>i\<close>. A buffer that has delivered \<open>n\<close> packets holds only packets
  that come later, below the bound \<open>M\<close> on the packet numbers.
\<close>

definition holds :: "(nat \<Rightarrow> bytes) \<Rightarrow> nat \<Rightarrow> nat \<Rightarrow> (u64 \<times> bytes) list \<Rightarrow> bool" where
  "holds f M n pend \<longleftrightarrow> distinct (map fst pend) \<and> (\<forall>(w, p) \<in> set pend. n \<le> unat w \<and> unat w < M \<and> p = f (unat w))"

text \<open>The packets that were delivered or wait.\<close>

definition heldBy :: "nat \<Rightarrow> (u64 \<times> bytes) list \<Rightarrow> nat set" where
  "heldBy n pend = {..<n} \<union> unat ` fst ` set pend"

lemma holds_delete:
  assumes "holds f M n pend" "unat w = n"
  shows "holds f M (Suc n) (AList.delete w pend)"
proof -
  have "Suc n \<le> unat a" if "n \<le> unat a" "a \<noteq> w" for a :: u64
    using that assms(2) by (metis Suc_leI le_neq_implies_less word_unat_eq_iff)
  then show ?thesis using assms(1) by (auto simp: holds_def distinct_delete AList.delete_eq distinct_map_filter)
qed

lemma heldBy_delete:
  assumes "map_of pend w = Some p" "unat w = n"
  shows "heldBy (Suc n) (AList.delete w pend) = heldBy n pend"
proof -
  have "(w, p) \<in> set pend" using assms(1) by (rule map_of_SomeD)
  then have "unat ` fst ` set pend = insert n (unat ` fst ` set (AList.delete w pend))"
    using assms(2) by (force simp: AList.delete_eq)
  then show ?thesis by (auto simp: heldBy_def lessThan_Suc)
qed

lemma flush_spec:
  "holds f M n pend \<Longrightarrow> lastSeq = of_nat n - 1 \<Longrightarrow> n \<le> M \<Longrightarrow> M < 2 ^ 64 \<Longrightarrow>
   \<exists>n' pd. flushPending lastSeq pend = (map f [n..<n'], of_nat n' - 1, pd) \<and> n \<le> n' \<and> n' \<le> M \<and>
     holds f M (Suc n') pd \<and> heldBy n' pd = heldBy n pend"
proof (induction lastSeq pend arbitrary: n rule: flushPending.induct)
  case (1 lastSeq pend)
  have w: "lastSeq + 1 = of_nat n" "unat (of_nat n :: u64) = n" using 1(3-5) by (simp_all add: unat_of_nat)
  show ?case
  proof (cases "map_of pend (of_nat n)")
    case None
    then have "AList.delete (of_nat n) pend = pend" by (simp add: delete_idem map_of_eq_None_iff)
    then have "holds f M (Suc n) pend" using holds_delete [OF 1(2) w(2)] by simp
    then show ?thesis
      using None 1(3,4) w(1) by (intro exI [of _ n] exI [of _ pend]) (simp add: flushPending.simps)
  next
    case (Some p)
    then have "p = f n" "n < M" using 1(2) w(2) by (fastforce simp: holds_def dest!: map_of_SomeD)+
    have "holds f M (Suc n) (AList.delete (of_nat n) pend)" by (rule holds_delete [OF 1(2) w(2)])
    then obtain n' pd where r: "flushPending (of_nat n) (AList.delete (of_nat n) pend) = (map f [Suc n..<n'], of_nat n' - 1, pd)"
        "Suc n \<le> n'" "n' \<le> M" "holds f M (Suc n') pd" "heldBy n' pd = heldBy (Suc n) (AList.delete (of_nat n) pend)"
      using 1(1) [of p "Suc n"] Some w(1) \<open>n < M\<close> 1(5) by auto
    have "flushPending lastSeq pend = (map f [n..<n'], of_nat n' - 1, pd)"
      using Some r(1,2) w(1) \<open>p = f n\<close> by (subst flushPending.simps) (simp add: upt_conv_Cons)
    then show ?thesis using r heldBy_delete [OF Some w(2)] by (intro exI [of _ n'] exI [of _ pd]) simp
  qed
qed

text \<open>The state of the buffer after \<open>n\<close> packets were delivered.\<close>

definition inOrder :: "(nat \<Rightarrow> bytes) \<Rightarrow> nat \<Rightarrow> nat \<Rightarrow> relayV1KeyEntry \<Rightarrow> bool" where
  "inOrder f M n k \<longleftrightarrow> ke_lastDataSeq k = of_nat n - 1 \<and> n \<le> M \<and> holds f M (Suc n) (ke_pending k)"

lemma holds_update:
  assumes "holds f M n pend" "map_of pend w = None" "n \<le> unat w" "unat w < M"
  shows "holds f M n (AList.update w (f (unat w)) pend)"
  using assms alist_update_bounds(2) [of w "f (unat w)" pend] by (fastforce simp: holds_def distinct_update)

lemma heldBy_update: "map_of pend w = None \<Longrightarrow> heldBy n (AList.update w p pend) = insert (unat w) (heldBy n pend)"
proof -
  assume "map_of pend w = None"
  then have "AList.update w p pend = pend @ [(w, p)]" by (induction pend) (auto split: if_splits)
  then show ?thesis by (simp add: heldBy_def)
qed

lemma word_of_nat_facts:
  fixes i n M :: nat
  assumes "i < M" "n \<le> M" "M < 2 ^ 64"
  shows "unat (of_nat i :: u64) = i" "unat (of_nat n :: u64) = n" "((of_nat n :: u64) - 1 = - 1) = (n = 0)"
    "n \<noteq> 0 \<Longrightarrow> ((of_nat i :: u64) \<le> of_nat n - 1) = (i < n)" "((of_nat i :: u64) = of_nat n) = (i = n)"
    "((of_nat i :: u64) < of_nat n) = (i < n)" "n \<le> i \<Longrightarrow> unat ((of_nat i :: u64) - of_nat n) = i - n"
proof -
  show u: "unat (of_nat i :: u64) = i" "unat (of_nat n :: u64) = n" using assms by (simp_all add: unat_of_nat)
  show "((of_nat n :: u64) - 1 = - 1) = (n = 0)"
  proof -
    have "((of_nat n :: u64) - 1 = - 1) = ((of_nat n :: u64) = 0)" by simp
    also have "\<dots> = (n = 0)" by (simp only: word_unat_eq_iff u(2) unat_0)
    finally show ?thesis .
  qed
  show "((of_nat i :: u64) \<le> of_nat n - 1) = (i < n)" if "n \<noteq> 0"
  proof -
    have "(of_nat n :: u64) - 1 = of_nat (n - 1)" using that by simp
    moreover have "unat (of_nat (n - 1) :: u64) = n - 1" using assms by (simp add: unat_of_nat)
    ultimately show ?thesis using u that by (simp add: word_le_nat_alt) linarith
  qed
  show "((of_nat i :: u64) = of_nat n) = (i = n)" using u by (metis)
  show "((of_nat i :: u64) < of_nat n) = (i < n)" using u by (simp add: word_less_nat_alt)
  show "unat ((of_nat i :: u64) - of_nat n) = i - n" if "n \<le> i" using that u by (simp add: unat_sub_if')
qed

lemma ingest_spec:
  assumes "inOrder f M n k" "i < M" "M < 2 ^ 64"
  shows "\<exists>n' k'. ingestPacket (of_nat i) (f i) k = (map f [n..<n'], k') \<and> n \<le> n' \<and> inOrder f M n' k' \<and>
    (heldBy n' (ke_pending k') = insert i (heldBy n (ke_pending k)) \<or>
     heldBy n' (ke_pending k') = heldBy n (ke_pending k) \<and> n < i \<and> i \<notin> heldBy n (ke_pending k) \<and>
       (n + 64 < i \<or> 64 \<le> length (ke_pending k)))"
proof -
  note o = assms(1) [unfolded inOrder_def]
  note w = word_of_nat_facts [OF assms(2) conjunct1 [OF conjunct2 [OF o]] assms(3)]
  have l: "ke_lastDataSeq k = of_nat n - 1" using o by simp
  have next_seq: "(if ke_lastDataSeq k \<noteq> - 1 then ke_lastDataSeq k + 1 else 0) = of_nat n"
    using w(3) by (simp add: l)
  consider (old) "i < n" | (dup) "n \<le> i" "map_of (ke_pending k) (of_nat i) \<noteq> None" | (new) "n = i" "map_of (ke_pending k) (of_nat i) = None"
    | (ahead) "n < i" "map_of (ke_pending k) (of_nat i) = None" by fastforce
  then show ?thesis
  proof cases
    case old
    then have "ingestPacket (of_nat i) (f i) k = ([], k)"
      using w(3,4) by (simp add: ingestPacket_def Let_def l)
    then show ?thesis using assms(1) old by (intro exI [of _ n] exI [of _ k]) (auto simp: heldBy_def)
  next
    case dup
    then have "ingestPacket (of_nat i) (f i) k = ([], k)" by (simp add: ingestPacket_def Let_def)
    moreover have "i \<in> heldBy n (ke_pending k)"
      using dup w(1) by (force simp: heldBy_def dest: map_of_SomeD)
    ultimately show ?thesis using assms(1) by (intro exI [of _ n] exI [of _ k]) auto
  next
    case new
    obtain n' pd where r: "flushPending (of_nat n) (ke_pending k) = (map f [Suc n..<n'], of_nat n' - 1, pd)" "Suc n \<le> n'"
        "n' \<le> M" "holds f M (Suc n') pd" "heldBy n' pd = heldBy (Suc n) (ke_pending k)"
      using flush_spec [of f M "Suc n" "ke_pending k" "of_nat n"] o assms(2,3) new(1) by auto
    have "ingestPacket (of_nat i) (f i) k = (map f [n..<n'], k\<lparr>ke_lastDataSeq := of_nat n' - 1, ke_pending := pd\<rparr>)"
      using new r(1,2) w(3,4) next_seq by (cases "n = 0") (simp_all add: ingestPacket_def Let_def upt_conv_Cons l)
    then show ?thesis using r new
      by (intro exI [of _ n'] exI [of _ "k\<lparr>ke_lastDataSeq := of_nat n' - 1, ke_pending := pd\<rparr>"])
         (auto simp: inOrder_def heldBy_def lessThan_Suc)
  next
    case ahead
    have gap: "(of_nat i - of_nat n > relayV1BMaxDataReorderGap) = (n + 64 < i)"
      using w(7) ahead(1) by (simp add: relayV1BMaxDataReorderGap_def word_less_nat_alt) linarith
    have out: "ingestPacket (of_nat i) (f i) k =
      ([], if n + 64 < i \<or> 64 \<le> length (ke_pending k) then k else k\<lparr>ke_pending := AList.update (of_nat i) (f i) (ke_pending k)\<rparr>)"
      using ahead w(3-6) gap next_seq by (cases "n = 0") (simp_all add: ingestPacket_def Let_def relayV1BMaxDataPendingSlots_def l)
    have new: "i \<notin> heldBy n (ke_pending k)"
      using ahead w(1) by (force simp: heldBy_def map_of_eq_None_iff)
    have "holds f M (Suc n) (AList.update (of_nat i) (f i) (ke_pending k))"
      using holds_update [of f M "Suc n" "ke_pending k" "of_nat i"] o ahead w(1) assms(2) by simp
    then show ?thesis
      using assms(1) o out new ahead w(1)
      by (intro exI [of _ n] exI [of _ "snd (ingestPacket (of_nat i) (f i) k)"]) (auto simp: inOrder_def heldBy_update)
  qed
qed


text \<open>Packets that arrive one after the other.\<close>

fun ingestAll :: "(u64 \<times> bytes) list \<Rightarrow> relayV1KeyEntry \<Rightarrow> bytes list \<times> relayV1KeyEntry" where
  "ingestAll [] k = ([], k)"
| "ingestAll ((seq, plain) # xs) k =
     (let (out, k1) = ingestPacket seq plain k; (outs, k2) = ingestAll xs k1 in (out @ outs, k2))"

definition arrivals :: "(nat \<Rightarrow> bytes) \<Rightarrow> nat list \<Rightarrow> (u64 \<times> bytes) list" where
  "arrivals f is = map (\<lambda>i. (of_nat i, f i)) is"

lemma ingestAll_prefix:
  "inOrder f M n k \<Longrightarrow> \<forall>i \<in> set is. i < M \<Longrightarrow> M < 2 ^ 64 \<Longrightarrow>
   \<exists>n' k'. ingestAll (arrivals f is) k = (map f [n..<n'], k') \<and> n \<le> n' \<and> inOrder f M n' k'"
proof (induction "is" arbitrary: n k)
  case (Cons i "is")
  obtain n1 k1 where k1: "ingestPacket (of_nat i) (f i) k = (map f [n..<n1], k1)" "n \<le> n1" "inOrder f M n1 k1"
    using ingest_spec [OF Cons(2), of i] Cons(3,4) by auto
  obtain n2 k2 where k2: "ingestAll (arrivals f is) k1 = (map f [n1..<n2], k2)" "n1 \<le> n2" "inOrder f M n2 k2"
    using Cons(1) [OF k1(3)] Cons(3,4) by auto
  have "map f [n..<n1] @ map f [n1..<n2] = map f [n..<n2]"
    using k1(2) k2(2) by (metis le_add_diff_inverse map_append upt_add_eq_append)
  then show ?case using k1 k2 by (intro exI [of _ n2] exI [of _ k2]) (simp add: arrivals_def)
qed (auto simp: arrivals_def intro: exI [of _ n])

lemma pending_card:
  assumes "inOrder f (b + 65) n k" "b \<le> n" "n < i" "i < b + 65" "i \<notin> heldBy n (ke_pending k)" "b + 65 < 2 ^ 64"
  shows "length (ke_pending k) < 64"
proof -
  have d: "distinct (map fst (ke_pending k))" and h: "\<forall>(w, p) \<in> set (ke_pending k). n < unat w \<and> unat w < b + 65"
    using assms(1) by (auto simp: inOrder_def holds_def)
  let ?K = "unat ` fst ` set (ke_pending k)"
  have "inj_on unat (fst ` set (ke_pending k))" by (auto intro: inj_onI simp: word_unat_eq_iff)
  then have "card ?K = card (fst ` set (ke_pending k))" by (rule card_image)
  also have "\<dots> = length (ke_pending k)" using d by (metis distinct_card length_map list.set_map)
  finally have len: "length (ke_pending k) = card ?K" by simp
  have "?K \<subseteq> {n<..<b + 65} - {i}" using h assms(5) by (auto simp: heldBy_def)
  then have "card ?K \<le> card ({n<..<b + 65} - {i})" by (rule card_mono [rotated]) simp
  also have "\<dots> = b + 65 - Suc n - 1" using assms(3,4) by simp
  finally show ?thesis using len assms(2) by simp
qed

lemma ingestAll_held:
  "inOrder f (b + 65) n k \<Longrightarrow> b \<le> n \<Longrightarrow> \<forall>i \<in> set is. i < b + 65 \<Longrightarrow> b + 65 < 2 ^ 64 \<Longrightarrow>
   \<exists>n' k'. ingestAll (arrivals f is) k = (map f [n..<n'], k') \<and> n \<le> n' \<and> inOrder f (b + 65) n' k' \<and>
     heldBy n' (ke_pending k') = set is \<union> heldBy n (ke_pending k)"
proof (induction "is" arbitrary: n k)
  case (Cons i "is")
  obtain n1 k1 where k1: "ingestPacket (of_nat i) (f i) k = (map f [n..<n1], k1)" "n \<le> n1" "inOrder f (b + 65) n1 k1"
     "heldBy n1 (ke_pending k1) = insert i (heldBy n (ke_pending k))"
    using ingest_spec [OF Cons(2), of i] pending_card [OF Cons(2,3), of i] Cons(3-5) by fastforce
  obtain n2 k2 where k2: "ingestAll (arrivals f is) k1 = (map f [n1..<n2], k2)" "n1 \<le> n2" "inOrder f (b + 65) n2 k2"
     "heldBy n2 (ke_pending k2) = set is \<union> heldBy n1 (ke_pending k1)"
    using Cons(1) [OF k1(3)] Cons(3-5) k1(2) by auto
  have "map f [n..<n1] @ map f [n1..<n2] = map f [n..<n2]"
    using k1(2) k2(2) by (metis le_add_diff_inverse map_append upt_add_eq_append)
  then show ?case using k1 k2 by (intro exI [of _ n2] exI [of _ k2]) (auto simp: arrivals_def)
qed (auto simp: arrivals_def intro: exI [of _ n])

text \<open>
  C20. Data packets reach the chat service in order and exactly once, however the streams that
  carry them overtake each other and whatever is lost or repeated: what has been handed over is
  always the payloads from packet \<open>b\<close> on without a gap, where \<open>b\<close> packets were handed over
  before; and when the \<open>m\<close> next packets arrive in any order, with any repetitions, and \<open>m\<close> is at
  most 65, all of them are handed over.
\<close>

theorem packets_delivered_in_order:
  assumes "ke_lastDataSeq k = of_nat b - 1" "ke_pending k = []" "\<forall>i \<in> set is. i < b + M" "b + M < 2 ^ 64"
  shows "(\<exists>n. fst (ingestAll (arrivals f is) k) = map f [b..<n]) \<and>
    (m \<le> 65 \<and> b + 65 < 2 ^ 64 \<and> set is = {b..<b + m} \<longrightarrow> fst (ingestAll (arrivals f is) k) = map f [b..<b + m])"
proof -
  have o: "inOrder f (b + N) b k" for N using assms(1,2) by (simp add: inOrder_def holds_def)
  have "fst (ingestAll (arrivals f is) k) = map f [b..<b + m]"
    if m: "m \<le> 65" "b + 65 < 2 ^ 64" "set is = {b..<b + m}"
  proof -
    obtain n' k' where r: "ingestAll (arrivals f is) k = (map f [b..<n'], k')" "b \<le> n'" "inOrder f (b + 65) n' k'"
        "heldBy n' (ke_pending k') = set is \<union> heldBy b (ke_pending k)"
      using ingestAll_held [OF o order_refl, of "is"] m by auto
    have h: "heldBy n' (ke_pending k') = {..<b + m}" using r(4) assms(2) m(3) by (auto simp: heldBy_def)
    have "n' \<notin> heldBy n' (ke_pending k')" using r(3) by (auto simp: heldBy_def inOrder_def holds_def)
    then have "b + m \<le> n'" using h by simp
    moreover have "{..<n'} \<subseteq> {..<b + m}" using h by (auto simp: heldBy_def)
    then have "n' \<le> b + m" by simp
    ultimately show ?thesis using r(1) by simp
  qed
  moreover have "\<exists>n. fst (ingestAll (arrivals f is) k) = map f [b..<n]"
    using ingestAll_prefix [OF o assms(3,4)] by auto
  ultimately show ?thesis by blast
qed

theorem packets_delivered_in_order_witness:
  "fst (ingestAll (arrivals (\<lambda>i. [of_nat i]) [2, 0, 2, 1]) \<lparr>ke_tx = [], ke_rx = [], ke_lastDataSeq = - 1, ke_pending = []\<rparr>)
     = [[0], [1], [2]]"
proof -
  have "set [2, 0, 2, 1 :: nat] = {0..<0 + 3}" by auto
  then show ?thesis
    using packets_delivered_in_order [of "\<lparr>ke_tx = [], ke_rx = [], ke_lastDataSeq = - 1, ke_pending = []\<rparr>" 0 "[2, 0, 2, 1]" 3
      "\<lambda>i. [of_nat i]" 3] by (simp add: upt_rec)
qed

end
