(* ===== verification/Chat_Relay_Peer.thy ===== *)
theory Chat_Relay_Peer
  imports Chat_Relay_Dest
begin

text \<open>
  The two ends of a chat relay session, \<open>internal/chat/relay_v1.go\<close>, and the dispatcher of
  \<open>internal/app/chatrelay_v1_dispatch.go\<close>: the source establishes a session through a relay,
  seals payloads and keeps the session alive with heartbeats, the destination answers and opens
  what arrives. The libp2p host is the record \<open>peer_env\<close>; readings of the clock, random bytes
  and the order of map ranges are arguments. \<open>'w\<close> is the state of the network behind the
  streams.
\<close>

section \<open>State\<close>

text \<open>The channel that stops the heartbeat is there or nil.\<close>

record relayV1PeerSession =
  ps_relay :: string
  ps_sessionID :: string
  ps_expireAt :: int
  ps_txKey :: bytes
  ps_rxKey :: bytes
  ps_packetSeq :: u64
  ps_handshakeOK :: bool
  ps_lastUsedUnix :: int
  ps_hbFail :: int
  ps_stopHB :: bool

definition newPeerSession :: "int \<Rightarrow> relayV1PeerSession" where
  "newPeerSession now = \<lparr>ps_relay = [], ps_sessionID = [], ps_expireAt = 0, ps_txKey = [], ps_rxKey = [], ps_packetSeq = 0,
     ps_handshakeOK = False, ps_lastUsedUnix = now, ps_hbFail = 0, ps_stopHB = False\<rparr>"

record relayV1Service =
  rv_Sessions :: "(string \<times> relayV1PeerSession) list"
  rv_SessionsLastPurge :: time
  rv_B :: relayV1B

record 'w peer_env =
  pe_localPeer :: string
  pe_nodePriv :: bytes
  pe_Decode :: "string \<Rightarrow> string option"
  pe_String :: "string \<Rightarrow> string"
  pe_PubKey :: "string \<Rightarrow> bytes result"
  pe_connect :: "'w \<Rightarrow> string \<Rightarrow> RelayConnectRequest \<Rightarrow> RelayConnectResponse exchange \<times> 'w"
  pe_handshake :: "'w \<Rightarrow> string \<Rightarrow> RelayHandshake \<Rightarrow> RelayHandshake exchange \<times> 'w"
  pe_data :: "'w \<Rightarrow> string \<Rightarrow> RelayDataFrame \<Rightarrow> unit exchange \<times> 'w"
  pe_heartbeat :: "'w \<Rightarrow> string \<Rightarrow> RelayHeartbeat \<Rightarrow> RelayHeartbeat exchange \<times> 'w"

definition pubKeyForPeer :: "'w peer_env \<Rightarrow> string \<Rightarrow> bytes result" where
  "pubKeyForPeer E peerID = res_bind (of_option (Errorf ''peer id'') (pe_Decode E (trimSpace peerID))) (pe_PubKey E)"

text \<open>Addition of \<open>int64\<close> values.\<close>

definition wrap64 :: "int \<Rightarrow> int" where
  "wrap64 x = (x + 2 ^ 63) mod 2 ^ 64 - 2 ^ 63"

section \<open>The sessions of the source\<close>

definition relayV1ASessionPurgeInterval :: duration where "relayV1ASessionPurgeInterval = 2 * second"
definition relayV1ASessionMaxEntries :: nat where "relayV1ASessionMaxEntries = 4096"

type_synonym sess_range = "(string \<times> relayV1PeerSession) list \<Rightarrow> (string \<times> relayV1PeerSession) list"

definition relayV1PeerSessionStopHeartbeatLocked :: "relayV1PeerSession \<Rightarrow> relayV1PeerSession" where
  "relayV1PeerSessionStopHeartbeatLocked st = st\<lparr>ps_stopHB := False\<rparr>"

text \<open>The entries in range order: the given order, when it is one.\<close>

definition inRange :: "('a list \<Rightarrow> 'a list) \<Rightarrow> 'a list \<Rightarrow> 'a list" where
  "inRange rng xs = (if set (rng xs) = set xs then rng xs else xs)"

function dropLeastUsed :: "sess_range \<Rightarrow> (string \<times> relayV1PeerSession) list \<Rightarrow> (string \<times> relayV1PeerSession) list" where
  "dropLeastUsed rng xs =
     (if relayV1ASessionMaxEntries < length xs
      then let worstDst = earliest ps_lastUsedUnix (inRange rng xs)
           in if worstDst = [] then xs else dropLeastUsed rng (AList.delete worstDst xs)
      else xs)"
  by pat_completeness auto
termination
proof (relation "measure (\<lambda>(_, xs). length xs)")
  fix rng :: sess_range and xs v
  assume "v = earliest ps_lastUsedUnix (inRange rng xs)" "v \<noteq> []"
  then have "v \<in> fst ` set xs" using earliest_member [of ps_lastUsedUnix "inRange rng xs"] by (auto simp: inRange_def split: if_splits)
  then show "((rng, AList.delete v xs), rng, xs) \<in> measure (\<lambda>(_, xs). length xs)"
    by (auto simp: AList.delete_eq intro!: length_filter_less)
qed simp

declare dropLeastUsed.simps [simp del]

definition relayV1MaybePurgeStaleRelaySessionsLocked :: "sess_range \<Rightarrow> time \<Rightarrow> relayV1Service \<Rightarrow> relayV1Service" where
  "relayV1MaybePurgeStaleRelaySessionsLocked rng now s =
     (let heavy = rv_SessionsLastPurge s = 0 \<or> now - rv_SessionsLastPurge s \<ge> relayV1ASessionPurgeInterval
                    \<or> length (rv_Sessions s) > relayV1ASessionMaxEntries;
          nowUnix = now div second
      in if \<not> heavy then s
         else s\<lparr>rv_SessionsLastPurge := now,
                rv_Sessions := dropLeastUsed rng
                  (filter (\<lambda>(_, st). \<not> (ps_handshakeOK st \<and> nowUnix \<ge> ps_expireAt st - 5)) (rv_Sessions s))\<rparr>)"

definition relayV1SessionFor :: "sess_range \<Rightarrow> time \<Rightarrow> string \<Rightarrow> relayV1Service \<Rightarrow> relayV1PeerSession \<times> relayV1Service" where
  "relayV1SessionFor rng now dstPeer s0 =
     (let s = relayV1MaybePurgeStaleRelaySessionsLocked rng now s0
      in case map_of (rv_Sessions s) dstPeer of
           Some st \<Rightarrow> (st, s)
         | None \<Rightarrow> let st = newPeerSession (now div second)
                   in (st, s\<lparr>rv_Sessions := AList.update dstPeer st (rv_Sessions s)\<rparr>))"

text \<open>A session is reached through a pointer: what is changed there is changed in the map.\<close>

definition putSession :: "string \<Rightarrow> relayV1PeerSession \<Rightarrow> relayV1Service \<Rightarrow> relayV1Service" where
  "putSession dst st s = s\<lparr>rv_Sessions := AList.update dst st (rv_Sessions s)\<rparr>"

section \<open>Establishing a session\<close>

definition relayV1EstablishExpireSkewSec :: int where "relayV1EstablishExpireSkewSec = 300"
definition relayV1EstablishHsTimestampSkewSec :: int where "relayV1EstablishHsTimestampSkewSec = 600"

definition ErrHandshakeInvalid :: string where "ErrHandshakeInvalid = ''HANDSHAKE_INVALID''"
definition ErrRelayConnectRejected :: string where "ErrRelayConnectRejected = ''RELAY_CONNECT_REJECTED''"

definition relayV1ValidateConnectResponse ::
  "'w peer_env \<Rightarrow> RelayConnectResponse \<Rightarrow> string \<Rightarrow> string \<Rightarrow> string \<Rightarrow> int \<Rightarrow> int \<Rightarrow> int \<Rightarrow> go_error option" where
  "relayV1ValidateConnectResponse E resp dstPeerID relayPID sessionID reqTs ttlSec now =
     (let bad = (\<lambda>m. Some (Errorf (ErrHandshakeInvalid @ m)));
          diff = wrap64 (rp_ExpireAt resp - wrap64 (reqTs + ttlSec))
      in if rp_Version resp \<noteq> 1 then bad '': connect response version mismatch''
         else if \<not> rp_Accepted resp then bad '': connect not accepted''
         else if trimSpace (rp_SessionID resp) \<noteq> trimSpace sessionID then bad '': connect response session_id mismatch''
         else if trimSpace (rp_SrcID resp) \<noteq> trimSpace dstPeerID then bad '': connect response src_id mismatch''
         else if trimSpace (rp_DstID resp) \<noteq> trimSpace (pe_localPeer E) then bad '': connect response dst_id mismatch''
         else if trimSpace (rp_RelayID resp) \<noteq> trimSpace (pe_String E relayPID) then bad '': connect response relay_id mismatch''
         else if diff < - relayV1EstablishExpireSkewSec \<or> diff > relayV1EstablishExpireSkewSec
           then bad '': connect response expire_at out of range''
         else if rp_ExpireAt resp \<le> now - relayV1EstablishExpireSkewSec then bad '': connect response expire_at already past''
         else None)"

definition relayV1ValidateHandshakeResponse ::
  "'w peer_env \<Rightarrow> RelayHandshake \<Rightarrow> string \<Rightarrow> string \<Rightarrow> RelayHandshake \<Rightarrow> int \<Rightarrow> bool" where
  "relayV1ValidateHandshakeResponse E hsResp dstPeerID sessionID hs now \<longleftrightarrow>
     rk_Version hsResp = rk_Version hs \<and> trimSpace (rk_SessionID hsResp) = trimSpace sessionID \<and>
     trimSpace (rk_SrcID hsResp) = trimSpace dstPeerID \<and> trimSpace (rk_DstID hsResp) = trimSpace (pe_localPeer E) \<and>
     trimSpace (rk_CipherSuite hsResp) = trimSpace (rk_CipherSuite hs) \<and>
     now - relayV1EstablishHsTimestampSkewSec \<le> rk_Timestamp hsResp \<and>
     rk_Timestamp hsResp \<le> now + relayV1EstablishHsTimestampSkewSec"

text \<open>What one call reads from its surroundings: times in seconds, the new UUID, random bytes.\<close>

record establish_in =
  ei_uuid :: string
  ei_ts :: int
  ei_now1 :: int
  ei_hsTs :: int
  ei_now2 :: int
  ei_now3 :: int
  ei_rnd :: bytes

fun exchangeError :: "'a exchange \<Rightarrow> go_error" where
  "exchangeError DialFailed = Errorf ''dial''"
| "exchangeError WriteFailed = Errorf ''write''"
| "exchangeError NoReply = EOF"
| "exchangeError (Reply _) = Errorf []"

definition connectRequest :: "'w peer_env \<Rightarrow> establish_in \<Rightarrow> string \<Rightarrow> RelayConnectRequest" where
  "connectRequest E x dst = \<lparr>rq_Version = 1, rq_SessionID = ei_uuid x, rq_SrcID = pe_localPeer E, rq_DstID = dst,
     rq_Timestamp = ei_ts x, rq_TTLSec = 3600, rq_Signature = noSignature\<rparr>"

definition handshakeRequest :: "'w peer_env \<Rightarrow> string \<Rightarrow> string \<Rightarrow> string \<Rightarrow> bytes \<Rightarrow> int \<Rightarrow> RelayHandshake" where
  "handshakeRequest E sessionID src dst pubEph ts = \<lparr>rk_Version = 1, rk_SessionID = sessionID, rk_SrcID = src, rk_DstID = dst,
     rk_EphPub = b64_encode pubEph, rk_CipherSuite = CipherSuiteX25519Chacha, rk_Timestamp = ts, rk_Signature = noSignature\<rparr>"

text \<open>
  The first exchange of \<open>relayV1Establish\<close>: the public key of the destination, or the error; the
  session and the network as they are then.
\<close>

definition establishConnect ::
  "identity \<Rightarrow> 'w peer_env \<Rightarrow> establish_in \<Rightarrow> string \<Rightarrow> string \<Rightarrow> relayV1PeerSession \<times> 'w \<Rightarrow>
   bytes result \<times> relayV1PeerSession \<times> 'w" where
  "establishConnect I E x relayPID dstPeerID s =
     (case s of (st, w) \<Rightarrow>
      let req = connectRequest E x dstPeerID in
      case SignBytes I (pe_nodePriv E) signPrefixConnect (CanonicalConnect req) of
        Inl e \<Rightarrow> (Inl e, st, w)
      | Inr sig \<Rightarrow>
          (case pe_connect E w relayPID (req\<lparr>rq_Signature := sig\<rparr>) of
             (Reply resp, w1) \<Rightarrow>
               if \<not> rp_Accepted resp then (Inl (Errorf (ErrRelayConnectRejected @ '': peer rejected'')), st, w1)
               else (case pubKeyForPeer E dstPeerID of
                 Inl e \<Rightarrow> (Inl e, st, w1)
               | Inr pub \<Rightarrow>
                   (case VerifyEd25519 I pub signPrefixConnectResp (CanonicalConnectResponse resp) (sb_Value (rp_Signature resp)) of
                      Some e \<Rightarrow> (Inl e, st, w1)
                    | None \<Rightarrow>
                        (case relayV1ValidateConnectResponse E resp dstPeerID relayPID (ei_uuid x) (ei_ts x) 3600 (ei_now1 x) of
                           Some e \<Rightarrow> (Inl e, st, w1)
                         | None \<Rightarrow> (Inr pub, st\<lparr>ps_sessionID := ei_uuid x, ps_relay := relayPID, ps_expireAt := rp_ExpireAt resp\<rparr>, w1))))
           | (r, w1) \<Rightarrow> (Inl (exchangeError r), st, w1)))"

text \<open>The second exchange, with the key of the destination.\<close>

definition establishHandshake ::
  "identity \<Rightarrow> crypto \<Rightarrow> hkdf \<Rightarrow> 'w peer_env \<Rightarrow> establish_in \<Rightarrow> bytes \<Rightarrow> string \<Rightarrow> string \<Rightarrow> relayV1PeerSession \<times> 'w \<Rightarrow>
   go_error option \<times> relayV1PeerSession \<times> 'w" where
  "establishHandshake I C H E x pub relayPID dstPeerID s =
     (case s of (st, w) \<Rightarrow>
      case GenerateEphemeralKeyPair C (ei_rnd x) of
        Inl e \<Rightarrow> (Some e, st, w)
      | Inr (priv, pubEph) \<Rightarrow>
          let hs = handshakeRequest E (ei_uuid x) (pe_localPeer E) dstPeerID pubEph (ei_hsTs x) in
          (case SignBytes I (pe_nodePriv E) signPrefixHandshake (CanonicalHandshake hs) of
             Inl e \<Rightarrow> (Some e, st, w)
           | Inr sig \<Rightarrow>
               (case pe_handshake E w relayPID (hs\<lparr>rk_Signature := sig\<rparr>) of
                  (Reply hsResp, w1) \<Rightarrow>
                    if \<not> relayV1ValidateHandshakeResponse E hsResp dstPeerID (ei_uuid x) hs (ei_now2 x)
                      then (Some (Errorf ErrHandshakeInvalid), st, w1)
                    else (case b64_decode (trimSpace (rk_EphPub hsResp)) of
                      None \<Rightarrow> (Some (Errorf ErrHandshakeInvalid), st, w1)
                    | Some pubRemote \<Rightarrow>
                        if length pubRemote \<noteq> X25519KeySize then (Some (Errorf ErrHandshakeInvalid), st, w1)
                        else (case VerifyEd25519 I pub signPrefixHandshake (CanonicalHandshake hsResp) (sb_Value (rk_Signature hsResp)) of
                          Some e \<Rightarrow> (Some e, st, w1)
                        | None \<Rightarrow>
                            (case res_bind (X25519SharedSecret C priv pubRemote) (\<lambda>shared. DeriveRelaySessionKeys H shared (ei_uuid x) True) of
                               Inl e \<Rightarrow> (Some e, st, w1)
                             | Inr (tx, rx) \<Rightarrow>
                                 (None, st\<lparr>ps_txKey := tx, ps_rxKey := rx, ps_packetSeq := 0, ps_handshakeOK := True,
                                           ps_lastUsedUnix := ei_now3 x\<rparr>, w1))))
                | (r, w1) \<Rightarrow> (Some (exchangeError r), st, w1))))"

definition relayV1Establish ::
  "identity \<Rightarrow> crypto \<Rightarrow> hkdf \<Rightarrow> 'w peer_env \<Rightarrow> establish_in \<Rightarrow> string \<Rightarrow> string \<Rightarrow> relayV1PeerSession \<times> 'w \<Rightarrow>
   go_error option \<times> relayV1PeerSession \<times> 'w" where
  "relayV1Establish I C H E x relayPID dstPeerID s =
     (case s of (st, w) \<Rightarrow>
      case establishConnect I E x relayPID dstPeerID (relayV1PeerSessionStopHeartbeatLocked st, w) of
        (Inl e, s1) \<Rightarrow> (Some e, s1)
      | (Inr pub, s1) \<Rightarrow> establishHandshake I C H E x pub relayPID dstPeerID s1)"

section \<open>Sending\<close>

definition relayV1MaybeStartHeartbeat :: "relayV1PeerSession \<Rightarrow> relayV1PeerSession" where
  "relayV1MaybeStartHeartbeat st = st\<lparr>ps_stopHB := True\<rparr>"

definition needEstablish :: "int \<Rightarrow> string \<Rightarrow> relayV1PeerSession \<Rightarrow> bool" where
  "needEstablish now relayPID st \<longleftrightarrow> \<not> ps_handshakeOK st \<or> ps_sessionID st = [] \<or> now \<ge> ps_expireAt st - 5
     \<or> ps_handshakeOK st \<and> ps_relay st \<noteq> relayPID"

definition dataFrame :: "'w peer_env \<Rightarrow> string \<Rightarrow> relayV1PeerSession \<Rightarrow> bytes \<times> bytes \<Rightarrow> RelayDataFrame" where
  "dataFrame E dst st nc = \<lparr>rd_Version = 1, rd_SessionID = ps_sessionID st, rd_SrcID = pe_localPeer E, rd_DstID = dst,
     rd_PacketSeq = ps_packetSeq st,
     rd_Cipher = \<lparr>dc_Algorithm = ''chacha20-poly1305'', dc_Nonce = b64_encode (fst nc), dc_Ciphertext = b64_encode (snd nc)\<rparr>\<rparr>"

text \<open>The part of \<open>sendViaRelayV1\<close> after the session is there.\<close>

definition sendPacket ::
  "crypto \<Rightarrow> 'w peer_env \<Rightarrow> int \<Rightarrow> string \<Rightarrow> string \<Rightarrow> bytes \<Rightarrow> relayV1PeerSession \<times> 'w \<Rightarrow>
   go_error option \<times> relayV1PeerSession \<times> 'w" where
  "sendPacket C E now relayPID dstPeerID payload s =
     (case s of (st, w) \<Rightarrow>
      case SealDataFrame C (ps_txKey st) (ps_sessionID st) (ps_packetSeq st) payload of
        Inl e \<Rightarrow> (Some e, st, w)
      | Inr nc \<Rightarrow>
          let st1 = st\<lparr>ps_packetSeq := ps_packetSeq st + 1\<rparr> in
          (case pe_data E w relayPID (dataFrame E dstPeerID st nc) of
             (DialFailed, w1) \<Rightarrow> (Some (exchangeError (DialFailed :: unit exchange)), st1, w1)
           | (WriteFailed, w1) \<Rightarrow> (Some (exchangeError (WriteFailed :: unit exchange)), st1, w1)
           | (_, w1) \<Rightarrow> (None, relayV1MaybeStartHeartbeat (st1\<lparr>ps_lastUsedUnix := now\<rparr>), w1)))"

record send_in =
  si_range :: sess_range
  si_now :: time
  si_unix :: int
  si_establish :: establish_in
  si_used :: int

definition sendViaRelayV1 ::
  "identity \<Rightarrow> crypto \<Rightarrow> hkdf \<Rightarrow> 'w peer_env \<Rightarrow> send_in \<Rightarrow> string \<Rightarrow> string \<Rightarrow> bytes \<Rightarrow> relayV1Service \<times> 'w \<Rightarrow>
   go_error option \<times> relayV1Service \<times> 'w" where
  "sendViaRelayV1 I C H E x relayPID dstPeerID payload s =
     (case s of (s0, w) \<Rightarrow>
      case relayV1SessionFor (si_range x) (si_now x) dstPeerID s0 of (st, s1) \<Rightarrow>
      case (if needEstablish (si_unix x) relayPID st
            then relayV1Establish I C H E (si_establish x) relayPID dstPeerID (st, w) else (None, st, w)) of
        (Some e, st1, w1) \<Rightarrow> (Some e, putSession dstPeerID st1 s1, w1)
      | (None, st1, w1) \<Rightarrow>
          (case sendPacket C E (si_used x) relayPID dstPeerID payload (st1, w1) of
             (e, st2, w2) \<Rightarrow> (e, putSession dstPeerID st2 s1, w2)))"


definition relayV1PreferredRelayForDst ::
  "sess_range \<Rightarrow> time \<Rightarrow> int \<Rightarrow> int \<Rightarrow> string \<Rightarrow> relayV1Service \<Rightarrow> string option \<times> relayV1Service" where
  "relayV1PreferredRelayForDst rng now unix1 unix2 dstPeerID s0 =
     (let s = relayV1MaybePurgeStaleRelaySessionsLocked rng now s0
      in case map_of (rv_Sessions s) dstPeerID of
           None \<Rightarrow> (None, s)
         | Some st \<Rightarrow>
             if \<not> ps_handshakeOK st \<or> ps_sessionID st = [] then (None, s)
             else if unix1 \<ge> ps_expireAt st - 5 then (None, s)
             else if ps_relay st = [] then (None, s)
             else (Some (ps_relay st), putSession dstPeerID (st\<lparr>ps_lastUsedUnix := unix2\<rparr>) s))"

definition relayV1DedupePrepend :: "string \<Rightarrow> string list \<Rightarrow> string list" where
  "relayV1DedupePrepend pref relays = (if pref = [] then relays else pref # filter (\<lambda>r. r \<noteq> pref) relays)"

text \<open>\<open>base\<close> is the result of \<open>pickRelayCandidates\<close>.\<close>

definition relayV1RelayCandidatesWithPreferred ::
  "sess_range \<Rightarrow> time \<Rightarrow> int \<Rightarrow> int \<Rightarrow> string list result \<Rightarrow> string \<Rightarrow> relayV1Service \<Rightarrow> string list result \<times> relayV1Service" where
  "relayV1RelayCandidatesWithPreferred rng now unix1 unix2 base peerID s =
     (case base of
        Inl e \<Rightarrow> (Inl e, s)
      | Inr relays \<Rightarrow>
          (case relayV1PreferredRelayForDst rng now unix1 unix2 peerID s of
             (Some pref, s') \<Rightarrow> (Inr (relayV1DedupePrepend pref relays), s')
           | (None, s') \<Rightarrow> (Inr relays, s')))"

section \<open>Heartbeats of the source\<close>

definition relayV1VerifyHeartbeatPong ::
  "identity \<Rightarrow> 'w peer_env \<Rightarrow> RelayHeartbeat \<Rightarrow> RelayHeartbeat \<Rightarrow> string \<Rightarrow> string \<Rightarrow> go_error option" where
  "relayV1VerifyHeartbeatPong I E ping pong relayPID dstPeerID =
     (if trimSpace (hb_SessionID pong) \<noteq> trimSpace (hb_SessionID ping) then Some (Errorf ''session_id mismatch'')
      else if trimSpace (hb_SrcID pong) \<noteq> trimSpace dstPeerID then Some (Errorf (''src_id mismatch want peer '' @ dstPeerID))
      else if trimSpace (hb_DstID pong) \<noteq> trimSpace (pe_localPeer E) then Some (Errorf ''dst_id mismatch'')
      else if trimSpace (hb_RelayID pong) \<noteq> trimSpace (pe_String E relayPID) then Some (Errorf ''relay_id mismatch'')
      else if trimSpace (hb_PingID pong) \<noteq> trimSpace (hb_PingID ping) then Some (Errorf ''ping_id mismatch'')
      else case pubKeyForPeer E dstPeerID of
        Inl e \<Rightarrow> Some e
      | Inr pub \<Rightarrow> VerifyEd25519 I pub signPrefixHeartbeat (CanonicalHeartbeat pong) (sb_Value (hb_Signature pong)))"

text \<open>One round of the heartbeat loop; \<open>None\<close> when the loop returns.\<close>

definition heartbeatRound ::
  "identity \<Rightarrow> 'w peer_env \<Rightarrow> int \<Rightarrow> int \<Rightarrow> string \<Rightarrow> string \<Rightarrow> string \<Rightarrow> relayV1PeerSession \<times> 'w \<Rightarrow> (relayV1PeerSession \<times> 'w) option" where
  "heartbeatRound I E now sentAt uuid relayPID dst s =
     (case s of (st, w) \<Rightarrow>
      let failed = st\<lparr>ps_hbFail := ps_hbFail st + 1\<rparr>;
          ping = \<lparr>hb_Version = 1, hb_SessionID = ps_sessionID st, hb_SrcID = pe_localPeer E, hb_DstID = dst,
                  hb_RelayID = pe_String E relayPID, hb_PingID = uuid, hb_SentAt = sentAt, hb_Signature = noSignature\<rparr>
      in if ps_sessionID st = [] \<or> now \<ge> ps_expireAt st - 2 then None
         else case SignBytes I (pe_nodePriv E) signPrefixHeartbeat (CanonicalHeartbeat ping) of
           Inl _ \<Rightarrow> Some (failed, w)
         | Inr sig \<Rightarrow>
             (case pe_heartbeat E w relayPID (ping\<lparr>hb_Signature := sig\<rparr>) of
                (Reply pong, w1) \<Rightarrow>
                  (case relayV1VerifyHeartbeatPong I E ping pong relayPID dst of
                     Some _ \<Rightarrow> Some (failed, w1)
                   | None \<Rightarrow> Some (st\<lparr>ps_hbFail := 0\<rparr>, w1))
              | (_, w1) \<Rightarrow> Some (failed, w1)))"

section \<open>The destination\<close>

text \<open>
  The destination's handlers: \<open>remote\<close> is the peer at the other end of the stream, which is the
  relay. The result is what is written back; a connect is \<open>None\<close> when the handler never
  returns. \<open>other\<close> is what other goroutines do to the tables between two critical sections.
\<close>

definition ServeRelayConnectAsB ::
  "identity \<Rightarrow> 'w peer_env \<Rightarrow> conn_range \<Rightarrow> time \<Rightarrow> time \<Rightarrow> string \<Rightarrow> RelayConnectRequest \<Rightarrow> relayV1Service \<Rightarrow>
   (RelayConnectResponse option \<times> relayV1Service) option" where
  "ServeRelayConnectAsB I E rng now1 now2 remote req s =
     (let expireAt = wrap64 (rq_Timestamp req + rq_TTLSec req) in
      if trimSpace (rq_DstID req) \<noteq> pe_localPeer E then Some (None, s)
      else if now1 div second > expireAt then Some (None, s)
      else case pubKeyForPeer E (rq_SrcID req) of
        Inl _ \<Rightarrow> Some (None, s)
      | Inr pub \<Rightarrow>
          if VerifyEd25519 I pub signPrefixConnect (CanonicalConnect req) (sb_Value (rq_Signature req)) \<noteq> None then Some (None, s)
          else Option.bind (relayV1BTryRegisterConnect rng now2 (rq_SessionID req) (rq_SrcID req) expireAt (rv_B s)) (\<lambda>(ok, b).
            let s' = s\<lparr>rv_B := b\<rparr>;
                resp = \<lparr>rp_Version = 1, rp_SessionID = rq_SessionID req, rp_SrcID = pe_localPeer E, rp_DstID = rq_SrcID req,
                        rp_RelayID = pe_String E remote, rp_Accepted = True, rp_ExpireAt = expireAt, rp_Signature = noSignature\<rparr>
            in if \<not> ok then Some (None, s')
               else case SignBytes I (pe_nodePriv E) signPrefixConnectResp (CanonicalConnectResponse resp) of
                 Inl _ \<Rightarrow> Some (None, s')
               | Inr sig \<Rightarrow> Some (Some (resp\<lparr>rp_Signature := sig\<rparr>), s')))"

definition relayV1ActivateOutboundSession ::
  "sess_range \<Rightarrow> time \<Rightarrow> int \<Rightarrow> string \<Rightarrow> string \<Rightarrow> string \<Rightarrow> int \<Rightarrow> bytes \<Rightarrow> bytes \<Rightarrow> relayV1Service \<Rightarrow> relayV1Service" where
  "relayV1ActivateOutboundSession rng now used dstPeerID relayPID sessionID expireAt txSend rxRecv s0 =
     (case relayV1SessionFor rng now dstPeerID s0 of (st, s) \<Rightarrow>
      putSession dstPeerID ((relayV1PeerSessionStopHeartbeatLocked st)\<lparr>ps_relay := relayPID, ps_sessionID := sessionID,
        ps_expireAt := expireAt, ps_txKey := txSend, ps_rxKey := rxRecv, ps_packetSeq := 0, ps_handshakeOK := True,
        ps_lastUsedUnix := used\<rparr>) s)"

text \<open>The critical section that the handshake enters twice: whether it may go on.\<close>

definition handshakeGate :: "conn_range \<Rightarrow> time \<Rightarrow> string \<Rightarrow> string \<Rightarrow> relayV1B \<Rightarrow> bool \<times> relayV1B" where
  "handshakeGate rng now sessionID srcID b0 =
     (let b = relayV1BMaybePurgeLocked rng now b0
      in (relayV1BConnectValidLocked now sessionID srcID b \<and> rb_Keys b (relayV1BKey sessionID srcID) = None, b))"

record serve_in =
  sv_range :: conn_range
  sv_sessRange :: sess_range
  sv_now :: time
  sv_rnd :: bytes
  sv_other :: "relayV1B \<Rightarrow> relayV1B"
  sv_writeOk :: bool

definition ServeRelayHandshakeAsB ::
  "identity \<Rightarrow> crypto \<Rightarrow> hkdf \<Rightarrow> 'w peer_env \<Rightarrow> serve_in \<Rightarrow> string \<Rightarrow> RelayHandshake \<Rightarrow> relayV1Service \<Rightarrow>
   RelayHandshake option \<times> relayV1Service" where
  "ServeRelayHandshakeAsB I C H E x remote req s =
     (let now = sv_now x; rng = sv_range x; sid = rk_SessionID req; src = rk_SrcID req in
      if trimSpace (rk_DstID req) \<noteq> pe_localPeer E then (None, s)
      else case relayV1BHasConnect rng now now sid src (rv_B s) of (has, b1) \<Rightarrow>
      if \<not> has then (None, s\<lparr>rv_B := b1\<rparr>)
      else case pubKeyForPeer E src of
        Inl _ \<Rightarrow> (None, s\<lparr>rv_B := b1\<rparr>)
      | Inr pub \<Rightarrow>
          if VerifyEd25519 I pub signPrefixHandshake (CanonicalHandshake req) (sb_Value (rk_Signature req)) \<noteq> None
            then (None, s\<lparr>rv_B := b1\<rparr>)
          else case handshakeGate rng now sid src b1 of (open1, b2) \<Rightarrow>
          if \<not> open1 then (None, s\<lparr>rv_B := b2\<rparr>)
          else case GenerateEphemeralKeyPair C (sv_rnd x) of
            Inl _ \<Rightarrow> (None, s\<lparr>rv_B := b2\<rparr>)
          | Inr (priv, pubEph) \<Rightarrow>
              (case b64_decode (trimSpace (rk_EphPub req)) of
                 None \<Rightarrow> (None, s\<lparr>rv_B := b2\<rparr>)
               | Some remotePub \<Rightarrow>
                   if length remotePub \<noteq> X25519KeySize then (None, s\<lparr>rv_B := b2\<rparr>)
                   else case res_bind (X25519SharedSecret C priv remotePub) (\<lambda>shared. DeriveRelaySessionKeys H shared sid False) of
                     Inl _ \<Rightarrow> (None, s\<lparr>rv_B := b2\<rparr>)
                   | Inr (tx, rx) \<Rightarrow>
                       let resp = handshakeRequest E sid (pe_localPeer E) src pubEph (now div second) in
                       (case SignBytes I (pe_nodePriv E) signPrefixHandshake (CanonicalHandshake resp) of
                          Inl _ \<Rightarrow> (None, s\<lparr>rv_B := b2\<rparr>)
                        | Inr sig \<Rightarrow>
                            (case handshakeGate rng now sid src (sv_other x b2) of (open2, b3) \<Rightarrow>
                             if \<not> open2 then (None, s\<lparr>rv_B := b3\<rparr>)
                             else let b4 = relayV1BStoreKeysLocked (relayV1BKey sid src) tx rx b3 in
                             if \<not> sv_writeOk x then (Some (resp\<lparr>rk_Signature := sig\<rparr>), s\<lparr>rv_B := b4\<rparr>)
                             else case relayV1BConnectExpire rng now sid b4 of (expireAt, b5) \<Rightarrow>
                               let s' = s\<lparr>rv_B := b5\<rparr>
                               in (Some (resp\<lparr>rk_Signature := sig\<rparr>),
                                   if expireAt > 0 then relayV1ActivateOutboundSession (sv_sessRange x) now (now div second) src remote sid expireAt tx rx s'
                                   else s')))))"

text \<open>
  The payloads handed to \<open>processEnvelopeBytes\<close>. A nonce of a wrong length makes the cipher
  panic.
\<close>

definition ServeRelayDataAsB ::
  "crypto \<Rightarrow> 'w peer_env \<Rightarrow> conn_range \<Rightarrow> time \<Rightarrow> (relayV1B \<Rightarrow> relayV1B) \<Rightarrow> RelayDataFrame \<Rightarrow> relayV1Service \<Rightarrow>
   (bytes list \<times> relayV1Service) result" where
  "ServeRelayDataAsB C E rng now other frame s =
     (if trimSpace (rd_DstID frame) \<noteq> pe_localPeer E then Inr ([], s)
      else case relayV1BGetKeys rng now (rd_SessionID frame) (rd_SrcID frame) (rv_B s) of
        (None, b) \<Rightarrow> Inr ([], s\<lparr>rv_B := b\<rparr>)
      | (Some (_, rx), b) \<Rightarrow>
          (case (b64_decode (dc_Nonce (rd_Cipher frame)), b64_decode (dc_Ciphertext (rd_Cipher frame))) of
             (Some nonce, Some ct) \<Rightarrow>
               (case OpenDataFrame C rx (rd_SessionID frame) (rd_PacketSeq frame) nonce ct of
                  Inl Panic \<Rightarrow> Inl Panic
                | Inl _ \<Rightarrow> Inr ([], s\<lparr>rv_B := b\<rparr>)
                | Inr plain \<Rightarrow>
                    (case relayV1BIngestRelayDataPacket rng now (rd_SessionID frame) (rd_SrcID frame) (rd_PacketSeq frame) plain (other b) of
                       (out, b') \<Rightarrow> Inr (out, s\<lparr>rv_B := b'\<rparr>)))
           | _ \<Rightarrow> Inr ([], s\<lparr>rv_B := b\<rparr>)))"

definition ServeRelayHeartbeatAsB ::
  "identity \<Rightarrow> 'w peer_env \<Rightarrow> conn_range \<Rightarrow> time \<Rightarrow> RelayHeartbeat \<Rightarrow> relayV1Service \<Rightarrow> RelayHeartbeat option \<times> relayV1Service" where
  "ServeRelayHeartbeatAsB I E rng now ping s =
     (if trimSpace (hb_DstID ping) \<noteq> pe_localPeer E then (None, s)
      else case relayV1BHeartbeatAllowedAndHasConnect rng now (hb_SessionID ping) (hb_SrcID ping) (rv_B s) of (ok, b) \<Rightarrow>
      let s' = s\<lparr>rv_B := b\<rparr>;
          pong = \<lparr>hb_Version = 1, hb_SessionID = hb_SessionID ping, hb_SrcID = pe_localPeer E, hb_DstID = hb_SrcID ping,
                  hb_RelayID = hb_RelayID ping, hb_PingID = hb_PingID ping, hb_SentAt = now div second, hb_Signature = noSignature\<rparr>
      in if \<not> ok then (None, s')
         else case pubKeyForPeer E (hb_SrcID ping) of
           Inl _ \<Rightarrow> (None, s')
         | Inr pub \<Rightarrow>
             if VerifyEd25519 I pub signPrefixHeartbeat (CanonicalHeartbeat ping) (sb_Value (hb_Signature ping)) \<noteq> None then (None, s')
             else case SignBytes I (pe_nodePriv E) signPrefixHeartbeat (CanonicalHeartbeat pong) of
               Inl _ \<Rightarrow> (None, s')
             | Inr sig \<Rightarrow> (Some (pong\<lparr>hb_Signature := sig\<rparr>), s'))"

section \<open>The dispatcher\<close>

text \<open>
  What a node does with the first message of a chat relay stream: a message for the node itself
  goes to the chat service, any other is forwarded when the node is a relay and has a table.
\<close>

datatype dispatch = ToChat | ToRelay | CloseStream

definition dispatchRelayV1 :: "string \<Rightarrow> bool \<Rightarrow> bool \<Rightarrow> bool \<Rightarrow> string \<Rightarrow> dispatch" where
  "dispatchRelayV1 local hasChat relayMode hasTable dstID =
     (if trimSpace dstID = local then (if hasChat then ToChat else CloseStream)
      else if relayMode \<and> hasTable then ToRelay else CloseStream)"


section \<open>A handshake that fails\<close>

lemma establishConnect_ok:
  assumes "establishConnect I E x R dst (st, w) = (Inr pub, st1, w1)"
  shows "\<exists>exp. st1 = st\<lparr>ps_sessionID := ei_uuid x, ps_relay := R, ps_expireAt := exp\<rparr>"
  using assms
  by (auto simp: establishConnect_def Let_def split: sum.splits prod.splits exchange.splits option.splits if_splits)

lemma establishHandshake_error:
  assumes "establishHandshake I C H E x pub R dst (st, w) = (Some e, st1, w1)"
  shows "st1 = st"
  using assms
  by (auto simp: establishHandshake_def Let_def split: sum.splits prod.splits exchange.splits option.splits if_splits)

text \<open>
  C33. A handshake that fails leaves a session that looks established: when a source that had a
  session renews it, the connect succeeds and the handshake fails, then it keeps the old keys
  under the new session ID; the next send through that relay finds nothing to establish, seals
  the payload with the old key, reports success, and a destination without keys for the new
  session hands nothing over.
\<close>

theorem failed_handshake_keeps_old_keys:
  assumes c: "establishConnect I E x R dst (relayV1PeerSessionStopHeartbeatLocked st, w) = (Inr pub, st1, w1)"
    and h: "establishHandshake I C H E x pub R dst (st1, w1) = (Some e, st2, w2)"
    and old: "ps_handshakeOK st" "length (ps_txKey st) = AEADKeySize"
    and new: "ei_uuid x \<noteq> []" "now < ps_expireAt st2 - 5"
    and sent: "\<And>f. fst (pe_data E w2 R f) = Reply ()"
    and noKeys: "fst (relayV1BGetKeys rng t (ei_uuid x) (pe_localPeer E) (rv_B b)) = None"
  shows "relayV1Establish I C H E x R dst (st, w) = (Some e, st2, w2) \<and> \<not> needEstablish now R st2 \<and>
    (\<exists>frame nonce ct st3. sendPacket C E used R dst payload (st2, w2) = (None, st3, snd (pe_data E w2 R frame)) \<and>
       rd_SessionID frame = ei_uuid x \<and> SealDataFrame C (ps_txKey st) (ei_uuid x) (ps_packetSeq st) payload = Inr (nonce, ct) \<and>
       dc_Ciphertext (rd_Cipher frame) = b64_encode ct \<and>
       (\<exists>b'. ServeRelayDataAsB C EB rng t other frame b = Inr ([], b')))"
proof -
  obtain exp where st1: "st1 = (relayV1PeerSessionStopHeartbeatLocked st)\<lparr>ps_sessionID := ei_uuid x, ps_relay := R, ps_expireAt := exp\<rparr>"
    using establishConnect_ok [OF c] by auto
  have st2: "st2 = st1" by (rule establishHandshake_error [OF h])
  have "relayV1Establish I C H E x R dst (st, w) = (Some e, st2, w2)"
    using c h by (simp add: relayV1Establish_def)
  moreover have "\<not> needEstablish now R st2"
    using old(1) new by (simp add: st2 st1 needEstablish_def relayV1PeerSessionStopHeartbeatLocked_def)
  moreover obtain nonce ct where seal: "SealDataFrame C (ps_txKey st) (ei_uuid x) (ps_packetSeq st) payload = Inr (nonce, ct)"
    using old(2) by (simp add: SealDataFrame_def Let_def)
  define frame where "frame = dataFrame E dst st2 (nonce, ct)"
  have "\<exists>st3. sendPacket C E used R dst payload (st2, w2) = (None, st3, snd (pe_data E w2 R frame))"
    using seal sent [of frame] by (auto simp: sendPacket_def frame_def Let_def st2 st1 relayV1PeerSessionStopHeartbeatLocked_def
        split: prod.splits exchange.splits)
  moreover have f: "rd_SessionID frame = ei_uuid x" "rd_SrcID frame = pe_localPeer E" "dc_Ciphertext (rd_Cipher frame) = b64_encode ct"
    by (simp_all add: frame_def dataFrame_def st2 st1)
  moreover have "\<exists>b'. ServeRelayDataAsB C EB rng t other frame b = Inr ([], b')"
    using noKeys by (cases "relayV1BGetKeys rng t (ei_uuid x) (pe_localPeer E) (rv_B b)") (auto simp: ServeRelayDataAsB_def f)
  ultimately show ?thesis using seal by blast
qed

text \<open>A network in which the connect is answered and the handshake is not, for the witness.\<close>

definition demo_answer :: "RelayConnectRequest \<Rightarrow> string \<Rightarrow> RelayConnectResponse" where
  "demo_answer req relay = (let r = \<lparr>rp_Version = 1, rp_SessionID = rq_SessionID req, rp_SrcID = rq_DstID req,
     rp_DstID = rq_SrcID req, rp_RelayID = relay, rp_Accepted = True, rp_ExpireAt = rq_Timestamp req + 3600, rp_Signature = noSignature\<rparr>
     in case SignBytes demo_identity [2] signPrefixConnectResp (CanonicalConnectResponse r) of
          Inl _ \<Rightarrow> r | Inr sig \<Rightarrow> r\<lparr>rp_Signature := sig\<rparr>)"

definition demo_peer :: "unit peer_env" where
  "demo_peer = \<lparr>pe_localPeer = ''A'', pe_nodePriv = [1], pe_Decode = Some, pe_String = (\<lambda>p. p), pe_PubKey = (\<lambda>_. Inr [2]),
     pe_connect = (\<lambda>w relay req. (Reply (demo_answer req relay), w)), pe_handshake = (\<lambda>w _ _. (NoReply, w)),
     pe_data = (\<lambda>w _ _. (Reply (), w)), pe_heartbeat = (\<lambda>w _ _. (NoReply, w))\<rparr>"

definition demo_establish :: establish_in where
  "demo_establish = \<lparr>ei_uuid = ''u2'', ei_ts = 1000, ei_now1 = 1000, ei_hsTs = 1000, ei_now2 = 1000, ei_now3 = 1000, ei_rnd = replicate 32 1\<rparr>"

definition demo_old :: relayV1PeerSession where
  "demo_old = (newPeerSession 900)\<lparr>ps_relay := ''R'', ps_sessionID := ''u1'', ps_expireAt := 1001, ps_txKey := replicate 32 7,
     ps_rxKey := replicate 32 8, ps_packetSeq := 4, ps_handshakeOK := True\<rparr>"

definition demo_new :: relayV1PeerSession where
  "demo_new = demo_old\<lparr>ps_sessionID := ''u2'', ps_expireAt := 4600\<rparr>"

lemma demo_public [simp]: "id_Public demo_identity k = k"
  by (simp add: demo_identity_def)

lemma demo_connects:
  "establishConnect demo_identity demo_peer demo_establish ''R'' ''B'' (relayV1PeerSessionStopHeartbeatLocked demo_old, ()) =
     (Inr [2], demo_new, ())"
proof -
  let ?q = "connectRequest demo_peer demo_establish ''B''"
  obtain sig where sig: "SignBytes demo_identity [1] signPrefixConnect (CanonicalConnect ?q) = Inr sig"
    using sign_verify [OF demo_signs, of "[1]"] by blast
  let ?q = "?q\<lparr>rq_Signature := sig\<rparr>"
  have v: "VerifyEd25519 demo_identity [2] signPrefixConnectResp (CanonicalConnectResponse (demo_answer ?q ''R''))
      (sb_Value (rp_Signature (demo_answer ?q ''R''))) = None"
  proof -
    define r where "r = \<lparr>rp_Version = 1, rp_SessionID = rq_SessionID ?q, rp_SrcID = rq_DstID ?q, rp_DstID = rq_SrcID ?q,
      rp_RelayID = ''R'', rp_Accepted = True, rp_ExpireAt = rq_Timestamp ?q + 3600, rp_Signature = noSignature\<rparr>"
    obtain g where g: "SignBytes demo_identity [2] signPrefixConnectResp (CanonicalConnectResponse r) = Inr g"
        "VerifyEd25519 demo_identity [2] signPrefixConnectResp (CanonicalConnectResponse r) (sb_Value g) = None"
      using sign_verify [OF demo_signs, of "[2]" signPrefixConnectResp "CanonicalConnectResponse r"] by auto
    have "demo_answer ?q ''R'' = r\<lparr>rp_Signature := g\<rparr>"
      using g(1) unfolding demo_answer_def r_def [symmetric] Let_def by simp
    then show ?thesis using g(2) by simp
  qed
  have a: "rp_Version (demo_answer q r) = 1" "rp_Accepted (demo_answer q r)" "rp_SessionID (demo_answer q r) = rq_SessionID q"
     "rp_SrcID (demo_answer q r) = rq_DstID q" "rp_DstID (demo_answer q r) = rq_SrcID q" "rp_RelayID (demo_answer q r) = r"
     "rp_ExpireAt (demo_answer q r) = rq_Timestamp q + 3600" for q r
    by (simp_all add: demo_answer_def Let_def split: sum.split)
  show ?thesis
    using sig v
    by (simp add: establishConnect_def demo_peer_def pubKeyForPeer_def relayV1ValidateConnectResponse_def a connectRequest_def
        demo_establish_def demo_new_def demo_old_def relayV1PeerSessionStopHeartbeatLocked_def newPeerSession_def wrap64_def
        relayV1EstablishExpireSkewSec_def)
qed

lemma demo_handshake_fails:
  "\<exists>e. establishHandshake demo_identity demo_crypto H demo_peer demo_establish [2] ''R'' ''B'' (demo_new, ()) = (Some e, demo_new, ())"
proof -
  have "\<exists>sig. SignBytes demo_identity [1] p m = Inr sig" for p m
    using sign_verify [OF demo_signs, of "[1]"] by blast
  then show ?thesis
    by (auto simp: establishHandshake_def demo_peer_def Let_def split: sum.split)
qed

theorem failed_handshake_keeps_old_keys_witness:
  "\<not> needEstablish 1000 ''R'' demo_new"
proof -
  obtain e where e: "establishHandshake demo_identity demo_crypto (\<lambda>_ _ _ n. replicate n 0) demo_peer demo_establish [2] ''R'' ''B'' (demo_new, ())
      = (Some e, demo_new, ())" using demo_handshake_fails by blast
  show ?thesis
    by (rule failed_handshake_keeps_old_keys [OF demo_connects e, where rng = rev and t = 0 and b = "\<lparr>rv_Sessions = [], rv_SessionsLastPurge = 0, rv_B = NewRelayV1B\<rparr>"
          and now = 1000, THEN conjunct2, THEN conjunct1])
       (simp_all add: demo_old_def demo_new_def demo_establish_def demo_peer_def AEADKeySize_def newPeerSession_def
          relayV1BGetKeys_def NewRelayV1B_def relayV1BMaybePurgeLocked_def relayV1BEvictOverflow.simps)
qed

section \<open>The packet number is not authenticated\<close>

text \<open>Tables that were purged less than the purge interval ago.\<close>

definition settled :: "time \<Rightarrow> relayV1B \<Rightarrow> bool" where
  "settled now b \<longleftrightarrow> rb_LastPurge b \<noteq> 0 \<and> now - rb_LastPurge b < relayV1BPurgeInterval \<and> length (rb_Connect b) \<le> relayV1BMaxSessionsTotal"

lemma settled_purge: "settled now b \<Longrightarrow> relayV1BMaybePurgeLocked rng now b = b"
  by (simp add: settled_def relayV1BMaybePurgeLocked_def)

lemma ServeRelayData_settled:
  assumes "trimSpace (rd_DstID f) = pe_localPeer E" "settled now (rv_B s)"
    and "rb_Keys (rv_B s) (relayV1BKey (rd_SessionID f) (rd_SrcID f)) = Some k"
    and "b64_decode (dc_Nonce (rd_Cipher f)) = Some nonce" "b64_decode (dc_Ciphertext (rd_Cipher f)) = Some ct"
    and "OpenDataFrame C (ke_rx k) (rd_SessionID f) (rd_PacketSeq f) nonce ct = Inr plain"
    and "ingestPacket (rd_PacketSeq f) plain k = (out, k')"
  shows "ServeRelayDataAsB C E rng now (\<lambda>b. b) f s =
    Inr (out, s\<lparr>rv_B := (rv_B s)\<lparr>rb_Keys := (rb_Keys (rv_B s))(relayV1BKey (rd_SessionID f) (rd_SrcID f) \<mapsto> k')\<rparr>\<rparr>)"
  using assms
  by (simp add: ServeRelayDataAsB_def relayV1BGetKeys_def relayV1BIngestRelayDataPacket_def settled_purge Let_def)

text \<open>
  The packet number is not covered by the seal, so a relay can replay: a destination that
  has handed over \<open>n\<close> packets and takes packet \<open>n\<close> takes the same ciphertext again with the
  number changed to \<open>n + 1\<close>, and hands the payload over twice.
\<close>

theorem renumbered_packet_delivered_twice:
  assumes "trimSpace (rd_DstID f) = pe_localPeer E" "settled now (rv_B s)"
    and "rb_Keys (rv_B s) (relayV1BKey (rd_SessionID f) (rd_SrcID f)) = Some k"
    and "ke_lastDataSeq k = of_nat n - 1" "ke_pending k = []" "n + 2 < 2 ^ 64" "rd_PacketSeq f = of_nat n"
    and "b64_decode (dc_Nonce (rd_Cipher f)) = Some nonce" "b64_decode (dc_Ciphertext (rd_Cipher f)) = Some ct"
    and "OpenDataFrame C (ke_rx k) (rd_SessionID f) (rd_PacketSeq f) nonce ct = Inr plain"
  shows "\<exists>s' s''. ServeRelayDataAsB C E rng now (\<lambda>b. b) f s = Inr ([plain], s') \<and>
    ServeRelayDataAsB C E rng now (\<lambda>b. b) (f\<lparr>rd_PacketSeq := of_nat (n + 1)\<rparr>) s' = Inr ([plain], s'')"
proof -
  let ?key = "relayV1BKey (rd_SessionID f) (rd_SrcID f)"
  have step: "ingestPacket (of_nat m) plain k' = ([plain], k'\<lparr>ke_lastDataSeq := of_nat (Suc m) - 1, ke_pending := []\<rparr>)"
    if "ke_lastDataSeq k' = of_nat m - 1" "ke_pending k' = []" "m < 2 ^ 64 - 1" for m k'
  proof -
    have w: "(of_nat m - 1 = (- 1 :: u64)) = (m = 0)" "m \<noteq> 0 \<Longrightarrow> \<not> (of_nat m :: u64) \<le> of_nat m - 1"
      using word_of_nat_facts [of m "2 ^ 64 - 1" m] that(3) by simp_all
    show ?thesis using that(1,2) w by (cases "m = 0") (simp_all add: ingestPacket_def Let_def flushPending.simps)
  qed
  define k1 where "k1 = k\<lparr>ke_lastDataSeq := of_nat (Suc n) - 1, ke_pending := []\<rparr>"
  define s1 where "s1 = s\<lparr>rv_B := (rv_B s)\<lparr>rb_Keys := (rb_Keys (rv_B s))(?key \<mapsto> k1)\<rparr>\<rparr>"
  have "settled now (rv_B s1)" using assms(2) by (simp add: s1_def settled_def)
  have "ServeRelayDataAsB C E rng now (\<lambda>b. b) f s = Inr ([plain], s1)"
    unfolding s1_def by (rule ServeRelayData_settled [OF assms(1-3,8-10)]) (use assms(4-7) step [of k n] in \<open>simp add: k1_def\<close>)
  moreover have "\<exists>s''. ServeRelayDataAsB C E rng now (\<lambda>b. b) (f\<lparr>rd_PacketSeq := of_nat (n + 1)\<rparr>) s1 = Inr ([plain], s'')"
    by (rule exI, rule ServeRelayData_settled [where k = k1 and nonce = nonce and ct = ct])
       (use assms(1,6,8-10) step [of k1 "n + 1"] \<open>settled now (rv_B s1)\<close> in
         \<open>simp_all add: s1_def k1_def OpenDataFrame_def\<close>)
  ultimately show ?thesis by blast
qed


definition demo_frame :: RelayDataFrame where
  "demo_frame = (let nonce = BuildAEADNonce ''relay-v1'' 0 in
     \<lparr>rd_Version = 1, rd_SessionID = ''s1'', rd_SrcID = ''A'', rd_DstID = ''B'', rd_PacketSeq = 0,
      rd_Cipher = \<lparr>dc_Algorithm = ''chacha20-poly1305'', dc_Nonce = b64_encode nonce,
        dc_Ciphertext = b64_encode (aead_seal demo_crypto (replicate 32 7) nonce [1, 2] (dataAAD ''s1''))\<rparr>\<rparr>)"

definition demo_dest :: relayV1Service where
  "demo_dest = \<lparr>rv_Sessions = [], rv_SessionsLastPurge = 0, rv_B = NewRelayV1B\<lparr>rb_LastPurge := second,
     rb_Keys := [relayV1BKey ''s1'' ''A'' \<mapsto> \<lparr>ke_tx = [], ke_rx = replicate 32 7, ke_lastDataSeq = - 1, ke_pending = []\<rparr>]\<rparr>\<rparr>"

lemma demo_dest_settled: "settled second (rv_B demo_dest)"
  by (simp add: settled_def demo_dest_def NewRelayV1B_def second_def relayV1BPurgeInterval_def)

theorem renumbered_packet_delivered_twice_witness:
  "\<exists>s' s''. ServeRelayDataAsB demo_crypto (demo_peer\<lparr>pe_localPeer := ''B''\<rparr>) rev second (\<lambda>b. b) demo_frame demo_dest = Inr ([[1, 2]], s') \<and>
     ServeRelayDataAsB demo_crypto (demo_peer\<lparr>pe_localPeer := ''B''\<rparr>) rev second (\<lambda>b. b) (demo_frame\<lparr>rd_PacketSeq := of_nat (0 + 1)\<rparr>) s' = Inr ([[1, 2]], s'')"
proof (rule renumbered_packet_delivered_twice [OF _ demo_dest_settled])
  let ?n = "BuildAEADNonce ''relay-v1'' 0" and ?k = "replicate 32 7 :: bytes"
  show "OpenDataFrame demo_crypto (ke_rx \<lparr>ke_tx = [], ke_rx = ?k, ke_lastDataSeq = - 1, ke_pending = []\<rparr>) (rd_SessionID demo_frame) (rd_PacketSeq demo_frame)
      ?n (aead_seal demo_crypto ?k ?n [1, 2] (dataAAD ''s1'')) = Inr [1, 2]"
    using open_sealed [OF demo_aead_correct, of ?k "''s1''" 0 "[1, 2]"]
    by (simp add: SealDataFrame_def Let_def demo_frame_def AEADKeySize_def)
qed (simp_all add: demo_frame_def demo_peer_def demo_dest_def Let_def trimSpace_def is_space_def)

section \<open>A nonce of the wrong length\<close>

text \<open>
  A data frame can crash the destination: whoever sends a frame that names a session with
  keys and carries a nonce that is not twelve bytes long makes the cipher panic, before anything
  about the frame has been authenticated.
\<close>

theorem short_nonce_panics:
  assumes "trimSpace (rd_DstID f) = pe_localPeer E" "fst (relayV1BGetKeys rng now (rd_SessionID f) (rd_SrcID f) (rv_B s)) = Some (tx, rx)"
    and "length rx = AEADKeySize" "b64_decode (dc_Nonce (rd_Cipher f)) = Some nonce" "length nonce \<noteq> 12"
    and "b64_decode (dc_Ciphertext (rd_Cipher f)) = Some ct"
  shows "ServeRelayDataAsB C E rng now other f s = Inl Panic"
proof -
  obtain b where b: "relayV1BGetKeys rng now (rd_SessionID f) (rd_SrcID f) (rv_B s) = (Some (tx, rx), b)"
    using assms(2) by (cases "relayV1BGetKeys rng now (rd_SessionID f) (rd_SrcID f) (rv_B s)") auto
  show ?thesis using assms by (simp add: ServeRelayDataAsB_def b OpenDataFrame_def AEADNonceSize_def)
qed

theorem short_nonce_panics_witness:
  "ServeRelayDataAsB demo_crypto (demo_peer\<lparr>pe_localPeer := ''B''\<rparr>) rev second (\<lambda>b. b)
     (demo_frame\<lparr>rd_Cipher := noCipher\<rparr>) demo_dest = Inl Panic"
  by (rule short_nonce_panics [where tx = "[]" and rx = "replicate 32 7" and nonce = "[]" and ct = "[]"])
     (simp_all add: relayV1BGetKeys_def settled_purge [OF demo_dest_settled] Let_def,
      simp_all add: demo_frame_def demo_peer_def demo_dest_def Let_def trimSpace_def is_space_def noCipher_def AEADKeySize_def b64_decode_def)

end
