(* ===== verification/Chat_Relay_Session.thy ===== *)
theory Chat_Relay_Session
  imports Chat_Relay_Peer Raw_Tunnel
begin

text \<open>
  A chat relay session from end to end: the source of \<open>Chat_Relay_Peer\<close> talks to the forwarders
  of \<open>Chat_Relay_Table\<close>, which talk to the destination's handlers. Shown here: the session is
  established with the same keys at both ends, and every payload sent is handed to the
  destination's chat service, once and in order.
\<close>

section \<open>What registering leaves\<close>

lemma RegisterSession_new:
  assumes "rangeOrder rng" "tableInv t" "idFree sid src t" "sid \<noteq> []" "length (ct_sessions t) < chatRelayV1MaxSessionsTotal"
    and "expireAt < 2 ^ 62 - 1"
  shows "\<exists>t'. RegisterSession rng now sid src dst expireAt t = Some t' \<and> tableInv t' \<and>
    length (ct_sessions t') \<le> chatRelayV1MaxSessionsTotal \<and>
    map_of (ct_sessions t') sid = Some \<lparr>cr_srcID = src, cr_dstID = dst, cr_expireAt = expireAt, cr_createdAt = now div second\<rparr>"
proof -
  let ?u = "maybePurgeExpiredLocked rng now t"
  let ?P = "\<lambda>u. length (ct_sessions u) < chatRelayV1MaxSessionsTotal"
  have "?P ?u"
    by (rule rt.purge_keeps_all [where P = ?P]) (use assms(5) rt.remove_le(2) in \<open>auto intro: le_less_trans\<close>)
  moreover have "indexed cr_srcID (ct_sessions ?u) (ct_bySrc ?u)"
    using rt.purge_capInv assms(2) by (fastforce simp: tableInv_def capInv_def)
  moreover have "?P u \<Longrightarrow> ?P (removeSessionLocked v u)" for u v
    using rt.remove_le(2) [of v u] by simp
  ultimately obtain t' where t': "enforcePerSrcCapLocked src ?u = Some t'" "?P t'"
    using rt.enforce_makes_room [of ?u ?P src] by blast
  obtain t'' where "RegisterSession rng now sid src dst expireAt t = Some t''" "tableInv t''"
    using RegisterSession_step [OF assms(1-3,6)] by blast
  moreover have "length (AList.update sid r (ct_sessions t')) \<le> chatRelayV1MaxSessionsTotal" for r
    using t'(2) alist_update_bounds(1) [of sid r "ct_sessions t'"] by simp
  ultimately show ?thesis
    using t'(1) assms(4) by (auto simp: RegisterSession_def insertSession_def update_conv')
qed

lemma ValidSession_keeps:
  assumes "rangeOrder rng" "tableInv t" "length (ct_sessions t) \<le> chatRelayV1MaxSessionsTotal" "sessionOpen sid src dst n t"
  shows "\<exists>t'. ValidSession rng sid src dst n t = (True, t') \<and> tableInv t' \<and>
    length (ct_sessions t') \<le> chatRelayV1MaxSessionsTotal \<and> sessionOpen sid src dst n t'"
proof -
  have d: "distinct (map fst (ct_sessions t))" using assms(2) by (simp add: tableInv_def capInv_def indexed_def)
  let ?t = "maybePurgeExpiredLocked rng (n * second) t"
  obtain r where r: "map_of (ct_sessions t) sid = Some r" "cr_srcID r = src" "cr_dstID r = dst" "n \<le> cr_expireAt r"
    using assms(4) by (auto simp: sessionOpen_def split: option.splits)
  have "map_of (ct_sessions ?t) sid = Some r"
    by (rule rt.purge_map_of_unexpired [OF d assms(3,1) r(1)]) (use r(4) in \<open>simp add: second_def\<close>)
  then have "sessionOpen sid src dst n ?t" using r by (simp add: sessionOpen_def)
  moreover have "length (ct_sessions ?t) \<le> chatRelayV1MaxSessionsTotal"
    using rt.purge_bound assms(1,2) by (auto simp: tableInv_def)
  ultimately show ?thesis
    using ValidSession_complete [OF d assms(3,1,4)] assms(2) rt.purge_capInv by (auto simp: tableInv_def)
qed

text \<open>A session key of the destination belongs to one connect, when the identifiers have no NUL byte.\<close>

definition nulFree :: "string \<Rightarrow> bool" where
  "nulFree s \<longleftrightarrow> CHR 0x00 \<notin> set s"

lemma relayV1BKey_inject:
  assumes "nulFree sid" "nulFree src" "relayV1BKey sid src = relayV1BKey sid' src'"
  shows "sid' = sid \<and> src' = src"
proof -
  have "takeWhile (\<lambda>c. c \<noteq> CHR 0x00) (sid @ CHR 0x00 # src) = sid"
    using assms(1) by (simp add: nulFree_def takeWhile_append)
  have e: "sid @ CHR 0x00 # src = sid' @ CHR 0x00 # src'" using assms(3) by (simp add: relayV1BKey_def)
  have "filter (\<lambda>c. c = CHR 0x00) (sid' @ CHR 0x00 # src') = [CHR 0x00]"
  proof -
    have "filter (\<lambda>c. c = CHR 0x00) sid = []" "filter (\<lambda>c. c = CHR 0x00) src = []"
      using assms(1,2) by (auto simp: nulFree_def filter_empty_conv)
    then show ?thesis by (simp add: e [symmetric])
  qed
  then have "filter (\<lambda>c. c = CHR 0x00) sid' = []" by (cases "filter (\<lambda>c. c = CHR 0x00) sid'") auto
  then have "nulFree sid'" by (auto simp: nulFree_def filter_empty_conv)
  then have "takeWhile (\<lambda>c. c \<noteq> CHR 0x00) (sid' @ CHR 0x00 # src') = sid'"
    by (simp add: nulFree_def takeWhile_append)
  then have "sid' = sid" using \<open>takeWhile _ (sid @ _) = sid\<close> e by simp
  then show ?thesis using e by simp
qed

text \<open>The connect and the keys of one session at the destination.\<close>

definition destReady :: "string \<Rightarrow> string \<Rightarrow> int \<Rightarrow> relayV1KeyEntry option \<Rightarrow> relayV1B \<Rightarrow> bool" where
  "destReady sid src exp k b \<longleftrightarrow> destInv b \<and> length (rb_Connect b) \<le> relayV1BMaxSessionsTotal \<and>
     map_of (rb_Connect b) sid = Some \<lparr>br_srcID = src, br_expireAt = exp\<rparr> \<and> rb_Keys b (relayV1BKey sid src) = k"

lemma destReady_purge:
  assumes "rangeOrder rng" "destReady sid src exp k b" "now div second \<le> exp" "nulFree sid" "nulFree src"
  shows "destReady sid src exp k (relayV1BMaybePurgeLocked rng now b)"
proof -
  let ?b = "relayV1BMaybePurgeLocked rng now b" and ?key = "relayV1BKey sid src"
  have inv: "destInv b" "length (rb_Connect b) \<le> relayV1BMaxSessionsTotal" and c: "map_of (rb_Connect b) sid = Some \<lparr>br_srcID = src, br_expireAt = exp\<rparr>"
    using assms(2) by (auto simp: destReady_def)
  have d: "distinct (map fst (rb_Connect b))" using inv(1) by (simp add: destInv_def capInv_def indexed_def)
  have keep: "map_of (rb_Connect ?b) sid = Some \<lparr>br_srcID = src, br_expireAt = exp\<rparr>"
    by (rule bt.purge_map_of_unexpired [OF d inv(2) assms(1) c]) (use assms(3) in simp)
  let ?P = "\<lambda>u :: relayV1B. map_of (rb_Connect u) sid = Some \<lparr>br_srcID = src, br_expireAt = exp\<rparr> \<longrightarrow> rb_Keys u ?key = k"
  have "?P ?b"
  proof (rule bt.purge_keeps_all [where P = ?P])
    fix v u assume p: "?P u"
    show "?P (relayV1BRemoveConnectLocked v u)"
    proof (cases "v = sid \<or> map_of (rb_Connect u) v = None")
      case True
      then show ?thesis using p by (auto simp: relayV1BRemoveConnectLocked_def delete_conv' split: option.splits)
    next
      case False
      then obtain y where y: "v \<noteq> sid" "map_of (rb_Connect u) v = Some y" by auto
      then have "?key \<noteq> relayV1BKey v (br_srcID y)" using relayV1BKey_inject [OF assms(4,5)] by metis
      then show ?thesis using p y by (simp add: relayV1BRemoveConnectLocked_def delete_conv')
    qed
  qed (use assms(2) in \<open>simp_all add: destReady_def\<close>)
  then show ?thesis
    using keep bt.purge_bound [OF assms(1)] inv(1) destInv_purge [OF inv(1)] by (auto simp: destReady_def destInv_def)
qed


lemma TryRegister_new:
  assumes "rangeOrder rng" "destInv b" "length (rb_Connect b) < relayV1BMaxSessionsTotal" "map_of (rb_Connect b) sid = None"
    and "rb_Keys b (relayV1BKey sid src) = None" "sid \<noteq> []" "src \<noteq> []" "expireAt < 2 ^ 62 - 1"
    and "\<forall>prev. rb_LastConnectAt b src = Some prev \<longrightarrow> relayV1BMinConnectGap \<le> now - prev"
  shows "\<exists>b'. relayV1BTryRegisterConnect rng now sid src expireAt b = Some (True, b') \<and> destReady sid src expireAt None b'"
proof -
  define p where "p = relayV1BMaybePurgeLocked rng now b"
  define q where "q = p\<lparr>rb_LastConnectAt := (rb_LastConnectAt p)(src \<mapsto> now)\<rparr>"
  define P where "P u \<longleftrightarrow> destInv u \<and> length (rb_Connect u) < relayV1BMaxSessionsTotal \<and> map_of (rb_Connect u) sid = None \<and>
    rb_Keys u (relayV1BKey sid src) = None" for u :: relayV1B
  have rm: "P u \<Longrightarrow> P (relayV1BRemoveConnectLocked v u)" for u v
    using bt.remove_le(2) [of v u]
    by (auto simp: P_def destInv_remove bt.sess_remove delete_conv') (auto simp: relayV1BRemoveConnectLocked_def split: option.splits)
  have "P b" using assms(2-5) by (simp add: P_def)
  then have p: "P p" unfolding p_def by (intro bt.purge_keeps_all [where P = P] rm) (auto simp: P_def)
  have last: "rb_LastConnectAt p = rb_LastConnectAt b" unfolding p_def
    by (rule bt.purge_keeps_all [where P = "\<lambda>u. rb_LastConnectAt u = rb_LastConnectAt b"])
       (auto simp: relayV1BRemoveConnectLocked_def split: option.splits)
  have q: "q = p\<lparr>rb_LastConnectAt := (rb_LastConnectAt b)(src \<mapsto> now)\<rparr>" by (simp add: q_def last)
  have "P q" using p by (simp add: P_def q_def)
  moreover have "indexed br_srcID (rb_Connect q) (rb_BySrc q)" using \<open>P q\<close> by (simp add: P_def destInv_def capInv_def)
  ultimately obtain s1 where s1: "relayV1BEnforcePerSrcCapLocked src q = Some s1" "P s1" "length (rb_BySrc s1 src) < relayV1BMaxSessionsPerSrc"
    using bt.enforce_makes_room [of q P src] rm by blast
  have e: "relayV1BEvictOverflow rng s1 = s1" using s1(2) by (simp add: P_def relayV1BEvictOverflow.simps)
  let ?b = "insertConnect sid \<lparr>br_srcID = src, br_expireAt = expireAt\<rparr> s1"
  have "relayV1BTryRegisterConnect rng now sid src expireAt b = Some (True, ?b)"
    using assms(6,7,9) p s1(1) e last
    by (auto simp: relayV1BTryRegisterConnect_def Let_def p_def [symmetric] q [symmetric] P_def not_less split: option.splits)
  moreover have "destInv ?b" using s1 assms(6,8) by (intro destInv_insert) (auto simp: P_def)
  moreover have "length (AList.update sid r (rb_Connect s1)) \<le> relayV1BMaxSessionsTotal" for r
    using s1(2) alist_update_bounds(1) [of sid r "rb_Connect s1"] by (simp add: P_def)
  ultimately show ?thesis using s1(2) by (auto simp: destReady_def P_def insertConnect_def update_conv')
qed

section \<open>The three nodes\<close>

text \<open>
  The parameters of a path: the libraries, the three peers with their names, the private keys of
  the two ends, the public keys the ends know, one reading of the clock, range orders, and the
  random bytes of the destination.
\<close>

record relay_path =
  rl_I :: identity
  rl_C :: crypto
  rl_H :: hkdf
  rl_A :: string
  rl_R :: string
  rl_B :: string
  rl_Decode :: "string \<Rightarrow> string option"
  rl_String :: "string \<Rightarrow> string"
  rl_PubKey :: "string \<Rightarrow> bytes result"
  rl_privA :: bytes
  rl_privB :: bytes
  rl_now :: time
  rl_regRange :: reg_range
  rl_connRange :: conn_range
  rl_sessRange :: sess_range
  rl_rndB :: bytes

definition destEnv :: "relay_path \<Rightarrow> unit peer_env" where
  "destEnv p = \<lparr>pe_localPeer = rl_String p (rl_B p), pe_nodePriv = rl_privB p, pe_Decode = rl_Decode p, pe_String = rl_String p,
     pe_PubKey = rl_PubKey p, pe_connect = (\<lambda>w _ _. (DialFailed, w)), pe_handshake = (\<lambda>w _ _. (DialFailed, w)),
     pe_data = (\<lambda>w _ _. (DialFailed, w)), pe_heartbeat = (\<lambda>w _ _. (DialFailed, w))\<rparr>"

text \<open>The state of the destination and the payloads it has handed to its chat service.\<close>

type_synonym dest_world = "relayV1Service \<times> bytes list"

definition fwdEnv :: "relay_path \<Rightarrow> dest_world fwd_env" where
  "fwdEnv p = \<lparr>fe_Decode = rl_Decode p, fe_String = rl_String p,
     fe_connect = (\<lambda>(sB, out) pid req.
       if pid \<noteq> rl_B p then (DialFailed, (sB, out))
       else case ServeRelayConnectAsB (rl_I p) (destEnv p) (rl_connRange p) (rl_now p) (rl_now p) (rl_R p) req sB of
         Some (Some resp, sB') \<Rightarrow> (Reply resp, (sB', out))
       | Some (None, sB') \<Rightarrow> (NoReply, (sB', out))
       | None \<Rightarrow> (NoReply, (sB, out))),
     fe_handshake = (\<lambda>(sB, out) pid req.
       if pid \<noteq> rl_B p then (DialFailed, (sB, out))
       else case ServeRelayHandshakeAsB (rl_I p) (rl_C p) (rl_H p) (destEnv p)
           \<lparr>sv_range = rl_connRange p, sv_sessRange = rl_sessRange p, sv_now = rl_now p, sv_rnd = rl_rndB p, sv_other = (\<lambda>b. b), sv_writeOk = True\<rparr>
           (rl_R p) req sB of
         (Some resp, sB') \<Rightarrow> (Reply resp, (sB', out))
       | (None, sB') \<Rightarrow> (NoReply, (sB', out))),
     fe_data = (\<lambda>(sB, out) pid frame.
       if pid \<noteq> rl_B p then (DialFailed, (sB, out))
       else case ServeRelayDataAsB (rl_C p) (destEnv p) (rl_connRange p) (rl_now p) (\<lambda>b. b) frame sB of
         Inr (chunks, sB') \<Rightarrow> (Reply (), (sB', out @ chunks))
       | Inl _ \<Rightarrow> (Reply (), (sB, out))),
     fe_heartbeat = (\<lambda>w _ _. (DialFailed, w))\<rparr>"

type_synonym path_world = "dest_world \<times> ChatRelayV1Table \<times> Recorder option"

definition srcEnv :: "relay_path \<Rightarrow> path_world peer_env" where
  "srcEnv p = \<lparr>pe_localPeer = rl_String p (rl_A p), pe_nodePriv = rl_privA p, pe_Decode = rl_Decode p, pe_String = rl_String p,
     pe_PubKey = rl_PubKey p,
     pe_connect = (\<lambda>w pid req.
       if pid \<noteq> rl_R p then (DialFailed, w)
       else case ForwardRelayConnect (fwdEnv p) (rl_regRange p) (rl_now p) (rl_now p) (rl_A p) req w of
         Some (d, t, tr, Some resp) \<Rightarrow> (Reply resp, (d, t, tr))
       | Some (d, t, tr, None) \<Rightarrow> (NoReply, (d, t, tr))
       | None \<Rightarrow> (NoReply, w)),
     pe_handshake = (\<lambda>w pid req.
       if pid \<noteq> rl_R p then (DialFailed, w)
       else case ForwardRelayHandshake (fwdEnv p) (rl_regRange p) (rl_now p) (rl_A p) req w of
         (d, t, tr, Some resp) \<Rightarrow> (Reply resp, (d, t, tr))
       | (d, t, tr, None) \<Rightarrow> (NoReply, (d, t, tr))),
     pe_data = (\<lambda>w pid frame.
       if pid \<noteq> rl_R p then (DialFailed, w)
       else (Reply (), ForwardRelayData (fwdEnv p) (rl_regRange p) (rl_now p) (rl_A p) frame w)),
     pe_heartbeat = (\<lambda>w _ _. (DialFailed, w))\<rparr>"

text \<open>What the libraries promise along the path, and names that are what libp2p prints.\<close>

definition pathOk :: "relay_path \<Rightarrow> bool" where
  "pathOk p \<longleftrightarrow> signs (rl_I p) (rl_privA p) \<and> signs (rl_I p) (rl_privB p) \<and>
     rl_PubKey p (rl_A p) = Inr (id_Public (rl_I p) (rl_privA p)) \<and> rl_PubKey p (rl_B p) = Inr (id_Public (rl_I p) (rl_privB p)) \<and>
     (\<forall>x \<in> {rl_A p, rl_B p}. rl_Decode p (rl_String p x) = Some x \<and> trimSpace (rl_String p x) = rl_String p x \<and> rl_String p x \<noteq> []
        \<and> nulFree (rl_String p x)) \<and> rl_A p \<noteq> [] \<and>
     rangeOrder (rl_regRange p) \<and> rangeOrder (rl_connRange p) \<and> aead_correct (rl_C p) \<and>
     (\<forall>s salt i n. length (rl_H p s salt i n) = n)"


text \<open>The session of a path: its identifier, the names of its ends and the time it starts.\<close>

abbreviation nameA :: "relay_path \<Rightarrow> string" where "nameA p \<equiv> rl_String p (rl_A p)"
abbreviation nameB :: "relay_path \<Rightarrow> string" where "nameB p \<equiv> rl_String p (rl_B p)"
abbreviation unixNow :: "relay_path \<Rightarrow> int" where "unixNow p \<equiv> rl_now p div second"

definition timeOk :: "relay_path \<Rightarrow> bool" where
  "timeOk p \<longleftrightarrow> 0 \<le> unixNow p \<and> unixNow p < 2 ^ 61"

lemma wrap64_id: "- (2 ^ 63) \<le> x \<Longrightarrow> x < 2 ^ 63 \<Longrightarrow> wrap64 x = x"
  by (simp add: wrap64_def)

text \<open>The destination can take the connect of a new session.\<close>

definition destRoom :: "relay_path \<Rightarrow> string \<Rightarrow> relayV1B \<Rightarrow> bool" where
  "destRoom p sid b \<longleftrightarrow> destInv b \<and> length (rb_Connect b) < relayV1BMaxSessionsTotal \<and> map_of (rb_Connect b) sid = None \<and>
     rb_Keys b (relayV1BKey sid (nameA p)) = None \<and>
     (\<forall>prev. rb_LastConnectAt b (nameA p) = Some prev \<longrightarrow> relayV1BMinConnectGap \<le> rl_now p - prev)"

definition relayRoom :: "relay_path \<Rightarrow> string \<Rightarrow> ChatRelayV1Table \<Rightarrow> bool" where
  "relayRoom p sid t \<longleftrightarrow> tableInv t \<and> length (ct_sessions t) < chatRelayV1MaxSessionsTotal \<and> idFree sid (nameA p) t \<and>
     fst (AllowConnectForward (rl_now p) (rl_String p (rl_A p)) t)"

definition relayReady :: "relay_path \<Rightarrow> string \<Rightarrow> ChatRelayV1Table \<Rightarrow> bool" where
  "relayReady p sid t \<longleftrightarrow> tableInv t \<and> length (ct_sessions t) \<le> chatRelayV1MaxSessionsTotal \<and>
     sessionOpen sid (nameA p) (nameB p) (unixNow p) t"

definition startIn :: "relay_path \<Rightarrow> string \<Rightarrow> bytes \<Rightarrow> establish_in" where
  "startIn p sid rnd = \<lparr>ei_uuid = sid, ei_ts = unixNow p, ei_now1 = unixNow p, ei_hsTs = unixNow p, ei_now2 = unixNow p, ei_now3 = unixNow p, ei_rnd = rnd\<rparr>"

definition connectAnswer :: "relay_path \<Rightarrow> string \<Rightarrow> RelayConnectResponse" where
  "connectAnswer p sid = \<lparr>rp_Version = 1, rp_SessionID = sid, rp_SrcID = nameB p, rp_DstID = nameA p,
     rp_RelayID = rl_String p (rl_R p), rp_Accepted = True, rp_ExpireAt = unixNow p + 3600, rp_Signature = noSignature\<rparr>"

lemmas pathOk_facts = pathOk_def [THEN iffD1]

lemma env_simps [simp]:
  "pe_localPeer (destEnv p) = nameB p" "pe_nodePriv (destEnv p) = rl_privB p" "pe_String (destEnv p) = rl_String p"
  "pe_localPeer (srcEnv p) = nameA p" "pe_nodePriv (srcEnv p) = rl_privA p" "pe_String (srcEnv p) = rl_String p"
  "fe_Decode (fwdEnv p) = rl_Decode p" "fe_String (fwdEnv p) = rl_String p"
  by (simp_all add: destEnv_def srcEnv_def fwdEnv_def)

lemma pub_keys:
  assumes "pathOk p"
  shows "pubKeyForPeer (destEnv p) (nameA p) = Inr (id_Public (rl_I p) (rl_privA p))"
    "pubKeyForPeer (srcEnv p) (nameB p) = Inr (id_Public (rl_I p) (rl_privB p))"
    "relayV1InboundSrcMatchesRemotePeer (fwdEnv p) (rl_A p) (nameA p)"
  using pathOk_facts [OF assms]
  by (simp_all add: pubKeyForPeer_def destEnv_def srcEnv_def fwdEnv_def relayV1InboundSrcMatchesRemotePeer_def)

lemma serve_connect:
  assumes p: "pathOk p" "timeOk p" "sid \<noteq> []" and b: "destRoom p sid (rv_B s)"
    and q: "q = connectRequest (srcEnv p) (startIn p sid rnd) (nameB p)"
      "VerifyEd25519 (rl_I p) (id_Public (rl_I p) (rl_privA p)) signPrefixConnect (CanonicalConnect q) (sb_Value sig) = None"
  shows "\<exists>g b'. ServeRelayConnectAsB (rl_I p) (destEnv p) (rl_connRange p) (rl_now p) (rl_now p) (rl_R p) (q\<lparr>rq_Signature := sig\<rparr>) s =
      Some (Some ((connectAnswer p sid)\<lparr>rp_Signature := g\<rparr>), s\<lparr>rv_B := b'\<rparr>) \<and>
    destReady sid (nameA p) (unixNow p + 3600) None b' \<and>
    VerifyEd25519 (rl_I p) (id_Public (rl_I p) (rl_privB p)) signPrefixConnectResp (CanonicalConnectResponse (connectAnswer p sid)) (sb_Value g) = None"
proof -
  note ok = pathOk_facts [OF p(1)]
  have e: "wrap64 (unixNow p + 3600) = unixNow p + 3600" using p(2) by (intro wrap64_id) (auto simp: timeOk_def)
  obtain b' where b': "relayV1BTryRegisterConnect (rl_connRange p) (rl_now p) sid (nameA p) (unixNow p + 3600) (rv_B s) = Some (True, b')"
      "destReady sid (nameA p) (unixNow p + 3600) None b'"
    using TryRegister_new [of "rl_connRange p" "rv_B s" sid "nameA p" "unixNow p + 3600" "rl_now p"] ok p b
    by (auto simp: destRoom_def timeOk_def)
  obtain g where g: "SignBytes (rl_I p) (rl_privB p) signPrefixConnectResp (CanonicalConnectResponse (connectAnswer p sid)) = Inr g"
      "VerifyEd25519 (rl_I p) (id_Public (rl_I p) (rl_privB p)) signPrefixConnectResp (CanonicalConnectResponse (connectAnswer p sid)) (sb_Value g) = None"
    using sign_verify ok by blast
  have f: "rq_SrcID q = nameA p" "rq_DstID q = nameB p" "rq_SessionID q = sid" "rq_Timestamp q = unixNow p" "rq_TTLSec q = 3600"
    by (simp_all add: q(1) connectRequest_def startIn_def)
  show ?thesis
    using ok b' g q(2) pub_keys(1) [OF p(1)] unfolding connectAnswer_def
    by (intro exI [of _ g] exI [of _ b']) (simp add: ServeRelayConnectAsB_def Let_def f e)
qed


lemma AllowConnectForward_keeps:
  "ct_sessions (snd (AllowConnectForward now pid t)) = ct_sessions t" "ct_bySrc (snd (AllowConnectForward now pid t)) = ct_bySrc t"
  by (simp_all add: AllowConnectForward_def split: option.split)

lemma connect_through_relay:
  assumes p: "pathOk p" "timeOk p" "sid \<noteq> []" and b: "destRoom p sid (rv_B s)" and t: "relayRoom p sid t"
    and q: "q = connectRequest (srcEnv p) (startIn p sid rnd) (nameB p)" "relayV1SigBlockPresent sig"
      "VerifyEd25519 (rl_I p) (id_Public (rl_I p) (rl_privA p)) signPrefixConnect (CanonicalConnect q) (sb_Value sig) = None"
  shows "\<exists>g b' t' tr'. pe_connect (srcEnv p) ((s, out), t, tr) (rl_R p) (q\<lparr>rq_Signature := sig\<rparr>) =
      (Reply ((connectAnswer p sid)\<lparr>rp_Signature := g\<rparr>), ((s\<lparr>rv_B := b'\<rparr>, out), t', tr')) \<and>
    destReady sid (nameA p) (unixNow p + 3600) None b' \<and> relayReady p sid t' \<and>
    VerifyEd25519 (rl_I p) (id_Public (rl_I p) (rl_privB p)) signPrefixConnectResp (CanonicalConnectResponse (connectAnswer p sid)) (sb_Value g) = None"
proof -
  note ok = pathOk_facts [OF p(1)]
  obtain g b' where serve: "ServeRelayConnectAsB (rl_I p) (destEnv p) (rl_connRange p) (rl_now p) (rl_now p) (rl_R p) (q\<lparr>rq_Signature := sig\<rparr>) s =
      Some (Some ((connectAnswer p sid)\<lparr>rp_Signature := g\<rparr>), s\<lparr>rv_B := b'\<rparr>)" "destReady sid (nameA p) (unixNow p + 3600) None b'"
      "VerifyEd25519 (rl_I p) (id_Public (rl_I p) (rl_privB p)) signPrefixConnectResp (CanonicalConnectResponse (connectAnswer p sid)) (sb_Value g) = None"
    using serve_connect [OF p b q(1,3)] by blast
  obtain u where u: "AllowConnectForward (rl_now p) (nameA p) t = (True, u)" "ct_sessions u = ct_sessions t" "ct_bySrc u = ct_bySrc t"
    using t AllowConnectForward_keeps [of "rl_now p" "nameA p" t]
    by (cases "AllowConnectForward (rl_now p) (nameA p) t") (auto simp: relayRoom_def)
  have room: "tableInv u" "idFree sid (nameA p) u" "length (ct_sessions u) < chatRelayV1MaxSessionsTotal"
    using t u by (simp_all add: relayRoom_def tableInv_def idFree_def)
  obtain t' where t': "RegisterSession (rl_regRange p) (rl_now p) sid (nameA p) (nameB p) (unixNow p + 3600) u = Some t'" "relayReady p sid t'"
    using RegisterSession_new [of "rl_regRange p" u sid "nameA p" "unixNow p + 3600" "rl_now p" "nameB p"] room p ok
    by (auto simp: relayReady_def sessionOpen_def timeOk_def)
  have f: "rq_SrcID q = nameA p" "rq_DstID q = nameB p" "rq_SessionID q = sid" by (simp_all add: q(1) connectRequest_def startIn_def)
  have dial: "fe_connect (fwdEnv p) (s, out) (rl_B p) (q\<lparr>rq_Signature := sig\<rparr>) = (Reply ((connectAnswer p sid)\<lparr>rp_Signature := g\<rparr>), (s\<lparr>rv_B := b'\<rparr>, out))"
    by (simp add: fwdEnv_def serve(1))
  have a: "rp_Accepted (connectAnswer p sid)" "rp_SessionID (connectAnswer p sid) = sid" "rp_ExpireAt (connectAnswer p sid) = unixNow p + 3600"
    by (simp_all add: connectAnswer_def)
  obtain tr' where "ForwardRelayConnect (fwdEnv p) (rl_regRange p) (rl_now p) (rl_now p) (rl_A p) (q\<lparr>rq_Signature := sig\<rparr>) ((s, out), t, tr) =
      Some ((s\<lparr>rv_B := b'\<rparr>, out), t', tr', Some ((connectAnswer p sid)\<lparr>rp_Signature := g\<rparr>))"
    using ok q(2) u(1) t'(1) pub_keys(3) [OF p(1)] by (simp add: ForwardRelayConnect_def f dial a)
  then have "pe_connect (srcEnv p) ((s, out), t, tr) (rl_R p) (q\<lparr>rq_Signature := sig\<rparr>) =
      (Reply ((connectAnswer p sid)\<lparr>rp_Signature := g\<rparr>), ((s\<lparr>rv_B := b'\<rparr>, out), t', tr'))"
    by (simp add: srcEnv_def)
  then show ?thesis using serve(2,3) t'(2) by blast
qed

lemma establish_connects:
  assumes p: "pathOk p" "timeOk p" "sid \<noteq> []" and b: "destRoom p sid (rv_B s)" and t: "relayRoom p sid t"
  shows "\<exists>b' t' tr'. establishConnect (rl_I p) (srcEnv p) (startIn p sid rnd) (rl_R p) (nameB p) (st, ((s, out), t, tr)) =
      (Inr (id_Public (rl_I p) (rl_privB p)),
       st\<lparr>ps_sessionID := sid, ps_relay := rl_R p, ps_expireAt := unixNow p + 3600\<rparr>, ((s\<lparr>rv_B := b'\<rparr>, out), t', tr')) \<and>
    destReady sid (nameA p) (unixNow p + 3600) None b' \<and> relayReady p sid t'"
proof -
  note ok = pathOk_facts [OF p(1)]
  let ?q = "connectRequest (srcEnv p) (startIn p sid rnd) (nameB p)"
  obtain sig where sig: "SignBytes (rl_I p) (rl_privA p) signPrefixConnect (CanonicalConnect ?q) = Inr sig" "relayV1SigBlockPresent sig"
      "VerifyEd25519 (rl_I p) (id_Public (rl_I p) (rl_privA p)) signPrefixConnect (CanonicalConnect ?q) (sb_Value sig) = None"
    using sign_verify [of "rl_I p" "rl_privA p" signPrefixConnect "CanonicalConnect ?q"] ok by (auto simp: relayV1SigBlockPresent_def)
  obtain g b' t' tr' where ex: "pe_connect (srcEnv p) ((s, out), t, tr) (rl_R p) (?q\<lparr>rq_Signature := sig\<rparr>) =
      (Reply ((connectAnswer p sid)\<lparr>rp_Signature := g\<rparr>), ((s\<lparr>rv_B := b'\<rparr>, out), t', tr'))"
      "destReady sid (nameA p) (unixNow p + 3600) None b'" "relayReady p sid t'"
      "VerifyEd25519 (rl_I p) (id_Public (rl_I p) (rl_privB p)) signPrefixConnectResp (CanonicalConnectResponse (connectAnswer p sid)) (sb_Value g) = None"
    using connect_through_relay [OF p b t refl sig(2,3)] by blast
  have e: "wrap64 (unixNow p + 3600) = unixNow p + 3600" using p(2) by (intro wrap64_id) (auto simp: timeOk_def)
  have "relayV1ValidateConnectResponse (srcEnv p) ((connectAnswer p sid)\<lparr>rp_Signature := g\<rparr>) (nameB p) (rl_R p) sid (unixNow p) 3600 (unixNow p) = None"
    by (simp add: relayV1ValidateConnectResponse_def connectAnswer_def e Let_def wrap64_id relayV1EstablishExpireSkewSec_def)
  moreover have "rp_Accepted (connectAnswer p sid)" "rp_ExpireAt (connectAnswer p sid) = unixNow p + 3600" by (simp_all add: connectAnswer_def)
  moreover have "ei_uuid (startIn p sid rnd) = sid" "ei_ts (startIn p sid rnd) = unixNow p" "ei_now1 (startIn p sid rnd) = unixNow p"
    by (simp_all add: startIn_def)
  ultimately have "establishConnect (rl_I p) (srcEnv p) (startIn p sid rnd) (rl_R p) (nameB p) (st, ((s, out), t, tr)) =
      (Inr (id_Public (rl_I p) (rl_privB p)),
       st\<lparr>ps_sessionID := sid, ps_relay := rl_R p, ps_expireAt := unixNow p + 3600\<rparr>, ((s\<lparr>rv_B := b'\<rparr>, out), t', tr'))"
    using sig(1) ex(1,4) pub_keys(2) [OF p(1)] by (simp add: establishConnect_def Let_def)
  then show ?thesis using ex(2,3) by blast
qed


section \<open>The handshake\<close>

definition freshKeys :: "bytes \<Rightarrow> bytes \<Rightarrow> relayV1KeyEntry" where
  "freshKeys tx rx = \<lparr>ke_tx = tx, ke_rx = rx, ke_lastDataSeq = - 1, ke_pending = []\<rparr>"

lemma destReady_valid:
  assumes "destReady sid src exp k b" "now div second \<le> exp"
  shows "relayV1BConnectValidLocked now sid src b"
  using assms by (simp add: destReady_def relayV1BConnectValidLocked_def)

lemma destReady_store:
  assumes "destReady sid src exp None b"
  shows "destReady sid src exp (Some (freshKeys tx rx)) (relayV1BStoreKeysLocked (relayV1BKey sid src) tx rx b)"
  using assms destInv_keys [of b sid src "freshKeys tx rx"]
  by (simp add: destReady_def relayV1BStoreKeysLocked_def freshKeys_def)

lemma Activate_keeps_tables [simp]:
  "rv_B (relayV1ActivateOutboundSession rng now used dst relay sid exp tx rx s) = rv_B s"
proof -
  have "rv_B (snd (relayV1SessionFor rng now dst s)) = rv_B s"
    by (simp add: relayV1SessionFor_def relayV1MaybePurgeStaleRelaySessionsLocked_def Let_def split: option.split)
  then show ?thesis
    by (cases "relayV1SessionFor rng now dst s") (simp add: relayV1ActivateOutboundSession_def putSession_def)
qed

definition handshakeAnswer :: "relay_path \<Rightarrow> string \<Rightarrow> bytes \<Rightarrow> RelayHandshake" where
  "handshakeAnswer p sid pub = handshakeRequest (destEnv p) sid (nameB p) (nameA p) pub (unixNow p)"

lemma serve_handshake:
  assumes p: "pathOk p" "timeOk p" "nulFree sid" and b: "destReady sid (nameA p) (unixNow p + 3600) None (rv_B s)"
    and q: "q = handshakeRequest (srcEnv p) sid (nameA p) (nameB p) pubA ts" "length pubA = X25519KeySize"
      "VerifyEd25519 (rl_I p) (id_Public (rl_I p) (rl_privA p)) signPrefixHandshake (CanonicalHandshake q) (sb_Value sig) = None"
    and key: "GenerateEphemeralKeyPair (rl_C p) (rl_rndB p) = Inr (privB, pubB)"
      "X25519SharedSecret (rl_C p) privB pubA = Inr shared" "DeriveRelaySessionKeys (rl_H p) shared sid False = Inr (tx, rx)"
    and x: "x = \<lparr>sv_range = rl_connRange p, sv_sessRange = rl_sessRange p, sv_now = rl_now p, sv_rnd = rl_rndB p, sv_other = (\<lambda>b. b), sv_writeOk = True\<rparr>"
  shows "\<exists>g s'. ServeRelayHandshakeAsB (rl_I p) (rl_C p) (rl_H p) (destEnv p) x (rl_R p) (q\<lparr>rk_Signature := sig\<rparr>) s =
      (Some ((handshakeAnswer p sid pubB)\<lparr>rk_Signature := g\<rparr>), s') \<and>
    destReady sid (nameA p) (unixNow p + 3600) (Some (freshKeys tx rx)) (rv_B s') \<and>
    VerifyEd25519 (rl_I p) (id_Public (rl_I p) (rl_privB p)) signPrefixHandshake (CanonicalHandshake (handshakeAnswer p sid pubB)) (sb_Value g) = None"
proof -
  note ok = pathOk_facts [OF p(1)]
  have e: "rl_now p div second \<le> unixNow p + 3600" by simp
  note purge = destReady_purge [where rng = "rl_connRange p" and now = "rl_now p", OF _ _ e p(3)]
  define b1 where "b1 = relayV1BMaybePurgeLocked (rl_connRange p) (rl_now p) (rv_B s)"
  define b2 where "b2 = relayV1BMaybePurgeLocked (rl_connRange p) (rl_now p) b1"
  define b3 where "b3 = relayV1BMaybePurgeLocked (rl_connRange p) (rl_now p) b2"
  define b4 where "b4 = relayV1BStoreKeysLocked (relayV1BKey sid (nameA p)) tx rx b3"
  define b5 where "b5 = relayV1BMaybePurgeLocked (rl_connRange p) (rl_now p) b4"
  have r: "destReady sid (nameA p) (unixNow p + 3600) None b1" "destReady sid (nameA p) (unixNow p + 3600) None b2"
      "destReady sid (nameA p) (unixNow p + 3600) None b3"
    unfolding b3_def b2_def b1_def using b ok purge by simp_all
  have r5: "destReady sid (nameA p) (unixNow p + 3600) (Some (freshKeys tx rx)) b5"
    unfolding b5_def b4_def using destReady_store [OF r(3)] ok purge by simp
  note valid = r [THEN destReady_valid, OF e]
  have keys: "rb_Keys b2 (relayV1BKey sid (nameA p)) = None" "rb_Keys b3 (relayV1BKey sid (nameA p)) = None"
    "map_of (rb_Connect b5) sid = Some \<lparr>br_srcID = nameA p, br_expireAt = unixNow p + 3600\<rparr>"
    using r r5 by (simp_all add: destReady_def)
  obtain g where g: "SignBytes (rl_I p) (rl_privB p) signPrefixHandshake (CanonicalHandshake (handshakeAnswer p sid pubB)) = Inr g"
      "VerifyEd25519 (rl_I p) (id_Public (rl_I p) (rl_privB p)) signPrefixHandshake (CanonicalHandshake (handshakeAnswer p sid pubB)) (sb_Value g) = None"
    using sign_verify ok by blast
  have f: "rk_SrcID q = nameA p" "rk_DstID q = nameB p" "rk_SessionID q = sid" "rk_EphPub q = b64_encode pubA"
    by (simp_all add: q(1) handshakeRequest_def)
  have gates: "relayV1BHasConnect (rl_connRange p) (rl_now p) (rl_now p) sid (nameA p) (rv_B s) = (True, b1)"
      "handshakeGate (rl_connRange p) (rl_now p) sid (nameA p) b1 = (True, b2)"
      "handshakeGate (rl_connRange p) (rl_now p) sid (nameA p) b2 = (True, b3)"
      "relayV1BConnectExpire (rl_connRange p) (rl_now p) sid b4 = (unixNow p + 3600, b5)"
    using valid keys by (simp_all add: relayV1BHasConnect_def handshakeGate_def relayV1BConnectExpire_def Let_def
        b1_def [symmetric] b2_def [symmetric] b3_def [symmetric] b5_def [symmetric])
  have pos: "0 < unixNow p + 3600" using p(2) by (simp add: timeOk_def)
  have "\<exists>s'. ServeRelayHandshakeAsB (rl_I p) (rl_C p) (rl_H p) (destEnv p) x (rl_R p) (q\<lparr>rk_Signature := sig\<rparr>) s =
      (Some ((handshakeAnswer p sid pubB)\<lparr>rk_Signature := g\<rparr>), s') \<and> rv_B s' = b5"
    using ok q(2,3) key g(1) pub_keys(1) [OF p(1)] pos
    unfolding handshakeAnswer_def
    by (simp add: ServeRelayHandshakeAsB_def Let_def x f gates b4_def [symmetric])
  then show ?thesis using r5 g(2) by blast
qed


lemma establish_handshakes:
  assumes p: "pathOk p" "timeOk p" "nulFree sid" "sid \<noteq> []"
    and ready: "destReady sid (nameA p) (unixNow p + 3600) None (rv_B s)" "relayReady p sid t"
    and gen: "GenerateEphemeralKeyPair (rl_C p) rnd = Inr (privA, pubA)" "GenerateEphemeralKeyPair (rl_C p) (rl_rndB p) = Inr (privB, pubB)"
    and dh: "X25519SharedSecret (rl_C p) privA pubB = Inr shared" "X25519SharedSecret (rl_C p) privB pubA = Inr shared"
      "length pubA = X25519KeySize" "length pubB = X25519KeySize" "length shared = X25519KeySize"
  shows "\<exists>tx rx s' t' tr'. establishHandshake (rl_I p) (rl_C p) (rl_H p) (srcEnv p) (startIn p sid rnd) (id_Public (rl_I p) (rl_privB p)) (rl_R p) (nameB p)
        (st, ((s, out), t, tr)) =
      (None, st\<lparr>ps_txKey := tx, ps_rxKey := rx, ps_packetSeq := 0, ps_handshakeOK := True, ps_lastUsedUnix := unixNow p\<rparr>, ((s', out), t', tr')) \<and>
    destReady sid (nameA p) (unixNow p + 3600) (Some (freshKeys rx tx)) (rv_B s') \<and> relayReady p sid t' \<and>
    length tx = AEADKeySize \<and> length rx = AEADKeySize"
proof -
  note ok = pathOk_facts [OF p(1)]
  obtain tx rx where keys: "DeriveRelaySessionKeys (rl_H p) shared sid True = Inr (tx, rx)" "DeriveRelaySessionKeys (rl_H p) shared sid False = Inr (rx, tx)"
      "length tx = AEADKeySize" "length rx = AEADKeySize"
    using DeriveRelaySessionKeys_agree [of "rl_H p" shared sid] ok dh(5) p(4) by auto
  let ?q = "handshakeRequest (srcEnv p) sid (nameA p) (nameB p) pubA (unixNow p)"
  obtain sig where sig: "SignBytes (rl_I p) (rl_privA p) signPrefixHandshake (CanonicalHandshake ?q) = Inr sig" "relayV1SigBlockPresent sig"
      "VerifyEd25519 (rl_I p) (id_Public (rl_I p) (rl_privA p)) signPrefixHandshake (CanonicalHandshake ?q) (sb_Value sig) = None"
    using sign_verify [of "rl_I p" "rl_privA p" signPrefixHandshake "CanonicalHandshake ?q"] ok by (auto simp: relayV1SigBlockPresent_def)
  let ?x = "\<lparr>sv_range = rl_connRange p, sv_sessRange = rl_sessRange p, sv_now = rl_now p, sv_rnd = rl_rndB p, sv_other = (\<lambda>b. b), sv_writeOk = True\<rparr>"
  obtain g s' where serve: "ServeRelayHandshakeAsB (rl_I p) (rl_C p) (rl_H p) (destEnv p) ?x (rl_R p) (?q\<lparr>rk_Signature := sig\<rparr>) s =
      (Some ((handshakeAnswer p sid pubB)\<lparr>rk_Signature := g\<rparr>), s')"
      "destReady sid (nameA p) (unixNow p + 3600) (Some (freshKeys rx tx)) (rv_B s')"
      "VerifyEd25519 (rl_I p) (id_Public (rl_I p) (rl_privB p)) signPrefixHandshake (CanonicalHandshake (handshakeAnswer p sid pubB)) (sb_Value g) = None"
    using serve_handshake [OF p(1-3) ready(1) refl dh(3) sig(3) gen(2) dh(2) keys(2) refl] by blast
  have f: "rk_SrcID ?q = nameA p" "rk_DstID ?q = nameB p" "rk_SessionID ?q = sid" by (simp_all add: handshakeRequest_def)
  have dial: "fe_handshake (fwdEnv p) (s, out) (rl_B p) (?q\<lparr>rk_Signature := sig\<rparr>) = (Reply ((handshakeAnswer p sid pubB)\<lparr>rk_Signature := g\<rparr>), (s', out))"
    by (simp add: fwdEnv_def serve(1))
  obtain t' where t': "ValidSession (rl_regRange p) sid (nameA p) (nameB p) (unixNow p) t = (True, t')" "relayReady p sid t'"
    using ValidSession_keeps [of "rl_regRange p" t sid "nameA p" "nameB p" "unixNow p"] ready(2) ok by (auto simp: relayReady_def)
  obtain tr' where "ForwardRelayHandshake (fwdEnv p) (rl_regRange p) (rl_now p) (rl_A p) (?q\<lparr>rk_Signature := sig\<rparr>) ((s, out), t, tr) =
      ((s', out), t', tr', Some ((handshakeAnswer p sid pubB)\<lparr>rk_Signature := g\<rparr>))"
    using ok sig(2) t'(1) pub_keys(3) [OF p(1)] by (simp add: ForwardRelayHandshake_def f dial)
  then have ex: "pe_handshake (srcEnv p) ((s, out), t, tr) (rl_R p) (?q\<lparr>rk_Signature := sig\<rparr>) =
      (Reply ((handshakeAnswer p sid pubB)\<lparr>rk_Signature := g\<rparr>), ((s', out), t', tr'))"
    by (simp add: srcEnv_def)
  have v: "relayV1ValidateHandshakeResponse (srcEnv p) ((handshakeAnswer p sid pubB)\<lparr>rk_Signature := g\<rparr>) (nameB p) sid ?q (unixNow p)"
      "rk_EphPub (handshakeAnswer p sid pubB) = b64_encode pubB"
    by (simp_all add: relayV1ValidateHandshakeResponse_def handshakeAnswer_def handshakeRequest_def relayV1EstablishHsTimestampSkewSec_def)
  have x: "ei_uuid (startIn p sid rnd) = sid" "ei_hsTs (startIn p sid rnd) = unixNow p" "ei_now2 (startIn p sid rnd) = unixNow p"
      "ei_now3 (startIn p sid rnd) = unixNow p" "ei_rnd (startIn p sid rnd) = rnd"
    by (simp_all add: startIn_def)
  have "establishHandshake (rl_I p) (rl_C p) (rl_H p) (srcEnv p) (startIn p sid rnd) (id_Public (rl_I p) (rl_privB p)) (rl_R p) (nameB p)
        (st, ((s, out), t, tr)) =
      (None, st\<lparr>ps_txKey := tx, ps_rxKey := rx, ps_packetSeq := 0, ps_handshakeOK := True, ps_lastUsedUnix := unixNow p\<rparr>, ((s', out), t', tr'))"
    using gen(1) sig(1) ex v serve(3) dh keys(1) by (simp add: establishHandshake_def Let_def x)
  then show ?thesis using serve(2) t'(2) keys(3,4) by blast
qed

section \<open>Data\<close>

text \<open>Short names, as peer IDs and session IDs are, and payloads of at most a million bytes fit a relay frame.\<close>

definition shortName :: "string \<Rightarrow> bool" where
  "shortName s \<longleftrightarrow> ascii s \<and> length s \<le> 200"

lemma data_frame_fits:
  assumes "aead_overhead C" "SealDataFrame C tx sid seq payload = Inr nc" "shortName sid" "shortName src" "shortName dst"
    and "length payload \<le> 1000000" and "ps_sessionID st = sid" "pe_localPeer E = src"
  shows "approxRelayDataSize (dataFrame E dst st nc) \<le> MaxRelayV1FrameBytes"
proof -
  have n: "length (fst nc) = 12" "length (snd nc) = length payload + 16"
    using assms(1,2) by (auto simp: SealDataFrame_def Let_def aead_overhead_def AEADNonceSize_def split: if_splits)
  note q = length_json_quote_ascii [of sid] length_json_quote_ascii [of src] length_json_quote_ascii [of dst]
    length_json_quote_ascii [OF ascii_b64_encode, of "fst nc"] length_json_quote_ascii [OF ascii_b64_encode, of "snd nc"]
    length_b64_encode [of "fst nc"] length_b64_encode [of "snd nc"] length_show_u64 [of "ps_packetSeq st"]
  have k: "length (json_quote ''version'') = 9" "length (json_quote ''session_id'') = 12" "length (json_quote ''src_id'') = 8"
    "length (json_quote ''dst_id'') = 8" "length (json_quote ''packet_seq'') = 12" "length (json_quote ''cipher'') = 8"
    "length (json_quote ''algorithm'') = 11" "length (json_quote ''nonce'') = 7" "length (json_quote ''ciphertext'') = 12"
    "length (json_quote ''chacha20-poly1305'') = 19" "length (show_int 1) = 1"
    by (simp_all add: json_quote_def json_esc_def show_int_def show_nat.simps)
  show ?thesis
    using q n assms(3-8)
    by (simp add: approxRelayDataSize_def dataFrame_def json_marshal_def marshal_tree_def enc_RelayDataFrame_def enc_RelayDataCipher_def
        jint_def k shortName_def MaxRelayV1FrameBytes_def)
qed

lemma packet_through_relay:
  assumes p: "pathOk p" "timeOk p" "nulFree sid"
    and ready: "destReady sid (nameA p) (unixNow p + 3600) (Some k) (rv_B s)" "relayReady p sid t"
    and k: "ke_lastDataSeq k = of_nat n - 1" "ke_pending k = []" "ke_rx k = ps_txKey st" "n + 1 < 2 ^ 64"
    and st: "ps_sessionID st = sid" "ps_packetSeq st = of_nat n" "length (ps_txKey st) = AEADKeySize"
    and fit: "aead_overhead (rl_C p)" "shortName sid" "shortName (nameA p)" "shortName (nameB p)" "length payload \<le> 1000000"
  shows "\<exists>s' t' tr' k'. sendPacket (rl_C p) (srcEnv p) used (rl_R p) (nameB p) payload (st, ((s, out), t, tr)) =
      (None, st\<lparr>ps_packetSeq := of_nat (Suc n), ps_lastUsedUnix := used, ps_stopHB := True\<rparr>, ((s', out @ [payload]), t', tr')) \<and>
    destReady sid (nameA p) (unixNow p + 3600) (Some k') (rv_B s') \<and> relayReady p sid t' \<and>
    ke_lastDataSeq k' = of_nat (Suc n) - 1 \<and> ke_pending k' = [] \<and> ke_rx k' = ke_rx k"
proof -
  note ok = pathOk_facts [OF p(1)]
  have e: "rl_now p div second \<le> unixNow p + 3600" by simp
  note purge = destReady_purge [where rng = "rl_connRange p" and now = "rl_now p", OF _ _ e p(3)]
  obtain nonce ct where seal: "SealDataFrame (rl_C p) (ps_txKey st) sid (of_nat n) payload = Inr (nonce, ct)"
    using st(3) by (simp add: SealDataFrame_def Let_def)
  define frame where "frame = dataFrame (srcEnv p) (nameB p) st (nonce, ct)"
  have f: "rd_SessionID frame = sid" "rd_SrcID frame = nameA p" "rd_DstID frame = nameB p" "rd_PacketSeq frame = of_nat n"
      "dc_Nonce (rd_Cipher frame) = b64_encode nonce" "dc_Ciphertext (rd_Cipher frame) = b64_encode ct"
    using st by (simp_all add: frame_def dataFrame_def)
  have size: "approxRelayDataSize frame \<le> MaxRelayV1FrameBytes"
    unfolding frame_def by (rule data_frame_fits [OF fit(1) seal fit(2-5) st(1)]) simp
  define k' where "k' = k\<lparr>ke_lastDataSeq := of_nat (Suc n) - 1, ke_pending := []\<rparr>"
  have ing: "ingestPacket (of_nat n) payload k = ([payload], k')"
  proof -
    have w: "(of_nat n - 1 = (- 1 :: u64)) = (n = 0)" "n \<noteq> 0 \<Longrightarrow> \<not> (of_nat n :: u64) \<le> of_nat n - 1"
      using word_of_nat_facts [of n "2 ^ 64 - 1" n] k(4) by simp_all
    show ?thesis using k(1,2) w by (cases "n = 0") (simp_all add: k'_def ingestPacket_def Let_def flushPending.simps)
  qed
  define b1 where "b1 = relayV1BMaybePurgeLocked (rl_connRange p) (rl_now p) (rv_B s)"
  define b2 where "b2 = relayV1BMaybePurgeLocked (rl_connRange p) (rl_now p) b1"
  have r: "destReady sid (nameA p) (unixNow p + 3600) (Some k) b1" "destReady sid (nameA p) (unixNow p + 3600) (Some k) b2"
    unfolding b2_def b1_def using ready(1) ok purge by simp_all
  define b3 where "b3 = b2\<lparr>rb_Keys := (rb_Keys b2)(relayV1BKey sid (nameA p) \<mapsto> k')\<rparr>"
  have "destReady sid (nameA p) (unixNow p + 3600) (Some k') b3"
    using r(2) destInv_keys [of b2 sid "nameA p" k'] by (simp add: destReady_def b3_def)
  moreover have "ServeRelayDataAsB (rl_C p) (destEnv p) (rl_connRange p) (rl_now p) (\<lambda>b. b) frame s = Inr ([payload], s\<lparr>rv_B := b3\<rparr>)"
  proof -
    have "rb_Keys b1 (relayV1BKey sid (nameA p)) = Some k" "rb_Keys b2 (relayV1BKey sid (nameA p)) = Some k"
      using r by (simp_all add: destReady_def)
    moreover have "OpenDataFrame (rl_C p) (ke_rx k) sid (of_nat n) nonce ct = Inr payload"
      using open_sealed [OF _ seal] ok k(3) by simp
    ultimately show ?thesis
      using ok ing by (simp add: ServeRelayDataAsB_def f relayV1BGetKeys_def relayV1BIngestRelayDataPacket_def Let_def
          b1_def [symmetric] b2_def [symmetric] b3_def)
  qed
  then have dial: "fe_data (fwdEnv p) (s, out) (rl_B p) frame = (Reply (), (s\<lparr>rv_B := b3\<rparr>, out @ [payload]))" by (simp add: fwdEnv_def)
  obtain t' where t': "ValidSession (rl_regRange p) sid (nameA p) (nameB p) (unixNow p) t = (True, t')" "relayReady p sid t'"
    using ValidSession_keeps [of "rl_regRange p" t sid "nameA p" "nameB p" "unixNow p"] ready(2) ok by (auto simp: relayReady_def)
  obtain tr' where "ForwardRelayData (fwdEnv p) (rl_regRange p) (rl_now p) (rl_A p) frame ((s, out), t, tr) = ((s\<lparr>rv_B := b3\<rparr>, out @ [payload]), t', tr')"
    using ok t'(1) pub_keys(3) [OF p(1)] size by (simp add: ForwardRelayData_def f dial)
  then have "pe_data (srcEnv p) ((s, out), t, tr) (rl_R p) frame = (Reply (), ((s\<lparr>rv_B := b3\<rparr>, out @ [payload]), t', tr'))" by (simp add: srcEnv_def)
  then have "sendPacket (rl_C p) (srcEnv p) used (rl_R p) (nameB p) payload (st, ((s, out), t, tr)) =
      (None, st\<lparr>ps_packetSeq := of_nat (Suc n), ps_lastUsedUnix := used, ps_stopHB := True\<rparr>, ((s\<lparr>rv_B := b3\<rparr>, out @ [payload]), t', tr'))"
    using seal st by (simp add: sendPacket_def Let_def frame_def [symmetric] relayV1MaybeStartHeartbeat_def add.commute)
  ultimately show ?thesis using t'(2)
    by (intro exI [of _ "s\<lparr>rv_B := b3\<rparr>"] exI [of _ t'] exI [of _ tr'] exI [of _ k']) (simp add: k'_def)
qed


section \<open>From end to end\<close>

text \<open>What the path needs of the key exchange.\<close>

definition keyExchangeOk :: "relay_path \<Rightarrow> bytes \<Rightarrow> bool" where
  "keyExchangeOk p rnd \<longleftrightarrow> (\<exists>privA pubA privB pubB shared.
     GenerateEphemeralKeyPair (rl_C p) rnd = Inr (privA, pubA) \<and> GenerateEphemeralKeyPair (rl_C p) (rl_rndB p) = Inr (privB, pubB) \<and>
     X25519SharedSecret (rl_C p) privA pubB = Inr shared \<and> X25519SharedSecret (rl_C p) privB pubA = Inr shared \<and>
     length pubA = X25519KeySize \<and> length pubB = X25519KeySize \<and> length shared = X25519KeySize)"

lemma establish_completes:
  assumes p: "pathOk p" "timeOk p" "nulFree sid" "sid \<noteq> []" "keyExchangeOk p rnd"
    and room: "destRoom p sid (rv_B s)" "relayRoom p sid t"
  shows "\<exists>st' s' t' tr' k. relayV1Establish (rl_I p) (rl_C p) (rl_H p) (srcEnv p) (startIn p sid rnd) (rl_R p) (nameB p) (st, ((s, out), t, tr)) =
      (None, st', ((s', out), t', tr')) \<and>
    ps_sessionID st' = sid \<and> ps_relay st' = rl_R p \<and> ps_expireAt st' = unixNow p + 3600 \<and> ps_handshakeOK st' \<and> ps_packetSeq st' = 0 \<and>
    length (ps_txKey st') = AEADKeySize \<and>
    destReady sid (nameA p) (unixNow p + 3600) (Some k) (rv_B s') \<and> relayReady p sid t' \<and>
    ke_lastDataSeq k = - 1 \<and> ke_pending k = [] \<and> ke_rx k = ps_txKey st' \<and> ke_tx k = ps_rxKey st'"
proof -
  obtain b' t1 tr1 where c: "establishConnect (rl_I p) (srcEnv p) (startIn p sid rnd) (rl_R p) (nameB p) (relayV1PeerSessionStopHeartbeatLocked st, ((s, out), t, tr)) =
      (Inr (id_Public (rl_I p) (rl_privB p)), (relayV1PeerSessionStopHeartbeatLocked st)\<lparr>ps_sessionID := sid, ps_relay := rl_R p, ps_expireAt := unixNow p + 3600\<rparr>,
       ((s\<lparr>rv_B := b'\<rparr>, out), t1, tr1))" "destReady sid (nameA p) (unixNow p + 3600) None b'" "relayReady p sid t1"
    using establish_connects [OF p(1,2,4) room, of rnd "relayV1PeerSessionStopHeartbeatLocked st" out tr] by blast
  let ?st = "(relayV1PeerSessionStopHeartbeatLocked st)\<lparr>ps_sessionID := sid, ps_relay := rl_R p, ps_expireAt := unixNow p + 3600\<rparr>"
  obtain privA pubA privB pubB shared where k:
     "GenerateEphemeralKeyPair (rl_C p) rnd = Inr (privA, pubA)" "GenerateEphemeralKeyPair (rl_C p) (rl_rndB p) = Inr (privB, pubB)"
     "X25519SharedSecret (rl_C p) privA pubB = Inr shared" "X25519SharedSecret (rl_C p) privB pubA = Inr shared"
     "length pubA = X25519KeySize" "length pubB = X25519KeySize" "length shared = X25519KeySize"
    using p(5) by (auto simp: keyExchangeOk_def)
  have "destReady sid (nameA p) (unixNow p + 3600) None (rv_B (s\<lparr>rv_B := b'\<rparr>))" using c(2) by simp
  from establish_handshakes [OF p(1-4) this c(3) k, of ?st out tr1] obtain tx rx s' t' tr' where
    h: "establishHandshake (rl_I p) (rl_C p) (rl_H p) (srcEnv p) (startIn p sid rnd) (id_Public (rl_I p) (rl_privB p)) (rl_R p) (nameB p)
        (?st, ((s\<lparr>rv_B := b'\<rparr>, out), t1, tr1)) =
      (None, ?st\<lparr>ps_txKey := tx, ps_rxKey := rx, ps_packetSeq := 0, ps_handshakeOK := True, ps_lastUsedUnix := unixNow p\<rparr>, ((s', out), t', tr'))"
      "destReady sid (nameA p) (unixNow p + 3600) (Some (freshKeys rx tx)) (rv_B s')" "relayReady p sid t'" "length tx = AEADKeySize"
    by blast
  have "relayV1Establish (rl_I p) (rl_C p) (rl_H p) (srcEnv p) (startIn p sid rnd) (rl_R p) (nameB p) (st, ((s, out), t, tr)) =
      (None, ?st\<lparr>ps_txKey := tx, ps_rxKey := rx, ps_packetSeq := 0, ps_handshakeOK := True, ps_lastUsedUnix := unixNow p\<rparr>, ((s', out), t', tr'))"
    using c(1) h(1) by (simp add: relayV1Establish_def)
  then show ?thesis using h(2-4)
    by (intro exI [of _ "?st\<lparr>ps_txKey := tx, ps_rxKey := rx, ps_packetSeq := 0, ps_handshakeOK := True, ps_lastUsedUnix := unixNow p\<rparr>"]
        exI [of _ s'] exI [of _ t'] exI [of _ tr'] exI [of _ "freshKeys rx tx"]) (simp add: freshKeys_def)
qed

text \<open>The sessions of the source: the one for the destination is established and not about to expire.\<close>

definition sessionsOk :: "(string \<times> relayV1PeerSession) list \<Rightarrow> bool" where
  "sessionsOk xs \<longleftrightarrow> distinct (map fst xs) \<and> length xs \<le> relayV1ASessionMaxEntries"

lemma SessionFor_cases:
  assumes "sessionsOk (rv_Sessions a)" "relayV1SessionFor rng now dst a = (st, a')"
    and "map_of (rv_Sessions a) dst = None \<longrightarrow> length (rv_Sessions a) < relayV1ASessionMaxEntries"
  shows "sessionsOk (rv_Sessions a')"
    "\<And>st0. map_of (rv_Sessions a) dst = Some st0 \<Longrightarrow> \<not> (ps_handshakeOK st0 \<and> now div second \<ge> ps_expireAt st0 - 5) \<Longrightarrow> st = st0"
    "map_of (rv_Sessions a) dst = None \<Longrightarrow> st = newPeerSession (now div second)"
proof -
  define xs where "xs = filter (\<lambda>(_, st). \<not> (ps_handshakeOK st \<and> now div second \<ge> ps_expireAt st - 5)) (rv_Sessions a)"
  have xs: "distinct (map fst xs)" "length xs \<le> length (rv_Sessions a)"
    using assms(1) by (simp_all add: xs_def sessionsOk_def distinct_map_filter)
  then have d: "dropLeastUsed rng xs = xs" using assms(1) by (simp add: dropLeastUsed.simps sessionsOk_def)
  define ys where "ys = rv_Sessions (relayV1MaybePurgeStaleRelaySessionsLocked rng now a)"
  have ys: "ys = xs \<or> ys = rv_Sessions a"
    using d [unfolded xs_def] by (simp add: ys_def relayV1MaybePurgeStaleRelaySessionsLocked_def Let_def xs_def)
  then have ok: "distinct (map fst ys)" "length ys \<le> length (rv_Sessions a)"
    using xs assms(1) by (auto simp: sessionsOk_def)
  have some: "map_of ys dst = Some st0" if "map_of (rv_Sessions a) dst = Some st0" "\<not> (ps_handshakeOK st0 \<and> now div second \<ge> ps_expireAt st0 - 5)" for st0
  proof -
    have "(dst, st0) \<in> set ys" using ys map_of_SomeD [OF that(1)] that(2) by (auto simp: xs_def)
    then show ?thesis using ok(1) by simp
  qed
  have none: "map_of ys dst = None" if "map_of (rv_Sessions a) dst = None"
    using ys that by (auto simp: xs_def map_of_eq_None_iff)
  show "st = st0" if "map_of (rv_Sessions a) dst = Some st0" "\<not> (ps_handshakeOK st0 \<and> now div second \<ge> ps_expireAt st0 - 5)" for st0
    using some [OF that] assms(2) by (simp add: relayV1SessionFor_def Let_def ys_def)
  show "st = newPeerSession (now div second)" if "map_of (rv_Sessions a) dst = None"
    using none [OF that] assms(2) by (simp add: relayV1SessionFor_def Let_def ys_def)
  show "sessionsOk (rv_Sessions a')"
  proof (cases "map_of ys dst")
    case (Some st1)
    then have "rv_Sessions a' = ys" using assms(2) by (auto simp: relayV1SessionFor_def Let_def ys_def)
    then show ?thesis using ok assms(1) by (simp add: sessionsOk_def)
  next
    case None
    have "length ys < relayV1ASessionMaxEntries"
    proof (cases "map_of (rv_Sessions a) dst")
      case (Some st1)
      then have "(dst, st1) \<in> set (rv_Sessions a)" by (rule map_of_SomeD)
      moreover have "ys = xs" using ys Some None by auto
      ultimately have "length ys < length (rv_Sessions a)"
        using None by (auto simp: xs_def map_of_eq_None_iff image_iff intro!: length_filter_less)
      then show ?thesis using assms(1) by (simp add: sessionsOk_def)
    qed (use ok(2) assms(3) in simp)
    moreover have "rv_Sessions a' = AList.update dst (newPeerSession (now div second)) ys"
      using None assms(2) by (auto simp: relayV1SessionFor_def Let_def ys_def)
    ultimately show ?thesis
      using ok(1) alist_update_bounds(1) [of dst "newPeerSession (now div second)" ys] by (simp add: sessionsOk_def distinct_update)
  qed
qed

lemma putSession_ok:
  assumes "sessionsOk (rv_Sessions a)" "map_of (rv_Sessions a) dst \<noteq> None"
  shows "sessionsOk (rv_Sessions (putSession dst st a))" "map_of (rv_Sessions (putSession dst st a)) dst = Some st"
proof -
  have "dst \<in> fst ` set xs \<Longrightarrow> length (AList.update dst st xs) = length xs" for xs by (induction xs) auto
  then show "sessionsOk (rv_Sessions (putSession dst st a))"
    using assms by (auto simp: sessionsOk_def putSession_def distinct_update map_of_eq_None_iff)
  show "map_of (rv_Sessions (putSession dst st a)) dst = Some st" by (simp add: putSession_def update_conv')
qed


lemma SessionFor_present: "relayV1SessionFor rng now dst a = (st, a') \<Longrightarrow> map_of (rv_Sessions a') dst = Some st"
  by (auto simp: relayV1SessionFor_def Let_def update_conv' split: option.splits)

text \<open>The source sends one payload after the other.\<close>

fun sendAllV1 ::
  "identity \<Rightarrow> crypto \<Rightarrow> hkdf \<Rightarrow> 'w peer_env \<Rightarrow> send_in \<Rightarrow> string \<Rightarrow> string \<Rightarrow> bytes list \<Rightarrow> relayV1Service \<times> 'w \<Rightarrow>
   go_error option \<times> relayV1Service \<times> 'w" where
  "sendAllV1 I C H E x relay dst [] s = (None, s)"
| "sendAllV1 I C H E x relay dst (pl # pls) s =
     (case sendViaRelayV1 I C H E x relay dst pl s of
        (Some e, s') \<Rightarrow> (Some e, s')
      | (None, s') \<Rightarrow> sendAllV1 I C H E x relay dst pls s')"

definition sendIn :: "relay_path \<Rightarrow> string \<Rightarrow> bytes \<Rightarrow> send_in" where
  "sendIn p sid rnd = \<lparr>si_range = rl_sessRange p, si_now = rl_now p, si_unix = unixNow p, si_establish = startIn p sid rnd, si_used = unixNow p\<rparr>"

text \<open>An established session whose next packet is number \<open>n\<close> at both ends.\<close>

definition established :: "relay_path \<Rightarrow> string \<Rightarrow> nat \<Rightarrow> relayV1PeerSession \<Rightarrow> relayV1Service \<Rightarrow> ChatRelayV1Table \<Rightarrow> bool" where
  "established p sid n st s t \<longleftrightarrow> ps_sessionID st = sid \<and> ps_relay st = rl_R p \<and> ps_expireAt st = unixNow p + 3600 \<and> ps_handshakeOK st \<and>
     ps_packetSeq st = of_nat n \<and> length (ps_txKey st) = AEADKeySize \<and> relayReady p sid t \<and>
     (\<exists>k. destReady sid (nameA p) (unixNow p + 3600) (Some k) (rv_B s) \<and> ke_lastDataSeq k = of_nat n - 1 \<and> ke_pending k = [] \<and> ke_rx k = ps_txKey st)"

definition linkOk :: "relay_path \<Rightarrow> string \<Rightarrow> bool" where
  "linkOk p sid \<longleftrightarrow> pathOk p \<and> timeOk p \<and> nulFree sid \<and> sid \<noteq> [] \<and> aead_overhead (rl_C p) \<and>
     shortName sid \<and> shortName (nameA p) \<and> shortName (nameB p)"

lemma packet_established:
  assumes "linkOk p sid" "established p sid n st s t" "n + 1 < 2 ^ 64" "length pl \<le> 1000000"
  shows "\<exists>st' s' t' tr'. sendPacket (rl_C p) (srcEnv p) (unixNow p) (rl_R p) (nameB p) pl (st, ((s, out), t, tr)) =
      (None, st', ((s', out @ [pl]), t', tr')) \<and> established p sid (Suc n) st' s' t'"
proof -
  obtain k where k: "destReady sid (nameA p) (unixNow p + 3600) (Some k) (rv_B s)" "ke_lastDataSeq k = of_nat n - 1" "ke_pending k = []"
      "ke_rx k = ps_txKey st"
    using assms(2) by (auto simp: established_def)
  note l = assms(1) [unfolded linkOk_def] and e = assms(2) [unfolded established_def]
  obtain s' t' tr' k' where r: "sendPacket (rl_C p) (srcEnv p) (unixNow p) (rl_R p) (nameB p) pl (st, ((s, out), t, tr)) =
      (None, st\<lparr>ps_packetSeq := of_nat (Suc n), ps_lastUsedUnix := unixNow p, ps_stopHB := True\<rparr>, ((s', out @ [pl]), t', tr'))"
    "destReady sid (nameA p) (unixNow p + 3600) (Some k') (rv_B s')" "relayReady p sid t'" "ke_lastDataSeq k' = of_nat (Suc n) - 1"
    "ke_pending k' = []" "ke_rx k' = ke_rx k"
    using packet_through_relay [of p sid k s t n st pl "unixNow p" out tr] l e k assms(3,4) by blast
  then show ?thesis using e k(4)
    by (intro exI [of _ "st\<lparr>ps_packetSeq := of_nat (Suc n), ps_lastUsedUnix := unixNow p, ps_stopHB := True\<rparr>"] exI [of _ s'] exI [of _ t'] exI [of _ tr'])
       (auto simp: established_def intro!: exI [of _ k'])
qed

lemma send_established:
  assumes "linkOk p sid" "established p sid n st s t" "n + 1 < 2 ^ 64" "length pl \<le> 1000000"
    and "sessionsOk (rv_Sessions a)" "map_of (rv_Sessions a) (nameB p) = Some st"
  shows "\<exists>a' st' s' t' tr'. sendViaRelayV1 (rl_I p) (rl_C p) (rl_H p) (srcEnv p) (sendIn p sid rnd) (rl_R p) (nameB p) pl (a, ((s, out), t, tr)) =
      (None, a', ((s', out @ [pl]), t', tr')) \<and> established p sid (Suc n) st' s' t' \<and>
      sessionsOk (rv_Sessions a') \<and> map_of (rv_Sessions a') (nameB p) = Some st'"
proof -
  obtain st1 a1 where f: "relayV1SessionFor (rl_sessRange p) (rl_now p) (nameB p) a = (st1, a1)" by fastforce
  note e = assms(2) [unfolded established_def]
  have "st1 = st" using SessionFor_cases(2) [OF assms(5) f _ assms(6)] e assms(6) by simp
  have a1: "sessionsOk (rv_Sessions a1)" using SessionFor_cases(1) [OF assms(5) f] assms(6) by simp
  have no: "\<not> needEstablish (unixNow p) (rl_R p) st" using e assms(1) by (simp add: needEstablish_def linkOk_def)
  obtain st' s' t' tr' where r: "sendPacket (rl_C p) (srcEnv p) (unixNow p) (rl_R p) (nameB p) pl (st, ((s, out), t, tr)) =
      (None, st', ((s', out @ [pl]), t', tr'))" "established p sid (Suc n) st' s' t'"
    using packet_established [OF assms(1-4)] by blast
  have "sendViaRelayV1 (rl_I p) (rl_C p) (rl_H p) (srcEnv p) (sendIn p sid rnd) (rl_R p) (nameB p) pl (a, ((s, out), t, tr)) =
      (None, putSession (nameB p) st' a1, ((s', out @ [pl]), t', tr'))"
    using f no r(1) by (simp add: sendViaRelayV1_def sendIn_def \<open>st1 = st\<close>)
  then show ?thesis
    using r(2) putSession_ok [OF a1, of "nameB p" st'] SessionFor_present [OF f] by auto
qed

lemma send_first:
  assumes "linkOk p sid" "keyExchangeOk p rnd" "destRoom p sid (rv_B s)" "relayRoom p sid t" "length pl \<le> 1000000"
    and "sessionsOk (rv_Sessions a)" "map_of (rv_Sessions a) (nameB p) = None" "length (rv_Sessions a) < relayV1ASessionMaxEntries"
  shows "\<exists>a' st' s' t' tr'. sendViaRelayV1 (rl_I p) (rl_C p) (rl_H p) (srcEnv p) (sendIn p sid rnd) (rl_R p) (nameB p) pl (a, ((s, out), t, tr)) =
      (None, a', ((s', out @ [pl]), t', tr')) \<and> established p sid 1 st' s' t' \<and>
      sessionsOk (rv_Sessions a') \<and> map_of (rv_Sessions a') (nameB p) = Some st'"
proof -
  obtain st a1 where f: "relayV1SessionFor (rl_sessRange p) (rl_now p) (nameB p) a = (st, a1)" by fastforce
  have "st = newPeerSession (unixNow p)" using SessionFor_cases(3) [OF assms(6) f _ assms(7)] assms(8) by simp
  then have need: "needEstablish (unixNow p) (rl_R p) st" by (simp add: needEstablish_def newPeerSession_def)
  have a1: "sessionsOk (rv_Sessions a1)" using SessionFor_cases(1) [OF assms(6) f] assms(8) by simp
  note l = assms(1) [unfolded linkOk_def]
  obtain st1 s1 t1 tr1 k where e: "relayV1Establish (rl_I p) (rl_C p) (rl_H p) (srcEnv p) (startIn p sid rnd) (rl_R p) (nameB p) (st, ((s, out), t, tr)) =
      (None, st1, ((s1, out), t1, tr1))"
    "ps_sessionID st1 = sid \<and> ps_relay st1 = rl_R p \<and> ps_expireAt st1 = unixNow p + 3600 \<and> ps_handshakeOK st1 \<and> ps_packetSeq st1 = 0 \<and>
     length (ps_txKey st1) = AEADKeySize" "destReady sid (nameA p) (unixNow p + 3600) (Some k) (rv_B s1)" "relayReady p sid t1"
    "ke_lastDataSeq k = - 1" "ke_pending k = []" "ke_rx k = ps_txKey st1"
    using establish_completes [of p sid rnd s t st out tr] l assms(2-4) by blast
  have "established p sid 0 st1 s1 t1" using e(2-7) by (auto simp: established_def)
  then obtain st' s' t' tr' where r: "sendPacket (rl_C p) (srcEnv p) (unixNow p) (rl_R p) (nameB p) pl (st1, ((s1, out), t1, tr1)) =
      (None, st', ((s', out @ [pl]), t', tr'))" "established p sid 1 st' s' t'"
    using packet_established [OF assms(1), of 0 st1 s1 t1 pl out tr1] assms(5) by auto
  have "sendViaRelayV1 (rl_I p) (rl_C p) (rl_H p) (srcEnv p) (sendIn p sid rnd) (rl_R p) (nameB p) pl (a, ((s, out), t, tr)) =
      (None, putSession (nameB p) st' a1, ((s', out @ [pl]), t', tr'))"
    using f need e(1) r(1) by (simp add: sendViaRelayV1_def sendIn_def)
  then show ?thesis
    using r(2) putSession_ok [OF a1, of "nameB p" st'] SessionFor_present [OF f] by auto
qed

lemma sendAll_established:
  "linkOk p sid \<Longrightarrow> established p sid n st s t \<Longrightarrow> n + length pls < 2 ^ 64 \<Longrightarrow> list_all (\<lambda>pl. length pl \<le> 1000000) pls \<Longrightarrow>
   sessionsOk (rv_Sessions a) \<Longrightarrow> map_of (rv_Sessions a) (nameB p) = Some st \<Longrightarrow>
   \<exists>a' s' t' tr'. sendAllV1 (rl_I p) (rl_C p) (rl_H p) (srcEnv p) (sendIn p sid rnd) (rl_R p) (nameB p) pls (a, ((s, out), t, tr)) =
      (None, a', ((s', out @ pls), t', tr'))"
proof (induction pls arbitrary: n st s t a out tr)
  case (Cons pl pls)
  obtain a1 st1 s1 t1 tr1 where r: "sendViaRelayV1 (rl_I p) (rl_C p) (rl_H p) (srcEnv p) (sendIn p sid rnd) (rl_R p) (nameB p) pl (a, ((s, out), t, tr)) =
      (None, a1, ((s1, out @ [pl]), t1, tr1))" "established p sid (Suc n) st1 s1 t1" "sessionsOk (rv_Sessions a1)" "map_of (rv_Sessions a1) (nameB p) = Some st1"
    using send_established [OF Cons(2,3) _ _ Cons(6,7), of pl rnd out tr] Cons(4,5) by auto
  show ?case using Cons.IH [OF Cons(2) r(2) _ _ r(3,4), of "out @ [pl]" tr1] Cons(4,5) r(1) by simp
qed simp

text \<open>
  C19. A chat relay session works from end to end: a source that has no session with the
  destination sends payloads through a relay with room for the session, to a destination with
  room for it. The first send establishes the session, with connect and handshake carried by the
  relay and the signatures of both ends checked; every send reports success, and the destination
  hands exactly the payloads that were sent, in order, to its chat service.
\<close>

theorem relay_session_end_to_end:
  assumes "linkOk p sid" "keyExchangeOk p rnd" "destRoom p sid (rv_B s)" "relayRoom p sid t"
    and "list_all (\<lambda>pl. length pl \<le> 1000000) pls" "length pls < 2 ^ 64"
    and "sessionsOk (rv_Sessions a)" "map_of (rv_Sessions a) (nameB p) = None" "length (rv_Sessions a) < relayV1ASessionMaxEntries"
  shows "\<exists>a' s' t' tr'. sendAllV1 (rl_I p) (rl_C p) (rl_H p) (srcEnv p) (sendIn p sid rnd) (rl_R p) (nameB p) pls (a, ((s, []), t, tr)) =
      (None, a', ((s', pls), t', tr'))"
proof (cases pls)
  case (Cons pl pls')
  obtain a1 st1 s1 t1 tr1 where r: "sendViaRelayV1 (rl_I p) (rl_C p) (rl_H p) (srcEnv p) (sendIn p sid rnd) (rl_R p) (nameB p) pl (a, ((s, []), t, tr)) =
      (None, a1, ((s1, [] @ [pl]), t1, tr1))" "established p sid 1 st1 s1 t1" "sessionsOk (rv_Sessions a1)" "map_of (rv_Sessions a1) (nameB p) = Some st1"
    using send_first [OF assms(1-4) _ assms(7-9), of pl "[]" tr] assms(5) Cons by auto
  show ?thesis
    using sendAll_established [OF assms(1) r(2) _ _ r(3,4), of pls' rnd "[pl]" tr1] assms(5,6) r(1) by (simp add: Cons)
qed simp


text \<open>A path with fresh nodes, for the witness.\<close>

definition demo_path :: relay_path where
  "demo_path = \<lparr>rl_I = demo_identity, rl_C = demo_tagged, rl_H = (\<lambda>s _ i n. demo_pad n (i @ s)), rl_A = ''A'', rl_R = ''R'', rl_B = ''B'',
     rl_Decode = Some, rl_String = (\<lambda>p. p), rl_PubKey = (\<lambda>p. Inr (if p = ''A'' then [1] else [2])), rl_privA = [1], rl_privB = [2],
     rl_now = 1000 * second, rl_regRange = rev, rl_connRange = rev, rl_sessRange = rev, rl_rndB = demo_rnd 2\<rparr>"

lemma demo_linkOk: "linkOk demo_path ''s1''"
  by (simp add: linkOk_def pathOk_def timeOk_def demo_path_def demo_signs demo_tagged_laws nulFree_def shortName_def trimSpace_def
      is_space_def second_def)

lemma demo_keyExchangeOk: "keyExchangeOk demo_path (demo_rnd 1)"
proof -
  obtain a pa b pb where g: "GenerateEphemeralKeyPair demo_crypto (demo_rnd 1) = Inr (a, pa)"
      "GenerateEphemeralKeyPair demo_crypto (demo_rnd 2) = Inr (b, pb)"
    using demo_hello_size_eq by (auto simp: demo_hello_size_def split: sum.splits)
  have l: "length a = 32" "length b = 32" and pub: "demo_x25519 a (replicate 32 9) = Some pa" "demo_x25519 b (replicate 32 9) = Some pb"
    using GenerateEphemeralKeyPair_priv [OF g(1)] GenerateEphemeralKeyPair_priv [OF g(2)]
    by (simp_all add: X25519KeySize_def demo_crypto_def)
  have p: "length pa = 32" "length pb = 32" using pub l by (auto simp: demo_x25519_def split: if_splits)
  have "map2 (XOR) a pb = map2 (XOR) b pa"
    using pub l map2_xor_swap [of a b "replicate 32 9"] by (auto simp: demo_x25519_def)
  then have "X25519SharedSecret demo_tagged a pb = Inr (map2 (XOR) a pb)" "X25519SharedSecret demo_tagged b pa = Inr (map2 (XOR) a pb)"
    using l p by (simp_all add: X25519SharedSecret_def X25519KeySize_def demo_tagged_def demo_crypto_def demo_x25519_def)
  then show ?thesis
    using g l p by (auto simp: keyExchangeOk_def demo_path_def demo_tagged_keys X25519KeySize_def)
qed

lemma demo_rooms: "destRoom demo_path ''s1'' NewRelayV1B" "relayRoom demo_path ''s1'' NewChatRelayV1Table"
  using destReach_inv [OF destReach.new] tableReach_inv [OF tableReach.new]
  by (simp_all add: destRoom_def relayRoom_def) (simp_all add: NewRelayV1B_def NewChatRelayV1Table_def relayV1BMaxSessionsTotal_def
      chatRelayV1MaxSessionsTotal_def AllowConnectForward_def)

theorem relay_session_end_to_end_witness:
  "\<exists>a' s' t' tr'. sendAllV1 demo_identity demo_tagged (rl_H demo_path) (srcEnv demo_path) (sendIn demo_path ''s1'' (demo_rnd 1)) ''R'' ''B''
      [[1, 2], [], [3]] (\<lparr>rv_Sessions = [], rv_SessionsLastPurge = 0, rv_B = NewRelayV1B\<rparr>,
        ((\<lparr>rv_Sessions = [], rv_SessionsLastPurge = 0, rv_B = NewRelayV1B\<rparr>, []), NewChatRelayV1Table, None)) =
      (None, a', ((s', [[1, 2], [], [3]]), t', tr'))"
proof -
  have n: "rl_I demo_path = demo_identity" "rl_C demo_path = demo_tagged" "rl_R demo_path = ''R''" "nameB demo_path = ''B''"
    by (simp_all add: demo_path_def)
  show ?thesis
    by (rule relay_session_end_to_end [OF demo_linkOk demo_keyExchangeOk, unfolded n])
       (simp_all add: demo_rooms sessionsOk_def relayV1ASessionMaxEntries_def)
qed

end
