(* ===== verification/Chat_Gap.thy ===== *)
theory Chat_Gap
  imports Chat_Direct Chat_Store_Laws Chat_Relay_Session
begin

text \<open>
  What happens to direct messages when a counter is missing. A receiver that is behind asks the sender for
  the messages from the counter it expects; the answer is handled like messages that just came in. When the
  sender has the whole range this fills the gap; when one message of the range was revoked before it was
  sent, the first message of every answer is again ahead of the counter expected, and handling it asks again.
\<close>

section \<open>The steps of a message\<close>

definition isBlocked :: "string \<Rightarrow> ChatDB \<Rightarrow> bool" where
  "isBlocked peerID db \<longleftrightarrow> (case GetPeer peerID db of Inr c \<Rightarrow> ck_Blocked c | Inl _ \<Rightarrow> False)"

declare checkIncomingDirectCounter.simps [simp del] syncRounds.simps [simp del] syncConversationFromCounter.simps [simp del]

lemmas svc_eval = bindS_def attempt_def svc_simps

lemma blockedPeer_run: "blockedPeer peerID s = (Returns (isBlocked peerID (cs_db s)), s)"
  by (cases "GetPeer peerID (cs_db s)") (simp_all add: blockedPeer_def svc_eval isBlocked_def)

lemma loadIncoming_ready:
  "GetConversation cid (cs_db s) = Inr conv \<Longrightarrow> GetSessionState cid (cs_db s) = Inr sess \<Longrightarrow>
   loadIncomingDirectState N now cid from mode s = (Returns (conv, sess, False), s)"
  by (simp add: loadIncomingDirectState_def svc_eval)

lemma GetConversation_id: "GetConversation cid db = Inr conv \<Longrightarrow> cv_ConversationID conv = cid"
  unfolding GetConversation_def queryRow_def by (auto simp: of_option_eq find_Some_iff)

lemma GetSessionState_id: "GetSessionState cid db = Inr sess \<Longrightarrow> sx_ConversationID sess = cid"
  unfolding GetSessionState_def queryRow_def by (auto simp: of_option_eq find_Some_iff)

text \<open>A message of a known conversation from a peer that is not blocked goes to the check of its counter.\<close>

lemma handleText_to_check:
  assumes "streamPeerID = [] \<or> streamPeerIdentityOK streamPeerID (tx_FromPeerID m)" "\<not> isBlocked (tx_FromPeerID m) (cs_db s)"
    and "GetConversation (tx_ConversationID m) (cs_db s) = Inr conv" "GetSessionState (tx_ConversationID m) (cs_db s) = Inr sess"
    and "check conv sess (tx_MsgID m) (tx_Counter m) skipGap s = (OutOfFuel, s')"
  shows "handleIncomingChatTextWith check N now m mode streamPeerID inc skipGap s = (OutOfFuel, s')"
  using assms by (auto simp: handleIncomingChatTextWith_def svc_eval blockedPeer_run loadIncoming_ready)

section \<open>A gap that cannot be filled\<close>

lemma syncRounds_fuel:
  assumes "cn_chatSync N (cs_calls s) peerID (syncRequest now (cs_localPeer s) cid peerID next) = Inr resp"
    and "apply_resp cid resp (s\<lparr>cs_calls := cs_calls s + 1\<rparr>) = (OutOfFuel, s')"
  shows "syncRounds (Suc r) apply_resp N now cid peerID next s = (OutOfFuel, s')"
  using assms by (simp add: syncRounds.simps svc_eval requestChatSync_def)

lemma applyResponse_fuel:
  assumes "GetSessionState cid (cs_db s) = Inr sess" "sp_Messages resp = m # ms" "sp_Files resp = []" "ht m s = (OutOfFuel, s')"
  shows "applyChatSyncResponse ht hf cid resp s = (OutOfFuel, s')"
  using assms by (simp add: svc_eval applyChatSyncResponse_def)

lemma check_gap_fuel:
  assumes "sx_RecvCounter sess < counter" "sync (cv_ConversationID conv) (cv_PeerID conv) (sx_RecvCounter sess) s = (OutOfFuel, s')"
  shows "checkIncomingDirectCounter (Suc k) sync N now conv sess mid counter False s = (OutOfFuel, s')"
proof -
  have "\<not> counter < sx_RecvCounter sess" using assms(1) by simp
  then show ?thesis using assms by (simp add: checkIncomingDirectCounter.simps Let_def svc_eval)
qed

lemma sync_never_returns:
  assumes answer: "\<And>n. cn_chatSync N n peerID (syncRequest now me cid peerID expected) = Inr resp"
    and resp: "sp_Messages resp = m # ms" "sp_Files resp = []"
    and m: "tx_ConversationID m = cid" "expected < tx_Counter m" "\<not> isBlocked (tx_FromPeerID m) db"
    and conv: "GetConversation cid db = Inr conv" "cv_PeerID conv = peerID"
    and sess: "GetSessionState cid db = Inr sess" "sx_RecvCounter sess = expected"
  shows "cs_db s = db \<Longrightarrow> cs_localPeer s = me \<Longrightarrow>
    \<exists>s'. syncConversationFromCounter d N now cid peerID expected s = (OutOfFuel, s')"
proof (induction d arbitrary: s)
  case (Suc d)
  let ?s = "s\<lparr>cs_calls := cs_calls s + 1\<rparr>"
  let ?sync = "syncConversationFromCounter d N now"
  let ?check = "checkIncomingDirectCounter (Suc d) ?sync N now"
  let ?ht = "\<lambda>m. handleIncomingChatTextWith ?check N now m TransportModeDirect [] False False"
  let ?hf = "\<lambda>f. handleIncomingChatFileWith ?check N now f TransportModeDirect [] False"
  have "cs_db ?s = db" "cs_localPeer ?s = me" using Suc.prems by simp_all
  from Suc.IH [OF this] obtain s2 where s2: "?sync cid peerID expected ?s = (OutOfFuel, s2)" by blast
  have c: "?check conv sess (tx_MsgID m) (tx_Counter m) False ?s = (OutOfFuel, s2)"
    by (rule check_gap_fuel) (use m(2) sess(2) s2 GetConversation_id [OF conv(1)] conv(2) in simp_all)
  have h: "?ht m ?s = (OutOfFuel, s2)"
    by (rule handleText_to_check) (use Suc.prems m conv sess c in simp_all)
  have a: "applyChatSyncResponse ?ht ?hf cid resp ?s = (OutOfFuel, s2)"
    by (rule applyResponse_fuel [where sess = sess and m = m and ms = ms]) (use Suc.prems sess resp h in simp_all)
  have "syncRounds (Suc 63) (applyChatSyncResponse ?ht ?hf) N now cid peerID expected s = (OutOfFuel, s2)"
    by (rule syncRounds_fuel [where resp = resp]) (use Suc.prems answer a in simp_all)
  then have "syncRounds directSyncMaxRounds (applyChatSyncResponse ?ht ?hf) N now cid peerID expected s = (OutOfFuel, s2)"
    by (simp only: directSyncMaxRounds_def) simp
  then show ?case by (simp only: syncConversationFromCounter.simps Let_def) blast
qed (simp add: syncConversationFromCounter.simps)

section \<open>What a sender answers\<close>

definition syncText :: "Message \<Rightarrow> bytes \<Rightarrow> ChatText" where
  "syncText m b = \<lparr>tx_Type = MessageTypeChatText, tx_ConversationID = ms_ConversationID m, tx_MsgID = ms_MsgID m,
     tx_FromPeerID = ms_SenderPeerID m, tx_ToPeerID = ms_ReceiverPeerID m, tx_Ciphertext = b, tx_Counter = ms_Counter m,
     tx_SentAtUnix = unixMilli (ms_CreatedAt m), tx_Signature = []\<rparr>"

lemma unixMilli_ofUnixMilli [simp]: "unixMilli (ofUnixMilli n) = n"
  by (simp add: unixMilli_def ofUnixMilli_def millisecond_def)

declare fillSyncResponse.simps(2) [simp del]

lemma fillSync_step:
  "ms_MsgType m = MessageTypeChatText \<Longrightarrow> fillSyncResponse N ((m, b) # items) resp =
     (let resp' = resp\<lparr>sp_Messages := sp_Messages resp @ [syncText m b]\<rparr> in
      if fitsFrame resp' then fillSyncResponse N items resp'
      else if sp_Messages resp = [] \<and> sp_Files resp = [] then Inl (Errorf ''chat sync item too large'') else Inr resp)"
  by (simp add: fillSyncResponse.simps(2) buildDirectEnvelope_def syncText_def Let_def)

text \<open>The answer to texts alone is a prefix of them, from the first one on.\<close>

definition allTexts :: "(Message \<times> bytes) list \<Rightarrow> bool" where
  "allTexts items \<longleftrightarrow> (\<forall>(m, _)\<in>set items. ms_MsgType m = MessageTypeChatText)"

lemma allTexts_simps [simp]: "allTexts []" "allTexts ((m, b) # items) \<longleftrightarrow> ms_MsgType m = MessageTypeChatText \<and> allTexts items"
  by (auto simp: allTexts_def)

lemma fillSync_texts:
  "fillSyncResponse N items resp = Inr r \<Longrightarrow> allTexts items \<Longrightarrow> sp_Files r = sp_Files resp \<and> (\<exists>xs. sp_Messages r = sp_Messages resp @ xs)"
proof (induction items arbitrary: resp)
  case (Cons it items)
  obtain m b where it: "it = (m, b)" by (cases it)
  have t: "ms_MsgType m = MessageTypeChatText" "allTexts items" using Cons.prems(2) it by simp_all
  let ?resp = "resp\<lparr>sp_Messages := sp_Messages resp @ [syncText m b]\<rparr>"
  note f = Cons.prems(1) [unfolded it fillSync_step [OF t(1)] Let_def]
  show ?case
  proof (cases "fitsFrame ?resp")
    case True
    then have "fillSyncResponse N items ?resp = Inr r" using f by (simp only: if_True)
    from Cons.IH [OF this t(2)] show ?thesis by auto
  next
    case False
    then have "r = resp" using f by (auto split: if_splits)
    then show ?thesis by simp
  qed
qed simp

lemma fillSync_first:
  assumes "fillSyncResponse N ((m, b) # items) (emptySyncResponse cid me c) = Inr r" "allTexts ((m, b) # items)"
  obtains ts where "sp_Messages r = syncText m b # ts" "sp_Files r = []"
proof -
  have "fillSyncResponse N items (emptySyncResponse cid me c\<lparr>sp_Messages := [syncText m b]\<rparr>) = Inr r"
    using assms by (simp add: fillSync_step emptySyncResponse_def Let_def split: if_splits)
  from fillSync_texts [OF this] assms(2) show ?thesis using that by (auto simp: emptySyncResponse_def)
qed

text \<open>A batch of 256 texts of ordinary size fits in a frame.\<close>

definition smallText :: "ChatText \<Rightarrow> bool" where
  "smallText t \<longleftrightarrow> shortName (tx_Type t) \<and> shortName (tx_ConversationID t) \<and> shortName (tx_MsgID t) \<and>
     shortName (tx_FromPeerID t) \<and> shortName (tx_ToPeerID t) \<and> length (tx_Ciphertext t) \<le> 4000 \<and>
     int64_ok (tx_SentAtUnix t) \<and> tx_Signature t = []"

lemma length_json_sep: "length (json_sep xs) \<le> sum_list (map length xs) + length xs"
  by (induction xs rule: json_sep.induct) auto

lemma json_quote_text_keys:
  "length (json_quote ''conversation_id'') = 17" "length (json_quote ''msg_id'') = 8" "length (json_quote ''from_peer_id'') = 14"
  "length (json_quote ''to_peer_id'') = 12" "length (json_quote ''counter'') = 9" "length (json_quote ''remote_send_counter'') = 21"
  "length (json_quote ''messages'') = 10"
  by (simp_all add: json_quote_def json_esc_def)

lemma length_enc_ChatText:
  assumes "smallText t"
  shows "length (print_json (enc_ChatText t)) \<le> 60000"
proof -
  note s = assms [unfolded smallText_def shortName_def]
  note q = length_json_quote_ascii [of "tx_Type t"] length_json_quote_ascii [of "tx_ConversationID t"] length_json_quote_ascii [of "tx_MsgID t"]
    length_json_quote_ascii [of "tx_FromPeerID t"] length_json_quote_ascii [of "tx_ToPeerID t"]
    length_json_quote_ascii [OF ascii_b64_encode, of "tx_Ciphertext t"] length_b64_encode [of "tx_Ciphertext t"]
    length_show_u64 [of "tx_Counter t"] length_show_int64 [of "tx_SentAtUnix t"]
  show ?thesis using s q
    by (simp add: enc_ChatText_def jbytes_def jint_def omitempty_def json_quote_keys json_quote_text_keys)
qed

lemma texts_fit:
  assumes "length ts \<le> 256" "\<forall>t\<in>set ts. smallText t" "shortName cid" "shortName me"
  shows "fitsFrame ((emptySyncResponse cid me c)\<lparr>sp_Messages := ts\<rparr>)"
proof -
  have "sum_list (map length (map print_json (map enc_ChatText ts))) \<le> length ts * 60000"
    using assms(2) by (induction ts) (auto dest: length_enc_ChatText)
  moreover have "length (json_sep (map print_json (map enc_ChatText ts))) \<le> sum_list (map length (map print_json (map enc_ChatText ts))) + length ts"
    using length_json_sep [of "map print_json (map enc_ChatText ts)"] by simp
  ultimately have "length (print_json (JArr (map enc_ChatText ts))) \<le> 16000000"
    using assms(1) by simp
  moreover note assms(3,4) [unfolded shortName_def] length_json_quote_ascii [of cid] length_json_quote_ascii [of me] length_show_u64 [of c]
  moreover have "length (json_quote MessageTypeChatSyncResponse) \<le> 30" by (simp add: json_quote_def json_esc_def chat_consts)
  ultimately show ?thesis
    by (simp add: fitsFrame_def marshal_tree_def enc_ChatSyncResponse_def emptySyncResponse_def omitempty_def jint_def json_quote_keys
        json_quote_text_keys MaxJSONFrameSize_def)
qed

lemma outgoing_item:
  "ListOutgoingMessagesForSync cid me next limit db = Inr items \<Longrightarrow> (m, b) \<in> set items \<Longrightarrow>
   ms_ConversationID m = cid \<and> ms_SenderPeerID m = me \<and> ms_Direction m = ''outbound'' \<and> next \<le> ms_Counter m"
  by (auto simp: ListOutgoingMessagesForSync_def res_bind_eq_Inr orderAsc_def dest!: in_set_takeD)

text \<open>C22. A sender whose first stored message from the counter a receiver expects on is a later one (the one expected
  was revoked before it went out, or fell under the retention) makes the receiver call itself without end:
  handling any message that is ahead does not return, to whatever depth the receiver goes, as long as the
  sender's own code answers the synchronisation.\<close>

theorem missing_counter_never_returns:
  assumes net: "\<And>n req. cn_chatSync N n (cs_localPeer S) req = handleChatSyncRequest NS S req (cs_localPeer R)"
    and snd: "handleChatSyncRequest NS S (syncRequest now (cs_localPeer R) cid (cs_localPeer S) expected) (cs_localPeer R) = Inr resp"
    and items: "ListOutgoingMessagesForSync cid (cs_localPeer S) expected directSyncBatchSize (cs_db S) = Inr ((m0, b0) # items)"
    and texts: "allTexts ((m0, b0) # items)"
    and gap: "expected < ms_Counter m0"
    and conv: "GetConversation cid (cs_db R) = Inr conv" "cv_PeerID conv = cs_localPeer S"
    and sess: "GetSessionState cid (cs_db R) = Inr sess" "sx_RecvCounter sess = expected"
    and peer: "\<not> isBlocked (cs_localPeer S) (cs_db R)"
    and convS: "GetConversation cid (cs_db S) = Inr convS"
    and msg: "tx_ConversationID msg = cid" "tx_FromPeerID msg = cs_localPeer S" "expected < tx_Counter msg"
    and stream: "stream = [] \<or> streamPeerIdentityOK stream (cs_localPeer S)"
  shows "fst (handleIncomingChatText d N now msg mode stream inc False R) = OutOfFuel"
proof -
  have "fillSyncResponse NS ((m0, b0) # items) (emptySyncResponse cid (cs_localPeer S)
       (case GetSessionState cid (cs_db S) of Inr x \<Rightarrow> sx_SendCounter x | Inl _ \<Rightarrow> 0)) = Inr resp"
    using snd items convS by (auto simp: handleChatSyncRequest_def syncRequest_def Let_def split: if_splits)
  from fillSync_first [OF this texts] obtain ts where t: "sp_Messages resp = syncText m0 b0 # ts" "sp_Files resp = []" .
  have m0: "ms_ConversationID m0 = cid" "ms_SenderPeerID m0 = cs_localPeer S" using outgoing_item [OF items, of m0 b0] by simp_all
  have "\<exists>s'. syncConversationFromCounter d N now cid (cs_localPeer S) expected R = (OutOfFuel, s')"
    by (rule sync_never_returns [where resp = resp and m = "syncText m0 b0" and ms = ts and db = "cs_db R" and conv = conv and sess = sess and me = "cs_localPeer R"])
       (use net snd t m0 gap peer conv sess in \<open>simp_all add: syncText_def\<close>)
  then obtain s' where "syncConversationFromCounter d N now cid (cs_localPeer S) expected R = (OutOfFuel, s')" by blast
  then have c: "counterCheckOf d N now conv sess (tx_MsgID msg) (tx_Counter msg) False R = (OutOfFuel, s')"
    unfolding counterCheckOf_def by (intro check_gap_fuel) (use msg(3) sess(2) GetConversation_id [OF conv(1)] conv(2) in simp_all)
  have "handleIncomingChatTextWith (counterCheckOf d N now) N now msg mode stream inc False R = (OutOfFuel, s')"
    by (rule handleText_to_check) (use c msg peer conv sess stream in simp_all)
  then show ?thesis by (simp add: handleIncomingChatText_def)
qed

text \<open>Two nodes that are friends, and a network where nothing arrives; the texts are sent by the node's own code.\<close>

definition demo_chat_net :: chat_net where
  "demo_chat_net = \<lparr>cn_crypto = demo_crypto, cn_uuid = (\<lambda>n. ''m'' @ show_nat n), cn_jitter = (\<lambda>_. 0), cn_decodes = (\<lambda>_. True),
     cn_connected = (\<lambda>_ _. False), cn_relayPreferred = (\<lambda>_ _. False), cn_sendJSON = (\<lambda>_ _ _. Some EOF),
     cn_sendViaRelay = (\<lambda>_ _ _. Some EOF), cn_offlineSubmit = (\<lambda>_ _ _. Some EOF), cn_offlineNodes = (\<lambda>_. False),
     cn_friendSubmit = (\<lambda>_ _ _ _. Some EOF), cn_chatSync = (\<lambda>_ _ _. Inl EOF), cn_ackSignature = (\<lambda>_. None),
     cn_fileCID = (\<lambda>_. Inr ''cid''), cn_pinChatFile = None, cn_groupInvite = (\<lambda>_ _. None), cn_avatarNeeded = (\<lambda>_ _. False)\<rparr>"

definition demo_node :: "string \<Rightarrow> string \<Rightarrow> ChatService" where
  "demo_node me peerID = \<lparr>cs_localPeer = me,
     cs_db = (emptyDB me demo_profile [])\<lparr>
       db_conversations := [activeConversation ''c'' peerID TransportModeDirect 0 1 1],
       db_sessions := [\<lparr>sx_ConversationID = ''c'', sx_PeerID = peerID, sx_SendKey = replicate 32 7, sx_RecvKey = replicate 32 7,
          sx_SendCounter = 0, sx_RecvCounter = 0\<rparr>]\<rparr>,
     cs_hub = newChatEventHub, cs_calls = 0, cs_sent = [], cs_tasks = [], cs_avatarFetchSeen = (\<lambda>_. None)\<rparr>"

text \<open>The first text is revoked before it goes out.\<close>

definition demo_sender :: ChatService where
  "demo_sender = snd (SendText demo_chat_net 30 ''c'' ''two'' (snd (RevokeMessage demo_chat_net 20 ''c'' ''m0''
     (snd (SendText demo_chat_net 10 ''c'' ''one'' (demo_node ''A'' ''B''))))))"

definition demo_ciphertext :: "string \<Rightarrow> u64 \<Rightarrow> bytes" where
  "demo_ciphertext text counter = aead_seal demo_crypto (replicate 32 7) (BuildAEADNonce ''fwd'' counter) (bytes_of_string text)
     (textAAD ''c'' MessageTypeChatText)"

lemmas demo_send_simps = SendText_def storeOutbound_def AddMessage_def UpdateSendCounter_def UpsertOutboxJob_def upsertRow_def
  outboundMessage_def insertMessage_def setMessages_def replaceRow_def updateConversation_def updateRows_def updateSession_def
  touchConversation_def sqlUint64_def AEADSeal_def AEADKeySize_def AEADNonceSize_def GetConversation_def GetSessionState_def
  queryRow_def blockedPeer_run isBlocked_def GetPeer_def execR_def activeConversation_def zeroConversation_def emptyDB_def
  relaySQLValues_def zeroMessage_def RevokeMessage_def GetMessage_def DeleteOutboxJob_def DeleteMessage_def deleteRows_def
  refreshConversationMessageSummary_def removeMessage_def conversationMessages_def orderDesc_def chat_consts

lemma demo_show: "show_nat 0 = ''0''" "show_nat (Suc 0) = ''1''"
  by (simp_all add: show_nat.simps digit_chars)

definition demo_second :: Message where
  "demo_second = (outboundMessage 30 ''m1'' ''c'' ''A'' ''B'' MessageTypeChatText 1)\<lparr>ms_Plaintext := ''two'',
     ms_TransportKind := TransportKindNative, ms_RelayStatus := RelayStatusNone\<rparr>"

lemma demo_sender_state:
  "cs_localPeer demo_sender = ''A''"
  "db_messages (cs_db demo_sender) = [(demo_second, demo_ciphertext ''two'' 1)]"
  "map cv_ConversationID (db_conversations (cs_db demo_sender)) = [''c'']"
  "map cv_PeerID (db_conversations (cs_db demo_sender)) = [''B'']"
  "map sx_SendCounter (db_sessions (cs_db demo_sender)) = [2]" "map sx_ConversationID (db_sessions (cs_db demo_sender)) = [''c'']"
  by (simp_all add: demo_sender_def demo_send_simps svc_eval demo_node_def Let_def trimSpace_def is_space_def demo_chat_net_def
      length_BuildAEADNonce demo_show demo_second_def demo_ciphertext_def)

definition demo_sync_net :: chat_net where
  "demo_sync_net = demo_chat_net\<lparr>cn_chatSync := (\<lambda>_ _ req. handleChatSyncRequest demo_chat_net demo_sender req ''B'')\<rparr>"

definition demo_answer :: ChatSyncResponse where
  "demo_answer = (emptySyncResponse ''c'' ''A'' 2)\<lparr>sp_Messages := [syncText demo_second (demo_ciphertext ''two'' 1)]\<rparr>"

lemma demo_answer_fits: "fitsFrame demo_answer"
proof -
  have "length (demo_ciphertext ''two'' 1) \<le> 4000"
    by (simp add: demo_ciphertext_def demo_crypto_def demo_block_def textAAD_def MessageTypeChatText_def length_concat comp_def
        length_BuildAEADNonce sum_list_triv AEADNonceSize_def sum_list_replicate)
  moreover have "int64_ok (unixMilli 30)" by (simp add: unixMilli_def millisecond_def int64_ok_def)
  ultimately have "smallText (syncText demo_second (demo_ciphertext ''two'' 1))"
    by (simp add: smallText_def syncText_def demo_second_def outboundMessage_def shortName_def ascii_def chat_consts)
  then show ?thesis unfolding demo_answer_def by (intro texts_fit) (simp_all add: shortName_def ascii_def)
qed

lemma demo_sender_lookup:
  "\<exists>conv. GetConversation ''c'' (cs_db demo_sender) = Inr conv \<and> cv_PeerID conv = ''B''"
  "\<exists>x. GetSessionState ''c'' (cs_db demo_sender) = Inr x \<and> sx_SendCounter x = 2"
  using demo_sender_state(3-6) by (auto simp: GetConversation_def GetSessionState_def queryRow_def map_eq_Cons_conv)

lemma demo_sender_answers:
  "ListOutgoingMessagesForSync ''c'' ''A'' 0 directSyncBatchSize (cs_db demo_sender) = Inr [(demo_second, demo_ciphertext ''two'' 1)]"
  "handleChatSyncRequest demo_chat_net demo_sender (syncRequest 40 ''B'' ''c'' ''A'' 0) ''B'' = Inr demo_answer"
proof -
  show o: "ListOutgoingMessagesForSync ''c'' ''A'' 0 directSyncBatchSize (cs_db demo_sender) = Inr [(demo_second, demo_ciphertext ''two'' 1)]"
    by (simp add: ListOutgoingMessagesForSync_def sqlUint64_def demo_sender_state(2) orderAsc_def directSyncBatchSize_def demo_second_def
        outboundMessage_def zeroMessage_def)
  obtain conv x where "GetConversation ''c'' (cs_db demo_sender) = Inr conv" "cv_PeerID conv = ''B''"
    "GetSessionState ''c'' (cs_db demo_sender) = Inr x" "sx_SendCounter x = 2" using demo_sender_lookup by blast
  moreover have "ms_MsgType demo_second = MessageTypeChatText" by (simp add: demo_second_def outboundMessage_def)
  ultimately show "handleChatSyncRequest demo_chat_net demo_sender (syncRequest 40 ''B'' ''c'' ''A'' 0) ''B'' = Inr demo_answer"
    using o demo_answer_fits
    by (simp add: handleChatSyncRequest_def syncRequest_def Let_def demo_sender_state(1) fillSync_step demo_answer_def emptySyncResponse_def)
qed

theorem missing_counter_never_returns_witness:
  "\<forall>d. fst (handleIncomingChatText d demo_sync_net 40 (syncText demo_second (demo_ciphertext ''two'' 1)) TransportModeDirect ''A'' True False
     (demo_node ''B'' ''A'')) = OutOfFuel"
proof
  fix d
  obtain convS where c: "GetConversation ''c'' (cs_db demo_sender) = Inr convS" using demo_sender_lookup by blast
  let ?conv = "activeConversation ''c'' ''A'' TransportModeDirect 0 1 1"
  have i: "GetConversation ''c'' (cs_db (demo_node ''B'' ''A'')) = Inr ?conv"
    "\<exists>x. GetSessionState ''c'' (cs_db (demo_node ''B'' ''A'')) = Inr x \<and> sx_RecvCounter x = 0"
    by (simp_all add: demo_node_def GetConversation_def GetSessionState_def queryRow_def activeConversation_def)
  obtain x where x: "GetSessionState ''c'' (cs_db (demo_node ''B'' ''A'')) = Inr x" "sx_RecvCounter x = 0" using i(2) by blast
  show "fst (handleIncomingChatText d demo_sync_net 40 (syncText demo_second (demo_ciphertext ''two'' 1)) TransportModeDirect ''A'' True False
     (demo_node ''B'' ''A'')) = OutOfFuel"
    by (rule missing_counter_never_returns [where S = demo_sender and NS = demo_chat_net and expected = 0 and resp = demo_answer and
          items = "[]" and ?m0.0 = demo_second and ?b0.0 = "demo_ciphertext ''two'' 1" and cid = "''c''" and convS = convS and conv = ?conv and sess = x])
       (use i x c demo_sender_answers in \<open>simp_all add: demo_sync_net_def demo_sender_state(1) demo_node_def syncText_def demo_second_def
          outboundMessage_def activeConversation_def streamPeerIdentityOK_def Let_def isBlocked_def GetPeer_def queryRow_def emptyDB_def zeroMessage_def\<close>)
qed

end
