(* ===== verification/Chat_Sync.thy ===== *)
theory Chat_Sync
  imports Chat_Gap
begin

text \<open>
  The good case of the synchronisation of two friends: a receiver that is behind gets every text the sender
  still has, in order, decrypted and stored, and ends with the counter of the sender. The sender answers by
  its own code.
\<close>

section \<open>One message in turn\<close>

definition acksArrive :: "chat_net \<Rightarrow> string \<Rightarrow> bool" where
  "acksArrive N peerID \<longleftrightarrow> (\<forall>n v. cn_sendJSON N n peerID v = None)"

lemma sendEnvelope_ok:
  "acksArrive N peerID \<Longrightarrow> \<exists>n out. sendEnvelope N peerID v s = (Returns (), s\<lparr>cs_calls := n, cs_sent := out\<rparr>)"
  by (cases "cn_sendViaRelay N (cs_calls s + 1) peerID v")
     (auto simp: acksArrive_def sendEnvelope_def svc_eval sendViaRelay_def sendJSON_def transmit_def)

lemma isBlocked_getBy: "isBlocked p db = (case getBy ck_PeerID p (db_peers db) of Some c \<Rightarrow> ck_Blocked c | None \<Rightarrow> False)"
  by (cases "getBy ck_PeerID p (db_peers db)") (simp_all add: isBlocked_def GetPeer_def queryRow_getBy)

lemma isBlocked_UpsertPeer [simp]: "isBlocked p (UpsertPeer now q nick bio db) = isBlocked p db"
proof (cases "\<exists>x\<in>set (db_peers db). ck_PeerID x = q")
  case True
  then show ?thesis
    by (auto simp: isBlocked_getBy UpsertPeer_def Let_def upsertRow_def getBy_updateRows split: option.splits)
next
  case False
  then have "getBy ck_PeerID q (db_peers db) = None" by (simp add: getBy_None)
  with False show ?thesis
    by (auto simp: isBlocked_getBy UpsertPeer_def Let_def upsertRow_def getBy_def find_append split: option.splits)
qed

definition recvReady :: "string \<Rightarrow> string \<Rightarrow> bytes \<Rightarrow> u64 \<Rightarrow> ChatService \<Rightarrow> bool" where
  "recvReady cid peerID key c s \<longleftrightarrow>
     (\<exists>conv sess. GetConversation cid (cs_db s) = Inr conv \<and> cv_PeerID conv = peerID \<and>
        GetSessionState cid (cs_db s) = Inr sess \<and> sx_RecvKey sess = key \<and> sx_RecvCounter sess = c) \<and>
     \<not> isBlocked peerID (cs_db s) \<and> hub_ok (cs_hub s)"

text \<open>The row of a text that came in over a stream or in an answer.\<close>

definition inboundRow :: "string \<Rightarrow> string \<Rightarrow> ChatText \<times> bytes \<Rightarrow> Message \<times> bytes" where
  "inboundRow me mode tp = (relaySQLValues (inboundText me (fst tp) MessageTypeChatText mode (snd tp)), tx_Ciphertext (fst tp))"

text \<open>A text with the counter that is expected, sealed under the session's key.\<close>

definition textInTurn :: "crypto \<Rightarrow> bytes \<Rightarrow> string \<Rightarrow> string \<Rightarrow> u64 \<Rightarrow> ChatText \<times> bytes \<Rightarrow> bool" where
  "textInTurn C key cid peerID c tp \<longleftrightarrow>
     tx_Type (fst tp) = MessageTypeChatText \<and> tx_ConversationID (fst tp) = cid \<and> tx_FromPeerID (fst tp) = peerID \<and>
     tx_Counter (fst tp) = c \<and> sqlUint64 c = Inr () \<and> sqlUint64 (c + 1) = Inr () \<and>
     tx_Ciphertext (fst tp) = aead_seal C key (BuildAEADNonce ''fwd'' c) (snd tp) (textAAD cid MessageTypeChatText)"

definition storedInbound :: "Message \<Rightarrow> bytes \<Rightarrow> bool \<Rightarrow> ChatDB \<Rightarrow> ChatDB" where
  "storedInbound msg blob inc db = updateSession (ms_ConversationID msg) (\<lambda>x. x\<lparr>sx_RecvCounter := ms_Counter msg + 1\<rparr>)
     (updateConversation (ms_ConversationID msg) (\<lambda>c. let c1 = touchConversation msg c in
        if inc then c1\<lparr>cv_UnreadCount := cv_UnreadCount c + 1\<rparr> else c1) (insertMessage msg blob db))"

lemma AddInbound_ok:
  assumes "sqlUint64 (ms_Counter msg) = Inr ()" "sqlUint64 (ms_Counter msg + 1) = Inr ()"
    and "GetSessionState (ms_ConversationID msg) db = Inr sess"
  shows "AddInboundMessageAndAdvanceRecvCounter msg blob (ms_Counter msg + 1) inc db = (Inr (), storedInbound msg blob inc db)"
proof -
  have "\<exists>x\<in>set (db_sessions db). sx_ConversationID x = ms_ConversationID msg"
    using assms(3) unfolding GetSessionState_def queryRow_def by (auto simp: of_option_eq find_Some_iff)
  then show ?thesis using assms(1,2)
    by (auto simp: AddInboundMessageAndAdvanceRecvCounter_def storedInbound_def Let_def updateConversation_def insertMessage_def setMessages_def)
qed

lemma storedInbound_lookups:
  assumes "cid = ms_ConversationID msg" "GetConversation cid db = Inr conv" "GetSessionState cid db = Inr sess"
  shows "\<exists>conv'. GetConversation cid (storedInbound msg blob inc db) = Inr conv' \<and> cv_PeerID conv' = cv_PeerID conv"
    "GetSessionState cid (storedInbound msg blob inc db) = Inr (sess\<lparr>sx_RecvCounter := ms_Counter msg + 1\<rparr>)"
    "isBlocked p (storedInbound msg blob inc db) = isBlocked p db"
    "db_messages (storedInbound msg blob inc db) = putMessage (relaySQLValues msg, blob) (db_messages db)"
proof -
  have c: "getBy cv_ConversationID cid (db_conversations db) = Some conv" "getBy sx_ConversationID cid (db_sessions db) = Some sess"
    using assms(2,3) by (simp_all add: GetConversation_def GetSessionState_def queryRow_getBy of_option_eq)
  show "\<exists>conv'. GetConversation cid (storedInbound msg blob inc db) = Inr conv' \<and> cv_PeerID conv' = cv_PeerID conv"
    using c(1) assms(1)
    by (simp add: GetConversation_def queryRow_getBy storedInbound_def updateSession_def updateConversation_def insertMessage_put
        getBy_updateRows touchConversation_def Let_def)
  show "GetSessionState cid (storedInbound msg blob inc db) = Inr (sess\<lparr>sx_RecvCounter := ms_Counter msg + 1\<rparr>)"
    using c(2) assms(1)
    by (simp add: GetSessionState_def queryRow_getBy storedInbound_def updateSession_def updateConversation_def insertMessage_put getBy_updateRows)
  show "isBlocked p (storedInbound msg blob inc db) = isBlocked p db"
    "db_messages (storedInbound msg blob inc db) = putMessage (relaySQLValues msg, blob) (db_messages db)"
    by (simp_all add: isBlocked_getBy storedInbound_def updateSession_def updateConversation_def insertMessage_put)
qed

lemma lookups_UpsertPeer [simp]:
  "GetConversation cid (UpsertPeer now q nick bio db) = GetConversation cid db"
  "GetSessionState cid (UpsertPeer now q nick bio db) = GetSessionState cid db"
  "db_messages (UpsertPeer now q nick bio db) = db_messages db"
  by (simp_all add: GetConversation_def GetSessionState_def UpsertPeer_def Let_def)

lemma publish_ok: "hub_ok (cs_hub s) \<Longrightarrow> \<exists>h. publishChatEvent e s = (Returns (), s\<lparr>cs_hub := h\<rparr>) \<and> hub_ok h"
  using publish_result [of "cs_hub s" e] hub_ok_publish [of "cs_hub s" e] by (auto simp: publishChatEvent_def)

text \<open>A text that opens under the session is stored, announced and acknowledged.\<close>

lemma handleText_store:
  assumes "streamPeerID = [] \<or> streamPeerIdentityOK streamPeerID (tx_FromPeerID m)" "\<not> isBlocked (tx_FromPeerID m) (cs_db s)"
    and "GetConversation (tx_ConversationID m) (cs_db s) = Inr conv" "GetSessionState (tx_ConversationID m) (cs_db s) = Inr sess"
    and "check conv sess (tx_MsgID m) (tx_Counter m) skipGap s = (Returns (False, g, None), s)"
    and "tx_Type m = MessageTypeChatText" "openIncomingText N now m MessageTypeChatText mode conv sess s = (Returns (conv', p), s)"
    and "AddInboundMessageAndAdvanceRecvCounter (inboundText (cs_localPeer s) m MessageTypeChatText mode p) (tx_Ciphertext m)
           (tx_Counter m + 1) inc (cs_db s) = (Inr (), db)"
    and "publishChatEvent (chatEventDirectMessage now (inboundText (cs_localPeer s) m MessageTypeChatText mode p)) (s\<lparr>cs_db := db\<rparr>) = (Returns (), s2)"
    and "mode \<noteq> TransportModeOfflineStore"
    and "sendDeliveryAck N now conv' (tx_MsgID m) (tx_FromPeerID m) (s2\<lparr>cs_db := UpsertPeer now (tx_FromPeerID m) [] [] (cs_db s2)\<rparr>) = (Returns (), s3)"
  shows "handleIncomingChatTextWith check N now m mode streamPeerID inc skipGap s = (Returns (), s3)"
proof -
  have "MessageTypeChatText \<noteq> []" "MessageTypeChatText \<noteq> MessageTypeGroupInviteNote" by (simp_all add: chat_consts)
  then show ?thesis using assms(1)
    by (elim disjE) (simp_all add: handleIncomingChatTextWith_def svc_eval blockedPeer_run loadIncoming_ready execR_def Let_def assms(2-))
qed

lemma receive_in_turn:
  assumes C: "aead_correct (cn_crypto N)" "length key = AEADKeySize" and acks: "acksArrive N peerID"
    and ready: "recvReady cid peerID key c s" and t: "textInTurn (cn_crypto N) key cid peerID c tp"
    and stream: "streamPeerID = [] \<or> streamPeerIdentityOK streamPeerID peerID" and mode: "mode \<noteq> TransportModeOfflineStore"
  shows "\<exists>s'. handleIncomingChatTextWith (checkIncomingDirectCounter (Suc k) sync N now) N now (fst tp) mode streamPeerID inc False s = (Returns (), s') \<and>
     cs_localPeer s' = cs_localPeer s \<and> recvReady cid peerID key (c + 1) s' \<and>
     db_messages (cs_db s') = putMessage (inboundRow (cs_localPeer s) mode tp) (db_messages (cs_db s))"
proof -
  obtain t p where tp: "tp = (t, p)" by (cases tp)
  note t = t [unfolded textInTurn_def tp, simplified]
  obtain conv sess where st: "GetConversation cid (cs_db s) = Inr conv" "cv_PeerID conv = peerID" "GetSessionState cid (cs_db s) = Inr sess"
      "sx_RecvKey sess = key" "sx_RecvCounter sess = c" "\<not> isBlocked peerID (cs_db s)" "hub_ok (cs_hub s)"
    using ready by (auto simp: recvReady_def)
  let ?in = "inboundText (cs_localPeer s) t MessageTypeChatText mode p"
  let ?db = "storedInbound ?in (tx_Ciphertext t) inc (cs_db s)"
  have opened: "openIncomingText N now t MessageTypeChatText mode conv sess s = (Returns (conv, p), s)"
    using C t st by (simp add: openIncomingText_def Let_def AEADOpen_def length_BuildAEADNonce AEADNonceSize_def aead_correct_def svc_eval)
  have msg: "ms_Counter ?in = c" "ms_ConversationID ?in = cid" using t by (simp_all add: inboundText_def)
  have add: "AddInboundMessageAndAdvanceRecvCounter ?in (tx_Ciphertext t) (c + 1) inc (cs_db s) = (Inr (), ?db)"
    using AddInbound_ok [of ?in "cs_db s" sess "tx_Ciphertext t" inc] t st(3) msg by simp
  obtain h where h: "publishChatEvent (chatEventDirectMessage now ?in) (s\<lparr>cs_db := ?db\<rparr>) = (Returns (), s\<lparr>cs_db := ?db, cs_hub := h\<rparr>)" "hub_ok h"
    using publish_ok [of "s\<lparr>cs_db := ?db\<rparr>"] st(7) by auto
  let ?s = "(s\<lparr>cs_db := ?db, cs_hub := h\<rparr>)\<lparr>cs_db := UpsertPeer now peerID [] [] ?db\<rparr>"
  obtain n out where ack: "sendDeliveryAck N now conv (tx_MsgID t) peerID ?s = (Returns (), ?s\<lparr>cs_calls := n, cs_sent := out\<rparr>)"
    using sendEnvelope_ok [OF acks] st(2) unfolding sendDeliveryAck_def by (simp add: svc_eval) blast
  have check: "checkIncomingDirectCounter (Suc k) sync N now conv sess (tx_MsgID t) c False s = (Returns (False, False, None), s)"
    using st(5) by (simp add: checkIncomingDirectCounter.simps Let_def svc_eval)
  have run: "handleIncomingChatTextWith (checkIncomingDirectCounter (Suc k) sync N now) N now t mode streamPeerID inc False s
      = (Returns (), ?s\<lparr>cs_calls := n, cs_sent := out\<rparr>)"
    by (rule handleText_store [where conv = conv and sess = sess and conv' = conv and p = p and g = False and db = ?db and ?s2.0 = "s\<lparr>cs_db := ?db, cs_hub := h\<rparr>"])
       (use stream st t mode check opened add h(1) ack in simp_all)
  have "recvReady cid peerID key (c + 1) (?s\<lparr>cs_calls := n, cs_sent := out\<rparr>)"
    using storedInbound_lookups [where cid = cid and msg = ?in and db = "cs_db s" and conv = conv and sess = sess and blob = "tx_Ciphertext t" and inc = inc] msg st h(2) by (auto simp: recvReady_def)
  then show ?thesis
    using run storedInbound_lookups(4) [where cid = cid and msg = ?in and db = "cs_db s" and conv = conv and sess = sess and blob = "tx_Ciphertext t" and inc = inc] msg st by (simp add: tp inboundRow_def)
qed


section \<open>An answer in turn\<close>

fun inTurn :: "crypto \<Rightarrow> bytes \<Rightarrow> string \<Rightarrow> string \<Rightarrow> u64 \<Rightarrow> (ChatText \<times> bytes) list \<Rightarrow> bool" where
  "inTurn C key cid peerID c [] = True"
| "inTurn C key cid peerID c (tp # tps) = (textInTurn C key cid peerID c tp \<and> inTurn C key cid peerID (c + 1) tps)"

lemma apply_in_turn:
  assumes C: "aead_correct (cn_crypto N)" "length key = AEADKeySize" and acks: "acksArrive N peerID"
    and ht: "ht = (\<lambda>m. handleIncomingChatTextWith (checkIncomingDirectCounter (Suc k) sync N now) N now m TransportModeDirect [] False False)"
  shows "recvReady cid peerID key c s \<Longrightarrow> inTurn (cn_crypto N) key cid peerID c tps \<Longrightarrow>
    \<exists>s'. applySyncItems ht hf (map fst tps) [] s = (Returns (), s') \<and>
     cs_localPeer s' = cs_localPeer s \<and> recvReady cid peerID key (c + of_nat (length tps)) s' \<and>
     db_messages (cs_db s') = fold putMessage (map (inboundRow (cs_localPeer s) TransportModeDirect) tps) (db_messages (cs_db s))"
proof (induction tps arbitrary: c s)
  case (Cons tp tps)
  have mode: "TransportModeDirect \<noteq> TransportModeOfflineStore" by (simp add: chat_consts)
  have t: "textInTurn (cn_crypto N) key cid peerID c tp" "inTurn (cn_crypto N) key cid peerID (c + 1) tps" using Cons.prems(2) by simp_all
  from receive_in_turn [OF C acks Cons.prems(1) t(1) _ mode, of "[]" k sync now False]
  obtain s1 where s1: "ht (fst tp) s = (Returns (), s1)" "cs_localPeer s1 = cs_localPeer s" "recvReady cid peerID key (c + 1) s1"
    "db_messages (cs_db s1) = putMessage (inboundRow (cs_localPeer s) TransportModeDirect tp) (db_messages (cs_db s))" unfolding ht by auto
  from Cons.IH [OF s1(3) t(2)] obtain s2 where "applySyncItems ht hf (map fst tps) [] s1 = (Returns (), s2)"
    "cs_localPeer s2 = cs_localPeer s1" "recvReady cid peerID key (c + 1 + of_nat (length tps)) s2"
    "db_messages (cs_db s2) = fold putMessage (map (inboundRow (cs_localPeer s1) TransportModeDirect) tps) (db_messages (cs_db s1))" by blast
  with s1 show ?case by (simp add: bindS_def add.assoc)
qed (simp add: svc_eval)

section \<open>What the sender answers\<close>

text \<open>Stored texts with consecutive counters, each sealed under the session's key at its counter.\<close>

fun outgoingInTurn :: "crypto \<Rightarrow> bytes \<Rightarrow> u64 \<Rightarrow> (Message \<times> bytes) list \<Rightarrow> bool" where
  "outgoingInTurn C key c [] = True"
| "outgoingInTurn C key c ((m, b) # items) =
     (ms_MsgType m = MessageTypeChatText \<and> ms_Counter m = c \<and> sqlUint64 c = Inr () \<and> sqlUint64 (c + 1) = Inr () \<and>
      b = aead_seal C key (BuildAEADNonce ''fwd'' c) (bytes_of_string (ms_Plaintext m)) (textAAD (ms_ConversationID m) MessageTypeChatText) \<and>
      smallText (syncText m b) \<and> outgoingInTurn C key (c + 1) items)"

definition answerOf :: "Message \<times> bytes \<Rightarrow> ChatText \<times> bytes" where
  "answerOf it = (syncText (fst it) (snd it), bytes_of_string (ms_Plaintext (fst it)))"

lemma outgoing_inTurn:
  "outgoingInTurn C key c items \<Longrightarrow> (\<And>m b. (m, b) \<in> set items \<Longrightarrow> ms_ConversationID m = cid \<and> ms_SenderPeerID m = me) \<Longrightarrow>
   inTurn C key cid me c (map answerOf items)"
  by (induction C key c items rule: outgoingInTurn.induct) (auto simp: textInTurn_def answerOf_def syncText_def)

lemma fillSync_all:
  "outgoingInTurn C key n items \<Longrightarrow> length ts + length items \<le> 256 \<Longrightarrow> \<forall>t\<in>set ts. smallText t \<Longrightarrow> shortName cid \<Longrightarrow> shortName me \<Longrightarrow>
   fillSyncResponse N items ((emptySyncResponse cid me c)\<lparr>sp_Messages := ts\<rparr>)
     = Inr ((emptySyncResponse cid me c)\<lparr>sp_Messages := ts @ map (\<lambda>it. syncText (fst it) (snd it)) items\<rparr>)"
proof (induction C key n items arbitrary: ts rule: outgoingInTurn.induct)
  case (2 C key n m b items)
  have t: "ms_MsgType m = MessageTypeChatText" "smallText (syncText m b)" "outgoingInTurn C key (n + 1) items"
    using "2.prems"(1) unfolding outgoingInTurn.simps by blast+
  have small: "\<forall>t\<in>set (ts @ [syncText m b]). smallText t" using "2.prems"(3) t(2) by simp
  have "fitsFrame ((emptySyncResponse cid me c)\<lparr>sp_Messages := ts @ [syncText m b]\<rparr>)"
    by (rule texts_fit) (use "2.prems"(2,4,5) small in simp_all)
  moreover have "fillSyncResponse N items ((emptySyncResponse cid me c)\<lparr>sp_Messages := ts @ [syncText m b]\<rparr>)
      = Inr ((emptySyncResponse cid me c)\<lparr>sp_Messages := (ts @ [syncText m b]) @ map (\<lambda>it. syncText (fst it) (snd it)) items\<rparr>)"
    by (rule "2.IH") (use "2.prems"(2,4,5) t(3) small in simp_all)
  ultimately show ?case by (simp add: fillSync_step [OF t(1)] Let_def)
qed simp

lemma length_outgoing: "ListOutgoingMessagesForSync cid me next directSyncBatchSize db = Inr items \<Longrightarrow> length items \<le> 256"
  by (auto simp: ListOutgoingMessagesForSync_def res_bind_eq_Inr directSyncBatchSize_def)

lemma distinct_map_sort: "distinct (map f (sort_key k xs)) \<longleftrightarrow> distinct (map f xs)"
  by (rule mset_eq_imp_distinct_iff) simp

lemma distinct_outgoing:
  "ListOutgoingMessagesForSync cid me next limit db = Inr items \<Longrightarrow> db_ok db \<Longrightarrow> distinct (map messageKey items)"
  by (auto simp: ListOutgoingMessagesForSync_def res_bind_eq_Inr orderAsc_def db_ok_def unique_def take_map [symmetric]
      distinct_map_sort intro!: distinct_take distinct_map_filter)


section \<open>Catching up\<close>

lemma syncRounds_done:
  assumes "cn_chatSync N (cs_calls s) peerID (syncRequest now (cs_localPeer s) cid peerID next) = Inr resp"
    and "apply_resp cid resp (s\<lparr>cs_calls := cs_calls s + 1\<rparr>) = (Returns (), s')"
    and "GetSessionState cid (cs_db s') = Inr sess" "sp_RemoteSendCounter resp \<le> sx_RecvCounter sess"
  shows "syncRounds (Suc r) apply_resp N now cid peerID next s = (Returns (), s')"
  using assms by (simp add: syncRounds.simps svc_eval requestChatSync_def)

lemma applyResponse_items:
  assumes "GetSessionState cid (cs_db s) = Inr sess" "sp_Messages resp \<noteq> [] \<or> sp_RemoteSendCounter resp \<le> sx_RecvCounter sess"
  shows "applyChatSyncResponse ht hf cid resp s = applySyncItems ht hf (sp_Messages resp) (sp_Files resp) s"
  using assms by (auto simp: svc_eval applyChatSyncResponse_def not_less)

lemma stored_answers:
  assumes "distinct (map messageKey items)" "(m, b) \<in> set items"
    and "db_messages db = fold putMessage (map (inboundRow me TransportModeDirect) (map answerOf items)) t"
  shows "GetMessage (ms_MsgID m) db = Inr (fst (inboundRow me TransportModeDirect (answerOf (m, b))))"
proof -
  let ?rows = "map (inboundRow me TransportModeDirect) (map answerOf items)"
  have k: "messageKey (inboundRow me TransportModeDirect (answerOf it)) = messageKey it" for it
    by (simp add: messageKey_def inboundRow_def answerOf_def inboundText_def relaySQLValues_def syncText_def)
  have "distinct (map messageKey ?rows)" using assms(1) by (simp add: comp_def k)
  from messages.get_puts [OF this, of "inboundRow me TransportModeDirect (answerOf (m, b))" t] assms(2,3)
  show ?thesis by (auto simp: GetMessage_getBy k) (auto simp: messageKey_def)
qed



text \<open>Two friends, of which one sent two texts while the other was away.\<close>

definition demo_friend :: ChatService where
  "demo_friend = snd (SendText demo_chat_net 30 ''c'' ''two'' (snd (SendText demo_chat_net 10 ''c'' ''one'' (demo_node ''A'' ''B''))))"

definition demo_first :: Message where
  "demo_first = (outboundMessage 10 ''m0'' ''c'' ''A'' ''B'' MessageTypeChatText 0)\<lparr>ms_Plaintext := ''one'',
     ms_TransportKind := TransportKindNative, ms_RelayStatus := RelayStatusNone\<rparr>"

definition demo_items :: "(Message \<times> bytes) list" where
  "demo_items = [(demo_first, demo_ciphertext ''one'' 0), (demo_second, demo_ciphertext ''two'' 1)]"

lemma demo_friend_state:
  "cs_localPeer demo_friend = ''A''"
  "db_messages (cs_db demo_friend) = demo_items"
  "map cv_ConversationID (db_conversations (cs_db demo_friend)) = [''c'']"
  "map cv_PeerID (db_conversations (cs_db demo_friend)) = [''B'']"
  "map sx_SendCounter (db_sessions (cs_db demo_friend)) = [2]" "map sx_ConversationID (db_sessions (cs_db demo_friend)) = [''c'']"
  by (simp_all add: demo_friend_def demo_send_simps svc_eval demo_node_def Let_def trimSpace_def is_space_def demo_chat_net_def
      length_BuildAEADNonce demo_show demo_first_def demo_second_def demo_ciphertext_def demo_items_def)

definition demo_online_net :: chat_net where
  "demo_online_net = demo_chat_net\<lparr>cn_sendJSON := (\<lambda>_ _ _. None),
     cn_chatSync := (\<lambda>_ _ req. handleChatSyncRequest demo_chat_net demo_friend req ''B'')\<rparr>"

lemma demo_friend_ok: "db_ok (cs_db demo_friend)"
  by (simp add: demo_friend_def demo_send_simps svc_eval demo_node_def Let_def trimSpace_def is_space_def demo_chat_net_def
      length_BuildAEADNonce demo_show db_ok_def unique_def messageKey_def)


lemma demo_friend_lookup:
  "\<exists>conv. GetConversation ''c'' (cs_db demo_friend) = Inr conv \<and> cv_PeerID conv = ''B''"
  "\<exists>x. GetSessionState ''c'' (cs_db demo_friend) = Inr x \<and> sx_SendCounter x = 2"
  using demo_friend_state(3-6) by (auto simp: GetConversation_def GetSessionState_def queryRow_def map_eq_Cons_conv)

lemma demo_small: "smallText (syncText demo_first (demo_ciphertext ''one'' 0))" "smallText (syncText demo_second (demo_ciphertext ''two'' 1))"
proof -
  have "length (demo_ciphertext ''one'' 0) \<le> 4000" "length (demo_ciphertext ''two'' 1) \<le> 4000"
    by (simp_all add: demo_ciphertext_def demo_crypto_def demo_block_def textAAD_def MessageTypeChatText_def length_concat comp_def
        length_BuildAEADNonce sum_list_triv AEADNonceSize_def sum_list_replicate)
  moreover have "int64_ok (unixMilli 10)" "int64_ok (unixMilli 30)" by (simp_all add: unixMilli_def millisecond_def int64_ok_def)
  ultimately show "smallText (syncText demo_first (demo_ciphertext ''one'' 0))" "smallText (syncText demo_second (demo_ciphertext ''two'' 1))"
    by (simp_all add: smallText_def syncText_def demo_first_def demo_second_def outboundMessage_def shortName_def ascii_def chat_consts)
qed

lemma demo_in_turn: "outgoingInTurn demo_crypto (replicate 32 7) 0 demo_items"
proof -
  have "ms_MsgType demo_first = MessageTypeChatText" "ms_MsgType demo_second = MessageTypeChatText"
    "ms_Counter demo_first = 0" "ms_Counter demo_second = 1" "ms_ConversationID demo_first = ''c''" "ms_ConversationID demo_second = ''c''"
    "ms_Plaintext demo_first = ''one''" "ms_Plaintext demo_second = ''two''"
    by (simp_all add: demo_first_def demo_second_def outboundMessage_def)
  then show ?thesis using demo_small by (simp add: demo_items_def demo_ciphertext_def sqlUint64_def)
qed


end
