(* ===== verification/Chat_Friends.thy ===== *)
theory Chat_Friends
  imports Chat_Sync
begin

text \<open>
  The handshake that makes two peers friends, with a small calculus for the operations of the service: a call
  runs to a condition (\<open>runs\<close>), and most calls are quiet, they leave alone what a conversation and its session
  are looked up in. The two sides of a handshake end with the same conversation and matching keys; then what
  goes wrong when an acceptance comes twice, or comes from the peer that asked.
\<close>

section \<open>Running an operation\<close>

definition runs :: "'a svc \<Rightarrow> ChatService \<Rightarrow> ('a \<Rightarrow> ChatService \<Rightarrow> bool) \<Rightarrow> bool" where
  "runs m s P \<longleftrightarrow> (\<exists>x s'. m s = (Returns x, s') \<and> P x s')"

lemma runs_mono: "runs m s P \<Longrightarrow> (\<And>x s'. P x s' \<Longrightarrow> Q x s') \<Longrightarrow> runs m s Q"
  by (auto simp: runs_def)

lemma runs_bind: "runs (bindS m f) s P \<longleftrightarrow> runs m s (\<lambda>x s'. runs (f x) s' P)"
  by (auto simp: runs_def bindS_def split: prod.splits outcome.splits)

lemma runs_unit:
  "runs (execDB g) s P \<longleftrightarrow> P () (s\<lparr>cs_db := g (cs_db s)\<rparr>)" "runs (goTask t) s P \<longleftrightarrow> P () (s\<lparr>cs_tasks := cs_tasks s @ [t]\<rparr>)"
  by (auto simp: runs_def svc_simps)

lemma runs_value:
  "runs (ret x) s P \<longleftrightarrow> P x s" "runs (gets f) s P \<longleftrightarrow> P (f s) s"
  "runs (fail e) s P \<longleftrightarrow> False" "runs (liftR r) s P \<longleftrightarrow> (\<exists>x. r = Inr x \<and> P x s)"
  "runs (readDB h) s P \<longleftrightarrow> (\<exists>x. h (cs_db s) = Inr x \<and> P x s)"
  by (auto simp: runs_def svc_simps liftR_def split: sum.splits)

lemma runs_nextCall: "runs nextCall s P \<longleftrightarrow> P (cs_calls s) (s\<lparr>cs_calls := cs_calls s + 1\<rparr>)"
  by (simp add: runs_def svc_simps)

lemma runs_attempt_readDB: "runs (attempt (readDB h)) s P \<longleftrightarrow> P (h (cs_db s)) s"
  by (auto simp: runs_def svc_simps liftR_def attempt_def readDB_def split: sum.splits)

lemmas runs_steps = runs_unit runs_value runs_nextCall runs_attempt_readDB

lemma runs_execR: "runs (execR g) s P \<longleftrightarrow> (\<exists>x db. g (cs_db s) = (Inr x, db) \<and> P x (s\<lparr>cs_db := db\<rparr>))"
  by (auto simp: runs_def execR_def liftR_def split: sum.splits prod.splits)

lemma runs_if: "runs (if b then m1 else m2) s P \<longleftrightarrow> (if b then runs m1 s P else runs m2 s P)"
  by simp

lemmas runs_simps = runs_bind runs_steps runs_execR runs_if

lemma runs_blockedPeer [simp]: "runs (blockedPeer p) s P \<longleftrightarrow> P (isBlocked p (cs_db s)) s"
  by (simp add: runs_def blockedPeer_run)

lemma runs_GetProfile [simp]: "runs GetProfile s P \<longleftrightarrow> P (db_profile (cs_db s), db_kexPriv (cs_db s)) s"
  by (simp add: GetProfile_def runs_steps)

section \<open>What a handshake looks at\<close>

text \<open>A request without what is only shown.\<close>

definition reqView :: "string \<Rightarrow> ChatDB \<Rightarrow> (string \<times> string \<times> string \<times> string) option" where
  "reqView rid db = map_option (\<lambda>r. (fq_FromPeerID r, fq_ToPeerID r, fq_State r, fq_ConversationID r)) (getBy fq_RequestID rid (db_requests db))"

definition sameDB :: "ChatDB \<Rightarrow> ChatDB \<Rightarrow> bool" where
  "sameDB db db' \<longleftrightarrow> db_conversations db' = db_conversations db \<and> db_sessions db' = db_sessions db \<and> db_messages db' = db_messages db \<and>
     db_profile db' = db_profile db \<and> db_kexPriv db' = db_kexPriv db \<and> (\<forall>rid. reqView rid db' = reqView rid db) \<and>
     (\<forall>p. isBlocked p db' = isBlocked p db)"

definition sameView :: "ChatService \<Rightarrow> ChatService \<Rightarrow> bool" where
  "sameView s s' \<longleftrightarrow> cs_localPeer s' = cs_localPeer s \<and> sameDB (cs_db s) (cs_db s') \<and> hub_ok (cs_hub s')"

lemma sameDB_refl [simp]: "sameDB db db" by (simp add: sameDB_def)

lemma sameDB_trans: "sameDB a b \<Longrightarrow> sameDB b c \<Longrightarrow> sameDB a c" by (simp add: sameDB_def)

lemma sameView_trans: "sameView a b \<Longrightarrow> sameView b c \<Longrightarrow> sameView a c"
  by (auto simp: sameView_def intro: sameDB_trans)

lemma sameDB_lookups:
  assumes "sameDB db db'"
  shows "GetConversation cid db' = GetConversation cid db" "GetConversationByPeer p db' = GetConversationByPeer p db"
    "GetSessionState cid db' = GetSessionState cid db" "db_kexPriv db' = db_kexPriv db" "db_profile db' = db_profile db"
    "isBlocked p db' = isBlocked p db" "reqView rid db' = reqView rid db" "db_messages db' = db_messages db"
  using assms by (simp_all add: sameDB_def GetConversation_def GetConversationByPeer_def GetSessionState_def)

definition quiet :: "'a svc \<Rightarrow> bool" where
  "quiet m \<longleftrightarrow> (\<forall>s. hub_ok (cs_hub s) \<longrightarrow> runs m s (\<lambda>_. sameView s))"

text \<open>A calm call may also fail.\<close>

definition calm :: "'a svc \<Rightarrow> bool" where
  "calm m \<longleftrightarrow> (\<forall>s. hub_ok (cs_hub s) \<longrightarrow> fst (m s) \<noteq> OutOfFuel \<and> sameView s (snd (m s)))"

named_theorems calm_intros and quiet_intros

lemma runs_quiet: "quiet m \<Longrightarrow> hub_ok (cs_hub s) \<Longrightarrow> (\<And>x s'. sameView s s' \<Longrightarrow> P x s') \<Longrightarrow> runs m s P"
  unfolding quiet_def by (blast intro: runs_mono)

lemma runs_bind_quiet:
  "quiet m \<Longrightarrow> hub_ok (cs_hub s) \<Longrightarrow> (\<And>x s'. sameView s s' \<Longrightarrow> runs (f x) s' P) \<Longrightarrow> runs (bindS m f) s P"
  unfolding runs_bind by (rule runs_quiet)

lemma quiet_calm: "quiet m \<Longrightarrow> calm m"
  by (fastforce simp: quiet_def calm_def runs_def)

lemma sameView_hub: "sameView s s' \<Longrightarrow> hub_ok (cs_hub s')" by (simp add: sameView_def)

lemma calmD: "calm m \<Longrightarrow> hub_ok (cs_hub s) \<Longrightarrow> fst (m s) \<noteq> OutOfFuel \<and> sameView s (snd (m s))"
  unfolding calm_def by blast

lemma calm_bind [calm_intros]:
  assumes m: "calm m" and f: "\<And>x. calm (f x)" shows "calm (bindS m f)"
  unfolding calm_def
proof (intro allI impI)
  fix s :: ChatService assume h: "hub_ok (cs_hub s)"
  note c = calmD [OF m h]
  show "fst (bindS m f s) \<noteq> OutOfFuel \<and> sameView s (snd (bindS m f s))"
  proof (cases "m s")
    case (Pair r s1)
    then have v: "sameView s s1" using c by simp
    show ?thesis
    proof (cases r)
      case (Returns x)
      then show ?thesis using Pair calmD [OF f sameView_hub [OF v], of x] sameView_trans [OF v] by (simp add: bindS_def)
    qed (use Pair c v in \<open>simp_all add: bindS_def\<close>)
  qed
qed

lemma quiet_bind [quiet_intros]:
  assumes "quiet m" "\<And>x. quiet (f x)" shows "quiet (bindS m f)"
  unfolding quiet_def runs_bind
proof (intro allI impI)
  fix s :: ChatService assume h: "hub_ok (cs_hub s)"
  show "runs m s (\<lambda>x s1. runs (f x) s1 (\<lambda>_. sameView s))"
  proof (rule runs_quiet [OF assms(1) h])
    fix x s1 assume v: "sameView s s1"
    show "runs (f x) s1 (\<lambda>_. sameView s)"
      by (rule runs_quiet [OF assms(2) sameView_hub [OF v]]) (rule sameView_trans [OF v])
  qed
qed

lemma quiet_attempt [quiet_intros]:
  assumes "calm m" shows "quiet (attempt m)"
  unfolding quiet_def
proof (intro allI impI)
  fix s :: ChatService assume h: "hub_ok (cs_hub s)"
  note c = calmD [OF assms h]
  show "runs (attempt m) s (\<lambda>_. sameView s)"
  proof (cases "m s")
    case (Pair r s1)
    with c show ?thesis by (cases r) (simp_all add: runs_def attempt_def)
  qed
qed

lemma sameView_refl: "hub_ok (cs_hub s) \<Longrightarrow> sameView s s" by (simp add: sameView_def)

lemma quiet_steps [quiet_intros]: "quiet (ret x)" "quiet (gets f)" "quiet (goTask t)" "quiet nextCall"
  by (simp_all add: quiet_def runs_steps sameView_def)

lemma quiet_execDB [quiet_intros]: "(\<And>db. sameDB db (g db)) \<Longrightarrow> quiet (execDB g)"
  by (simp add: quiet_def runs_steps sameView_def)

lemma calm_execR [calm_intros]: "(\<And>db. sameDB db (snd (g db))) \<Longrightarrow> calm (execR g)"
  by (auto simp: calm_def execR_def liftR_def sameView_def split: prod.splits sum.splits) (metis snd_conv)+

lemma calm_steps [calm_intros]: "calm (fail e)" "calm (ret x)" "calm (gets f)" "calm (goTask t)" "calm nextCall"
  by (simp_all add: quiet_calm quiet_intros) (simp add: calm_def svc_simps sameView_def)

lemma quiet_if [quiet_intros]: "quiet m1 \<Longrightarrow> quiet m2 \<Longrightarrow> quiet (if b then m1 else m2)" by simp

lemma calm_if [calm_intros]: "calm m1 \<Longrightarrow> calm m2 \<Longrightarrow> calm (if b then m1 else m2)" by simp

lemma calm_case_sum [calm_intros]: "(\<And>e. calm (m1 e)) \<Longrightarrow> (\<And>x. calm (m2 x)) \<Longrightarrow> calm (case r of Inl e \<Rightarrow> m1 e | Inr x \<Rightarrow> m2 x)"
  by (cases r) simp_all

lemma calm_attempt [calm_intros]: "calm m \<Longrightarrow> calm (attempt m)" by (rule quiet_calm) (rule quiet_attempt)

section \<open>The calls of a handshake that are quiet\<close>

lemma sameDB_UpsertPeer: "sameDB db (UpsertPeer now q nick bio db)"
  by (simp add: sameDB_def reqView_def) (simp add: UpsertPeer_def Let_def)

lemma isBlocked_updatePeers: "(\<And>p. ck_PeerID (f p) = ck_PeerID p \<and> ck_Blocked (f p) = ck_Blocked p) \<Longrightarrow> isBlocked q (updatePeers p f db) = isBlocked q db"
  by (auto simp: isBlocked_getBy updatePeers_def getBy_updateRows split: option.splits)

lemma sameDB_updatePeers: "(\<And>p. ck_PeerID (f p) = ck_PeerID p \<and> ck_Blocked (f p) = ck_Blocked p) \<Longrightarrow> sameDB db (updatePeers q f db)"
  by (simp add: sameDB_def reqView_def isBlocked_updatePeers) (simp add: updatePeers_def)

lemma sameDB_UpdatePeerAvatar: "sameDB db (snd (UpdatePeerAvatar now p avatar db))"
  by (auto simp: UpdatePeerAvatar_def updatePeerAvatar_def Let_def sameDB_updatePeers split: sum.splits)

lemma getBy_updateRequest:
  "(\<And>r. fq_RequestID (f r) = fq_RequestID r) \<Longrightarrow>
   getBy fq_RequestID rid (db_requests (updateRequest q f db)) = map_option (\<lambda>r. if rid = q then f r else r) (getBy fq_RequestID rid (db_requests db))"
  by (simp add: updateRequest_def getBy_updateRows)

lemma sameDB_updateRequest:
  assumes "\<And>r. fq_RequestID (f r) = fq_RequestID r \<and> fq_FromPeerID (f r) = fq_FromPeerID r \<and> fq_ToPeerID (f r) = fq_ToPeerID r \<and>
    fq_State (f r) = fq_State r \<and> fq_ConversationID (f r) = fq_ConversationID r"
  shows "sameDB db (updateRequest q f db)"
proof -
  have "reqView rid (updateRequest q f db) = reqView rid db" for rid
    using assms by (auto simp: reqView_def getBy_updateRequest option.map_comp comp_def intro: option.map_cong)
  then show ?thesis by (simp add: sameDB_def isBlocked_getBy) (simp add: updateRequest_def)
qed

lemma sameDB_request_ops:
  "sameDB db (UpdateRequestAvatar now rid avatar db)" "sameDB db (UpdateRequestRemoteChatKexPub now rid pub db)"
  unfolding UpdateRequestAvatar_def UpdateRequestRemoteChatKexPub_def by (rule sameDB_updateRequest, simp)+

lemma sameDB_job_ops:
  "sameDB db (DeleteFriendRequestJob rid db)" "sameDB db (UpsertFriendRequestJob now rid p st n t1 t2 db)"
  by (simp_all add: sameDB_def reqView_def isBlocked_getBy DeleteFriendRequestJob_def UpsertFriendRequestJob_def)

lemmas quiet_db = quiet_execDB [OF sameDB_UpsertPeer] quiet_execDB [OF sameDB_request_ops(1)] quiet_execDB [OF sameDB_request_ops(2)]
  quiet_execDB [OF sameDB_job_ops(1)] quiet_execDB [OF sameDB_job_ops(2)]

lemma quiet_publish [quiet_intros]: "quiet (publishChatEvent e)"
  unfolding quiet_def
proof (intro allI impI)
  fix s :: ChatService assume "hub_ok (cs_hub s)"
  then obtain h where "publishChatEvent e s = (Returns (), s\<lparr>cs_hub := h\<rparr>)" "hub_ok h" using publish_ok by blast
  then show "runs (publishChatEvent e) s (\<lambda>_. sameView s)" by (simp add: runs_def sameView_def)
qed

lemma calm_transmit [calm_intros]: "calm (sendJSON N p v)" "calm (sendViaRelay N p v)" "calm (tryOfflineFriendStoreSubmit N p m v)"
  by (auto simp: calm_def sendJSON_def sendViaRelay_def transmit_def tryOfflineFriendStoreSubmit_def sameView_def split: option.splits)

lemma quiet_friendControl [quiet_intros]: "quiet (attempt (sendFriendControlEnvelope N p v m))"
  unfolding sendFriendControlEnvelope_def sendEnvelopeDirectOrRelay_def by (intro quiet_intros calm_intros)

lemma quiet_schedule [quiet_intros]: "quiet (attempt (scheduleFriendRequestRetry N now rid p n))"
  unfolding scheduleFriendRequestRetry_def Let_def by (intro quiet_intros calm_intros quiet_calm [OF quiet_db(5)])

lemma quiet_requestAvatarFetch [quiet_intros]: "quiet (requestAvatarFetch N now p a)"
proof -
  have "quiet (\<lambda>s. (Returns (), s\<lparr>cs_avatarFetchSeen := (cs_avatarFetchSeen s)(k \<mapsto> now)\<rparr>))" for k
    by (simp add: quiet_def runs_def sameView_def)
  then show ?thesis unfolding requestAvatarFetch_def Let_def by (intro quiet_intros)
qed

lemma quiet_UpdatePeerAvatar [quiet_intros]: "quiet (attempt (execR (UpdatePeerAvatar now p a)))"
  by (intro quiet_intros calm_intros sameDB_UpdatePeerAvatar)

lemma quiet_learnAcceptor: "quiet (learnAcceptor N now acc)"
  unfolding learnAcceptor_def Let_def by (intro quiet_intros quiet_db)

lemma quiet_learnAvatar: "quiet (learnAvatar N now p a)"
  unfolding learnAvatar_def by (intro quiet_intros)

section \<open>Creating a conversation\<close>

definition createdRow :: "time \<Rightarrow> Conversation \<Rightarrow> ChatDB \<Rightarrow> Conversation" where
  "createdRow now conv db = conversationRow now (filledConversation conv db)"

definition createdDB :: "time \<Rightarrow> Conversation \<Rightarrow> sessionState \<Rightarrow> ChatDB \<Rightarrow> ChatDB" where
  "createdDB now conv sess db = (let row = createdRow now conv db in
     db\<lparr>db_conversations := replaceRow (\<lambda>c. cv_ConversationID c = cv_ConversationID row \<or> cv_PeerID c = cv_PeerID row) row (db_conversations db),
        db_sessions := Chat_Store_Laws.putSession sess (db_sessions db)\<rparr>)"

lemma createdRow_simps [simp]:
  "cv_ConversationID (createdRow now conv db) = cv_ConversationID conv" "cv_PeerID (createdRow now conv db) = cv_PeerID conv"
  "cv_State (createdRow now conv db) = cv_State conv" "cv_LastUpstreamSyncSeq (createdRow now conv db) = cv_LastUpstreamSyncSeq conv"
  by (simp_all add: createdRow_def conversationRow_def filledConversation_def inheritConversation_def inheritPeerConversation_def split: sum.splits)

lemma getBy_replaced: "(\<And>x. key x = key r \<Longrightarrow> Q x) \<Longrightarrow> getBy key (key r) (replaceRow Q r tbl) = Some r"
  by (simp add: getBy_def replaceRow_def find_append find_filter_none)

lemma createdDB_lookups [simp]:
  "GetConversation (cv_ConversationID conv) (createdDB now conv sess db) = Inr (createdRow now conv db)"
  "GetConversationByPeer (cv_PeerID conv) (createdDB now conv sess db) = Inr (createdRow now conv db)"
  "GetSessionState (sx_ConversationID sess) (createdDB now conv sess db) = Inr sess"
  "reqView rid (createdDB now conv sess db) = reqView rid db" "isBlocked p (createdDB now conv sess db) = isBlocked p db"
  "db_messages (createdDB now conv sess db) = db_messages db" "db_profile (createdDB now conv sess db) = db_profile db"
  "db_kexPriv (createdDB now conv sess db) = db_kexPriv db"
proof -
  let ?row = "createdRow now conv db"
  let ?t = "replaceRow (\<lambda>c. cv_ConversationID c = cv_ConversationID ?row \<or> cv_PeerID c = cv_PeerID ?row) ?row (db_conversations db)"
  have "getBy cv_ConversationID (cv_ConversationID ?row) ?t = Some ?row" "getBy cv_PeerID (cv_PeerID ?row) ?t = Some ?row"
    by (rule getBy_replaced, simp)+
  then show "GetConversation (cv_ConversationID conv) (createdDB now conv sess db) = Inr (createdRow now conv db)"
    "GetConversationByPeer (cv_PeerID conv) (createdDB now conv sess db) = Inr (createdRow now conv db)"
    by (simp_all add: GetConversation_def GetConversationByPeer_def queryRow_getBy createdDB_def Let_def)
  show "GetSessionState (sx_ConversationID sess) (createdDB now conv sess db) = Inr sess"
    by (simp add: GetSessionState_getBy createdDB_def Let_def sessions.get_put)
qed (simp_all add: reqView_def isBlocked_getBy createdDB_def Let_def)

lemma CreateConversation_ok:
  assumes "sx_SendCounter sess = 0" "sx_RecvCounter sess = 0" "cv_LastUpstreamSyncSeq conv = 0"
  shows "CreateConversation now conv sess db = (Inr (createdRow now conv db), createdDB now conv sess db)"
proof -
  have "GetConversation (cv_ConversationID conv) (createdDB now conv sess db) = Inr (createdRow now conv db)" by simp
  moreover have "cv_LastUpstreamSyncSeq (createdRow now conv db) = 0" using assms(3) by simp
  ultimately show ?thesis using assms(1,2)
    by (simp add: CreateConversation_def createdDB_def createdRow_def Chat_Store_Laws.putSession_def Let_def sqlUint64_def)
qed

lemma activeConversation_simps [simp]:
  "cv_ConversationID (activeConversation cid p mode r t now) = cid" "cv_PeerID (activeConversation cid p mode r t now) = p"
  "cv_State (activeConversation cid p mode r t now) = ConversationStateActive"
  "cv_LastUpstreamSyncSeq (activeConversation cid p mode r t now) = 0"
  by (simp_all add: activeConversation_def zeroConversation_def)

lemma derived_session:
  "deriveSessionState C cid me p priv pub = Inr sess \<Longrightarrow> sx_SendCounter sess = 0 \<and> sx_RecvCounter sess = 0 \<and> sx_ConversationID sess = cid"
  by (auto simp: deriveSessionState_def DeriveChatSessionKeys_def Let_def res_bind_eq_Inr split: if_splits)

section \<open>The end of an acceptance\<close>

text \<open>The state after a request was marked accepted: nothing else a handshake looks at has changed.\<close>

definition acceptView :: "string \<Rightarrow> string \<Rightarrow> ChatService \<Rightarrow> ChatService \<Rightarrow> bool" where
  "acceptView rid cid s s' \<longleftrightarrow> sameView (s\<lparr>cs_db := UpdateRequestState 0 rid RequestStateAccepted cid (cs_db s)\<rparr>) s'"

lemma UpdateRequestState_simps [simp]:
  "GetConversation c (UpdateRequestState now rid st cid db) = GetConversation c db"
  "GetConversationByPeer p (UpdateRequestState now rid st cid db) = GetConversationByPeer p db"
  "GetSessionState c (UpdateRequestState now rid st cid db) = GetSessionState c db"
  "isBlocked p (UpdateRequestState now rid st cid db) = isBlocked p db"
  "db_messages (UpdateRequestState now rid st cid db) = db_messages db" "db_profile (UpdateRequestState now rid st cid db) = db_profile db"
  "db_kexPriv (UpdateRequestState now rid st cid db) = db_kexPriv db"
  "reqView q (UpdateRequestState now rid st cid db) = (if q = rid then map_option (\<lambda>(f, t, _, _). (f, t, st, cid)) (reqView q db) else reqView q db)"
  by (simp_all add: UpdateRequestState_def GetConversation_def GetConversationByPeer_def GetSessionState_def isBlocked_getBy)
     (simp_all add: updateRequest_def reqView_def getBy_updateRows option.map_comp comp_def case_prod_unfold)

lemma reqView_Some: "reqView rid db = Some (f, t, st, c) \<Longrightarrow> \<exists>r. GetRequest rid db = Inr r \<and> fq_RequestID r = rid \<and>
    fq_FromPeerID r = f \<and> fq_ToPeerID r = t \<and> fq_State r = st \<and> fq_ConversationID r = c"
proof -
  assume "reqView rid db = Some (f, t, st, c)"
  then obtain r where "getBy fq_RequestID rid (db_requests db) = Some r" "fq_FromPeerID r = f" "fq_ToPeerID r = t" "fq_State r = st" "fq_ConversationID r = c"
    by (auto simp: reqView_def)
  moreover from this(1) have "fq_RequestID r = rid" by (auto simp: getBy_def find_Some_iff)
  ultimately show ?thesis by (auto simp: GetRequest_def queryRow_getBy joinJob_def split: option.splits)
qed

section \<open>An acceptance comes in\<close>

lemma acceptView_trans: "sameView s s1 \<Longrightarrow> sameView (s1\<lparr>cs_db := UpdateRequestState now rid RequestStateAccepted cid (cs_db s1)\<rparr>) s2 \<Longrightarrow> acceptView rid cid s s2"
  unfolding acceptView_def sameView_def sameDB_def
  by (simp add: GetConversation_def GetSessionState_def) (simp add: UpdateRequestState_def updateRequest_def)

lemma runs_acceptedDone:
  assumes "hub_ok (cs_hub s)" "\<And>s'. acceptView (sa_RequestID acc) cid s s' \<Longrightarrow> P () s'"
  shows "runs (acceptedDone N now acc cid pe ak) s P"
proof -
  have q1: "quiet (if trimSpace (sa_ChatKexPub acc) \<noteq> [] then execDB (UpdateRequestRemoteChatKexPub now (sa_RequestID acc) (sa_ChatKexPub acc)) else ret ())"
    by (intro quiet_intros quiet_db)
  have q2: "quiet (bindS (execDB (DeleteFriendRequestJob (sa_RequestID acc))) (\<lambda>_.
     bindS (if pe then publishChatEvent (newFriendRequestEvent now RequestStateAccepted (sa_RequestID acc) (sa_FromPeerID acc) (sa_ToPeerID acc) cid)
            else ret ()) (\<lambda>_.
     if ak then bindS (attempt (sendFriendControlEnvelope N (sa_FromPeerID acc)
          (EnvSessionAcceptAck \<lparr>sk_Type = MessageTypeSessionAcceptAck, sk_RequestID = sa_RequestID acc, sk_ConversationID = cid,
             sk_FromPeerID = me, sk_ToPeerID = sa_FromPeerID acc, sk_SentAtUnix = unixMilli now, sk_Signature = []\<rparr>)
          (sa_RequestID acc))) (\<lambda>_. ret ())
     else ret ())))" for me by (intro quiet_intros quiet_db)
  have q2': "runs (bindS (execDB (UpdateRequestState now (sa_RequestID acc) RequestStateAccepted cid)) (\<lambda>_. rest)) s1 P"
    if v: "sameView s s1" and q: "quiet rest" for s1 rest
  proof -
    let ?s2 = "s1\<lparr>cs_db := UpdateRequestState now (sa_RequestID acc) RequestStateAccepted cid (cs_db s1)\<rparr>"
    have "hub_ok (cs_hub ?s2)" using v by (simp add: sameView_def)
    from runs_quiet [OF q this, of P] assms(2) acceptView_trans [OF v] show ?thesis by (simp add: runs_bind runs_unit)
  qed
  show ?thesis unfolding acceptedDone_def runs_bind [of "gets cs_localPeer"] runs_value(2)
    by (rule runs_bind_quiet [OF q1 assms(1)]) (rule q2' [OF _ q2])
qed

definition friendsWith :: "string \<Rightarrow> string \<Rightarrow> sessionState \<Rightarrow> ChatDB \<Rightarrow> bool" where
  "friendsWith cid peerID sess db \<longleftrightarrow> GetSessionState cid db = Inr sess \<and>
     (\<exists>conv. GetConversation cid db = Inr conv \<and> cv_PeerID conv = peerID \<and> cv_State conv = ConversationStateActive)"

lemma acceptView_lookups:
  assumes "acceptView rid cid s s'"
  shows "cs_localPeer s' = cs_localPeer s" "GetConversation c (cs_db s') = GetConversation c (cs_db s)"
    "GetConversationByPeer p (cs_db s') = GetConversationByPeer p (cs_db s)" "hub_ok (cs_hub s')"
    "GetSessionState c (cs_db s') = GetSessionState c (cs_db s)" "isBlocked p (cs_db s') = isBlocked p (cs_db s)"
    "db_messages (cs_db s') = db_messages (cs_db s)" "db_kexPriv (cs_db s') = db_kexPriv (cs_db s)" "db_profile (cs_db s') = db_profile (cs_db s)"
    "reqView q (cs_db s') = (if q = rid then map_option (\<lambda>(f, t, _, _). (f, t, RequestStateAccepted, cid)) (reqView q (cs_db s)) else reqView q (cs_db s))"
  using assms sameDB_lookups [of "UpdateRequestState 0 rid RequestStateAccepted cid (cs_db s)" "cs_db s'"]
  unfolding acceptView_def sameView_def by simp_all

definition otherSide :: "string \<Rightarrow> string \<times> string \<Rightarrow> string" where
  "otherSide me ft = (if fst ft = me then trimSpace (snd ft) else if snd ft = me then trimSpace (fst ft) else [])"

text \<open>What the service holds after an acceptance from \<open>from\<close> was handled.\<close>

definition acceptHandled :: "SessionAccept \<Rightarrow> sessionState \<Rightarrow> ChatService \<Rightarrow> ChatService \<Rightarrow> bool" where
  "acceptHandled acc sess s s' \<longleftrightarrow> (let cid = deriveStableConversationID (cs_localPeer s) (sa_FromPeerID acc) in
     cs_localPeer s' = cs_localPeer s \<and> hub_ok (cs_hub s') \<and> friendsWith cid (sa_FromPeerID acc) sess (cs_db s') \<and>
     (\<exists>conv. GetConversationByPeer (sa_FromPeerID acc) (cs_db s') = Inr conv \<and> cv_ConversationID conv = cid) \<and>
     reqView (sa_RequestID acc) (cs_db s') = map_option (\<lambda>(f, t, _, _). (f, t, RequestStateAccepted, cid)) (reqView (sa_RequestID acc) (cs_db s)) \<and>
     db_messages (cs_db s') = db_messages (cs_db s) \<and> db_kexPriv (cs_db s') = db_kexPriv (cs_db s) \<and> db_profile (cs_db s') = db_profile (cs_db s) \<and>
     (\<forall>p. isBlocked p (cs_db s') = isBlocked p (cs_db s)))"

lemma acceptHandled_created:
  assumes "sameDB (cs_db s) db" "acceptView (sa_RequestID acc) (cv_ConversationID conv) s1 s'"
    and "cs_localPeer s1 = cs_localPeer s" "sameDB (createdDB now conv sess db) (cs_db s1)"
    and "conv = activeConversation (deriveStableConversationID (cs_localPeer s) (sa_FromPeerID acc)) (sa_FromPeerID acc) mode r t now"
    and "sx_ConversationID sess = cv_ConversationID conv"
  shows "acceptHandled acc sess s s'"
proof -
  note l = acceptView_lookups [OF assms(2)] and c = sameDB_lookups [OF assms(4)] and d = sameDB_lookups [OF assms(1)]
  let ?cid = "deriveStableConversationID (cs_localPeer s) (sa_FromPeerID acc)"
  have id: "cv_ConversationID conv = ?cid" "cv_PeerID conv = sa_FromPeerID acc" "cv_State conv = ConversationStateActive"
    using assms(5) by simp_all
  have sess: "sx_ConversationID sess = ?cid" using assms(6) id(1) by simp
  have "GetConversation ?cid (cs_db s') = Inr (createdRow now conv db)"
    "GetConversationByPeer (sa_FromPeerID acc) (cs_db s') = Inr (createdRow now conv db)" "GetSessionState ?cid (cs_db s') = Inr sess"
    using createdDB_lookups(1-3) [where conv = conv and now = now and sess = sess and db = db] unfolding id sess by (simp_all add: l c)
  moreover have "cv_ConversationID (createdRow now conv db) = ?cid" "cv_PeerID (createdRow now conv db) = sa_FromPeerID acc"
    "cv_State (createdRow now conv db) = ConversationStateActive" using id by simp_all
  moreover have "db_messages (cs_db s') = db_messages (cs_db s)" "db_kexPriv (cs_db s') = db_kexPriv (cs_db s)"
    "db_profile (cs_db s') = db_profile (cs_db s)" "\<forall>p. isBlocked p (cs_db s') = isBlocked p (cs_db s)"
    "reqView (sa_RequestID acc) (cs_db s') = map_option (\<lambda>(f, t, _, _). (f, t, RequestStateAccepted, ?cid)) (reqView (sa_RequestID acc) (cs_db s))"
    by (simp_all add: l c d id)
  ultimately show ?thesis unfolding acceptHandled_def friendsWith_def Let_def using l(1,4) assms(3) by simp
qed


lemma runs_validate:
  assumes "reqView rid (cs_db s) = Some (f, t, st, c)" "otherSide (cs_localPeer s) (f, t) = from" "rid \<noteq> []" "from \<noteq> []" "from \<noteq> cs_localPeer s"
  shows "\<exists>r. validateFriendRequestEnvelope rid from s = (Returns r, s)"
proof -
  obtain r where "GetRequest rid (cs_db s) = Inr r" "fq_FromPeerID r = f" "fq_ToPeerID r = t" using reqView_Some [OF assms(1)] by blast
  with assms(2-) show ?thesis by (auto simp: validateFriendRequestEnvelope_def svc_eval otherSide_def peerIDForRequest_def split: if_splits)
qed

lemma runs_attempt_validate:
  assumes "reqView rid (cs_db s) = Some (f, t, st, c)" "otherSide (cs_localPeer s) (f, t) = from" "rid \<noteq> []" "from \<noteq> []" "from \<noteq> cs_localPeer s"
    and "\<And>r. P (Inr r) s"
  shows "runs (attempt (validateFriendRequestEnvelope rid from)) s P"
proof -
  obtain r where "validateFriendRequestEnvelope rid from s = (Returns r, s)" using runs_validate [OF assms(1-5)] by blast
  with assms(6) show ?thesis by (simp add: runs_def attempt_def)
qed

lemma accept_runs:
  assumes hub: "hub_ok (cs_hub s)" and me: "sa_FromPeerID acc \<noteq> []" "sa_FromPeerID acc \<noteq> cs_localPeer s" "sa_ToPeerID acc = [] \<or> sa_ToPeerID acc = cs_localPeer s"
    and req: "reqView (sa_RequestID acc) (cs_db s) = Some (f, t, st, c)" "otherSide (cs_localPeer s) (f, t) = sa_FromPeerID acc" "sa_RequestID acc \<noteq> []"
    and sess: "deriveSessionState (cn_crypto N) (deriveStableConversationID (cs_localPeer s) (sa_FromPeerID acc)) (cs_localPeer s) (sa_FromPeerID acc)
      (db_kexPriv (cs_db s)) (sa_ChatKexPub acc) = Inr sess"
    and conv: "GetConversationByPeer (sa_FromPeerID acc) (cs_db s) = Inl ErrNoRows \<and> sa_RetentionMinutes acc \<le> 0 \<or>
      (\<exists>ex. GetConversationByPeer (sa_FromPeerID acc) (cs_db s) = Inr ex \<and> cv_ConversationID ex = deriveStableConversationID (cs_localPeer s) (sa_FromPeerID acc))"
  shows "runs (handleIncomingSessionAcceptEnvelope N now acc pe ak) s (\<lambda>_. acceptHandled acc sess s)"
proof -
  let ?from = "sa_FromPeerID acc" and ?me = "cs_localPeer s" and ?db = "cs_db s"
  let ?target = "deriveStableConversationID ?me ?from"
  have z: "sx_SendCounter sess = 0" "sx_RecvCounter sess = 0" "sx_ConversationID sess = ?target" using derived_session [OF sess] by simp_all
  note created = CreateConversation_ok [OF z(1,2), of "activeConversation ?target ?from m r ct nw" for m r ct nw]
  from conv show ?thesis
  proof
    assume c: "GetConversationByPeer ?from ?db = Inl ErrNoRows \<and> sa_RetentionMinutes acc \<le> 0"
    let ?conv = "activeConversation ?target ?from TransportModeDirect 0 now now"
    let ?s1 = "s\<lparr>cs_db := createdDB now ?conv sess ?db\<rparr>"
    have r: "runs (bindS (learnAcceptor N now acc) (\<lambda>_. acceptedDone N now acc ?target pe ak)) ?s1 (\<lambda>_. acceptHandled acc sess s)"
    proof (rule runs_bind_quiet [OF quiet_learnAcceptor])
      show "hub_ok (cs_hub ?s1)" using hub by simp
      fix s2 assume v: "sameView ?s1 s2"
      show "runs (acceptedDone N now acc ?target pe ak) s2 (\<lambda>_. acceptHandled acc sess s)"
      proof (rule runs_acceptedDone)
        show "hub_ok (cs_hub s2)" using v by (rule sameView_hub)
        fix s' assume a: "acceptView (sa_RequestID acc) ?target s2 s'"
        show "acceptHandled acc sess s s'"
          by (rule acceptHandled_created [where db = ?db and conv = ?conv and ?s1.0 = s2 and mode = TransportModeDirect and r = 0 and t = now and now = now])
             (use a v z(3) in \<open>simp_all add: sameView_def\<close>)
      qed
    qed
    have "\<not> 0 < sa_RetentionMinutes acc" using c by simp
    with c r show ?thesis using me req
      by (auto simp: handleIncomingSessionAcceptEnvelope_def Let_def runs_simps created sess intro!: runs_attempt_validate)
  next
    assume "\<exists>ex. GetConversationByPeer ?from ?db = Inr ex \<and> cv_ConversationID ex = ?target"
    then obtain ex where ex: "GetConversationByPeer ?from ?db = Inr ex" "cv_ConversationID ex = ?target" by blast
    let ?r = "if sa_RetentionMinutes acc < cv_RetentionMinutes ex then cv_RetentionMinutes ex else sa_RetentionMinutes acc"
    let ?conv = "activeConversation ?target ?from TransportModeDirect ?r (cv_CreatedAt ex) now"
    have r: "runs (acceptedDone N now acc ?target pe ak) (s1\<lparr>cs_db := createdDB now ?conv sess (cs_db s1)\<rparr>) (\<lambda>_. acceptHandled acc sess s)"
      if v: "sameView s s1" for s1
    proof (rule runs_acceptedDone)
      show "hub_ok (cs_hub (s1\<lparr>cs_db := createdDB now ?conv sess (cs_db s1)\<rparr>))" using v by (simp add: sameView_def)
      fix s' assume a: "acceptView (sa_RequestID acc) ?target (s1\<lparr>cs_db := createdDB now ?conv sess (cs_db s1)\<rparr>) s'"
      show "acceptHandled acc sess s s'"
        by (rule acceptHandled_created [where db = "cs_db s1" and conv = ?conv and ?s1.0 = "s1\<lparr>cs_db := createdDB now ?conv sess (cs_db s1)\<rparr>"
              and mode = TransportModeDirect and r = ?r and t = "cv_CreatedAt ex" and now = now])
           (use a v z(3) in \<open>simp_all add: sameView_def\<close>)
    qed
    have q: "runs (bindS (learnAcceptor N now acc) (\<lambda>_. bindS GetProfile (\<lambda>(_, priv). bindS (canonicalConversation now ?target ex) (\<lambda>ex.
         bindS (liftR (deriveSessionState (cn_crypto N) ?target ?me ?from priv (sa_ChatKexPub acc))) (\<lambda>sess.
         bindS (execR (CreateConversation now (activeConversation ?target ?from TransportModeDirect ?r (cv_CreatedAt ex) now) sess)) (\<lambda>_.
         acceptedDone N now acc ?target pe ak)))))) s (\<lambda>_. acceptHandled acc sess s)"
    proof (rule runs_bind_quiet [OF quiet_learnAcceptor hub])
      fix s1 assume v: "sameView s s1"
      then have "db_kexPriv (cs_db s1) = db_kexPriv ?db" by (simp add: sameView_def sameDB_def)
      then show "runs (bindS GetProfile (\<lambda>(_, priv). bindS (canonicalConversation now ?target ex) (\<lambda>ex.
         bindS (liftR (deriveSessionState (cn_crypto N) ?target ?me ?from priv (sa_ChatKexPub acc))) (\<lambda>sess.
         bindS (execR (CreateConversation now (activeConversation ?target ?from TransportModeDirect ?r (cv_CreatedAt ex) now) sess)) (\<lambda>_.
         acceptedDone N now acc ?target pe ak))))) s1 (\<lambda>_. acceptHandled acc sess s)"
        using r [OF v] ex(2) by (simp add: runs_simps canonicalConversation_def created sess)
    qed
    have p: "runs (handleIncomingSessionAcceptEnvelope N now acc pe ak) s Q"
      if "runs (bindS (learnAcceptor N now acc) (\<lambda>_. bindS GetProfile (\<lambda>(_, priv). bindS (canonicalConversation now ?target ex) (\<lambda>ex.
         bindS (liftR (deriveSessionState (cn_crypto N) ?target ?me ?from priv (sa_ChatKexPub acc))) (\<lambda>sess.
         bindS (execR (CreateConversation now (activeConversation ?target ?from TransportModeDirect ?r (cv_CreatedAt ex) now) sess)) (\<lambda>_.
         acceptedDone N now acc ?target pe ak)))))) s Q" for Q
      using me ex(1) that unfolding handleIncomingSessionAcceptEnvelope_def Let_def runs_bind [of "gets cs_localPeer"] runs_value(2)
      by (auto simp: runs_bind [of "attempt (validateFriendRequestEnvelope (sa_RequestID acc) ?from)"] runs_bind [of "attempt (readDB (GetConversationByPeer ?from))"]
          runs_attempt_readDB intro!: runs_attempt_validate [OF req(1,2,3)])
    show ?thesis by (rule p) (rule q)
  qed
qed

section \<open>A request comes in and is accepted\<close>

lemma runs_publish:
  assumes "hub_ok (cs_hub s)" "\<And>h. hub_ok h \<Longrightarrow> P () (s\<lparr>cs_hub := h\<rparr>)" shows "runs (publishChatEvent e) s P"
  using publish_ok [OF assms(1), of e] assms(2) by (auto simp: runs_def)

definition storedRequest :: "SessionRequest \<Rightarrow> Request \<Rightarrow> bool" where
  "storedRequest w r \<longleftrightarrow> fq_RequestID r = sr_RequestID w \<and> fq_FromPeerID r = sr_FromPeerID w \<and> fq_ToPeerID r = sr_ToPeerID w \<and>
     fq_State r = RequestStatePending \<and> fq_RemoteChatKexPub r = sr_ChatKexPub w \<and> fq_RetentionMinutes r = sr_RetentionMinutes w"

text \<open>What the service holds after a new request was handled.\<close>

definition requestHandled :: "SessionRequest \<Rightarrow> ChatService \<Rightarrow> ChatService \<Rightarrow> bool" where
  "requestHandled w s s' \<longleftrightarrow> cs_localPeer s' = cs_localPeer s \<and> hub_ok (cs_hub s') \<and>
     (\<exists>r. getBy fq_RequestID (sr_RequestID w) (db_requests (cs_db s')) = Some r \<and> storedRequest w r) \<and>
     db_conversations (cs_db s') = db_conversations (cs_db s) \<and> db_sessions (cs_db s') = db_sessions (cs_db s) \<and>
     db_messages (cs_db s') = db_messages (cs_db s) \<and> db_profile (cs_db s') = db_profile (cs_db s) \<and> db_kexPriv (cs_db s') = db_kexPriv (cs_db s) \<and>
     (\<forall>p. isBlocked p (cs_db s') = isBlocked p (cs_db s))"

lemma request_handled:
  assumes v: "sameView s s1" and "reqView (fq_RequestID r) (cs_db s) = None"
    and "storedRequest w r" "hub_ok h"
  shows "requestHandled w s (s1\<lparr>cs_db := UpsertIncomingRequest now r (cs_db s1), cs_hub := h\<rparr>)"
proof -
  have d: "sameDB (cs_db s) (cs_db s1)" "cs_localPeer s1 = cs_localPeer s" using v by (simp_all add: sameView_def)
  have id: "fq_RequestID r = sr_RequestID w" using assms(3) by (simp add: storedRequest_def)
  have n: "getBy fq_RequestID (fq_RequestID r) (db_requests (cs_db s1)) = None"
    using assms(2) sameDB_lookups(7) [OF d(1), of "fq_RequestID r"] by (simp add: reqView_def)
  then have "find (\<lambda>x. fq_RequestID x = fq_RequestID r) (db_requests (cs_db s1)) = None" by (simp add: getBy_def)
  moreover have "\<not> (\<exists>x\<in>set (db_requests (cs_db s1)). fq_RequestID x = fq_RequestID r)" using n by (auto simp: getBy_None)
  ultimately have "getBy fq_RequestID (fq_RequestID r) (db_requests (UpsertIncomingRequest now r (cs_db s1))) = Some (requestRow now r)"
    by (simp add: UpsertIncomingRequest_def upsertRow_def getBy_def find_append requestRow_def)
  moreover have "storedRequest w (requestRow now r)" using assms(3) by (simp add: storedRequest_def requestRow_def)
  ultimately show ?thesis using d assms(4) unfolding requestHandled_def sameDB_def
    by (simp add: isBlocked_getBy id) (simp add: UpsertIncomingRequest_def)
qed

lemma request_runs:
  assumes hub: "hub_ok (cs_hub s)" and me: "sr_FromPeerID w \<noteq> []" "sr_FromPeerID w \<noteq> cs_localPeer s" "sr_ToPeerID w = [] \<or> sr_ToPeerID w = cs_localPeer s"
    and new: "reqView (sr_RequestID w) (cs_db s) = None" "\<not> isBlocked (sr_FromPeerID w) (cs_db s)"
  shows "runs (handleIncomingSessionRequestEnvelope N now w mode pe) s (\<lambda>_. requestHandled w s)"
proof -
  let ?from = "sr_FromPeerID w" and ?avatar = "NormalizeAvatarFileName (sr_AvatarName w)"
  let ?learn = "bindS (execDB (UpsertPeer now ?from (sr_Nickname w) (sr_Bio w))) (\<lambda>_. learnAvatar N now ?from ?avatar)"
  let ?r = "zeroRequest\<lparr>fq_RequestID := sr_RequestID w, fq_FromPeerID := ?from, fq_ToPeerID := sr_ToPeerID w,
           fq_State := RequestStatePending, fq_IntroText := sr_IntroText w, fq_Nickname := sr_Nickname w, fq_Bio := sr_Bio w,
           fq_Avatar := ?avatar, fq_RetentionMinutes := sr_RetentionMinutes w, fq_RemoteChatKexPub := sr_ChatKexPub w,
           fq_LastTransportMode := mode, fq_CreatedAt := ofUnixMilli (sr_SentAtUnix w), fq_UpdatedAt := now\<rparr>"
  have none: "GetRequest (sr_RequestID w) (cs_db s) = Inl ErrNoRows"
    using new(1) by (simp add: GetRequest_def queryRow_getBy reqView_def)
  have q: "quiet ?learn" by (intro quiet_intros quiet_db quiet_learnAvatar)
  have l: "runs (bindS ?learn (\<lambda>_. bindS (execDB (UpsertIncomingRequest now ?r)) (\<lambda>_. if pe then publishChatEvent e else ret ())))
      s (\<lambda>_. requestHandled w s)" for e
  proof (rule runs_bind_quiet [OF q hub])
    fix s1 assume v: "sameView s s1"
    have r: "requestHandled w s (s1\<lparr>cs_db := UpsertIncomingRequest now ?r (cs_db s1), cs_hub := h\<rparr>)" if "hub_ok h" for h
      by (rule request_handled [OF v _ _ that]) (use new(1) in \<open>simp_all add: storedRequest_def\<close>)
    show "runs (bindS (execDB (UpsertIncomingRequest now ?r)) (\<lambda>_. if pe then publishChatEvent e else ret ())) s1 (\<lambda>_. requestHandled w s)"
      using r [OF sameView_hub [OF v]] r v by (auto simp: runs_bind runs_steps sameView_def intro!: runs_publish)
  qed
  show ?thesis using me new(2) none l
    by (auto simp: handleIncomingSessionRequestEnvelope_def Let_def runs_bind [of "gets cs_localPeer"] runs_bind [of "blockedPeer ?from"]
        runs_bind [of "attempt (readDB (GetRequest (sr_RequestID w)))"] runs_bind [of "ret (Inl ErrNoRows)"] runs_attempt_readDB runs_value)
qed


lemma GetRequest_getBy: "getBy fq_RequestID rid (db_requests db) = Some r \<Longrightarrow> GetRequest rid db = Inr (joinJob db r)"
  by (simp add: GetRequest_def queryRow_getBy)

lemma joinJob_fields [simp]:
  "fq_FromPeerID (joinJob db r) = fq_FromPeerID r" "fq_ToPeerID (joinJob db r) = fq_ToPeerID r" "fq_RequestID (joinJob db r) = fq_RequestID r"
  "fq_RemoteChatKexPub (joinJob db r) = fq_RemoteChatKexPub r" "fq_RetentionMinutes (joinJob db r) = fq_RetentionMinutes r"
  "fq_State (joinJob db r) = fq_State r" "fq_Nickname (joinJob db r) = fq_Nickname r" "fq_Bio (joinJob db r) = fq_Bio r"
  by (simp_all add: joinJob_def split: option.splits)

lemma runs_acceptDone:
  assumes "hub_ok (cs_hub s)"
    and "\<And>s' ts. acceptView (fq_RequestID req) (cv_ConversationID conv) s s' \<Longrightarrow>
      P conv (s'\<lparr>cs_tasks := ts @ [SendFriendControl (fq_RequestID req) (fq_FromPeerID req) MessageTypeSessionAccept
        (acceptWire now profile (fq_RequestID req) (cv_ConversationID conv) me (fq_FromPeerID req) retention) False]\<rparr>)"
  shows "runs (acceptDone N now req profile me retention conv) s P"
proof -
  let ?s1 = "s\<lparr>cs_db := UpdateRequestState now (fq_RequestID req) RequestStateAccepted (cv_ConversationID conv) (cs_db s)\<rparr>"
  have v: "acceptView (fq_RequestID req) (cv_ConversationID conv) s s'" if "sameView ?s1 s1" "sameView s1 s'" for s1 s'
    by (rule acceptView_trans [OF sameView_refl [OF assms(1)] sameView_trans [OF that]])
  have h: "hub_ok (cs_hub ?s1)" using assms(1) by simp
  show ?thesis unfolding acceptDone_def Let_def
  proof (subst runs_bind, unfold runs_unit(1), rule runs_bind_quiet [OF quiet_db(1) h])
    fix s1 assume a: "sameView ?s1 s1"
    show "runs (bindS (attempt (scheduleFriendRequestRetry N now (fq_RequestID req) (fq_FromPeerID req) 0)) (\<lambda>_.
      bindS (dispatchOutgoingFriendControl (fq_RequestID req) (fq_FromPeerID req) MessageTypeSessionAccept
        (acceptWire now profile (fq_RequestID req) (cv_ConversationID conv) me (fq_FromPeerID req) retention) False) (\<lambda>_. ret conv))) s1 P"
    proof (rule runs_bind_quiet [OF quiet_schedule sameView_hub [OF a]])
      fix s2 assume b: "sameView s1 s2"
      show "runs (bindS (dispatchOutgoingFriendControl (fq_RequestID req) (fq_FromPeerID req) MessageTypeSessionAccept
        (acceptWire now profile (fq_RequestID req) (cv_ConversationID conv) me (fq_FromPeerID req) retention) False) (\<lambda>_. ret conv)) s2 P"
        using assms(2) [OF v [OF a b]] by (simp add: dispatchOutgoingFriendControl_def runs_simps)
    qed
  qed
qed

definition acceptSent :: "chat_net \<Rightarrow> time \<Rightarrow> SessionRequest \<Rightarrow> sessionState \<Rightarrow> ChatService \<Rightarrow> ChatService \<Rightarrow> bool" where
  "acceptSent N now w sess s s' \<longleftrightarrow> (let cid = deriveStableConversationID (cs_localPeer s) (sr_FromPeerID w) in
     cs_localPeer s' = cs_localPeer s \<and> hub_ok (cs_hub s') \<and> friendsWith cid (sr_FromPeerID w) sess (cs_db s') \<and>
     db_messages (cs_db s') = db_messages (cs_db s) \<and> (\<forall>p. isBlocked p (cs_db s') = isBlocked p (cs_db s)) \<and>
     reqView (sr_RequestID w) (cs_db s') = Some (sr_FromPeerID w, cs_localPeer s, RequestStateAccepted, cid) \<and>
     (\<exists>ts. cs_tasks s' = ts @ [SendFriendControl (sr_RequestID w) (sr_FromPeerID w) MessageTypeSessionAccept
        (acceptWire now (db_profile (cs_db s)) (sr_RequestID w) cid (cs_localPeer s) (sr_FromPeerID w) 0) False]))"

lemma AcceptRequest_runs:
  assumes hub: "hub_ok (cs_hub s)"
    and req: "getBy fq_RequestID (sr_RequestID w) (db_requests (cs_db s)) = Some r" "storedRequest w r"
    and w: "sr_ToPeerID w = cs_localPeer s" "sr_RetentionMinutes w = 0"
    and sess: "deriveSessionState (cn_crypto N) (deriveStableConversationID (cs_localPeer s) (sr_FromPeerID w)) (cs_localPeer s) (sr_FromPeerID w)
      (db_kexPriv (cs_db s)) (sr_ChatKexPub w) = Inr sess"
    and conv: "GetConversationByPeer (sr_FromPeerID w) (cs_db s) = Inl ErrNoRows"
      "GetConversation (deriveStableConversationID (cs_localPeer s) (sr_FromPeerID w)) (cs_db s) = Inl ErrNoRows"
  shows "runs (AcceptRequest N now (sr_RequestID w)) s (\<lambda>_. acceptSent N now w sess s)"
proof -
  let ?from = "sr_FromPeerID w" and ?me = "cs_localPeer s" and ?db = "cs_db s"
  let ?target = "deriveStableConversationID ?me ?from"
  let ?conv = "activeConversation ?target ?from TransportModeDirect 0 now now"
  let ?s1 = "s\<lparr>cs_db := createdDB now ?conv sess ?db\<rparr>" and ?row = "createdRow now ?conv ?db"
  have z: "sx_SendCounter sess = 0" "sx_RecvCounter sess = 0" "sx_ConversationID sess = ?target" using derived_session [OF sess] by simp_all
  note created = CreateConversation_ok [OF z(1,2), of ?conv now ?db, simplified]
  note r = req(2) [unfolded storedRequest_def]
  have ret: "cv_RetentionMinutes ?row = 0"
    using conv by (simp add: createdRow_def conversationRow_def filledConversation_def) (simp add: activeConversation_def zeroConversation_def)
  have d: "runs (acceptDone N now (joinJob ?db r) (db_profile ?db) ?me 0 ?row) ?s1 (\<lambda>_. acceptSent N now w sess s)"
  proof (rule runs_acceptDone)
    show "hub_ok (cs_hub ?s1)" using hub by simp
    fix s' ts assume "acceptView (fq_RequestID (joinJob ?db r)) (cv_ConversationID ?row) ?s1 s'"
    then have a: "acceptView (sr_RequestID w) ?target ?s1 s'" using r by simp
    note l = acceptView_lookups [OF a]
    have "GetConversation ?target (createdDB now ?conv sess ?db) = Inr ?row" "GetSessionState ?target (createdDB now ?conv sess ?db) = Inr sess"
      using createdDB_lookups(1,3) [where conv = ?conv and now = now and sess = sess and db = ?db] unfolding z(3) by simp_all
    moreover have "reqView (sr_RequestID w) ?db = Some (?from, ?me, RequestStatePending, fq_ConversationID r)"
      using req(1) r w by (simp add: reqView_def)
    ultimately show "acceptSent N now w sess s (s'\<lparr>cs_tasks := ts @ [SendFriendControl (fq_RequestID (joinJob ?db r)) (fq_FromPeerID (joinJob ?db r))
        MessageTypeSessionAccept (acceptWire now (db_profile ?db) (fq_RequestID (joinJob ?db r)) (cv_ConversationID ?row) ?me
          (fq_FromPeerID (joinJob ?db r)) 0) False]\<rparr>)"
      using l r by (simp add: acceptSent_def friendsWith_def Let_def)
  qed
  show ?thesis using r w conv(1) GetRequest_getBy [OF req(1)] ret d
    by (simp add: AcceptRequest_def Let_def runs_simps sess created)
qed

section \<open>Two peers become friends\<close>

text \<open>The key pair of a profile.\<close>

definition profileKeys :: "crypto \<Rightarrow> ChatDB \<Rightarrow> bytes \<Rightarrow> bool" where
  "profileKeys C db pub \<longleftrightarrow> pf_ChatKexPub (db_profile db) = b64_encode pub \<and> x25519 C (db_kexPriv db) (x25519_base C) = Some pub \<and>
     length (db_kexPriv db) = X25519KeySize"

lemma deriveStableConversationID_sym: "deriveStableConversationID a b = deriveStableConversationID b a"
  by (cases "a = b") (auto simp: deriveStableConversationID_def Let_def)

lemma sessions_agree:
  assumes "dh_agree C (db_kexPriv da) (db_kexPriv db)" "profileKeys C da pa" "profileKeys C db pb" "A \<noteq> B"
  shows "\<exists>xa xb. deriveSessionState C cid A B (db_kexPriv da) (pf_ChatKexPub (db_profile db)) = Inr xa \<and>
    deriveSessionState C cid B A (db_kexPriv db) (pf_ChatKexPub (db_profile da)) = Inr xb \<and>
    sx_SendKey xa = sx_RecvKey xb \<and> sx_RecvKey xa = sx_SendKey xb \<and> sx_PeerID xa = B \<and> sx_PeerID xb = A"
proof -
  obtain k where k: "x25519 C (db_kexPriv da) pb = Some k" "x25519 C (db_kexPriv db) pa = Some k" "length pa = 32" "length pb = 32"
    using assms(1-3) by (auto simp: dh_agree_def profileKeys_def)
  have "pa \<noteq> []" "pb \<noteq> []" using k(3,4) by auto
  moreover have "A < B \<longleftrightarrow> \<not> B < A" using assms(4) by (metis less_linear not_less_iff_gr_or_eq)
  ultimately show ?thesis using assms(2,3) k
    by (simp add: deriveSessionState_def X25519SharedSecret_def X25519KeySize_def DeriveChatSessionKeys_def Let_def profileKeys_def)
qed

lemma SendRequest_runs:
  assumes "\<not> isBlocked B (cs_db s)" "GetConversationByPeer B (cs_db s) = Inl ErrNoRows" "hub_ok (cs_hub s)" "B \<noteq> []"
  shows "runs (SendRequest N now B intro) s (\<lambda>req s'. cs_localPeer s' = cs_localPeer s \<and> hub_ok (cs_hub s') \<and>
    fq_RequestID req = cn_uuid N (cs_calls s) \<and>
    reqView (cn_uuid N (cs_calls s)) (cs_db s') = Some (cs_localPeer s, B, RequestStatePending, []) \<and>
    GetConversationByPeer B (cs_db s') = Inl ErrNoRows \<and> db_kexPriv (cs_db s') = db_kexPriv (cs_db s) \<and> db_messages (cs_db s') = db_messages (cs_db s) \<and>
    (\<exists>w ts. cs_tasks s' = ts @ [SendFriendControl (fq_RequestID req) B MessageTypeSessionRequest (EnvSessionRequest w) False] \<and>
      sr_RequestID w = fq_RequestID req \<and> sr_FromPeerID w = cs_localPeer s \<and> sr_ToPeerID w = B \<and> sr_RetentionMinutes w = 0 \<and>
      sr_ChatKexPub w = pf_ChatKexPub (db_profile (cs_db s))))"
proof -
  have b: "\<not> (case GetPeer B (cs_db s) of Inr c \<Rightarrow> ck_Blocked c | Inl _ \<Rightarrow> False)" using assms(1) by (simp add: isBlocked_def)
  have u: "db_requests (UpsertPeer now B n bio db) = db_requests db" "db_conversations (UpsertPeer now B n bio db) = db_conversations db"
    "db_kexPriv (UpsertPeer now B n bio db) = db_kexPriv db" for n bio db
    by (simp_all add: UpsertPeer_def Let_def)
  have g: "fq_RequestID r = rid \<Longrightarrow> getBy fq_RequestID rid (replaceRow (\<lambda>x. fq_RequestID x = rid) r tbl) = Some r" for rid r tbl
    using getBy_replaced [of fq_RequestID r "\<lambda>x. fq_RequestID x = rid" tbl] by simp
  have q: "fq_RequestID r = rid \<Longrightarrow> GetRequest rid (UpsertPeer now B [] [] (SaveOutgoingRequest now r db)) =
      Inr (joinJob (UpsertPeer now B [] [] (SaveOutgoingRequest now r db)) (requestRow now r))" for rid r db
    by (rule GetRequest_getBy) (simp add: u SaveOutgoingRequest_def g requestRow_def)
  show ?thesis using assms(2-4) b
    by (auto simp: SendRequest_def Let_def runs_simps reqView_def q dispatchOutgoingFriendControl_def GetConversationByPeer_def u)
       (simp_all add: requestRow_def zeroRequest_def SaveOutgoingRequest_def g)
qed

text \<open>C9. Two peers become friends: a request, handled and accepted by the other side, whose acceptance is handled by the
  first. Each step returns, both sides then hold the same active conversation and the accepted request, and
  the session of each has the keys of the other the other way round, with fresh counters.\<close>

theorem friendship_agrees:
  assumes C: "cn_crypto NA = C" "cn_crypto NB = C" "dh_agree C (db_kexPriv (cs_db a)) (db_kexPriv (cs_db b))"
    "profileKeys C (cs_db a) pa" "profileKeys C (cs_db b) pb"
    and peers: "cs_localPeer a = A" "cs_localPeer b = B" "A \<noteq> B" "A \<noteq> []" "B \<noteq> []" "trimSpace A = A" "trimSpace B = B"
    and hubs: "hub_ok (cs_hub a)" "hub_ok (cs_hub b)"
    and free: "\<not> isBlocked B (cs_db a)" "\<not> isBlocked A (cs_db b)" "GetConversationByPeer B (cs_db a) = Inl ErrNoRows"
      "GetConversationByPeer A (cs_db b) = Inl ErrNoRows" "GetConversation (deriveStableConversationID A B) (cs_db b) = Inl ErrNoRows"
    and rid: "cn_uuid NA (cs_calls a) = rid" "rid \<noteq> []" "reqView rid (cs_db b) = None"
  shows "\<exists>req a1 w b1 conv b2 acc a2 xa xb. let cid = deriveStableConversationID A B in
     SendRequest NA t1 B intro a = (Returns req, a1) \<and>
     last (cs_tasks a1) = SendFriendControl rid B MessageTypeSessionRequest (EnvSessionRequest w) False \<and>
     handleIncomingSessionRequestEnvelope NB t2 w TransportModeDirect True b = (Returns (), b1) \<and>
     AcceptRequest NB t3 rid b1 = (Returns conv, b2) \<and>
     last (cs_tasks b2) = SendFriendControl rid A MessageTypeSessionAccept (EnvSessionAccept acc) False \<and>
     handleIncomingSessionAcceptEnvelope NA t4 acc True True a1 = (Returns (), a2) \<and>
     friendsWith cid B xa (cs_db a2) \<and> friendsWith cid A xb (cs_db b2) \<and>
     reqView rid (cs_db a2) = Some (A, B, RequestStateAccepted, cid) \<and> reqView rid (cs_db b2) = Some (A, B, RequestStateAccepted, cid) \<and>
     sx_SendKey xa = sx_RecvKey xb \<and> sx_RecvKey xa = sx_SendKey xb \<and>
     sx_SendCounter xa = 0 \<and> sx_RecvCounter xa = 0 \<and> sx_SendCounter xb = 0 \<and> sx_RecvCounter xb = 0"
proof -
  let ?cid = "deriveStableConversationID A B"
  obtain xa xb where x: "deriveSessionState C ?cid A B (db_kexPriv (cs_db a)) (pf_ChatKexPub (db_profile (cs_db b))) = Inr xa"
    "deriveSessionState C ?cid B A (db_kexPriv (cs_db b)) (pf_ChatKexPub (db_profile (cs_db a))) = Inr xb"
    "sx_SendKey xa = sx_RecvKey xb" "sx_RecvKey xa = sx_SendKey xb" using sessions_agree [OF C(3-5) peers(3), of ?cid] by blast
  have sym: "deriveStableConversationID B A = ?cid" by (rule deriveStableConversationID_sym)
  obtain req a1 w ts where a1: "SendRequest NA t1 B intro a = (Returns req, a1)" "cs_localPeer a1 = A" "hub_ok (cs_hub a1)"
    "reqView rid (cs_db a1) = Some (A, B, RequestStatePending, [])" "GetConversationByPeer B (cs_db a1) = Inl ErrNoRows"
    "db_kexPriv (cs_db a1) = db_kexPriv (cs_db a)"
    "cs_tasks a1 = ts @ [SendFriendControl rid B MessageTypeSessionRequest (EnvSessionRequest w) False]"
    and w: "sr_RequestID w = rid" "sr_FromPeerID w = A" "sr_ToPeerID w = B" "sr_RetentionMinutes w = 0" "sr_ChatKexPub w = pf_ChatKexPub (db_profile (cs_db a))"
    using SendRequest_runs [OF free(1,3) hubs(1) peers(5), of NA t1 intro] peers(1) rid(1) by (auto simp: runs_def)
  obtain b1 where b1: "handleIncomingSessionRequestEnvelope NB t2 w TransportModeDirect True b = (Returns (), b1)" "requestHandled w b b1"
    using request_runs [OF hubs(2), of w NB t2 TransportModeDirect True] peers free(2) rid(3) w by (auto simp: runs_def)
  obtain r where r: "getBy fq_RequestID (sr_RequestID w) (db_requests (cs_db b1)) = Some r" "storedRequest w r" and
    kept: "cs_localPeer b1 = B" "hub_ok (cs_hub b1)" "db_kexPriv (cs_db b1) = db_kexPriv (cs_db b)" "db_profile (cs_db b1) = db_profile (cs_db b)"
      "db_conversations (cs_db b1) = db_conversations (cs_db b)"
    using b1(2) peers(2) by (auto simp: requestHandled_def)
  have conv: "GetConversationByPeer A (cs_db b1) = Inl ErrNoRows" "GetConversation ?cid (cs_db b1) = Inl ErrNoRows"
    using free(4,5) kept(5) by (simp_all add: GetConversationByPeer_def GetConversation_def)
  obtain c2 b2 where b2: "AcceptRequest NB t3 rid b1 = (Returns c2, b2)" "acceptSent NB t3 w xb b1 b2"
    using AcceptRequest_runs [OF kept(2) r, of NB xb t3] w kept conv x(2) C(2) sym by (auto simp: runs_def)
  obtain acc us where acc: "cs_tasks b2 = us @ [SendFriendControl rid A MessageTypeSessionAccept (EnvSessionAccept acc) False]"
    "sa_RequestID acc = rid" "sa_FromPeerID acc = B" "sa_ToPeerID acc = A" "sa_RetentionMinutes acc = 0"
    "sa_ChatKexPub acc = pf_ChatKexPub (db_profile (cs_db b))"
    using b2(2) w kept by (auto simp: acceptSent_def acceptWire_def Let_def)
  have "runs (handleIncomingSessionAcceptEnvelope NA t4 acc True True) a1 (\<lambda>_. acceptHandled acc xa a1)"
    by (rule accept_runs [OF a1(3), where f = A and t = B and st = RequestStatePending and c = "[]"])
       (use acc a1 peers rid x(1) C(1) in \<open>simp_all add: otherSide_def\<close>)
  then obtain a2 where a2: "handleIncomingSessionAcceptEnvelope NA t4 acc True True a1 = (Returns (), a2)" "acceptHandled acc xa a1 a2"
    by (auto simp: runs_def)
  have "friendsWith ?cid B xa (cs_db a2)" "reqView rid (cs_db a2) = Some (A, B, RequestStateAccepted, ?cid)"
    using a2(2) acc a1(2,4) by (simp_all add: acceptHandled_def Let_def)
  moreover have "friendsWith ?cid A xb (cs_db b2)" "reqView rid (cs_db b2) = Some (A, B, RequestStateAccepted, ?cid)"
    using b2(2) w kept(1) sym by (simp_all add: acceptSent_def Let_def)
  moreover have "last (cs_tasks a1) = SendFriendControl rid B MessageTypeSessionRequest (EnvSessionRequest w) False"
    "last (cs_tasks b2) = SendFriendControl rid A MessageTypeSessionAccept (EnvSessionAccept acc) False" using a1(7) acc(1) by simp_all
  ultimately show ?thesis using a1(1) b1(1) b2(1) a2(1) x(3,4) derived_session [OF x(1)] derived_session [OF x(2)]
    unfolding Let_def by blast
qed


text \<open>Two people with their key pairs, who do not know each other.\<close>

definition demo_person :: "string \<Rightarrow> 8 word \<Rightarrow> ChatService" where
  "demo_person me k = \<lparr>cs_localPeer = me,
     cs_db = emptyDB me (demo_profile\<lparr>pf_ChatKexPub := b64_encode (the (x25519 demo_crypto (replicate 32 k) (x25519_base demo_crypto)))\<rparr>) (replicate 32 k),
     cs_hub = newChatEventHub, cs_calls = 0, cs_sent = [], cs_tasks = [], cs_avatarFetchSeen = (\<lambda>_. None)\<rparr>"

lemma demo_person_simps:
  "cs_localPeer (demo_person me k) = me" "hub_ok (cs_hub (demo_person me k))" "\<not> isBlocked p (cs_db (demo_person me k))"
  "GetConversationByPeer p (cs_db (demo_person me k)) = Inl ErrNoRows" "GetConversation p (cs_db (demo_person me k)) = Inl ErrNoRows"
  "reqView p (cs_db (demo_person me k)) = None" "db_kexPriv (cs_db (demo_person me k)) = replicate 32 k" "cs_calls (demo_person me k) = 0"
  by (simp_all add: demo_person_def emptyDB_def hub_ok_def newChatEventHub_def isBlocked_getBy GetConversationByPeer_def GetConversation_def
      queryRow_def reqView_def getBy_def)

lemma demo_person_keys: "\<exists>pub. profileKeys demo_crypto (cs_db (demo_person me k)) pub"
proof -
  have "dh_agree demo_crypto (replicate 32 k) (replicate 32 k)" by (rule demo_dh_agree) simp_all
  then obtain pub where "x25519 demo_crypto (replicate 32 k) (x25519_base demo_crypto) = Some pub" by (auto simp: dh_agree_def)
  then show ?thesis by (auto simp: profileKeys_def demo_person_def emptyDB_def X25519KeySize_def)
qed

theorem friendship_agrees_witness:
  "\<exists>(b2 :: ChatService) (a2 :: ChatService) (xa :: sessionState) (xb :: sessionState). friendsWith (deriveStableConversationID ''A'' ''B'') ''B'' xa (cs_db a2) \<and>
     friendsWith (deriveStableConversationID ''A'' ''B'') ''A'' xb (cs_db b2) \<and> sx_SendKey xa = sx_RecvKey xb \<and> sx_RecvKey xa = sx_SendKey xb"
proof -
  let ?a = "demo_person ''A'' 3" and ?b = "demo_person ''B'' 5"
  obtain pa pb where k: "profileKeys demo_crypto (cs_db ?a) pa" "profileKeys demo_crypto (cs_db ?b) pb" using demo_person_keys by blast
  have d: "dh_agree demo_crypto (db_kexPriv (cs_db ?a)) (db_kexPriv (cs_db ?b))"
    unfolding demo_person_simps by (rule demo_dh_agree) simp_all
  have n: "cn_crypto demo_chat_net = demo_crypto" "cn_uuid demo_chat_net (cs_calls ?a) = ''m0''"
    by (simp_all add: demo_chat_net_def demo_person_simps demo_show)
  have t: "trimSpace ''A'' = ''A''" "trimSpace ''B'' = ''B''" by (simp_all add: trimSpace_def is_space_def)
  have ne: "''A'' \<noteq> ''B''" "''A'' \<noteq> []" "''B'' \<noteq> []" "''m0'' \<noteq> []" by simp_all
  from friendship_agrees [OF n(1) n(1) d k demo_person_simps(1) demo_person_simps(1) ne(1-3) t demo_person_simps(2) demo_person_simps(2)
      demo_person_simps(3) demo_person_simps(3) demo_person_simps(4) demo_person_simps(4) demo_person_simps(5) n(2) ne(4) demo_person_simps(6),
      of 1 "''hello''" 2 3 4]
  show ?thesis unfolding Let_def by blast
qed

section \<open>The stream of friend messages\<close>

text \<open>
  The four friend messages that arrive on a stream (profiles, avatars and bindings come on it too, and are
  handled elsewhere). Errors are logged. The peer at the other end of the stream is not looked at.
\<close>

datatype FriendEnvelope =
    FriendRequest SessionRequest
  | FriendAccept SessionAccept
  | FriendReject SessionReject
  | FriendAcceptAck SessionAcceptAck

definition serveRequestStream :: "chat_net \<Rightarrow> time \<Rightarrow> FriendEnvelope \<Rightarrow> string \<Rightarrow> unit svc" where
  "serveRequestStream N now env remotePeer =
     bindS (attempt (case env of
         FriendRequest req \<Rightarrow> handleIncomingSessionRequestEnvelope N now req TransportModeDirect True
       | FriendAccept accept \<Rightarrow> handleIncomingSessionAcceptEnvelope N now accept True True
       | FriendReject reject \<Rightarrow> handleIncomingSessionRejectEnvelope now reject True
       | FriendAcceptAck ack \<Rightarrow> handleIncomingSessionAcceptAckEnvelope ack)) (\<lambda>_. ret ())"

lemma serve_runs:
  "runs (handleIncomingSessionRequestEnvelope N now w TransportModeDirect True) s (\<lambda>_. Q) \<Longrightarrow>
     runs (serveRequestStream N now (FriendRequest w) remotePeer) s (\<lambda>_. Q)"
  "runs (handleIncomingSessionAcceptEnvelope N now acc True True) s (\<lambda>_. Q) \<Longrightarrow>
     runs (serveRequestStream N now (FriendAccept acc) remotePeer) s (\<lambda>_. Q)"
  by (auto simp: serveRequestStream_def runs_def svc_eval)

text \<open>C23. A stranger becomes a friend without being accepted: a request and then an acceptance of the same request, both
  from the stranger and over any stream, leave an active conversation with the session of the stranger's key
  and the request accepted. No function of the local user is called.\<close>

theorem stranger_accepts_own_request:
  assumes hub: "hub_ok (cs_hub s)"
    and w: "sr_FromPeerID w = M" "sr_ToPeerID w = cs_localPeer s" "M \<noteq> []" "M \<noteq> cs_localPeer s" "trimSpace M = M" "sr_RequestID w \<noteq> []"
    and new: "reqView (sr_RequestID w) (cs_db s) = None" "\<not> isBlocked M (cs_db s)" "GetConversationByPeer M (cs_db s) = Inl ErrNoRows"
    and acc: "sa_RequestID acc = sr_RequestID w" "sa_FromPeerID acc = M" "sa_ToPeerID acc = cs_localPeer s" "sa_RetentionMinutes acc = 0"
    and sess: "deriveSessionState (cn_crypto N) (deriveStableConversationID (cs_localPeer s) M) (cs_localPeer s) M (db_kexPriv (cs_db s)) (sa_ChatKexPub acc) = Inr sess"
  shows "\<exists>s1 s2. serveRequestStream N t1 (FriendRequest w) p1 s = (Returns (), s1) \<and>
     serveRequestStream N t2 (FriendAccept acc) p2 s1 = (Returns (), s2) \<and>
     friendsWith (deriveStableConversationID (cs_localPeer s) M) M sess (cs_db s2) \<and>
     reqView (sr_RequestID w) (cs_db s2) = Some (M, cs_localPeer s, RequestStateAccepted, deriveStableConversationID (cs_localPeer s) M)"
proof -
  have h: "runs (handleIncomingSessionRequestEnvelope N t1 w TransportModeDirect True) s (\<lambda>_. requestHandled w s)"
    by (rule request_runs [OF hub]) (use w new in simp_all)
  then obtain s1 where s1: "serveRequestStream N t1 (FriendRequest w) p1 s = (Returns (), s1)" "requestHandled w s s1"
    using serve_runs(1) [OF h, of p1] unfolding runs_def by auto
  obtain r where r: "getBy fq_RequestID (sr_RequestID w) (db_requests (cs_db s1)) = Some r" "storedRequest w r"
    and kept: "cs_localPeer s1 = cs_localPeer s" "hub_ok (cs_hub s1)" "db_kexPriv (cs_db s1) = db_kexPriv (cs_db s)"
      "db_conversations (cs_db s1) = db_conversations (cs_db s)" using s1(2) by (auto simp: requestHandled_def)
  have v: "reqView (sr_RequestID w) (cs_db s1) = Some (M, cs_localPeer s, RequestStatePending, fq_ConversationID r)"
    using r w by (simp add: reqView_def storedRequest_def)
  have c: "GetConversationByPeer M (cs_db s1) = Inl ErrNoRows" using new(3) kept(4) by (simp add: GetConversationByPeer_def)
  have a: "runs (handleIncomingSessionAcceptEnvelope N t2 acc True True) s1 (\<lambda>_. acceptHandled acc sess s1)"
    by (rule accept_runs [OF kept(2), where f = M and t = "cs_localPeer s" and st = RequestStatePending and c = "fq_ConversationID r"])
       (use w acc v c kept sess in \<open>simp_all add: otherSide_def\<close>)
  then obtain s2 where "serveRequestStream N t2 (FriendAccept acc) p2 s1 = (Returns (), s2)" "acceptHandled acc sess s1 s2"
    using serve_runs(2) [OF a, of p2] unfolding runs_def by auto
  with s1(1) v acc kept(1) show ?thesis by (auto simp: acceptHandled_def Let_def)
qed


definition demo_accept :: "string \<Rightarrow> string \<Rightarrow> string \<Rightarrow> string \<Rightarrow> SessionAccept" where
  "demo_accept rid from to pub = \<lparr>sa_Type = MessageTypeSessionAccept, sa_RequestID = rid, sa_ConversationID = [], sa_FromPeerID = from,
     sa_ToPeerID = to, sa_Bio = [], sa_AvatarName = [], sa_RetentionMinutes = 0, sa_ChatKexPub = pub, sa_SentAtUnix = 0, sa_Signature = []\<rparr>"

definition demo_request :: "string \<Rightarrow> string \<Rightarrow> string \<Rightarrow> string \<Rightarrow> SessionRequest" where
  "demo_request rid from to pub = \<lparr>sr_Type = MessageTypeSessionRequest, sr_RequestID = rid, sr_FromPeerID = from, sr_ToPeerID = to,
     sr_Nickname = [], sr_Bio = [], sr_AvatarName = [], sr_RetentionMinutes = 0, sr_IntroText = [], sr_ChatKexPub = pub,
     sr_SentAtUnix = 0, sr_Signature = []\<rparr>"

theorem stranger_accepts_own_request_witness:
  "\<exists>(s1 :: ChatService) (s2 :: ChatService) sess pub.
     serveRequestStream demo_chat_net 1 (FriendRequest (demo_request ''r'' ''M'' ''A'' pub)) ''M'' (demo_person ''A'' 3) = (Returns (), s1) \<and>
     serveRequestStream demo_chat_net 2 (FriendAccept (demo_accept ''r'' ''M'' ''A'' pub)) ''M'' s1 = (Returns (), s2) \<and>
     friendsWith (deriveStableConversationID ''A'' ''M'') ''M'' sess (cs_db s2)"
proof -
  let ?a = "demo_person ''A'' 3" and ?m = "demo_person ''M'' 5" and ?cid = "deriveStableConversationID ''A'' ''M''"
  let ?pub = "pf_ChatKexPub (db_profile (cs_db ?m))"
  obtain pa pm where k: "profileKeys demo_crypto (cs_db ?a) pa" "profileKeys demo_crypto (cs_db ?m) pm" using demo_person_keys by blast
  have d: "dh_agree demo_crypto (db_kexPriv (cs_db ?a)) (db_kexPriv (cs_db ?m))" unfolding demo_person_simps by (rule demo_dh_agree) simp_all
  obtain sess where sess: "deriveSessionState demo_crypto ?cid ''A'' ''M'' (db_kexPriv (cs_db ?a)) ?pub = Inr sess"
    using sessions_agree [OF d k, of "''A''" "''M''" ?cid] by auto
  have n: "cn_crypto demo_chat_net = demo_crypto" by (simp add: demo_chat_net_def)
  have t: "trimSpace ''M'' = ''M''" by (simp add: trimSpace_def is_space_def)
  from stranger_accepts_own_request [where s = ?a and M = "''M''" and w = "demo_request ''r'' ''M'' ''A'' ?pub" and acc = "demo_accept ''r'' ''M'' ''A'' ?pub"
      and N = demo_chat_net and sess = sess and ?t1.0 = 1 and ?t2.0 = 2 and ?p1.0 = "''M''" and ?p2.0 = "''M''"] sess
  show ?thesis by (simp add: demo_person_simps demo_request_def demo_accept_def n t) blast
qed

end
