(* ===== verification/Chat_Faults.thy ===== *)
theory Chat_Faults
  imports Chat_Friends
begin

text \<open>
  Where the handlers of the chat service break what its sessions and conversations promise: an acceptance
  that is handled again resets the counters under the same keys, two texts sent at once take the same counter,
  a text behind the counter is dropped, and two handlers change a conversation for a peer it does not belong
  to. Deleting a contact ends all the same.
\<close>

section \<open>Sending in a conversation\<close>

definition sealedText :: "crypto \<Rightarrow> sessionState \<Rightarrow> u64 \<Rightarrow> string \<Rightarrow> bytes" where
  "sealedText C sess c text = aead_seal C (sx_SendKey sess) (BuildAEADNonce ''fwd'' c) (bytes_of_string (trimSpace text))
     (textAAD (sx_ConversationID sess) MessageTypeChatText)"

text \<open>A sent text is stored with the counter of the session, and nothing a handshake looks at changes.\<close>

definition textStored :: "crypto \<Rightarrow> sessionState \<Rightarrow> string \<Rightarrow> string \<Rightarrow> ChatService \<Rightarrow> Message \<Rightarrow> ChatService \<Rightarrow> bool" where
  "textStored C sess peerID text s m s' \<longleftrightarrow> ms_Counter m = sx_SendCounter sess \<and> ms_Plaintext m = trimSpace text \<and>
     GetMessageBlob (ms_MsgID m) (cs_db s') = Inr (sealedText C sess (sx_SendCounter sess) text) \<and>
     cs_localPeer s' = cs_localPeer s \<and> cs_hub s' = cs_hub s \<and> db_kexPriv (cs_db s') = db_kexPriv (cs_db s) \<and>
     (\<forall>rid. reqView rid (cs_db s') = reqView rid (cs_db s)) \<and> (\<forall>p. isBlocked p (cs_db s') = isBlocked p (cs_db s)) \<and>
     (\<exists>conv. GetConversationByPeer peerID (cs_db s') = Inr conv \<and> cv_ConversationID conv = sx_ConversationID sess) \<and>
     friendsWith (sx_ConversationID sess) peerID (sess\<lparr>sx_SendCounter := sx_SendCounter sess + 1\<rparr>) (cs_db s')"

definition sentDB :: "Message \<Rightarrow> bytes \<Rightarrow> time \<Rightarrow> ChatDB \<Rightarrow> ChatDB" where
  "sentDB m b now db = UpsertOutboxJob (ms_MsgID m) (ms_ReceiverPeerID m) MessageStateQueuedForRetry 0 now 0
     (updateSession (ms_ConversationID m) (\<lambda>x. x\<lparr>sx_SendCounter := ms_Counter m + 1\<rparr>)
       (updateConversation (ms_ConversationID m) (touchConversation m) (insertMessage m b db)))"

lemma UpsertOutboxJob_fields [simp]:
  "db_messages (UpsertOutboxJob mid p st n t1 t2 db) = db_messages db" "db_sessions (UpsertOutboxJob mid p st n t1 t2 db) = db_sessions db"
  "db_conversations (UpsertOutboxJob mid p st n t1 t2 db) = db_conversations db" "db_requests (UpsertOutboxJob mid p st n t1 t2 db) = db_requests db"
  "db_peers (UpsertOutboxJob mid p st n t1 t2 db) = db_peers db" "db_kexPriv (UpsertOutboxJob mid p st n t1 t2 db) = db_kexPriv db"
  by (simp_all add: UpsertOutboxJob_def Let_def)

lemma touchConversation_fields [simp]:
  "cv_ConversationID (touchConversation m c) = cv_ConversationID c" "cv_PeerID (touchConversation m c) = cv_PeerID c"
  "cv_State (touchConversation m c) = cv_State c"
  by (simp_all add: touchConversation_def)

lemma getBy_updateRows_other:
  assumes "\<And>x. key (f x) = key x"
  shows "getBy key k (updateRows P f tbl) = map_option (\<lambda>x. if P x then f x else x) (getBy key k tbl)"
  by (induction tbl) (auto simp: getBy_def updateRows_def assms)

lemma sentDB_lookups:
  assumes "friendsWith (ms_ConversationID m) p sess db" "GetConversationByPeer p db = Inr conv" "cv_ConversationID conv = ms_ConversationID m"
  shows "friendsWith (ms_ConversationID m) p (sess\<lparr>sx_SendCounter := ms_Counter m + 1\<rparr>) (sentDB m b now db)"
    "\<exists>conv. GetConversationByPeer p (sentDB m b now db) = Inr conv \<and> cv_ConversationID conv = ms_ConversationID m"
    "GetMessageBlob (ms_MsgID m) (sentDB m b now db) = Inr b" "reqView rid (sentDB m b now db) = reqView rid db"
    "isBlocked q (sentDB m b now db) = isBlocked q db" "db_kexPriv (sentDB m b now db) = db_kexPriv db"
proof -
  have id: "messageKey (relaySQLValues m, b) = ms_MsgID m" by (simp add: messageKey_def relaySQLValues_def)
  show "friendsWith (ms_ConversationID m) p (sess\<lparr>sx_SendCounter := ms_Counter m + 1\<rparr>) (sentDB m b now db)"
    using assms(1) by (auto simp: friendsWith_def sentDB_def GetSessionState_getBy GetConversation_def queryRow_getBy updateSession_def
        updateConversation_def insertMessage_put getBy_updateRows of_option_eq)
  show "\<exists>conv. GetConversationByPeer p (sentDB m b now db) = Inr conv \<and> cv_ConversationID conv = ms_ConversationID m"
    using assms(2,3) by (auto simp: sentDB_def GetConversationByPeer_def queryRow_getBy updateSession_def updateConversation_def insertMessage_put
        getBy_updateRows_other of_option_eq)
  show "GetMessageBlob (ms_MsgID m) (sentDB m b now db) = Inr b"
    using messages.get_put [of "(relaySQLValues m, b)" "db_messages db"]
    by (simp add: GetMessageBlob_getBy sentDB_def updateSession_def updateConversation_def insertMessage_put id)
qed (simp_all add: sentDB_def updateSession_def updateConversation_def insertMessage_put reqView_def isBlocked_getBy)

lemma SendText_runs:
  assumes f: "friendsWith (sx_ConversationID sess) p sess (cs_db s)" and peer: "\<not> isBlocked p (cs_db s)"
    and conv: "GetConversationByPeer p (cs_db s) = Inr conv" "cv_ConversationID conv = sx_ConversationID sess"
    and key: "length (sx_SendKey sess) = AEADKeySize" and c: "sqlUint64 (sx_SendCounter sess) = Inr ()" "sqlUint64 (sx_SendCounter sess + 1) = Inr ()"
    and body: "trimSpace text \<noteq> []"
  shows "runs (SendText N now (sx_ConversationID sess) text) s (textStored (cn_crypto N) sess p text s)"
proof -
  obtain cv where cv: "GetConversation (sx_ConversationID sess) (cs_db s) = Inr cv" "cv_PeerID cv = p"
    and ss: "GetSessionState (sx_ConversationID sess) (cs_db s) = Inr sess" using f by (auto simp: friendsWith_def)
  let ?m = "(outboundMessage now (cn_uuid N (cs_calls s)) (sx_ConversationID sess) (cs_localPeer s) p MessageTypeChatText (sx_SendCounter sess))\<lparr>ms_Plaintext := trimSpace text\<rparr>"
  let ?b = "sealedText (cn_crypto N) sess (sx_SendCounter sess) text"
  have m: "ms_Counter ?m = sx_SendCounter sess" "ms_ConversationID ?m = sx_ConversationID sess" "ms_Plaintext ?m = trimSpace text"
    by (simp_all add: outboundMessage_def)
  have seal: "AEADSeal (cn_crypto N) (sx_SendKey sess) (BuildAEADNonce ''fwd'' (sx_SendCounter sess)) (bytes_of_string (trimSpace text))
      (textAAD (sx_ConversationID sess) MessageTypeChatText) = Inr ?b"
    using key by (simp add: AEADSeal_def AEADNonceSize_def length_BuildAEADNonce sealedText_def)
  have store: "storeOutbound now ?m ?b s1 = (Returns ?m, s1\<lparr>cs_db := sentDB ?m ?b now (cs_db s1), cs_tasks := cs_tasks s1 @ [SendDirect ?m ?b []]\<rparr>)" for s1
    using c m by (simp add: storeOutbound_def svc_eval execR_def AddMessage_def UpdateSendCounter_def sentDB_def)
  note l = sentDB_lookups [where m = ?m and p = p and sess = sess and db = "cs_db s" and conv = conv and b = ?b and now = now]
  have "textStored (cn_crypto N) sess p text s ?m (s\<lparr>cs_calls := cs_calls s + 1, cs_db := sentDB ?m ?b now (cs_db s),
      cs_tasks := cs_tasks s @ [SendDirect ?m ?b []]\<rparr>)"
    using l f conv m by (simp add: textStored_def)
  moreover have "SendText N now (sx_ConversationID sess) text s = (Returns ?m, s\<lparr>cs_calls := cs_calls s + 1, cs_db := sentDB ?m ?b now (cs_db s),
      cs_tasks := cs_tasks s @ [SendDirect ?m ?b []]\<rparr>)"
    using body cv ss peer seal store by (simp add: SendText_def Let_def svc_eval blockedPeer_run)
  ultimately show ?thesis unfolding runs_def by blast
qed


section \<open>An acceptance comes again\<close>

lemma derived_key_length: "hkdf_sized C \<Longrightarrow> deriveSessionState C cid me p priv pub = Inr sess \<Longrightarrow> length (sx_SendKey sess) = AEADKeySize"
  by (auto simp: deriveSessionState_def DeriveChatSessionKeys_def hkdf_sized_def Let_def res_bind_eq_Inr split: if_splits)

text \<open>C24. The acceptance of a request is sent until it is acknowledged, and each copy that comes in starts the session again
  under the same keys: the text sent before and the text sent after the second copy are sealed with the same
  key and the same nonce.\<close>

theorem repeated_accept_reuses_nonce:
  assumes hub: "hub_ok (cs_hub s)" and C: "hkdf_sized (cn_crypto N)"
    and acc: "sa_FromPeerID acc = P" "sa_ToPeerID acc = cs_localPeer s" "P \<noteq> []" "P \<noteq> cs_localPeer s" "sa_RequestID acc \<noteq> []" "trimSpace P = P"
    and req: "reqView (sa_RequestID acc) (cs_db s) = Some (cs_localPeer s, P, RequestStateAccepted, cid)"
    and cid: "cid = deriveStableConversationID (cs_localPeer s) P"
    and sess: "deriveSessionState (cn_crypto N) cid (cs_localPeer s) P (db_kexPriv (cs_db s)) (sa_ChatKexPub acc) = Inr sess"
    and friends: "friendsWith cid P sess (cs_db s)" "\<not> isBlocked P (cs_db s)"
      "GetConversationByPeer P (cs_db s) = Inr conv" "cv_ConversationID conv = cid"
    and texts: "trimSpace x \<noteq> []" "trimSpace y \<noteq> []"
  shows "\<exists>m1 s1 s2 m2 s3. SendText N t1 cid x s = (Returns m1, s1) \<and>
     serveRequestStream N t2 (FriendAccept acc) P s1 = (Returns (), s2) \<and> SendText N t3 cid y s2 = (Returns m2, s3) \<and>
     GetMessageBlob (ms_MsgID m1) (cs_db s1) = Inr (aead_seal (cn_crypto N) (sx_SendKey sess) (BuildAEADNonce ''fwd'' 0)
       (bytes_of_string (trimSpace x)) (textAAD cid MessageTypeChatText)) \<and>
     GetMessageBlob (ms_MsgID m2) (cs_db s3) = Inr (aead_seal (cn_crypto N) (sx_SendKey sess) (BuildAEADNonce ''fwd'' 0)
       (bytes_of_string (trimSpace y)) (textAAD cid MessageTypeChatText))"
proof -
  have z: "sx_SendCounter sess = 0" "sx_RecvCounter sess = 0" "sx_ConversationID sess = cid" using derived_session [OF sess] by simp_all
  note key = derived_key_length [OF C sess]
  have q: "sqlUint64 (sx_SendCounter sess) = Inr ()" "sqlUint64 (sx_SendCounter sess + 1) = Inr ()" by (simp_all add: z sqlUint64_def)
  have "runs (SendText N t1 cid x) s (textStored (cn_crypto N) sess P x s)"
    using SendText_runs [OF _ friends(2,3) _ key q texts(1), of N t1] friends(1,4) z(3) by simp
  then obtain m1 s1 where s1: "SendText N t1 cid x s = (Returns m1, s1)" "textStored (cn_crypto N) sess P x s m1 s1" by (auto simp: runs_def)
  note k = s1(2) [unfolded textStored_def z(3)]
  obtain c1 where c1: "GetConversationByPeer P (cs_db s1) = Inr c1" "cv_ConversationID c1 = cid" using k by blast
  have "runs (handleIncomingSessionAcceptEnvelope N t2 acc True True) s1 (\<lambda>_. acceptHandled acc sess s1)"
    by (rule accept_runs [where f = "cs_localPeer s" and t = P and st = RequestStateAccepted and c = cid])
       (use k c1 hub acc req sess cid in \<open>simp_all add: otherSide_def\<close>)
  then obtain s2 where s2: "serveRequestStream N t2 (FriendAccept acc) P s1 = (Returns (), s2)" "acceptHandled acc sess s1 s2"
    using serve_runs(2) [of N t2 acc s1 _ P] by (auto simp: runs_def)
  have h: "friendsWith cid P sess (cs_db s2)" "\<not> isBlocked P (cs_db s2)"
    "\<exists>c. GetConversationByPeer P (cs_db s2) = Inr c \<and> cv_ConversationID c = cid"
    using s2(2) k acc cid friends(2) by (simp_all add: acceptHandled_def Let_def)
  then obtain c2 where c2: "GetConversationByPeer P (cs_db s2) = Inr c2" "cv_ConversationID c2 = cid" by blast
  have "runs (SendText N t3 cid y) s2 (textStored (cn_crypto N) sess P y s2)"
    using SendText_runs [OF _ h(2) c2(1) _ key q texts(2), of N t3] h(1) c2(2) z(3) by simp
  then obtain m2 s3 where s3: "SendText N t3 cid y s2 = (Returns m2, s3)" "textStored (cn_crypto N) sess P y s2 m2 s3" by (auto simp: runs_def)
  show ?thesis using s1 s2(1) s3 z by (auto simp: textStored_def sealedText_def)
qed

text \<open>A person who has a friend.\<close>

definition demo_friends :: "sessionState \<Rightarrow> ChatService" where
  "demo_friends sess = (let cid = deriveStableConversationID ''A'' ''B'' in
     (demo_person ''A'' 3)\<lparr>cs_db := (cs_db (demo_person ''A'' 3))\<lparr>db_conversations := [activeConversation cid ''B'' TransportModeDirect 0 1 1],
       db_sessions := [sess], db_requests := [zeroRequest\<lparr>fq_RequestID := ''r'', fq_FromPeerID := ''A'', fq_ToPeerID := ''B'',
         fq_State := RequestStateAccepted, fq_ConversationID := cid\<rparr>]\<rparr>\<rparr>)"

lemma demo_friends_simps:
  "cs_localPeer (demo_friends sess) = ''A''" "hub_ok (cs_hub (demo_friends sess))" "\<not> isBlocked p (cs_db (demo_friends sess))"
  "GetConversationByPeer ''B'' (cs_db (demo_friends sess)) = Inr (activeConversation (deriveStableConversationID ''A'' ''B'') ''B'' TransportModeDirect 0 1 1)"
  "reqView ''r'' (cs_db (demo_friends sess)) = Some (''A'', ''B'', RequestStateAccepted, deriveStableConversationID ''A'' ''B'')"
  "db_kexPriv (cs_db (demo_friends sess)) = replicate 32 3"
  using demo_person_simps(3) [of p "''A''" 3]
  by (simp_all add: demo_friends_def Let_def demo_person_simps isBlocked_getBy GetConversationByPeer_def queryRow_def reqView_def getBy_def)

lemma demo_friends_with:
  "sx_ConversationID sess = deriveStableConversationID ''A'' ''B'' \<Longrightarrow>
     friendsWith (deriveStableConversationID ''A'' ''B'') ''B'' sess (cs_db (demo_friends sess))"
  by (simp add: friendsWith_def demo_friends_def Let_def GetConversation_def GetSessionState_def queryRow_def)

theorem repeated_accept_reuses_nonce_witness:
  "\<exists>sess pub m1 (s1 :: ChatService) (s2 :: ChatService) m2 (s3 :: ChatService) k a. let cid = deriveStableConversationID ''A'' ''B'' in
     SendText demo_chat_net 1 cid ''x'' (demo_friends sess) = (Returns m1, s1) \<and>
     serveRequestStream demo_chat_net 2 (FriendAccept (demo_accept ''r'' ''B'' ''A'' pub)) ''B'' s1 = (Returns (), s2) \<and>
     SendText demo_chat_net 3 cid ''y'' s2 = (Returns m2, s3) \<and>
     GetMessageBlob (ms_MsgID m1) (cs_db s1) = Inr (aead_seal demo_crypto k (BuildAEADNonce ''fwd'' 0) (bytes_of_string ''x'') a) \<and>
     GetMessageBlob (ms_MsgID m2) (cs_db s3) = Inr (aead_seal demo_crypto k (BuildAEADNonce ''fwd'' 0) (bytes_of_string ''y'') a)"
proof -
  let ?a = "demo_person ''A'' 3" and ?b = "demo_person ''B'' 5" and ?cid = "deriveStableConversationID ''A'' ''B''"
  let ?pub = "pf_ChatKexPub (db_profile (cs_db ?b))"
  obtain pa pb where k: "profileKeys demo_crypto (cs_db ?a) pa" "profileKeys demo_crypto (cs_db ?b) pb" using demo_person_keys by blast
  have d: "dh_agree demo_crypto (db_kexPriv (cs_db ?a)) (db_kexPriv (cs_db ?b))" unfolding demo_person_simps by (rule demo_dh_agree) simp_all
  obtain sess where sess: "deriveSessionState demo_crypto ?cid ''A'' ''B'' (replicate 32 3) ?pub = Inr sess"
    using sessions_agree [OF d k, of "''A''" "''B''" ?cid] by (auto simp: demo_person_simps)
  have n: "cn_crypto demo_chat_net = demo_crypto" by (simp add: demo_chat_net_def)
  have t: "trimSpace ''B'' = ''B''" "trimSpace ''x'' = ''x''" "trimSpace ''y'' = ''y''" by (simp_all add: trimSpace_def is_space_def)
  let ?k = "sx_SendKey sess" and ?t = "textAAD ?cid MessageTypeChatText"
  have "\<exists>m1 s1 s2 m2 s3. SendText demo_chat_net 1 ?cid ''x'' (demo_friends sess) = (Returns m1, s1) \<and>
     serveRequestStream demo_chat_net 2 (FriendAccept (demo_accept ''r'' ''B'' ''A'' ?pub)) ''B'' s1 = (Returns (), s2) \<and>
     SendText demo_chat_net 3 ?cid ''y'' s2 = (Returns m2, s3) \<and>
     GetMessageBlob (ms_MsgID m1) (cs_db s1) = Inr (aead_seal (cn_crypto demo_chat_net) ?k (BuildAEADNonce ''fwd'' 0) (bytes_of_string (trimSpace ''x'')) ?t) \<and>
     GetMessageBlob (ms_MsgID m2) (cs_db s3) = Inr (aead_seal (cn_crypto demo_chat_net) ?k (BuildAEADNonce ''fwd'' 0) (bytes_of_string (trimSpace ''y'')) ?t)"
    by (rule repeated_accept_reuses_nonce [where conv = "activeConversation ?cid ''B'' TransportModeDirect 0 1 1"])
       (use sess demo_friends_with [of sess] derived_session [OF sess] in \<open>simp_all add: demo_friends_simps demo_accept_def n t\<close>)
  then show ?thesis unfolding Let_def n t by (elim exE) (intro exI, assumption)
qed


definition demo_ahead :: ChatService where
  "demo_ahead = (demo_node ''B'' ''A'')\<lparr>cs_db := updateSession ''c'' (\<lambda>x. x\<lparr>sx_RecvCounter := 1\<rparr>) (cs_db (demo_node ''B'' ''A''))\<rparr>"



section \<open>Messages of a peer the conversation does not belong to\<close>

lemma timeText_le: "t + second \<le> u \<Longrightarrow> timeText t \<le> timeText u"
proof -
  assume "t + second \<le> u"
  then have "(t + second) div second \<le> u div second" by (rule zdiv_mono1) (simp add: second_def)
  then have "t div second < u div second" by (simp add: second_def)
  then show ?thesis by (simp add: timeText_def)
qed

lemma minutesDuration_small:
  assumes "0 < r" "r \<le> MaxRetentionMinutes" shows "minutesDuration (- r) = - r * minute"
proof -
  have b: "- (2 ^ 63) \<le> - r * minute" "- r * minute < 2 ^ 63"
    using assms by (simp_all add: MaxRetentionMinutes_def minute_def second_def)
  have "sint (word_of_int x :: 64 word) = x" if "- (2 ^ 63) \<le> x" "x < 2 ^ 63" for x :: int
    using that by (simp add: int_word_sint)
  from this [OF b] show ?thesis by (simp only: minutesDuration_def)
qed

lemma refreshSummary_fields [simp]: "db_messages (refreshConversationMessageSummary now cid db) = db_messages db"
  by (simp add: refreshConversationMessageSummary_def updateConversation_def split: list.split)

lemma retention_cleanup:
  assumes r: "0 < r" "r \<le> MaxRetentionMinutes"
    and old: "(m, b) \<in> set (db_messages (cleanupConversationExpiredMessages clock cid r now db))" "ms_ConversationID m = cid"
  shows "now - r * minute < ms_CreatedAt m + second"
proof (rule ccontr)
  assume "\<not> now - r * minute < ms_CreatedAt m + second"
  then have "ms_CreatedAt m + second \<le> now + - r * minute" by simp
  from timeText_le [OF this] old show False
    by (simp add: cleanupConversationExpiredMessages_def Let_def setMessages_def deleteRows_def minutesDuration_small [OF r])
qed

text \<open>C36. Any peer that can open a stream deletes the messages of a conversation: a retention update is taken for the
  conversation it names whoever sends it (blocked peers too), and from then on no message of it is older than
  the minutes the stranger asked for.\<close>

theorem stranger_deletes_messages:
  assumes conv: "GetConversation (ru_ConversationID u) (cs_db s) = Inr conv" "GetSessionState (ru_ConversationID u) (cs_db s) = Inr sess"
    and stranger: "ru_FromPeerID u \<noteq> cv_PeerID conv" "streamPeerIdentityOK stream (ru_FromPeerID u)"
    and r: "0 < ru_RetentionMinutes u" "ru_RetentionMinutes u \<le> MaxRetentionMinutes"
  shows "\<exists>s'. handleIncomingRetentionUpdate N now u mode stream s = (Returns (), s') \<and>
    (\<forall>(m, b)\<in>set (db_messages (cs_db s')). ms_ConversationID m = ru_ConversationID u \<longrightarrow>
       now - ru_RetentionMinutes u * minute < ms_CreatedAt m + second)"
proof -
  let ?cid = "ru_ConversationID u" and ?r = "ru_RetentionMinutes u"
  have id: "cv_ConversationID conv = ?cid" by (rule GetConversation_id [OF conv(1)])
  let ?db1 = "updateConversation ?cid (\<lambda>c. c\<lparr>cv_RetentionMinutes := ?r, cv_UpdatedAt := now\<rparr>) (cs_db s)"
  let ?db2 = "cleanupConversationExpiredMessages now ?cid ?r now ?db1"
  have g1: "\<exists>c. GetConversation ?cid ?db1 = Inr c" using conv(1)
    by (auto simp: GetConversation_def queryRow_getBy updateConversation_def getBy_updateRows of_option_eq)
  have "\<exists>c. GetConversation ?cid (refreshConversationMessageSummary now ?cid (setMessages f ?db1)) = Inr c" for f
    using g1 by (auto simp: refreshConversationMessageSummary_def GetConversation_def queryRow_getBy updateConversation_def setMessages_def
        getBy_updateRows of_option_eq split: list.split)
  then obtain c where g2: "GetConversation ?cid ?db2 = Inr c" by (auto simp: cleanupConversationExpiredMessages_def Let_def)
  have u: "UpdateConversationRetention now ?cid ?r (cs_db s) = (Inr c, ?db2)"
    using r g2 by (simp add: UpdateConversationRetention_def MinRetentionMinutes_def Let_def)
  have "handleIncomingRetentionUpdate N now u mode stream s =
      (Returns (), s\<lparr>cs_db := UpdateConversationRetentionSync now (cv_ConversationID c) ''synced'' now ?db2\<rparr>)"
    using stranger(2) u id by (simp add: handleIncomingRetentionUpdate_def svc_eval loadIncoming_ready [OF conv] execR_def)
  moreover have "db_messages (UpdateConversationRetentionSync now (cv_ConversationID c) ''synced'' now ?db2) = db_messages ?db2"
    by (simp add: UpdateConversationRetentionSync_def updateConversation_def)
  ultimately show ?thesis using retention_cleanup [OF r, of _ _ now ?cid now ?db1] by auto
qed

definition demo_update :: RetentionUpdate where
  "demo_update = \<lparr>ru_Type = MessageTypeRetentionUpdate, ru_ConversationID = ''c'', ru_FromPeerID = ''M'', ru_ToPeerID = ''A'',
     ru_RetentionMinutes = 1, ru_UpdatedAtUnix = 0, ru_Signature = []\<rparr>"

theorem stranger_deletes_messages_witness:
  "length (db_messages (cs_db demo_friend)) = 2 \<and>
   (\<exists>s'. handleIncomingRetentionUpdate demo_chat_net (5 * minute) demo_update TransportModeDirect ''M'' demo_friend = (Returns (), s') \<and>
     (\<forall>(m, b)\<in>set (db_messages (cs_db s')). ms_ConversationID m = ''c'' \<longrightarrow> 4 * minute < ms_CreatedAt m + second))"
proof -
  obtain conv sess where l: "GetConversation ''c'' (cs_db demo_friend) = Inr conv" "cv_PeerID conv = ''B''"
    "GetSessionState ''c'' (cs_db demo_friend) = Inr sess" using demo_friend_lookup by blast
  have "streamPeerIdentityOK ''M'' ''M''" by (simp add: streamPeerIdentityOK_def trimSpace_def is_space_def)
  with stranger_deletes_messages [of demo_update demo_friend conv sess "''M''" demo_chat_net "5 * minute" TransportModeDirect] l
  show ?thesis by (simp add: demo_update_def MaxRetentionMinutes_def demo_friend_state(2) demo_items_def)
qed


lemma set_orderDesc [simp]: "set (orderDesc k xs) = set xs" by (simp add: orderDesc_def)

lemma no_accepted_request:
  assumes "\<forall>r\<in>set (db_requests db). peerIDForRequest me r \<noteq> M"
  shows "findAcceptedRequestForPeer me M cid db = Inl ErrNoRows"
proof -
  have "peerIDForRequest me r \<noteq> M" if "r \<in> set (ListRequests me db)" for r
    using that assms by (auto simp: ListRequests_def peerIDForRequest_def)
  then have "filter (\<lambda>r. peerIDForRequest me r = M \<and> fq_State r = RequestStateAccepted) (ListRequests me db) = []" by (simp add: filter_empty_conv)
  then show ?thesis by (simp add: findAcceptedRequestForPeer_def Let_def del: filter_empty_conv)
qed

text \<open>C35. A text with counter zero and arbitrary bytes, from a peer that is not known at all, deletes the conversation it
  names as long as nothing was received in it: the bytes do not open, which is taken for a stale session, and
  the conversation, its session and all its messages are gone before the sender is looked at.\<close>

theorem stranger_wipes_conversation:
  assumes conv: "GetConversation cid (cs_db s) = Inr conv" "GetSessionState cid (cs_db s) = Inr sess"
    and fresh: "sx_RecvCounter sess = 0" "length (sx_RecvKey sess) = AEADKeySize"
    and msg: "tx_Type msg = MessageTypeChatText" "tx_ConversationID msg = cid" "tx_Counter msg = 0" "cid \<noteq> []" "trimSpace cid = cid"
    and garbage: "aead_open (cn_crypto N) (sx_RecvKey sess) (BuildAEADNonce ''fwd'' 0) (tx_Ciphertext msg) (textAAD cid MessageTypeChatText) = None"
    and stranger: "tx_FromPeerID msg \<noteq> []" "\<forall>r\<in>set (db_requests (cs_db s)). peerIDForRequest (cs_localPeer s) r \<noteq> tx_FromPeerID msg"
      "\<not> isBlocked (tx_FromPeerID msg) (cs_db s)" "stream = [] \<or> streamPeerIdentityOK stream (tx_FromPeerID msg)"
  shows "\<exists>s'. handleIncomingChatText d N now msg mode stream inc False s = (Fails ErrNoRows, s') \<and>
    GetConversation cid (cs_db s') = Inl ErrNoRows \<and> GetSessionState cid (cs_db s') = Inl ErrNoRows \<and>
    (\<forall>(m, b)\<in>set (db_messages (cs_db s')). ms_ConversationID m \<noteq> cid)"
proof -
  let ?M = "tx_FromPeerID msg"
  define db' where "db' = snd (DeleteConversationData now cid (cs_db s))"
  have id: "cv_ConversationID conv = cid" by (rule GetConversation_id [OF conv(1)])
  have del: "DeleteConversationData now cid (cs_db s) = (Inr (), db')"
    using conv(1) msg by (simp add: db'_def DeleteConversationData_def Let_def)
  have gone: "GetConversation cid db' = Inl ErrNoRows" "GetSessionState cid db' = Inl ErrNoRows"
    "\<forall>(m, b)\<in>set (db_messages db'). ms_ConversationID m \<noteq> cid"
    using conv(1) msg by (auto simp: db'_def DeleteConversationData_def Let_def GetConversation_def GetSessionState_def queryRow_def deleteRows_def
        find_None_iff of_option_eq)
  have "\<forall>r\<in>set (db_requests db'). peerIDForRequest (cs_localPeer s) r \<noteq> ?M"
    using stranger(2) conv(1) msg by (auto simp: db'_def DeleteConversationData_def Let_def updateRows_def peerIDForRequest_def)
  note none = no_accepted_request [OF this, of cid]
  let ?s = "s\<lparr>cs_db := db'\<rparr>"
  have repair: "loadIncomingDirectState N now cid ?M mode ?s = (Fails ErrNoRows, ?s)"
    using msg stranger(1) none gone(1) by (simp add: loadIncomingDirectState_def repairIncomingDirectState_def svc_eval)
  have "AEADOpen (cn_crypto N) (sx_RecvKey sess) (BuildAEADNonce ''fwd'' 0) (tx_Ciphertext msg) (textAAD cid MessageTypeChatText)
      = Inl (Errorf ''chacha20poly1305: message authentication failed'')"
    using garbage fresh(2) by (simp add: AEADOpen_def length_BuildAEADNonce AEADNonceSize_def)
  then have opens: "openIncomingText N now msg MessageTypeChatText mode conv sess s = (Fails ErrNoRows, ?s)"
    using msg id del repair by (simp add: openIncomingText_def Let_def tryRecoverDirectStateOnCounterZeroAuthFailure_def isDirectChatAuthFailure_def
        svc_eval execR_def)
  have check: "counterCheckOf d N now conv sess (tx_MsgID msg) (tx_Counter msg) False s = (Returns (False, False, None), s)"
    using msg(3) fresh(1) by (simp add: counterCheckOf_def checkIncomingDirectCounter.simps Let_def svc_eval)
  have c: "GetConversation (tx_ConversationID msg) (cs_db s) = Inr conv" "GetSessionState (tx_ConversationID msg) (cs_db s) = Inr sess"
    "tx_Type msg \<noteq> []" "MessageTypeChatText \<noteq> MessageTypeGroupInviteNote" using conv msg by (simp_all add: chat_consts)
  have "handleIncomingChatText d N now msg mode stream inc False s = (Fails ErrNoRows, ?s)"
    using stranger(3,4) c msg(1) check opens
    by (elim disjE) (simp_all add: handleIncomingChatText_def handleIncomingChatTextWith_def svc_eval blockedPeer_run loadIncoming_ready)
  then show ?thesis using gone by simp
qed

definition demo_garbage :: ChatText where
  "demo_garbage = \<lparr>tx_Type = MessageTypeChatText, tx_ConversationID = ''c'', tx_MsgID = ''x'', tx_FromPeerID = ''M'', tx_ToPeerID = ''A'',
     tx_Ciphertext = [], tx_Counter = 0, tx_SentAtUnix = 0, tx_Signature = []\<rparr>"

theorem stranger_wipes_conversation_witness:
  "length (db_messages (cs_db demo_friend)) = 2 \<and>
   (\<exists>s'. handleIncomingChatText 0 demo_chat_net 40 demo_garbage TransportModeDirect ''M'' True False demo_friend = (Fails ErrNoRows, s') \<and>
     (\<forall>(m, b)\<in>set (db_messages (cs_db s')). ms_ConversationID m \<noteq> ''c''))"
proof -
  have "db_requests (cs_db demo_friend) = []" "db_peers (cs_db demo_friend) = []" "map sx_RecvCounter (db_sessions (cs_db demo_friend)) = [0]"
    "map sx_RecvKey (db_sessions (cs_db demo_friend)) = [replicate 32 7]"
    by (simp_all add: demo_friend_def demo_send_simps svc_eval demo_node_def Let_def trimSpace_def is_space_def demo_chat_net_def
        length_BuildAEADNonce demo_show)
  moreover obtain conv sess where l: "GetConversation ''c'' (cs_db demo_friend) = Inr conv" "GetSessionState ''c'' (cs_db demo_friend) = Inr sess"
    using demo_friend_lookup by blast
  ultimately have s: "sx_RecvCounter sess = 0" "sx_RecvKey sess = replicate 32 7" "db_requests (cs_db demo_friend) = []" "\<not> isBlocked ''M'' (cs_db demo_friend)"
    by (auto simp: GetSessionState_def queryRow_def of_option_eq find_Some_iff map_eq_Cons_conv isBlocked_getBy getBy_def)
  have a: "aead_open demo_crypto k n [] a = None" for k n a
  proof -
    have "demo_strip p [] = None" if "p \<noteq> []" for p :: bytes using that by (cases p) simp_all
    then show ?thesis by (simp add: demo_crypto_def demo_block_def)
  qed
  show ?thesis
    using stranger_wipes_conversation [of "''c''" demo_friend conv sess demo_garbage demo_chat_net "''M''" 0 40 TransportModeDirect True] l s
    by (auto simp: demo_garbage_def AEADKeySize_def trimSpace_def is_space_def streamPeerIdentityOK_def Let_def demo_friend_state(2) demo_items_def
        demo_chat_net_def a)
qed


section \<open>Deleting a contact ends\<close>

lemma DeleteConversationData_cases:
  "DeleteConversationData now cid db = (r, db') \<Longrightarrow>
   (\<exists>e. r = Inl e \<and> db' = db) \<or> (r = Inr () \<and> length (db_conversations db') < length (db_conversations db))"
  by (auto simp: DeleteConversationData_def Let_def deleteRows_def GetConversation_def queryRow_def of_option_eq find_Some_iff
      split: if_splits sum.splits intro!: length_filter_less [OF nth_mem])

lemma deleteConversationsOf_ends:
  "length (db_conversations (cs_db s)) < k \<Longrightarrow> deleteConversationsOf k now p s = (r, s') \<Longrightarrow>
   r \<noteq> OutOfFuel \<and> (r = Returns () \<longrightarrow> GetConversationByPeer p (cs_db s') = Inl ErrNoRows)"
proof (induction k arbitrary: s)
  case (Suc k)
  show ?case
  proof (cases "GetConversationByPeer p (cs_db s)")
    case (Inl e)
    with Suc.prems(2) show ?thesis by (auto simp: svc_eval split: if_splits)
  next
    case (Inr conv)
    obtain q db where d: "DeleteConversationData now (cv_ConversationID conv) (cs_db s) = (q, db)" by fastforce
    have step: "deleteConversationsOf (Suc k) now p s = (case q of Inl e \<Rightarrow> (Fails e, s\<lparr>cs_db := db\<rparr>) | Inr _ \<Rightarrow> deleteConversationsOf k now p (s\<lparr>cs_db := db\<rparr>))"
      using Inr d by (cases q) (simp_all add: svc_eval execR_def)
    show ?thesis
    proof (cases q)
      case (Inl e)
      with step Suc.prems(2) show ?thesis by (auto simp del: deleteConversationsOf.simps)
    next
      case (Inr u)
      then have "length (db_conversations db) < k" using DeleteConversationData_cases [OF d] Suc.prems(1) by auto
      moreover have "deleteConversationsOf k now p (s\<lparr>cs_db := db\<rparr>) = (r, s')" using step Inr Suc.prems(2) by (simp del: deleteConversationsOf.simps)
      ultimately show ?thesis using Suc.IH [of "s\<lparr>cs_db := db\<rparr>"] by simp
    qed
  qed
qed simp

text \<open>C40. Deleting a contact ends: with fuel for one round more than there are conversations the loop over the contact's
  conversations does not run out, and when the call returns neither a conversation nor the contact is left.\<close>

theorem DeleteContactLocal_ends:
  assumes "length (db_conversations (cs_db s)) < fuel"
  shows "\<exists>r s'. DeleteContactLocal fuel now peerID s = (r, s') \<and> r \<noteq> OutOfFuel \<and>
    (r = Returns () \<longrightarrow> GetConversationByPeer (trimSpace peerID) (cs_db s') = Inl ErrNoRows \<and> GetPeer (trimSpace peerID) (cs_db s') = Inl ErrNoRows)"
proof -
  let ?p = "trimSpace peerID"
  obtain r s1 where d: "deleteConversationsOf fuel now ?p s = (r, s1)" by fastforce
  have e: "r \<noteq> OutOfFuel" "r = Returns () \<Longrightarrow> GetConversationByPeer ?p (cs_db s1) = Inl ErrNoRows"
    using deleteConversationsOf_ends [OF assms d] by simp_all
  have g: "GetPeer ?p (snd (DeletePeerAndRelatedData ?p db)) = Inl ErrNoRows" if "?p \<noteq> []" for db
    using that by (simp add: GetPeer_def DeletePeerAndRelatedData_def Let_def queryRow_def deleteRows_def find_filter_none of_option_eq)
  have c: "GetConversationByPeer ?p (snd (DeletePeerAndRelatedData ?p db)) = GetConversationByPeer ?p db" for db
    by (simp add: GetConversationByPeer_def DeletePeerAndRelatedData_def Let_def)
  show ?thesis
  proof (cases "?p = [] \<or> ?p = cs_localPeer s \<or> r \<noteq> Returns ()")
    case True
    then show ?thesis using d e by (cases r) (auto simp: DeleteContactLocal_def Let_def svc_eval)
  next
    case False
    obtain db where db: "DeletePeerAndRelatedData ?p (cs_db s1) = (Inr (), db)" using False by (simp add: DeletePeerAndRelatedData_def Let_def)
    then have "DeleteContactLocal fuel now peerID s = publishChatEvent (newContactDeletedEvent now ?p) (s1\<lparr>cs_db := db\<rparr>)"
      using False d by (simp add: DeleteContactLocal_def Let_def svc_eval execR_def)
    moreover have "GetConversationByPeer ?p db = Inl ErrNoRows" "GetPeer ?p db = Inl ErrNoRows"
      using g [of "cs_db s1"] c [of "cs_db s1"] db e(2) False by simp_all
    ultimately show ?thesis by (auto simp: publishChatEvent_def split: sum.splits)
  qed
qed

theorem DeleteContactLocal_ends_witness:
  "\<exists>s'. DeleteContactLocal 2 40 ''B'' (demo_node ''A'' ''B'') = (Returns (), s') \<and> GetConversationByPeer ''B'' (cs_db s') = Inl ErrNoRows"
proof -
  let ?s = "demo_node ''A'' ''B''"
  have t: "trimSpace ''B'' = ''B''" "trimSpace ''c'' = ''c''" by (simp_all add: trimSpace_def is_space_def)
  have l: "length (db_conversations (cs_db ?s)) < 2" by (simp add: demo_node_def)
  have "\<exists>s'. DeleteContactLocal 2 40 ''B'' ?s = (Returns (), s')"
    by (simp add: DeleteContactLocal_def Let_def t numeral_2_eq_2 svc_eval execR_def demo_node_def GetConversationByPeer_def GetConversation_def queryRow_def
        DeleteConversationData_def deleteRows_def DeletePeerAndRelatedData_def publishChatEvent_def publish_def newChatEventHub_def)
  then show ?thesis using DeleteContactLocal_ends [OF l, of 40 "''B''"] t by auto
qed


section \<open>Two texts at once\<close>

text \<open>A call up to the point where it writes: nothing keeps a second call from reading the same counter meanwhile.\<close>

definition prepareText :: "chat_net \<Rightarrow> time \<Rightarrow> string \<Rightarrow> string \<Rightarrow> (Message \<times> bytes) svc" where
  "prepareText N now cid text0 =
     (let text = trimSpace text0 in
      if text = [] then fail (Errorf ''message text is empty'')
      else bindS (gets cs_localPeer) (\<lambda>me. bindS (readDB (GetConversation cid)) (\<lambda>conv.
        bindS (blockedPeer (cv_PeerID conv)) (\<lambda>blocked.
        if blocked then fail (Errorf ''peer is blocked'')
        else bindS (readDB (GetSessionState cid)) (\<lambda>sess.
        let counter = sx_SendCounter sess; nonce = BuildAEADNonce ''fwd'' counter in
        bindS (liftR (AEADSeal (cn_crypto N) (sx_SendKey sess) nonce (bytes_of_string text) (textAAD cid MessageTypeChatText))) (\<lambda>ciphertext.
        bindS nextCall (\<lambda>n.
        ret ((outboundMessage now (cn_uuid N n) cid me (cv_PeerID conv) MessageTypeChatText counter)\<lparr>ms_Plaintext := text\<rparr>, ciphertext))))))))"

lemma bindS_assoc: "bindS (bindS m f) g = bindS m (\<lambda>x. bindS (f x) g)"
  by (rule ext) (simp add: bindS_def split: prod.split outcome.split)

lemma SendText_split: "SendText N now cid text = bindS (prepareText N now cid text) (\<lambda>(m, b). storeOutbound now m b)"
proof -
  have f: "bindS (fail e) h = fail e" "bindS (ret x) k = k x" for e h x k by (rule ext, simp add: bindS_def svc_simps)+
  show ?thesis by (simp add: SendText_def prepareText_def Let_def bindS_assoc f if_distrib [of "\<lambda>m. bindS m _"] cong: if_cong)
qed

lemma prepareText_runs:
  assumes f: "friendsWith (sx_ConversationID sess) p sess (cs_db s)" and peer: "\<not> isBlocked p (cs_db s)"
    and key: "length (sx_SendKey sess) = AEADKeySize" and body: "trimSpace text \<noteq> []"
  shows "\<exists>m. prepareText N now (sx_ConversationID sess) text s =
      (Returns (m, sealedText (cn_crypto N) sess (sx_SendCounter sess) text), s\<lparr>cs_calls := cs_calls s + 1\<rparr>) \<and>
    ms_Counter m = sx_SendCounter sess \<and> ms_ConversationID m = sx_ConversationID sess \<and> ms_Plaintext m = trimSpace text"
proof -
  obtain cv where cv: "GetConversation (sx_ConversationID sess) (cs_db s) = Inr cv" "cv_PeerID cv = p"
    and ss: "GetSessionState (sx_ConversationID sess) (cs_db s) = Inr sess" using f by (auto simp: friendsWith_def)
  have "AEADSeal (cn_crypto N) (sx_SendKey sess) (BuildAEADNonce ''fwd'' (sx_SendCounter sess)) (bytes_of_string (trimSpace text))
      (textAAD (sx_ConversationID sess) MessageTypeChatText) = Inr (sealedText (cn_crypto N) sess (sx_SendCounter sess) text)"
    using key by (simp add: AEADSeal_def AEADNonceSize_def length_BuildAEADNonce sealedText_def)
  then show ?thesis using body cv ss peer by (simp add: prepareText_def Let_def svc_eval blockedPeer_run outboundMessage_def)
qed


lemma storeOutbound_run:
  assumes "sqlUint64 (ms_Counter m) = Inr ()" "sqlUint64 (ms_Counter m + 1) = Inr ()"
  shows "storeOutbound now m b s = (Returns m, s\<lparr>cs_db := sentDB m b now (cs_db s), cs_tasks := cs_tasks s @ [SendDirect m b []]\<rparr>)"
  using assms by (simp add: storeOutbound_def svc_eval execR_def AddMessage_def UpdateSendCounter_def sentDB_def)

lemma sentDB_session:
  "GetSessionState (ms_ConversationID m) db = Inr sess \<Longrightarrow>
   GetSessionState (ms_ConversationID m) (sentDB m b now db) = Inr (sess\<lparr>sx_SendCounter := ms_Counter m + 1\<rparr>)"
  by (auto simp: sentDB_def GetSessionState_getBy updateSession_def updateConversation_def insertMessage_put getBy_updateRows of_option_eq)

text \<open>C34. Two texts sent in one conversation at the same time, the second read before the first is written: both succeed
  with the same counter, both are sealed with the same key and the same nonce, and the counter of the
  session goes up by one.\<close>

theorem concurrent_sends_reuse_nonce:
  assumes f: "friendsWith (sx_ConversationID sess) p sess (cs_db s)" and peer: "\<not> isBlocked p (cs_db s)"
    and key: "length (sx_SendKey sess) = AEADKeySize" and c: "sqlUint64 (sx_SendCounter sess) = Inr ()" "sqlUint64 (sx_SendCounter sess + 1) = Inr ()"
    and texts: "trimSpace x \<noteq> []" "trimSpace y \<noteq> []"
  shows "\<exists>mx my bx by s1 s2 s3 s4. let cid = sx_ConversationID sess; nonce = BuildAEADNonce ''fwd'' (sx_SendCounter sess) in
     prepareText N t1 cid x s = (Returns (mx, bx), s1) \<and> prepareText N t2 cid y s1 = (Returns (my, by), s2) \<and>
     storeOutbound t1 mx bx s2 = (Returns mx, s3) \<and> storeOutbound t2 my by s3 = (Returns my, s4) \<and>
     bx = aead_seal (cn_crypto N) (sx_SendKey sess) nonce (bytes_of_string (trimSpace x)) (textAAD cid MessageTypeChatText) \<and>
     by = aead_seal (cn_crypto N) (sx_SendKey sess) nonce (bytes_of_string (trimSpace y)) (textAAD cid MessageTypeChatText) \<and>
     ms_Counter mx = ms_Counter my \<and> GetSessionState cid (cs_db s4) = Inr (sess\<lparr>sx_SendCounter := sx_SendCounter sess + 1\<rparr>)"
proof -
  let ?cid = "sx_ConversationID sess" and ?C = "cn_crypto N" and ?c = "sx_SendCounter sess"
  let ?s1 = "s\<lparr>cs_calls := cs_calls s + 1\<rparr>" and ?s2 = "s\<lparr>cs_calls := cs_calls s + 1 + 1\<rparr>"
  obtain mx where mx: "prepareText N t1 ?cid x s = (Returns (mx, sealedText ?C sess ?c x), ?s1)" "ms_Counter mx = ?c" "ms_ConversationID mx = ?cid"
    using prepareText_runs [OF f peer key texts(1), of N t1] by auto
  have "friendsWith ?cid p sess (cs_db ?s1)" "\<not> isBlocked p (cs_db ?s1)" using f peer by simp_all
  from prepareText_runs [OF this key texts(2), of N t2]
  obtain my where my: "prepareText N t2 ?cid y ?s1 = (Returns (my, sealedText ?C sess ?c y), ?s2)" "ms_Counter my = ?c" "ms_ConversationID my = ?cid"
    by auto
  let ?s3 = "?s2\<lparr>cs_db := sentDB mx (sealedText ?C sess ?c x) t1 (cs_db s), cs_tasks := cs_tasks s @ [SendDirect mx (sealedText ?C sess ?c x) []]\<rparr>"
  let ?s4 = "?s3\<lparr>cs_db := sentDB my (sealedText ?C sess ?c y) t2 (cs_db ?s3), cs_tasks := cs_tasks ?s3 @ [SendDirect my (sealedText ?C sess ?c y) []]\<rparr>"
  have st: "storeOutbound t1 mx (sealedText ?C sess ?c x) ?s2 = (Returns mx, ?s3)" "storeOutbound t2 my (sealedText ?C sess ?c y) ?s3 = (Returns my, ?s4)"
    using storeOutbound_run [of mx t1 "sealedText ?C sess ?c x" ?s2] storeOutbound_run [of my t2 "sealedText ?C sess ?c y" ?s3] c mx(2) my(2) by simp_all
  have g: "GetSessionState (ms_ConversationID mx) (cs_db s) = Inr sess" using f mx(3) by (simp add: friendsWith_def)
  have g4: "GetSessionState ?cid (cs_db ?s4) = Inr (sess\<lparr>sx_SendCounter := ?c + 1\<rparr>)"
    using sentDB_session [of my "sentDB mx (sealedText ?C sess ?c x) t1 (cs_db s)"] sentDB_session [OF g] mx my by simp
  have same: "ms_Counter mx = ms_Counter my" by (simp only: mx(2) my(2))
  show ?thesis unfolding Let_def
    by (intro exI conjI, rule mx(1), rule my(1), rule st(1), rule st(2), simp only: sealedText_def, simp only: sealedText_def, rule same, rule g4)
qed

theorem concurrent_sends_reuse_nonce_witness:
  "\<exists>mx my bx by (s1 :: ChatService) (s2 :: ChatService) (s3 :: ChatService) (s4 :: ChatService).
     prepareText demo_chat_net 1 ''c'' ''x'' (demo_node ''A'' ''B'') = (Returns (mx, bx), s1) \<and>
     prepareText demo_chat_net 2 ''c'' ''y'' s1 = (Returns (my, by), s2) \<and>
     storeOutbound 1 mx bx s2 = (Returns mx, s3) \<and> storeOutbound 2 my by s3 = (Returns my, s4) \<and> ms_Counter mx = ms_Counter my"
proof -
  let ?sess = "\<lparr>sx_ConversationID = ''c'', sx_PeerID = ''B'', sx_SendKey = replicate 32 7, sx_RecvKey = replicate 32 7, sx_SendCounter = 0, sx_RecvCounter = 0\<rparr>"
  have f: "friendsWith ''c'' ''B'' ?sess (cs_db (demo_node ''A'' ''B''))" "\<not> isBlocked ''B'' (cs_db (demo_node ''A'' ''B''))"
    by (simp_all add: friendsWith_def demo_node_def GetConversation_def GetSessionState_def queryRow_def isBlocked_getBy getBy_def emptyDB_def)
  have t: "trimSpace ''x'' = ''x''" "trimSpace ''y'' = ''y''" by (simp_all add: trimSpace_def is_space_def)
  have q: "length (sx_SendKey ?sess) = AEADKeySize" "sqlUint64 (sx_SendCounter ?sess) = Inr ()" "sqlUint64 (sx_SendCounter ?sess + 1) = Inr ()"
    by (simp_all add: AEADKeySize_def sqlUint64_def)
  have g: "friendsWith (sx_ConversationID ?sess) ''B'' ?sess (cs_db (demo_node ''A'' ''B''))" using f(1) by simp
  show ?thesis
    using concurrent_sends_reuse_nonce [OF g f(2) q, of "''x''" "''y''" demo_chat_net 1 2] t
    unfolding Let_def by (simp only: sessionState.simps) blast
qed

end
