(* ===== verification/Spec2Isabelle.thy ===== *)
theory Spec2Isabelle
  imports Frames Onion Circuit_Store Pool_Maintenance Path_Selector Exit_Policy Exit_Service Raw_Tunnel Chat_Faults
begin

text \<open>
  A verification development of meshproxy, a peer-to-peer node written in Go. A node can be a
  client that proxies TCP and UDP streams over circuits, a relay or an exit of such circuits,
  and a chat peer whose messages may travel over a relay.

  \<^bold>\<open>The program and its theories.\<close> Paths are relative to \<open>src/internal\<close>.

  \<^item> The Go library as far as the program uses it: \<open>Go_Text\<close> (strings, decimal numbers, hexadecimal,
  base64), \<open>Go_Json\<close> (\<open>encoding/json\<close>), \<open>Go_Sha256\<close>, \<open>Go_Net\<close> (\<open>net.IP\<close>, CIDR blocks),
  \<open>Go_HostPort\<close>, \<open>Go_Conn\<close> (connections as a state monad over the bytes to read and a writer);
  \<open>Prelude\<close> holds machine integers, errors and bytes.
  \<^item> The circuit protocol, \<open>protocol/\<close>: messages with their JSON forms (\<open>Wire\<close>), the frame
  codec (\<open>Frames\<close>), keys, nonces and AEAD calls (\<open>Hop_Crypto\<close>) and the onion layers (\<open>Onion\<close>).
  \<^item> The client, \<open>client/\<close>: the pool that lends circuits (\<open>Pool\<close>, with its invariant in
  \<open>Pool_Invariant\<close> and the effect of maintenance in \<open>Pool_Maintenance\<close>), the choice of exits and
  paths (\<open>Exit_Selection\<close>, \<open>Path_Selector\<close>), streams (\<open>Stream_Manager\<close>), building and lending
  circuits (\<open>Circuit_Manager\<close>), the read loop, data and heartbeats (\<open>Circuit_Traffic\<close>), and the
  SOCKS5 server (\<open>Socks5\<close> for the wire format, \<open>Socks5_Server\<close>).
  \<^item> Relay and exit: \<open>Relay_Service\<close> (\<open>relay/service.go\<close> and the route dispatcher of
  \<open>app/app.go\<close>), \<open>Exit_Service\<close> and \<open>Exit_Policy\<close> (\<open>exit/\<close>).
  \<^item> The encrypted tunnel of \<open>tunnel/\<close> (\<open>Tunnel\<close>) and the raw tunnels built on it (\<open>Raw_Tunnel\<close>).
  \<^item> Discovery, \<open>discovery/\<close> (\<open>Discovery\<close>), and the in-memory stores and counters of \<open>store/\<close>
  and \<open>traffic/\<close> (\<open>Circuit_Store\<close>).
  \<^item> The chat relay: signed messages and sealed packets of \<open>chatrelay/\<close> (\<open>Chat_Relay\<close>), the table
  and the forwarders of a relay, \<open>relay/chatrelay_v1.go\<close> (\<open>Chat_Relay_Table\<close>), the tables of the
  destination (\<open>Chat_Relay_Dest\<close>) and both ends, \<open>chat/relay_v1.go\<close> (\<open>Chat_Relay_Peer\<close>).
  \<^item> Chat, \<open>chat/\<close>: the database (\<open>Chat_Store\<close>, one table per list of rows, one function per method of
  \<open>message_store.go\<close>, \<open>conversation_store.go\<close>, \<open>request_store.go\<close>, \<open>direct_store.go\<close> and the peers of
  \<open>store.go\<close>; \<open>Chat_Store_Laws\<close> for what it promises), the events for web clients (\<open>Chat_Events\<close>,
  \<open>events.go\<close>), the service with the handshake of two friends (\<open>Chat_Service\<close>, \<open>service.go\<close>), the repair
  of conversations (\<open>Chat_Repair\<close>, \<open>direct_state.go\<close>) and direct messages with outbox, acknowledgement,
  revocation and synchronisation (\<open>Chat_Direct\<close>, \<open>service.go\<close>). \<open>Chat_Gap\<close>, \<open>Chat_Sync\<close>, \<open>Chat_Friends\<close>
  and \<open>Chat_Faults\<close> hold what follows for two services that talk to each other.
  Two theories put components together. \<open>Client_Exit\<close> runs client, relay and exit against each
  other; \<open>Chat_Relay_Session\<close> does the same for the source, relay and destination of a chat
  session.

  \<^bold>\<open>How code becomes definitions.\<close> A struct is a record whose field names carry a prefix of two
  letters, a method is a function from the old state to the new one with what it returns, an
  error is the left side of a sum or a \<open>Some\<close>, and a panic is the error \<open>Panic\<close>. What a method
  does to connections and other components is a list of actions. Readings of the clock, random
  bytes, the order in which a map is ranged over, what other goroutines do between two critical
  sections and the libp2p host are arguments; the assumptions on them are named predicates
  (\<open>aead_correct\<close>, \<open>dh_agree\<close>, \<open>usable_key\<close>, \<open>signs\<close>, \<open>rangeOrder\<close> and others), each satisfied by a
  demonstration instance that the witnesses use. An operation that waits for an answer is split
  at the wait.

  Interfaces are locales, interpreted on the model: \<open>json_codec\<close> for every message, the pool and
  its factory, \<open>session_table\<close> with its extensions \<open>evicting_table\<close> and \<open>capped_table\<close>, which
  the tables of the chat relay and of its destination both instantiate, and \<open>row_table\<close> for the keyed
  tables of the chat database.

  \<^bold>\<open>Loops.\<close> Loops whose end is evident are structural recursion or have a measure. Retry loops
  carry their bound: \<open>acquireLoop\<close> makes 50 attempts, \<open>createLoop\<close>, \<open>failoverLoop\<close> and
  \<open>tunnelLoop\<close> one more than the configured retries; \<open>routeWalk\<close> takes as many steps as the route
  has hops, which is enough because every relay advances the hop index.
  \<open>enforcePerSrcCapLocked\<close> and its twin at the destination may run for ever, so they are partial
  functions with \<open>None\<close> for that; it is shown when they return and when the first does not.
  A direct message may start a synchronisation, whose answer is handled as messages again: \<open>chatSync\<close> and the
  handlers under it carry the depth they may still go to and fail when it is used up. For two friends
  who are in step depth one is enough; for a counter that never comes no depth is, which is the point of
  \<open>missing_counter_never_returns\<close>. The rounds of one synchronisation are bounded by the code itself.

  \<^bold>\<open>What is shown.\<close> Codecs: what is written is read back, truncated and oversized input is an error
  and never a panic. Onion: the wrapping loop refines the recursive onion, each hop peels one
  layer, and cells for the second hop of a two-hop path fail to open. Pool: over every
  interleaving of its operations the caps hold and every circuit is counted once. Building:
  a failed build leaves nothing behind, retries never use an excluded peer, the ends agree on
  keys. SOCKS5: every request is answered once. Exit: only targets that the policy permits are
  dialled. Tunnels: both directions arrive unchanged. Discovery: only descriptors whose
  signature verifies are stored. Chat relay: the caps of both tables, forwarding only inside a
  registered session, delivery in order and once, and a session from the first send to the
  delivery of every payload.
  Chat: the keys of every table stay unique, two friends end the handshake with the same conversation and
  matching keys, a receiver that is behind gets every text the sender still has, the hub never sends on a
  closed channel; a counter that was never sent keeps the receiver synchronising for ever.
  Where the code does not do what it means to, the theorem says what it does, and the findings of
  the manifest name the line.

  \<^bold>\<open>Not modelled.\<close> Of the chat service: group conversations, the meshchat relay server, the offline
  store of messages, the fetching of files and avatars, profiles and bindings, and how
  \<open>sendViaRelay\<close> chooses among its transports; the model is a service without a meshchat server, whose
  network is the record \<open>chat_net\<close>: what the n-th call to libp2p, a relay or the offline store answers. A SQL
  statement fails in the model only where the driver refuses an unsigned argument with its highest bit
  set; columns that older databases lack, and the contact list, are left out. The public channels
  (\<open>publicchannel/\<close>) are replicated logs of their own over SQLite and stored objects;
  the local HTTP API and the application assembly only connect the components; the libp2p host,
  the IPFS node, identity files, the self update, the offline store client and the mobile SDK
  are calls into libraries and the file system. Goroutine scheduling is modelled where a
  property depends on it, by steps or by the functions that stand for other goroutines; timers
  and socket deadlines are not. Configuration structs appear with the fields the components read.
\<close>

end
